(* ===== verification/Prelude.thy ===== *)
theory Prelude
  imports Main "HOL-Library.Word" "HOL-Library.Monad_Syntax"
begin

text \<open>
  Shared vocabulary of the development: the machine integers of the Rust sources, the two
  ways a Rust function can end besides returning (a panic and a \<open>Result\<close> error), integer
  arithmetic under both build profiles, the slice and vector operations of the standard library
  the sources call, and the generic lemmas about strictly sorted vectors that the components
  share.

  A function that may panic returns an \<open>option\<close>: \<open>None\<close> is the panic, \<open>Some\<close> the value
  the function returns. A Rust \<open>Result\<close> is a sum, \<open>Inl\<close> the error and \<open>Inr\<close> the success.
\<close>

section \<open>Types\<close>

type_synonym u8 = "8 word"
type_synonym u32 = "32 word"
type_synonym u64 = "64 word"

text \<open>A signed 32-bit value in two's complement; \<^const>\<open>sint\<close> reads it.\<close>

type_synonym i32 = "32 word"

text \<open>A raw file descriptor number.\<close>

type_synonym fd = nat

named_theorems bounds \<open>index and range facts of vectors and words\<close>
named_theorems keeps \<open>operations that keep an invariant\<close>

section \<open>Error numbers\<close>

text \<open>
  The error numbers of the Linux ABI that the sources name through the \<open>libc\<close> crate.
\<close>

definition EIO :: i32 where "EIO = 5"
definition ENOMEM :: i32 where "ENOMEM = 12"
definition EBUSY :: i32 where "EBUSY = 16"
definition ENODEV :: i32 where "ENODEV = 19"
definition EINVAL :: i32 where "EINVAL = 22"
definition ENOTTY :: i32 where "ENOTTY = 25"

lemmas errno_defs = EIO_def ENOMEM_def EBUSY_def ENODEV_def EINVAL_def ENOTTY_def

section \<open>Integer arithmetic\<close>

text \<open>
  Rust's \<open>+\<close> and \<open>-\<close> panic on overflow when the crate is built with overflow checks and
  wrap around otherwise. The argument \<open>chk\<close> says whether the checks are on, so that a theorem
  about a definition that takes it holds for both builds.
\<close>

definition add_ov :: "bool \<Rightarrow> 'a::len word \<Rightarrow> 'a word \<Rightarrow> 'a word option" where
  "add_ov chk a b = (if chk \<and> 2 ^ LENGTH('a) \<le> unat a + unat b then None else Some (a + b))"

definition sub_ov :: "bool \<Rightarrow> 'a::len word \<Rightarrow> 'a word \<Rightarrow> 'a word option" where
  "sub_ov chk a b = (if chk \<and> a < b then None else Some (a - b))"

text \<open>The method \<open>checked_add\<close>: no panic, \<open>None\<close> is its \<open>None\<close>.\<close>

definition checked_add :: "'a::len word \<Rightarrow> 'a word \<Rightarrow> 'a word option" where
  "checked_add a b = (if 2 ^ LENGTH('a) \<le> unat a + unat b then None else Some (a + b))"

text \<open>The method \<open>next_multiple_of\<close> of the unsigned integers, for a nonzero multiple.\<close>

definition next_multiple_of :: "bool \<Rightarrow> 'a::len word \<Rightarrow> 'a word \<Rightarrow> 'a word option" where
  "next_multiple_of chk a b =
     (let r = a mod b in if r = 0 then Some a else add_ov chk a (b - r))"

lemma add_ov_no_overflow:
  fixes a b :: "'a::len word"
  assumes "unat a + unat b < 2 ^ LENGTH('a)"
  shows "add_ov chk a b = Some (a + b)"
  using assms by (simp add: add_ov_def)

lemma add_ov_unchecked [simp]: "add_ov False a b = Some (a + b)"
  by (simp add: add_ov_def)

lemma sub_ov_no_underflow: "b \<le> a \<Longrightarrow> sub_ov chk a b = Some (a - b)"
  by (auto simp: sub_ov_def)

lemma sub_ov_unchecked [simp]: "sub_ov False a b = Some (a - b)"
  by (simp add: sub_ov_def)

lemma checked_add_Some:
  "checked_add a b = Some c \<longleftrightarrow> c = a + b \<and> unat a + unat b < 2 ^ LENGTH('a)"
  for a b c :: "'a::len word"
  by (auto simp: checked_add_def)

lemma checked_add_None:
  "checked_add a b = None \<longleftrightarrow> 2 ^ LENGTH('a) \<le> unat a + unat b"
  for a b :: "'a::len word"
  by (auto simp: checked_add_def)

lemma word_pos_pred: "(x::'a::len word) \<noteq> 0 \<Longrightarrow> 1 \<le> x"
  by (metis word_le_sub1 word_n1_ge word_not_simps(1) linorder_not_less word_less_1)

section \<open>Results\<close>

lemma bind_SomeE:
  assumes "Option.bind m f = Some y"
  obtains x where "m = Some x" and "f x = Some y"
  using assms by (cases m) auto

text \<open>\<open>assert!\<close> and \<open>Result::unwrap\<close>: a panic is \<open>None\<close>.\<close>

definition assert :: "bool \<Rightarrow> unit option" where
  "assert b = (if b then Some () else None)"

definition result_unwrap :: "'e + 'a \<Rightarrow> 'a option" where
  "result_unwrap r = (case r of Inl _ \<Rightarrow> None | Inr x \<Rightarrow> Some x)"

lemma assert_eq [simp]: "assert True = Some ()" "assert False = None"
  by (simp_all add: assert_def)

lemma result_unwrap_eq [simp]: "result_unwrap (Inl e) = None" "result_unwrap (Inr x) = Some x"
  by (simp_all add: result_unwrap_def)

lemma map_sum_eq_Inr: "map_sum f g y = Inr z \<longleftrightarrow> (\<exists>v. y = Inr v \<and> z = g v)"
  by (cases y) auto

lemmas result_splits = option.split_asm sum.split_asm prod.split_asm if_split_asm

lemma those_map_Some:
  "those (map f xs) = Some ys \<Longrightarrow> length ys = length xs \<and> (\<forall>i < length xs. f (xs ! i) = Some (ys ! i))"
proof (induction xs arbitrary: ys)
  case (Cons x xs)
  from Cons.prems obtain y zs where "f x = Some y" "those (map f xs) = Some zs" "ys = y # zs"
    by (auto split: option.splits)
  with Cons.IH [of zs] show ?case by (auto simp: nth_Cons split: nat.splits)
qed simp

section \<open>Vectors and slices\<close>

text \<open>
  \<open>Vec::insert\<close> and \<open>Vec::remove\<close> at an index inside the vector; the sources only call
  them at an index that a search has just returned.
\<close>

definition vec_insert :: "nat \<Rightarrow> 'a \<Rightarrow> 'a list \<Rightarrow> 'a list" where
  "vec_insert i x xs = take i xs @ x # drop i xs"

definition vec_remove :: "nat \<Rightarrow> 'a list \<Rightarrow> 'a list" where
  "vec_remove i xs = take i xs @ drop (Suc i) xs"

text \<open>\<open>slice::get\<close> with an index that may be out of range.\<close>

definition vec_get :: "'a list \<Rightarrow> nat \<Rightarrow> 'a option" where
  "vec_get xs i = (if i < length xs then Some (xs ! i) else None)"

text \<open>
  \<open>slice::binary_search_by_key\<close>: \<open>Ok\<close> of the index of an element with the key, or
  \<open>Err\<close> of the index where such an element can be inserted with the slice still sorted.
\<close>

function bsearch :: "'k::linorder \<Rightarrow> 'k list \<Rightarrow> nat \<Rightarrow> nat \<Rightarrow> nat + nat" where
  "bsearch k ks lo hi =
     (if lo < hi then
        (let mid = lo + (hi - lo) div 2 in
         if ks ! mid = k then Inr mid
         else if ks ! mid < k then bsearch k ks (Suc mid) hi
         else bsearch k ks lo mid)
      else Inl lo)"
  by pat_completeness auto
termination
  by (relation "measure (\<lambda>(k, ks, lo, hi). hi - lo)") auto

declare bsearch.simps [simp del]

definition binary_search_by_key :: "'k::linorder \<Rightarrow> ('a \<Rightarrow> 'k) \<Rightarrow> 'a list \<Rightarrow> nat + nat" where
  "binary_search_by_key k f xs = bsearch k (map f xs) 0 (length xs)"

lemma bsearch_step:
  assumes "lo < hi" and "mid = lo + (hi - lo) div 2"
  shows "bsearch k ks lo hi =
    (if ks ! mid = k then Inr mid
     else if ks ! mid < k then bsearch k ks (Suc mid) hi
     else bsearch k ks lo mid)"
  by (subst bsearch.simps) (simp only: assms Let_def if_True)

lemma bsearch_Inr: "bsearch k ks lo hi = Inr i \<Longrightarrow> lo \<le> i \<and> i < hi \<and> ks ! i = k"
proof (induction k ks lo hi rule: bsearch.induct)
  case (1 k ks lo hi)
  define mid where "mid = lo + (hi - lo) div 2"
  show ?case
  proof (cases "lo < hi")
    case False
    with "1.prems" show ?thesis by (simp add: bsearch.simps [of k ks lo hi])
  next
    case True
    then have mid: "lo \<le> mid" "mid < hi" by (auto simp: mid_def)
    from "1.prems" have eq:
      "(if ks ! mid = k then Inr mid
        else if ks ! mid < k then bsearch k ks (Suc mid) hi
        else bsearch k ks lo mid) = Inr i"
      by (simp only: bsearch_step [OF True mid_def])
    from "1.IH" [OF True mid_def] eq mid show ?thesis
      by (fastforce split: if_splits)
  qed
qed

lemma bsearch_Inl:
  assumes "sorted_wrt (<) ks"
  shows "bsearch k ks lo hi = Inl i \<Longrightarrow> lo \<le> hi \<Longrightarrow> hi \<le> length ks \<Longrightarrow>
    \<forall>j < lo. ks ! j < k \<Longrightarrow> \<forall>j. hi \<le> j \<and> j < length ks \<longrightarrow> k < ks ! j \<Longrightarrow>
    i \<le> length ks \<and> (\<forall>j < i. ks ! j < k) \<and> (\<forall>j. i \<le> j \<and> j < length ks \<longrightarrow> k < ks ! j)"
  using assms
proof (induction k ks lo hi rule: bsearch.induct)
  case (1 k ks lo hi)
  define mid where "mid = lo + (hi - lo) div 2"
  show ?case
  proof (cases "lo < hi")
    case False
    with "1.prems" have "lo = hi" "i = lo" by (simp_all add: bsearch.simps [of k ks lo hi])
    with "1.prems" show ?thesis by auto
  next
    case True
    then have mid: "lo \<le> mid" "mid < hi" by (auto simp: mid_def)
    from mid "1.prems" have mlen: "mid < length ks" by simp
    from "1.prems"(1) have eq:
      "(if ks ! mid = k then Inr mid
        else if ks ! mid < k then bsearch k ks (Suc mid) hi
        else bsearch k ks lo mid) = Inl i"
      by (simp only: bsearch_step [OF True mid_def])
    then have ne: "ks ! mid \<noteq> k" by auto
    have below: "ks ! j \<le> ks ! mid" if "j \<le> mid" for j
      using that mlen "1.prems"(6)
      by (cases "j = mid") (auto simp: sorted_wrt_iff_nth_less order_less_imp_le)
    have above: "ks ! mid \<le> ks ! j" if "mid \<le> j" "j < length ks" for j
      using that "1.prems"(6)
      by (cases "j = mid") (auto simp: sorted_wrt_iff_nth_less order_less_imp_le)
    show ?thesis
    proof (cases "ks ! mid < k")
      case True
      have lt: "\<forall>j < Suc mid. ks ! j < k"
        using below True by (auto simp: less_Suc_eq_le intro: le_less_trans)
      have rest: "bsearch k ks (Suc mid) hi = Inl i" using eq True ne by simp
      show ?thesis
        by (rule "1.IH"(1) [OF \<open>lo < hi\<close> mid_def ne True rest])
          (use mid lt "1.prems" in auto)
    next
      case False
      with ne have "k < ks ! mid" by simp
      then have gt: "\<forall>j. mid \<le> j \<and> j < length ks \<longrightarrow> k < ks ! j"
        using above by (auto intro: less_le_trans)
      have rest: "bsearch k ks lo mid = Inl i" using eq False ne by simp
      show ?thesis
        by (rule "1.IH"(2) [OF \<open>lo < hi\<close> mid_def ne False rest])
          (use mid gt mlen "1.prems" in auto)
    qed
  qed
qed

lemma binary_search_Inr [bounds]:
  "binary_search_by_key k f xs = Inr i \<Longrightarrow> i < length xs \<and> f (xs ! i) = k"
  unfolding binary_search_by_key_def by (drule bsearch_Inr) auto

lemma binary_search_Inl [bounds]:
  assumes "sorted_wrt (<) (map f xs)" and "binary_search_by_key k f xs = Inl i"
  shows "i \<le> length xs \<and> (\<forall>x \<in> set (take i xs). f x < k) \<and> (\<forall>x \<in> set (drop i xs). k < f x)"
proof -
  have *: "i \<le> length (map f xs) \<and> (\<forall>j < i. map f xs ! j < k) \<and>
      (\<forall>j. i \<le> j \<and> j < length (map f xs) \<longrightarrow> k < map f xs ! j)"
    by (rule bsearch_Inl [OF assms(1)]) (use assms(2) in \<open>auto simp: binary_search_by_key_def\<close>)
  then have "i \<le> length xs" by simp
  moreover from * have "\<forall>x \<in> set (take i xs). f x < k"
    by (auto simp: in_set_conv_nth)
  moreover from * have "\<forall>x \<in> set (drop i xs). k < f x"
    by (auto simp: in_set_conv_nth)
  ultimately show ?thesis by simp
qed

lemma binary_search_Inl_notin:
  assumes "sorted_wrt (<) (map f xs)" and "binary_search_by_key k f xs = Inl i"
  shows "k \<notin> f ` set xs"
proof -
  have "set xs = set (take i xs) \<union> set (drop i xs)"
    by (metis append_take_drop_id set_append)
  with binary_search_Inl [OF assms] show ?thesis by fastforce
qed

lemma binary_search_found:
  assumes "sorted_wrt (<) (map f xs)" and "i < length xs"
  shows "binary_search_by_key (f (xs ! i)) f xs = Inr i"
proof (cases "binary_search_by_key (f (xs ! i)) f xs")
  case (Inl j)
  from binary_search_Inl_notin [OF assms(1) Inl] assms(2) show ?thesis by simp
next
  case (Inr j)
  from binary_search_Inr [OF Inr] have j: "j < length xs" "f (xs ! j) = f (xs ! i)" by auto
  from assms(1) have "distinct (map f xs)" by (simp add: strict_sorted_iff)
  with j assms(2) have "j = i" by (metis length_map nth_eq_iff_index_eq nth_map)
  with Inr show ?thesis by simp
qed

subsection \<open>Strictly sorted vectors under insertion and removal\<close>

lemma set_vec_insert [simp]: "set (vec_insert i x xs) = insert x (set xs)"
proof -
  have "set xs = set (take i xs) \<union> set (drop i xs)"
    by (metis append_take_drop_id set_append)
  then show ?thesis by (auto simp: vec_insert_def)
qed

lemma length_vec_insert [simp]: "length (vec_insert i x xs) = Suc (length xs)"
  by (simp add: vec_insert_def)

lemma length_vec_remove [simp]: "i < length xs \<Longrightarrow> length (vec_remove i xs) = length xs - 1"
  by (simp add: vec_remove_def)

lemma map_vec_remove: "map f (vec_remove i xs) = vec_remove i (map f xs)"
  by (simp add: vec_remove_def take_map drop_map)

lemma map_vec_insert: "map f (vec_insert i x xs) = vec_insert i (f x) (map f xs)"
  by (simp add: vec_insert_def take_map drop_map)

lemma set_vec_remove_subset: "set (vec_remove i xs) \<subseteq> set xs"
  unfolding vec_remove_def using set_take_subset set_drop_subset by fastforce

lemma set_vec_remove:
  assumes "distinct xs" and "i < length xs"
  shows "set (vec_remove i xs) = set xs - {xs ! i}"
proof -
  have eq: "xs = take i xs @ xs ! i # drop (Suc i) xs"
    using assms(2) by (rule id_take_nth_drop)
  with assms(1) have "distinct (take i xs @ xs ! i # drop (Suc i) xs)" by metis
  then have "xs ! i \<notin> set (take i xs) \<union> set (drop (Suc i) xs)" by auto
  moreover from eq have "set xs = insert (xs ! i) (set (take i xs) \<union> set (drop (Suc i) xs))"
    by (metis Un_insert_right list.simps(15) set_append)
  ultimately show ?thesis by (auto simp: vec_remove_def)
qed

lemma sorted_vec_remove:
  assumes "sorted_wrt R xs"
  shows "sorted_wrt R (vec_remove i xs)"
proof -
  from assms have "sorted_wrt R (take i xs @ drop i xs)" by simp
  then show ?thesis
    unfolding vec_remove_def sorted_wrt_append
    by (metis drop_Suc drop_tl in_set_dropD assms sorted_wrt_drop drop_drop set_drop_subset_set_drop
        le_SucI order_refl subsetD)
qed

lemma sorted_vec_insert:
  assumes "sorted_wrt (<) xs" and "\<forall>y \<in> set (take i xs). y < x" and "\<forall>y \<in> set (drop i xs). x < y"
  shows "sorted_wrt (<) (vec_insert i x (xs :: 'k::linorder list))"
proof -
  have "sorted_wrt (<) (take i xs @ drop i xs)" using assms(1) by simp
  with assms(2,3) show ?thesis
    unfolding vec_insert_def sorted_wrt_append by (auto simp: sorted_wrt_append)
qed

lemma keyed_None: "map_of (map (\<lambda>b. (f b, b)) xs) k = None \<longleftrightarrow> k \<notin> f ` set xs"
  by (induction xs) auto

lemma map_of_unique_key:
  assumes "distinct (map f xs)" and "x \<in> set xs"
  shows "map_of (map (\<lambda>y. (f y, y)) xs) (f x) = Some x"
  using assms by (induction xs) (auto simp: image_iff)

lemma sorted_keys_distinct: "sorted_wrt (<) (map f xs) \<Longrightarrow> distinct (map f xs)"
  for f :: "'a \<Rightarrow> 'k::linorder"
  by (simp add: strict_sorted_iff)

end
