(* ===== verification/Wire.thy ===== *)
theory Wire
  imports Prelude
begin

unbundle bit_operations_syntax

text \<open>
  Reading objects from and writing objects to the two halves of a virtio descriptor chain, from
  \<open>device/src/io.rs\<close> and \<open>device/src/io/le.rs\<close>.

  The device-readable half is the sequence of bytes not read yet. The device-writable half is a
  buffer of fixed size: the bytes written so far and the room that is left. A type that can cross
  the queue is described by its size and by the conversions between its values and their
  little-endian bytes. The conversions of the types this crate declares are built here and in
  theory \<open>Protocol\<close> from the layout of the structure; those of the kernel structures that the
  \<open>v4l2r\<close> crate generates are parameters.
\<close>

section \<open>Descriptor chains\<close>

type_synonym Reader = "u8 list"

record Writer =
  written :: "u8 list"
  room :: nat

text \<open>The kinds of \<open>std::io::Error\<close> that the sources and the standard library produce here.\<close>

datatype io_error = UnexpectedEof | WriteZero | InvalidData

text \<open>
  \<open>Read::read_exact\<close> on a chain that has too few bytes left consumes them and fails, as the
  implementation for byte slices does. \<open>Write::write_all\<close> fills the room that is left and then
  fails.
\<close>

definition read_exact :: "nat \<Rightarrow> Reader \<Rightarrow> Reader \<times> (io_error + u8 list)" where
  "read_exact n r = (if n \<le> length r then (drop n r, Inr (take n r)) else ([], Inl UnexpectedEof))"

definition write_all :: "u8 list \<Rightarrow> Writer \<Rightarrow> Writer \<times> (io_error + unit)" where
  "write_all bs w =
     (if length bs \<le> room w
      then (w\<lparr>written := written w @ bs, room := room w - length bs\<rparr>, Inr ())
      else (w\<lparr>written := written w @ take (room w) bs, room := 0\<rparr>, Inl WriteZero))"

section \<open>Types that cross the queue\<close>

text \<open>
  The trait \<open>VmediaType\<close> with the memory layout of the implementing type: its size and the two
  views \<open>as_bytes\<close> and \<open>FromBytes\<close> of the \<open>zerocopy\<close> crate. On a little-endian host
  \<open>to_le\<close> and \<open>from_le\<close> only wrap and unwrap.
\<close>

record 'a VmediaType =
  size_of :: nat
  as_bytes :: "'a \<Rightarrow> u8 list"
  from_bytes :: "u8 list \<Rightarrow> 'a"

datatype 'a LeWrapper = LeWrapper 'a

definition to_le :: "'a \<Rightarrow> 'a LeWrapper" where "to_le x = LeWrapper x"
primrec from_le :: "'a LeWrapper \<Rightarrow> 'a" where "from_le (LeWrapper x) = x"

definition into_native :: "'a LeWrapper \<Rightarrow> 'a" where "into_native le = from_le le"

text \<open>The bytes of a wrapped value are those of the value: the wrapper is \<open>repr(transparent)\<close>.\<close>

primrec le_as_bytes :: "'a VmediaType \<Rightarrow> 'a LeWrapper \<Rightarrow> u8 list" where
  "le_as_bytes t (LeWrapper x) = as_bytes t x"

definition read_obj :: "'a VmediaType \<Rightarrow> Reader \<Rightarrow> Reader \<times> (io_error + 'a)" where
  "read_obj t r =
     (case read_exact (size_of t) r of
        (r', Inl e) \<Rightarrow> (r', Inl e)
      | (r', Inr bs) \<Rightarrow> (r', Inr (into_native (LeWrapper (from_bytes t bs)))))"

definition write_obj :: "'a VmediaType \<Rightarrow> 'a \<Rightarrow> Writer \<Rightarrow> Writer \<times> (io_error + unit)" where
  "write_obj t x w = write_all (le_as_bytes t (to_le x)) w"

definition write_response :: "'a VmediaType \<Rightarrow> 'a \<Rightarrow> Writer \<Rightarrow> Writer \<times> (io_error + unit)" where
  "write_response t x w = write_obj t x w"

lemma read_obj_enough:
  "size_of t \<le> length r \<Longrightarrow>
   read_obj t r = (drop (size_of t) r, Inr (from_bytes t (take (size_of t) r)))"
  by (simp add: read_obj_def read_exact_def into_native_def)

lemma read_obj_short: "length r < size_of t \<Longrightarrow> read_obj t r = ([], Inl UnexpectedEof)"
  by (simp add: read_obj_def read_exact_def)

lemma read_obj_cases:
  obtains "size_of t \<le> length r" and
    "read_obj t r = (drop (size_of t) r, Inr (from_bytes t (take (size_of t) r)))"
  | "length r < size_of t" and "read_obj t r = ([], Inl UnexpectedEof)"
  using read_obj_enough read_obj_short by (metis linorder_not_less)

lemma write_obj_eq: "write_obj t x w = write_all (as_bytes t x) w"
  by (simp add: write_obj_def to_le_def)

lemma write_all_append [simp]:
  "length bs \<le> room w \<Longrightarrow>
   write_all bs w = (w\<lparr>written := written w @ bs, room := room w - length bs\<rparr>, Inr ())"
  by (simp add: write_all_def)

text \<open>
  Writing only ever appends, never beyond the room there is, and uses it up exactly as far as it
  writes.
\<close>

definition extends :: "Writer \<Rightarrow> Writer \<Rightarrow> bool" where
  "extends w w' \<longleftrightarrow>
     (\<exists>bs. written w' = written w @ bs \<and> length bs \<le> room w \<and> room w' = room w - length bs)"

lemma extends_refl [simp]: "extends w w"
  by (simp add: extends_def)

lemma extends_trans [trans]: "extends w w' \<Longrightarrow> extends w' w'' \<Longrightarrow> extends w w''"
  unfolding extends_def by fastforce

lemma write_all_extends: "write_all bs w = (w', r) \<Longrightarrow> extends w w'"
  by (auto simp: write_all_def extends_def split: if_splits)

lemma write_obj_extends: "write_obj t x w = (w', r) \<Longrightarrow> extends w w'"
  by (simp add: write_obj_eq write_all_extends)

section \<open>The interface of a wire type\<close>

text \<open>
  What both ends of the queue rely on: every value takes exactly the size of the type, reading
  the bytes of a value gives the value back, and every byte sequence of that size is the
  representation of the value read from it.
\<close>

locale wire_type =
  fixes t :: "'a VmediaType"
  assumes as_bytes_length: "length (as_bytes t x) = size_of t"
    and from_as_bytes: "from_bytes t (as_bytes t x) = x"
    and as_from_bytes: "length bs = size_of t \<Longrightarrow> as_bytes t (from_bytes t bs) = bs"
begin

lemma read_encoded: "read_obj t (as_bytes t x @ rest) = (rest, Inr x)"
  by (simp add: read_obj_enough as_bytes_length from_as_bytes)

lemma write_fits:
  "size_of t \<le> room w \<Longrightarrow>
   write_obj t x w = (w\<lparr>written := written w @ as_bytes t x, room := room w - size_of t\<rparr>, Inr ())"
  by (simp add: write_obj_eq as_bytes_length)

lemma write_no_room: "room w < size_of t \<Longrightarrow> snd (write_obj t x w) = Inl WriteZero"
  by (simp add: write_obj_eq write_all_def as_bytes_length)

lemma write_then_read:
  assumes "size_of t \<le> room w"
  shows "read_obj t (drop (length (written w)) (written (fst (write_obj t x w))) @ rest) = (rest, Inr x)"
  using assms by (simp add: write_fits read_encoded)

lemma as_bytes_inj: "as_bytes t x = as_bytes t y \<longleftrightarrow> x = y"
  using from_as_bytes by metis

end

section \<open>Building conversions\<close>

subsection \<open>Little-endian integers\<close>

definition le_bytes :: "nat \<Rightarrow> 'a::len word \<Rightarrow> u8 list" where
  "le_bytes n x = map (\<lambda>i. ucast (drop_bit (8 * i) x)) [0..<n]"

primrec le_word :: "u8 list \<Rightarrow> 'a::len word" where
  "le_word [] = 0"
| "le_word (b # bs) = ucast b OR push_bit 8 (le_word bs)"

definition wire_int :: "nat \<Rightarrow> 'a::len word VmediaType" where
  "wire_int n = \<lparr>size_of = n, as_bytes = le_bytes n, from_bytes = le_word\<rparr>"

lemma length_le_bytes [simp]: "length (le_bytes n x) = n"
  by (simp add: le_bytes_def)

lemma bit_le_word:
  "bit (le_word bs :: 'a::len word) i \<longleftrightarrow>
   i < LENGTH('a) \<and> i div 8 < length bs \<and> bit (bs ! (i div 8)) (i mod 8)"
proof (induction bs arbitrary: i)
  case Nil
  then show ?case by simp
next
  case (Cons b bs)
  show ?case
  proof (cases "i < 8")
    case True
    then show ?thesis by (auto simp: bit_simps)
  next
    case False
    then have "i div 8 = Suc ((i - 8) div 8)" "(i - 8) mod 8 = i mod 8"
      by (auto simp: le_div_geq le_mod_geq)
    with False Cons.IH [of "i - 8"] show ?thesis
      by (auto simp: bit_simps dest: bit_imp_le_length)
  qed
qed

lemma le_word_bytes:
  assumes "LENGTH('a) \<le> 8 * n"
  shows "le_word (le_bytes n x) = (x :: 'a::len word)"
proof (rule bit_word_eqI)
  fix i assume i: "i < LENGTH('a)"
  with assms have "i div 8 < n" by linarith
  with i show "bit (le_word (le_bytes n x) :: 'a word) i \<longleftrightarrow> bit x i"
    by (simp add: bit_le_word le_bytes_def bit_simps)
qed

lemma le_bytes_word:
  assumes "8 * length bs = LENGTH('a)"
  shows "le_bytes (length bs) (le_word bs :: 'a::len word) = bs"
proof (rule nth_equalityI)
  fix j assume "j < length (le_bytes (length bs) (le_word bs :: 'a word))"
  then have j: "j < length bs" by simp
  show "le_bytes (length bs) (le_word bs :: 'a word) ! j = bs ! j"
  proof (rule bit_word_eqI)
    fix k assume "k < LENGTH(8)"
    then have "(8 * j + k) div 8 = j" "(8 * j + k) mod 8 = k" "8 * j + k < LENGTH('a)" "k < 8"
      using j assms by auto
    with j show "bit (le_bytes (length bs) (le_word bs :: 'a word) ! j) k \<longleftrightarrow> bit (bs ! j) k"
      by (simp add: le_bytes_def bit_simps bit_le_word)
  qed
qed simp

text \<open>
  The little-endian number that \<open>n\<close> consecutive bytes represent, as a sum of digits in base 256.
\<close>

definition le_at :: "nat \<Rightarrow> nat \<Rightarrow> u8 list \<Rightarrow> nat" where
  "le_at n off r = (\<Sum>i = 0..<n. unat (r ! (off + i)) * 256 ^ i)"

lemma le_at_slice: "off + n \<le> length r \<Longrightarrow> le_at n off r = horner_sum unat 256 (take n (drop off r))"
  by (simp add: le_at_def horner_sum_eq_sum)

lemma horner_bytes_bound: "horner_sum unat 256 (bs :: u8 list) < 256 ^ length bs"
proof (induction bs)
  case (Cons b bs)
  have "unat b < 256" using unsigned_less [of b, where ?'a = nat] by simp
  with Cons show ?case by simp
qed simp

lemma unat_le_word:
  "8 * length bs \<le> LENGTH('a) \<Longrightarrow> unat (le_word bs :: 'a::len word) = horner_sum unat 256 bs"
proof (induction bs)
  case (Cons b bs)
  let ?h = "horner_sum unat 256 bs"
  have b: "unat b < 2 ^ 8" using unsigned_less [of b, where ?'a = nat] by simp
  have "2 ^ (8 + 8 * length bs) \<le> (2 :: nat) ^ LENGTH('a)" using Cons.prems by (intro power_increasing) simp_all
  moreover have "push_bit 8 ?h < 2 ^ (8 + 8 * length bs)"
    using horner_bytes_bound [of bs] by (simp add: power_add power_mult push_bit_eq_mult)
  ultimately have h: "take_bit LENGTH('a) (push_bit 8 ?h) = push_bit 8 ?h"
    by (intro take_bit_nat_eq_self) (rule less_le_trans)
  have "(2 :: nat) ^ 8 \<le> 2 ^ LENGTH('a)" using Cons.prems by (intro power_increasing) simp_all
  with b have "unat b < 2 ^ LENGTH('a)" by (rule less_le_trans)
  then have b': "take_bit LENGTH('a) (unat b) = unat b" by (simp add: take_bit_nat_eq_self)
  have "unat b AND push_bit 8 ?h = 0"
    using b by (auto simp: bit_eq_iff bit_simps dest: bit_imp_le_length)
  then have "unat b OR push_bit 8 ?h = unat b + push_bit 8 ?h" by (simp add: disjunctive_add_eq_or)
  with Cons h b' show ?case
    by (simp add: unsigned_or_eq unsigned_push_bit_eq unsigned_ucast_eq) (simp add: push_bit_eq_mult)
qed simp

lemma unat_from_slice:
  assumes "off + n \<le> length r" and "8 * n \<le> LENGTH('a)"
  shows "unat (le_word (take n (drop off r)) :: 'a::len word) = le_at n off r"
  using assms by (simp add: le_at_slice unat_le_word)

lemma le_at_bytes:
  assumes "LENGTH('a) = 8 * n" and "length pre = off"
  shows "le_at n off (pre @ le_bytes n (x :: 'a::len word) @ rest) = unat x"
proof -
  have "le_at n off (pre @ le_bytes n x @ rest) = horner_sum unat 256 (le_bytes n x)"
    using assms(2) by (simp add: le_at_slice)
  also have "\<dots> = unat (le_word (le_bytes n x) :: 'a word)" using assms(1) by (simp add: unat_le_word)
  finally show ?thesis using assms(1) by (simp add: le_word_bytes)
qed

lemma wire_int_type:
  assumes "8 * n = LENGTH('a)"
  shows "wire_type (wire_int n :: 'a::len word VmediaType)"
  by unfold_locales (use assms in \<open>auto simp: wire_int_def le_word_bytes le_bytes_word\<close>)

subsection \<open>Structures\<close>

text \<open>
  A \<open>repr(C)\<close> structure without implicit padding: its fields one after the other. The records
  of the protocol are isomorphic to nested pairs.
\<close>

definition wire_pair :: "'a VmediaType \<Rightarrow> 'b VmediaType \<Rightarrow> ('a \<times> 'b) VmediaType" where
  "wire_pair t u =
     \<lparr>size_of = size_of t + size_of u,
      as_bytes = (\<lambda>(x, y). as_bytes t x @ as_bytes u y),
      from_bytes = (\<lambda>bs. (from_bytes t (take (size_of t) bs), from_bytes u (drop (size_of t) bs)))\<rparr>"

definition wire_iso :: "('a \<Rightarrow> 'b) \<Rightarrow> ('b \<Rightarrow> 'a) \<Rightarrow> 'b VmediaType \<Rightarrow> 'a VmediaType" where
  "wire_iso f g t =
     \<lparr>size_of = size_of t, as_bytes = (\<lambda>x. as_bytes t (f x)), from_bytes = (\<lambda>bs. g (from_bytes t bs))\<rparr>"

definition wire_unit :: "unit VmediaType" where
  "wire_unit = \<lparr>size_of = 0, as_bytes = (\<lambda>_. []), from_bytes = (\<lambda>_. ())\<rparr>"

definition wire_u32 :: "u32 VmediaType" where "wire_u32 = wire_int 4"
definition wire_u64 :: "u64 VmediaType" where "wire_u64 = wire_int 8"
definition wire_i32 :: "i32 VmediaType" where "wire_i32 = wire_int 4"

lemmas wire_ints = wire_u32_def wire_u64_def wire_i32_def wire_int_def

lemma wire_pair_type:
  assumes "wire_type t" and "wire_type u"
  shows "wire_type (wire_pair t u)"
proof -
  note t = wire_type.as_bytes_length [OF assms(1)] wire_type.from_as_bytes [OF assms(1)]
    wire_type.as_from_bytes [OF assms(1)]
  note u = wire_type.as_bytes_length [OF assms(2)] wire_type.from_as_bytes [OF assms(2)]
    wire_type.as_from_bytes [OF assms(2)]
  show ?thesis by unfold_locales (auto simp: wire_pair_def t u)
qed

lemma wire_iso_type:
  assumes "wire_type t" and "\<And>x. g (f x) = x" and "\<And>y. f (g y) = y"
  shows "wire_type (wire_iso f g t)"
  by unfold_locales
    (auto simp: wire_iso_def assms(2,3) wire_type.as_bytes_length [OF assms(1)]
      wire_type.from_as_bytes [OF assms(1)] wire_type.as_from_bytes [OF assms(1)])

interpretation unit: wire_type wire_unit
  by unfold_locales (simp_all add: wire_unit_def)

interpretation u32: wire_type wire_u32
  unfolding wire_u32_def by (rule wire_int_type) simp

interpretation u64: wire_type wire_u64
  unfolding wire_u64_def by (rule wire_int_type) simp

interpretation i32: wire_type wire_i32
  unfolding wire_i32_def by (rule wire_int_type) simp

lemmas wire_types = unit.wire_type_axioms u32.wire_type_axioms u64.wire_type_axioms
  i32.wire_type_axioms wire_pair_type

lemma wire_sizes [simp]:
  "size_of wire_unit = 0" "size_of wire_u32 = 4" "size_of wire_u64 = 8" "size_of wire_i32 = 4"
  "size_of (wire_pair t u) = size_of t + size_of u" "size_of (wire_iso f g v) = size_of v"
  by (simp_all add: wire_unit_def wire_u32_def wire_u64_def wire_i32_def wire_int_def wire_pair_def
      wire_iso_def)

end
