(* ===== verification/Protocol.thy ===== *)
theory Protocol
  imports Wire
begin

unbundle bit_operations_syntax

text \<open>
  The virtio-media protocol of \<open>device/src/protocol.rs\<close>: command codes, the ioctl codes, and
  the structures that commands, responses and events are made of, each with its byte layout.
  Every structure is an instance of the interface of theory \<open>Wire\<close>.
\<close>

section \<open>Constants\<close>

definition VIRTIO_ID_MEDIA :: u32 where "VIRTIO_ID_MEDIA = 48"
definition VIRTIO_MEDIA_CARD_NAME_LEN :: nat where "VIRTIO_MEDIA_CARD_NAME_LEN = 32"

definition VIRTIO_MEDIA_CMD_OPEN :: u32 where "VIRTIO_MEDIA_CMD_OPEN = 1"
definition VIRTIO_MEDIA_CMD_CLOSE :: u32 where "VIRTIO_MEDIA_CMD_CLOSE = 2"
definition VIRTIO_MEDIA_CMD_IOCTL :: u32 where "VIRTIO_MEDIA_CMD_IOCTL = 3"
definition VIRTIO_MEDIA_CMD_MMAP :: u32 where "VIRTIO_MEDIA_CMD_MMAP = 4"
definition VIRTIO_MEDIA_CMD_MUNMAP :: u32 where "VIRTIO_MEDIA_CMD_MUNMAP = 5"

lemmas command_codes = VIRTIO_MEDIA_CMD_OPEN_def VIRTIO_MEDIA_CMD_CLOSE_def VIRTIO_MEDIA_CMD_IOCTL_def
  VIRTIO_MEDIA_CMD_MMAP_def VIRTIO_MEDIA_CMD_MUNMAP_def

definition VIRTIO_MEDIA_MMAP_FLAG_RW :: u32 where "VIRTIO_MEDIA_MMAP_FLAG_RW = push_bit 0 1"

text \<open>The configuration space of the device.\<close>

record VirtioMediaDeviceConfig =
  cfg_device_caps :: u32
  cfg_device_type :: u32
  cfg_card :: "u8 list"

text \<open>
  The \<open>card\<close> field is an array of 32 bytes in the source; the bytes of the configuration are
  those of a value whose \<open>card\<close> has that length.
\<close>

definition config_as_ref :: "VirtioMediaDeviceConfig \<Rightarrow> u8 list" where
  "config_as_ref c = as_bytes wire_u32 (cfg_device_caps c) @ as_bytes wire_u32 (cfg_device_type c) @ cfg_card c"

section \<open>Ioctl codes\<close>

datatype (plugins only: size) V4l2Ioctl =
    VIDIOC_QUERYCAP
  | VIDIOC_ENUM_FMT
  | VIDIOC_G_FMT
  | VIDIOC_S_FMT
  | VIDIOC_REQBUFS
  | VIDIOC_QUERYBUF
  | VIDIOC_G_FBUF
  | VIDIOC_S_FBUF
  | VIDIOC_OVERLAY
  | VIDIOC_QBUF
  | VIDIOC_EXPBUF
  | VIDIOC_DQBUF
  | VIDIOC_STREAMON
  | VIDIOC_STREAMOFF
  | VIDIOC_G_PARM
  | VIDIOC_S_PARM
  | VIDIOC_G_STD
  | VIDIOC_S_STD
  | VIDIOC_ENUMSTD
  | VIDIOC_ENUMINPUT
  | VIDIOC_G_CTRL
  | VIDIOC_S_CTRL
  | VIDIOC_G_TUNER
  | VIDIOC_S_TUNER
  | VIDIOC_G_AUDIO
  | VIDIOC_S_AUDIO
  | VIDIOC_QUERYCTRL
  | VIDIOC_QUERYMENU
  | VIDIOC_G_INPUT
  | VIDIOC_S_INPUT
  | VIDIOC_G_EDID
  | VIDIOC_S_EDID
  | VIDIOC_G_OUTPUT
  | VIDIOC_S_OUTPUT
  | VIDIOC_ENUMOUTPUT
  | VIDIOC_G_AUDOUT
  | VIDIOC_S_AUDOUT
  | VIDIOC_G_MODULATOR
  | VIDIOC_S_MODULATOR
  | VIDIOC_G_FREQUENCY
  | VIDIOC_S_FREQUENCY
  | VIDIOC_CROPCAP
  | VIDIOC_G_CROP
  | VIDIOC_S_CROP
  | VIDIOC_G_JPEGCOMP
  | VIDIOC_S_JPEGCOMP
  | VIDIOC_QUERYSTD
  | VIDIOC_TRY_FMT
  | VIDIOC_ENUMAUDIO
  | VIDIOC_ENUMAUDOUT
  | VIDIOC_G_PRIORITY
  | VIDIOC_S_PRIORITY
  | VIDIOC_G_SLICED_VBI_CAP
  | VIDIOC_LOG_STATUS
  | VIDIOC_G_EXT_CTRLS
  | VIDIOC_S_EXT_CTRLS
  | VIDIOC_TRY_EXT_CTRLS
  | VIDIOC_ENUM_FRAMESIZES
  | VIDIOC_ENUM_FRAMEINTERVALS
  | VIDIOC_G_ENC_INDEX
  | VIDIOC_ENCODER_CMD
  | VIDIOC_TRY_ENCODER_CMD
  | VIDIOC_DBG_S_REGISTER
  | VIDIOC_DBG_G_REGISTER
  | VIDIOC_S_HW_FREQ_SEEK
  | VIDIOC_S_DV_TIMINGS
  | VIDIOC_G_DV_TIMINGS
  | VIDIOC_DQEVENT
  | VIDIOC_SUBSCRIBE_EVENT
  | VIDIOC_UNSUBSCRIBE_EVENT
  | VIDIOC_CREATE_BUFS
  | VIDIOC_PREPARE_BUF
  | VIDIOC_G_SELECTION
  | VIDIOC_S_SELECTION
  | VIDIOC_DECODER_CMD
  | VIDIOC_TRY_DECODER_CMD
  | VIDIOC_ENUM_DV_TIMINGS
  | VIDIOC_QUERY_DV_TIMINGS
  | VIDIOC_DV_TIMINGS_CAP
  | VIDIOC_ENUM_FREQ_BANDS
  | VIDIOC_DBG_G_CHIP_INFO
  | VIDIOC_QUERY_EXT_CTRL

text \<open>The discriminants of the enumeration, \<open>self as u32\<close>.\<close>

primrec as_u32 :: "V4l2Ioctl \<Rightarrow> u32" where
  "as_u32 VIDIOC_QUERYCAP = 0"
| "as_u32 VIDIOC_ENUM_FMT = 2"
| "as_u32 VIDIOC_G_FMT = 4"
| "as_u32 VIDIOC_S_FMT = 5"
| "as_u32 VIDIOC_REQBUFS = 8"
| "as_u32 VIDIOC_QUERYBUF = 9"
| "as_u32 VIDIOC_G_FBUF = 10"
| "as_u32 VIDIOC_S_FBUF = 11"
| "as_u32 VIDIOC_OVERLAY = 14"
| "as_u32 VIDIOC_QBUF = 15"
| "as_u32 VIDIOC_EXPBUF = 16"
| "as_u32 VIDIOC_DQBUF = 17"
| "as_u32 VIDIOC_STREAMON = 18"
| "as_u32 VIDIOC_STREAMOFF = 19"
| "as_u32 VIDIOC_G_PARM = 21"
| "as_u32 VIDIOC_S_PARM = 22"
| "as_u32 VIDIOC_G_STD = 23"
| "as_u32 VIDIOC_S_STD = 24"
| "as_u32 VIDIOC_ENUMSTD = 25"
| "as_u32 VIDIOC_ENUMINPUT = 26"
| "as_u32 VIDIOC_G_CTRL = 27"
| "as_u32 VIDIOC_S_CTRL = 28"
| "as_u32 VIDIOC_G_TUNER = 29"
| "as_u32 VIDIOC_S_TUNER = 30"
| "as_u32 VIDIOC_G_AUDIO = 33"
| "as_u32 VIDIOC_S_AUDIO = 34"
| "as_u32 VIDIOC_QUERYCTRL = 36"
| "as_u32 VIDIOC_QUERYMENU = 37"
| "as_u32 VIDIOC_G_INPUT = 38"
| "as_u32 VIDIOC_S_INPUT = 39"
| "as_u32 VIDIOC_G_EDID = 40"
| "as_u32 VIDIOC_S_EDID = 41"
| "as_u32 VIDIOC_G_OUTPUT = 46"
| "as_u32 VIDIOC_S_OUTPUT = 47"
| "as_u32 VIDIOC_ENUMOUTPUT = 48"
| "as_u32 VIDIOC_G_AUDOUT = 49"
| "as_u32 VIDIOC_S_AUDOUT = 50"
| "as_u32 VIDIOC_G_MODULATOR = 54"
| "as_u32 VIDIOC_S_MODULATOR = 55"
| "as_u32 VIDIOC_G_FREQUENCY = 56"
| "as_u32 VIDIOC_S_FREQUENCY = 57"
| "as_u32 VIDIOC_CROPCAP = 58"
| "as_u32 VIDIOC_G_CROP = 59"
| "as_u32 VIDIOC_S_CROP = 60"
| "as_u32 VIDIOC_G_JPEGCOMP = 61"
| "as_u32 VIDIOC_S_JPEGCOMP = 62"
| "as_u32 VIDIOC_QUERYSTD = 63"
| "as_u32 VIDIOC_TRY_FMT = 64"
| "as_u32 VIDIOC_ENUMAUDIO = 65"
| "as_u32 VIDIOC_ENUMAUDOUT = 66"
| "as_u32 VIDIOC_G_PRIORITY = 67"
| "as_u32 VIDIOC_S_PRIORITY = 68"
| "as_u32 VIDIOC_G_SLICED_VBI_CAP = 69"
| "as_u32 VIDIOC_LOG_STATUS = 70"
| "as_u32 VIDIOC_G_EXT_CTRLS = 71"
| "as_u32 VIDIOC_S_EXT_CTRLS = 72"
| "as_u32 VIDIOC_TRY_EXT_CTRLS = 73"
| "as_u32 VIDIOC_ENUM_FRAMESIZES = 74"
| "as_u32 VIDIOC_ENUM_FRAMEINTERVALS = 75"
| "as_u32 VIDIOC_G_ENC_INDEX = 76"
| "as_u32 VIDIOC_ENCODER_CMD = 77"
| "as_u32 VIDIOC_TRY_ENCODER_CMD = 78"
| "as_u32 VIDIOC_DBG_S_REGISTER = 79"
| "as_u32 VIDIOC_DBG_G_REGISTER = 80"
| "as_u32 VIDIOC_S_HW_FREQ_SEEK = 82"
| "as_u32 VIDIOC_S_DV_TIMINGS = 87"
| "as_u32 VIDIOC_G_DV_TIMINGS = 88"
| "as_u32 VIDIOC_DQEVENT = 89"
| "as_u32 VIDIOC_SUBSCRIBE_EVENT = 90"
| "as_u32 VIDIOC_UNSUBSCRIBE_EVENT = 91"
| "as_u32 VIDIOC_CREATE_BUFS = 92"
| "as_u32 VIDIOC_PREPARE_BUF = 93"
| "as_u32 VIDIOC_G_SELECTION = 94"
| "as_u32 VIDIOC_S_SELECTION = 95"
| "as_u32 VIDIOC_DECODER_CMD = 96"
| "as_u32 VIDIOC_TRY_DECODER_CMD = 97"
| "as_u32 VIDIOC_ENUM_DV_TIMINGS = 98"
| "as_u32 VIDIOC_QUERY_DV_TIMINGS = 99"
| "as_u32 VIDIOC_DV_TIMINGS_CAP = 100"
| "as_u32 VIDIOC_ENUM_FREQ_BANDS = 101"
| "as_u32 VIDIOC_DBG_G_CHIP_INFO = 102"
| "as_u32 VIDIOC_QUERY_EXT_CTRL = 103"

text \<open>The derived \<open>V4l2Ioctl::n\<close>: the variant with a given discriminant, if there is one.\<close>

definition V4l2Ioctl_all :: "V4l2Ioctl list" where
  "V4l2Ioctl_all =
     [VIDIOC_QUERYCAP, VIDIOC_ENUM_FMT, VIDIOC_G_FMT, VIDIOC_S_FMT,
      VIDIOC_REQBUFS, VIDIOC_QUERYBUF, VIDIOC_G_FBUF, VIDIOC_S_FBUF,
      VIDIOC_OVERLAY, VIDIOC_QBUF, VIDIOC_EXPBUF, VIDIOC_DQBUF,
      VIDIOC_STREAMON, VIDIOC_STREAMOFF, VIDIOC_G_PARM, VIDIOC_S_PARM,
      VIDIOC_G_STD, VIDIOC_S_STD, VIDIOC_ENUMSTD, VIDIOC_ENUMINPUT,
      VIDIOC_G_CTRL, VIDIOC_S_CTRL, VIDIOC_G_TUNER, VIDIOC_S_TUNER,
      VIDIOC_G_AUDIO, VIDIOC_S_AUDIO, VIDIOC_QUERYCTRL, VIDIOC_QUERYMENU,
      VIDIOC_G_INPUT, VIDIOC_S_INPUT, VIDIOC_G_EDID, VIDIOC_S_EDID,
      VIDIOC_G_OUTPUT, VIDIOC_S_OUTPUT, VIDIOC_ENUMOUTPUT, VIDIOC_G_AUDOUT,
      VIDIOC_S_AUDOUT, VIDIOC_G_MODULATOR, VIDIOC_S_MODULATOR, VIDIOC_G_FREQUENCY,
      VIDIOC_S_FREQUENCY, VIDIOC_CROPCAP, VIDIOC_G_CROP, VIDIOC_S_CROP,
      VIDIOC_G_JPEGCOMP, VIDIOC_S_JPEGCOMP, VIDIOC_QUERYSTD, VIDIOC_TRY_FMT,
      VIDIOC_ENUMAUDIO, VIDIOC_ENUMAUDOUT, VIDIOC_G_PRIORITY, VIDIOC_S_PRIORITY,
      VIDIOC_G_SLICED_VBI_CAP, VIDIOC_LOG_STATUS, VIDIOC_G_EXT_CTRLS, VIDIOC_S_EXT_CTRLS,
      VIDIOC_TRY_EXT_CTRLS, VIDIOC_ENUM_FRAMESIZES, VIDIOC_ENUM_FRAMEINTERVALS, VIDIOC_G_ENC_INDEX,
      VIDIOC_ENCODER_CMD, VIDIOC_TRY_ENCODER_CMD, VIDIOC_DBG_S_REGISTER, VIDIOC_DBG_G_REGISTER,
      VIDIOC_S_HW_FREQ_SEEK, VIDIOC_S_DV_TIMINGS, VIDIOC_G_DV_TIMINGS, VIDIOC_DQEVENT,
      VIDIOC_SUBSCRIBE_EVENT, VIDIOC_UNSUBSCRIBE_EVENT, VIDIOC_CREATE_BUFS, VIDIOC_PREPARE_BUF,
      VIDIOC_G_SELECTION, VIDIOC_S_SELECTION, VIDIOC_DECODER_CMD, VIDIOC_TRY_DECODER_CMD,
      VIDIOC_ENUM_DV_TIMINGS, VIDIOC_QUERY_DV_TIMINGS, VIDIOC_DV_TIMINGS_CAP, VIDIOC_ENUM_FREQ_BANDS,
      VIDIOC_DBG_G_CHIP_INFO, VIDIOC_QUERY_EXT_CTRL]"

definition V4l2Ioctl_n :: "u32 \<Rightarrow> V4l2Ioctl option" where
  "V4l2Ioctl_n code = find (\<lambda>i. as_u32 i = code) V4l2Ioctl_all"

lemma V4l2Ioctl_all_complete: "i \<in> set V4l2Ioctl_all"
  by (cases i) (simp_all add: V4l2Ioctl_all_def)

lemma as_u32_distinct: "distinct (map as_u32 V4l2Ioctl_all)"
  by (simp add: V4l2Ioctl_all_def)

lemma as_u32_inj: "as_u32 i = as_u32 j \<longleftrightarrow> i = j"
  using as_u32_distinct V4l2Ioctl_all_complete by (auto simp: distinct_map inj_on_def)

text \<open>The derived \<open>PartialEq\<close> and \<open>Ord\<close> compare the discriminants, which are in declaration order.\<close>

instantiation V4l2Ioctl :: equal
begin

definition "HOL.equal i j \<longleftrightarrow> as_u32 i = as_u32 j"

instance
  by standard (simp add: equal_V4l2Ioctl_def as_u32_inj)

end

instantiation V4l2Ioctl :: linorder
begin

definition "i \<le> j \<longleftrightarrow> as_u32 i \<le> as_u32 j"
definition "i < j \<longleftrightarrow> as_u32 i < as_u32 j"

instance
  by standard (auto simp: less_eq_V4l2Ioctl_def less_V4l2Ioctl_def less_le as_u32_inj)

end

lemma V4l2Ioctl_n_as_u32: "V4l2Ioctl_n (as_u32 i) = Some i"
proof -
  obtain k where k: "k < length V4l2Ioctl_all" "V4l2Ioctl_all ! k = i"
    using V4l2Ioctl_all_complete [of i] by (auto simp: in_set_conv_nth)
  have "\<forall>j < k. as_u32 (V4l2Ioctl_all ! j) \<noteq> as_u32 i"
  proof (intro allI impI)
    fix j assume "j < k"
    with k as_u32_distinct show "as_u32 (V4l2Ioctl_all ! j) \<noteq> as_u32 i"
      by (metis as_u32_inj distinct_map less_trans nat_neq_iff nth_eq_iff_index_eq)
  qed
  with k show ?thesis unfolding V4l2Ioctl_n_def find_Some_iff by auto
qed

lemma V4l2Ioctl_n_Some: "V4l2Ioctl_n code = Some i \<longleftrightarrow> code = as_u32 i"
proof
  assume "V4l2Ioctl_n code = Some i"
  then show "code = as_u32 i" by (auto simp: V4l2Ioctl_n_def find_Some_iff)
next
  assume "code = as_u32 i"
  then show "V4l2Ioctl_n code = Some i" by (simp add: V4l2Ioctl_n_as_u32)
qed

section \<open>Structures of commands and responses\<close>

record SgEntry =
  sg_start :: u64
  sg_len :: u32
  sg_padding :: u32

record CmdHeader =
  cmd :: u32
  cmd_padding :: u32

record RespHeader =
  errno :: i32
  resp_padding :: u32

definition RespHeader_ok :: RespHeader where
  "RespHeader_ok = \<lparr>errno = 0, resp_padding = 0\<rparr>"

definition RespHeader_err :: "i32 \<Rightarrow> RespHeader" where
  "RespHeader_err e = \<lparr>errno = e, resp_padding = 0\<rparr>"

type_synonym OpenCmd = unit

record OpenResp =
  open_hdr :: RespHeader
  open_session_id :: u32
  open_padding :: u32

definition OpenResp_ok :: "u32 \<Rightarrow> OpenResp" where
  "OpenResp_ok sid = \<lparr>open_hdr = RespHeader_ok, open_session_id = sid, open_padding = 0\<rparr>"

record CloseCmd =
  close_session_id :: u32
  close_padding :: u32

record IoctlCmd =
  ioctl_session_id :: u32
  ioctl_code :: u32

record MmapCmd =
  mmap_session_id :: u32
  mmap_flags :: u32
  mmap_offset :: u32

record MmapResp =
  mmap_hdr :: RespHeader
  mmap_driver_addr :: u64
  mmap_len :: u64

definition MmapResp_ok :: "u64 \<Rightarrow> u64 \<Rightarrow> MmapResp" where
  "MmapResp_ok addr len = \<lparr>mmap_hdr = RespHeader_ok, mmap_driver_addr = addr, mmap_len = len\<rparr>"

record MunmapCmd =
  munmap_driver_addr :: u64

record MunmapResp =
  munmap_hdr :: RespHeader

definition MunmapResp_ok :: MunmapResp where
  "MunmapResp_ok = \<lparr>munmap_hdr = RespHeader_ok\<rparr>"

section \<open>Events\<close>

definition VIRTIO_MEDIA_EVENT_ERROR :: u32 where "VIRTIO_MEDIA_EVENT_ERROR = 0"
definition VIRTIO_MEDIA_EVENT_DQBUF :: u32 where "VIRTIO_MEDIA_EVENT_DQBUF = 1"
definition VIRTIO_MEDIA_EVENT_EVENT :: u32 where "VIRTIO_MEDIA_EVENT_EVENT = 2"

record EventHeader =
  eh_event :: u32
  eh_session_id :: u32

definition EventHeader_new :: "u32 \<Rightarrow> u32 \<Rightarrow> EventHeader" where
  "EventHeader_new ev sid = \<lparr>eh_event = ev, eh_session_id = sid\<rparr>"

record ErrorEvent =
  ee_hdr :: EventHeader
  ee_errno :: i32
  ee_padding :: u32

definition ErrorEvent_new :: "u32 \<Rightarrow> i32 \<Rightarrow> ErrorEvent" where
  "ErrorEvent_new sid e =
     \<lparr>ee_hdr = EventHeader_new VIRTIO_MEDIA_EVENT_ERROR sid, ee_errno = e, ee_padding = 0\<rparr>"

text \<open>
  A dequeued buffer and a session event carry a \<open>V4l2Buffer\<close> and a \<open>v4l2_event\<close> of the
  \<open>v4l2r\<close> crate, the type variables \<open>'vb\<close> and \<open>'ev\<close> of the model.
\<close>

record 'vb DequeueBufferEvent =
  dq_hdr :: EventHeader
  dq_v4l2_buffer :: 'vb

definition DequeueBufferEvent_new :: "u32 \<Rightarrow> 'vb \<Rightarrow> 'vb DequeueBufferEvent" where
  "DequeueBufferEvent_new sid b =
     \<lparr>dq_hdr = EventHeader_new VIRTIO_MEDIA_EVENT_DQBUF sid, dq_v4l2_buffer = b\<rparr>"

record 'ev SessionEvent =
  se_hdr :: EventHeader
  se_v4l2_event :: 'ev

definition SessionEvent_new :: "u32 \<Rightarrow> 'ev \<Rightarrow> 'ev SessionEvent" where
  "SessionEvent_new sid e =
     \<lparr>se_hdr = EventHeader_new VIRTIO_MEDIA_EVENT_EVENT sid, se_v4l2_event = e\<rparr>"

datatype ('vb, 'ev) V4l2Event =
    Error ErrorEvent
  | DequeueBuffer "'vb DequeueBufferEvent"
  | Event "'ev SessionEvent"

section \<open>Byte layouts\<close>

definition wire_SgEntry :: "SgEntry VmediaType" where
  "wire_SgEntry = wire_iso (\<lambda>x. (sg_start x, sg_len x, sg_padding x))
     (\<lambda>(a, b, c). \<lparr>sg_start = a, sg_len = b, sg_padding = c\<rparr>)
     (wire_pair wire_u64 (wire_pair wire_u32 wire_u32))"

definition wire_CmdHeader :: "CmdHeader VmediaType" where
  "wire_CmdHeader = wire_iso (\<lambda>x. (cmd x, cmd_padding x)) (\<lambda>(a, b). \<lparr>cmd = a, cmd_padding = b\<rparr>)
     (wire_pair wire_u32 wire_u32)"

definition wire_RespHeader :: "RespHeader VmediaType" where
  "wire_RespHeader = wire_iso (\<lambda>x. (errno x, resp_padding x)) (\<lambda>(a, b). \<lparr>errno = a, resp_padding = b\<rparr>)
     (wire_pair wire_i32 wire_u32)"

definition wire_OpenCmd :: "OpenCmd VmediaType" where
  "wire_OpenCmd = wire_unit"

definition wire_OpenResp :: "OpenResp VmediaType" where
  "wire_OpenResp = wire_iso (\<lambda>x. (open_hdr x, open_session_id x, open_padding x))
     (\<lambda>(a, b, c). \<lparr>open_hdr = a, open_session_id = b, open_padding = c\<rparr>)
     (wire_pair wire_RespHeader (wire_pair wire_u32 wire_u32))"

definition wire_CloseCmd :: "CloseCmd VmediaType" where
  "wire_CloseCmd = wire_iso (\<lambda>x. (close_session_id x, close_padding x))
     (\<lambda>(a, b). \<lparr>close_session_id = a, close_padding = b\<rparr>) (wire_pair wire_u32 wire_u32)"

definition wire_IoctlCmd :: "IoctlCmd VmediaType" where
  "wire_IoctlCmd = wire_iso (\<lambda>x. (ioctl_session_id x, ioctl_code x))
     (\<lambda>(a, b). \<lparr>ioctl_session_id = a, ioctl_code = b\<rparr>) (wire_pair wire_u32 wire_u32)"

definition wire_MmapCmd :: "MmapCmd VmediaType" where
  "wire_MmapCmd = wire_iso (\<lambda>x. (mmap_session_id x, mmap_flags x, mmap_offset x))
     (\<lambda>(a, b, c). \<lparr>mmap_session_id = a, mmap_flags = b, mmap_offset = c\<rparr>)
     (wire_pair wire_u32 (wire_pair wire_u32 wire_u32))"

definition wire_MmapResp :: "MmapResp VmediaType" where
  "wire_MmapResp = wire_iso (\<lambda>x. (mmap_hdr x, mmap_driver_addr x, mmap_len x))
     (\<lambda>(a, b, c). \<lparr>mmap_hdr = a, mmap_driver_addr = b, mmap_len = c\<rparr>)
     (wire_pair wire_RespHeader (wire_pair wire_u64 wire_u64))"

definition wire_MunmapCmd :: "MunmapCmd VmediaType" where
  "wire_MunmapCmd = wire_iso munmap_driver_addr (\<lambda>a. \<lparr>munmap_driver_addr = a\<rparr>) wire_u64"

definition wire_MunmapResp :: "MunmapResp VmediaType" where
  "wire_MunmapResp = wire_iso munmap_hdr (\<lambda>a. \<lparr>munmap_hdr = a\<rparr>) wire_RespHeader"

definition wire_EventHeader :: "EventHeader VmediaType" where
  "wire_EventHeader = wire_iso (\<lambda>x. (eh_event x, eh_session_id x))
     (\<lambda>(a, b). \<lparr>eh_event = a, eh_session_id = b\<rparr>) (wire_pair wire_u32 wire_u32)"

definition wire_ErrorEvent :: "ErrorEvent VmediaType" where
  "wire_ErrorEvent = wire_iso (\<lambda>x. (ee_hdr x, ee_errno x, ee_padding x))
     (\<lambda>(a, b, c). \<lparr>ee_hdr = a, ee_errno = b, ee_padding = c\<rparr>)
     (wire_pair wire_EventHeader (wire_pair wire_i32 wire_u32))"

interpretation SgEntry: wire_type wire_SgEntry
  unfolding wire_SgEntry_def by (rule wire_iso_type) (auto intro: wire_types)

interpretation CmdHeader: wire_type wire_CmdHeader
  unfolding wire_CmdHeader_def by (rule wire_iso_type) (auto intro: wire_types)

interpretation RespHeader: wire_type wire_RespHeader
  unfolding wire_RespHeader_def by (rule wire_iso_type) (auto intro: wire_types)

interpretation OpenCmd: wire_type wire_OpenCmd
  unfolding wire_OpenCmd_def by (rule unit.wire_type_axioms)

interpretation OpenResp: wire_type wire_OpenResp
  unfolding wire_OpenResp_def
  by (rule wire_iso_type) (auto intro: wire_types RespHeader.wire_type_axioms)

interpretation CloseCmd: wire_type wire_CloseCmd
  unfolding wire_CloseCmd_def by (rule wire_iso_type) (auto intro: wire_types)

interpretation IoctlCmd: wire_type wire_IoctlCmd
  unfolding wire_IoctlCmd_def by (rule wire_iso_type) (auto intro: wire_types)

interpretation MmapCmd: wire_type wire_MmapCmd
  unfolding wire_MmapCmd_def by (rule wire_iso_type) (auto intro: wire_types)

interpretation MmapResp: wire_type wire_MmapResp
  unfolding wire_MmapResp_def
  by (rule wire_iso_type) (auto intro: wire_types RespHeader.wire_type_axioms)

interpretation MunmapCmd: wire_type wire_MunmapCmd
  unfolding wire_MunmapCmd_def by (rule wire_iso_type) (auto intro: wire_types)

interpretation MunmapResp: wire_type wire_MunmapResp
  unfolding wire_MunmapResp_def
  by (rule wire_iso_type) (auto intro: wire_types RespHeader.wire_type_axioms)

interpretation EventHeader: wire_type wire_EventHeader
  unfolding wire_EventHeader_def by (rule wire_iso_type) (auto intro: wire_types)

interpretation ErrorEvent: wire_type wire_ErrorEvent
  unfolding wire_ErrorEvent_def
  by (rule wire_iso_type) (auto intro: wire_types EventHeader.wire_type_axioms)

lemma protocol_sizes [simp]:
  "size_of wire_SgEntry = 16" "size_of wire_CmdHeader = 8" "size_of wire_RespHeader = 8"
  "size_of wire_OpenCmd = 0" "size_of wire_OpenResp = 16" "size_of wire_CloseCmd = 8"
  "size_of wire_IoctlCmd = 8" "size_of wire_MmapCmd = 12" "size_of wire_MmapResp = 24"
  "size_of wire_MunmapCmd = 8" "size_of wire_MunmapResp = 8" "size_of wire_EventHeader = 8"
  "size_of wire_ErrorEvent = 16"
  by (simp_all add: wire_SgEntry_def wire_CmdHeader_def wire_RespHeader_def wire_OpenCmd_def
      wire_OpenResp_def wire_CloseCmd_def wire_IoctlCmd_def wire_MmapCmd_def wire_MmapResp_def
      wire_MunmapCmd_def wire_MunmapResp_def wire_EventHeader_def wire_ErrorEvent_def)

section \<open>Error responses\<close>

definition write_err_response :: "i32 \<Rightarrow> Writer \<Rightarrow> Writer \<times> (io_error + unit)" where
  "write_err_response code w = write_response wire_RespHeader (RespHeader_err code) w"

abbreviation hdr_bytes :: "i32 \<Rightarrow> u8 list" where
  "hdr_bytes e \<equiv> as_bytes wire_RespHeader (RespHeader_err e)"

lemma RespHeader_ok_err: "RespHeader_ok = RespHeader_err 0"
  by (simp add: RespHeader_ok_def RespHeader_err_def)

lemma length_hdr_bytes [simp]: "length (hdr_bytes e) = 8"
  by (simp add: RespHeader.as_bytes_length)

lemma OpenResp_bytes:
  "as_bytes wire_OpenResp (OpenResp_ok sid) = hdr_bytes 0 @ as_bytes wire_u32 sid @ as_bytes wire_u32 0"
  by (simp add: wire_OpenResp_def OpenResp_ok_def wire_iso_def wire_pair_def RespHeader_ok_err)

lemma MmapResp_bytes:
  "as_bytes wire_MmapResp (MmapResp_ok a l) = hdr_bytes 0 @ as_bytes wire_u64 a @ as_bytes wire_u64 l"
  by (simp add: wire_MmapResp_def MmapResp_ok_def wire_iso_def wire_pair_def RespHeader_ok_err)

lemma MunmapResp_bytes: "as_bytes wire_MunmapResp MunmapResp_ok = hdr_bytes 0"
  by (simp add: wire_MunmapResp_def MunmapResp_ok_def wire_iso_def RespHeader_ok_err)

lemma write_err_fits:
  "8 \<le> room w \<Longrightarrow>
   write_err_response e w = (w\<lparr>written := written w @ hdr_bytes e, room := room w - 8\<rparr>, Inr ())"
  by (simp add: write_err_response_def write_response_def RespHeader.write_fits)

lemma write_err_extends: "write_err_response e w = (w', r) \<Longrightarrow> extends w w'"
  by (simp add: write_err_response_def write_response_def write_obj_extends)

text \<open>
  A response has been sent when the first eight bytes after what was there before are a
  response header.
\<close>

definition responded :: "Writer \<Rightarrow> Writer \<Rightarrow> bool" where
  "responded w w' \<longleftrightarrow> (\<exists>e rest. written w' = written w @ hdr_bytes e @ rest)"

lemma responded_extends: "responded w w' \<Longrightarrow> extends w' w'' \<Longrightarrow> responded w w''"
  by (auto simp: responded_def extends_def)

lemma write_err_responded: "8 \<le> room w \<Longrightarrow> responded w (fst (write_err_response e w))"
  by (auto simp: responded_def write_err_fits)

section \<open>Properties\<close>

text \<open>
  C28. The byte layout of the commands: from any request with enough bytes, each command structure is
  read with its fields at the offsets of its declaration, as little-endian numbers, and the read
  leaves exactly the bytes after the structure. A close and an \<open>IOCTL\<close> command name their session in the first
  four bytes, an \<open>IOCTL\<close> command its code in the next four, an \<open>MMAP\<close> command its flags and its offset after the session.
\<close>

theorem command_layout:
  assumes "16 \<le> length r"
  shows "\<exists>h c i m u g.
    read_obj wire_CmdHeader r = (drop 8 r, Inr h) \<and> unat (cmd h) = le_at 4 0 r \<and>
    read_obj wire_CloseCmd r = (drop 8 r, Inr c) \<and> unat (close_session_id c) = le_at 4 0 r \<and>
    read_obj wire_IoctlCmd r = (drop 8 r, Inr i) \<and> unat (ioctl_session_id i) = le_at 4 0 r \<and>
      unat (ioctl_code i) = le_at 4 4 r \<and>
    read_obj wire_MmapCmd r = (drop 12 r, Inr m) \<and> unat (mmap_session_id m) = le_at 4 0 r \<and>
      unat (mmap_flags m) = le_at 4 4 r \<and> unat (mmap_offset m) = le_at 4 8 r \<and>
    read_obj wire_MunmapCmd r = (drop 8 r, Inr u) \<and> unat (munmap_driver_addr u) = le_at 8 0 r \<and>
    read_obj wire_SgEntry r = (drop 16 r, Inr g) \<and> unat (sg_start g) = le_at 8 0 r \<and>
      unat (sg_len g) = le_at 4 8 r"
proof -
  have *: "unat (le_word (take 4 r) :: u32) = le_at 4 0 r" "unat (le_word (take 4 (drop 4 r)) :: u32) = le_at 4 4 r"
    "unat (le_word (take 4 (drop 8 r)) :: u32) = le_at 4 8 r" "unat (le_word (take 8 r) :: u64) = le_at 8 0 r"
    using assms unat_from_slice [of 0 4 r, where ?'a = 32] unat_from_slice [of 0 8 r, where ?'a = 64]
    by (simp_all add: unat_from_slice)
  show ?thesis
    using assms
    by (simp add: read_obj_enough wire_CmdHeader_def wire_CloseCmd_def wire_IoctlCmd_def wire_MmapCmd_def
        wire_MunmapCmd_def wire_SgEntry_def)
      (simp add: wire_iso_def wire_pair_def wire_ints drop_take * min_def)
qed

text \<open>An \<open>MMAP\<close> command for session 3 with the offset \<open>0x12000\<close>, followed by four more bytes.\<close>

abbreviation layout_example :: "u8 list" where
  "layout_example \<equiv> [3, 0, 0, 0, 1, 0, 0, 0, 0, 0x20, 1, 0, 0xAA, 0xBB, 0xCC, 0xDD]"

theorem command_layout_witness:
  "\<exists>m. read_obj wire_MmapCmd layout_example = ([0xAA, 0xBB, 0xCC, 0xDD], Inr m) \<and>
    unat (mmap_session_id m) = 3 \<and> unat (mmap_flags m) = 1 \<and> unat (mmap_offset m) = 0x12000"
proof -
  have "{0..<4 :: nat} = {0, 1, 2, 3}" by auto
  then have "le_at 4 0 layout_example = 3" "le_at 4 4 layout_example = 1" "le_at 4 8 layout_example = 0x12000"
    by (simp_all add: le_at_def)
  with command_layout [of layout_example] show ?thesis by auto
qed

text \<open>
  C29. The byte layout of the responses: in a chain with enough room, a response is appended to what
  was written before, and its fields stand at the offsets of its declaration as little-endian
  numbers: the error number in the first four bytes, zero for a success, and after the header the
  identifier of the new session, or the address and the length of the new mapping.
\<close>

theorem response_layout:
  assumes "24 \<le> room w" and "k = length (written w)"
  shows "(let ob = written (fst (write_response wire_OpenResp (OpenResp_ok sid) w));
      mb = written (fst (write_response wire_MmapResp (MmapResp_ok a l) w));
      ub = written (fst (write_response wire_MunmapResp MunmapResp_ok w));
      eb = written (fst (write_err_response err w)) in
    length ob = k + 16 \<and> le_at 4 k ob = 0 \<and> le_at 4 (k + 4) ob = 0 \<and> le_at 4 (k + 8) ob = unat sid \<and> le_at 4 (k + 12) ob = 0 \<and>
    length mb = k + 24 \<and> le_at 4 k mb = 0 \<and> le_at 4 (k + 4) mb = 0 \<and> le_at 8 (k + 8) mb = unat a \<and> le_at 8 (k + 16) mb = unat l \<and>
    length ub = k + 8 \<and> le_at 4 k ub = 0 \<and> le_at 4 (k + 4) ub = 0 \<and>
    length eb = k + 8 \<and> le_at 4 k eb = unat err \<and> le_at 4 (k + 4) eb = 0 \<and>
    take k ob = written w \<and> take k mb = written w \<and> take k ub = written w \<and> take k eb = written w)"
proof -
  have hdr: "hdr_bytes x = le_bytes 4 x @ le_bytes 4 (0 :: u32)" for x
    by (simp add: wire_RespHeader_def RespHeader_err_def wire_iso_def wire_pair_def wire_ints)
  have at: "le_at 4 (length pre) (pre @ le_bytes 4 (x :: u32) @ rest) = unat x"
    "le_at 8 (length pre) (pre @ le_bytes 8 (y :: u64) @ rest) = unat y" for pre x y rest
    by (simp_all add: le_at_bytes)
  note at0 = at [where rest = "[]", simplified]
  have ob: "written (fst (write_response wire_OpenResp (OpenResp_ok sid) w)) =
      written w @ le_bytes 4 (0 :: i32) @ le_bytes 4 (0 :: u32) @ le_bytes 4 sid @ le_bytes 4 (0 :: u32)"
    using assms(1) by (simp add: write_response_def OpenResp.write_fits OpenResp_bytes hdr) (simp add: wire_ints)
  have mb: "written (fst (write_response wire_MmapResp (MmapResp_ok a l) w)) =
      written w @ le_bytes 4 (0 :: i32) @ le_bytes 4 (0 :: u32) @ le_bytes 8 a @ le_bytes 8 l"
    using assms(1) by (simp add: write_response_def MmapResp.write_fits MmapResp_bytes hdr) (simp add: wire_ints)
  have ub: "written (fst (write_response wire_MunmapResp MunmapResp_ok w)) = written w @ le_bytes 4 (0 :: i32) @ le_bytes 4 (0 :: u32)"
    using assms(1) by (simp add: write_response_def MunmapResp.write_fits MunmapResp_bytes hdr)
  have eb: "written (fst (write_err_response err w)) = written w @ le_bytes 4 err @ le_bytes 4 (0 :: u32)"
    using assms(1) by (simp add: write_err_fits hdr)
  show ?thesis
    unfolding Let_def ob mb ub eb assms(2)
    using at [of "written w"] at [of "written w @ le_bytes 4 (0 :: i32)"] at0 [of "written w @ le_bytes 4 (0 :: i32)"]
       at [of "written w @ le_bytes 4 (0 :: i32) @ le_bytes 4 (0 :: u32)"]
       at0 [of "written w @ le_bytes 4 (0 :: i32) @ le_bytes 4 (0 :: u32) @ le_bytes 4 sid"]
       at0 [of "written w @ le_bytes 4 (0 :: i32) @ le_bytes 4 (0 :: u32) @ le_bytes 8 a"]
       at0 [of "written w @ le_bytes 4 err"]
    by simp
qed

theorem response_layout_witness:
  "(let bytes = written (fst (write_response wire_MmapResp (MmapResp_ok 0x80001000 0x2000) \<lparr>written = [7], room = 32\<rparr>)) in
    length bytes = 25 \<and> le_at 4 1 bytes = 0 \<and> le_at 8 9 bytes = 0x80001000 \<and> le_at 8 17 bytes = 0x2000 \<and> take 1 bytes = [7])"
  using response_layout [of "\<lparr>written = [7], room = 32\<rparr>" 1 0 "0x80001000" "0x2000" 0] by (simp add: Let_def)

end
