(* ===== verification/V4l2r.thy ===== *)
theory V4l2r
  imports Protocol
begin

unbundle bit_operations_syntax

text \<open>
  What the sources use of the \<open>v4l2r\<close> crate. The crate is not part of the repository, so its
  functions are fields of a record of parameters that the definitions of the development take as
  their argument \<open>K\<close>, and what the sources rely on is a named predicate over \<open>K\<close>.

  The enumerations list the variants the sources name; one more constructor stands for the
  variants they never name. The structures of the kernel headers are records of the fields the
  sources read or write; the remaining bytes of a structure are its last field. Structures that
  are only passed on are byte sequences.
\<close>

section \<open>Enumerations and flags\<close>

datatype QueueType =
    VideoCapture | VideoOutput | VideoCaptureMplane | VideoOutputMplane | OtherQueue nat

datatype QueueDirection = Output | Capture

datatype QueueClass = VideoMplane | OtherClass nat

datatype MemoryType = Mmap | UserPtr | OtherMemory nat

datatype EventType = SourceChange u32 | Eos | OtherEvent nat

datatype SelectionType = SelectionCapture | OtherSelection nat

datatype SelectionTarget =
    CropBounds | Crop | CropDefault | ComposeDefault | ComposeBounds | Compose | OtherTarget nat

datatype DecoderCmd = CmdStop "u8 list" | CmdStart "u8 list" | CmdPause "u8 list" | CmdResume

text \<open>Values of enumerations and flag sets that the sources only pass on, by their bits.\<close>

type_synonym MemoryConsistency = u32
type_synonym TunerMode = u32
type_synonym AudioMode = u32
type_synonym CtrlId = u32
type_synonym QueryCtrlFlags = u32
type_synonym CtrlWhich = u32
type_synonym TunerTransmissionFlags = u32
type_synonym TunerType = u32
type_synonym SelectionFlags = u32
type_synonym SubscribeEventFlags = u32
type_synonym BufferFlags = u32
type_synonym BufferField = u32
type_synonym Colorspace = u32
type_synonym XferFunc = u32
type_synonym YCbCrEncoding = u32
type_synonym Quantization = u32

section \<open>Structures of the kernel headers\<close>

type_synonym rest = "u8 list"
type_synonym v4l2_plane = rest
type_synonym v4l2_std_id = rest
type_synonym v4l2_enc_idx = rest
type_synonym v4l2_encoder_cmd = rest
type_synonym v4l2_decoder_cmd = rest
type_synonym v4l2_dv_timings = rest
type_synonym v4l2_dv_timings_cap = rest

text \<open>The unions inside \<open>v4l2_format\<close> and \<open>v4l2_streamparm\<close> are their bytes.\<close>

type_synonym v4l2_format_fmt = rest
type_synonym v4l2_streamparm_parm = rest

record v4l2_fmtdesc =
  fmtdesc_index :: u32
  fmtdesc_type :: u32
  fmtdesc_pixelformat :: u32
  fmtdesc_rest :: rest

record v4l2_format =
  format_type :: u32
  format_fmt :: v4l2_format_fmt

record v4l2_requestbuffers =
  reqbufs_count :: u32
  reqbufs_type :: u32
  reqbufs_memory :: u32
  reqbufs_capabilities :: u32
  reqbufs_flags :: u32
  reqbufs_reserved :: rest

record v4l2_buffer =
  buffer_index :: u32
  buffer_type :: u32
  buffer_length :: u32
  buffer_m_planes :: u64
  buffer_rest :: rest

record v4l2_streamparm =
  streamparm_type :: u32
  streamparm_parm :: v4l2_streamparm_parm

record v4l2_standard =
  standard_index :: u32
  standard_rest :: rest

record v4l2_input =
  input_index :: u32
  input_name :: "u8 list"
  input_type :: u32
  input_rest :: rest

record v4l2_control =
  control_id :: u32
  control_value :: i32

record v4l2_tuner =
  tuner_index :: u32
  tuner_audmode :: u32
  tuner_rest :: rest

record v4l2_audio =
  audio_index :: u32
  audio_mode :: u32
  audio_rest :: rest

record v4l2_audioout =
  audioout_index :: u32
  audioout_rest :: rest

record v4l2_queryctrl =
  queryctrl_id :: u32
  queryctrl_rest :: rest

record v4l2_querymenu =
  querymenu_id :: u32
  querymenu_index :: u32
  querymenu_rest :: rest

record v4l2_output =
  output_index :: u32
  output_rest :: rest

record v4l2_modulator =
  modulator_index :: u32
  modulator_txsubchans :: u32
  modulator_rest :: rest

record v4l2_frequency =
  frequency_tuner :: u32
  frequency_type :: u32
  frequency_frequency :: u32
  frequency_rest :: rest

record v4l2_frmsizeenum =
  frmsize_index :: u32
  frmsize_pixel_format :: u32
  frmsize_type :: u32
  frmsize_anon :: rest
  frmsize_rest :: rest

record v4l2_frmivalenum =
  frmival_index :: u32
  frmival_pixel_format :: u32
  frmival_width :: u32
  frmival_height :: u32
  frmival_type :: u32
  frmival_anon :: rest
  frmival_rest :: rest

record v4l2_event_subscription =
  subscription_type :: u32
  subscription_flags :: u32
  subscription_rest :: rest

record v4l2_create_buffers =
  create_count :: u32
  create_memory :: u32
  create_format :: v4l2_format
  create_rest :: rest

record v4l2_rect =
  rect_left :: i32
  rect_top :: i32
  rect_width :: u32
  rect_height :: u32

record v4l2_selection =
  selection_type :: u32
  selection_target :: u32
  selection_flags :: u32
  selection_r :: v4l2_rect
  selection_rest :: rest

record v4l2_enum_dv_timings =
  enum_timings_index :: u32
  enum_timings_timings :: v4l2_dv_timings
  enum_timings_rest :: rest

record v4l2_frequency_band =
  band_tuner :: u32
  band_type :: u32
  band_index :: u32
  band_rest :: rest

record v4l2_query_ext_ctrl =
  query_ext_id :: u32
  query_ext_rest :: rest

record v4l2_ext_control =
  ext_ctrl_size :: u32
  ext_ctrl_rest :: rest

record v4l2_ext_controls =
  ext_ctrls_count :: u32
  ext_ctrls_controls :: u64
  ext_ctrls_rest :: rest

record timeval =
  tv_sec :: u64
  tv_usec :: u64

record v4l2_pix_format =
  pix_width :: u32
  pix_height :: u32
  pix_pixelformat :: u32
  pix_field :: u32
  pix_bytesperline :: u32
  pix_sizeimage :: u32
  pix_colorspace :: u32
  pix_rest :: rest

record v4l2_pix_format_mplane =
  pix_mp_width :: u32
  pix_mp_height :: u32
  pix_mp_pixelformat :: u32
  pix_mp_field :: u32
  pix_mp_plane_fmt :: "(u32 \<times> u32) list"
  pix_mp_num_planes :: u8
  pix_mp_flags :: u8
  pix_mp_colorspace :: u32
  pix_mp_ycbcr_enc :: u8
  pix_mp_quantization :: u8
  pix_mp_xfer_func :: u8
  pix_mp_rest :: rest

record v4l2_event =
  event_type :: u32
  event_u :: rest
  event_rest :: rest

text \<open>
  The format of a plane is its line length and its size in bytes. \<open>V4l2MplaneFormat\<close>, which the crate converts from and to a direction and a
  \<open>v4l2_pix_format_mplane\<close>.
\<close>

type_synonym V4l2MplaneFormat = "QueueDirection \<times> v4l2_pix_format_mplane"

section \<open>The functions of the crate\<close>

text \<open>The layouts of the structures, which \<open>device/src/io/le.rs\<close> declares as wire types.\<close>

record v4l2_layouts =
  w_buffer :: "v4l2_buffer VmediaType"
  w_standard :: "v4l2_standard VmediaType"
  w_input :: "v4l2_input VmediaType"
  w_control :: "v4l2_control VmediaType"
  w_std_id :: "v4l2_std_id VmediaType"
  w_tuner :: "v4l2_tuner VmediaType"
  w_audio :: "v4l2_audio VmediaType"
  w_plane :: "v4l2_plane VmediaType"
  w_format :: "v4l2_format VmediaType"
  w_enc_idx :: "v4l2_enc_idx VmediaType"
  w_output :: "v4l2_output VmediaType"
  w_audioout :: "v4l2_audioout VmediaType"
  w_modulator :: "v4l2_modulator VmediaType"
  w_frequency :: "v4l2_frequency VmediaType"
  w_frmsizeenum :: "v4l2_frmsizeenum VmediaType"
  w_frmivalenum :: "v4l2_frmivalenum VmediaType"
  w_encoder_cmd :: "v4l2_encoder_cmd VmediaType"
  w_decoder_cmd :: "v4l2_decoder_cmd VmediaType"
  w_dv_timings :: "v4l2_dv_timings VmediaType"
  w_event_subscription :: "v4l2_event_subscription VmediaType"
  w_create_buffers :: "v4l2_create_buffers VmediaType"
  w_selection :: "v4l2_selection VmediaType"
  w_enum_dv_timings :: "v4l2_enum_dv_timings VmediaType"
  w_dv_timings_cap :: "v4l2_dv_timings_cap VmediaType"
  w_frequency_band :: "v4l2_frequency_band VmediaType"
  w_query_ext_ctrl :: "v4l2_query_ext_ctrl VmediaType"
  w_queryctrl :: "v4l2_queryctrl VmediaType"
  w_querymenu :: "v4l2_querymenu VmediaType"
  w_ext_control :: "v4l2_ext_control VmediaType"
  w_ext_controls :: "v4l2_ext_controls VmediaType"
  w_fmtdesc :: "v4l2_fmtdesc VmediaType"
  w_requestbuffers :: "v4l2_requestbuffers VmediaType"
  w_streamparm :: "v4l2_streamparm VmediaType"

text \<open>
  The conversions between numbers and enumerations: \<open>QueueType::n\<close> and the like, which are
  derived by the \<open>enumn\<close> crate, \<open>from_bits\<close> of the flag sets, and \<open>TryFrom\<close>.
\<close>

record v4l2_conversions = v4l2_layouts +
  QueueType_n :: "u32 \<Rightarrow> QueueType option"
  queue_as_u32 :: "QueueType \<Rightarrow> u32"
  is_multiplanar :: "QueueType \<Rightarrow> bool"
  queue_direction :: "QueueType \<Rightarrow> QueueDirection"
  queue_class :: "QueueType \<Rightarrow> QueueClass"
  MemoryType_n :: "u32 \<Rightarrow> MemoryType option"
  memory_as_u32 :: "MemoryType \<Rightarrow> u32"
  MemoryConsistency_from_bits :: "u32 \<Rightarrow> MemoryConsistency option"
  TunerMode_n :: "u32 \<Rightarrow> TunerMode option"
  AudioMode_n :: "u32 \<Rightarrow> AudioMode option"
  parse_ctrl_id_and_flags :: "u32 \<Rightarrow> CtrlId \<times> QueryCtrlFlags"
  TunerTransmissionFlags_from_bits :: "u32 \<Rightarrow> TunerTransmissionFlags option"
  TunerType_n :: "u32 \<Rightarrow> TunerType option"
  CtrlWhich_try_from :: "v4l2_ext_controls \<Rightarrow> CtrlWhich option"
  EventType_try_from :: "v4l2_event_subscription \<Rightarrow> EventType option"
  SubscribeEventFlags_from_bits :: "u32 \<Rightarrow> SubscribeEventFlags option"
  SelectionType_n :: "u32 \<Rightarrow> SelectionType option"
  SelectionTarget_n :: "u32 \<Rightarrow> SelectionTarget option"
  SelectionFlags_from_bits :: "u32 \<Rightarrow> SelectionFlags option"
  VIDEO_MAX_PLANES :: u32
  plane_default :: v4l2_plane
  set_output_writebuffers :: "v4l2_streamparm_parm \<Rightarrow> u32 \<Rightarrow> v4l2_streamparm_parm"
  set_capture_readbuffers :: "v4l2_streamparm_parm \<Rightarrow> u32 \<Rightarrow> v4l2_streamparm_parm"
  output_writebuffers :: "v4l2_streamparm_parm \<Rightarrow> u32"
  capture_readbuffers :: "v4l2_streamparm_parm \<Rightarrow> u32"
  fourcc :: "u8 list \<Rightarrow> u32"
  fmt_pix :: "v4l2_pix_format \<Rightarrow> v4l2_format_fmt"
  fmt_pix_mp :: "v4l2_format_fmt \<Rightarrow> v4l2_pix_format_mplane"
  V4L2_FIELD_NONE :: u32
  V4L2_COLORSPACE_SRGB :: u32
  V4L2_INPUT_TYPE_CAMERA :: u32
  V4L2_CAP_TIMEPERFRAME :: u32
  V4L2_FRMSIZE_TYPE_DISCRETE :: u32
  V4L2_FRMSIZE_TYPE_STEPWISE :: u32
  V4L2_FRMIVAL_TYPE_DISCRETE :: u32
  SUPPORTS_MMAP :: u32
  SUPPORTS_ORPHANED_BUFS :: u32
  set_capture_capability :: "v4l2_streamparm_parm \<Rightarrow> u32 \<Rightarrow> v4l2_streamparm_parm"
  set_capture_timeperframe :: "v4l2_streamparm_parm \<Rightarrow> u32 \<Rightarrow> u32 \<Rightarrow> v4l2_streamparm_parm"
  frmsize_discrete :: "u32 \<Rightarrow> u32 \<Rightarrow> rest"
  frmsize_stepwise :: "rest \<Rightarrow> rest"
  frmival_discrete :: "u32 \<Rightarrow> u32 \<Rightarrow> rest"
  streamparm_default :: v4l2_streamparm_parm
  fmtdesc_default :: rest
  pix_default :: rest
  input_zeroed :: rest
  reqbufs_default :: rest
  frmsize_default :: rest
  frmival_default :: rest
  mplane_as_format :: "V4l2MplaneFormat \<Rightarrow> v4l2_format"
  mplane_size :: "V4l2MplaneFormat \<Rightarrow> u32 \<times> u32"
  mplane_sizeimages :: "V4l2MplaneFormat \<Rightarrow> u32 list"
  mplane_colorspace :: "V4l2MplaneFormat \<Rightarrow> Colorspace"
  mplane_xfer_func :: "V4l2MplaneFormat \<Rightarrow> XferFunc"
  mplane_ycbcr_enc :: "V4l2MplaneFormat \<Rightarrow> YCbCrEncoding"
  mplane_quantization :: "V4l2MplaneFormat \<Rightarrow> Quantization"
  Colorspace_n :: "u32 \<Rightarrow> Colorspace option"
  XferFunc_n :: "u32 \<Rightarrow> XferFunc option"
  YCbCrEncoding_n :: "u32 \<Rightarrow> YCbCrEncoding option"
  Quantization_n :: "u32 \<Rightarrow> Quantization option"
  REC709 :: Colorspace
  XFER_NONE :: XferFunc
  YCBCR_E709 :: YCbCrEncoding
  LIM_RANGE :: Quantization
  DecoderCmd_try_from :: "v4l2_decoder_cmd \<Rightarrow> DecoderCmd option"
  decoder_cmd_into :: "DecoderCmd \<Rightarrow> v4l2_decoder_cmd"
  stop_default :: rest
  start_default :: rest
  pause_default :: rest
  V4L2_EVENT_SOURCE_CHANGE :: u32
  V4L2_EVENT_EOS :: u32
  SRC_CHANGE_RESOLUTION :: u32
  event_src_change :: "u32 \<Rightarrow> rest"
  event_u_default :: rest
  event_default :: rest

text \<open>
  \<open>V4l2Buffer\<close>, a type of the crate whose values are of the type \<open>'vb\<close> of the model: the
  constructors, the accessors, and the access to its first plane and to its planes by memory
  type. \<open>vb_mmap_offsets\<close> and \<open>vb_userptr_lengths\<close> are \<open>planes_with_backing_iter\<close> when the
  buffer is of that memory type: the offsets, and the lengths, of its planes.
  \<open>vb_set_mmap_plane\<close> is the first plane of \<open>planes_with_backing_iter_mut\<close> with its offset and
  length set, and \<open>None\<close> when the buffer is not of the MMAP type.
\<close>

record 'vb v4l2r = v4l2_conversions +
  vb_new :: "QueueType \<Rightarrow> u32 \<Rightarrow> MemoryType \<Rightarrow> 'vb"
  vb_try_from :: "v4l2_buffer \<Rightarrow> v4l2_plane list option \<Rightarrow> 'vb option"
  as_v4l2_buffer :: "'vb \<Rightarrow> v4l2_buffer"
  as_v4l2_planes :: "'vb \<Rightarrow> v4l2_plane list"
  vb_index :: "'vb \<Rightarrow> u32"
  vb_queue :: "'vb \<Rightarrow> QueueType"
  vb_memory :: "'vb \<Rightarrow> MemoryType"
  vb_num_planes :: "'vb \<Rightarrow> nat"
  vb_flags :: "'vb \<Rightarrow> BufferFlags"
  vb_set_flags :: "'vb \<Rightarrow> BufferFlags \<Rightarrow> 'vb"
  vb_add_flags :: "'vb \<Rightarrow> BufferFlags \<Rightarrow> 'vb"
  vb_clear_flags :: "'vb \<Rightarrow> BufferFlags \<Rightarrow> 'vb"
  vb_set_field :: "'vb \<Rightarrow> BufferField \<Rightarrow> 'vb"
  vb_set_sequence :: "'vb \<Rightarrow> u32 \<Rightarrow> 'vb"
  vb_sequence :: "'vb \<Rightarrow> u32"
  vb_timestamp :: "'vb \<Rightarrow> timeval"
  vb_set_timestamp :: "'vb \<Rightarrow> timeval \<Rightarrow> 'vb"
  vb_bytesused :: "'vb \<Rightarrow> u32"
  vb_set_bytesused :: "'vb \<Rightarrow> u32 \<Rightarrow> 'vb"
  vb_length :: "'vb \<Rightarrow> u32"
  vb_set_length :: "'vb \<Rightarrow> u32 \<Rightarrow> 'vb"
  vb_data_offset :: "'vb \<Rightarrow> u32 option"
  vb_set_data_offset :: "'vb \<Rightarrow> u32 \<Rightarrow> 'vb"
  vb_mmap_offsets :: "'vb \<Rightarrow> u32 list option"
  vb_userptr_lengths :: "'vb \<Rightarrow> u32 list option"
  vb_set_mmap_plane :: "'vb \<Rightarrow> u32 \<Rightarrow> u32 \<Rightarrow> 'vb option"
  BUF_QUEUED :: BufferFlags
  BUF_LAST :: BufferFlags
  BUF_ERROR :: BufferFlags
  BUF_TIMESTAMP_MONOTONIC :: BufferFlags
  BUF_TIMESTAMP_COPY :: BufferFlags
  FIELD_NONE :: BufferField

end
