(* ===== verification/Chain.thy ===== *)
theory Chain
  imports V4l2r
begin

text \<open>
  The composite objects that \<open>device/src/ioctl.rs\<close> reads from and writes to a descriptor chain:
  scatter-gather lists of guest memory, V4L2 buffers with their planes, and extended controls with
  their payloads. Reading stops at the first error; writing stops when the chain is full.
\<close>

section \<open>Sequencing\<close>

type_synonym 'a chain_read = "Reader \<Rightarrow> Reader \<times> (io_error + 'a)"
type_synonym chain_write = "Writer \<Rightarrow> Writer \<times> (io_error + unit)"

definition r_ok :: "'a \<Rightarrow> 'a chain_read" where "r_ok x r = (r, Inr x)"
definition r_err :: "io_error \<Rightarrow> 'a chain_read" where "r_err e r = (r, Inl e)"

text \<open>The operator \<open>?\<close> on a read and on a write.\<close>

definition r_then :: "'a chain_read \<Rightarrow> ('a \<Rightarrow> 'b chain_read) \<Rightarrow> 'b chain_read" where
  "r_then m f r = (case m r of (r', Inl e) \<Rightarrow> (r', Inl e) | (r', Inr x) \<Rightarrow> f x r')"

definition w_then :: "chain_write \<Rightarrow> chain_write \<Rightarrow> chain_write" where
  "w_then m f w = (case m w of (w', Inl e) \<Rightarrow> (w', Inl e) | (w', Inr x) \<Rightarrow> f w')"

text \<open>\<open>map_err\<close> to \<open>ErrorKind::InvalidData\<close>.\<close>

definition r_invalid :: "'a chain_read \<Rightarrow> 'a chain_read" where
  "r_invalid m r = (case m r of (r', Inl e) \<Rightarrow> (r', Inl InvalidData) | (r', Inr x) \<Rightarrow> (r', Inr x))"

text \<open>A sequence of reads collected into a vector, up to the first error.\<close>

primrec read_all :: "'a chain_read list \<Rightarrow> 'a list chain_read" where
  "read_all [] = r_ok []"
| "read_all (m # ms) = r_then m (\<lambda>x. r_then (read_all ms) (\<lambda>xs. r_ok (x # xs)))"

primrec write_each :: "'a VmediaType \<Rightarrow> 'a list \<Rightarrow> chain_write" where
  "write_each t [] w = (w, Inr ())"
| "write_each t (x # xs) w = w_then (write_obj t x) (write_each t xs) w"

lemma r_then_ok [simp]: "r_then (r_ok x) f = f x"
  by (simp add: r_then_def r_ok_def fun_eq_iff)

lemma r_then_Inr:
  "r_then m f r = (r', Inr y) \<longleftrightarrow> (\<exists>r1 x. m r = (r1, Inr x) \<and> f x r1 = (r', Inr y))"
  by (auto simp: r_then_def split: prod.splits sum.splits)

lemma w_then_extends:
  assumes "\<And>w w' x. m w = (w', x) \<Longrightarrow> extends w w'" and "\<And>w w' x. f w = (w', x) \<Longrightarrow> extends w w'"
    and "w_then m f w = (w', x)"
  shows "extends w w'"
  using assms(3) by (auto simp: w_then_def dest: assms(1,2) intro: extends_trans split: prod.splits sum.splits)

lemma write_each_extends: "write_each t xs w = (w', x) \<Longrightarrow> extends w w'"
proof (induction xs arbitrary: w w' x)
  case (Cons a xs)
  show ?case
    by (rule w_then_extends [OF write_obj_extends Cons.IH]) (use Cons.prems in auto)
qed simp

text \<open>A read is well behaved when what it leaves is a suffix of what it was given.\<close>

definition consumes :: "'a chain_read \<Rightarrow> bool" where
  "consumes m \<longleftrightarrow> (\<forall>r r' x. m r = (r', x) \<longrightarrow> (\<exists>bs. r = bs @ r'))"

lemma consumes_ok [simp]: "consumes (r_ok x)" and consumes_err [simp]: "consumes (r_err e)"
  by (simp_all add: consumes_def r_ok_def r_err_def)

lemma consumes_read_obj [simp]: "consumes (read_obj t)"
proof (unfold consumes_def, intro allI impI)
  fix r r' x assume "read_obj t r = (r', x)"
  then show "\<exists>bs. r = bs @ r'"
    by (cases t r rule: read_obj_cases) (auto, metis append_take_drop_id)
qed

lemma consumes_then: "consumes m \<Longrightarrow> (\<And>x. consumes (f x)) \<Longrightarrow> consumes (r_then m f)"
  unfolding consumes_def r_then_def
  by (fastforce split: prod.splits sum.splits)

lemma consumes_invalid: "consumes m \<Longrightarrow> consumes (r_invalid m)"
  unfolding consumes_def r_invalid_def by (fastforce split: prod.splits sum.splits)

lemma consumes_all: "\<forall>m \<in> set ms. consumes m \<Longrightarrow> consumes (read_all ms)"
  by (induction ms) (auto intro!: consumes_then)

section \<open>Scatter-gather lists\<close>

lemma read_sg_shorter: "read_obj wire_SgEntry r = (r', Inr sg) \<Longrightarrow> length r' < length r"
  by (cases wire_SgEntry r rule: read_obj_cases) auto

text \<open>
  \<open>get_userptr_regions\<close>: read entries until their lengths reach \<open>size\<close>. The counter is a
  \<open>usize\<close> that is less than \<open>size\<close>, a 32-bit value, before each addition of a 32-bit length,
  so it does not overflow; it is a natural number here. The loop ends because each turn consumes
  the sixteen bytes of an entry.
\<close>

function userptr_loop :: "nat \<Rightarrow> nat \<Rightarrow> SgEntry list \<Rightarrow> SgEntry list chain_read" where
  "userptr_loop sz bytes_taken res r =
     (if bytes_taken < sz then
        (case read_obj wire_SgEntry r of
           (r', Inl e) \<Rightarrow> (r', Inl e)
         | (r', Inr sg_entry) \<Rightarrow>
             userptr_loop sz (bytes_taken + unat (sg_len sg_entry)) (res @ [sg_entry]) r')
      else (r, Inr res))"
  by pat_completeness auto

termination
  by (relation "measure (\<lambda>(sz, taken, res, r). length r)") (auto dest: sym intro: read_sg_shorter)

declare userptr_loop.simps [simp del]

definition get_userptr_regions :: "nat \<Rightarrow> SgEntry list chain_read" where
  "get_userptr_regions sz r = userptr_loop sz 0 [] r"

section \<open>Buffers\<close>

text \<open>The implementation of \<open>FromDescriptorChain\<close> for a V4L2 buffer and its guest memory regions.\<close>

definition read_planes :: "'vb v4l2r \<Rightarrow> QueueType \<Rightarrow> v4l2_buffer \<Rightarrow> v4l2_plane list option chain_read" where
  "read_planes K queue b =
     (if is_multiplanar K queue \<and> 0 < buffer_length b then
        (if VIDEO_MAX_PLANES K < buffer_length b then r_err InvalidData
         else r_then (read_all (replicate (unat (buffer_length b)) (read_obj (w_plane K)))) (\<lambda>planes.
           r_ok (Some (take (unat (VIDEO_MAX_PLANES K))
             (planes @ replicate (unat (VIDEO_MAX_PLANES K)) (plane_default K))))))
      else r_ok None)"

definition read_regions :: "u32 list \<Rightarrow> SgEntry list list chain_read" where
  "read_regions lengths =
     read_all (map (\<lambda>len. r_invalid (get_userptr_regions (unat len))) (filter (\<lambda>len. 0 < len) lengths))"

definition read_V4l2Buffer :: "'vb v4l2r \<Rightarrow> ('vb \<times> SgEntry list list) chain_read" where
  "read_V4l2Buffer K =
     r_then (read_obj (w_buffer K)) (\<lambda>b.
       case QueueType_n K (buffer_type b) of
         None \<Rightarrow> r_err InvalidData
       | Some queue \<Rightarrow>
           r_then (read_planes K queue b) (\<lambda>planes.
             case vb_try_from K b planes of
               None \<Rightarrow> r_err InvalidData
             | Some v4l2_buffer \<Rightarrow>
                 r_then (case vb_userptr_lengths K v4l2_buffer of
                           Some lengths \<Rightarrow> read_regions lengths
                         | None \<Rightarrow> r_ok [])
                   (\<lambda>guest_regions. r_ok (v4l2_buffer, guest_regions))))"

text \<open>
  The implementation of \<open>ToDescriptorChain\<close> for a V4L2 buffer and the number of planes that may
  be written: the pointer to the planes of a multi-planar buffer is cleared.
\<close>

definition write_V4l2Buffer :: "'vb v4l2r \<Rightarrow> 'vb \<times> nat \<Rightarrow> chain_write" where
  "write_V4l2Buffer K vn =
     (case vn of (vb, n) \<Rightarrow>
       let b = as_v4l2_buffer K vb;
           b = (if is_multiplanar K (vb_queue K vb) then b\<lparr>buffer_m_planes := 0\<rparr> else b)
       in w_then (write_obj (w_buffer K) b) (write_each (w_plane K) (take n (as_v4l2_planes K vb))))"

section \<open>Extended controls\<close>

definition read_ext_controls ::
  "'vb v4l2r \<Rightarrow> (v4l2_ext_controls \<times> v4l2_ext_control list \<times> SgEntry list list) chain_read"
where
  "read_ext_controls K =
     r_then (read_obj (w_ext_controls K)) (\<lambda>ctrls.
     r_then (read_all (replicate (unat (ext_ctrls_count ctrls)) (read_obj (w_ext_control K)))) (\<lambda>ctrl_array.
     r_then (read_regions (map ext_ctrl_size ctrl_array)) (\<lambda>mem_regions.
       r_ok (ctrls, ctrl_array, mem_regions))))"

definition write_ext_controls :: "'vb v4l2r \<Rightarrow> v4l2_ext_controls \<times> v4l2_ext_control list \<Rightarrow> chain_write" where
  "write_ext_controls K c =
     (case c of (ctrls, ctrl_array) \<Rightarrow>
       w_then (write_obj (w_ext_controls K) (ctrls\<lparr>ext_ctrls_controls := 0\<rparr>))
         (write_each (w_ext_control K) ctrl_array))"

lemma write_V4l2Buffer_extends: "write_V4l2Buffer K vn w = (w', x) \<Longrightarrow> extends w w'"
  unfolding write_V4l2Buffer_def Let_def case_prod_beta
  by (rule w_then_extends [OF write_obj_extends write_each_extends])

lemma write_ext_controls_extends: "write_ext_controls K c w = (w', x) \<Longrightarrow> extends w w'"
  unfolding write_ext_controls_def case_prod_beta
  by (rule w_then_extends [OF write_obj_extends write_each_extends])

section \<open>What reading guarantees\<close>

lemma userptr_loop_result:
  "userptr_loop sz taken res r = (r', Inr sgs) \<Longrightarrow>
   \<exists>new. sgs = res @ new \<and> r = concat (map (as_bytes wire_SgEntry) new) @ r' \<and>
     sz \<le> taken + (\<Sum>sg\<leftarrow>new. unat (sg_len sg)) \<and>
     (\<forall>k < length new. taken + (\<Sum>sg\<leftarrow>take k new. unat (sg_len sg)) < sz)"
proof (induction sz taken res r rule: userptr_loop.induct)
  case (1 sz taken res r)
  show ?case
  proof (cases "taken < sz")
    case False
    with "1.prems" show ?thesis by (intro exI [of _ "[]"]) (simp add: userptr_loop.simps [of sz])
  next
    case True
    show ?thesis
    proof (cases wire_SgEntry r rule: read_obj_cases)
      case 2
      with "1.prems" True show ?thesis by (simp add: userptr_loop.simps [of sz taken])
    next
      case one: 1
      define sg where "sg = from_bytes wire_SgEntry (take 16 r)"
      have rd: "read_obj wire_SgEntry r = (drop 16 r, Inr sg)" using one by (simp add: sg_def)
      have r: "r = as_bytes wire_SgEntry sg @ drop 16 r"
        using one by (simp add: sg_def SgEntry.as_from_bytes)
      from "1.prems" True rd
      have rec: "userptr_loop sz (taken + unat (sg_len sg)) (res @ [sg]) (drop 16 r) = (r', Inr sgs)"
        by (simp add: userptr_loop.simps [of sz taken])
      from "1.IH" [OF True rd [symmetric] refl rec] obtain new where
        new: "sgs = (res @ [sg]) @ new" "drop 16 r = concat (map (as_bytes wire_SgEntry) new) @ r'"
          "sz \<le> taken + unat (sg_len sg) + (\<Sum>sg\<leftarrow>new. unat (sg_len sg))"
          "\<forall>k < length new. taken + unat (sg_len sg) + (\<Sum>sg\<leftarrow>take k new. unat (sg_len sg)) < sz"
        by blast
      have "\<forall>k < length (sg # new). taken + (\<Sum>sg\<leftarrow>take k (sg # new). unat (sg_len sg)) < sz"
        using new(4) True by (auto simp: take_Cons' add.assoc)
      moreover have "r = concat (map (as_bytes wire_SgEntry) (sg # new)) @ r'"
        using r new(2) by simp
      ultimately show ?thesis using new(1,3) by (intro exI [of _ "sg # new"]) (simp add: add.assoc)
    qed
  qed
qed

lemma consumes_userptr_loop: "userptr_loop sz taken res r = (r', x) \<Longrightarrow> \<exists>bs. r = bs @ r'"
proof (induction sz taken res r rule: userptr_loop.induct)
  case (1 sz taken res r)
  show ?case
  proof (cases "taken < sz")
    case False
    with "1.prems" show ?thesis by (simp add: userptr_loop.simps [of sz taken])
  next
    case True
    obtain r1 y where rd: "read_obj wire_SgEntry r = (r1, y)" by (cases rule: prod.exhaust)
    with consumes_read_obj [of wire_SgEntry] obtain bs where bs: "r = bs @ r1"
      unfolding consumes_def by blast
    show ?thesis
    proof (cases y)
      case (Inl e)
      with "1.prems" True rd bs show ?thesis by (auto simp: userptr_loop.simps [of sz taken])
    next
      case (Inr sg)
      with "1.prems" True rd
      have "userptr_loop sz (taken + unat (sg_len sg)) (res @ [sg]) r1 = (r', x)"
        by (simp add: userptr_loop.simps [of sz taken])
      from "1.IH" [OF True rd [symmetric] Inr this] bs show ?thesis by auto
    qed
  qed
qed

lemma consumes_userptr [simp]: "consumes (get_userptr_regions sz)"
  by (auto simp: consumes_def get_userptr_regions_def dest: consumes_userptr_loop)

lemma consumes_regions [simp]: "consumes (read_regions lengths)"
  by (auto simp: read_regions_def intro!: consumes_all consumes_invalid)

lemma consumes_planes: "consumes (read_planes K queue b)"
  by (auto simp: read_planes_def intro!: consumes_then consumes_all)

lemma consumes_V4l2Buffer: "consumes (read_V4l2Buffer K)"
  unfolding read_V4l2Buffer_def
  by (intro consumes_then consumes_read_obj)
    (auto split: option.splits intro!: consumes_then consumes_planes)

lemma consumes_ext_controls: "consumes (read_ext_controls K)"
  by (auto simp: read_ext_controls_def intro!: consumes_then consumes_all)

lemma read_all_length: "read_all ms r = (r', Inr xs) \<Longrightarrow> length xs = length ms"
  by (induction ms arbitrary: r xs) (auto simp: r_then_Inr r_ok_def)

end
