(* ===== verification/Ioctl_Handler.thy ===== *)
theory Ioctl_Handler
  imports Chain
begin

text \<open>
  The trait \<open>VirtioMediaIoctlHandler\<close> of \<open>device/src/ioctl.rs\<close>: a record of methods over the
  state \<open>'h\<close> of the device and the state \<open>'s\<close> of the session, and its default methods.
\<close>

section \<open>Methods\<close>

text \<open>
  A method with a mutable session returns the new states of the device and of the session, one
  with a shared session the new state of the device, and one with a shared device neither. The
  methods for extended controls also return the controls, which they change in place even when
  they fail. \<open>None\<close> is a panic.
\<close>

type_synonym 'r IoctlResult = "i32 + 'r"
type_synonym ('h, 's, 'r) rw_method = "'h \<Rightarrow> 's \<Rightarrow> ('h \<times> 's \<times> 'r IoctlResult) option"
type_synonym ('h, 's, 'r) ro_method = "'h \<Rightarrow> 's \<Rightarrow> ('h \<times> 'r IoctlResult) option"
type_synonym ('h, 's, 'r) ref_method = "'h \<Rightarrow> 's \<Rightarrow> 'r IoctlResult option"
type_synonym ctrls_result = "v4l2_ext_controls \<times> v4l2_ext_control list \<times> unit IoctlResult"
type_synonym ('h, 's) rw_ctrls_method = "'h \<Rightarrow> 's \<Rightarrow> ('h \<times> 's \<times> ctrls_result) option"
type_synonym ('h, 's) ro_ctrls_method = "'h \<Rightarrow> 's \<Rightarrow> ('h \<times> ctrls_result) option"

definition rw_call :: "('h, 's, 'r) rw_method \<Rightarrow> ('h, 's, 'r) rw_method" where
  "rw_call m = m"

definition ro_call :: "('h, 's, 'r) ro_method \<Rightarrow> ('h, 's, 'r) rw_method" where
  "ro_call m h s = map_option (\<lambda>(h', x). (h', s, x)) (m h s)"

definition ref_call :: "('h, 's, 'r) ref_method \<Rightarrow> ('h, 's, 'r) rw_method" where
  "ref_call m h s = map_option (\<lambda>x. (h, s, x)) (m h s)"

definition fail :: "i32 \<Rightarrow> ('h, 's, 'r) rw_method" where
  "fail e h s = Some (h, s, Inl e)"

text \<open>\<open>ok_or(e)?\<close>, \<open>unwrap()\<close> and \<open>map\<close> of the closures.\<close>

definition ok_or :: "'a option \<Rightarrow> i32 \<Rightarrow> ('a \<Rightarrow> ('h, 's, 'r) rw_method) \<Rightarrow> ('h, 's, 'r) rw_method" where
  "ok_or x e f = (case x of None \<Rightarrow> fail e | Some a \<Rightarrow> f a)"

definition unwrap :: "'a option \<Rightarrow> ('a \<Rightarrow> ('h, 's, 'r) rw_method) \<Rightarrow> ('h, 's, 'r) rw_method" where
  "unwrap x f = (case x of None \<Rightarrow> (\<lambda>h s. None) | Some a \<Rightarrow> f a)"

definition map_ok :: "('a \<Rightarrow> 'b) \<Rightarrow> ('h, 's, 'a) rw_method \<Rightarrow> ('h, 's, 'b) rw_method" where
  "map_ok f m h s = map_option (\<lambda>(h', s', x). (h', s', map_sum id f x)) (m h s)"

section \<open>The handler trait\<close>

record ('h, 's, 'vb) VirtioMediaIoctlHandler =
  h_enum_fmt :: "QueueType \<Rightarrow> u32 \<Rightarrow> ('h, 's, v4l2_fmtdesc) ro_method"
  h_g_fmt :: "QueueType \<Rightarrow> ('h, 's, v4l2_format) ro_method"
  h_s_fmt :: "QueueType \<Rightarrow> v4l2_format \<Rightarrow> ('h, 's, v4l2_format) rw_method"
  h_reqbufs :: "QueueType \<Rightarrow> MemoryType \<Rightarrow> u32 \<Rightarrow> MemoryConsistency \<Rightarrow> ('h, 's, v4l2_requestbuffers) rw_method"
  h_querybuf :: "QueueType \<Rightarrow> u32 \<Rightarrow> ('h, 's, 'vb) ro_method"
  h_qbuf :: "'vb \<Rightarrow> SgEntry list list \<Rightarrow> ('h, 's, 'vb) rw_method"
  h_streamon :: "QueueType \<Rightarrow> ('h, 's, unit) rw_method"
  h_streamoff :: "QueueType \<Rightarrow> ('h, 's, unit) rw_method"
  h_g_parm :: "QueueType \<Rightarrow> ('h, 's, v4l2_streamparm) ro_method"
  h_s_parm :: "v4l2_streamparm \<Rightarrow> ('h, 's, v4l2_streamparm) rw_method"
  h_g_std :: "('h, 's, v4l2_std_id) ro_method"
  h_s_std :: "v4l2_std_id \<Rightarrow> ('h, 's, unit) rw_method"
  h_enumstd :: "u32 \<Rightarrow> ('h, 's, v4l2_standard) ro_method"
  h_enuminput :: "u32 \<Rightarrow> ('h, 's, v4l2_input) ro_method"
  h_g_ctrl :: "u32 \<Rightarrow> ('h, 's, v4l2_control) ro_method"
  h_s_ctrl :: "u32 \<Rightarrow> i32 \<Rightarrow> ('h, 's, v4l2_control) rw_method"
  h_g_tuner :: "u32 \<Rightarrow> ('h, 's, v4l2_tuner) ro_method"
  h_s_tuner :: "u32 \<Rightarrow> TunerMode \<Rightarrow> ('h, 's, unit) rw_method"
  h_g_audio :: "('h, 's, v4l2_audio) ro_method"
  h_s_audio :: "u32 \<Rightarrow> AudioMode option \<Rightarrow> ('h, 's, unit) rw_method"
  h_queryctrl :: "CtrlId \<Rightarrow> QueryCtrlFlags \<Rightarrow> ('h, 's, v4l2_queryctrl) ro_method"
  h_querymenu :: "u32 \<Rightarrow> u32 \<Rightarrow> ('h, 's, v4l2_querymenu) ro_method"
  h_g_input :: "('h, 's, i32) ro_method"
  h_s_input :: "i32 \<Rightarrow> ('h, 's, i32) rw_method"
  h_g_output :: "('h, 's, i32) ro_method"
  h_s_output :: "i32 \<Rightarrow> ('h, 's, i32) rw_method"
  h_enumoutput :: "u32 \<Rightarrow> ('h, 's, v4l2_output) ro_method"
  h_g_audout :: "('h, 's, v4l2_audioout) ro_method"
  h_s_audout :: "u32 \<Rightarrow> ('h, 's, unit) rw_method"
  h_g_modulator :: "u32 \<Rightarrow> ('h, 's, v4l2_modulator) ro_method"
  h_s_modulator :: "u32 \<Rightarrow> TunerTransmissionFlags \<Rightarrow> ('h, 's, unit) rw_method"
  h_g_frequency :: "u32 \<Rightarrow> ('h, 's, v4l2_frequency) ro_method"
  h_s_frequency :: "u32 \<Rightarrow> TunerType \<Rightarrow> u32 \<Rightarrow> ('h, 's, unit) rw_method"
  h_querystd :: "('h, 's, v4l2_std_id) ro_method"
  h_try_fmt :: "QueueType \<Rightarrow> v4l2_format \<Rightarrow> ('h, 's, v4l2_format) ro_method"
  h_enumaudio :: "u32 \<Rightarrow> ('h, 's, v4l2_audio) ro_method"
  h_enumaudout :: "u32 \<Rightarrow> ('h, 's, v4l2_audioout) ro_method"
  h_g_ext_ctrls :: "CtrlWhich \<Rightarrow> v4l2_ext_controls \<Rightarrow> v4l2_ext_control list \<Rightarrow> SgEntry list list \<Rightarrow> ('h, 's) ro_ctrls_method"
  h_s_ext_ctrls :: "CtrlWhich \<Rightarrow> v4l2_ext_controls \<Rightarrow> v4l2_ext_control list \<Rightarrow> SgEntry list list \<Rightarrow> ('h, 's) rw_ctrls_method"
  h_try_ext_ctrls :: "CtrlWhich \<Rightarrow> v4l2_ext_controls \<Rightarrow> v4l2_ext_control list \<Rightarrow> SgEntry list list \<Rightarrow> ('h, 's) ro_ctrls_method"
  h_enum_framesizes :: "u32 \<Rightarrow> u32 \<Rightarrow> ('h, 's, v4l2_frmsizeenum) ro_method"
  h_enum_frameintervals :: "u32 \<Rightarrow> u32 \<Rightarrow> u32 \<Rightarrow> u32 \<Rightarrow> ('h, 's, v4l2_frmivalenum) ro_method"
  h_g_enc_index :: "('h, 's, v4l2_enc_idx) ro_method"
  h_encoder_cmd :: "v4l2_encoder_cmd \<Rightarrow> ('h, 's, v4l2_encoder_cmd) rw_method"
  h_try_encoder_cmd :: "v4l2_encoder_cmd \<Rightarrow> ('h, 's, v4l2_encoder_cmd) ro_method"
  h_s_dv_timings :: "v4l2_dv_timings \<Rightarrow> ('h, 's, v4l2_dv_timings) rw_method"
  h_g_dv_timings :: "('h, 's, v4l2_dv_timings) ro_method"
  h_subscribe_event :: "EventType \<Rightarrow> SubscribeEventFlags \<Rightarrow> ('h, 's, unit) rw_method"
  h_unsubscribe_event :: "v4l2_event_subscription \<Rightarrow> ('h, 's, unit) rw_method"
  h_create_bufs :: "u32 \<Rightarrow> QueueType \<Rightarrow> MemoryType \<Rightarrow> v4l2_format \<Rightarrow> ('h, 's, v4l2_create_buffers) rw_method"
  h_prepare_buf :: "'vb \<Rightarrow> SgEntry list list \<Rightarrow> ('h, 's, 'vb) rw_method"
  h_g_selection :: "SelectionType \<Rightarrow> SelectionTarget \<Rightarrow> ('h, 's, v4l2_rect) ro_method"
  h_s_selection :: "SelectionType \<Rightarrow> SelectionTarget \<Rightarrow> v4l2_rect \<Rightarrow> SelectionFlags \<Rightarrow> ('h, 's, v4l2_rect) rw_method"
  h_decoder_cmd :: "v4l2_decoder_cmd \<Rightarrow> ('h, 's, v4l2_decoder_cmd) rw_method"
  h_try_decoder_cmd :: "v4l2_decoder_cmd \<Rightarrow> ('h, 's, v4l2_decoder_cmd) ro_method"
  h_enum_dv_timings :: "u32 \<Rightarrow> ('h, 's, v4l2_dv_timings) ro_method"
  h_query_dv_timings :: "('h, 's, v4l2_dv_timings) ro_method"
  h_dv_timings_cap :: "('h, 's, v4l2_dv_timings_cap) ref_method"
  h_enum_freq_bands :: "u32 \<Rightarrow> TunerType \<Rightarrow> u32 \<Rightarrow> ('h, 's, v4l2_frequency_band) ref_method"
  h_query_ext_ctrl :: "CtrlId \<Rightarrow> QueryCtrlFlags \<Rightarrow> ('h, 's, v4l2_query_ext_ctrl) ro_method"

text \<open>The default implementations: the macro \<open>unhandled_ioctl!\<close> in every method.\<close>

definition unhandled_rw :: "('h, 's, 'r) rw_method" where "unhandled_rw h s = Some (h, s, Inl ENOTTY)"
definition unhandled_ro :: "('h, 's, 'r) ro_method" where "unhandled_ro h s = Some (h, Inl ENOTTY)"
definition unhandled_ref :: "('h, 's, 'r) ref_method" where "unhandled_ref h s = Some (Inl ENOTTY)"

definition unhandled_rw_ctrls :: "v4l2_ext_controls \<Rightarrow> v4l2_ext_control list \<Rightarrow> ('h, 's) rw_ctrls_method" where
  "unhandled_rw_ctrls ctrls ctrl_array h s = Some (h, s, ctrls, ctrl_array, Inl ENOTTY)"

definition unhandled_ro_ctrls :: "v4l2_ext_controls \<Rightarrow> v4l2_ext_control list \<Rightarrow> ('h, 's) ro_ctrls_method" where
  "unhandled_ro_ctrls ctrls ctrl_array h s = Some (h, ctrls, ctrl_array, Inl ENOTTY)"

definition default_handler :: "('h, 's, 'vb) VirtioMediaIoctlHandler" where
  "default_handler =
     \<lparr>h_enum_fmt = (\<lambda>_ _. unhandled_ro),
      h_g_fmt = (\<lambda>_. unhandled_ro),
      h_s_fmt = (\<lambda>_ _. unhandled_rw),
      h_reqbufs = (\<lambda>_ _ _ _. unhandled_rw),
      h_querybuf = (\<lambda>_ _. unhandled_ro),
      h_qbuf = (\<lambda>_ _. unhandled_rw),
      h_streamon = (\<lambda>_. unhandled_rw),
      h_streamoff = (\<lambda>_. unhandled_rw),
      h_g_parm = (\<lambda>_. unhandled_ro),
      h_s_parm = (\<lambda>_. unhandled_rw),
      h_g_std = unhandled_ro,
      h_s_std = (\<lambda>_. unhandled_rw),
      h_enumstd = (\<lambda>_. unhandled_ro),
      h_enuminput = (\<lambda>_. unhandled_ro),
      h_g_ctrl = (\<lambda>_. unhandled_ro),
      h_s_ctrl = (\<lambda>_ _. unhandled_rw),
      h_g_tuner = (\<lambda>_. unhandled_ro),
      h_s_tuner = (\<lambda>_ _. unhandled_rw),
      h_g_audio = unhandled_ro,
      h_s_audio = (\<lambda>_ _. unhandled_rw),
      h_queryctrl = (\<lambda>_ _. unhandled_ro),
      h_querymenu = (\<lambda>_ _. unhandled_ro),
      h_g_input = unhandled_ro,
      h_s_input = (\<lambda>_. unhandled_rw),
      h_g_output = unhandled_ro,
      h_s_output = (\<lambda>_. unhandled_rw),
      h_enumoutput = (\<lambda>_. unhandled_ro),
      h_g_audout = unhandled_ro,
      h_s_audout = (\<lambda>_. unhandled_rw),
      h_g_modulator = (\<lambda>_. unhandled_ro),
      h_s_modulator = (\<lambda>_ _. unhandled_rw),
      h_g_frequency = (\<lambda>_. unhandled_ro),
      h_s_frequency = (\<lambda>_ _ _. unhandled_rw),
      h_querystd = unhandled_ro,
      h_try_fmt = (\<lambda>_ _. unhandled_ro),
      h_enumaudio = (\<lambda>_. unhandled_ro),
      h_enumaudout = (\<lambda>_. unhandled_ro),
      h_g_ext_ctrls = (\<lambda>_ ctrls ctrl_array _. unhandled_ro_ctrls ctrls ctrl_array),
      h_s_ext_ctrls = (\<lambda>_ ctrls ctrl_array _. unhandled_rw_ctrls ctrls ctrl_array),
      h_try_ext_ctrls = (\<lambda>_ ctrls ctrl_array _. unhandled_ro_ctrls ctrls ctrl_array),
      h_enum_framesizes = (\<lambda>_ _. unhandled_ro),
      h_enum_frameintervals = (\<lambda>_ _ _ _. unhandled_ro),
      h_g_enc_index = unhandled_ro,
      h_encoder_cmd = (\<lambda>_. unhandled_rw),
      h_try_encoder_cmd = (\<lambda>_. unhandled_ro),
      h_s_dv_timings = (\<lambda>_. unhandled_rw),
      h_g_dv_timings = unhandled_ro,
      h_subscribe_event = (\<lambda>_ _. unhandled_rw),
      h_unsubscribe_event = (\<lambda>_. unhandled_rw),
      h_create_bufs = (\<lambda>_ _ _ _. unhandled_rw),
      h_prepare_buf = (\<lambda>_ _. unhandled_rw),
      h_g_selection = (\<lambda>_ _. unhandled_ro),
      h_s_selection = (\<lambda>_ _ _ _. unhandled_rw),
      h_decoder_cmd = (\<lambda>_. unhandled_rw),
      h_try_decoder_cmd = (\<lambda>_. unhandled_ro),
      h_enum_dv_timings = (\<lambda>_. unhandled_ro),
      h_query_dv_timings = unhandled_ro,
      h_dv_timings_cap = unhandled_ref,
      h_enum_freq_bands = (\<lambda>_ _ _. unhandled_ref),
      h_query_ext_ctrl = (\<lambda>_ _. unhandled_ro)\<rparr>"

end
