(* ===== verification/V4l2r_Example.thy ===== *)
theory V4l2r_Example
  imports V4l2r
begin

unbundle bit_operations_syntax

text \<open>
  A concrete instance of the parameters of theory \<open>V4l2r\<close>. It stands for no particular version
  of the crate: it shows that the hypotheses the development states about the crate can hold, and
  the concrete instances of the theorems are evaluated on it. Integers are laid out in order, the
  bytes the sources do not look at have a small fixed length, and the numbers of the enumerations
  and flags are those of the kernel headers.
\<close>

definition wire_bytes :: "nat \<Rightarrow> u8 list VmediaType" where
  "wire_bytes n = \<lparr>size_of = n, as_bytes = (\<lambda>bs. take n (bs @ replicate n 0)), from_bytes = (\<lambda>bs. bs)\<rparr>"

definition ex_v4l2_rect :: "v4l2_rect VmediaType" where
  "ex_v4l2_rect = wire_iso (\<lambda>x. (rect_left x, rect_top x, rect_width x, rect_height x))
     (\<lambda>(a0, a1, a2, a3). \<lparr>rect_left = a0, rect_top = a1, rect_width = a2, rect_height = a3\<rparr>)
     (wire_pair wire_u32 (wire_pair wire_u32 (wire_pair wire_u32 wire_u32)))"

definition ex_v4l2_buffer :: "v4l2_buffer VmediaType" where
  "ex_v4l2_buffer = wire_iso (\<lambda>x. (buffer_index x, buffer_type x, buffer_length x, buffer_m_planes x, buffer_rest x))
     (\<lambda>(a0, a1, a2, a3, a4). \<lparr>buffer_index = a0, buffer_type = a1, buffer_length = a2, buffer_m_planes = a3, buffer_rest = a4\<rparr>)
     (wire_pair wire_u32 (wire_pair wire_u32 (wire_pair wire_u32 (wire_pair wire_u64 (wire_bytes 4)))))"

definition ex_v4l2_standard :: "v4l2_standard VmediaType" where
  "ex_v4l2_standard = wire_iso (\<lambda>x. (standard_index x, standard_rest x))
     (\<lambda>(a0, a1). \<lparr>standard_index = a0, standard_rest = a1\<rparr>)
     (wire_pair wire_u32 (wire_bytes 4))"

definition ex_v4l2_input :: "v4l2_input VmediaType" where
  "ex_v4l2_input = wire_iso (\<lambda>x. (input_index x, input_name x, input_type x, input_rest x))
     (\<lambda>(a0, a1, a2, a3). \<lparr>input_index = a0, input_name = a1, input_type = a2, input_rest = a3\<rparr>)
     (wire_pair wire_u32 (wire_pair (wire_bytes 32) (wire_pair wire_u32 (wire_bytes 4))))"

definition ex_v4l2_control :: "v4l2_control VmediaType" where
  "ex_v4l2_control = wire_iso (\<lambda>x. (control_id x, control_value x))
     (\<lambda>(a0, a1). \<lparr>control_id = a0, control_value = a1\<rparr>)
     (wire_pair wire_u32 wire_u32)"

definition ex_v4l2_tuner :: "v4l2_tuner VmediaType" where
  "ex_v4l2_tuner = wire_iso (\<lambda>x. (tuner_index x, tuner_audmode x, tuner_rest x))
     (\<lambda>(a0, a1, a2). \<lparr>tuner_index = a0, tuner_audmode = a1, tuner_rest = a2\<rparr>)
     (wire_pair wire_u32 (wire_pair wire_u32 (wire_bytes 4)))"

definition ex_v4l2_audio :: "v4l2_audio VmediaType" where
  "ex_v4l2_audio = wire_iso (\<lambda>x. (audio_index x, audio_mode x, audio_rest x))
     (\<lambda>(a0, a1, a2). \<lparr>audio_index = a0, audio_mode = a1, audio_rest = a2\<rparr>)
     (wire_pair wire_u32 (wire_pair wire_u32 (wire_bytes 4)))"

definition ex_v4l2_format :: "v4l2_format VmediaType" where
  "ex_v4l2_format = wire_iso (\<lambda>x. (format_type x, format_fmt x))
     (\<lambda>(a0, a1). \<lparr>format_type = a0, format_fmt = a1\<rparr>)
     (wire_pair wire_u32 (wire_bytes 4))"

definition ex_v4l2_output :: "v4l2_output VmediaType" where
  "ex_v4l2_output = wire_iso (\<lambda>x. (output_index x, output_rest x))
     (\<lambda>(a0, a1). \<lparr>output_index = a0, output_rest = a1\<rparr>)
     (wire_pair wire_u32 (wire_bytes 4))"

definition ex_v4l2_audioout :: "v4l2_audioout VmediaType" where
  "ex_v4l2_audioout = wire_iso (\<lambda>x. (audioout_index x, audioout_rest x))
     (\<lambda>(a0, a1). \<lparr>audioout_index = a0, audioout_rest = a1\<rparr>)
     (wire_pair wire_u32 (wire_bytes 4))"

definition ex_v4l2_modulator :: "v4l2_modulator VmediaType" where
  "ex_v4l2_modulator = wire_iso (\<lambda>x. (modulator_index x, modulator_txsubchans x, modulator_rest x))
     (\<lambda>(a0, a1, a2). \<lparr>modulator_index = a0, modulator_txsubchans = a1, modulator_rest = a2\<rparr>)
     (wire_pair wire_u32 (wire_pair wire_u32 (wire_bytes 4)))"

definition ex_v4l2_frequency :: "v4l2_frequency VmediaType" where
  "ex_v4l2_frequency = wire_iso (\<lambda>x. (frequency_tuner x, frequency_type x, frequency_frequency x, frequency_rest x))
     (\<lambda>(a0, a1, a2, a3). \<lparr>frequency_tuner = a0, frequency_type = a1, frequency_frequency = a2, frequency_rest = a3\<rparr>)
     (wire_pair wire_u32 (wire_pair wire_u32 (wire_pair wire_u32 (wire_bytes 4))))"

definition ex_v4l2_frmsizeenum :: "v4l2_frmsizeenum VmediaType" where
  "ex_v4l2_frmsizeenum = wire_iso (\<lambda>x. (frmsize_index x, frmsize_pixel_format x, frmsize_type x, frmsize_anon x, frmsize_rest x))
     (\<lambda>(a0, a1, a2, a3, a4). \<lparr>frmsize_index = a0, frmsize_pixel_format = a1, frmsize_type = a2, frmsize_anon = a3, frmsize_rest = a4\<rparr>)
     (wire_pair wire_u32 (wire_pair wire_u32 (wire_pair wire_u32 (wire_pair (wire_bytes 4) (wire_bytes 4)))))"

definition ex_v4l2_frmivalenum :: "v4l2_frmivalenum VmediaType" where
  "ex_v4l2_frmivalenum = wire_iso (\<lambda>x. (frmival_index x, frmival_pixel_format x, frmival_width x, frmival_height x, frmival_type x, frmival_anon x, frmival_rest x))
     (\<lambda>(a0, a1, a2, a3, a4, a5, a6). \<lparr>frmival_index = a0, frmival_pixel_format = a1, frmival_width = a2, frmival_height = a3, frmival_type = a4, frmival_anon = a5, frmival_rest = a6\<rparr>)
     (wire_pair wire_u32 (wire_pair wire_u32 (wire_pair wire_u32 (wire_pair wire_u32 (wire_pair wire_u32 (wire_pair (wire_bytes 4) (wire_bytes 4)))))))"

definition ex_v4l2_event_subscription :: "v4l2_event_subscription VmediaType" where
  "ex_v4l2_event_subscription = wire_iso (\<lambda>x. (subscription_type x, subscription_flags x, subscription_rest x))
     (\<lambda>(a0, a1, a2). \<lparr>subscription_type = a0, subscription_flags = a1, subscription_rest = a2\<rparr>)
     (wire_pair wire_u32 (wire_pair wire_u32 (wire_bytes 4)))"

definition ex_v4l2_selection :: "v4l2_selection VmediaType" where
  "ex_v4l2_selection = wire_iso (\<lambda>x. (selection_type x, selection_target x, selection_flags x, selection_r x, selection_rest x))
     (\<lambda>(a0, a1, a2, a3, a4). \<lparr>selection_type = a0, selection_target = a1, selection_flags = a2, selection_r = a3, selection_rest = a4\<rparr>)
     (wire_pair wire_u32 (wire_pair wire_u32 (wire_pair wire_u32 (wire_pair ex_v4l2_rect (wire_bytes 4)))))"

definition ex_v4l2_enum_dv_timings :: "v4l2_enum_dv_timings VmediaType" where
  "ex_v4l2_enum_dv_timings = wire_iso (\<lambda>x. (enum_timings_index x, enum_timings_timings x, enum_timings_rest x))
     (\<lambda>(a0, a1, a2). \<lparr>enum_timings_index = a0, enum_timings_timings = a1, enum_timings_rest = a2\<rparr>)
     (wire_pair wire_u32 (wire_pair (wire_bytes 8) (wire_bytes 4)))"

definition ex_v4l2_frequency_band :: "v4l2_frequency_band VmediaType" where
  "ex_v4l2_frequency_band = wire_iso (\<lambda>x. (band_tuner x, band_type x, band_index x, band_rest x))
     (\<lambda>(a0, a1, a2, a3). \<lparr>band_tuner = a0, band_type = a1, band_index = a2, band_rest = a3\<rparr>)
     (wire_pair wire_u32 (wire_pair wire_u32 (wire_pair wire_u32 (wire_bytes 4))))"

definition ex_v4l2_query_ext_ctrl :: "v4l2_query_ext_ctrl VmediaType" where
  "ex_v4l2_query_ext_ctrl = wire_iso (\<lambda>x. (query_ext_id x, query_ext_rest x))
     (\<lambda>(a0, a1). \<lparr>query_ext_id = a0, query_ext_rest = a1\<rparr>)
     (wire_pair wire_u32 (wire_bytes 4))"

definition ex_v4l2_queryctrl :: "v4l2_queryctrl VmediaType" where
  "ex_v4l2_queryctrl = wire_iso (\<lambda>x. (queryctrl_id x, queryctrl_rest x))
     (\<lambda>(a0, a1). \<lparr>queryctrl_id = a0, queryctrl_rest = a1\<rparr>)
     (wire_pair wire_u32 (wire_bytes 4))"

definition ex_v4l2_querymenu :: "v4l2_querymenu VmediaType" where
  "ex_v4l2_querymenu = wire_iso (\<lambda>x. (querymenu_id x, querymenu_index x, querymenu_rest x))
     (\<lambda>(a0, a1, a2). \<lparr>querymenu_id = a0, querymenu_index = a1, querymenu_rest = a2\<rparr>)
     (wire_pair wire_u32 (wire_pair wire_u32 (wire_bytes 4)))"

definition ex_v4l2_ext_control :: "v4l2_ext_control VmediaType" where
  "ex_v4l2_ext_control = wire_iso (\<lambda>x. (ext_ctrl_size x, ext_ctrl_rest x))
     (\<lambda>(a0, a1). \<lparr>ext_ctrl_size = a0, ext_ctrl_rest = a1\<rparr>)
     (wire_pair wire_u32 (wire_bytes 4))"

definition ex_v4l2_ext_controls :: "v4l2_ext_controls VmediaType" where
  "ex_v4l2_ext_controls = wire_iso (\<lambda>x. (ext_ctrls_count x, ext_ctrls_controls x, ext_ctrls_rest x))
     (\<lambda>(a0, a1, a2). \<lparr>ext_ctrls_count = a0, ext_ctrls_controls = a1, ext_ctrls_rest = a2\<rparr>)
     (wire_pair wire_u32 (wire_pair wire_u64 (wire_bytes 4)))"

definition ex_v4l2_fmtdesc :: "v4l2_fmtdesc VmediaType" where
  "ex_v4l2_fmtdesc = wire_iso (\<lambda>x. (fmtdesc_index x, fmtdesc_type x, fmtdesc_pixelformat x, fmtdesc_rest x))
     (\<lambda>(a0, a1, a2, a3). \<lparr>fmtdesc_index = a0, fmtdesc_type = a1, fmtdesc_pixelformat = a2, fmtdesc_rest = a3\<rparr>)
     (wire_pair wire_u32 (wire_pair wire_u32 (wire_pair wire_u32 (wire_bytes 4))))"

definition ex_v4l2_requestbuffers :: "v4l2_requestbuffers VmediaType" where
  "ex_v4l2_requestbuffers = wire_iso (\<lambda>x. (reqbufs_count x, reqbufs_type x, reqbufs_memory x, reqbufs_capabilities x, reqbufs_flags x, reqbufs_reserved x))
     (\<lambda>(a0, a1, a2, a3, a4, a5). \<lparr>reqbufs_count = a0, reqbufs_type = a1, reqbufs_memory = a2, reqbufs_capabilities = a3, reqbufs_flags = a4, reqbufs_reserved = a5\<rparr>)
     (wire_pair wire_u32 (wire_pair wire_u32 (wire_pair wire_u32 (wire_pair wire_u32 (wire_pair wire_u32 (wire_bytes 4))))))"

definition ex_v4l2_streamparm :: "v4l2_streamparm VmediaType" where
  "ex_v4l2_streamparm = wire_iso (\<lambda>x. (streamparm_type x, streamparm_parm x))
     (\<lambda>(a0, a1). \<lparr>streamparm_type = a0, streamparm_parm = a1\<rparr>)
     (wire_pair wire_u32 (wire_bytes 4))"

definition ex_v4l2_create_buffers :: "v4l2_create_buffers VmediaType" where
  "ex_v4l2_create_buffers = wire_iso (\<lambda>x. (create_count x, create_memory x, create_format x, create_rest x))
     (\<lambda>(a0, a1, a2, a3). \<lparr>create_count = a0, create_memory = a1, create_format = a2, create_rest = a3\<rparr>)
     (wire_pair wire_u32 (wire_pair wire_u32 (wire_pair ex_v4l2_format (wire_bytes 4))))"

record Ex_Buffer =
  ex_queue :: QueueType
  ex_index :: u32
  ex_memory :: MemoryType
  ex_flags :: u32
  ex_field :: u32
  ex_sequence :: u32
  ex_timestamp :: timeval
  ex_bytesused :: u32
  ex_length :: u32
  ex_data_offset :: "u32 option"
  ex_mem_offset :: u32
  ex_userptr :: u64

definition ex_queue_n :: "u32 \<Rightarrow> QueueType option" where
  "ex_queue_n x = (if x = 1 then Some VideoCapture else if x = 2 then Some VideoOutput
     else if x = 9 then Some VideoCaptureMplane else if x = 10 then Some VideoOutputMplane else None)"

definition ex_queue_u32 :: "QueueType \<Rightarrow> u32" where
  "ex_queue_u32 q = (case q of VideoCapture \<Rightarrow> 1 | VideoOutput \<Rightarrow> 2 | VideoCaptureMplane \<Rightarrow> 9
     | VideoOutputMplane \<Rightarrow> 10 | OtherQueue n \<Rightarrow> of_nat n)"

definition ex_multiplanar :: "QueueType \<Rightarrow> bool" where
  "ex_multiplanar q \<longleftrightarrow> q = VideoCaptureMplane \<or> q = VideoOutputMplane"

definition ex_direction :: "QueueType \<Rightarrow> QueueDirection" where
  "ex_direction q = (if q = VideoOutput \<or> q = VideoOutputMplane then Output else Capture)"

definition ex_class :: "QueueType \<Rightarrow> QueueClass" where
  "ex_class q = (if ex_multiplanar q then VideoMplane else OtherClass 0)"

definition ex_event :: "v4l2_event_subscription \<Rightarrow> EventType option" where
  "ex_event x = (if subscription_type x = 2 then Some Eos else if subscription_type x = 5
     then Some (SourceChange 0) else None)"

definition ex_decoder_cmd :: "v4l2_decoder_cmd \<Rightarrow> DecoderCmd option" where
  "ex_decoder_cmd c = (case c of [] \<Rightarrow> None
     | b # r \<Rightarrow> if b = 0 then Some (CmdStart r) else if b = 1 then Some (CmdStop r)
         else if b = 2 then Some (CmdPause r) else if b = 3 then Some CmdResume else None)"

definition ex_new :: "QueueType \<Rightarrow> u32 \<Rightarrow> MemoryType \<Rightarrow> Ex_Buffer" where
  "ex_new q i m = \<lparr>ex_queue = q, ex_index = i, ex_memory = m, ex_flags = 0, ex_field = 0, ex_sequence = 0,
     ex_timestamp = \<lparr>tv_sec = 0, tv_usec = 0\<rparr>, ex_bytesused = 0, ex_length = 0,
     ex_data_offset = (if ex_multiplanar q then Some 0 else None), ex_mem_offset = 0, ex_userptr = 0\<rparr>"

definition ex_try_from :: "v4l2_buffer \<Rightarrow> v4l2_plane list option \<Rightarrow> Ex_Buffer option" where
  "ex_try_from b ps = map_option (\<lambda>q. ex_new q (buffer_index b) Mmap) (ex_queue_n (buffer_type b))"

definition ex_raw :: "Ex_Buffer \<Rightarrow> v4l2_buffer" where
  "ex_raw b = \<lparr>buffer_index = ex_index b, buffer_type = ex_queue_u32 (ex_queue b), buffer_length = 1,
     buffer_m_planes = 0x7F00DEADBEEF, buffer_rest = []\<rparr>"

definition ex_K :: "Ex_Buffer v4l2r" where
  "ex_K =
     \<lparr>w_buffer = ex_v4l2_buffer,
      w_standard = ex_v4l2_standard,
      w_input = ex_v4l2_input,
      w_control = ex_v4l2_control,
      w_std_id = wire_bytes 8,
      w_tuner = ex_v4l2_tuner,
      w_audio = ex_v4l2_audio,
      w_plane = wire_bytes 64,
      w_format = ex_v4l2_format,
      w_enc_idx = wire_bytes 8,
      w_output = ex_v4l2_output,
      w_audioout = ex_v4l2_audioout,
      w_modulator = ex_v4l2_modulator,
      w_frequency = ex_v4l2_frequency,
      w_frmsizeenum = ex_v4l2_frmsizeenum,
      w_frmivalenum = ex_v4l2_frmivalenum,
      w_encoder_cmd = wire_bytes 8,
      w_decoder_cmd = wire_bytes 8,
      w_dv_timings = wire_bytes 8,
      w_event_subscription = ex_v4l2_event_subscription,
      w_create_buffers = ex_v4l2_create_buffers,
      w_selection = ex_v4l2_selection,
      w_enum_dv_timings = ex_v4l2_enum_dv_timings,
      w_dv_timings_cap = wire_bytes 8,
      w_frequency_band = ex_v4l2_frequency_band,
      w_query_ext_ctrl = ex_v4l2_query_ext_ctrl,
      w_queryctrl = ex_v4l2_queryctrl,
      w_querymenu = ex_v4l2_querymenu,
      w_ext_control = ex_v4l2_ext_control,
      w_ext_controls = ex_v4l2_ext_controls,
      w_fmtdesc = ex_v4l2_fmtdesc,
      w_requestbuffers = ex_v4l2_requestbuffers,
      w_streamparm = ex_v4l2_streamparm,
      QueueType_n = ex_queue_n,
      queue_as_u32 = ex_queue_u32,
      is_multiplanar = ex_multiplanar,
      queue_direction = ex_direction,
      queue_class = ex_class,
      MemoryType_n = (\<lambda>x. if x = 1 then Some Mmap else if x = 2 then Some UserPtr else None),
      memory_as_u32 = (\<lambda>m. case m of Mmap \<Rightarrow> 1 | UserPtr \<Rightarrow> 2 | OtherMemory n \<Rightarrow> of_nat n),
      MemoryConsistency_from_bits = Some,
      TunerMode_n = Some,
      AudioMode_n = Some,
      parse_ctrl_id_and_flags = (\<lambda>x. (x, 0)),
      TunerTransmissionFlags_from_bits = Some,
      TunerType_n = Some,
      CtrlWhich_try_from = (\<lambda>_. Some 0),
      EventType_try_from = ex_event,
      SubscribeEventFlags_from_bits = Some,
      SelectionType_n = (\<lambda>x. if x = 1 then Some SelectionCapture else None),
      SelectionTarget_n = (\<lambda>x. if x = 0 then Some Crop else if x = 0x100 then Some Compose else None),
      SelectionFlags_from_bits = Some,
      VIDEO_MAX_PLANES = 8,
      plane_default = replicate 64 0,
      set_output_writebuffers = (\<lambda>p v. as_bytes wire_u32 v),
      set_capture_readbuffers = (\<lambda>p v. as_bytes wire_u32 v),
      output_writebuffers = from_bytes wire_u32,
      capture_readbuffers = from_bytes wire_u32,
      fourcc = le_word,
      fmt_pix = (\<lambda>p. as_bytes wire_u32 (pix_pixelformat p)),
      fmt_pix_mp = (\<lambda>bs. \<lparr>pix_mp_width = 320, pix_mp_height = 240, pix_mp_pixelformat = 0x3231564E, pix_mp_field = 1, pix_mp_plane_fmt = [(320, 0x1C200)], pix_mp_num_planes = 1, pix_mp_flags = 0, 
        pix_mp_colorspace = 3, pix_mp_ycbcr_enc = 2, pix_mp_quantization = 2, pix_mp_xfer_func = 5, pix_mp_rest = bs\<rparr>),
      V4L2_FIELD_NONE = 1,
      V4L2_COLORSPACE_SRGB = 8,
      V4L2_INPUT_TYPE_CAMERA = 2,
      V4L2_CAP_TIMEPERFRAME = 0x1000,
      V4L2_FRMSIZE_TYPE_DISCRETE = 1,
      V4L2_FRMSIZE_TYPE_STEPWISE = 3,
      V4L2_FRMIVAL_TYPE_DISCRETE = 1,
      SUPPORTS_MMAP = 1,
      SUPPORTS_ORPHANED_BUFS = 16,
      set_capture_capability = (\<lambda>p v. p),
      set_capture_timeperframe = (\<lambda>p n d. p),
      frmsize_discrete = (\<lambda>a b. as_bytes wire_u32 a),
      frmsize_stepwise = (\<lambda>x. x),
      frmival_discrete = (\<lambda>a b. as_bytes wire_u32 b),
      streamparm_default = [0, 0, 0, 0],
      fmtdesc_default = [0, 0, 0, 0],
      pix_default = [0, 0, 0, 0],
      input_zeroed = [0, 0, 0, 0],
      reqbufs_default = [0, 0, 0, 0],
      frmsize_default = [0, 0, 0, 0],
      frmival_default = [0, 0, 0, 0],
      mplane_as_format = (\<lambda>f. \<lparr>format_type = (if fst f = Output then 10 else 9), format_fmt = pix_mp_rest (snd f)\<rparr>),
      mplane_size = (\<lambda>_. (320, 240)),
      mplane_sizeimages = (\<lambda>_. [0x1C200]),
      mplane_colorspace = (\<lambda>f. pix_mp_colorspace (snd f)),
      mplane_xfer_func = (\<lambda>f. ucast (pix_mp_xfer_func (snd f))),
      mplane_ycbcr_enc = (\<lambda>f. ucast (pix_mp_ycbcr_enc (snd f))),
      mplane_quantization = (\<lambda>f. ucast (pix_mp_quantization (snd f))),
      Colorspace_n = Some,
      XferFunc_n = Some,
      YCbCrEncoding_n = Some,
      Quantization_n = Some,
      REC709 = 3,
      XFER_NONE = 5,
      YCBCR_E709 = 2,
      LIM_RANGE = 2,
      DecoderCmd_try_from = ex_decoder_cmd,
      decoder_cmd_into = (\<lambda>c. case c of CmdStop r \<Rightarrow> 1 # r | CmdStart r \<Rightarrow> 0 # r | CmdPause r \<Rightarrow> 2 # r | CmdResume \<Rightarrow> [3]),
      stop_default = [],
      start_default = [],
      pause_default = [],
      V4L2_EVENT_SOURCE_CHANGE = 5,
      V4L2_EVENT_EOS = 2,
      SRC_CHANGE_RESOLUTION = 1,
      event_src_change = as_bytes wire_u32,
      event_u_default = [],
      event_default = [],
      vb_new = ex_new,
      vb_try_from = ex_try_from,
      as_v4l2_buffer = ex_raw,
      as_v4l2_planes = (\<lambda>b. [replicate 64 0]),
      vb_index = ex_index,
      vb_queue = ex_queue,
      vb_memory = ex_memory,
      vb_num_planes = (\<lambda>_. 1),
      vb_flags = ex_flags,
      vb_set_flags = (\<lambda>b f. b\<lparr>ex_flags := f\<rparr>),
      vb_add_flags = (\<lambda>b f. b\<lparr>ex_flags := ex_flags b OR f\<rparr>),
      vb_clear_flags = (\<lambda>b f. b\<lparr>ex_flags := ex_flags b AND NOT f\<rparr>),
      vb_set_field = (\<lambda>b f. b\<lparr>ex_field := f\<rparr>),
      vb_set_sequence = (\<lambda>b f. b\<lparr>ex_sequence := f\<rparr>),
      vb_sequence = ex_sequence,
      vb_timestamp = ex_timestamp,
      vb_set_timestamp = (\<lambda>b f. b\<lparr>ex_timestamp := f\<rparr>),
      vb_bytesused = ex_bytesused,
      vb_set_bytesused = (\<lambda>b f. b\<lparr>ex_bytesused := f\<rparr>),
      vb_length = ex_length,
      vb_set_length = (\<lambda>b f. b\<lparr>ex_length := f\<rparr>),
      vb_data_offset = ex_data_offset,
      vb_set_data_offset = (\<lambda>b f. b\<lparr>ex_data_offset := Some f\<rparr>),
      vb_mmap_offsets = (\<lambda>b. if ex_memory b = Mmap then Some [ex_mem_offset b] else None),
      vb_userptr_lengths = (\<lambda>b. if ex_memory b = UserPtr then Some [ex_length b] else None),
      vb_set_mmap_plane = (\<lambda>b off len. if ex_memory b = Mmap then Some (b\<lparr>ex_mem_offset := off, ex_length := len\<rparr>) else None),
      BUF_QUEUED = 2,
      BUF_LAST = 0x100000,
      BUF_ERROR = 0x40,
      BUF_TIMESTAMP_MONOTONIC = 0x2000,
      BUF_TIMESTAMP_COPY = 0x4000,
      FIELD_NONE = 1\<rparr>"

lemma ex_K_simps [simp]:
  "w_buffer ex_K = ex_v4l2_buffer"
  "w_standard ex_K = ex_v4l2_standard"
  "w_input ex_K = ex_v4l2_input"
  "w_control ex_K = ex_v4l2_control"
  "w_std_id ex_K = wire_bytes 8"
  "w_tuner ex_K = ex_v4l2_tuner"
  "w_audio ex_K = ex_v4l2_audio"
  "w_plane ex_K = wire_bytes 64"
  "w_format ex_K = ex_v4l2_format"
  "w_enc_idx ex_K = wire_bytes 8"
  "w_output ex_K = ex_v4l2_output"
  "w_audioout ex_K = ex_v4l2_audioout"
  "w_modulator ex_K = ex_v4l2_modulator"
  "w_frequency ex_K = ex_v4l2_frequency"
  "w_frmsizeenum ex_K = ex_v4l2_frmsizeenum"
  "w_frmivalenum ex_K = ex_v4l2_frmivalenum"
  "w_encoder_cmd ex_K = wire_bytes 8"
  "w_decoder_cmd ex_K = wire_bytes 8"
  "w_dv_timings ex_K = wire_bytes 8"
  "w_event_subscription ex_K = ex_v4l2_event_subscription"
  "w_create_buffers ex_K = ex_v4l2_create_buffers"
  "w_selection ex_K = ex_v4l2_selection"
  "w_enum_dv_timings ex_K = ex_v4l2_enum_dv_timings"
  "w_dv_timings_cap ex_K = wire_bytes 8"
  "w_frequency_band ex_K = ex_v4l2_frequency_band"
  "w_query_ext_ctrl ex_K = ex_v4l2_query_ext_ctrl"
  "w_queryctrl ex_K = ex_v4l2_queryctrl"
  "w_querymenu ex_K = ex_v4l2_querymenu"
  "w_ext_control ex_K = ex_v4l2_ext_control"
  "w_ext_controls ex_K = ex_v4l2_ext_controls"
  "w_fmtdesc ex_K = ex_v4l2_fmtdesc"
  "w_requestbuffers ex_K = ex_v4l2_requestbuffers"
  "w_streamparm ex_K = ex_v4l2_streamparm"
  "QueueType_n ex_K = ex_queue_n"
  "queue_as_u32 ex_K = ex_queue_u32"
  "is_multiplanar ex_K = ex_multiplanar"
  "queue_direction ex_K = ex_direction"
  "queue_class ex_K = ex_class"
  "MemoryType_n ex_K = (\<lambda>x. if x = 1 then Some Mmap else if x = 2 then Some UserPtr else None)"
  "memory_as_u32 ex_K = (\<lambda>m. case m of Mmap \<Rightarrow> 1 | UserPtr \<Rightarrow> 2 | OtherMemory n \<Rightarrow> of_nat n)"
  "MemoryConsistency_from_bits ex_K = Some"
  "TunerMode_n ex_K = Some"
  "AudioMode_n ex_K = Some"
  "parse_ctrl_id_and_flags ex_K = (\<lambda>x. (x, 0))"
  "TunerTransmissionFlags_from_bits ex_K = Some"
  "TunerType_n ex_K = Some"
  "CtrlWhich_try_from ex_K = (\<lambda>_. Some 0)"
  "EventType_try_from ex_K = ex_event"
  "SubscribeEventFlags_from_bits ex_K = Some"
  "SelectionType_n ex_K = (\<lambda>x. if x = 1 then Some SelectionCapture else None)"
  "SelectionTarget_n ex_K = (\<lambda>x. if x = 0 then Some Crop else if x = 0x100 then Some Compose else None)"
  "SelectionFlags_from_bits ex_K = Some"
  "VIDEO_MAX_PLANES ex_K = 8"
  "plane_default ex_K = replicate 64 0"
  "set_output_writebuffers ex_K = (\<lambda>p v. as_bytes wire_u32 v)"
  "set_capture_readbuffers ex_K = (\<lambda>p v. as_bytes wire_u32 v)"
  "output_writebuffers ex_K = from_bytes wire_u32"
  "capture_readbuffers ex_K = from_bytes wire_u32"
  "fourcc ex_K = le_word"
  "fmt_pix ex_K = (\<lambda>p. as_bytes wire_u32 (pix_pixelformat p))"
  "fmt_pix_mp ex_K = (\<lambda>bs. \<lparr>pix_mp_width = 320, pix_mp_height = 240, pix_mp_pixelformat = 0x3231564E, pix_mp_field = 1, pix_mp_plane_fmt = [(320, 0x1C200)], pix_mp_num_planes = 1, pix_mp_flags = 0, 
        pix_mp_colorspace = 3, pix_mp_ycbcr_enc = 2, pix_mp_quantization = 2, pix_mp_xfer_func = 5, pix_mp_rest = bs\<rparr>)"
  "V4L2_FIELD_NONE ex_K = 1"
  "V4L2_COLORSPACE_SRGB ex_K = 8"
  "V4L2_INPUT_TYPE_CAMERA ex_K = 2"
  "V4L2_CAP_TIMEPERFRAME ex_K = 0x1000"
  "V4L2_FRMSIZE_TYPE_DISCRETE ex_K = 1"
  "V4L2_FRMSIZE_TYPE_STEPWISE ex_K = 3"
  "V4L2_FRMIVAL_TYPE_DISCRETE ex_K = 1"
  "SUPPORTS_MMAP ex_K = 1"
  "SUPPORTS_ORPHANED_BUFS ex_K = 16"
  "set_capture_capability ex_K = (\<lambda>p v. p)"
  "set_capture_timeperframe ex_K = (\<lambda>p n d. p)"
  "frmsize_discrete ex_K = (\<lambda>a b. as_bytes wire_u32 a)"
  "frmsize_stepwise ex_K = (\<lambda>x. x)"
  "frmival_discrete ex_K = (\<lambda>a b. as_bytes wire_u32 b)"
  "streamparm_default ex_K = [0, 0, 0, 0]"
  "fmtdesc_default ex_K = [0, 0, 0, 0]"
  "pix_default ex_K = [0, 0, 0, 0]"
  "input_zeroed ex_K = [0, 0, 0, 0]"
  "reqbufs_default ex_K = [0, 0, 0, 0]"
  "frmsize_default ex_K = [0, 0, 0, 0]"
  "frmival_default ex_K = [0, 0, 0, 0]"
  "mplane_as_format ex_K = (\<lambda>f. \<lparr>format_type = (if fst f = Output then 10 else 9), format_fmt = pix_mp_rest (snd f)\<rparr>)"
  "mplane_size ex_K = (\<lambda>_. (320, 240))"
  "mplane_sizeimages ex_K = (\<lambda>_. [0x1C200])"
  "mplane_colorspace ex_K = (\<lambda>f. pix_mp_colorspace (snd f))"
  "mplane_xfer_func ex_K = (\<lambda>f. ucast (pix_mp_xfer_func (snd f)))"
  "mplane_ycbcr_enc ex_K = (\<lambda>f. ucast (pix_mp_ycbcr_enc (snd f)))"
  "mplane_quantization ex_K = (\<lambda>f. ucast (pix_mp_quantization (snd f)))"
  "Colorspace_n ex_K = Some"
  "XferFunc_n ex_K = Some"
  "YCbCrEncoding_n ex_K = Some"
  "Quantization_n ex_K = Some"
  "REC709 ex_K = 3"
  "XFER_NONE ex_K = 5"
  "YCBCR_E709 ex_K = 2"
  "LIM_RANGE ex_K = 2"
  "DecoderCmd_try_from ex_K = ex_decoder_cmd"
  "decoder_cmd_into ex_K = (\<lambda>c. case c of CmdStop r \<Rightarrow> 1 # r | CmdStart r \<Rightarrow> 0 # r | CmdPause r \<Rightarrow> 2 # r | CmdResume \<Rightarrow> [3])"
  "stop_default ex_K = []"
  "start_default ex_K = []"
  "pause_default ex_K = []"
  "V4L2_EVENT_SOURCE_CHANGE ex_K = 5"
  "V4L2_EVENT_EOS ex_K = 2"
  "SRC_CHANGE_RESOLUTION ex_K = 1"
  "event_src_change ex_K = as_bytes wire_u32"
  "event_u_default ex_K = []"
  "event_default ex_K = []"
  "vb_new ex_K = ex_new"
  "vb_try_from ex_K = ex_try_from"
  "as_v4l2_buffer ex_K = ex_raw"
  "as_v4l2_planes ex_K = (\<lambda>b. [replicate 64 0])"
  "vb_index ex_K = ex_index"
  "vb_queue ex_K = ex_queue"
  "vb_memory ex_K = ex_memory"
  "vb_num_planes ex_K = (\<lambda>_. 1)"
  "vb_flags ex_K = ex_flags"
  "vb_set_flags ex_K = (\<lambda>b f. b\<lparr>ex_flags := f\<rparr>)"
  "vb_add_flags ex_K = (\<lambda>b f. b\<lparr>ex_flags := ex_flags b OR f\<rparr>)"
  "vb_clear_flags ex_K = (\<lambda>b f. b\<lparr>ex_flags := ex_flags b AND NOT f\<rparr>)"
  "vb_set_field ex_K = (\<lambda>b f. b\<lparr>ex_field := f\<rparr>)"
  "vb_set_sequence ex_K = (\<lambda>b f. b\<lparr>ex_sequence := f\<rparr>)"
  "vb_sequence ex_K = ex_sequence"
  "vb_timestamp ex_K = ex_timestamp"
  "vb_set_timestamp ex_K = (\<lambda>b f. b\<lparr>ex_timestamp := f\<rparr>)"
  "vb_bytesused ex_K = ex_bytesused"
  "vb_set_bytesused ex_K = (\<lambda>b f. b\<lparr>ex_bytesused := f\<rparr>)"
  "vb_length ex_K = ex_length"
  "vb_set_length ex_K = (\<lambda>b f. b\<lparr>ex_length := f\<rparr>)"
  "vb_data_offset ex_K = ex_data_offset"
  "vb_set_data_offset ex_K = (\<lambda>b f. b\<lparr>ex_data_offset := Some f\<rparr>)"
  "vb_mmap_offsets ex_K = (\<lambda>b. if ex_memory b = Mmap then Some [ex_mem_offset b] else None)"
  "vb_userptr_lengths ex_K = (\<lambda>b. if ex_memory b = UserPtr then Some [ex_length b] else None)"
  "vb_set_mmap_plane ex_K = (\<lambda>b off len. if ex_memory b = Mmap then Some (b\<lparr>ex_mem_offset := off, ex_length := len\<rparr>) else None)"
  "BUF_QUEUED ex_K = 2"
  "BUF_LAST ex_K = 0x100000"
  "BUF_ERROR ex_K = 0x40"
  "BUF_TIMESTAMP_MONOTONIC ex_K = 0x2000"
  "BUF_TIMESTAMP_COPY ex_K = 0x4000"
  "FIELD_NONE ex_K = 1"
  by (simp_all add: ex_K_def)

end
