(* ===== verification/Ioctl.thy ===== *)
theory Ioctl
  imports Ioctl_Handler V4l2r_Example
begin

text \<open>
  The ioctl dispatcher of \<open>device/src/ioctl.rs\<close>: \<open>virtio_media_dispatch_ioctl\<close> reads the input
  of an ioctl from the descriptor chain, validates it, calls the method of the handler and writes
  the response. One definition per branch of the dispatcher.
\<close>

section \<open>Running an ioctl\<close>

type_synonym ('h, 's) ioctl_fn =
  "'h \<Rightarrow> 's \<Rightarrow> Reader \<Rightarrow> Writer \<Rightarrow> ('h \<times> 's \<times> Reader \<times> Writer \<times> (io_error + unit)) option"
type_synonym ('h, 's, 'vb) ioctl_branch =
  "'vb v4l2r \<Rightarrow> ('h, 's, 'vb) VirtioMediaIoctlHandler \<Rightarrow> ('h, 's) ioctl_fn"
type_synonym ('h, 's, 'o) payload_method = "'h \<Rightarrow> 's \<Rightarrow> ('h \<times> 's \<times> ((i32 \<times> 'o option) + 'o)) option"

definition invalid_ioctl :: "('h, 's) ioctl_fn" where
  "invalid_ioctl h s r w = (case write_err_response ENOTTY w of (w', x) \<Rightarrow> Some (h, s, r, w', x))"

definition write_output :: "('o \<Rightarrow> chain_write) \<Rightarrow> 'o option \<Rightarrow> chain_write" where
  "write_output write_to_chain out w =
     (case out of None \<Rightarrow> (w, Inr ()) | Some x \<Rightarrow> write_to_chain x w)"

definition wr_ioctl_with_err_payload ::
  "'i chain_read \<Rightarrow> ('o \<Rightarrow> chain_write) \<Rightarrow> ('i \<Rightarrow> ('h, 's, 'o) payload_method) \<Rightarrow> ('h, 's) ioctl_fn"
where
  "wr_ioctl_with_err_payload read_from_chain write_to_chain process h s r w =
     (case read_from_chain r of
        (r', Inl e) \<Rightarrow> (case write_err_response EINVAL w of (w', x) \<Rightarrow> Some (h, s, r', w', x))
      | (r', Inr input) \<Rightarrow> do {
          (h', s', res) \<leftarrow> process input h s;
          (let (resp_header, output) =
             (case res of
                Inr output \<Rightarrow> (RespHeader_ok, Some output)
              | Inl (err, output) \<Rightarrow> (RespHeader_err err, output))
           in case w_then (write_response wire_RespHeader resp_header)
                     (write_output write_to_chain output) w of
                (w', x) \<Rightarrow> Some (h', s', r', w', x))
        })"

text \<open>An error of \<open>process\<close> without a payload.\<close>

definition no_payload :: "('h, 's, 'o) rw_method \<Rightarrow> ('h, 's, 'o) payload_method" where
  "no_payload m h s = map_option (\<lambda>(h', s', x). (h', s', map_sum (\<lambda>e. (e, None)) id x)) (m h s)"

definition wr_ioctl ::
  "'i chain_read \<Rightarrow> ('o \<Rightarrow> chain_write) \<Rightarrow> ('i \<Rightarrow> ('h, 's, 'o) rw_method) \<Rightarrow> ('h, 's) ioctl_fn"
where
  "wr_ioctl read_from_chain write_to_chain process =
     wr_ioctl_with_err_payload read_from_chain write_to_chain (\<lambda>input. no_payload (process input))"

definition w_ioctl :: "'i chain_read \<Rightarrow> ('i \<Rightarrow> ('h, 's, unit) rw_method) \<Rightarrow> ('h, 's) ioctl_fn" where
  "w_ioctl read_from_chain process = wr_ioctl read_from_chain (write_obj wire_unit) process"

text \<open>A \<open>R\<close> ioctl reads its empty input from \<open>std::io::empty()\<close> and leaves the chain alone.\<close>

definition r_ioctl :: "('o \<Rightarrow> chain_write) \<Rightarrow> ('h, 's, 'o) rw_method \<Rightarrow> ('h, 's) ioctl_fn" where
  "r_ioctl write_to_chain process h s r w =
     map_option (\<lambda>(h', s', _, w', x). (h', s', r, w', x))
       (wr_ioctl (read_obj wire_unit) write_to_chain (\<lambda>_. process) h s [] w)"

definition patch_streamparm :: "'vb v4l2r \<Rightarrow> v4l2_streamparm \<Rightarrow> v4l2_streamparm" where
  "patch_streamparm K parm =
     (case queue_direction K
             (case QueueType_n K (streamparm_type parm) of Some q \<Rightarrow> q | None \<Rightarrow> VideoCapture) of
        Output \<Rightarrow> parm\<lparr>streamparm_parm := set_output_writebuffers K (streamparm_parm parm) 0\<rparr>
      | Capture \<Rightarrow> parm\<lparr>streamparm_parm := set_capture_readbuffers K (streamparm_parm parm) 0\<rparr>)"

text \<open>
  The tail of the three branches for extended controls: the controls are written back on success
  and on failure.
\<close>

definition ctrls_output :: "ctrls_result \<Rightarrow>
    (i32 \<times> (v4l2_ext_controls \<times> v4l2_ext_control list) option) + (v4l2_ext_controls \<times> v4l2_ext_control list)"
where
  "ctrls_output c =
     (case c of
        (ctrls, ctrl_array, Inr _) \<Rightarrow> Inr (ctrls, ctrl_array)
      | (ctrls, ctrl_array, Inl e) \<Rightarrow> Inl (e, Some (ctrls, ctrl_array)))"

definition rw_ctrls ::
  "('h, 's) rw_ctrls_method \<Rightarrow> ('h, 's, v4l2_ext_controls \<times> v4l2_ext_control list) payload_method"
where
  "rw_ctrls m h s = map_option (\<lambda>(h', s', c). (h', s', ctrls_output c)) (m h s)"

definition ro_ctrls ::
  "('h, 's) ro_ctrls_method \<Rightarrow> ('h, 's, v4l2_ext_controls \<times> v4l2_ext_control list) payload_method"
where
  "ro_ctrls m h s = map_option (\<lambda>(h', c). (h', s, ctrls_output c)) (m h s)"

section \<open>The branches of the dispatcher\<close>

definition do_VIDIOC_ENUM_FMT :: "('h, 's, 'vb) ioctl_branch" where
  "do_VIDIOC_ENUM_FMT K H =
     wr_ioctl (read_obj (w_fmtdesc K)) (write_obj (w_fmtdesc K)) (\<lambda>format.
     ok_or (QueueType_n K (fmtdesc_type format)) EINVAL (\<lambda>queue. ro_call (h_enum_fmt H queue (fmtdesc_index format))))"

definition do_VIDIOC_G_FMT :: "('h, 's, 'vb) ioctl_branch" where
  "do_VIDIOC_G_FMT K H =
     wr_ioctl (read_obj (w_format K)) (write_obj (w_format K)) (\<lambda>format.
     ok_or (QueueType_n K (format_type format)) EINVAL (\<lambda>queue. ro_call (h_g_fmt H queue)))"

definition do_VIDIOC_S_FMT :: "('h, 's, 'vb) ioctl_branch" where
  "do_VIDIOC_S_FMT K H =
     wr_ioctl (read_obj (w_format K)) (write_obj (w_format K)) (\<lambda>format.
     ok_or (QueueType_n K (format_type format)) EINVAL (\<lambda>queue. rw_call (h_s_fmt H queue format)))"

definition do_VIDIOC_REQBUFS :: "('h, 's, 'vb) ioctl_branch" where
  "do_VIDIOC_REQBUFS K H =
     wr_ioctl (read_obj (w_requestbuffers K)) (write_obj (w_requestbuffers K)) (\<lambda>reqbufs.
     ok_or (QueueType_n K (reqbufs_type reqbufs)) EINVAL (\<lambda>queue.
       ok_or (MemoryType_n K (reqbufs_memory reqbufs)) EINVAL (\<lambda>memory.
       ok_or (MemoryConsistency_from_bits K (reqbufs_flags reqbufs)) EINVAL (\<lambda>flags.
         if memory = Mmap \<or> memory = UserPtr
         then rw_call (h_reqbufs H queue memory (reqbufs_count reqbufs) flags)
         else fail EINVAL))))"

definition do_VIDIOC_QUERYBUF :: "('h, 's, 'vb) ioctl_branch" where
  "do_VIDIOC_QUERYBUF K H =
     wr_ioctl (read_obj (w_buffer K)) (write_V4l2Buffer K) (\<lambda>buffer.
     ok_or (QueueType_n K (buffer_type buffer)) EINVAL (\<lambda>queue.
       let num_planes = (if is_multiplanar K queue then unat (buffer_length buffer) else 0) in
       map_ok (\<lambda>guest_buffer. (guest_buffer, num_planes)) (ro_call (h_querybuf H queue (buffer_index buffer)))))"

definition do_VIDIOC_QBUF :: "('h, 's, 'vb) ioctl_branch" where
  "do_VIDIOC_QBUF K H =
     wr_ioctl (read_V4l2Buffer K) (write_V4l2Buffer K) (\<lambda>(guest_buffer, guest_regions).
     let num_planes = vb_num_planes K guest_buffer in
     map_ok (\<lambda>guest_buffer. (guest_buffer, num_planes)) (rw_call (h_qbuf H guest_buffer guest_regions)))"

definition do_VIDIOC_STREAMON :: "('h, 's, 'vb) ioctl_branch" where
  "do_VIDIOC_STREAMON K H =
     w_ioctl (read_obj wire_u32) (\<lambda>input.
     ok_or (QueueType_n K input) EINVAL (\<lambda>queue. rw_call (h_streamon H queue)))"

definition do_VIDIOC_STREAMOFF :: "('h, 's, 'vb) ioctl_branch" where
  "do_VIDIOC_STREAMOFF K H =
     w_ioctl (read_obj wire_u32) (\<lambda>input.
     ok_or (QueueType_n K input) EINVAL (\<lambda>queue. rw_call (h_streamoff H queue)))"

definition do_VIDIOC_G_PARM :: "('h, 's, 'vb) ioctl_branch" where
  "do_VIDIOC_G_PARM K H =
     wr_ioctl (read_obj (w_streamparm K)) (write_obj (w_streamparm K)) (\<lambda>parm.
     ok_or (QueueType_n K (streamparm_type parm)) EINVAL (\<lambda>queue. map_ok (patch_streamparm K) (ro_call (h_g_parm H queue))))"

definition do_VIDIOC_S_PARM :: "('h, 's, 'vb) ioctl_branch" where
  "do_VIDIOC_S_PARM K H =
     wr_ioctl (read_obj (w_streamparm K)) (write_obj (w_streamparm K)) (\<lambda>parm.
     map_ok (patch_streamparm K) (rw_call (h_s_parm H (patch_streamparm K parm))))"

definition do_VIDIOC_G_STD :: "('h, 's, 'vb) ioctl_branch" where
  "do_VIDIOC_G_STD K H =
     r_ioctl (write_obj (w_std_id K)) (ro_call (h_g_std H))"

definition do_VIDIOC_S_STD :: "('h, 's, 'vb) ioctl_branch" where
  "do_VIDIOC_S_STD K H =
     w_ioctl (read_obj (w_std_id K)) (\<lambda>id.
     rw_call (h_s_std H id))"

definition do_VIDIOC_ENUMSTD :: "('h, 's, 'vb) ioctl_branch" where
  "do_VIDIOC_ENUMSTD K H =
     wr_ioctl (read_obj (w_standard K)) (write_obj (w_standard K)) (\<lambda>std.
     ro_call (h_enumstd H (standard_index std)))"

definition do_VIDIOC_ENUMINPUT :: "('h, 's, 'vb) ioctl_branch" where
  "do_VIDIOC_ENUMINPUT K H =
     wr_ioctl (read_obj (w_input K)) (write_obj (w_input K)) (\<lambda>input.
     ro_call (h_enuminput H (input_index input)))"

definition do_VIDIOC_G_CTRL :: "('h, 's, 'vb) ioctl_branch" where
  "do_VIDIOC_G_CTRL K H =
     wr_ioctl (read_obj (w_control K)) (write_obj (w_control K)) (\<lambda>ctrl.
     ro_call (h_g_ctrl H (control_id ctrl)))"

definition do_VIDIOC_S_CTRL :: "('h, 's, 'vb) ioctl_branch" where
  "do_VIDIOC_S_CTRL K H =
     wr_ioctl (read_obj (w_control K)) (write_obj (w_control K)) (\<lambda>ctrl.
     rw_call (h_s_ctrl H (control_id ctrl) (control_value ctrl)))"

definition do_VIDIOC_G_TUNER :: "('h, 's, 'vb) ioctl_branch" where
  "do_VIDIOC_G_TUNER K H =
     wr_ioctl (read_obj (w_tuner K)) (write_obj (w_tuner K)) (\<lambda>tuner.
     ro_call (h_g_tuner H (tuner_index tuner)))"

definition do_VIDIOC_S_TUNER :: "('h, 's, 'vb) ioctl_branch" where
  "do_VIDIOC_S_TUNER K H =
     w_ioctl (read_obj (w_tuner K)) (\<lambda>tuner.
     ok_or (TunerMode_n K (tuner_audmode tuner)) EINVAL (\<lambda>mode. rw_call (h_s_tuner H (tuner_index tuner) mode)))"

definition do_VIDIOC_G_AUDIO :: "('h, 's, 'vb) ioctl_branch" where
  "do_VIDIOC_G_AUDIO K H =
     r_ioctl (write_obj (w_audio K)) (ro_call (h_g_audio H))"

definition do_VIDIOC_S_AUDIO :: "('h, 's, 'vb) ioctl_branch" where
  "do_VIDIOC_S_AUDIO K H =
     w_ioctl (read_obj (w_audio K)) (\<lambda>input.
     rw_call (h_s_audio H (audio_index input) (AudioMode_n K (audio_mode input))))"

definition do_VIDIOC_QUERYCTRL :: "('h, 's, 'vb) ioctl_branch" where
  "do_VIDIOC_QUERYCTRL K H =
     wr_ioctl (read_obj (w_queryctrl K)) (write_obj (w_queryctrl K)) (\<lambda>input.
     (case parse_ctrl_id_and_flags K (queryctrl_id input) of (ctrl_id, flags) \<Rightarrow> ro_call (h_queryctrl H ctrl_id flags)))"

definition do_VIDIOC_QUERYMENU :: "('h, 's, 'vb) ioctl_branch" where
  "do_VIDIOC_QUERYMENU K H =
     wr_ioctl (read_obj (w_querymenu K)) (write_obj (w_querymenu K)) (\<lambda>input.
     ro_call (h_querymenu H (querymenu_id input) (querymenu_index input)))"

definition do_VIDIOC_G_INPUT :: "('h, 's, 'vb) ioctl_branch" where
  "do_VIDIOC_G_INPUT K H =
     r_ioctl (write_obj wire_i32) (ro_call (h_g_input H))"

definition do_VIDIOC_S_INPUT :: "('h, 's, 'vb) ioctl_branch" where
  "do_VIDIOC_S_INPUT K H =
     wr_ioctl (read_obj wire_i32) (write_obj wire_i32) (\<lambda>input.
     rw_call (h_s_input H input))"

definition do_VIDIOC_G_OUTPUT :: "('h, 's, 'vb) ioctl_branch" where
  "do_VIDIOC_G_OUTPUT K H =
     r_ioctl (write_obj wire_i32) (ro_call (h_g_output H))"

definition do_VIDIOC_S_OUTPUT :: "('h, 's, 'vb) ioctl_branch" where
  "do_VIDIOC_S_OUTPUT K H =
     wr_ioctl (read_obj wire_i32) (write_obj wire_i32) (\<lambda>output.
     rw_call (h_s_output H output))"

definition do_VIDIOC_ENUMOUTPUT :: "('h, 's, 'vb) ioctl_branch" where
  "do_VIDIOC_ENUMOUTPUT K H =
     wr_ioctl (read_obj (w_output K)) (write_obj (w_output K)) (\<lambda>output.
     ro_call (h_enumoutput H (output_index output)))"

definition do_VIDIOC_G_AUDOUT :: "('h, 's, 'vb) ioctl_branch" where
  "do_VIDIOC_G_AUDOUT K H =
     r_ioctl (write_obj (w_audioout K)) (ro_call (h_g_audout H))"

definition do_VIDIOC_S_AUDOUT :: "('h, 's, 'vb) ioctl_branch" where
  "do_VIDIOC_S_AUDOUT K H =
     w_ioctl (read_obj (w_audioout K)) (\<lambda>audout.
     rw_call (h_s_audout H (audioout_index audout)))"

definition do_VIDIOC_G_MODULATOR :: "('h, 's, 'vb) ioctl_branch" where
  "do_VIDIOC_G_MODULATOR K H =
     wr_ioctl (read_obj (w_modulator K)) (write_obj (w_modulator K)) (\<lambda>modulator.
     ro_call (h_g_modulator H (modulator_index modulator)))"

definition do_VIDIOC_S_MODULATOR :: "('h, 's, 'vb) ioctl_branch" where
  "do_VIDIOC_S_MODULATOR K H =
     w_ioctl (read_obj (w_modulator K)) (\<lambda>modulator.
     ok_or (TunerTransmissionFlags_from_bits K (modulator_txsubchans modulator)) EINVAL
       (\<lambda>flags. rw_call (h_s_modulator H (modulator_index modulator) flags)))"

definition do_VIDIOC_G_FREQUENCY :: "('h, 's, 'vb) ioctl_branch" where
  "do_VIDIOC_G_FREQUENCY K H =
     wr_ioctl (read_obj (w_frequency K)) (write_obj (w_frequency K)) (\<lambda>freq.
     ro_call (h_g_frequency H (frequency_tuner freq)))"

definition do_VIDIOC_S_FREQUENCY :: "('h, 's, 'vb) ioctl_branch" where
  "do_VIDIOC_S_FREQUENCY K H =
     w_ioctl (read_obj (w_frequency K)) (\<lambda>freq.
     ok_or (TunerType_n K (frequency_type freq)) EINVAL
       (\<lambda>type. rw_call (h_s_frequency H (frequency_tuner freq) type (frequency_frequency freq))))"

definition do_VIDIOC_QUERYSTD :: "('h, 's, 'vb) ioctl_branch" where
  "do_VIDIOC_QUERYSTD K H =
     r_ioctl (write_obj (w_std_id K)) (ro_call (h_querystd H))"

definition do_VIDIOC_TRY_FMT :: "('h, 's, 'vb) ioctl_branch" where
  "do_VIDIOC_TRY_FMT K H =
     wr_ioctl (read_obj (w_format K)) (write_obj (w_format K)) (\<lambda>format.
     ok_or (QueueType_n K (format_type format)) EINVAL (\<lambda>queue. ro_call (h_try_fmt H queue format)))"

definition do_VIDIOC_ENUMAUDIO :: "('h, 's, 'vb) ioctl_branch" where
  "do_VIDIOC_ENUMAUDIO K H =
     wr_ioctl (read_obj (w_audio K)) (write_obj (w_audio K)) (\<lambda>audio.
     ro_call (h_enumaudio H (audio_index audio)))"

definition do_VIDIOC_ENUMAUDOUT :: "('h, 's, 'vb) ioctl_branch" where
  "do_VIDIOC_ENUMAUDOUT K H =
     wr_ioctl (read_obj (w_audioout K)) (write_obj (w_audioout K)) (\<lambda>audio.
     ro_call (h_enumaudout H (audioout_index audio)))"

definition do_VIDIOC_G_EXT_CTRLS :: "('h, 's, 'vb) ioctl_branch" where
  "do_VIDIOC_G_EXT_CTRLS K H =
     wr_ioctl_with_err_payload (read_ext_controls K) (write_ext_controls K)
     (\<lambda>(ctrls, ctrl_array, user_regions).
       case CtrlWhich_try_from K ctrls of
         None \<Rightarrow> (\<lambda>h s. Some (h, s, Inl (EINVAL, None)))
       | Some which \<Rightarrow> ro_ctrls (h_g_ext_ctrls H which ctrls ctrl_array user_regions))"

definition do_VIDIOC_S_EXT_CTRLS :: "('h, 's, 'vb) ioctl_branch" where
  "do_VIDIOC_S_EXT_CTRLS K H =
     wr_ioctl_with_err_payload (read_ext_controls K) (write_ext_controls K)
     (\<lambda>(ctrls, ctrl_array, user_regions).
       case CtrlWhich_try_from K ctrls of
         None \<Rightarrow> (\<lambda>h s. Some (h, s, Inl (EINVAL, None)))
       | Some which \<Rightarrow> rw_ctrls (h_s_ext_ctrls H which ctrls ctrl_array user_regions))"

definition do_VIDIOC_TRY_EXT_CTRLS :: "('h, 's, 'vb) ioctl_branch" where
  "do_VIDIOC_TRY_EXT_CTRLS K H =
     wr_ioctl_with_err_payload (read_ext_controls K) (write_ext_controls K)
     (\<lambda>(ctrls, ctrl_array, user_regions).
       case CtrlWhich_try_from K ctrls of
         None \<Rightarrow> (\<lambda>h s. Some (h, s, Inl (EINVAL, None)))
       | Some which \<Rightarrow> ro_ctrls (h_try_ext_ctrls H which ctrls ctrl_array user_regions))"

definition do_VIDIOC_ENUM_FRAMESIZES :: "('h, 's, 'vb) ioctl_branch" where
  "do_VIDIOC_ENUM_FRAMESIZES K H =
     wr_ioctl (read_obj (w_frmsizeenum K)) (write_obj (w_frmsizeenum K)) (\<lambda>e.
     ro_call (h_enum_framesizes H (frmsize_index e) (frmsize_pixel_format e)))"

definition do_VIDIOC_ENUM_FRAMEINTERVALS :: "('h, 's, 'vb) ioctl_branch" where
  "do_VIDIOC_ENUM_FRAMEINTERVALS K H =
     wr_ioctl (read_obj (w_frmivalenum K)) (write_obj (w_frmivalenum K)) (\<lambda>e.
     ro_call (h_enum_frameintervals H (frmival_index e) (frmival_pixel_format e) (frmival_width e) (frmival_height e)))"

definition do_VIDIOC_G_ENC_INDEX :: "('h, 's, 'vb) ioctl_branch" where
  "do_VIDIOC_G_ENC_INDEX K H =
     r_ioctl (write_obj (w_enc_idx K)) (ro_call (h_g_enc_index H))"

definition do_VIDIOC_ENCODER_CMD :: "('h, 's, 'vb) ioctl_branch" where
  "do_VIDIOC_ENCODER_CMD K H =
     wr_ioctl (read_obj (w_encoder_cmd K)) (write_obj (w_encoder_cmd K)) (\<lambda>cmd.
     rw_call (h_encoder_cmd H cmd))"

definition do_VIDIOC_TRY_ENCODER_CMD :: "('h, 's, 'vb) ioctl_branch" where
  "do_VIDIOC_TRY_ENCODER_CMD K H =
     wr_ioctl (read_obj (w_encoder_cmd K)) (write_obj (w_encoder_cmd K)) (\<lambda>cmd.
     ro_call (h_try_encoder_cmd H cmd))"

definition do_VIDIOC_S_DV_TIMINGS :: "('h, 's, 'vb) ioctl_branch" where
  "do_VIDIOC_S_DV_TIMINGS K H =
     wr_ioctl (read_obj (w_dv_timings K)) (write_obj (w_dv_timings K)) (\<lambda>timings.
     rw_call (h_s_dv_timings H timings))"

definition do_VIDIOC_G_DV_TIMINGS :: "('h, 's, 'vb) ioctl_branch" where
  "do_VIDIOC_G_DV_TIMINGS K H =
     wr_ioctl (read_obj (w_dv_timings K)) (write_obj (w_dv_timings K)) (\<lambda>_.
     ro_call (h_g_dv_timings H))"

definition do_VIDIOC_SUBSCRIBE_EVENT :: "('h, 's, 'vb) ioctl_branch" where
  "do_VIDIOC_SUBSCRIBE_EVENT K H =
     w_ioctl (read_obj (w_event_subscription K)) (\<lambda>input.
     unwrap (EventType_try_from K input) (\<lambda>event.
       unwrap (SubscribeEventFlags_from_bits K (subscription_flags input)) (\<lambda>flags.
         rw_call (h_subscribe_event H event flags))))"

definition do_VIDIOC_UNSUBSCRIBE_EVENT :: "('h, 's, 'vb) ioctl_branch" where
  "do_VIDIOC_UNSUBSCRIBE_EVENT K H =
     w_ioctl (read_obj (w_event_subscription K)) (\<lambda>event.
     rw_call (h_unsubscribe_event H event))"

definition do_VIDIOC_CREATE_BUFS :: "('h, 's, 'vb) ioctl_branch" where
  "do_VIDIOC_CREATE_BUFS K H =
     wr_ioctl (read_obj (w_create_buffers K)) (write_obj (w_create_buffers K)) (\<lambda>input.
     ok_or (QueueType_n K (format_type (create_format input))) EINVAL (\<lambda>queue.
       ok_or (MemoryType_n K (create_memory input)) EINVAL (\<lambda>memory.
         rw_call (h_create_bufs H (create_count input) queue memory (create_format input)))))"

definition do_VIDIOC_PREPARE_BUF :: "('h, 's, 'vb) ioctl_branch" where
  "do_VIDIOC_PREPARE_BUF K H =
     wr_ioctl (read_V4l2Buffer K) (write_V4l2Buffer K) (\<lambda>(guest_buffer, guest_regions).
     let num_planes = vb_num_planes K guest_buffer in
     map_ok (\<lambda>out_buffer. (out_buffer, num_planes)) (rw_call (h_prepare_buf H guest_buffer guest_regions)))"

definition do_VIDIOC_G_SELECTION :: "('h, 's, 'vb) ioctl_branch" where
  "do_VIDIOC_G_SELECTION K H =
     wr_ioctl (read_obj (w_selection K)) (write_obj (w_selection K)) (\<lambda>selection.
     ok_or (SelectionType_n K (selection_type selection)) EINVAL (\<lambda>sel_type.
       ok_or (SelectionTarget_n K (selection_target selection)) EINVAL (\<lambda>sel_target.
         map_ok (\<lambda>rect. selection\<lparr>selection_r := rect\<rparr>) (ro_call (h_g_selection H sel_type sel_target)))))"

definition do_VIDIOC_S_SELECTION :: "('h, 's, 'vb) ioctl_branch" where
  "do_VIDIOC_S_SELECTION K H =
     wr_ioctl (read_obj (w_selection K)) (write_obj (w_selection K)) (\<lambda>selection.
     ok_or (SelectionType_n K (selection_type selection)) EINVAL (\<lambda>sel_type.
       ok_or (SelectionTarget_n K (selection_target selection)) EINVAL (\<lambda>sel_target.
       ok_or (SelectionFlags_from_bits K (selection_flags selection)) EINVAL (\<lambda>sel_flags.
         map_ok (\<lambda>rect. selection\<lparr>selection_r := rect\<rparr>)
           (rw_call (h_s_selection H sel_type sel_target (selection_r selection) sel_flags))))))"

definition do_VIDIOC_DECODER_CMD :: "('h, 's, 'vb) ioctl_branch" where
  "do_VIDIOC_DECODER_CMD K H =
     wr_ioctl (read_obj (w_decoder_cmd K)) (write_obj (w_decoder_cmd K)) (\<lambda>cmd.
     rw_call (h_decoder_cmd H cmd))"

definition do_VIDIOC_TRY_DECODER_CMD :: "('h, 's, 'vb) ioctl_branch" where
  "do_VIDIOC_TRY_DECODER_CMD K H =
     wr_ioctl (read_obj (w_decoder_cmd K)) (write_obj (w_decoder_cmd K)) (\<lambda>cmd.
     ro_call (h_try_decoder_cmd H cmd))"

definition do_VIDIOC_ENUM_DV_TIMINGS :: "('h, 's, 'vb) ioctl_branch" where
  "do_VIDIOC_ENUM_DV_TIMINGS K H =
     wr_ioctl (read_obj (w_enum_dv_timings K)) (write_obj (w_enum_dv_timings K)) (\<lambda>enum_timings.
     map_ok (\<lambda>timings. enum_timings\<lparr>enum_timings_timings := timings\<rparr>)
       (ro_call (h_enum_dv_timings H (enum_timings_index enum_timings))))"

definition do_VIDIOC_QUERY_DV_TIMINGS :: "('h, 's, 'vb) ioctl_branch" where
  "do_VIDIOC_QUERY_DV_TIMINGS K H =
     r_ioctl (write_obj (w_dv_timings K)) (ro_call (h_query_dv_timings H))"

definition do_VIDIOC_DV_TIMINGS_CAP :: "('h, 's, 'vb) ioctl_branch" where
  "do_VIDIOC_DV_TIMINGS_CAP K H =
     wr_ioctl (read_obj (w_dv_timings_cap K)) (write_obj (w_dv_timings_cap K)) (\<lambda>_.
     ref_call (h_dv_timings_cap H))"

definition do_VIDIOC_ENUM_FREQ_BANDS :: "('h, 's, 'vb) ioctl_branch" where
  "do_VIDIOC_ENUM_FREQ_BANDS K H =
     wr_ioctl (read_obj (w_frequency_band K)) (write_obj (w_frequency_band K)) (\<lambda>band.
     ok_or (TunerType_n K (band_type band)) EINVAL
       (\<lambda>type. ref_call (h_enum_freq_bands H (band_tuner band) type (band_index band))))"

definition do_VIDIOC_QUERY_EXT_CTRL :: "('h, 's, 'vb) ioctl_branch" where
  "do_VIDIOC_QUERY_EXT_CTRL K H =
     wr_ioctl (read_obj (w_query_ext_ctrl K)) (write_obj (w_query_ext_ctrl K)) (\<lambda>ctrl.
     (case parse_ctrl_id_and_flags K (query_ext_id ctrl) of (ctrl_id, flags) \<Rightarrow> ro_call (h_query_ext_ctrl H ctrl_id flags)))"

primrec virtio_media_dispatch_ioctl ::
  "'vb v4l2r \<Rightarrow> ('h, 's, 'vb) VirtioMediaIoctlHandler \<Rightarrow> V4l2Ioctl \<Rightarrow> ('h, 's) ioctl_fn"
where
  "virtio_media_dispatch_ioctl K H VIDIOC_QUERYCAP = invalid_ioctl"
| "virtio_media_dispatch_ioctl K H VIDIOC_ENUM_FMT = do_VIDIOC_ENUM_FMT K H"
| "virtio_media_dispatch_ioctl K H VIDIOC_G_FMT = do_VIDIOC_G_FMT K H"
| "virtio_media_dispatch_ioctl K H VIDIOC_S_FMT = do_VIDIOC_S_FMT K H"
| "virtio_media_dispatch_ioctl K H VIDIOC_REQBUFS = do_VIDIOC_REQBUFS K H"
| "virtio_media_dispatch_ioctl K H VIDIOC_QUERYBUF = do_VIDIOC_QUERYBUF K H"
| "virtio_media_dispatch_ioctl K H VIDIOC_G_FBUF = invalid_ioctl"
| "virtio_media_dispatch_ioctl K H VIDIOC_S_FBUF = invalid_ioctl"
| "virtio_media_dispatch_ioctl K H VIDIOC_OVERLAY = invalid_ioctl"
| "virtio_media_dispatch_ioctl K H VIDIOC_QBUF = do_VIDIOC_QBUF K H"
| "virtio_media_dispatch_ioctl K H VIDIOC_EXPBUF = invalid_ioctl"
| "virtio_media_dispatch_ioctl K H VIDIOC_DQBUF = invalid_ioctl"
| "virtio_media_dispatch_ioctl K H VIDIOC_STREAMON = do_VIDIOC_STREAMON K H"
| "virtio_media_dispatch_ioctl K H VIDIOC_STREAMOFF = do_VIDIOC_STREAMOFF K H"
| "virtio_media_dispatch_ioctl K H VIDIOC_G_PARM = do_VIDIOC_G_PARM K H"
| "virtio_media_dispatch_ioctl K H VIDIOC_S_PARM = do_VIDIOC_S_PARM K H"
| "virtio_media_dispatch_ioctl K H VIDIOC_G_STD = do_VIDIOC_G_STD K H"
| "virtio_media_dispatch_ioctl K H VIDIOC_S_STD = do_VIDIOC_S_STD K H"
| "virtio_media_dispatch_ioctl K H VIDIOC_ENUMSTD = do_VIDIOC_ENUMSTD K H"
| "virtio_media_dispatch_ioctl K H VIDIOC_ENUMINPUT = do_VIDIOC_ENUMINPUT K H"
| "virtio_media_dispatch_ioctl K H VIDIOC_G_CTRL = do_VIDIOC_G_CTRL K H"
| "virtio_media_dispatch_ioctl K H VIDIOC_S_CTRL = do_VIDIOC_S_CTRL K H"
| "virtio_media_dispatch_ioctl K H VIDIOC_G_TUNER = do_VIDIOC_G_TUNER K H"
| "virtio_media_dispatch_ioctl K H VIDIOC_S_TUNER = do_VIDIOC_S_TUNER K H"
| "virtio_media_dispatch_ioctl K H VIDIOC_G_AUDIO = do_VIDIOC_G_AUDIO K H"
| "virtio_media_dispatch_ioctl K H VIDIOC_S_AUDIO = do_VIDIOC_S_AUDIO K H"
| "virtio_media_dispatch_ioctl K H VIDIOC_QUERYCTRL = do_VIDIOC_QUERYCTRL K H"
| "virtio_media_dispatch_ioctl K H VIDIOC_QUERYMENU = do_VIDIOC_QUERYMENU K H"
| "virtio_media_dispatch_ioctl K H VIDIOC_G_INPUT = do_VIDIOC_G_INPUT K H"
| "virtio_media_dispatch_ioctl K H VIDIOC_S_INPUT = do_VIDIOC_S_INPUT K H"
| "virtio_media_dispatch_ioctl K H VIDIOC_G_EDID = invalid_ioctl"
| "virtio_media_dispatch_ioctl K H VIDIOC_S_EDID = invalid_ioctl"
| "virtio_media_dispatch_ioctl K H VIDIOC_G_OUTPUT = do_VIDIOC_G_OUTPUT K H"
| "virtio_media_dispatch_ioctl K H VIDIOC_S_OUTPUT = do_VIDIOC_S_OUTPUT K H"
| "virtio_media_dispatch_ioctl K H VIDIOC_ENUMOUTPUT = do_VIDIOC_ENUMOUTPUT K H"
| "virtio_media_dispatch_ioctl K H VIDIOC_G_AUDOUT = do_VIDIOC_G_AUDOUT K H"
| "virtio_media_dispatch_ioctl K H VIDIOC_S_AUDOUT = do_VIDIOC_S_AUDOUT K H"
| "virtio_media_dispatch_ioctl K H VIDIOC_G_MODULATOR = do_VIDIOC_G_MODULATOR K H"
| "virtio_media_dispatch_ioctl K H VIDIOC_S_MODULATOR = do_VIDIOC_S_MODULATOR K H"
| "virtio_media_dispatch_ioctl K H VIDIOC_G_FREQUENCY = do_VIDIOC_G_FREQUENCY K H"
| "virtio_media_dispatch_ioctl K H VIDIOC_S_FREQUENCY = do_VIDIOC_S_FREQUENCY K H"
| "virtio_media_dispatch_ioctl K H VIDIOC_CROPCAP = invalid_ioctl"
| "virtio_media_dispatch_ioctl K H VIDIOC_G_CROP = invalid_ioctl"
| "virtio_media_dispatch_ioctl K H VIDIOC_S_CROP = invalid_ioctl"
| "virtio_media_dispatch_ioctl K H VIDIOC_G_JPEGCOMP = invalid_ioctl"
| "virtio_media_dispatch_ioctl K H VIDIOC_S_JPEGCOMP = invalid_ioctl"
| "virtio_media_dispatch_ioctl K H VIDIOC_QUERYSTD = do_VIDIOC_QUERYSTD K H"
| "virtio_media_dispatch_ioctl K H VIDIOC_TRY_FMT = do_VIDIOC_TRY_FMT K H"
| "virtio_media_dispatch_ioctl K H VIDIOC_ENUMAUDIO = do_VIDIOC_ENUMAUDIO K H"
| "virtio_media_dispatch_ioctl K H VIDIOC_ENUMAUDOUT = do_VIDIOC_ENUMAUDOUT K H"
| "virtio_media_dispatch_ioctl K H VIDIOC_G_PRIORITY = invalid_ioctl"
| "virtio_media_dispatch_ioctl K H VIDIOC_S_PRIORITY = invalid_ioctl"
| "virtio_media_dispatch_ioctl K H VIDIOC_G_SLICED_VBI_CAP = invalid_ioctl"
| "virtio_media_dispatch_ioctl K H VIDIOC_LOG_STATUS = invalid_ioctl"
| "virtio_media_dispatch_ioctl K H VIDIOC_G_EXT_CTRLS = do_VIDIOC_G_EXT_CTRLS K H"
| "virtio_media_dispatch_ioctl K H VIDIOC_S_EXT_CTRLS = do_VIDIOC_S_EXT_CTRLS K H"
| "virtio_media_dispatch_ioctl K H VIDIOC_TRY_EXT_CTRLS = do_VIDIOC_TRY_EXT_CTRLS K H"
| "virtio_media_dispatch_ioctl K H VIDIOC_ENUM_FRAMESIZES = do_VIDIOC_ENUM_FRAMESIZES K H"
| "virtio_media_dispatch_ioctl K H VIDIOC_ENUM_FRAMEINTERVALS = do_VIDIOC_ENUM_FRAMEINTERVALS K H"
| "virtio_media_dispatch_ioctl K H VIDIOC_G_ENC_INDEX = do_VIDIOC_G_ENC_INDEX K H"
| "virtio_media_dispatch_ioctl K H VIDIOC_ENCODER_CMD = do_VIDIOC_ENCODER_CMD K H"
| "virtio_media_dispatch_ioctl K H VIDIOC_TRY_ENCODER_CMD = do_VIDIOC_TRY_ENCODER_CMD K H"
| "virtio_media_dispatch_ioctl K H VIDIOC_DBG_S_REGISTER = invalid_ioctl"
| "virtio_media_dispatch_ioctl K H VIDIOC_DBG_G_REGISTER = invalid_ioctl"
| "virtio_media_dispatch_ioctl K H VIDIOC_S_HW_FREQ_SEEK = invalid_ioctl"
| "virtio_media_dispatch_ioctl K H VIDIOC_S_DV_TIMINGS = do_VIDIOC_S_DV_TIMINGS K H"
| "virtio_media_dispatch_ioctl K H VIDIOC_G_DV_TIMINGS = do_VIDIOC_G_DV_TIMINGS K H"
| "virtio_media_dispatch_ioctl K H VIDIOC_DQEVENT = invalid_ioctl"
| "virtio_media_dispatch_ioctl K H VIDIOC_SUBSCRIBE_EVENT = do_VIDIOC_SUBSCRIBE_EVENT K H"
| "virtio_media_dispatch_ioctl K H VIDIOC_UNSUBSCRIBE_EVENT = do_VIDIOC_UNSUBSCRIBE_EVENT K H"
| "virtio_media_dispatch_ioctl K H VIDIOC_CREATE_BUFS = do_VIDIOC_CREATE_BUFS K H"
| "virtio_media_dispatch_ioctl K H VIDIOC_PREPARE_BUF = do_VIDIOC_PREPARE_BUF K H"
| "virtio_media_dispatch_ioctl K H VIDIOC_G_SELECTION = do_VIDIOC_G_SELECTION K H"
| "virtio_media_dispatch_ioctl K H VIDIOC_S_SELECTION = do_VIDIOC_S_SELECTION K H"
| "virtio_media_dispatch_ioctl K H VIDIOC_DECODER_CMD = do_VIDIOC_DECODER_CMD K H"
| "virtio_media_dispatch_ioctl K H VIDIOC_TRY_DECODER_CMD = do_VIDIOC_TRY_DECODER_CMD K H"
| "virtio_media_dispatch_ioctl K H VIDIOC_ENUM_DV_TIMINGS = do_VIDIOC_ENUM_DV_TIMINGS K H"
| "virtio_media_dispatch_ioctl K H VIDIOC_QUERY_DV_TIMINGS = do_VIDIOC_QUERY_DV_TIMINGS K H"
| "virtio_media_dispatch_ioctl K H VIDIOC_DV_TIMINGS_CAP = do_VIDIOC_DV_TIMINGS_CAP K H"
| "virtio_media_dispatch_ioctl K H VIDIOC_ENUM_FREQ_BANDS = do_VIDIOC_ENUM_FREQ_BANDS K H"
| "virtio_media_dispatch_ioctl K H VIDIOC_DBG_G_CHIP_INFO = invalid_ioctl"
| "virtio_media_dispatch_ioctl K H VIDIOC_QUERY_EXT_CTRL = do_VIDIOC_QUERY_EXT_CTRL K H"

lemmas branch_defs =
  do_VIDIOC_ENUM_FMT_def do_VIDIOC_G_FMT_def do_VIDIOC_S_FMT_def
  do_VIDIOC_REQBUFS_def do_VIDIOC_QUERYBUF_def do_VIDIOC_QBUF_def
  do_VIDIOC_STREAMON_def do_VIDIOC_STREAMOFF_def do_VIDIOC_G_PARM_def
  do_VIDIOC_S_PARM_def do_VIDIOC_G_STD_def do_VIDIOC_S_STD_def
  do_VIDIOC_ENUMSTD_def do_VIDIOC_ENUMINPUT_def do_VIDIOC_G_CTRL_def
  do_VIDIOC_S_CTRL_def do_VIDIOC_G_TUNER_def do_VIDIOC_S_TUNER_def
  do_VIDIOC_G_AUDIO_def do_VIDIOC_S_AUDIO_def do_VIDIOC_QUERYCTRL_def
  do_VIDIOC_QUERYMENU_def do_VIDIOC_G_INPUT_def do_VIDIOC_S_INPUT_def
  do_VIDIOC_G_OUTPUT_def do_VIDIOC_S_OUTPUT_def do_VIDIOC_ENUMOUTPUT_def
  do_VIDIOC_G_AUDOUT_def do_VIDIOC_S_AUDOUT_def do_VIDIOC_G_MODULATOR_def
  do_VIDIOC_S_MODULATOR_def do_VIDIOC_G_FREQUENCY_def do_VIDIOC_S_FREQUENCY_def
  do_VIDIOC_QUERYSTD_def do_VIDIOC_TRY_FMT_def do_VIDIOC_ENUMAUDIO_def
  do_VIDIOC_ENUMAUDOUT_def do_VIDIOC_G_EXT_CTRLS_def do_VIDIOC_S_EXT_CTRLS_def
  do_VIDIOC_TRY_EXT_CTRLS_def do_VIDIOC_ENUM_FRAMESIZES_def do_VIDIOC_ENUM_FRAMEINTERVALS_def
  do_VIDIOC_G_ENC_INDEX_def do_VIDIOC_ENCODER_CMD_def do_VIDIOC_TRY_ENCODER_CMD_def
  do_VIDIOC_S_DV_TIMINGS_def do_VIDIOC_G_DV_TIMINGS_def do_VIDIOC_SUBSCRIBE_EVENT_def
  do_VIDIOC_UNSUBSCRIBE_EVENT_def do_VIDIOC_CREATE_BUFS_def do_VIDIOC_PREPARE_BUF_def
  do_VIDIOC_G_SELECTION_def do_VIDIOC_S_SELECTION_def do_VIDIOC_DECODER_CMD_def
  do_VIDIOC_TRY_DECODER_CMD_def do_VIDIOC_ENUM_DV_TIMINGS_def do_VIDIOC_QUERY_DV_TIMINGS_def
  do_VIDIOC_DV_TIMINGS_CAP_def do_VIDIOC_ENUM_FREQ_BANDS_def do_VIDIOC_QUERY_EXT_CTRL_def

text \<open>The ioctls that no device can support, and the size of the fixed part of the input of each.\<close>

definition unsupported_ioctls :: "V4l2Ioctl list" where
  "unsupported_ioctls =
     [VIDIOC_QUERYCAP, VIDIOC_G_FBUF, VIDIOC_S_FBUF, VIDIOC_OVERLAY,
      VIDIOC_EXPBUF, VIDIOC_DQBUF, VIDIOC_G_EDID, VIDIOC_S_EDID,
      VIDIOC_CROPCAP, VIDIOC_G_CROP, VIDIOC_S_CROP, VIDIOC_G_JPEGCOMP,
      VIDIOC_S_JPEGCOMP, VIDIOC_G_PRIORITY, VIDIOC_S_PRIORITY, VIDIOC_G_SLICED_VBI_CAP,
      VIDIOC_LOG_STATUS, VIDIOC_DBG_G_REGISTER, VIDIOC_DBG_S_REGISTER, VIDIOC_S_HW_FREQ_SEEK,
      VIDIOC_DQEVENT, VIDIOC_DBG_G_CHIP_INFO]"

primrec input_size :: "'vb v4l2r \<Rightarrow> V4l2Ioctl \<Rightarrow> nat" where
  "input_size K VIDIOC_QUERYCAP = 0"
| "input_size K VIDIOC_ENUM_FMT = size_of (w_fmtdesc K)"
| "input_size K VIDIOC_G_FMT = size_of (w_format K)"
| "input_size K VIDIOC_S_FMT = size_of (w_format K)"
| "input_size K VIDIOC_REQBUFS = size_of (w_requestbuffers K)"
| "input_size K VIDIOC_QUERYBUF = size_of (w_buffer K)"
| "input_size K VIDIOC_G_FBUF = 0"
| "input_size K VIDIOC_S_FBUF = 0"
| "input_size K VIDIOC_OVERLAY = 0"
| "input_size K VIDIOC_QBUF = size_of (w_buffer K)"
| "input_size K VIDIOC_EXPBUF = 0"
| "input_size K VIDIOC_DQBUF = 0"
| "input_size K VIDIOC_STREAMON = size_of wire_u32"
| "input_size K VIDIOC_STREAMOFF = size_of wire_u32"
| "input_size K VIDIOC_G_PARM = size_of (w_streamparm K)"
| "input_size K VIDIOC_S_PARM = size_of (w_streamparm K)"
| "input_size K VIDIOC_G_STD = 0"
| "input_size K VIDIOC_S_STD = size_of (w_std_id K)"
| "input_size K VIDIOC_ENUMSTD = size_of (w_standard K)"
| "input_size K VIDIOC_ENUMINPUT = size_of (w_input K)"
| "input_size K VIDIOC_G_CTRL = size_of (w_control K)"
| "input_size K VIDIOC_S_CTRL = size_of (w_control K)"
| "input_size K VIDIOC_G_TUNER = size_of (w_tuner K)"
| "input_size K VIDIOC_S_TUNER = size_of (w_tuner K)"
| "input_size K VIDIOC_G_AUDIO = 0"
| "input_size K VIDIOC_S_AUDIO = size_of (w_audio K)"
| "input_size K VIDIOC_QUERYCTRL = size_of (w_queryctrl K)"
| "input_size K VIDIOC_QUERYMENU = size_of (w_querymenu K)"
| "input_size K VIDIOC_G_INPUT = 0"
| "input_size K VIDIOC_S_INPUT = size_of wire_i32"
| "input_size K VIDIOC_G_EDID = 0"
| "input_size K VIDIOC_S_EDID = 0"
| "input_size K VIDIOC_G_OUTPUT = 0"
| "input_size K VIDIOC_S_OUTPUT = size_of wire_i32"
| "input_size K VIDIOC_ENUMOUTPUT = size_of (w_output K)"
| "input_size K VIDIOC_G_AUDOUT = 0"
| "input_size K VIDIOC_S_AUDOUT = size_of (w_audioout K)"
| "input_size K VIDIOC_G_MODULATOR = size_of (w_modulator K)"
| "input_size K VIDIOC_S_MODULATOR = size_of (w_modulator K)"
| "input_size K VIDIOC_G_FREQUENCY = size_of (w_frequency K)"
| "input_size K VIDIOC_S_FREQUENCY = size_of (w_frequency K)"
| "input_size K VIDIOC_CROPCAP = 0"
| "input_size K VIDIOC_G_CROP = 0"
| "input_size K VIDIOC_S_CROP = 0"
| "input_size K VIDIOC_G_JPEGCOMP = 0"
| "input_size K VIDIOC_S_JPEGCOMP = 0"
| "input_size K VIDIOC_QUERYSTD = 0"
| "input_size K VIDIOC_TRY_FMT = size_of (w_format K)"
| "input_size K VIDIOC_ENUMAUDIO = size_of (w_audio K)"
| "input_size K VIDIOC_ENUMAUDOUT = size_of (w_audioout K)"
| "input_size K VIDIOC_G_PRIORITY = 0"
| "input_size K VIDIOC_S_PRIORITY = 0"
| "input_size K VIDIOC_G_SLICED_VBI_CAP = 0"
| "input_size K VIDIOC_LOG_STATUS = 0"
| "input_size K VIDIOC_G_EXT_CTRLS = size_of (w_ext_controls K)"
| "input_size K VIDIOC_S_EXT_CTRLS = size_of (w_ext_controls K)"
| "input_size K VIDIOC_TRY_EXT_CTRLS = size_of (w_ext_controls K)"
| "input_size K VIDIOC_ENUM_FRAMESIZES = size_of (w_frmsizeenum K)"
| "input_size K VIDIOC_ENUM_FRAMEINTERVALS = size_of (w_frmivalenum K)"
| "input_size K VIDIOC_G_ENC_INDEX = 0"
| "input_size K VIDIOC_ENCODER_CMD = size_of (w_encoder_cmd K)"
| "input_size K VIDIOC_TRY_ENCODER_CMD = size_of (w_encoder_cmd K)"
| "input_size K VIDIOC_DBG_S_REGISTER = 0"
| "input_size K VIDIOC_DBG_G_REGISTER = 0"
| "input_size K VIDIOC_S_HW_FREQ_SEEK = 0"
| "input_size K VIDIOC_S_DV_TIMINGS = size_of (w_dv_timings K)"
| "input_size K VIDIOC_G_DV_TIMINGS = size_of (w_dv_timings K)"
| "input_size K VIDIOC_DQEVENT = 0"
| "input_size K VIDIOC_SUBSCRIBE_EVENT = size_of (w_event_subscription K)"
| "input_size K VIDIOC_UNSUBSCRIBE_EVENT = size_of (w_event_subscription K)"
| "input_size K VIDIOC_CREATE_BUFS = size_of (w_create_buffers K)"
| "input_size K VIDIOC_PREPARE_BUF = size_of (w_buffer K)"
| "input_size K VIDIOC_G_SELECTION = size_of (w_selection K)"
| "input_size K VIDIOC_S_SELECTION = size_of (w_selection K)"
| "input_size K VIDIOC_DECODER_CMD = size_of (w_decoder_cmd K)"
| "input_size K VIDIOC_TRY_DECODER_CMD = size_of (w_decoder_cmd K)"
| "input_size K VIDIOC_ENUM_DV_TIMINGS = size_of (w_enum_dv_timings K)"
| "input_size K VIDIOC_QUERY_DV_TIMINGS = 0"
| "input_size K VIDIOC_DV_TIMINGS_CAP = size_of (w_dv_timings_cap K)"
| "input_size K VIDIOC_ENUM_FREQ_BANDS = size_of (w_frequency_band K)"
| "input_size K VIDIOC_DBG_G_CHIP_INFO = 0"
| "input_size K VIDIOC_QUERY_EXT_CTRL = size_of (w_query_ext_ctrl K)"

section \<open>Every ioctl is answered\<close>

text \<open>
  An ioctl function answers when, given room for a response header, what it writes begins with
  one, and it only appends to the chain.
\<close>

definition answers :: "('h, 's) ioctl_fn \<Rightarrow> bool" where
  "answers f \<longleftrightarrow> (\<forall>h s r w h' s' r' w' x. f h s r w = Some (h', s', r', w', x) \<longrightarrow>
     extends w w' \<and> (8 \<le> room w \<longrightarrow> responded w w'))"

named_theorems answering \<open>ioctl functions that answer\<close>

definition appending :: "('o \<Rightarrow> chain_write) \<Rightarrow> bool" where
  "appending wr \<longleftrightarrow> (\<forall>out w w' x. wr out w = (w', x) \<longrightarrow> extends w w')"

lemma appending_obj [answering]: "appending (write_obj t)"
  by (auto simp: appending_def intro: write_obj_extends)

lemma appending_buffer [answering]: "appending (write_V4l2Buffer K)"
  by (auto simp: appending_def intro: write_V4l2Buffer_extends)

lemma appending_controls [answering]: "appending (write_ext_controls K)"
  by (auto simp: appending_def intro: write_ext_controls_extends)

lemma RespHeader_cases: "resp_padding hdr = 0 \<Longrightarrow> hdr = RespHeader_err (errno hdr)"
  by (simp add: RespHeader_err_def)

text \<open>Writing a header and then an optional payload, as the dispatcher does.\<close>

lemma respond_then:
  assumes "appending wr" and "w_then (write_response wire_RespHeader (RespHeader_err e))
    (write_output wr out) w = (w', x)"
  shows "extends w w'" and "8 \<le> room w \<Longrightarrow> responded w w'"
proof -
  have f: "extends v v'" if "write_output wr out v = (v', y)" for v v' y
    using that assms(1) by (auto simp: appending_def write_output_def split: option.splits)
  show "extends w w'"
    by (rule w_then_extends [OF _ _ assms(2)]) (auto simp: write_response_def write_obj_extends f)
  assume "8 \<le> room w"
  then have hdr: "write_response wire_RespHeader (RespHeader_err e) w =
      (w\<lparr>written := written w @ hdr_bytes e, room := room w - 8\<rparr>, Inr ())"
    by (simp add: write_response_def RespHeader.write_fits)
  have "responded w (w\<lparr>written := written w @ hdr_bytes e, room := room w - 8\<rparr>)"
    by (auto simp: responded_def)
  moreover have "extends (w\<lparr>written := written w @ hdr_bytes e, room := room w - 8\<rparr>) w'"
    using assms(2) f by (auto simp: w_then_def hdr)
  ultimately show "responded w w'" by (rule responded_extends)
qed

lemma answers_invalid [answering]: "answers invalid_ioctl"
  by (auto simp: answers_def invalid_ioctl_def write_err_extends split: prod.splits)
    (metis fst_conv write_err_responded)

lemma answers_payload [answering]:
  assumes "appending wr"
  shows "answers (wr_ioctl_with_err_payload rd wr process)"
  unfolding answers_def
proof (intro allI impI)
  fix h s r w h' s' r' w' x
  assume run: "wr_ioctl_with_err_payload rd wr process h s r w = Some (h', s', r', w', x)"
  obtain r1 y where rd: "rd r = (r1, y)" by (cases rule: prod.exhaust)
  show "extends w w' \<and> (8 \<le> room w \<longrightarrow> responded w w')"
  proof (cases y)
    case (Inl e)
    with run rd have "write_err_response EINVAL w = (w', x)"
      by (auto simp: wr_ioctl_with_err_payload_def split: prod.splits)
    with write_err_extends [OF this] write_err_responded [of w EINVAL] show ?thesis by auto
  next
    case (Inr input)
    with run rd obtain e out where
      "w_then (write_response wire_RespHeader (RespHeader_err e))
        (write_output wr out) w = (w', x)"
      by (auto simp: wr_ioctl_with_err_payload_def Let_def RespHeader_ok_err bind_eq_Some_conv
          split: prod.splits sum.splits)
    from respond_then [OF assms this] show ?thesis by blast
  qed
qed

lemma answers_wr [answering]: "appending wr \<Longrightarrow> answers (wr_ioctl rd wr process)"
  by (simp add: wr_ioctl_def answering)

lemma answers_w [answering]: "answers (w_ioctl rd process)"
  by (simp add: w_ioctl_def answering)

lemma answers_r [answering]:
  assumes "appending wr"
  shows "answers (r_ioctl wr process)"
  using answers_wr [OF assms, of "read_obj wire_unit" "\<lambda>_. process"]
  by (fastforce simp: answers_def r_ioctl_def)

lemma answers_dispatch: "answers (virtio_media_dispatch_ioctl K H ioctl)"
  by (cases ioctl; simp add: branch_defs answering)

section \<open>The contract between the dispatcher and a handler\<close>

text \<open>
  A device states what it keeps true of itself and of a session as a predicate \<open>I\<close>. The
  contract is that every method that returns keeps it; the dispatcher then keeps it for every
  ioctl, whatever the guest sends.
\<close>

definition rw_keeps :: "('h \<Rightarrow> 's \<Rightarrow> bool) \<Rightarrow> ('h \<Rightarrow> 's \<Rightarrow> ('h \<times> 's \<times> 'x) option) \<Rightarrow> bool" where
  "rw_keeps I m \<longleftrightarrow> (\<forall>h s h' s' x. I h s \<longrightarrow> m h s = Some (h', s', x) \<longrightarrow> I h' s')"

definition ro_keeps :: "('h \<Rightarrow> 's \<Rightarrow> bool) \<Rightarrow> ('h \<Rightarrow> 's \<Rightarrow> ('h \<times> 'x) option) \<Rightarrow> bool" where
  "ro_keeps I m \<longleftrightarrow> (\<forall>h s h' x. I h s \<longrightarrow> m h s = Some (h', x) \<longrightarrow> I h' s)"

definition fn_keeps :: "('h \<Rightarrow> 's \<Rightarrow> bool) \<Rightarrow> ('h, 's) ioctl_fn \<Rightarrow> bool" where
  "fn_keeps I f \<longleftrightarrow> (\<forall>h s r w h' s' r' w' x. I h s \<longrightarrow> f h s r w = Some (h', s', r', w', x) \<longrightarrow> I h' s')"

named_theorems keeping \<open>combinators of the dispatcher that keep an invariant\<close>

lemma keeps_calls [keeping]:
  "rw_keeps I m \<Longrightarrow> rw_keeps I (rw_call m)" "ro_keeps I n \<Longrightarrow> rw_keeps I (ro_call n)"
  "rw_keeps I (ref_call p)" "rw_keeps I (fail e)"
  "ro_keeps I q \<Longrightarrow> rw_keeps I (ro_ctrls q)" "rw_keeps I t \<Longrightarrow> rw_keeps I (rw_ctrls t)"
  by (auto simp: rw_keeps_def ro_keeps_def rw_call_def ro_call_def ref_call_def fail_def ro_ctrls_def
      rw_ctrls_def)

lemma keeps_return [keeping]: "rw_keeps I (\<lambda>h s. Some (h, s, x))"
  by (simp add: rw_keeps_def)

lemma keeps_ok_or [keeping]: "(\<And>a. rw_keeps I (f a)) \<Longrightarrow> rw_keeps I (ok_or x e f)"
  by (auto simp: ok_or_def keeping split: option.splits)

lemma keeps_unwrap [keeping]: "(\<And>a. rw_keeps I (f a)) \<Longrightarrow> rw_keeps I (unwrap x f)"
  by (auto simp: unwrap_def rw_keeps_def split: option.splits)

lemma keeps_map_ok [keeping]: "rw_keeps I m \<Longrightarrow> rw_keeps I (map_ok f m)"
  by (auto simp: map_ok_def rw_keeps_def)

lemma keeps_no_payload [keeping]: "rw_keeps I m \<Longrightarrow> rw_keeps I (no_payload m)"
  by (auto simp: no_payload_def rw_keeps_def)

lemma keeps_invalid [keeping]: "fn_keeps I invalid_ioctl"
  by (auto simp: fn_keeps_def invalid_ioctl_def split: prod.splits)

lemma keeps_payload [keeping]:
  assumes "\<And>input. rw_keeps I (process input)"
  shows "fn_keeps I (wr_ioctl_with_err_payload rd wr process)"
  unfolding fn_keeps_def
proof (intro allI impI)
  fix h s r w h' s' r' w' x
  assume inv: "I h s" and run: "wr_ioctl_with_err_payload rd wr process h s r w = Some (h', s', r', w', x)"
  obtain r1 y where rd: "rd r = (r1, y)" by (cases rule: prod.exhaust)
  show "I h' s'"
  proof (cases y)
    case (Inl e)
    with run rd inv show ?thesis
      by (auto simp: wr_ioctl_with_err_payload_def split: prod.splits)
  next
    case (Inr input)
    with run rd obtain z where "process input h s = Some (h', s', z)"
      by (auto simp: wr_ioctl_with_err_payload_def Let_def bind_eq_Some_conv split: prod.splits sum.splits)
    with assms [of input] inv show ?thesis by (auto simp: rw_keeps_def)
  qed
qed

lemma keeps_wr [keeping]: "(\<And>input. rw_keeps I (process input)) \<Longrightarrow> fn_keeps I (wr_ioctl rd wr process)"
  by (auto simp: wr_ioctl_def intro!: keeping)

lemma keeps_w [keeping]: "(\<And>input. rw_keeps I (process input)) \<Longrightarrow> fn_keeps I (w_ioctl rd process)"
  by (auto simp: w_ioctl_def intro!: keeping)

lemma keeps_r [keeping]:
  assumes "rw_keeps I process"
  shows "fn_keeps I (r_ioctl wr process)"
  using keeps_wr [of I "\<lambda>_. process" "read_obj wire_unit" wr] assms
  by (fastforce simp: fn_keeps_def r_ioctl_def)

lemma keeps_unhandled [simp]:
  "rw_keeps I unhandled_rw" "ro_keeps I unhandled_ro"
  "rw_keeps I (unhandled_rw_ctrls c a)" "ro_keeps I (unhandled_ro_ctrls c a)"
  by (simp_all add: rw_keeps_def ro_keeps_def unhandled_rw_def unhandled_ro_def unhandled_rw_ctrls_def
      unhandled_ro_ctrls_def)

locale ioctl_handler =
  fixes H :: "('h, 's, 'vb) VirtioMediaIoctlHandler"
    and I :: "'h \<Rightarrow> 's \<Rightarrow> bool"
  assumes keeps_enum_fmt: "\<And>a b. ro_keeps I (h_enum_fmt H a b)"
    and keeps_g_fmt: "\<And>a. ro_keeps I (h_g_fmt H a)"
    and keeps_s_fmt: "\<And>a b. rw_keeps I (h_s_fmt H a b)"
    and keeps_reqbufs: "\<And>a b c d. rw_keeps I (h_reqbufs H a b c d)"
    and keeps_querybuf: "\<And>a b. ro_keeps I (h_querybuf H a b)"
    and keeps_qbuf: "\<And>a b. rw_keeps I (h_qbuf H a b)"
    and keeps_streamon: "\<And>a. rw_keeps I (h_streamon H a)"
    and keeps_streamoff: "\<And>a. rw_keeps I (h_streamoff H a)"
    and keeps_g_parm: "\<And>a. ro_keeps I (h_g_parm H a)"
    and keeps_s_parm: "\<And>a. rw_keeps I (h_s_parm H a)"
    and keeps_g_std: "ro_keeps I (h_g_std H)"
    and keeps_s_std: "\<And>a. rw_keeps I (h_s_std H a)"
    and keeps_enumstd: "\<And>a. ro_keeps I (h_enumstd H a)"
    and keeps_enuminput: "\<And>a. ro_keeps I (h_enuminput H a)"
    and keeps_g_ctrl: "\<And>a. ro_keeps I (h_g_ctrl H a)"
    and keeps_s_ctrl: "\<And>a b. rw_keeps I (h_s_ctrl H a b)"
    and keeps_g_tuner: "\<And>a. ro_keeps I (h_g_tuner H a)"
    and keeps_s_tuner: "\<And>a b. rw_keeps I (h_s_tuner H a b)"
    and keeps_g_audio: "ro_keeps I (h_g_audio H)"
    and keeps_s_audio: "\<And>a b. rw_keeps I (h_s_audio H a b)"
    and keeps_queryctrl: "\<And>a b. ro_keeps I (h_queryctrl H a b)"
    and keeps_querymenu: "\<And>a b. ro_keeps I (h_querymenu H a b)"
    and keeps_g_input: "ro_keeps I (h_g_input H)"
    and keeps_s_input: "\<And>a. rw_keeps I (h_s_input H a)"
    and keeps_g_output: "ro_keeps I (h_g_output H)"
    and keeps_s_output: "\<And>a. rw_keeps I (h_s_output H a)"
    and keeps_enumoutput: "\<And>a. ro_keeps I (h_enumoutput H a)"
    and keeps_g_audout: "ro_keeps I (h_g_audout H)"
    and keeps_s_audout: "\<And>a. rw_keeps I (h_s_audout H a)"
    and keeps_g_modulator: "\<And>a. ro_keeps I (h_g_modulator H a)"
    and keeps_s_modulator: "\<And>a b. rw_keeps I (h_s_modulator H a b)"
    and keeps_g_frequency: "\<And>a. ro_keeps I (h_g_frequency H a)"
    and keeps_s_frequency: "\<And>a b c. rw_keeps I (h_s_frequency H a b c)"
    and keeps_querystd: "ro_keeps I (h_querystd H)"
    and keeps_try_fmt: "\<And>a b. ro_keeps I (h_try_fmt H a b)"
    and keeps_enumaudio: "\<And>a. ro_keeps I (h_enumaudio H a)"
    and keeps_enumaudout: "\<And>a. ro_keeps I (h_enumaudout H a)"
    and keeps_g_ext_ctrls: "\<And>a b c d. ro_keeps I (h_g_ext_ctrls H a b c d)"
    and keeps_s_ext_ctrls: "\<And>a b c d. rw_keeps I (h_s_ext_ctrls H a b c d)"
    and keeps_try_ext_ctrls: "\<And>a b c d. ro_keeps I (h_try_ext_ctrls H a b c d)"
    and keeps_enum_framesizes: "\<And>a b. ro_keeps I (h_enum_framesizes H a b)"
    and keeps_enum_frameintervals: "\<And>a b c d. ro_keeps I (h_enum_frameintervals H a b c d)"
    and keeps_g_enc_index: "ro_keeps I (h_g_enc_index H)"
    and keeps_encoder_cmd: "\<And>a. rw_keeps I (h_encoder_cmd H a)"
    and keeps_try_encoder_cmd: "\<And>a. ro_keeps I (h_try_encoder_cmd H a)"
    and keeps_s_dv_timings: "\<And>a. rw_keeps I (h_s_dv_timings H a)"
    and keeps_g_dv_timings: "ro_keeps I (h_g_dv_timings H)"
    and keeps_subscribe_event: "\<And>a b. rw_keeps I (h_subscribe_event H a b)"
    and keeps_unsubscribe_event: "\<And>a. rw_keeps I (h_unsubscribe_event H a)"
    and keeps_create_bufs: "\<And>a b c d. rw_keeps I (h_create_bufs H a b c d)"
    and keeps_prepare_buf: "\<And>a b. rw_keeps I (h_prepare_buf H a b)"
    and keeps_g_selection: "\<And>a b. ro_keeps I (h_g_selection H a b)"
    and keeps_s_selection: "\<And>a b c d. rw_keeps I (h_s_selection H a b c d)"
    and keeps_decoder_cmd: "\<And>a. rw_keeps I (h_decoder_cmd H a)"
    and keeps_try_decoder_cmd: "\<And>a. ro_keeps I (h_try_decoder_cmd H a)"
    and keeps_enum_dv_timings: "\<And>a. ro_keeps I (h_enum_dv_timings H a)"
    and keeps_query_dv_timings: "ro_keeps I (h_query_dv_timings H)"
    and keeps_query_ext_ctrl: "\<And>a b. ro_keeps I (h_query_ext_ctrl H a b)"
begin

lemmas methods_keep =
  keeps_enum_fmt keeps_g_fmt keeps_s_fmt keeps_reqbufs
  keeps_querybuf keeps_qbuf keeps_streamon keeps_streamoff
  keeps_g_parm keeps_s_parm keeps_g_std keeps_s_std
  keeps_enumstd keeps_enuminput keeps_g_ctrl keeps_s_ctrl
  keeps_g_tuner keeps_s_tuner keeps_g_audio keeps_s_audio
  keeps_queryctrl keeps_querymenu keeps_g_input keeps_s_input
  keeps_g_output keeps_s_output keeps_enumoutput keeps_g_audout
  keeps_s_audout keeps_g_modulator keeps_s_modulator keeps_g_frequency
  keeps_s_frequency keeps_querystd keeps_try_fmt keeps_enumaudio
  keeps_enumaudout keeps_g_ext_ctrls keeps_s_ext_ctrls keeps_try_ext_ctrls
  keeps_enum_framesizes keeps_enum_frameintervals keeps_g_enc_index keeps_encoder_cmd
  keeps_try_encoder_cmd keeps_s_dv_timings keeps_g_dv_timings keeps_subscribe_event
  keeps_unsubscribe_event keeps_create_bufs keeps_prepare_buf keeps_g_selection
  keeps_s_selection keeps_decoder_cmd keeps_try_decoder_cmd keeps_enum_dv_timings
  keeps_query_dv_timings keeps_query_ext_ctrl

lemma dispatch_keeps: "fn_keeps I (virtio_media_dispatch_ioctl K H ioctl)"
  by (cases ioctl;
      simp only: virtio_media_dispatch_ioctl.simps branch_defs Let_def case_prod_beta;
      auto intro!: keeping methods_keep split: option.splits)

end

text \<open>The default methods keep every predicate.\<close>

interpretation default_handler: ioctl_handler default_handler I for I
  by unfold_locales (simp_all add: default_handler_def)

section \<open>Panics\<close>

text \<open>No method of the handler panics in the given states, whatever its arguments.\<close>

definition handler_total :: "('h, 's, 'vb) VirtioMediaIoctlHandler \<Rightarrow> 'h \<Rightarrow> 's \<Rightarrow> bool" where
  "handler_total H h s \<longleftrightarrow>
     (\<forall>a b. h_enum_fmt H a b h s \<noteq> None) \<and>
     (\<forall>a. h_g_fmt H a h s \<noteq> None) \<and>
     (\<forall>a b. h_s_fmt H a b h s \<noteq> None) \<and>
     (\<forall>a b c d. h_reqbufs H a b c d h s \<noteq> None) \<and>
     (\<forall>a b. h_querybuf H a b h s \<noteq> None) \<and>
     (\<forall>a b. h_qbuf H a b h s \<noteq> None) \<and>
     (\<forall>a. h_streamon H a h s \<noteq> None) \<and>
     (\<forall>a. h_streamoff H a h s \<noteq> None) \<and>
     (\<forall>a. h_g_parm H a h s \<noteq> None) \<and>
     (\<forall>a. h_s_parm H a h s \<noteq> None) \<and>
     (h_g_std H h s \<noteq> None) \<and>
     (\<forall>a. h_s_std H a h s \<noteq> None) \<and>
     (\<forall>a. h_enumstd H a h s \<noteq> None) \<and>
     (\<forall>a. h_enuminput H a h s \<noteq> None) \<and>
     (\<forall>a. h_g_ctrl H a h s \<noteq> None) \<and>
     (\<forall>a b. h_s_ctrl H a b h s \<noteq> None) \<and>
     (\<forall>a. h_g_tuner H a h s \<noteq> None) \<and>
     (\<forall>a b. h_s_tuner H a b h s \<noteq> None) \<and>
     (h_g_audio H h s \<noteq> None) \<and>
     (\<forall>a b. h_s_audio H a b h s \<noteq> None) \<and>
     (\<forall>a b. h_queryctrl H a b h s \<noteq> None) \<and>
     (\<forall>a b. h_querymenu H a b h s \<noteq> None) \<and>
     (h_g_input H h s \<noteq> None) \<and>
     (\<forall>a. h_s_input H a h s \<noteq> None) \<and>
     (h_g_output H h s \<noteq> None) \<and>
     (\<forall>a. h_s_output H a h s \<noteq> None) \<and>
     (\<forall>a. h_enumoutput H a h s \<noteq> None) \<and>
     (h_g_audout H h s \<noteq> None) \<and>
     (\<forall>a. h_s_audout H a h s \<noteq> None) \<and>
     (\<forall>a. h_g_modulator H a h s \<noteq> None) \<and>
     (\<forall>a b. h_s_modulator H a b h s \<noteq> None) \<and>
     (\<forall>a. h_g_frequency H a h s \<noteq> None) \<and>
     (\<forall>a b c. h_s_frequency H a b c h s \<noteq> None) \<and>
     (h_querystd H h s \<noteq> None) \<and>
     (\<forall>a b. h_try_fmt H a b h s \<noteq> None) \<and>
     (\<forall>a. h_enumaudio H a h s \<noteq> None) \<and>
     (\<forall>a. h_enumaudout H a h s \<noteq> None) \<and>
     (\<forall>a b c d. h_g_ext_ctrls H a b c d h s \<noteq> None) \<and>
     (\<forall>a b c d. h_s_ext_ctrls H a b c d h s \<noteq> None) \<and>
     (\<forall>a b c d. h_try_ext_ctrls H a b c d h s \<noteq> None) \<and>
     (\<forall>a b. h_enum_framesizes H a b h s \<noteq> None) \<and>
     (\<forall>a b c d. h_enum_frameintervals H a b c d h s \<noteq> None) \<and>
     (h_g_enc_index H h s \<noteq> None) \<and>
     (\<forall>a. h_encoder_cmd H a h s \<noteq> None) \<and>
     (\<forall>a. h_try_encoder_cmd H a h s \<noteq> None) \<and>
     (\<forall>a. h_s_dv_timings H a h s \<noteq> None) \<and>
     (h_g_dv_timings H h s \<noteq> None) \<and>
     (\<forall>a b. h_subscribe_event H a b h s \<noteq> None) \<and>
     (\<forall>a. h_unsubscribe_event H a h s \<noteq> None) \<and>
     (\<forall>a b c d. h_create_bufs H a b c d h s \<noteq> None) \<and>
     (\<forall>a b. h_prepare_buf H a b h s \<noteq> None) \<and>
     (\<forall>a b. h_g_selection H a b h s \<noteq> None) \<and>
     (\<forall>a b c d. h_s_selection H a b c d h s \<noteq> None) \<and>
     (\<forall>a. h_decoder_cmd H a h s \<noteq> None) \<and>
     (\<forall>a. h_try_decoder_cmd H a h s \<noteq> None) \<and>
     (\<forall>a. h_enum_dv_timings H a h s \<noteq> None) \<and>
     (h_query_dv_timings H h s \<noteq> None) \<and>
     (h_dv_timings_cap H h s \<noteq> None) \<and>
     (\<forall>a b c. h_enum_freq_bands H a b c h s \<noteq> None) \<and>
     (\<forall>a b. h_query_ext_ctrl H a b h s \<noteq> None)"

text \<open>The guest subscribes to an event that the crate knows, with flags that it knows.\<close>

definition valid_subscription :: "'vb v4l2r \<Rightarrow> Reader \<Rightarrow> bool" where
  "valid_subscription K r \<longleftrightarrow>
     (case snd (read_obj (w_event_subscription K) r) of
        Inl e \<Rightarrow> True
      | Inr sub \<Rightarrow> EventType_try_from K sub \<noteq> None \<and>
          SubscribeEventFlags_from_bits K (subscription_flags sub) \<noteq> None)"

named_theorems returning \<open>combinators of the dispatcher that return\<close>

lemma returns_calls [returning]:
  "m h s \<noteq> None \<Longrightarrow> rw_call m h s \<noteq> None" "n h s \<noteq> None \<Longrightarrow> ro_call n h s \<noteq> None"
  "p h s \<noteq> None \<Longrightarrow> ref_call p h s \<noteq> None" "fail e h s \<noteq> None"
  "q h s \<noteq> None \<Longrightarrow> ro_ctrls q h s \<noteq> None" "t h s \<noteq> None \<Longrightarrow> rw_ctrls t h s \<noteq> None"
  by (simp_all add: rw_call_def ro_call_def ref_call_def fail_def ro_ctrls_def rw_ctrls_def)

lemma returns_ok_or [returning]: "(\<And>a. f a h s \<noteq> None) \<Longrightarrow> ok_or x e f h s \<noteq> None"
  by (simp add: ok_or_def fail_def split: option.splits)

lemma returns_unwrap [returning]: "x \<noteq> None \<Longrightarrow> (\<And>a. f a h s \<noteq> None) \<Longrightarrow> unwrap x f h s \<noteq> None"
  by (auto simp: unwrap_def)

lemma returns_if [returning]:
  "m h s \<noteq> None \<Longrightarrow> n h s \<noteq> None \<Longrightarrow> (if b then m else n) h s \<noteq> None"
  by simp

lemma returns_prod [returning]: "f (fst p) (snd p) h s \<noteq> None \<Longrightarrow> case_prod f p h s \<noteq> None"
  by (simp add: case_prod_beta)

lemma returns_map_ok [returning]: "m h s \<noteq> None \<Longrightarrow> map_ok f m h s \<noteq> None"
  by (simp add: map_ok_def)

lemma returns_no_payload [returning]: "m h s \<noteq> None \<Longrightarrow> no_payload m h s \<noteq> None"
  by (simp add: no_payload_def)

lemma returns_payload:
  assumes "\<And>r' input. rd r = (r', Inr input) \<Longrightarrow> process input h s \<noteq> None"
  shows "wr_ioctl_with_err_payload rd wr process h s r w \<noteq> None"
proof -
  obtain r1 y where rd: "rd r = (r1, y)" by (cases rule: prod.exhaust)
  show ?thesis
  proof (cases y)
    case (Inl e)
    with rd show ?thesis by (auto simp: wr_ioctl_with_err_payload_def split: prod.splits)
  next
    case (Inr input)
    with rd assms [of r1 input] show ?thesis
      by (auto simp: wr_ioctl_with_err_payload_def Let_def split: prod.splits sum.splits)
  qed
qed

lemma returns_wr:
  "(\<And>r' input. rd r = (r', Inr input) \<Longrightarrow> process input h s \<noteq> None) \<Longrightarrow>
   wr_ioctl rd wr process h s r w \<noteq> None"
  unfolding wr_ioctl_def by (rule returns_payload) (simp add: no_payload_def)

lemma returns_w:
  "(\<And>r' input. rd r = (r', Inr input) \<Longrightarrow> process input h s \<noteq> None) \<Longrightarrow>
   w_ioctl rd process h s r w \<noteq> None"
  unfolding w_ioctl_def by (rule returns_wr)

lemma returns_r: "process h s \<noteq> None \<Longrightarrow> r_ioctl wr process h s r w \<noteq> None"
  using returns_wr [of "read_obj wire_unit" "[]" "\<lambda>_. process" h s wr w] by (simp add: r_ioctl_def)

lemma returns_invalid: "invalid_ioctl h s r w \<noteq> None"
  by (simp add: invalid_ioctl_def split: prod.splits)

lemma returns_ctrls:
  "(\<And>which. f which h s \<noteq> None) \<Longrightarrow>
   (case x of None \<Rightarrow> (\<lambda>h s. Some (h, s, y)) | Some which \<Rightarrow> f which) h s \<noteq> None"
  by (simp split: option.splits)

lemma dispatch_returns:
  assumes "handler_total H h s" and "ioctl = VIDIOC_SUBSCRIBE_EVENT \<Longrightarrow> valid_subscription K r"
  shows "virtio_media_dispatch_ioctl K H ioctl h s r w \<noteq> None"
proof (cases "ioctl = VIDIOC_SUBSCRIBE_EVENT")
  case True
  have sub: "h_subscribe_event H ev fl h s \<noteq> None" for ev fl
    using assms(1) by (simp only: handler_total_def not_False_eq_True)
  have "EventType_try_from K input \<noteq> None"
      "SubscribeEventFlags_from_bits K (subscription_flags input) \<noteq> None"
    if "read_obj (w_event_subscription K) r = (r', Inr input)" for r' input
    using assms(2) True that by (simp_all add: valid_subscription_def)
  then show ?thesis
    unfolding True virtio_media_dispatch_ioctl.simps do_VIDIOC_SUBSCRIBE_EVENT_def
    by (intro returns_w returns_unwrap returns_calls(1) sub)
next
  case False
  note total = assms(1) [unfolded handler_total_def]
  show ?thesis
    using False
    by (cases ioctl; (erule notE, assumption)?;
        simp only: virtio_media_dispatch_ioctl.simps branch_defs Let_def;
        intro returns_invalid returns_wr returns_w returns_r returns_payload returns_ctrls returning;
        simp only: total not_False_eq_True)
qed

section \<open>Malformed and unsupported requests\<close>

lemma payload_read_error:
  "rd r = (r', Inl e) \<Longrightarrow> wr_ioctl_with_err_payload rd wr process h s r w =
     (case write_err_response EINVAL w of (w', x) \<Rightarrow> Some (h, s, r', w', x))"
  by (simp add: wr_ioctl_with_err_payload_def)

lemma r_then_short: "m r = (r', Inl e) \<Longrightarrow> r_then m f r = (r', Inl e)"
  by (simp add: r_then_def)

lemma read_V4l2Buffer_short: "length r < size_of (w_buffer K) \<Longrightarrow> read_V4l2Buffer K r = ([], Inl UnexpectedEof)"
  unfolding read_V4l2Buffer_def by (rule r_then_short) (rule read_obj_short)

lemma read_ext_controls_short:
  "length r < size_of (w_ext_controls K) \<Longrightarrow> read_ext_controls K r = ([], Inl UnexpectedEof)"
  unfolding read_ext_controls_def by (rule r_then_short) (rule read_obj_short)

lemmas short_reads = read_obj_short read_V4l2Buffer_short read_ext_controls_short

lemma dispatch_short:
  assumes "length r < input_size K ioctl"
  shows "virtio_media_dispatch_ioctl K H ioctl h s r w =
    (case write_err_response EINVAL w of (w', x) \<Rightarrow> Some (h, s, [], w', x))"
  using assms
  by (cases ioctl)
    (simp_all only: virtio_media_dispatch_ioctl.simps branch_defs w_ioctl_def wr_ioctl_def input_size.simps
      payload_read_error [OF short_reads(1)] payload_read_error [OF short_reads(2)]
      payload_read_error [OF short_reads(3)] not_less_zero)

lemma dispatch_unsupported_eq:
  "ioctl \<in> set unsupported_ioctls \<Longrightarrow> virtio_media_dispatch_ioctl K H ioctl = invalid_ioctl"
  by (cases ioctl) (simp_all add: unsupported_ioctls_def)

section \<open>Responses of well-formed requests\<close>

text \<open>What an ioctl function writes when its method succeeds, and when it fails.\<close>

lemma wr_ioctl_ok:
  assumes "rd r = (r', Inr input)" and "process input h s = Some (h', s', Inr out)" and "8 \<le> room w"
  shows "wr_ioctl rd wr process h s r w =
    (case wr out (w\<lparr>written := written w @ hdr_bytes 0, room := room w - 8\<rparr>) of
       (w', x) \<Rightarrow> Some (h', s', r', w', x))"
  using assms
  by (simp add: wr_ioctl_def wr_ioctl_with_err_payload_def no_payload_def Let_def w_then_def
      write_response_def RespHeader.write_fits RespHeader_ok_err write_output_def)

lemma wr_ioctl_fails:
  assumes "rd r = (r', Inr input)" and "process input h s = Some (h', s', Inl e)" and "8 \<le> room w"
  shows "wr_ioctl rd wr process h s r w =
    Some (h', s', r', w\<lparr>written := written w @ hdr_bytes e, room := room w - 8\<rparr>, Inr ())"
  using assms
  by (simp add: wr_ioctl_def wr_ioctl_with_err_payload_def no_payload_def Let_def w_then_def
      write_response_def RespHeader.write_fits write_output_def)

lemma write_each_fits:
  assumes "length (concat (map (as_bytes t) xs)) \<le> room w"
  shows "write_each t xs w =
    (w\<lparr>written := written w @ concat (map (as_bytes t) xs),
       room := room w - length (concat (map (as_bytes t) xs))\<rparr>, Inr ())"
  using assms
proof (induction xs arbitrary: w)
  case Nil
  then show ?case by simp
next
  case (Cons x xs)
  have "write_obj t x w =
      (w\<lparr>written := written w @ as_bytes t x, room := room w - length (as_bytes t x)\<rparr>, Inr ())"
    using Cons.prems by (simp add: write_obj_eq)
  with Cons.IH [of "w\<lparr>written := written w @ as_bytes t x, room := room w - length (as_bytes t x)\<rparr>"]
    Cons.prems show ?case by (simp add: w_then_def)
qed

section \<open>Properties\<close>

text \<open>
  Every ioctl is answered: for any handler, any input and any ioctl code, if the dispatcher
  returns then it has only appended to the response chain, within its room, and if the chain had
  room for a response header then what it appended begins with one.
\<close>

theorem dispatch_answered:
  assumes "virtio_media_dispatch_ioctl K H ioctl h s r w = Some (h', s', r', w', x)" and "8 \<le> room w"
  shows "responded w w' \<and> extends w w'"
  using answers_dispatch [of K H ioctl] assms unfolding answers_def by blast

abbreviation fresh_writer :: "nat \<Rightarrow> Writer" where
  "fresh_writer n \<equiv> \<lparr>written = [], room = n\<rparr>"

theorem dispatch_answered_witness:
  "responded (fresh_writer 16) \<lparr>written = hdr_bytes ENOTTY, room = 8\<rparr> \<and>
   extends (fresh_writer 16) \<lparr>written = hdr_bytes ENOTTY, room = 8\<rparr>"
  by (rule dispatch_answered [of ex_K default_handler VIDIOC_QUERYCAP "()" "()" "[]" _ "()" "()" "[]" _ "Inr ()"])
    (simp_all add: invalid_ioctl_def write_err_fits)

text \<open>
  Truncated requests: if the chain holds fewer bytes than the input structure of the ioctl, the
  handler is not called, neither the device nor the session changes, and the response is exactly
  the header with \<open>EINVAL\<close>.
\<close>

theorem dispatch_truncated:
  assumes "length r < input_size K ioctl" and "8 \<le> room w"
  shows "virtio_media_dispatch_ioctl K H ioctl h s r w =
    Some (h, s, [], w\<lparr>written := written w @ hdr_bytes EINVAL, room := room w - 8\<rparr>, Inr ())"
  using assms by (simp add: dispatch_short write_err_fits)

theorem dispatch_truncated_witness:
  "virtio_media_dispatch_ioctl ex_K default_handler VIDIOC_STREAMON () () [1, 0, 0] (fresh_writer 8) =
    Some ((), (), [], (fresh_writer 8)\<lparr>written := written (fresh_writer 8) @ hdr_bytes EINVAL,
      room := room (fresh_writer 8) - 8\<rparr>, Inr ())"
  by (rule dispatch_truncated) simp_all

text \<open>
  The ioctls that the crate does not forward are answered with exactly \<open>ENOTTY\<close>, without
  reading the input and without calling the handler, on every device.
\<close>

theorem dispatch_unsupported:
  assumes "ioctl \<in> set unsupported_ioctls" and "8 \<le> room w"
  shows "virtio_media_dispatch_ioctl K H ioctl h s r w =
    Some (h, s, r, w\<lparr>written := written w @ hdr_bytes ENOTTY, room := room w - 8\<rparr>, Inr ())"
  using assms by (simp add: dispatch_unsupported_eq invalid_ioctl_def write_err_fits)

theorem dispatch_unsupported_witness:
  "virtio_media_dispatch_ioctl ex_K default_handler VIDIOC_DQBUF () () [5] (fresh_writer 8) =
    Some ((), (), [5], (fresh_writer 8)\<lparr>written := written (fresh_writer 8) @ hdr_bytes ENOTTY,
      room := room (fresh_writer 8) - 8\<rparr>, Inr ())"
  by (rule dispatch_unsupported) (simp_all add: unsupported_ioctls_def)

text \<open>
  The dispatcher adds no panic of its own except in one branch: if no method of the handler
  panics in the current states, then the dispatcher returns for every ioctl and every input, save
  an event subscription with a type or flags that the crate does not know.
\<close>

theorem dispatch_panic_free:
  assumes "handler_total H h s" and "ioctl = VIDIOC_SUBSCRIBE_EVENT \<longrightarrow> valid_subscription K r"
  shows "\<exists>h' s' r' w' x. virtio_media_dispatch_ioctl K H ioctl h s r w = Some (h', s', r', w', x)"
  using dispatch_returns [of H h s ioctl K r w] assms by auto

theorem dispatch_panic_free_witness:
  "\<exists>h' s' r' w' x. virtio_media_dispatch_ioctl ex_K (default_handler :: (unit, unit, Ex_Buffer) VirtioMediaIoctlHandler)
     VIDIOC_G_FMT () () [1, 0, 0, 0, 0, 0, 0, 0] (fresh_writer 8) = Some (h', s', r', w', x)"
  by (rule dispatch_panic_free)
    (simp_all add: handler_total_def default_handler_def unhandled_rw_def unhandled_ro_def
      unhandled_ref_def unhandled_rw_ctrls_def unhandled_ro_ctrls_def)

text \<open>
  The exception is real: a guest that subscribes to an event whose type or flags the crate
  does not know makes the device panic, whatever the device is.
\<close>

theorem subscribe_event_panics:
  assumes "read_obj (w_event_subscription K) r = (r', Inr sub)"
    and "EventType_try_from K sub = None \<or> SubscribeEventFlags_from_bits K (subscription_flags sub) = None"
  shows "virtio_media_dispatch_ioctl K H VIDIOC_SUBSCRIBE_EVENT h s r w = None"
  using assms
  by (auto simp: do_VIDIOC_SUBSCRIBE_EVENT_def w_ioctl_def wr_ioctl_def wr_ioctl_with_err_payload_def
      no_payload_def unwrap_def split: option.splits)

definition bad_subscription :: "u8 list" where
  "bad_subscription = [9, 0, 0, 0, 0, 0, 0, 0, 0, 0, 0, 0]"

theorem subscribe_event_panics_witness:
  "virtio_media_dispatch_ioctl ex_K default_handler VIDIOC_SUBSCRIBE_EVENT () () bad_subscription
     (fresh_writer 8) = None"
  by (rule subscribe_event_panics [of _ _ "[]" "\<lparr>subscription_type = 9, subscription_flags = 0,
        subscription_rest = [0, 0, 0, 0]\<rparr>"])
    (simp_all add: read_obj_def read_exact_def into_native_def bad_subscription_def ex_v4l2_event_subscription_def
      wire_iso_def wire_pair_def wire_u32_def wire_int_def wire_bytes_def ex_event_def)

text \<open>
  Guest memory regions: when the scatter-gather list of a buffer of \<open>size\<close> bytes is read,
  the entries read cover at least \<open>size\<close> bytes, no entry is read after they do, and exactly the
  bytes of these entries are consumed.
\<close>

theorem userptr_regions_cover:
  assumes "get_userptr_regions sz r = (r', Inr sgs)"
  shows "sz \<le> (\<Sum>sg\<leftarrow>sgs. unat (sg_len sg)) \<and>
    (\<forall>k < length sgs. (\<Sum>sg\<leftarrow>take k sgs. unat (sg_len sg)) < sz) \<and>
    r = concat (map (as_bytes wire_SgEntry) sgs) @ r'"
  using userptr_loop_result [OF assms [unfolded get_userptr_regions_def]] by auto

theorem userptr_regions_cover_witness:
  "(let sgs = [\<lparr>sg_start = 0x1000, sg_len = 0x800, sg_padding = 0\<rparr>,
               \<lparr>sg_start = 0x4000, sg_len = 0x900, sg_padding = 0\<rparr>];
        r = concat (map (as_bytes wire_SgEntry) sgs) @ [1, 2, 3] in
    (4096 \<le> (\<Sum>sg\<leftarrow>sgs. unat (sg_len sg))) \<and>
    (\<forall>k < length sgs. (\<Sum>sg\<leftarrow>take k sgs. unat (sg_len sg)) < 4096) \<and>
    r = concat (map (as_bytes wire_SgEntry) sgs) @ [1, 2, 3])"
  unfolding Let_def
  by (rule userptr_regions_cover)
    (simp add: get_userptr_regions_def userptr_loop.simps SgEntry.read_encoded)

text \<open>
  No host address leaks through a buffer: the response to a buffer ioctl is the header, the
  \<open>v4l2_buffer\<close> with the pointer to its planes cleared if the buffer is multi-planar, and at
  most as many planes as the guest made room for.
\<close>

theorem buffer_response_hides_planes:
  assumes "is_multiplanar K (vb_queue K vb)"
    and "length (as_bytes (w_buffer K) ((as_v4l2_buffer K vb)\<lparr>buffer_m_planes := 0\<rparr>)) +
      length (concat (map (as_bytes (w_plane K)) (take n (as_v4l2_planes K vb)))) \<le> room w"
  shows "written (fst (write_V4l2Buffer K (vb, n) w)) =
      written w @ as_bytes (w_buffer K) ((as_v4l2_buffer K vb)\<lparr>buffer_m_planes := 0\<rparr>) @
      concat (map (as_bytes (w_plane K)) (take n (as_v4l2_planes K vb))) \<and>
    snd (write_V4l2Buffer K (vb, n) w) = Inr ()"
  using assms by (simp add: write_V4l2Buffer_def w_then_def write_obj_eq write_each_fits)

theorem buffer_response_hides_planes_witness:
  "written (fst (write_V4l2Buffer ex_K (ex_new VideoCaptureMplane 3 Mmap, 1) (fresh_writer 128))) =
      written (fresh_writer 128) @
      as_bytes (w_buffer ex_K) ((as_v4l2_buffer ex_K (ex_new VideoCaptureMplane 3 Mmap))\<lparr>buffer_m_planes := 0\<rparr>) @
      concat (map (as_bytes (w_plane ex_K)) (take 1 (as_v4l2_planes ex_K (ex_new VideoCaptureMplane 3 Mmap)))) \<and>
    snd (write_V4l2Buffer ex_K (ex_new VideoCaptureMplane 3 Mmap, 1) (fresh_writer 128)) = Inr ()"
  by (rule buffer_response_hides_planes)
    (simp_all add: ex_new_def ex_multiplanar_def ex_raw_def ex_v4l2_buffer_def wire_iso_def wire_pair_def
      wire_bytes_def wire_u32_def wire_u64_def wire_int_def)

end
