(* ===== verification/Runner.thy ===== *)
theory Runner
  imports Ioctl
begin

text \<open>
  The command loop of \<open>device/src/lib.rs\<close>: the traits of a device and of a session poller, and
  \<open>VirtioMediaDeviceRunner\<close>, which owns the sessions of a device and executes the commands that
  arrive on the command queue.
\<close>

section \<open>Traits\<close>

text \<open>
  The traits \<open>VirtioMediaDevice\<close> and \<open>VirtioMediaDeviceSession\<close>, over the state \<open>'d\<close> of the
  device and the state \<open>'s\<close> of a session.
\<close>

record ('d, 's) VirtioMediaDevice =
  dev_new_session :: "u32 \<Rightarrow> 'd \<Rightarrow> ('d \<times> (i32 + 's)) option"
  dev_close_session :: "'s \<Rightarrow> 'd \<Rightarrow> 'd option"
  dev_do_ioctl :: "V4l2Ioctl \<Rightarrow> ('d, 's) ioctl_fn"
  dev_do_mmap :: "u32 \<Rightarrow> u32 \<Rightarrow> 'd \<Rightarrow> 's \<Rightarrow> ('d \<times> 's \<times> (i32 + (u64 \<times> u64))) option"
  dev_do_munmap :: "u64 \<Rightarrow> 'd \<Rightarrow> ('d \<times> (i32 + unit)) option"
  dev_process_events :: "'d \<Rightarrow> 's \<Rightarrow> ('d \<times> 's \<times> (i32 + unit)) option"
  dev_poll_fd :: "'s \<Rightarrow> fd option"

text \<open>The default implementation of \<open>process_events\<close> panics.\<close>

definition default_process_events :: "'d \<Rightarrow> 's \<Rightarrow> ('d \<times> 's \<times> (i32 + unit)) option" where
  "default_process_events d s = None"

text \<open>The trait \<open>SessionPoller\<close>, and its implementation for the unit type, which panics.\<close>

record 'p SessionPoller =
  poller_add_session :: "fd \<Rightarrow> u32 \<Rightarrow> 'p \<Rightarrow> ('p \<times> (i32 + unit)) option"
  poller_remove_session :: "fd \<Rightarrow> 'p \<Rightarrow> 'p option"

definition unit_poller :: "unit SessionPoller" where
  "unit_poller = \<lparr>poller_add_session = (\<lambda>_ _ _. None), poller_remove_session = (\<lambda>_ _. None)\<rparr>"

section \<open>The runner\<close>

record ('d, 's, 'p) VirtioMediaDeviceRunner =
  device :: 'd
  poller :: 'p
  sessions :: "u32 \<rightharpoonup> 's"
  session_id_counter :: u32

definition Runner_new :: "'d \<Rightarrow> 'p \<Rightarrow> ('d, 's, 'p) VirtioMediaDeviceRunner" where
  "Runner_new d p = \<lparr>device = d, poller = p, sessions = Map.empty, session_id_counter = 0\<rparr>"

text \<open>
  What the branches of \<open>handle_command\<close> return: the runner, the rest of the request, the
  response, and whether reading the request or writing the response failed.
\<close>

type_synonym ('d, 's, 'p) outcome =
  "(('d, 's, 'p) VirtioMediaDeviceRunner \<times> Reader \<times> Writer \<times> (io_error + unit)) option"

definition reply :: "('d, 's, 'p) VirtioMediaDeviceRunner \<Rightarrow> Reader \<Rightarrow> Writer \<times> (io_error + unit) \<Rightarrow>
    ('d, 's, 'p) outcome"
where
  "reply run r wx = (case wx of (w, x) \<Rightarrow> Some (run, r, w, x))"

text \<open>Insertion of a new session and the step of the counter, which overflows after \<open>2 ^ 32\<close> sessions.\<close>

definition add_session ::
  "bool \<Rightarrow> u32 \<Rightarrow> 's \<Rightarrow> ('d, 's, 'p) VirtioMediaDeviceRunner \<Rightarrow> ('d, 's, 'p) VirtioMediaDeviceRunner option"
where
  "add_session chk sid session run = do {
     c \<leftarrow> add_ov chk (session_id_counter run) 1;
     Some (run\<lparr>sessions := (sessions run)(sid \<mapsto> session), session_id_counter := c\<rparr>)
   }"

definition cmd_open ::
  "bool \<Rightarrow> ('d, 's) VirtioMediaDevice \<Rightarrow> 'p SessionPoller \<Rightarrow> ('d, 's, 'p) VirtioMediaDeviceRunner \<Rightarrow>
   Reader \<Rightarrow> Writer \<Rightarrow> ('d, 's, 'p) outcome"
where
  "cmd_open chk D P run r w =
     (let session_id = session_id_counter run in do {
        (d', res) \<leftarrow> dev_new_session D session_id (device run);
        (case res of
           Inl e \<Rightarrow> reply (run\<lparr>device := d'\<rparr>) r (write_err_response e w)
         | Inr session \<Rightarrow>
             (case dev_poll_fd D session of
                Some fd \<Rightarrow> do {
                  (p', added) \<leftarrow> poller_add_session P fd session_id (poller run);
                  (case added of
                     Inr _ \<Rightarrow> do {
                       run' \<leftarrow> add_session chk session_id session (run\<lparr>device := d', poller := p'\<rparr>);
                       reply run' r (write_response wire_OpenResp (OpenResp_ok session_id) w)
                     }
                   | Inl e \<Rightarrow> do {
                       d'' \<leftarrow> dev_close_session D session d';
                       reply (run\<lparr>device := d'', poller := p'\<rparr>) r (write_err_response e w)
                     })
                }
              | None \<Rightarrow> do {
                  run' \<leftarrow> add_session chk session_id session (run\<lparr>device := d'\<rparr>);
                  reply run' r (write_response wire_OpenResp (OpenResp_ok session_id) w)
                }))
      })"

text \<open>A \<open>CLOSE\<close> command is not answered, unless it cannot be read.\<close>

definition cmd_close ::
  "('d, 's) VirtioMediaDevice \<Rightarrow> 'p SessionPoller \<Rightarrow> ('d, 's, 'p) VirtioMediaDeviceRunner \<Rightarrow>
   Reader \<Rightarrow> Writer \<Rightarrow> ('d, 's, 'p) outcome"
where
  "cmd_close D P run r w =
     (case read_obj wire_CloseCmd r of
        (r', Inl e) \<Rightarrow> Some (run, r', w, Inl e)
      | (r', Inr c) \<Rightarrow>
          (case sessions run (close_session_id c) of
             None \<Rightarrow> Some (run, r', w, Inr ())
           | Some session \<Rightarrow> do {
               p' \<leftarrow> (case dev_poll_fd D session of
                        Some fd \<Rightarrow> poller_remove_session P fd (poller run)
                      | None \<Rightarrow> Some (poller run));
               d' \<leftarrow> dev_close_session D session (device run);
               Some (run\<lparr>device := d', poller := p',
                        sessions := (sessions run)(close_session_id c := None)\<rparr>, r', w, Inr ())
             }))"

definition cmd_ioctl ::
  "('d, 's) VirtioMediaDevice \<Rightarrow> ('d, 's, 'p) VirtioMediaDeviceRunner \<Rightarrow> Reader \<Rightarrow> Writer \<Rightarrow> ('d, 's, 'p) outcome"
where
  "cmd_ioctl D run r w =
     (case read_obj wire_IoctlCmd r of
        (r', Inl e) \<Rightarrow> Some (run, r', w, Inl e)
      | (r', Inr c) \<Rightarrow>
          (case sessions run (ioctl_session_id c) of
             None \<Rightarrow> reply run r' (write_err_response EINVAL w)
           | Some session \<Rightarrow>
               (case V4l2Ioctl_n (ioctl_code c) of
                  None \<Rightarrow> reply run r' (write_err_response ENOTTY w)
                | Some ioctl \<Rightarrow> do {
                    (d', s', r'', w', x) \<leftarrow> dev_do_ioctl D ioctl (device run) session r' w;
                    Some (run\<lparr>device := d', sessions := (sessions run)(ioctl_session_id c \<mapsto> s')\<rparr>,
                      r'', w', x)
                  })))"

definition cmd_mmap ::
  "('d, 's) VirtioMediaDevice \<Rightarrow> ('d, 's, 'p) VirtioMediaDeviceRunner \<Rightarrow> Reader \<Rightarrow> Writer \<Rightarrow> ('d, 's, 'p) outcome"
where
  "cmd_mmap D run r w =
     (case read_obj wire_MmapCmd r of
        (r', Inl e) \<Rightarrow> Some (run, r', w, Inl e)
      | (r', Inr c) \<Rightarrow>
          (case sessions run (mmap_session_id c) of
             None \<Rightarrow> reply run r' (write_err_response EINVAL w)
           | Some session \<Rightarrow> do {
               (d', s', res) \<leftarrow> dev_do_mmap D (mmap_flags c) (mmap_offset c) (device run) session;
               (let run' = run\<lparr>device := d', sessions := (sessions run)(mmap_session_id c \<mapsto> s')\<rparr> in
                case res of
                  Inr (guest_addr, len) \<Rightarrow>
                    reply run' r' (write_response wire_MmapResp (MmapResp_ok guest_addr len) w)
                | Inl e \<Rightarrow> reply run' r' (write_err_response e w))
             }))"

definition cmd_munmap ::
  "('d, 's) VirtioMediaDevice \<Rightarrow> ('d, 's, 'p) VirtioMediaDeviceRunner \<Rightarrow> Reader \<Rightarrow> Writer \<Rightarrow> ('d, 's, 'p) outcome"
where
  "cmd_munmap D run r w =
     (case read_obj wire_MunmapCmd r of
        (r', Inl e) \<Rightarrow> Some (run, r', w, Inl e)
      | (r', Inr c) \<Rightarrow> do {
          (d', res) \<leftarrow> dev_do_munmap D (munmap_driver_addr c) (device run);
          (case res of
             Inr _ \<Rightarrow> reply (run\<lparr>device := d'\<rparr>) r' (write_response wire_MunmapResp MunmapResp_ok w)
           | Inl e \<Rightarrow> reply (run\<lparr>device := d'\<rparr>) r' (write_err_response e w))
        })"

definition run_command ::
  "bool \<Rightarrow> ('d, 's) VirtioMediaDevice \<Rightarrow> 'p SessionPoller \<Rightarrow> u32 \<Rightarrow>
   ('d, 's, 'p) VirtioMediaDeviceRunner \<Rightarrow> Reader \<Rightarrow> Writer \<Rightarrow> ('d, 's, 'p) outcome"
where
  "run_command chk D P code run r w =
     (if code = VIRTIO_MEDIA_CMD_OPEN then cmd_open chk D P run r w
      else if code = VIRTIO_MEDIA_CMD_CLOSE then cmd_close D P run r w
      else if code = VIRTIO_MEDIA_CMD_IOCTL then cmd_ioctl D run r w
      else if code = VIRTIO_MEDIA_CMD_MMAP then cmd_mmap D run r w
      else if code = VIRTIO_MEDIA_CMD_MUNMAP then cmd_munmap D run r w
      else reply run r (write_err_response ENOTTY w))"

definition handle_command ::
  "bool \<Rightarrow> ('d, 's) VirtioMediaDevice \<Rightarrow> 'p SessionPoller \<Rightarrow> ('d, 's, 'p) VirtioMediaDeviceRunner \<Rightarrow>
   Reader \<Rightarrow> Writer \<Rightarrow> (('d, 's, 'p) VirtioMediaDeviceRunner \<times> Reader \<times> Writer) option"
where
  "handle_command chk D P run r w =
     (case read_obj wire_CmdHeader r of
        (r', Inl e) \<Rightarrow> Some (run, r', fst (write_err_response EINVAL w))
      | (r', Inr hdr) \<Rightarrow> do {
          (run', r'', w', res) \<leftarrow> run_command chk D P (cmd hdr) run r' w;
          (case res of
             Inl e \<Rightarrow> Some (run', r'', fst (write_err_response EINVAL w'))
           | Inr _ \<Rightarrow> Some (run', r'', w'))
        })"

definition into_device :: "('d, 's, 'p) VirtioMediaDeviceRunner \<Rightarrow> 'd" where
  "into_device run = device run"


section \<open>Session identifiers\<close>

text \<open>Every session was opened under an identifier below the counter.\<close>

definition ids_inv :: "('d, 's, 'p) VirtioMediaDeviceRunner \<Rightarrow> bool" where
  "ids_inv run \<longleftrightarrow> (\<forall>sid session. sessions run sid = Some session \<longrightarrow> sid < session_id_counter run)"

text \<open>The counter does not wrap: the build checks for overflow, or the counter is not at its end.\<close>

definition no_wrap :: "bool \<Rightarrow> ('d, 's, 'p) VirtioMediaDeviceRunner \<Rightarrow> bool" where
  "no_wrap chk run \<longleftrightarrow> chk \<or> session_id_counter run \<noteq> 0xFFFFFFFF"

lemma ids_inv_new [simp]: "ids_inv (Runner_new d p)"
  by (simp add: ids_inv_def Runner_new_def)

lemma ids_inv_fresh: "ids_inv run \<Longrightarrow> sessions run (session_id_counter run) = None"
  by (cases "sessions run (session_id_counter run)") (auto simp: ids_inv_def)

lemma counter_step:
  assumes "no_wrap chk run" and "add_ov chk (session_id_counter run) 1 = Some c"
  shows "session_id_counter run < c" and "c = session_id_counter run + 1"
proof -
  let ?n = "session_id_counter run"
  have c: "c = ?n + 1" using assms(2) by (auto simp: add_ov_def split: if_splits)
  have "unat ?n + 1 < 2 ^ 32"
  proof (cases chk)
    case True
    with assms(2) show ?thesis by (auto simp: add_ov_def split: if_splits)
  next
    case False
    with assms(1) have "?n \<noteq> 0xFFFFFFFF" by (simp add: no_wrap_def)
    then have "unat ?n \<noteq> 2 ^ 32 - 1" by (simp add: word_unat_eq_iff)
    then show ?thesis using unsigned_less [of ?n, where ?'a = nat] by simp
  qed
  then show "?n < c" by (simp add: c word_less_nat_alt unat_word_ariths)
  show "c = ?n + 1" by (rule c)
qed

section \<open>Every command is answered\<close>

definition answered :: "Writer \<Rightarrow> Writer \<Rightarrow> bool" where
  "answered w w' \<longleftrightarrow> extends w w' \<and> (8 \<le> room w \<longrightarrow> responded w w')"

text \<open>A response structure that begins with a header answers even if the chain cuts it short.\<close>

lemma answered_obj:
  assumes "as_bytes t x = hdr_bytes e @ rest" and "write_response t x w = (w', y)"
  shows "answered w w'"
proof -
  have "write_all (hdr_bytes e @ rest) w = (w', y)"
    using assms by (simp add: write_response_def write_obj_eq)
  then show ?thesis
    by (auto simp: answered_def write_all_def responded_def extends_def split: if_splits)
qed

lemma answered_err: "write_err_response e w = (w', x) \<Longrightarrow> answered w w'"
  unfolding write_err_response_def by (rule answered_obj [of _ _ e "[]"]) auto

lemma answered_reply:
  "reply run r (write_err_response e w) = Some (run', r', w', x) \<Longrightarrow> answered w w'"
  "reply run r (write_response wire_OpenResp (OpenResp_ok sid) w) = Some (run', r', w', x) \<Longrightarrow> answered w w'"
  "reply run r (write_response wire_MmapResp (MmapResp_ok a l) w) = Some (run', r', w', x) \<Longrightarrow> answered w w'"
  "reply run r (write_response wire_MunmapResp MunmapResp_ok w) = Some (run', r', w', x) \<Longrightarrow> answered w w'"
  by (auto simp: reply_def split: prod.splits intro: answered_err answered_obj [OF OpenResp_bytes]
      answered_obj [OF MmapResp_bytes] answered_obj [of wire_MunmapResp MunmapResp_ok 0 "[]"]
      simp: MunmapResp_bytes)

lemma answered_then_err: "answered w w' \<Longrightarrow> answered w (fst (write_err_response e w'))"
  unfolding answered_def
  by (metis extends_trans prod.collapse responded_extends write_err_extends)

text \<open>
  The read that each command but \<open>OPEN\<close> begins with: when it fails the response chain is
  untouched and the failure is reported.
\<close>

lemma run_command_answers:
  assumes "\<And>ioctl. answers (dev_do_ioctl D ioctl)"
    and "run_command chk D P code run r w = Some (run', r', w', x)"
  shows "answered w w' \<or> w' = w \<and> ((\<exists>e. x = Inl e) \<or> code = VIRTIO_MEDIA_CMD_CLOSE)"
proof -
  have ioctl: "answered w w'" if "dev_do_ioctl D i d s r1 w = Some (d', s', r2, w', y)" for i d s r1 d' s' r2 y
    using assms(1) [of i] that unfolding answers_def answered_def by blast
  consider "code = VIRTIO_MEDIA_CMD_OPEN" | "code = VIRTIO_MEDIA_CMD_CLOSE" |
    "code = VIRTIO_MEDIA_CMD_IOCTL" | "code = VIRTIO_MEDIA_CMD_MMAP" | "code = VIRTIO_MEDIA_CMD_MUNMAP" |
    "code \<noteq> VIRTIO_MEDIA_CMD_OPEN" "code \<noteq> VIRTIO_MEDIA_CMD_CLOSE" "code \<noteq> VIRTIO_MEDIA_CMD_IOCTL"
    "code \<noteq> VIRTIO_MEDIA_CMD_MMAP" "code \<noteq> VIRTIO_MEDIA_CMD_MUNMAP"
    by blast
  then show ?thesis
  proof cases
    case 1
    with assms(2) show ?thesis
      by (auto simp: run_command_def cmd_open_def Let_def command_codes elim!: bind_SomeE
          split: result_splits dest!: answered_reply)
  next
    case 2
    with assms(2) show ?thesis
      by (auto simp: run_command_def cmd_close_def command_codes elim!: bind_SomeE split: result_splits)
  next
    case 3
    with assms(2) show ?thesis
      by (auto simp: run_command_def cmd_ioctl_def command_codes elim!: bind_SomeE
          split: result_splits dest!: answered_reply ioctl)
  next
    case 4
    with assms(2) show ?thesis
      by (auto simp: run_command_def cmd_mmap_def Let_def command_codes elim!: bind_SomeE
          split: result_splits dest!: answered_reply)
  next
    case 5
    with assms(2) show ?thesis
      by (auto simp: run_command_def cmd_munmap_def command_codes elim!: bind_SomeE
          split: result_splits dest!: answered_reply)
  next
    case 6
    with assms(2) show ?thesis by (auto simp: run_command_def dest!: answered_reply)
  qed
qed

lemma handle_command_answers:
  assumes "\<And>ioctl. answers (dev_do_ioctl D ioctl)" and "handle_command chk D P run r w = Some (run', r', w')"
  shows "answered w w' \<or>
    w' = w \<and> (\<exists>hdr r1. read_obj wire_CmdHeader r = (r1, Inr hdr) \<and> cmd hdr = VIRTIO_MEDIA_CMD_CLOSE)"
proof -
  have err: "answered v (fst (write_err_response EINVAL v))" for v
    by (metis answered_err prod.collapse)
  obtain r1 y where rd: "read_obj wire_CmdHeader r = (r1, y)" by (cases rule: prod.exhaust)
  show ?thesis
  proof (cases y)
    case (Inl e)
    with assms(2) rd err show ?thesis by (auto simp: handle_command_def)
  next
    case (Inr hdr)
    with assms(2) rd obtain r2 w1 x where c:
        "run_command chk D P (cmd hdr) run r1 w = Some (run', r2, w1, x)"
        "w' = (case x of Inl e \<Rightarrow> fst (write_err_response EINVAL w1) | Inr _ \<Rightarrow> w1)"
      by (auto simp: handle_command_def elim!: bind_SomeE split: result_splits)
    from run_command_answers [OF assms(1) c(1)] show ?thesis
    proof (elim disjE conjE)
      assume "answered w w1"
      with c(2) answered_then_err show ?thesis by (auto split: sum.splits)
    qed (use c err rd Inr in \<open>auto split: sum.splits\<close>)
  qed
qed

section \<open>The contract between the runner and a device\<close>

text \<open>
  A device promises to keep a predicate over its own state and the states of all open sessions,
  to leave its sessions to the runner, and to answer every ioctl. The runner then keeps the
  predicate over any sequence of commands.
\<close>

locale media_device =
  fixes D :: "('d, 's) VirtioMediaDevice"
    and Inv :: "'d \<Rightarrow> (u32 \<rightharpoonup> 's) \<Rightarrow> bool"
  assumes new_session_keeps: "Inv d ss \<Longrightarrow> ss sid = None \<Longrightarrow> dev_new_session D sid d = Some (d', res) \<Longrightarrow>
      (case res of Inl e \<Rightarrow> Inv d' ss | Inr s \<Rightarrow> Inv d' (ss(sid \<mapsto> s)))"
    and close_session_keeps: "Inv d ss \<Longrightarrow> ss sid = Some s \<Longrightarrow> dev_close_session D s d = Some d' \<Longrightarrow>
      Inv d' (ss(sid := None))"
    and do_ioctl_keeps: "Inv d ss \<Longrightarrow> ss sid = Some s \<Longrightarrow>
      dev_do_ioctl D ioctl d s r w = Some (d', s', r', w', x) \<Longrightarrow> Inv d' (ss(sid \<mapsto> s'))"
    and do_mmap_keeps: "Inv d ss \<Longrightarrow> ss sid = Some s \<Longrightarrow>
      dev_do_mmap D fl off d s = Some (d', s', res') \<Longrightarrow> Inv d' (ss(sid \<mapsto> s'))"
    and do_munmap_keeps: "Inv d ss \<Longrightarrow> dev_do_munmap D addr d = Some (d', res'') \<Longrightarrow> Inv d' ss"
    and process_events_keeps: "Inv d ss \<Longrightarrow> ss sid = Some s \<Longrightarrow>
      dev_process_events D d s = Some (d', s', res3) \<Longrightarrow> Inv d' (ss(sid \<mapsto> s'))"
    and do_ioctl_answers: "answers (dev_do_ioctl D ioctl)"
begin

definition run_inv :: "('d, 's, 'p) VirtioMediaDeviceRunner \<Rightarrow> bool" where
  "run_inv run \<longleftrightarrow> ids_inv run \<and> Inv (device run) (sessions run)"

lemma cmd_open_keeps:
  assumes "run_inv run" and "no_wrap chk run" and "cmd_open chk D P run r w = Some (run', r', w', x)"
  shows "run_inv run'"
proof -
  let ?sid = "session_id_counter run"
  have inv: "Inv (device run) (sessions run)" and ids: "ids_inv run" using assms(1) by (simp_all add: run_inv_def)
  from assms(3) obtain d' res where new: "dev_new_session D ?sid (device run) = Some (d', res)"
    by (auto simp: cmd_open_def Let_def bind_eq_Some_conv)
  note keep = new_session_keeps [OF inv ids_inv_fresh [OF ids] new]
  have polled: "run_inv run2"
    if "add_session chk ?sid s (run\<lparr>device := d', poller := p\<rparr>) = Some run2" "res = Inr s" for p run2 s
  proof -
    from that obtain c where c: "add_ov chk ?sid 1 = Some c" and
      run2: "run2 = run\<lparr>device := d', poller := p, sessions := (sessions run)(?sid \<mapsto> s),
        session_id_counter := c\<rparr>"
      by (auto simp: add_session_def bind_eq_Some_conv)
    from counter_step(1) [OF assms(2) c] ids that keep show ?thesis
      by (auto simp: run_inv_def ids_inv_def run2 intro: less_trans)
  qed
  have added: "run_inv run2"
    if "add_session chk ?sid s (run\<lparr>device := d'\<rparr>) = Some run2" "res = Inr s" for run2 s
    using polled [of s "poller run" run2] that by simp
  show ?thesis
  proof (cases res)
    case (Inl e)
    with assms(3) new keep ids show ?thesis
      by (auto simp: cmd_open_def Let_def reply_def run_inv_def ids_inv_def split: prod.splits)
  next
    case (Inr s)
    have closed: "Inv d'' (sessions run)" if "dev_close_session D s d' = Some d''" for d''
      using close_session_keeps [of d' "(sessions run)(?sid \<mapsto> s)" ?sid s d''] that keep Inr
        ids_inv_fresh [OF ids] by (simp add: fun_upd_idem)
    have refused: "run_inv (run\<lparr>device := d'', poller := p\<rparr>)" if "dev_close_session D s d' = Some d''" for d'' p
      using closed [OF that] ids by (simp add: run_inv_def ids_inv_def)
    show ?thesis
      using assms(3) new Inr
      by (auto simp: cmd_open_def Let_def reply_def elim!: bind_SomeE split: result_splits)
        (erule added [OF _ Inr] polled [OF _ Inr] refused)+
  qed
qed

lemma run_inv_update:
  "run_inv run \<Longrightarrow> sessions run sid \<noteq> None \<Longrightarrow> Inv d' ((sessions run)(sid \<mapsto> s')) \<Longrightarrow>
   run_inv (run\<lparr>device := d', sessions := (sessions run)(sid \<mapsto> s')\<rparr>)"
  by (auto simp: run_inv_def ids_inv_def)

lemma cmd_close_keeps: "run_inv run \<Longrightarrow> cmd_close D P run r w = Some (run', r', w', x) \<Longrightarrow> run_inv run'"
  by (auto simp: cmd_close_def run_inv_def ids_inv_def close_session_keeps elim!: bind_SomeE
      split: result_splits)

lemma cmd_ioctl_keeps: "run_inv run \<Longrightarrow> cmd_ioctl D run r w = Some (run', r', w', x) \<Longrightarrow> run_inv run'"
  by (auto simp: cmd_ioctl_def reply_def elim!: bind_SomeE split: result_splits
      intro!: run_inv_update do_ioctl_keeps)
    (auto simp: run_inv_def)

lemma cmd_mmap_keeps: "run_inv run \<Longrightarrow> cmd_mmap D run r w = Some (run', r', w', x) \<Longrightarrow> run_inv run'"
  by (auto simp: cmd_mmap_def reply_def Let_def elim!: bind_SomeE split: result_splits
      intro!: run_inv_update do_mmap_keeps)
    (auto simp: run_inv_def)

lemma cmd_munmap_keeps: "run_inv run \<Longrightarrow> cmd_munmap D run r w = Some (run', r', w', x) \<Longrightarrow> run_inv run'"
  by (auto simp: cmd_munmap_def reply_def run_inv_def ids_inv_def elim!: bind_SomeE split: result_splits)
    (blast intro: do_munmap_keeps)+

lemma handle_command_keeps:
  assumes "run_inv run" and "no_wrap chk run" and "handle_command chk D P run r w = Some (run', r', w')"
  shows "run_inv run'"
proof -
  have "run_inv run2" if "run_command chk D P code run r1 w = Some (run2, r2, w2, x)" for code r1 run2 r2 w2 x
    using that assms(1,2) cmd_open_keeps cmd_close_keeps cmd_ioctl_keeps cmd_mmap_keeps cmd_munmap_keeps
    by (auto simp: run_command_def reply_def split: result_splits)
  with assms(1,3) show ?thesis
    by (auto simp: handle_command_def elim!: bind_SomeE split: result_splits)
qed

lemma handle_command_answered:
  "handle_command chk D P run r w = Some (run', r', w') \<Longrightarrow> answered w w' \<or>
    w' = w \<and> (\<exists>hdr r1. read_obj wire_CmdHeader r = (r1, Inr hdr) \<and> cmd hdr = VIRTIO_MEDIA_CMD_CLOSE)"
  by (rule handle_command_answers [OF do_ioctl_answers])

end

section \<open>Reachable runners\<close>

text \<open>
  The runners that a sequence of commands and of session events can lead to, from a new one, in a
  build with overflow checks; the requests and the response chains are arbitrary. The program that
  hosts the device calls \<open>process_events\<close> for a session when its file descriptor is readable; here
  it may do so for any open session at any time between two commands.
\<close>

inductive run_reachable ::
  "('d, 's) VirtioMediaDevice \<Rightarrow> 'p SessionPoller \<Rightarrow> 'd \<Rightarrow> 'p \<Rightarrow> ('d, 's, 'p) VirtioMediaDeviceRunner \<Rightarrow> bool"
  for D P d p
where
  run_new: "run_reachable D P d p (Runner_new d p)"
| run_more: "run_reachable D P d p run \<Longrightarrow> handle_command True D P run r w = Some (run', r', w') \<Longrightarrow>
    run_reachable D P d p run'"
| run_event: "run_reachable D P d p run \<Longrightarrow> sessions run sid = Some s \<Longrightarrow>
    dev_process_events D (device run) s = Some (d', s', res) \<Longrightarrow>
    run_reachable D P d p (run\<lparr>device := d', sessions := (sessions run)(sid \<mapsto> s')\<rparr>)"

context media_device
begin

lemma reachable_inv:
  assumes "run_reachable D P d p run" and "Inv d Map.empty"
  shows "run_inv run"
  using assms
proof (induction rule: run_reachable.induct)
  case run_new
  then show ?case by (simp add: run_inv_def) (simp add: Runner_new_def)
next
  case (run_more run r w run' r' w')
  show ?case by (rule handle_command_keeps [OF run_more.IH _ run_more.hyps(2)]) (use run_more in \<open>auto simp: no_wrap_def\<close>)
next
  case (run_event run sid s d' s' res)
  note inv = run_event.IH [OF run_event.prems]
  have "Inv d' ((sessions run)(sid \<mapsto> s'))"
    by (rule process_events_keeps [of "device run" "sessions run" sid s])
      (use inv run_event.hyps(2,3) in \<open>simp_all add: run_inv_def\<close>)
  with inv run_event.hyps(2) show ?case by (intro run_inv_update) simp_all
qed

end

section \<open>Properties\<close>

text \<open>
  C6. Every command is answered: if the ioctls of the device are answered, as those that go through
  the dispatcher are, then after any command on a chain with room for a header, the response begins
  with a response header, whatever the bytes of the request are. The only command without an answer
  is a \<open>CLOSE\<close>.
\<close>

theorem runner_answers:
  assumes "\<forall>ioctl. answers (dev_do_ioctl D ioctl)" and "8 \<le> room w"
    and "handle_command chk D P run r w = Some (run', r', w')"
  shows "responded w w' \<or>
    w' = w \<and> (\<exists>hdr r1. read_obj wire_CmdHeader r = (r1, Inr hdr) \<and> cmd hdr = VIRTIO_MEDIA_CMD_CLOSE)"
  using handle_command_answers [OF _ assms(3)] assms(1,2) by (auto simp: answered_def)

text \<open>A device without state that opens sessions and supports no ioctl, for the concrete instances.\<close>

definition null_device :: "(unit, unit) VirtioMediaDevice" where
  "null_device =
     \<lparr>dev_new_session = (\<lambda>_ d. Some (d, Inr ())), dev_close_session = (\<lambda>_ d. Some d),
      dev_do_ioctl = virtio_media_dispatch_ioctl ex_K default_handler,
      dev_do_mmap = (\<lambda>_ _ d s. Some (d, s, Inl EINVAL)), dev_do_munmap = (\<lambda>_ d. Some (d, Inl EINVAL)),
      dev_process_events = default_process_events, dev_poll_fd = (\<lambda>_. None)\<rparr>"

abbreviation new_runner :: "(unit, unit, unit) VirtioMediaDeviceRunner" where
  "new_runner \<equiv> Runner_new () ()"

abbreviation open_cmd :: "u8 list" where
  "open_cmd \<equiv> as_bytes wire_CmdHeader \<lparr>cmd = VIRTIO_MEDIA_CMD_OPEN, cmd_padding = 0\<rparr>"

abbreviation mmap_cmd :: "u32 \<Rightarrow> u32 \<Rightarrow> u32 \<Rightarrow> u8 list" where
  "mmap_cmd sid fl off \<equiv> as_bytes wire_CmdHeader \<lparr>cmd = VIRTIO_MEDIA_CMD_MMAP, cmd_padding = 0\<rparr> @
     as_bytes wire_MmapCmd \<lparr>mmap_session_id = sid, mmap_flags = fl, mmap_offset = off\<rparr>"

abbreviation ioctl_cmd :: "u32 \<Rightarrow> u32 \<Rightarrow> u8 list" where
  "ioctl_cmd sid code \<equiv> as_bytes wire_CmdHeader \<lparr>cmd = VIRTIO_MEDIA_CMD_IOCTL, cmd_padding = 0\<rparr> @
     as_bytes wire_IoctlCmd \<lparr>ioctl_session_id = sid, ioctl_code = code\<rparr>"

lemmas read_commands = CmdHeader.read_encoded CmdHeader.read_encoded [of _ "[]", simplified]
  MmapCmd.read_encoded MmapCmd.read_encoded [of _ "[]", simplified] IoctlCmd.read_encoded
  IoctlCmd.read_encoded [of _ "[]", simplified] CloseCmd.read_encoded CloseCmd.read_encoded [of _ "[]", simplified]

text \<open>An \<open>IOCTL\<close> command for an open session is handed to the device.\<close>

lemma ioctl_step:
  assumes "sessions run sid = Some s" and "V4l2Ioctl_n code = Some i"
    and "dev_do_ioctl D i (device run) s r w = Some (d', s', r', w', Inr ())"
  shows "handle_command chk D P run (ioctl_cmd sid code @ r) w =
    Some (run\<lparr>device := d', sessions := (sessions run)(sid \<mapsto> s')\<rparr>, r', w')"
  using assms by (simp add: handle_command_def run_command_def cmd_ioctl_def read_commands command_codes)

theorem runner_answers_witness:
  "responded (fresh_writer 8) \<lparr>written = hdr_bytes EINVAL, room = 0\<rparr> \<or>
    \<lparr>written = hdr_bytes EINVAL, room = 0\<rparr> = fresh_writer 8 \<and>
    (\<exists>hdr r1. read_obj wire_CmdHeader [1, 2, 3] = (r1, Inr hdr) \<and> cmd hdr = VIRTIO_MEDIA_CMD_CLOSE)"
  by (rule runner_answers [of null_device _ True unit_poller "Runner_new () ()" _ "Runner_new () ()" "[]"])
    (simp_all add: null_device_def answers_dispatch handle_command_def read_obj_short write_err_fits)

text \<open>
  Opening a session: when the device creates the session, and the poller accepts it if it is to
  be polled, the session is stored under an identifier that no open session has, no other session
  changes, and the guest receives that identifier.
\<close>

theorem runner_open_fresh:
  assumes "ids_inv run" and "session_id_counter run \<noteq> 0xFFFFFFFF" and "16 \<le> room w"
    and "dev_new_session D (session_id_counter run) (device run) = Some (d', Inr session)"
    and "case dev_poll_fd D session of
           None \<Rightarrow> p' = poller run
         | Some fd \<Rightarrow> poller_add_session P fd (session_id_counter run) (poller run) = Some (p', Inr ())"
  shows "sessions run (session_id_counter run) = None \<and>
    (\<exists>run'. handle_command chk D P run (open_cmd @ r) w =
        Some (run', r, w\<lparr>written := written w @ as_bytes wire_OpenResp (OpenResp_ok (session_id_counter run)),
                        room := room w - 16\<rparr>) \<and>
      sessions run' = (sessions run)(session_id_counter run \<mapsto> session) \<and>
      device run' = d' \<and> poller run' = p' \<and> ids_inv run')"
proof -
  let ?sid = "session_id_counter run"
  have wrap: "no_wrap chk run" using assms(2) by (simp add: no_wrap_def)
  have "unat ?sid \<noteq> 2 ^ 32 - 1" using assms(2) by (simp add: word_unat_eq_iff)
  then have c: "add_ov chk ?sid 1 = Some (?sid + 1)"
    using unsigned_less [of ?sid, where ?'a = nat] by (intro add_ov_no_overflow) simp
  let ?run' = "run\<lparr>device := d', poller := p', sessions := (sessions run)(?sid \<mapsto> session),
    session_id_counter := ?sid + 1\<rparr>"
  have "handle_command chk D P run (open_cmd @ r) w =
      Some (?run', r, w\<lparr>written := written w @ as_bytes wire_OpenResp (OpenResp_ok ?sid), room := room w - 16\<rparr>)"
    using assms(3,4,5) c
    by (auto simp: handle_command_def run_command_def cmd_open_def read_commands reply_def add_session_def
        write_response_def OpenResp.write_fits Let_def split: option.splits)
  moreover have "ids_inv ?run'"
    using assms(1) counter_step(1) [OF wrap c] by (auto simp: ids_inv_def intro: less_trans)
  ultimately show ?thesis using ids_inv_fresh [OF assms(1)] by (intro conjI exI [of _ ?run']) simp_all
qed

theorem runner_open_fresh_witness:
  "sessions new_runner (session_id_counter new_runner) = None \<and>
    (\<exists>run'. handle_command False null_device unit_poller new_runner (open_cmd @ []) (fresh_writer 16) =
        Some (run', [], (fresh_writer 16)\<lparr>written := written (fresh_writer 16) @
            as_bytes wire_OpenResp (OpenResp_ok (session_id_counter new_runner)),
          room := room (fresh_writer 16) - 16\<rparr>) \<and>
      sessions run' = (sessions new_runner)(session_id_counter new_runner \<mapsto> ()) \<and>
      device run' = () \<and> poller run' = () \<and> ids_inv run')"
  by (rule runner_open_fresh) (simp_all add: null_device_def Runner_new_def ids_inv_def)

text \<open>
  Commands for a session that is not open do not reach the device: an \<open>IOCTL\<close> and a
  \<open>MMAP\<close> command are answered with \<open>EINVAL\<close> and leave the runner as it was.
\<close>

theorem runner_unknown_session:
  assumes "sessions run sid = None" and "8 \<le> room w"
  shows "handle_command chk D P run (ioctl_cmd sid code @ r) w =
      Some (run, r, w\<lparr>written := written w @ hdr_bytes EINVAL, room := room w - 8\<rparr>) \<and>
    handle_command chk D P run (mmap_cmd sid fl off @ r) w =
      Some (run, r, w\<lparr>written := written w @ hdr_bytes EINVAL, room := room w - 8\<rparr>)"
  using assms
  by (simp add: handle_command_def run_command_def cmd_ioctl_def cmd_mmap_def read_commands reply_def
      write_err_fits command_codes)

theorem runner_unknown_session_witness:
  "handle_command True null_device unit_poller new_runner (ioctl_cmd 7 18 @ [1]) (fresh_writer 8) =
      Some (new_runner, [1], (fresh_writer 8)\<lparr>written := written (fresh_writer 8) @ hdr_bytes EINVAL,
        room := room (fresh_writer 8) - 8\<rparr>) \<and>
   handle_command True null_device unit_poller new_runner (mmap_cmd 7 0 0x1000 @ [1]) (fresh_writer 8) =
      Some (new_runner, [1], (fresh_writer 8)\<lparr>written := written (fresh_writer 8) @ hdr_bytes EINVAL,
        room := room (fresh_writer 8) - 8\<rparr>)"
  by (rule runner_unknown_session) (simp_all add: Runner_new_def)








text \<open>
  Identifiers are not recycled: in a build without overflow checks, the counter wraps around,
  and the session opened next replaces an open session with the same identifier. The device is not
  told that the replaced session is gone.
\<close>

theorem runner_counter_wraps:
  assumes "session_id_counter run = 0xFFFFFFFF" and "16 \<le> room w"
    and "dev_new_session D 0xFFFFFFFF (device run) = Some (d', Inr s1)" and "dev_poll_fd D s1 = None"
    and "dev_new_session D 0 d' = Some (d'', Inr s2)" and "dev_poll_fd D s2 = None"
    and "sessions run 0 = Some s0"
  shows "\<exists>run1 run2 w1 w2. handle_command False D P run open_cmd w = Some (run1, [], w1) \<and>
    sessions run1 0 = Some s0 \<and>
    handle_command False D P run1 open_cmd w = Some (run2, [], w2) \<and>
    sessions run2 0 = Some s2 \<and> device run2 = d''"
proof -
  have wrap: "(4294967296 :: u32) = 0" by simp
  show ?thesis
    using assms
    by (simp add: handle_command_def run_command_def cmd_open_def read_commands reply_def add_session_def
        write_response_def OpenResp.write_fits Let_def command_codes wrap)
qed

definition worn_runner :: "(unit, unit, unit) VirtioMediaDeviceRunner" where
  "worn_runner = new_runner\<lparr>sessions := [0 \<mapsto> ()], session_id_counter := 0xFFFFFFFF\<rparr>"

theorem runner_counter_wraps_witness:
  "\<exists>run1 run2 w1 w2.
    handle_command False null_device unit_poller worn_runner open_cmd (fresh_writer 16) = Some (run1, [], w1) \<and>
    sessions run1 0 = Some () \<and>
    handle_command False null_device unit_poller run1 open_cmd (fresh_writer 16) = Some (run2, [], w2) \<and>
    sessions run2 0 = Some () \<and> device run2 = ()"
  by (rule runner_counter_wraps) (simp_all add: worn_runner_def Runner_new_def null_device_def)

end
