(* ===== verification/Mmap.thy ===== *)
theory Mmap
  imports Prelude
begin

unbundle bit_operations_syntax

text \<open>
  The MMAP range manager of \<open>device/src/mmap.rs\<close>: the buffers a device makes mappable, their
  registration at page-aligned offsets, and the reference-counted mappings of them into the
  guest. The manager keeps its buffers in a vector sorted by offset, which it searches by
  bisection. The mapper that really maps memory is supplied by the virtual machine monitor and
  is a parameter of the operations that call it.
\<close>

section \<open>Data\<close>

text \<open>The trait \<open>VirtioMediaHostMemoryMapper\<close>: its two methods over the mapper's state.\<close>

record 'm VirtioMediaHostMemoryMapper =
  hm_add_mapping :: "'m \<Rightarrow> fd \<Rightarrow> u64 \<Rightarrow> u64 \<Rightarrow> bool \<Rightarrow> 'm \<times> (i32 + u64)"
  hm_remove_mapping :: "'m \<Rightarrow> u64 \<Rightarrow> 'm \<times> (i32 + unit)"

text \<open>The no-op mapper, the implementation of the trait for the unit type.\<close>

definition unit_mapper :: "unit VirtioMediaHostMemoryMapper" where
  "unit_mapper =
     \<lparr>hm_add_mapping = (\<lambda>m _ _ _ _. (m, Inl ENOTTY)), hm_remove_mapping = (\<lambda>m _. (m, Inl ENOTTY))\<rparr>"

text \<open>
  The counter of the mappings of a buffer is a \<open>usize\<close> in the source. It is unbounded here:
  it grows by one per MMAP command, so it would take \<open>2 ^ 64\<close> commands to overflow it.
\<close>

record MmapBufferMapping =
  num_mappings :: nat
  guest_addr :: u64
  rw :: bool

record MmapBuffer =
  mb_offset :: u32
  mb_size :: u32
  mb_registered :: bool
  mb_mapping :: "MmapBufferMapping option"

definition MmapBuffer_new :: "u32 \<Rightarrow> u32 \<Rightarrow> MmapBuffer" where
  "MmapBuffer_new off sz =
     \<lparr>mb_offset = off, mb_size = sz, mb_registered = True, mb_mapping = None\<rparr>"

record 'm MmapMappingManager =
  buffers :: "MmapBuffer list"
  mapper :: 'm

definition MmapMappingManager_from :: "'m \<Rightarrow> 'm MmapMappingManager" where
  "MmapMappingManager_from m = \<lparr>buffers = [], mapper = m\<rparr>"

text \<open>
  The error types. The source declares \<open>FdCloneFailure\<close> with an \<open>io::ErrorKind\<close> and never
  constructs it; the payload is left out.
\<close>

datatype RegisterBufferError = NoFreeSpace | OffsetOccupied | EmptyBuffer | UnalignedOffset

datatype CreateMappingError =
    CreateInvalidOffset
  | UnregisteredBuffer
  | SizeOutOfBounds
  | FdCloneFailure
  | MappingFailure i32
  | NonMatchingPermissions

datatype RemoveMappingError = RemoveInvalidOffset

definition PAGE_SIZE :: u32 where "PAGE_SIZE = 0x1000"
definition PAGE_MASK :: u32 where "PAGE_MASK = NOT (PAGE_SIZE - 1)"

section \<open>Operations\<close>

definition register_buffer_by_offset ::
  "'m MmapMappingManager \<Rightarrow> u32 \<Rightarrow> u32 \<Rightarrow> 'm MmapMappingManager \<times> (RegisterBufferError + unit)"
where
  "register_buffer_by_offset mgr off sz =
     (if sz = 0 then (mgr, Inl EmptyBuffer)
      else if off AND PAGE_MASK \<noteq> off then (mgr, Inl UnalignedOffset)
      else case binary_search_by_key off mb_offset (buffers mgr) of
             Inr _ \<Rightarrow> (mgr, Inl OffsetOccupied)
           | Inl index \<Rightarrow>
               (mgr\<lparr>buffers := vec_insert index (MmapBuffer_new off sz) (buffers mgr)\<rparr>, Inr ()))"

text \<open>
  The offset a buffer gets when the caller names none: the first page after the start of the
  last buffer. The addition and the rounding can overflow.
\<close>

definition next_offset :: "bool \<Rightarrow> MmapBuffer list \<Rightarrow> u32 option" where
  "next_offset chk bufs =
     (if bufs = [] then Some 0
      else do {
        start \<leftarrow> add_ov chk (mb_offset (last bufs)) 1;
        next_multiple_of chk start PAGE_SIZE
      })"

definition register_buffer ::
  "bool \<Rightarrow> 'm MmapMappingManager \<Rightarrow> u32 option \<Rightarrow> u32 \<Rightarrow>
   ('m MmapMappingManager \<times> (RegisterBufferError + u32)) option"
where
  "register_buffer chk mgr offset sz = do {
     off \<leftarrow> (case offset of Some off \<Rightarrow> Some off | None \<Rightarrow> next_offset chk (buffers mgr));
     (case register_buffer_by_offset mgr off sz of
        (mgr', r) \<Rightarrow> Some (mgr', map_sum id (\<lambda>_. off) r))
   }"

definition unregister_buffer :: "'m MmapMappingManager \<Rightarrow> u32 \<Rightarrow> 'm MmapMappingManager \<times> bool" where
  "unregister_buffer mgr off =
     (case binary_search_by_key off mb_offset (buffers mgr) of
        Inl _ \<Rightarrow> (mgr, False)
      | Inr index \<Rightarrow>
          (let buffer = (buffers mgr ! index)\<lparr>mb_registered := False\<rparr>;
               bufs = (buffers mgr)[index := buffer]
           in (mgr\<lparr>buffers := (if mb_mapping buffer = None then vec_remove index bufs else bufs)\<rparr>,
               True)))"

definition create_mapping ::
  "bool \<Rightarrow> 'm VirtioMediaHostMemoryMapper \<Rightarrow> 'm MmapMappingManager \<Rightarrow> u32 \<Rightarrow> fd \<Rightarrow> bool \<Rightarrow>
   ('m MmapMappingManager \<times> (CreateMappingError + (u64 \<times> u64))) option"
where
  "create_mapping chk hm mgr off f want_rw =
     (case binary_search_by_key off mb_offset (buffers mgr) of
        Inl _ \<Rightarrow> Some (mgr, Inl CreateInvalidOffset)
      | Inr i \<Rightarrow>
          (let buffer = buffers mgr ! i in do {
             size_m1 \<leftarrow> sub_ov chk (mb_size buffer) 1;
             (case checked_add (mb_offset buffer) size_m1 of
                None \<Rightarrow> Some (mgr, Inl CreateInvalidOffset)
              | Some last_buffer_address \<Rightarrow>
                  if \<not> mb_registered buffer then Some (mgr, Inl UnregisteredBuffer)
                  else do {
                    buffer_end \<leftarrow> add_ov chk (mb_offset buffer) size_m1;
                    (if last_buffer_address > buffer_end then Some (mgr, Inl SizeOutOfBounds)
                     else case mb_mapping buffer of
                       None \<Rightarrow>
                         (case hm_add_mapping hm (mapper mgr) f (ucast (mb_size buffer))
                                 (ucast (mb_offset buffer)) want_rw of
                            (m', Inl e) \<Rightarrow> Some (mgr\<lparr>mapper := m'\<rparr>, Inl (MappingFailure e))
                          | (m', Inr addr) \<Rightarrow>
                              Some (mgr\<lparr>mapper := m',
                                       buffers := (buffers mgr)[i := buffer\<lparr>mb_mapping :=
                                         Some \<lparr>num_mappings = 1, guest_addr = addr, rw = want_rw\<rparr>\<rparr>]\<rparr>,
                                    Inr (addr, ucast (mb_size buffer))))
                     | Some mp \<Rightarrow>
                         if rw mp \<noteq> want_rw then Some (mgr, Inl NonMatchingPermissions)
                         else
                           Some (mgr\<lparr>buffers := (buffers mgr)[i := buffer\<lparr>mb_mapping :=
                                   Some (mp\<lparr>num_mappings := num_mappings mp + 1\<rparr>)\<rparr>]\<rparr>,
                                 Inr (guest_addr mp, ucast (mb_size buffer))))
                  })
           }))"

text \<open>The loop of \<open>remove_mapping\<close> that looks for the buffer mapped at an address.\<close>

fun find_mapped :: "u64 \<Rightarrow> nat \<Rightarrow> MmapBuffer list \<Rightarrow> (nat \<times> MmapBufferMapping) option" where
  "find_mapped addr i [] = None"
| "find_mapped addr i (b # bs) =
     (case mb_mapping b of
        Some mp \<Rightarrow> if guest_addr mp = addr then Some (i, mp) else find_mapped addr (Suc i) bs
      | None \<Rightarrow> find_mapped addr (Suc i) bs)"

text \<open>
  Decrementing a counter that is already zero is written as the panic of the checked build;
  the invariant below excludes it.
\<close>

definition remove_mapping ::
  "'m VirtioMediaHostMemoryMapper \<Rightarrow> 'm MmapMappingManager \<Rightarrow> u64 \<Rightarrow>
   ('m MmapMappingManager \<times> (RemoveMappingError + bool)) option"
where
  "remove_mapping hm mgr addr =
     (case find_mapped addr 0 (buffers mgr) of
        None \<Rightarrow> Some (mgr, Inl RemoveInvalidOffset)
      | Some (i, mp) \<Rightarrow>
          if num_mappings mp = 0 then None
          else
            (let buffer = buffers mgr ! i; n = num_mappings mp - 1 in
             if n = 0 then
               (let m' = fst (hm_remove_mapping hm (mapper mgr) addr);
                    bufs = (buffers mgr)[i := buffer\<lparr>mb_mapping := None\<rparr>]
                in Some (mgr\<lparr>mapper := m',
                            buffers := (if \<not> mb_registered buffer then vec_remove i bufs else bufs)\<rparr>,
                         Inr False))
             else
               Some (mgr\<lparr>buffers := (buffers mgr)[i := buffer\<lparr>mb_mapping := Some (mp\<lparr>num_mappings := n\<rparr>)\<rparr>]\<rparr>,
                     Inr True)))"

definition is_mapped :: "'m MmapMappingManager \<Rightarrow> u64 \<Rightarrow> bool" where
  "is_mapped mgr off =
     (if 2 ^ 32 \<le> unat off then False
      else case binary_search_by_key (ucast off) mb_offset (buffers mgr) of
             Inl _ \<Rightarrow> False
           | Inr index \<Rightarrow> mb_mapping (buffers mgr ! index) \<noteq> None)"

definition into_mapper :: "'m MmapMappingManager \<Rightarrow> 'm" where
  "into_mapper mgr = mapper mgr"

section \<open>Invariant and abstract view\<close>

text \<open>
  A buffer of the manager is page aligned and not empty; it is kept after its registration ended
  only while it is mapped; a mapping has been requested at least once.
\<close>

definition buffer_ok :: "MmapBuffer \<Rightarrow> bool" where
  "buffer_ok b \<longleftrightarrow> mb_offset b AND PAGE_MASK = mb_offset b \<and> mb_size b \<noteq> 0 \<and>
     (mb_registered b \<or> mb_mapping b \<noteq> None) \<and>
     (case mb_mapping b of None \<Rightarrow> True | Some mp \<Rightarrow> 0 < num_mappings mp)"

definition mgr_inv :: "'m MmapMappingManager \<Rightarrow> bool" where
  "mgr_inv mgr \<longleftrightarrow> sorted_wrt (<) (map mb_offset (buffers mgr)) \<and> list_all buffer_ok (buffers mgr)"

text \<open>The manager seen as a finite map from offsets to buffers.\<close>

definition mgr_map :: "'m MmapMappingManager \<Rightarrow> u32 \<rightharpoonup> MmapBuffer" where
  "mgr_map mgr = map_of (map (\<lambda>b. (mb_offset b, b)) (buffers mgr))"

lemma mgr_map_cong [simp]:
  "mgr_map (mgr\<lparr>mapper := m\<rparr>) = mgr_map mgr"
  by (simp add: mgr_map_def)

lemma mgr_map_from [simp]: "mgr_map (MmapMappingManager_from m) = Map.empty"
  by (simp add: mgr_map_def MmapMappingManager_from_def)

lemma mgr_inv_from [simp, keeps]: "mgr_inv (MmapMappingManager_from m)"
  by (simp add: mgr_inv_def MmapMappingManager_from_def)

lemma mgr_map_Some: "mgr_map mgr off = Some b \<Longrightarrow> b \<in> set (buffers mgr) \<and> mb_offset b = off"
  unfolding mgr_map_def by (drule map_of_SomeD) auto

lemma mgr_map_None: "mgr_map mgr off = None \<longleftrightarrow> off \<notin> mb_offset ` set (buffers mgr)"
  by (simp add: mgr_map_def keyed_None)

lemma mgr_map_in: "mgr_inv mgr \<Longrightarrow> b \<in> set (buffers mgr) \<Longrightarrow> mgr_map mgr (mb_offset b) = Some b"
  unfolding mgr_map_def mgr_inv_def
  by (rule map_of_unique_key) (auto intro: sorted_keys_distinct)

lemma mgr_inv_buffer_ok: "mgr_inv mgr \<Longrightarrow> mgr_map mgr off = Some b \<Longrightarrow> buffer_ok b"
  by (auto simp: mgr_inv_def list_all_iff dest: mgr_map_Some)

text \<open>The bisection computes the lookup of the abstract map.\<close>

lemma search_found:
  assumes "mgr_inv mgr" and "mgr_map mgr off = Some b"
  obtains i where "binary_search_by_key off mb_offset (buffers mgr) = Inr i"
    and "i < length (buffers mgr)" and "buffers mgr ! i = b"
proof -
  from mgr_map_Some [OF assms(2)] obtain i where
    i: "i < length (buffers mgr)" "buffers mgr ! i = b" and off: "mb_offset b = off"
    by (auto simp: in_set_conv_nth)
  from assms(1) have "sorted_wrt (<) (map mb_offset (buffers mgr))" by (simp add: mgr_inv_def)
  from binary_search_found [OF this i(1)] i off that show thesis by simp
qed

lemma search_missing:
  assumes "mgr_map mgr off = None"
  obtains i where "binary_search_by_key off mb_offset (buffers mgr) = Inl i"
proof (cases "binary_search_by_key off mb_offset (buffers mgr)")
  case (Inr i)
  from binary_search_Inr [OF Inr] assms show thesis by (auto simp: mgr_map_None)
qed (rule that)

text \<open>How the three kinds of change to the vector act on the abstract map.\<close>

lemma mgr_map_update:
  assumes "mgr_inv mgr" and "i < length (buffers mgr)" and "mb_offset b = mb_offset (buffers mgr ! i)"
  shows "mgr_map (mgr\<lparr>buffers := (buffers mgr)[i := b]\<rparr>) = (mgr_map mgr)(mb_offset b \<mapsto> b)"
proof -
  define bs where "bs = buffers mgr"
  have d: "distinct (map mb_offset bs)" using assms(1) by (simp add: mgr_inv_def bs_def sorted_keys_distinct)
  have i: "i < length bs" and k: "mb_offset b = mb_offset (bs ! i)" using assms(2,3) by (simp_all add: bs_def)
  have split: "bs = take i bs @ bs ! i # drop (Suc i) bs" by (rule id_take_nth_drop [OF i])
  have new: "bs[i := b] = take i bs @ b # drop (Suc i) bs" by (rule upd_conv_take_nth_drop [OF i])
  have "mb_offset (bs ! i) \<notin> mb_offset ` set (take i bs)"
    using d by (subst (asm) split) auto
  then have "map_of (map (\<lambda>b. (mb_offset b, b)) (take i bs)) (mb_offset b) = None"
    by (simp add: keyed_None k)
  then have "map_of (map (\<lambda>b. (mb_offset b, b)) (take i bs @ b # drop (Suc i) bs)) =
      (map_of (map (\<lambda>b. (mb_offset b, b)) (take i bs @ bs ! i # drop (Suc i) bs)))(mb_offset b \<mapsto> b)"
    by (auto simp: fun_eq_iff map_add_def k split: option.splits)
  then show ?thesis
    unfolding mgr_map_def by (simp add: bs_def [symmetric] new split [symmetric])
qed

lemma mgr_map_remove:
  assumes "mgr_inv mgr" and "i < length (buffers mgr)"
  shows "mgr_map (mgr\<lparr>buffers := vec_remove i (buffers mgr)\<rparr>) =
    (mgr_map mgr)(mb_offset (buffers mgr ! i) := None)"
proof -
  define bs where "bs = buffers mgr"
  have d: "distinct (map mb_offset bs)" using assms(1) by (simp add: mgr_inv_def bs_def sorted_keys_distinct)
  have i: "i < length bs" using assms(2) by (simp add: bs_def)
  have split: "bs = take i bs @ bs ! i # drop (Suc i) bs" by (rule id_take_nth_drop [OF i])
  have notin: "mb_offset (bs ! i) \<notin> mb_offset ` set (take i bs)"
      "mb_offset (bs ! i) \<notin> mb_offset ` set (drop (Suc i) bs)"
    using d by (subst (asm) split, auto)+
  then have "map_of (map (\<lambda>b. (mb_offset b, b)) (take i bs)) (mb_offset (bs ! i)) = None"
      "map_of (map (\<lambda>b. (mb_offset b, b)) (drop (Suc i) bs)) (mb_offset (bs ! i)) = None"
    by (simp_all add: keyed_None)
  then have "map_of (map (\<lambda>b. (mb_offset b, b)) (take i bs @ drop (Suc i) bs)) =
      (map_of (map (\<lambda>b. (mb_offset b, b)) (take i bs @ bs ! i # drop (Suc i) bs)))(mb_offset (bs ! i) := None)"
    by (auto simp: fun_eq_iff map_add_def split: option.splits)
  then show ?thesis
    unfolding mgr_map_def vec_remove_def by (simp add: bs_def [symmetric] split [symmetric])
qed

lemma mgr_map_insert:
  assumes "mgr_map mgr (mb_offset b) = None"
  shows "mgr_map (mgr\<lparr>buffers := vec_insert i b (buffers mgr)\<rparr>) = (mgr_map mgr)(mb_offset b \<mapsto> b)"
proof -
  define bs where "bs = buffers mgr"
  have "map_of (map (\<lambda>b. (mb_offset b, b)) (take i bs)) (mb_offset b) = None"
    using assms by (auto simp: mgr_map_None bs_def keyed_None dest: in_set_takeD)
  then have "map_of (map (\<lambda>b. (mb_offset b, b)) (take i bs @ b # drop i bs)) =
      (map_of (map (\<lambda>b. (mb_offset b, b)) (take i bs @ drop i bs)))(mb_offset b \<mapsto> b)"
    by (auto simp: fun_eq_iff map_add_def simp del: append_take_drop_id split: option.splits)
  then show ?thesis
    unfolding mgr_map_def vec_insert_def by (simp add: bs_def [symmetric])
qed

lemma mgr_inv_update:
  assumes "mgr_inv mgr" and "i < length (buffers mgr)" and "mb_offset b = mb_offset (buffers mgr ! i)"
    and "buffer_ok b"
  shows "mgr_inv (mgr\<lparr>buffers := (buffers mgr)[i := b]\<rparr>)"
proof -
  have "map mb_offset ((buffers mgr)[i := b]) = map mb_offset (buffers mgr)"
    using assms(2,3) by (simp add: map_update list_update_same_conv)
  moreover have "set ((buffers mgr)[i := b]) \<subseteq> insert b (set (buffers mgr))"
    by (rule set_update_subset_insert)
  ultimately show ?thesis using assms(1,4) by (auto simp: mgr_inv_def list_all_iff)
qed

lemma mgr_inv_remove:
  "mgr_inv mgr \<Longrightarrow> mgr_inv (mgr\<lparr>buffers := vec_remove i (buffers mgr)\<rparr>)"
  using set_vec_remove_subset [of i "buffers mgr"]
  by (auto simp: mgr_inv_def list_all_iff map_vec_remove sorted_vec_remove)

lemma vec_remove_update [simp]: "vec_remove i (xs[i := x]) = vec_remove i xs"
  by (simp add: vec_remove_def)

section \<open>Specification on the abstract map, and refinement\<close>

text \<open>What each operation promises, on a plain map from offsets to buffers.\<close>

definition spec_register ::
  "u32 \<Rightarrow> u32 \<Rightarrow> (u32 \<rightharpoonup> MmapBuffer) \<Rightarrow> (u32 \<rightharpoonup> MmapBuffer) \<times> (RegisterBufferError + unit)"
where
  "spec_register off sz \<sigma> =
     (if sz = 0 then (\<sigma>, Inl EmptyBuffer)
      else if unat off mod 4096 \<noteq> 0 then (\<sigma>, Inl UnalignedOffset)
      else if \<sigma> off \<noteq> None then (\<sigma>, Inl OffsetOccupied)
      else (\<sigma>(off \<mapsto> MmapBuffer_new off sz), Inr ()))"

definition spec_unregister :: "u32 \<Rightarrow> (u32 \<rightharpoonup> MmapBuffer) \<Rightarrow> (u32 \<rightharpoonup> MmapBuffer) \<times> bool" where
  "spec_unregister off \<sigma> =
     (case \<sigma> off of
        None \<Rightarrow> (\<sigma>, False)
      | Some b \<Rightarrow>
          (if mb_mapping b = None then \<sigma>(off := None) else \<sigma>(off \<mapsto> b\<lparr>mb_registered := False\<rparr>), True))"

definition spec_create ::
  "'m VirtioMediaHostMemoryMapper \<Rightarrow> u32 \<Rightarrow> fd \<Rightarrow> bool \<Rightarrow> (u32 \<rightharpoonup> MmapBuffer) \<Rightarrow> 'm \<Rightarrow>
   (u32 \<rightharpoonup> MmapBuffer) \<times> 'm \<times> (CreateMappingError + (u64 \<times> u64))"
where
  "spec_create hm off f want_rw \<sigma> m =
     (case \<sigma> off of
        None \<Rightarrow> (\<sigma>, m, Inl CreateInvalidOffset)
      | Some b \<Rightarrow>
          if 2 ^ 32 < unat off + unat (mb_size b) then (\<sigma>, m, Inl CreateInvalidOffset)
          else if \<not> mb_registered b then (\<sigma>, m, Inl UnregisteredBuffer)
          else case mb_mapping b of
            None \<Rightarrow>
              (case hm_add_mapping hm m f (ucast (mb_size b)) (ucast off) want_rw of
                 (m', Inl e) \<Rightarrow> (\<sigma>, m', Inl (MappingFailure e))
               | (m', Inr addr) \<Rightarrow>
                   (\<sigma>(off \<mapsto> b\<lparr>mb_mapping := Some \<lparr>num_mappings = 1, guest_addr = addr, rw = want_rw\<rparr>\<rparr>),
                    m', Inr (addr, ucast (mb_size b))))
          | Some mp \<Rightarrow>
              if rw mp \<noteq> want_rw then (\<sigma>, m, Inl NonMatchingPermissions)
              else (\<sigma>(off \<mapsto> b\<lparr>mb_mapping := Some (mp\<lparr>num_mappings := num_mappings mp + 1\<rparr>)\<rparr>), m,
                    Inr (guest_addr mp, ucast (mb_size b))))"

subsection \<open>Page alignment\<close>

lemma PAGE_MASK_mask: "PAGE_MASK = NOT (mask 12)"
  by (simp add: PAGE_MASK_def PAGE_SIZE_def mask_eq_exp_minus_1)

lemma page_aligned_iff: "x AND PAGE_MASK = x \<longleftrightarrow> unat x mod 4096 = 0"
proof -
  have "x AND NOT (mask 12) = x \<longleftrightarrow> take_bit 12 x = 0"
    by (auto simp: bit_eq_iff bit_simps take_bit_eq_mask)
  also have "\<dots> \<longleftrightarrow> unat (take_bit 12 x) = 0" by (simp only: unat_eq_zero)
  also have "\<dots> \<longleftrightarrow> unat x mod 4096 = 0" by (simp add: take_bit_eq_mod unat_mod)
  finally show ?thesis by (simp only: PAGE_MASK_mask)
qed

lemma aligned_bound:
  assumes "unat (x::u32) mod 4096 = 0"
  shows "unat x \<le> 4294963200"
proof -
  from assms obtain k where "unat x = 4096 * k" by (auto simp: mod_eq_0_iff_dvd)
  moreover have "unat x < 4294967296" using unsigned_less [of x] by simp
  ultimately show ?thesis by simp
qed

lemma next_page:
  assumes "unat (x::u32) mod 4096 = 0" and "x \<noteq> 0xFFFFF000"
  shows "do { s \<leftarrow> add_ov chk x 1; next_multiple_of chk s PAGE_SIZE } = Some (x + 0x1000)"
    and "unat (x + 0x1000) = unat x + 4096"
proof -
  have ne: "unat x \<noteq> 4294963200"
    using assms(2) by (simp add: word_unat_eq_iff)
  from assms(1) obtain k where "unat x = 4096 * k" by (auto simp: mod_eq_0_iff_dvd)
  with aligned_bound [OF assms(1)] ne have le: "unat x + 4096 \<le> 4294963200" by simp
  then show u: "unat (x + 0x1000) = unat x + 4096" by (simp add: unat_word_ariths)
  have u1: "unat (x + 1) = unat x + 1" using le by (simp add: unat_word_ariths)
  have "unat ((x + 1) mod 0x1000) = 1"
    using assms(1) by (simp add: unat_mod u1 mod_Suc)
  then have r: "(x + 1) mod 0x1000 = 1" by (simp add: word_unat_eq_iff)
  have "unat (x + 1) + unat (0x1000 - 1 :: u32) < 2 ^ LENGTH(32)" using u1 le by simp
  then have "add_ov chk (x + 1) (0x1000 - 1) = Some (x + 1 + (0x1000 - 1))"
    by (rule add_ov_no_overflow)
  moreover have "add_ov chk x 1 = Some (x + 1)"
    by (rule add_ov_no_overflow) (use le in simp)
  ultimately show "do { s \<leftarrow> add_ov chk x 1; next_multiple_of chk s PAGE_SIZE } = Some (x + 0x1000)"
    by (simp add: next_multiple_of_def PAGE_SIZE_def r)
qed

lemma next_page_last:
  "do { s \<leftarrow> add_ov chk 0xFFFFF000 1; next_multiple_of chk s PAGE_SIZE } = (if chk then None else Some (0::u32))"
  by (simp add: next_multiple_of_def PAGE_SIZE_def add_ov_def)

subsection \<open>Each operation refines its specification\<close>

lemma register_by_offset_refines:
  assumes "mgr_inv mgr" and "register_buffer_by_offset mgr off sz = (mgr', r)"
  shows "mgr_inv mgr'" and "mapper mgr' = mapper mgr"
    and "spec_register off sz (mgr_map mgr) = (mgr_map mgr', r)"
proof -
  have "mgr_inv mgr' \<and> mapper mgr' = mapper mgr \<and> spec_register off sz (mgr_map mgr) = (mgr_map mgr', r)"
  proof (cases "sz = 0 \<or> off AND PAGE_MASK \<noteq> off")
    case True
    with assms show ?thesis
      by (auto simp: register_buffer_by_offset_def spec_register_def page_aligned_iff split: if_splits)
  next
    case False
    then have al: "unat off mod 4096 = 0" and sz: "sz \<noteq> 0" by (simp_all add: page_aligned_iff)
    show ?thesis
    proof (cases "mgr_map mgr off")
      case (Some b)
      obtain i where "binary_search_by_key off mb_offset (buffers mgr) = Inr i"
        by (rule search_found [OF assms(1) Some])
      with assms al sz Some False show ?thesis
        by (simp add: register_buffer_by_offset_def spec_register_def)
    next
      case None
      obtain i where i: "binary_search_by_key off mb_offset (buffers mgr) = Inl i"
        by (rule search_missing [OF None])
      let ?b = "MmapBuffer_new off sz"
      have mgr': "mgr' = mgr\<lparr>buffers := vec_insert i ?b (buffers mgr)\<rparr>" "r = Inr ()"
        using assms(2) i sz False by (auto simp: register_buffer_by_offset_def)
      from assms(1) have s: "sorted_wrt (<) (map mb_offset (buffers mgr))" by (simp add: mgr_inv_def)
      have "sorted_wrt (<) (vec_insert i off (map mb_offset (buffers mgr)))"
        by (rule sorted_vec_insert [OF s])
          (use binary_search_Inl [OF s i] in \<open>auto simp: take_map drop_map\<close>)
      moreover have "buffer_ok ?b" using sz False by (simp add: buffer_ok_def MmapBuffer_new_def)
      ultimately have "mgr_inv mgr'"
        using assms(1) unfolding mgr' mgr_inv_def
        by (simp add: map_vec_insert MmapBuffer_new_def list_all_iff)
      moreover have "mgr_map mgr' = (mgr_map mgr)(off \<mapsto> ?b)"
        using mgr_map_insert [of mgr ?b i] None by (simp add: mgr' MmapBuffer_new_def)
      ultimately show ?thesis using None al sz mgr' by (simp add: spec_register_def)
    qed
  qed
  then show "mgr_inv mgr'" and "mapper mgr' = mapper mgr"
    and "spec_register off sz (mgr_map mgr) = (mgr_map mgr', r)" by simp_all
qed

lemma unregister_refines:
  assumes "mgr_inv mgr" and "unregister_buffer mgr off = (mgr', r)"
  shows "mgr_inv mgr'" and "mapper mgr' = mapper mgr"
    and "spec_unregister off (mgr_map mgr) = (mgr_map mgr', r)"
proof -
  have "mgr_inv mgr' \<and> mapper mgr' = mapper mgr \<and> spec_unregister off (mgr_map mgr) = (mgr_map mgr', r)"
  proof (cases "mgr_map mgr off")
    case None
    obtain i where "binary_search_by_key off mb_offset (buffers mgr) = Inl i"
      by (rule search_missing [OF None])
    with assms None show ?thesis by (simp add: unregister_buffer_def spec_unregister_def)
  next
    case (Some b)
    obtain i where i: "binary_search_by_key off mb_offset (buffers mgr) = Inr i"
        "i < length (buffers mgr)" "buffers mgr ! i = b"
      by (rule search_found [OF assms(1) Some])
    have off: "mb_offset b = off" using mgr_map_Some [OF Some] by simp
    have ok: "buffer_ok b" by (rule mgr_inv_buffer_ok [OF assms(1) Some])
    show ?thesis
    proof (cases "mb_mapping b")
      case None
      with assms(2) i have "mgr' = mgr\<lparr>buffers := vec_remove i (buffers mgr)\<rparr>" "r = True"
        by (simp_all add: unregister_buffer_def)
      with mgr_map_remove [OF assms(1) i(2)] mgr_inv_remove [OF assms(1)] i off Some None
      show ?thesis by (simp add: spec_unregister_def)
    next
      case (Some mp)
      let ?b = "b\<lparr>mb_registered := False\<rparr>"
      from Some assms(2) i have mgr': "mgr' = mgr\<lparr>buffers := (buffers mgr)[i := ?b]\<rparr>" "r = True"
        by (simp_all add: unregister_buffer_def)
      have "buffer_ok ?b" using ok Some by (simp add: buffer_ok_def)
      with mgr_inv_update [OF assms(1) i(2), of ?b] i have "mgr_inv mgr'" by (simp add: mgr')
      moreover have "mgr_map mgr' = (mgr_map mgr)(off \<mapsto> ?b)"
        using mgr_map_update [OF assms(1) i(2), of ?b] i off by (simp add: mgr')
      ultimately show ?thesis using \<open>mgr_map mgr off = Some b\<close> Some mgr' by (simp add: spec_unregister_def)
    qed
  qed
  then show "mgr_inv mgr'" and "mapper mgr' = mapper mgr"
    and "spec_unregister off (mgr_map mgr) = (mgr_map mgr', r)" by simp_all
qed

text \<open>
  Under the invariant the two additions of \<open>create_mapping\<close> agree, so its \<open>SizeOutOfBounds\<close>
  branch is never taken and no arithmetic panics.
\<close>

lemma create_mapping_unfold:
  assumes "mgr_inv mgr" and "mgr_map mgr off = Some b"
    and i: "binary_search_by_key off mb_offset (buffers mgr) = Inr i" "buffers mgr ! i = b"
  shows "create_mapping chk hm mgr off f w =
    (if 2 ^ 32 < unat off + unat (mb_size b) then Some (mgr, Inl CreateInvalidOffset)
     else if \<not> mb_registered b then Some (mgr, Inl UnregisteredBuffer)
     else case mb_mapping b of
       None \<Rightarrow>
         (case hm_add_mapping hm (mapper mgr) f (ucast (mb_size b)) (ucast off) w of
            (m', Inl e) \<Rightarrow> Some (mgr\<lparr>mapper := m'\<rparr>, Inl (MappingFailure e))
          | (m', Inr addr) \<Rightarrow>
              Some (mgr\<lparr>mapper := m', buffers := (buffers mgr)[i := b\<lparr>mb_mapping :=
                      Some \<lparr>num_mappings = 1, guest_addr = addr, rw = w\<rparr>\<rparr>]\<rparr>,
                    Inr (addr, ucast (mb_size b))))
     | Some mp \<Rightarrow>
         if rw mp \<noteq> w then Some (mgr, Inl NonMatchingPermissions)
         else Some (mgr\<lparr>buffers := (buffers mgr)[i := b\<lparr>mb_mapping :=
                      Some (mp\<lparr>num_mappings := num_mappings mp + 1\<rparr>)\<rparr>]\<rparr>,
                    Inr (guest_addr mp, ucast (mb_size b))))"
proof -
  have off: "mb_offset b = off" using mgr_map_Some [OF assms(2)] by simp
  have ok: "buffer_ok b" by (rule mgr_inv_buffer_ok [OF assms(1,2)])
  then have pos: "1 \<le> mb_size b" by (simp add: buffer_ok_def word_pos_pred)
  then have s1: "sub_ov chk (mb_size b) 1 = Some (mb_size b - 1)" by (rule sub_ov_no_underflow)
  have u: "unat (mb_size b - 1) = unat (mb_size b) - 1" "0 < unat (mb_size b)"
    using pos by (simp_all add: unat_sub word_le_nat_alt)
  show ?thesis
  proof (cases "2 ^ 32 < unat off + unat (mb_size b)")
    case True
    with u have "checked_add off (mb_size b - 1) = None" by (simp add: checked_add_None)
    with True show ?thesis by (simp add: create_mapping_def i off s1)
  next
    case False
    with u have fits: "unat off + unat (mb_size b - 1) < 2 ^ LENGTH(32)" by simp
    then have c: "checked_add off (mb_size b - 1) = Some (off + (mb_size b - 1))"
      by (simp add: checked_add_Some)
    have a: "add_ov chk off (mb_size b - 1) = Some (off + (mb_size b - 1))"
      by (rule add_ov_no_overflow [OF fits])
    from False show ?thesis
      by (simp add: create_mapping_def i off s1 c a split: option.splits)
  qed
qed

lemma create_mapping_refines:
  assumes "mgr_inv mgr"
  shows "\<exists>mgr' r. create_mapping chk hm mgr off f w = Some (mgr', r) \<and> mgr_inv mgr' \<and>
    spec_create hm off f w (mgr_map mgr) (mapper mgr) = (mgr_map mgr', mapper mgr', r)"
proof (cases "mgr_map mgr off")
  case None
  obtain i where "binary_search_by_key off mb_offset (buffers mgr) = Inl i"
    by (rule search_missing [OF None])
  with assms None show ?thesis by (simp add: create_mapping_def spec_create_def)
next
  case (Some b)
  obtain i where i: "binary_search_by_key off mb_offset (buffers mgr) = Inr i"
      "i < length (buffers mgr)" "buffers mgr ! i = b"
    by (rule search_found [OF assms Some])
  have off: "mb_offset b = off" using mgr_map_Some [OF Some] by simp
  have ok: "buffer_ok b" by (rule mgr_inv_buffer_ok [OF assms Some])
  note unf = create_mapping_unfold [OF assms Some i(1,3)]
  have upd: "mgr_inv (mgr\<lparr>buffers := (buffers mgr)[i := b\<lparr>mb_mapping := Some mp\<rparr>]\<rparr>) \<and>
      mgr_map (mgr\<lparr>buffers := (buffers mgr)[i := b\<lparr>mb_mapping := Some mp\<rparr>]\<rparr>) =
        (mgr_map mgr)(off \<mapsto> b\<lparr>mb_mapping := Some mp\<rparr>)" if "0 < num_mappings mp" for mp
    using mgr_inv_update [OF assms i(2), of "b\<lparr>mb_mapping := Some mp\<rparr>"]
      mgr_map_update [OF assms i(2), of "b\<lparr>mb_mapping := Some mp\<rparr>"] ok that i(3) off
    by (simp add: buffer_ok_def)
  have upd': "mgr_inv (mgr\<lparr>mapper := m, buffers := (buffers mgr)[i := b\<lparr>mb_mapping := Some mp\<rparr>]\<rparr>) \<and>
      mgr_map (mgr\<lparr>mapper := m, buffers := (buffers mgr)[i := b\<lparr>mb_mapping := Some mp\<rparr>]\<rparr>) =
        (mgr_map mgr)(off \<mapsto> b\<lparr>mb_mapping := Some mp\<rparr>)" if "0 < num_mappings mp" for mp m
    using upd [OF that] by (simp add: mgr_inv_def mgr_map_def)
  have upd'': "mgr_inv (mgr\<lparr>mapper := m\<rparr>)" for m
    using assms by (simp add: mgr_inv_def)
  show ?thesis
    unfolding unf using assms Some upd upd' upd''
    by (auto simp: spec_create_def split: option.splits prod.splits sum.splits)
qed

subsection \<open>Removing a mapping\<close>

text \<open>Whether the buffer at an offset is mapped at a guest address.\<close>

definition mapped_at :: "'m MmapMappingManager \<Rightarrow> u32 \<Rightarrow> u64 \<Rightarrow> bool" where
  "mapped_at mgr off addr =
     (case mgr_map mgr off of
        None \<Rightarrow> False
      | Some b \<Rightarrow> (case mb_mapping b of None \<Rightarrow> False | Some mp \<Rightarrow> guest_addr mp = addr))"

definition spec_unmap ::
  "u32 \<Rightarrow> MmapBuffer \<Rightarrow> MmapBufferMapping \<Rightarrow> (u32 \<rightharpoonup> MmapBuffer) \<Rightarrow> (u32 \<rightharpoonup> MmapBuffer)"
where
  "spec_unmap off b mp \<sigma> =
     (if 1 < num_mappings mp
      then \<sigma>(off \<mapsto> b\<lparr>mb_mapping := Some (mp\<lparr>num_mappings := num_mappings mp - 1\<rparr>)\<rparr>)
      else if mb_registered b then \<sigma>(off \<mapsto> b\<lparr>mb_mapping := None\<rparr>)
      else \<sigma>(off := None))"

lemma find_mapped_Some:
  "find_mapped addr j bs = Some (i, mp) \<Longrightarrow>
   j \<le> i \<and> i - j < length bs \<and> mb_mapping (bs ! (i - j)) = Some mp \<and> guest_addr mp = addr"
proof (induction bs arbitrary: j)
  case Nil
  then show ?case by simp
next
  case (Cons b bs)
  then show ?case
  proof (cases "\<exists>mp. mb_mapping b = Some mp \<and> guest_addr mp = addr")
    case True
    with Cons.prems show ?thesis by auto
  next
    case False
    with Cons.prems have "find_mapped addr (Suc j) bs = Some (i, mp)"
      by (auto split: option.splits if_splits)
    from Cons.IH [OF this] show ?thesis
      by (auto simp: nth_Cons' Suc_diff_le [symmetric] split: nat.splits)
  qed
qed

lemma find_mapped_None:
  "find_mapped addr j bs = None \<longleftrightarrow>
   (\<forall>b \<in> set bs. \<forall>mp. mb_mapping b = Some mp \<longrightarrow> guest_addr mp \<noteq> addr)"
  by (induction bs arbitrary: j) (auto split: option.splits)

lemma mapped_at_iff:
  assumes "mgr_inv mgr"
  shows "(\<exists>off. mapped_at mgr off addr) \<longleftrightarrow> find_mapped addr 0 (buffers mgr) \<noteq> None"
proof -
  have "(\<exists>off. mapped_at mgr off addr) \<longleftrightarrow>
      (\<exists>b \<in> set (buffers mgr). \<exists>mp. mb_mapping b = Some mp \<and> guest_addr mp = addr)"
    using mgr_map_in [OF assms] mgr_map_Some [of mgr]
    by (fastforce simp: mapped_at_def split: option.splits)
  then show ?thesis using find_mapped_None [of addr 0 "buffers mgr"] by auto
qed

lemma remove_mapping_refines:
  assumes "mgr_inv mgr"
  shows "(find_mapped addr 0 (buffers mgr) = None \<and>
      remove_mapping hm mgr addr = Some (mgr, Inl RemoveInvalidOffset)) \<or>
    (\<exists>off b mp mgr'. mgr_map mgr off = Some b \<and> mb_mapping b = Some mp \<and> guest_addr mp = addr \<and>
      remove_mapping hm mgr addr = Some (mgr', Inr (1 < num_mappings mp)) \<and> mgr_inv mgr' \<and>
      mgr_map mgr' = spec_unmap off b mp (mgr_map mgr) \<and>
      mapper mgr' = (if 1 < num_mappings mp then mapper mgr
                     else fst (hm_remove_mapping hm (mapper mgr) addr)))"
proof (cases "find_mapped addr 0 (buffers mgr)")
  case None
  then show ?thesis by (simp add: remove_mapping_def)
next
  case (Some p)
  then obtain i mp where f: "find_mapped addr 0 (buffers mgr) = Some (i, mp)" by (cases p) simp
  define b where "b = buffers mgr ! i"
  from find_mapped_Some [OF f] have i: "i < length (buffers mgr)" and mp: "mb_mapping b = Some mp"
    and addr: "guest_addr mp = addr" by (simp_all add: b_def)
  have b: "mgr_map mgr (mb_offset b) = Some b"
    by (rule mgr_map_in [OF assms]) (simp add: b_def i)
  have ok: "buffer_ok b" by (rule mgr_inv_buffer_ok [OF assms b])
  then have pos: "0 < num_mappings mp" using mp by (simp add: buffer_ok_def)
  have upd: "mgr_inv (mgr\<lparr>buffers := (buffers mgr)[i := b']\<rparr>)"
      "mgr_map (mgr\<lparr>buffers := (buffers mgr)[i := b']\<rparr>) = (mgr_map mgr)(mb_offset b \<mapsto> b')"
    if "mb_offset b' = mb_offset b" "buffer_ok b'" for b'
    using mgr_inv_update [OF assms i, of b'] mgr_map_update [OF assms i, of b'] that
    by (simp_all add: b_def)
  show ?thesis
  proof (cases "1 < num_mappings mp")
    case True
    let ?b = "b\<lparr>mb_mapping := Some (mp\<lparr>num_mappings := num_mappings mp - 1\<rparr>)\<rparr>"
    have "remove_mapping hm mgr addr = Some (mgr\<lparr>buffers := (buffers mgr)[i := ?b]\<rparr>, Inr True)"
      using f pos True by (simp add: remove_mapping_def b_def Let_def)
    moreover have "buffer_ok ?b" using ok mp True by (simp add: buffer_ok_def)
    ultimately show ?thesis using b mp addr True upd [of ?b] by (auto simp: spec_unmap_def)
  next
    case False
    let ?m = "fst (hm_remove_mapping hm (mapper mgr) addr)"
    have [simp]: "mgr_inv (mg\<lparr>mapper := m\<rparr>) = mgr_inv mg" for mg :: "'a MmapMappingManager" and m
      by (simp add: mgr_inv_def)
    show ?thesis
    proof (cases "mb_registered b")
      case True
      let ?b = "b\<lparr>mb_mapping := None\<rparr>"
      have "remove_mapping hm mgr addr =
          Some (mgr\<lparr>buffers := (buffers mgr)[i := ?b], mapper := ?m\<rparr>, Inr False)"
        using f pos False True by (simp add: remove_mapping_def b_def Let_def)
      moreover have "buffer_ok ?b" using ok True by (simp add: buffer_ok_def)
      ultimately show ?thesis using b mp addr True False upd [of ?b] by (auto simp: spec_unmap_def)
    next
      case nreg: False
      have "remove_mapping hm mgr addr =
          Some (mgr\<lparr>buffers := vec_remove i (buffers mgr), mapper := ?m\<rparr>, Inr False)"
        using f pos False nreg by (simp add: remove_mapping_def b_def Let_def)
      then show ?thesis
        using b mp addr nreg False mgr_inv_remove [OF assms, of i] mgr_map_remove [OF assms i]
        by (auto simp: spec_unmap_def b_def)
    qed
  qed
qed

lemma remove_mapping_at:
  assumes "mgr_inv mgr" and only: "\<And>off'. mapped_at mgr off' (guest_addr mp) \<Longrightarrow> off' = off"
    and "mgr_map mgr off = Some b" and "mb_mapping b = Some mp"
  obtains mgr' where "remove_mapping hm mgr (guest_addr mp) = Some (mgr', Inr (1 < num_mappings mp))"
    and "mgr_inv mgr'" and "mgr_map mgr' = spec_unmap off b mp (mgr_map mgr)"
    and "mapper mgr' = (if 1 < num_mappings mp then mapper mgr
                     else fst (hm_remove_mapping hm (mapper mgr) (guest_addr mp)))"
proof -
  have "mapped_at mgr off (guest_addr mp)" using assms by (simp add: mapped_at_def)
  then have ne: "find_mapped (guest_addr mp) 0 (buffers mgr) \<noteq> None"
    using mapped_at_iff [OF assms(1)] by blast
  from remove_mapping_refines [OF assms(1), of "guest_addr mp" hm] ne
  obtain off' b' mp' mgr' where r: "mgr_map mgr off' = Some b'" "mb_mapping b' = Some mp'"
      "guest_addr mp' = guest_addr mp"
      "remove_mapping hm mgr (guest_addr mp) = Some (mgr', Inr (1 < num_mappings mp'))" "mgr_inv mgr'"
      "mgr_map mgr' = spec_unmap off' b' mp' (mgr_map mgr)"
      "mapper mgr' = (if 1 < num_mappings mp' then mapper mgr
                     else fst (hm_remove_mapping hm (mapper mgr) (guest_addr mp)))"
    by blast
  from r(1-3) have "mapped_at mgr off' (guest_addr mp)" by (simp add: mapped_at_def)
  then have "off' = off" by (rule only)
  with r assms that show thesis by simp
qed

subsection \<open>Allocating an offset\<close>

lemma buffers_determined:
  assumes "mgr_inv m1" and "mgr_inv m2" and "mgr_map m1 = mgr_map m2"
  shows "buffers m1 = buffers m2"
proof -
  have sets: "set (buffers m1) = set (buffers m2)"
    using mgr_map_in [OF assms(1)] mgr_map_in [OF assms(2)] mgr_map_Some [of m1] mgr_map_Some [of m2]
      assms(3) by fastforce
  have inj: "inj_on mb_offset (set (buffers m1) \<union> set (buffers m2))"
    using mgr_map_in [OF assms(1)] sets by (auto intro!: inj_onI) (metis option.inject)
  have "map mb_offset (buffers m1) = map mb_offset (buffers m2)"
    by (rule strict_sorted_equal) (use assms(1,2) sets in \<open>auto simp: mgr_inv_def\<close>)
  then show ?thesis using inj by (rule map_inj_on)
qed

lemma last_offset_max:
  assumes "mgr_inv mgr" and "mgr_map mgr off = Some b" and "buffers mgr \<noteq> []"
  shows "off \<le> mb_offset (last (buffers mgr))"
proof -
  obtain i where i: "i < length (buffers mgr)" "buffers mgr ! i = b" "mb_offset b = off"
    using mgr_map_Some [OF assms(2)] by (auto simp: in_set_conv_nth)
  have "map mb_offset (buffers mgr) ! i \<le> map mb_offset (buffers mgr) ! (length (buffers mgr) - 1)"
    using assms(1) i(1)
    by (intro sorted_nth_mono) (auto simp: mgr_inv_def strict_sorted_iff)
  with i assms(3) show ?thesis by (simp add: last_conv_nth)
qed

lemma last_aligned:
  assumes "mgr_inv mgr" and "buffers mgr \<noteq> []"
  shows "unat (mb_offset (last (buffers mgr))) mod 4096 = 0"
  using assms by (auto simp: mgr_inv_def list_all_iff buffer_ok_def page_aligned_iff)

lemma next_offset_fresh:
  assumes "mgr_inv mgr" and "\<forall>b \<in> set (buffers mgr). mb_offset b \<noteq> 0xFFFFF000"
  obtains off where "next_offset chk (buffers mgr) = Some off" and "unat off mod 4096 = 0"
    and "mgr_map mgr off = None" and "\<forall>b \<in> set (buffers mgr). mb_offset b < off"
proof (cases "buffers mgr = []")
  case True
  show thesis by (rule that [of 0]) (simp_all add: True next_offset_def mgr_map_def)
next
  case False
  define x where "x = mb_offset (last (buffers mgr))"
  have al: "unat x mod 4096 = 0" unfolding x_def by (rule last_aligned [OF assms(1) False])
  have ne: "x \<noteq> 0xFFFFF000" using assms(2) False by (simp add: x_def)
  have n: "next_offset chk (buffers mgr) = Some (x + 0x1000)"
    using next_page(1) [OF al ne] False by (simp add: next_offset_def x_def)
  have u: "unat (x + 0x1000) = unat x + 4096" by (rule next_page(2) [OF al ne])
  then have "x < x + 0x1000" by (simp add: word_less_nat_alt)
  then have above: "\<forall>b \<in> set (buffers mgr). mb_offset b < x + 0x1000"
    using last_offset_max [OF assms(1) mgr_map_in [OF assms(1)] False]
    by (auto simp: x_def intro: le_less_trans)
  then have "mgr_map mgr (x + 0x1000) = None" by (auto simp: mgr_map_None)
  moreover have "unat (x + 0x1000) mod 4096 = 0" using u al by simp
  ultimately show thesis using n above by (intro that) auto
qed

lemma register_buffer_fresh:
  assumes "mgr_inv mgr" and "sz \<noteq> 0" and "\<forall>b \<in> set (buffers mgr). mb_offset b \<noteq> 0xFFFFF000"
  obtains mgr' off where "register_buffer chk mgr None sz = Some (mgr', Inr off)" and "mgr_inv mgr'"
    and "mgr_map mgr off = None" and "unat off mod 4096 = 0"
    and "mgr_map mgr' = (mgr_map mgr)(off \<mapsto> MmapBuffer_new off sz)" and "mapper mgr' = mapper mgr"
    and "\<forall>b \<in> set (buffers mgr). mb_offset b < off"
proof -
  obtain off where off: "next_offset chk (buffers mgr) = Some off" "unat off mod 4096 = 0"
      "mgr_map mgr off = None" "\<forall>b \<in> set (buffers mgr). mb_offset b < off"
    by (rule next_offset_fresh [OF assms(1,3)])
  obtain mgr' r where r: "register_buffer_by_offset mgr off sz = (mgr', r)" by (cases rule: prod.exhaust)
  note ref = register_by_offset_refines [OF assms(1) r]
  from ref(3) off assms(2) have "r = Inr ()" "mgr_map mgr' = (mgr_map mgr)(off \<mapsto> MmapBuffer_new off sz)"
    by (simp_all add: spec_register_def)
  with off r ref show thesis by (intro that [of mgr' off]) (auto simp: register_buffer_def)
qed

lemma register_buffer_Inr:
  assumes "mgr_inv mgr" and "register_buffer chk mgr offset sz = Some (mgr', Inr off)"
  shows "mgr_map mgr off = None" and "mgr_map mgr' = (mgr_map mgr)(off \<mapsto> MmapBuffer_new off sz)"
    and "mgr_inv mgr'" and "sz \<noteq> 0"
proof -
  define off1 where "off1 = (case offset of Some o1 \<Rightarrow> o1 | None \<Rightarrow> the (next_offset chk (buffers mgr)))"
  obtain mgr1 x where x: "register_buffer_by_offset mgr off1 sz = (mgr1, x)" by (cases rule: prod.exhaust)
  with assms(2) have eq: "mgr1 = mgr'" "map_sum id (\<lambda>_. off1) x = Inr off"
    unfolding register_buffer_def off1_def by (cases offset; auto elim!: bind_SomeE)+
  then have r: "register_buffer_by_offset mgr off sz = (mgr', Inr ())"
    using x by (cases x) simp_all
  note ref = register_by_offset_refines [OF assms(1) r]
  from ref(3) show "mgr_map mgr off = None" "sz \<noteq> 0"
      "mgr_map mgr' = (mgr_map mgr)(off \<mapsto> MmapBuffer_new off sz)"
    by (auto simp: spec_register_def split: if_splits)
  show "mgr_inv mgr'" by (rule ref(1))
qed

lemma register_buffer_inv [keeps]:
  "mgr_inv mgr \<Longrightarrow> register_buffer chk mgr off sz = Some (mgr', r) \<Longrightarrow> mgr_inv mgr'"
  by (auto simp: register_buffer_def bind_eq_Some_conv case_prod_unfold
      intro: register_by_offset_refines(1) [OF _ surjective_pairing])

lemma create_mapping_inv [keeps]:
  "mgr_inv mgr \<Longrightarrow> create_mapping chk hm mgr off f w = Some (mgr', r) \<Longrightarrow> mgr_inv mgr'"
  using create_mapping_refines [of mgr chk hm off f w] by fastforce

lemma remove_mapping_inv [keeps]:
  "mgr_inv mgr \<Longrightarrow> remove_mapping hm mgr addr = Some (mgr', r) \<Longrightarrow> mgr_inv mgr'"
  using remove_mapping_refines [of mgr addr hm] by fastforce

lemma unregister_buffer_inv [keeps]: "mgr_inv mgr \<Longrightarrow> mgr_inv (fst (unregister_buffer mgr off))"
  by (metis eq_fst_iff unregister_refines(1))

section \<open>The interface the devices rely on\<close>

text \<open>
  A device owns a set of offsets and ends their registration in a loop. What it relies on is a
  registry whose \<open>unreg\<close> touches one offset only and forgets the buffer there unless the guest
  still maps it.
\<close>

locale buffer_registry =
  fixes unreg :: "'g \<Rightarrow> u32 \<Rightarrow> 'g"
    and look :: "'g \<Rightarrow> u32 \<Rightarrow> MmapBuffer option"
    and invar :: "'g \<Rightarrow> bool"
  assumes unreg_invar: "invar g \<Longrightarrow> invar (unreg g off)"
    and unreg_other: "invar g \<Longrightarrow> off' \<noteq> off \<Longrightarrow> look (unreg g off) off' = look g off'"
    and unreg_unmapped: "invar g \<Longrightarrow> look g off = Some b \<Longrightarrow> mb_mapping b = None \<Longrightarrow>
      look (unreg g off) off = None"
    and unreg_mapped: "invar g \<Longrightarrow> look g off = Some b \<Longrightarrow> mb_mapping b \<noteq> None \<Longrightarrow>
      look (unreg g off) off = Some (b\<lparr>mb_registered := False\<rparr>)"
    and unreg_absent: "invar g \<Longrightarrow> look g off = None \<Longrightarrow> look (unreg g off) off = None"
begin

lemma all_invar: "invar g \<Longrightarrow> invar (foldl unreg g offs)"
  by (induction offs arbitrary: g) (simp_all add: unreg_invar)

lemma all_other: "invar g \<Longrightarrow> off \<notin> set offs \<Longrightarrow> look (foldl unreg g offs) off = look g off"
  by (induction offs arbitrary: g) (simp_all add: unreg_invar unreg_other)

text \<open>The state an entry ends in, from the state it had: unregistered if it is still mapped, else gone.\<close>

definition after :: "MmapBuffer option \<Rightarrow> MmapBuffer option" where
  "after e = (case e of None \<Rightarrow> None
     | Some b \<Rightarrow> if mb_mapping b = None then None else Some (b\<lparr>mb_registered := False\<rparr>))"

lemma unreg_after: "invar g \<Longrightarrow> look (unreg g off) off = after (look g off)"
  using unreg_absent unreg_mapped unreg_unmapped
  by (cases "look g off") (auto simp: after_def)

lemma after_idem [simp]: "after (after e) = after e"
  by (auto simp: after_def split: option.splits)

lemma all_after: "invar g \<Longrightarrow> off \<in> set offs \<Longrightarrow> look (foldl unreg g offs) off = after (look g off)"
proof (induction offs arbitrary: g)
  case (Cons o1 offs)
  note inv = unreg_invar [OF Cons.prems(1), of o1]
  show ?case
  proof (cases "off \<in> set offs")
    case True
    have "look (unreg g o1) off = look g off \<or> look (unreg g o1) off = after (look g off)"
      using Cons.prems(1) unreg_after unreg_other by metis
    with Cons.IH [OF inv True] show ?thesis by auto
  next
    case False
    with Cons.prems(2) have "off = o1" by simp
    with False all_other [OF inv] unreg_after [OF Cons.prems(1)] show ?thesis by simp
  qed
qed simp

lemma all_unregistered:
  "invar g \<Longrightarrow> off \<in> set offs \<Longrightarrow> look (foldl unreg g offs) off = Some b \<Longrightarrow>
   \<not> mb_registered b \<and> mb_mapping b \<noteq> None"
  by (drule (1) all_after) (auto simp: after_def split: option.splits if_splits)

end

interpretation mgr: buffer_registry "\<lambda>m off. fst (unregister_buffer m off)" mgr_map mgr_inv
proof
  fix g :: "'a MmapMappingManager" and off off' b
  assume inv: "mgr_inv g"
  obtain g' r where u: "unregister_buffer g off = (g', r)" by (cases rule: prod.exhaust)
  note ref = unregister_refines [OF inv u]
  have new: "mgr_map (fst (unregister_buffer g off)) = fst (spec_unregister off (mgr_map g))"
    using ref(3) u by simp
  show "mgr_inv (fst (unregister_buffer g off))" using ref(1) u by simp
  show "mgr_map (fst (unregister_buffer g off)) off' = mgr_map g off'" if "off' \<noteq> off"
    unfolding new using that by (simp add: spec_unregister_def split: option.splits)
  show "mgr_map (fst (unregister_buffer g off)) off = None"
    if "mgr_map g off = Some b" "mb_mapping b = None"
    unfolding new using that by (simp add: spec_unregister_def)
  show "mgr_map (fst (unregister_buffer g off)) off = Some (b\<lparr>mb_registered := False\<rparr>)"
    if "mgr_map g off = Some b" "mb_mapping b \<noteq> None"
    unfolding new using that by (simp add: spec_unregister_def)
  show "mgr_map (fst (unregister_buffer g off)) off = None" if "mgr_map g off = None"
    unfolding new using that by (simp add: spec_unregister_def)
qed

text \<open>The loop of the devices that ends the registration of a list of offsets.\<close>

definition unregister_all :: "'m MmapMappingManager \<Rightarrow> u32 list \<Rightarrow> 'm MmapMappingManager" where
  "unregister_all mgr offs = foldl (\<lambda>m off. fst (unregister_buffer m off)) mgr offs"

lemma unregister_all_inv [keeps]: "mgr_inv mgr \<Longrightarrow> mgr_inv (unregister_all mgr offs)"
  unfolding unregister_all_def by (rule mgr.all_invar)

text \<open>Without overflow checks an allocation returns.\<close>

lemma register_buffer_unchecked: "register_buffer False mgr off sz \<noteq> None"
  by (auto simp: register_buffer_def next_offset_def next_multiple_of_def Let_def split: option.splits prod.splits)

section \<open>Repeated mappings\<close>

fun create_n ::
  "bool \<Rightarrow> 'm VirtioMediaHostMemoryMapper \<Rightarrow> 'm MmapMappingManager \<Rightarrow> u32 \<Rightarrow> fd \<Rightarrow> bool \<Rightarrow> nat \<Rightarrow>
   ('m MmapMappingManager \<times> (CreateMappingError + (u64 \<times> u64)) list) option"
where
  "create_n chk hm mgr off f w 0 = Some (mgr, [])"
| "create_n chk hm mgr off f w (Suc k) = do {
     (mgr1, r) \<leftarrow> create_mapping chk hm mgr off f w;
     (mgr2, rs) \<leftarrow> create_n chk hm mgr1 off f w k;
     Some (mgr2, r # rs)
   }"

fun remove_n ::
  "'m VirtioMediaHostMemoryMapper \<Rightarrow> 'm MmapMappingManager \<Rightarrow> u64 \<Rightarrow> nat \<Rightarrow>
   ('m MmapMappingManager \<times> (RemoveMappingError + bool) list) option"
where
  "remove_n hm mgr addr 0 = Some (mgr, [])"
| "remove_n hm mgr addr (Suc k) = do {
     (mgr1, r) \<leftarrow> remove_mapping hm mgr addr;
     (mgr2, rs) \<leftarrow> remove_n hm mgr1 addr k;
     Some (mgr2, r # rs)
   }"

lemma create_again:
  assumes "mgr_inv mgr" and "mgr_map mgr off = Some b" and "mb_mapping b = Some mp"
    and "mb_registered b" and "unat off + unat (mb_size b) \<le> 2 ^ 32"
  shows "\<exists>mgr'. create_n chk hm mgr off f (rw mp) k =
      Some (mgr', replicate k (Inr (guest_addr mp, ucast (mb_size b)))) \<and> mgr_inv mgr' \<and>
    mapper mgr' = mapper mgr \<and>
    mgr_map mgr' = (mgr_map mgr)(off \<mapsto> b\<lparr>mb_mapping := Some (mp\<lparr>num_mappings := num_mappings mp + k\<rparr>)\<rparr>)"
  using assms
proof (induction k arbitrary: mgr b mp)
  case 0
  then show ?case by (simp add: fun_upd_idem)
next
  case (Suc k)
  obtain mgr1 r where c: "create_mapping chk hm mgr off f (rw mp) = Some (mgr1, r)" "mgr_inv mgr1"
      "spec_create hm off f (rw mp) (mgr_map mgr) (mapper mgr) = (mgr_map mgr1, mapper mgr1, r)"
    using create_mapping_refines [OF Suc.prems(1)] by blast
  let ?mp = "mp\<lparr>num_mappings := num_mappings mp + 1\<rparr>"
  let ?b = "b\<lparr>mb_mapping := Some ?mp\<rparr>"
  from c(3) Suc.prems have r: "r = Inr (guest_addr mp, ucast (mb_size b))"
      "mgr_map mgr1 = (mgr_map mgr)(off \<mapsto> ?b)" "mapper mgr1 = mapper mgr"
    by (simp_all add: spec_create_def)
  have "\<exists>mgr2. create_n chk hm mgr1 off f (rw ?mp) k =
        Some (mgr2, replicate k (Inr (guest_addr ?mp, ucast (mb_size ?b)))) \<and> mgr_inv mgr2 \<and>
      mapper mgr2 = mapper mgr1 \<and>
      mgr_map mgr2 = (mgr_map mgr1)(off \<mapsto> ?b\<lparr>mb_mapping := Some (?mp\<lparr>num_mappings := num_mappings ?mp + k\<rparr>)\<rparr>)"
    by (rule Suc.IH [OF c(2)]) (use r(2) Suc.prems in simp_all)
  then obtain mgr2 where "create_n chk hm mgr1 off f (rw mp) k =
        Some (mgr2, replicate k (Inr (guest_addr mp, ucast (mb_size b))))" "mgr_inv mgr2"
      "mapper mgr2 = mapper mgr"
      "mgr_map mgr2 = (mgr_map mgr)(off \<mapsto> b\<lparr>mb_mapping := Some (mp\<lparr>num_mappings := num_mappings mp + Suc k\<rparr>)\<rparr>)"
    unfolding r(2,3) by (simp only: fun_upd_upd) (simp, blast)
  with c(1) r(1) show ?case by (intro exI [of _ mgr2]) simp
qed

lemma remove_until_last:
  assumes "mgr_inv mgr" and "mgr_map mgr off = Some b" and "mb_mapping b = Some mp"
    and "num_mappings mp = Suc k" and only: "\<And>off'. mapped_at mgr off' (guest_addr mp) \<Longrightarrow> off' = off"
  shows "\<exists>mgr'. remove_n hm mgr (guest_addr mp) (Suc k) =
      Some (mgr', replicate k (Inr True) @ [Inr False]) \<and> mgr_inv mgr' \<and>
    mapper mgr' = fst (hm_remove_mapping hm (mapper mgr) (guest_addr mp)) \<and>
    mgr_map mgr' = (if mb_registered b then (mgr_map mgr)(off \<mapsto> b\<lparr>mb_mapping := None\<rparr>)
                    else (mgr_map mgr)(off := None))"
  using assms
proof (induction k arbitrary: mgr b mp)
  case 0
  obtain mgr' where "remove_mapping hm mgr (guest_addr mp) = Some (mgr', Inr (1 < num_mappings mp))"
      "mgr_inv mgr'" "mgr_map mgr' = spec_unmap off b mp (mgr_map mgr)"
      "mapper mgr' = (if 1 < num_mappings mp then mapper mgr
                     else fst (hm_remove_mapping hm (mapper mgr) (guest_addr mp)))"
    by (rule remove_mapping_at [OF "0.prems"(1,5,2,3)])
  with "0.prems" show ?case by (simp add: spec_unmap_def)
next
  case (Suc k)
  let ?mp = "mp\<lparr>num_mappings := Suc k\<rparr>"
  let ?b = "b\<lparr>mb_mapping := Some ?mp\<rparr>"
  obtain mgr1 where r: "remove_mapping hm mgr (guest_addr mp) = Some (mgr1, Inr (1 < num_mappings mp))"
      "mgr_inv mgr1" "mgr_map mgr1 = spec_unmap off b mp (mgr_map mgr)"
      "mapper mgr1 = (if 1 < num_mappings mp then mapper mgr
                     else fst (hm_remove_mapping hm (mapper mgr) (guest_addr mp)))"
    by (rule remove_mapping_at [OF Suc.prems(1,5,2,3)])
  from r Suc.prems(4) have m1: "mgr_map mgr1 = (mgr_map mgr)(off \<mapsto> ?b)" "mapper mgr1 = mapper mgr"
    by (simp_all add: spec_unmap_def)
  have only1: "off' = off" if "mapped_at mgr1 off' (guest_addr ?mp)" for off'
    using that Suc.prems(5) [of off'] by (auto simp: mapped_at_def m1 split: if_splits)
  have "\<exists>mgr2. remove_n hm mgr1 (guest_addr ?mp) (Suc k) =
        Some (mgr2, replicate k (Inr True) @ [Inr False]) \<and> mgr_inv mgr2 \<and>
      mapper mgr2 = fst (hm_remove_mapping hm (mapper mgr1) (guest_addr ?mp)) \<and>
      mgr_map mgr2 = (if mb_registered ?b then (mgr_map mgr1)(off \<mapsto> ?b\<lparr>mb_mapping := None\<rparr>)
                    else (mgr_map mgr1)(off := None))"
    by (rule Suc.IH [OF r(2)]) (use m1 only1 in simp_all)
  then obtain mgr2 where "remove_n hm mgr1 (guest_addr mp) (Suc k) =
        Some (mgr2, replicate k (Inr True) @ [Inr False])" "mgr_inv mgr2"
      "mapper mgr2 = fst (hm_remove_mapping hm (mapper mgr) (guest_addr mp))"
      "mgr_map mgr2 = (if mb_registered b then (mgr_map mgr)(off \<mapsto> b\<lparr>mb_mapping := None\<rparr>)
                    else (mgr_map mgr)(off := None))"
    unfolding m1 by (simp only: fun_upd_upd) auto
  with r(1) Suc.prems(4) show ?case
    by (intro exI [of _ mgr2]) (simp del: remove_n.simps add: remove_n.simps(2) [of _ _ _ "Suc k"])
qed

section \<open>Reachable managers\<close>

text \<open>
  The managers a device can reach from a fresh one: every operation of the manager, with any
  arguments and any mapper, including the calls that fail.
\<close>

inductive mgr_step ::
  "bool \<Rightarrow> 'm VirtioMediaHostMemoryMapper \<Rightarrow> 'm MmapMappingManager \<Rightarrow> 'm MmapMappingManager \<Rightarrow> bool"
  for chk hm
where
  step_register: "register_buffer chk mgr offset sz = Some (mgr', r) \<Longrightarrow> mgr_step chk hm mgr mgr'"
| step_unregister: "unregister_buffer mgr off = (mgr', r) \<Longrightarrow> mgr_step chk hm mgr mgr'"
| step_create: "create_mapping chk hm mgr off f w = Some (mgr', r) \<Longrightarrow> mgr_step chk hm mgr mgr'"
| step_remove: "remove_mapping hm mgr addr = Some (mgr', r) \<Longrightarrow> mgr_step chk hm mgr mgr'"

inductive mgr_reachable ::
  "bool \<Rightarrow> 'm VirtioMediaHostMemoryMapper \<Rightarrow> 'm \<Rightarrow> 'm MmapMappingManager \<Rightarrow> bool"
  for chk hm m
where
  fresh: "mgr_reachable chk hm m (MmapMappingManager_from m)"
| more: "mgr_reachable chk hm m mgr \<Longrightarrow> mgr_step chk hm mgr mgr' \<Longrightarrow> mgr_reachable chk hm m mgr'"

lemma mgr_step_inv [keeps]: "mgr_step chk hm mgr mgr' \<Longrightarrow> mgr_inv mgr \<Longrightarrow> mgr_inv mgr'"
  by (induction rule: mgr_step.induct)
    (auto intro: register_buffer_inv create_mapping_inv remove_mapping_inv unregister_refines(1))

lemma mgr_reachable_inv: "mgr_reachable chk hm m mgr \<Longrightarrow> mgr_inv mgr"
  by (induction rule: mgr_reachable.induct) (auto intro: mgr_step_inv)

text \<open>
  The mapper of the unit tests: it maps every buffer at its offset with bit 31 set. It shows
  below that the hypotheses on mappers and managers can hold.
\<close>

definition DummyHostMemoryMapper :: "unit VirtioMediaHostMemoryMapper" where
  "DummyHostMemoryMapper =
     \<lparr>hm_add_mapping = (\<lambda>m _ _ offset _. (m, Inr (offset OR 0x80000000))),
      hm_remove_mapping = (\<lambda>m _. (m, Inr ()))\<rparr>"

text \<open>A manager with a mapped buffer, a buffer that is mapped but no longer registered, and a free one.\<close>

definition example_mgr :: "unit MmapMappingManager" where
  "example_mgr =
     \<lparr>buffers =
        [\<lparr>mb_offset = 0, mb_size = 0x1000, mb_registered = True,
          mb_mapping = Some \<lparr>num_mappings = 2, guest_addr = 0x80000000, rw = True\<rparr>\<rparr>,
         \<lparr>mb_offset = 0x1000, mb_size = 0x5000, mb_registered = False,
          mb_mapping = Some \<lparr>num_mappings = 1, guest_addr = 0x80001000, rw = False\<rparr>\<rparr>,
         MmapBuffer_new 0x6000 0x2000],
      mapper = ()\<rparr>"

lemma example_mgr_inv: "mgr_inv example_mgr"
  by (simp add: mgr_inv_def example_mgr_def buffer_ok_def MmapBuffer_new_def PAGE_MASK_def PAGE_SIZE_def)

section \<open>Properties\<close>

text \<open>
  C17. Safety of the MMAP manager: in every state that any sequence of its operations can reach,
  the buffers are sorted by strictly increasing, page-aligned offsets, none is empty, a buffer
  whose registration ended is still mapped, every mapping has a positive count, and neither
  \<open>create_mapping\<close> nor \<open>remove_mapping\<close> panics, in either build profile.
\<close>

theorem mmap_reachable_safe:
  assumes "mgr_reachable chk hm m mgr"
  shows "mgr_inv mgr \<and> create_mapping chk hm mgr off f w \<noteq> None \<and> remove_mapping hm mgr addr \<noteq> None"
proof -
  have inv: "mgr_inv mgr" by (rule mgr_reachable_inv [OF assms])
  moreover from create_mapping_refines [OF inv, of chk hm off f w]
  have "create_mapping chk hm mgr off f w \<noteq> None" by auto
  moreover from remove_mapping_refines [OF inv, of addr hm]
  have "remove_mapping hm mgr addr \<noteq> None" by auto
  ultimately show ?thesis by simp
qed

theorem mmap_reachable_safe_witness:
  "mgr_inv (MmapMappingManager_from ()) \<and>
   create_mapping True DummyHostMemoryMapper (MmapMappingManager_from ()) 0x1000 3 True \<noteq> None \<and>
   remove_mapping DummyHostMemoryMapper (MmapMappingManager_from ()) 0x80001000 \<noteq> None"
  by (rule mmap_reachable_safe [OF fresh])

text \<open>
  \<open>register_buffer_by_offset\<close> implements its specification on the map from offsets to
  buffers: an empty buffer, an unaligned offset and an occupied offset are refused in this order
  and change nothing; otherwise exactly the entry at the offset is added, registered and unmapped.
\<close>

theorem mmap_register_refines:
  assumes "mgr_inv mgr"
  shows "(case register_buffer_by_offset mgr off sz of (mgr', r) \<Rightarrow>
    mgr_inv mgr' \<and> mapper mgr' = mapper mgr \<and> spec_register off sz (mgr_map mgr) = (mgr_map mgr', r))"
  using register_by_offset_refines [OF assms surjective_pairing] by (simp add: case_prod_unfold)

theorem mmap_register_refines_witness:
  "(case register_buffer_by_offset example_mgr 0x8000 0x1000 of (mgr', r) \<Rightarrow>
    mgr_inv mgr' \<and> mapper mgr' = mapper example_mgr \<and>
    spec_register 0x8000 0x1000 (mgr_map example_mgr) = (mgr_map mgr', r))"
  by (rule mmap_register_refines [OF example_mgr_inv])

text \<open>
  \<open>unregister_buffer\<close> implements its specification: it reports whether the offset holds a
  buffer, drops the buffer if the guest does not map it, and otherwise keeps the entry with its
  mapping, marked as unregistered. It changes no other entry.
\<close>

theorem mmap_unregister_refines:
  assumes "mgr_inv mgr"
  shows "(case unregister_buffer mgr off of (mgr', r) \<Rightarrow>
    mgr_inv mgr' \<and> mapper mgr' = mapper mgr \<and> spec_unregister off (mgr_map mgr) = (mgr_map mgr', r))"
  using unregister_refines [OF assms surjective_pairing] by (simp add: case_prod_unfold)

theorem mmap_unregister_refines_witness:
  "(case unregister_buffer example_mgr 0x6000 of (mgr', r) \<Rightarrow>
    mgr_inv mgr' \<and> mapper mgr' = mapper example_mgr \<and>
    spec_unregister 0x6000 (mgr_map example_mgr) = (mgr_map mgr', r))"
  by (rule mmap_unregister_refines [OF example_mgr_inv])

text \<open>
  C23. \<open>create_mapping\<close> always returns and implements its specification: an unknown offset and a
  buffer that does not end within 32 bits give \<open>InvalidOffset\<close>, an unregistered buffer
  \<open>UnregisteredBuffer\<close>; the first mapping calls the mapper once and records its address and
  permission, a later one with the same permission returns the recorded address and only counts,
  one with the other permission is refused. \<open>SizeOutOfBounds\<close> is never returned.
\<close>

theorem mmap_create_refines:
  assumes "mgr_inv mgr"
  shows "\<exists>mgr' r. create_mapping chk hm mgr off f w = Some (mgr', r) \<and> mgr_inv mgr' \<and>
    spec_create hm off f w (mgr_map mgr) (mapper mgr) = (mgr_map mgr', mapper mgr', r) \<and>
    r \<noteq> Inl SizeOutOfBounds"
proof -
  from create_mapping_refines [OF assms, of chk hm off f w] obtain mgr' r where
    r: "create_mapping chk hm mgr off f w = Some (mgr', r)" "mgr_inv mgr'"
      "spec_create hm off f w (mgr_map mgr) (mapper mgr) = (mgr_map mgr', mapper mgr', r)"
    by blast
  from r(3) have "r \<noteq> Inl SizeOutOfBounds"
    by (auto simp: spec_create_def split: option.splits if_splits prod.splits sum.splits)
  with r show ?thesis by blast
qed

theorem mmap_create_refines_witness:
  "\<exists>mgr' r. create_mapping True DummyHostMemoryMapper example_mgr 0x6000 3 True = Some (mgr', r) \<and>
    mgr_inv mgr' \<and>
    spec_create DummyHostMemoryMapper 0x6000 3 True (mgr_map example_mgr) (mapper example_mgr) =
      (mgr_map mgr', mapper mgr', r) \<and>
    r \<noteq> Inl SizeOutOfBounds"
  by (rule mmap_create_refines [OF example_mgr_inv])

text \<open>
  C24. \<open>remove_mapping\<close> always returns. An address at which no buffer is mapped is refused
  without any change. Otherwise one buffer mapped there loses one reference; the answer says
  whether references are left. With the last one the mapper is asked to remove the mapping and an
  unregistered buffer disappears, and only then.
\<close>

theorem mmap_remove_refines:
  assumes "mgr_inv mgr"
  shows "if \<exists>off. mapped_at mgr off addr then
      \<exists>off b mp mgr'. mgr_map mgr off = Some b \<and> mb_mapping b = Some mp \<and> guest_addr mp = addr \<and>
        remove_mapping hm mgr addr = Some (mgr', Inr (1 < num_mappings mp)) \<and> mgr_inv mgr' \<and>
        mgr_map mgr' = spec_unmap off b mp (mgr_map mgr) \<and>
        mapper mgr' = (if 1 < num_mappings mp then mapper mgr
                       else fst (hm_remove_mapping hm (mapper mgr) addr))
    else remove_mapping hm mgr addr = Some (mgr, Inl RemoveInvalidOffset)"
proof (cases "\<exists>off. mapped_at mgr off addr")
  case True
  then have "find_mapped addr 0 (buffers mgr) \<noteq> None" using mapped_at_iff [OF assms, of addr] by blast
  with remove_mapping_refines [OF assms, of addr hm] show ?thesis unfolding if_P [OF True] by blast
next
  case False
  then have "find_mapped addr 0 (buffers mgr) = None" using mapped_at_iff [OF assms, of addr] by blast
  then show ?thesis unfolding if_not_P [OF False] by (simp add: remove_mapping_def)
qed

theorem mmap_remove_refines_witness:
  "if \<exists>off. mapped_at example_mgr off 0x80001000 then
      \<exists>off b mp mgr'. mgr_map example_mgr off = Some b \<and> mb_mapping b = Some mp \<and>
        guest_addr mp = 0x80001000 \<and>
        remove_mapping DummyHostMemoryMapper example_mgr 0x80001000 =
          Some (mgr', Inr (1 < num_mappings mp)) \<and> mgr_inv mgr' \<and>
        mgr_map mgr' = spec_unmap off b mp (mgr_map example_mgr) \<and>
        mapper mgr' = (if 1 < num_mappings mp then mapper example_mgr
                       else fst (hm_remove_mapping DummyHostMemoryMapper (mapper example_mgr) 0x80001000))
    else remove_mapping DummyHostMemoryMapper example_mgr 0x80001000 =
      Some (example_mgr, Inl RemoveInvalidOffset)"
  by (rule mmap_remove_refines [OF example_mgr_inv])

text \<open>
  Allocation: unless a buffer already starts at the last page of the 32-bit range, registering
  a nonempty buffer without naming an offset succeeds in both build profiles, at a page-aligned
  offset that no buffer has and that is above the offsets of all buffers; nothing else changes.
\<close>

theorem mmap_allocate_fresh:
  assumes "mgr_inv mgr" and "sz \<noteq> 0" and "\<forall>b \<in> set (buffers mgr). mb_offset b \<noteq> 0xFFFFF000"
  shows "\<exists>mgr' off. register_buffer chk mgr None sz = Some (mgr', Inr off) \<and> mgr_inv mgr' \<and>
    mgr_map mgr off = None \<and> unat off mod 4096 = 0 \<and> (\<forall>b \<in> set (buffers mgr). mb_offset b < off) \<and>
    mgr_map mgr' = (mgr_map mgr)(off \<mapsto> MmapBuffer_new off sz) \<and> mapper mgr' = mapper mgr"
  by (rule register_buffer_fresh [OF assms, where chk = chk]) (intro exI conjI; assumption)

theorem mmap_allocate_fresh_witness:
  "\<exists>mgr' off. register_buffer True example_mgr None 0x100 = Some (mgr', Inr off) \<and> mgr_inv mgr' \<and>
    mgr_map example_mgr off = None \<and> unat off mod 4096 = 0 \<and>
    (\<forall>b \<in> set (buffers example_mgr). mb_offset b < off) \<and>
    mgr_map mgr' = (mgr_map example_mgr)(off \<mapsto> MmapBuffer_new off 0x100) \<and>
    mapper mgr' = mapper example_mgr"
  by (rule mmap_allocate_fresh [OF example_mgr_inv]) (simp_all add: example_mgr_def MmapBuffer_new_def)

text \<open>
  C25. Exhaustion: once a buffer starts at the last page of the range, registering a buffer without
  an offset panics in a build with overflow checks. Without them the next offset wraps around to
  0, and the call fails with \<open>OffsetOccupied\<close> or, if no buffer starts at 0, places the buffer
  there. \<open>NoFreeSpace\<close> is never returned.
\<close>

theorem mmap_allocate_exhausted:
  assumes "mgr_inv mgr" and "mgr_map mgr 0xFFFFF000 \<noteq> None" and "sz \<noteq> 0"
  shows "register_buffer True mgr None sz = None \<and>
    (\<exists>mgr' r. register_buffer False mgr None sz = Some (mgr', r) \<and> mgr_inv mgr' \<and>
      (if mgr_map mgr 0 = None then r = Inr 0 \<and> mgr_map mgr' = (mgr_map mgr)(0 \<mapsto> MmapBuffer_new 0 sz)
       else r = Inl OffsetOccupied \<and> mgr_map mgr' = mgr_map mgr))"
proof -
  from assms(2) obtain b where b: "mgr_map mgr 0xFFFFF000 = Some b" by blast
  then have ne: "buffers mgr \<noteq> []" by (auto simp: mgr_map_def)
  let ?x = "mb_offset (last (buffers mgr))"
  have "0xFFFFF000 \<le> ?x" by (rule last_offset_max [OF assms(1) b ne])
  with aligned_bound [OF last_aligned [OF assms(1) ne]] have "?x = 0xFFFFF000"
    by (simp add: word_le_nat_alt word_unat_eq_iff)
  then have n: "next_offset chk (buffers mgr) = (if chk then None else Some 0)" for chk
    using next_page_last [of chk] ne by (simp add: next_offset_def)
  obtain mgr' r where r: "register_buffer_by_offset mgr 0 sz = (mgr', r)" by (cases rule: prod.exhaust)
  note ref = register_by_offset_refines [OF assms(1) r]
  have "register_buffer True mgr None sz = None"
    by (simp add: register_buffer_def n)
  moreover have "register_buffer False mgr None sz = Some (mgr', map_sum id (\<lambda>_. 0) r)"
    by (simp add: register_buffer_def n r)
  moreover have "if mgr_map mgr 0 = None
      then r = Inr () \<and> mgr_map mgr' = (mgr_map mgr)(0 \<mapsto> MmapBuffer_new 0 sz)
      else r = Inl OffsetOccupied \<and> mgr_map mgr' = mgr_map mgr"
    using ref(3) assms(3) by (auto simp: spec_register_def split: if_splits)
  ultimately show ?thesis using ref(1) by auto
qed

definition full_mgr :: "unit MmapMappingManager" where
  "full_mgr = \<lparr>buffers = [MmapBuffer_new 0xFFFFF000 0x1000], mapper = ()\<rparr>"

theorem mmap_allocate_exhausted_witness:
  "register_buffer True full_mgr None 0x1000 = None \<and>
    (\<exists>mgr' r. register_buffer False full_mgr None 0x1000 = Some (mgr', r) \<and> mgr_inv mgr' \<and>
      (if mgr_map full_mgr 0 = None
       then r = Inr 0 \<and> mgr_map mgr' = (mgr_map full_mgr)(0 \<mapsto> MmapBuffer_new 0 0x1000)
       else r = Inl OffsetOccupied \<and> mgr_map mgr' = mgr_map full_mgr))"
  by (rule mmap_allocate_exhausted)
    (simp_all add: full_mgr_def MmapBuffer_new_def mgr_inv_def buffer_ok_def mgr_map_def PAGE_MASK_def
      PAGE_SIZE_def)

text \<open>
  C12. Reference counting: mapping a registered buffer \<open>k + 1\<close> times gives the same address and
  the size of the buffer each time, with one call of the mapper; unmapping it as often answers
  \<open>k\<close> times that references are left and then that none is, calls the mapper once, and leaves
  the vector of buffers as it was. The address the mapper chose must not be one it has already
  given out.
\<close>

theorem mmap_refcount_roundtrip:
  assumes "mgr_inv mgr" and "mgr_map mgr off = Some b" and "mb_registered b" and "mb_mapping b = None"
    and "unat off + unat (mb_size b) \<le> 2 ^ 32"
    and "hm_add_mapping hm (mapper mgr) f (ucast (mb_size b)) (ucast off) w = (m', Inr addr)"
    and "\<forall>off'. \<not> mapped_at mgr off' addr"
  shows "\<exists>mgr1 mgr2.
    create_n chk hm mgr off f w (Suc k) = Some (mgr1, replicate (Suc k) (Inr (addr, ucast (mb_size b)))) \<and>
    mapper mgr1 = m' \<and>
    remove_n hm mgr1 addr (Suc k) = Some (mgr2, replicate k (Inr True) @ [Inr False]) \<and>
    mapper mgr2 = fst (hm_remove_mapping hm m' addr) \<and> buffers mgr2 = buffers mgr"
proof -
  let ?mp = "\<lparr>num_mappings = 1, guest_addr = addr, rw = w\<rparr>"
  obtain mgr0 r where c: "create_mapping chk hm mgr off f w = Some (mgr0, r)" "mgr_inv mgr0"
      "spec_create hm off f w (mgr_map mgr) (mapper mgr) = (mgr_map mgr0, mapper mgr0, r)"
    using create_mapping_refines [OF assms(1)] by blast
  with assms have r: "r = Inr (addr, ucast (mb_size b))"
      "mgr_map mgr0 = (mgr_map mgr)(off \<mapsto> b\<lparr>mb_mapping := Some ?mp\<rparr>)" "mapper mgr0 = m'"
    by (simp_all add: spec_create_def)
  have "\<exists>mgr1. create_n chk hm mgr0 off f (rw ?mp) k =
        Some (mgr1, replicate k (Inr (guest_addr ?mp, ucast (mb_size (b\<lparr>mb_mapping := Some ?mp\<rparr>))))) \<and>
      mgr_inv mgr1 \<and> mapper mgr1 = mapper mgr0 \<and>
      mgr_map mgr1 = (mgr_map mgr0)(off \<mapsto> (b\<lparr>mb_mapping := Some ?mp\<rparr>)
        \<lparr>mb_mapping := Some (?mp\<lparr>num_mappings := num_mappings ?mp + k\<rparr>)\<rparr>)"
    by (rule create_again [OF c(2)]) (use assms r in simp_all)
  then obtain mgr1 where m1: "create_n chk hm mgr0 off f w k =
        Some (mgr1, replicate k (Inr (addr, ucast (mb_size b))))" "mgr_inv mgr1" "mapper mgr1 = m'"
      "mgr_map mgr1 = (mgr_map mgr)(off \<mapsto> b\<lparr>mb_mapping := Some (?mp\<lparr>num_mappings := Suc k\<rparr>)\<rparr>)"
    unfolding r(2,3) by (simp only: fun_upd_upd) (simp, blast)
  let ?b1 = "b\<lparr>mb_mapping := Some (?mp\<lparr>num_mappings := Suc k\<rparr>)\<rparr>"
  have "\<exists>mgr2. remove_n hm mgr1 (guest_addr (?mp\<lparr>num_mappings := Suc k\<rparr>)) (Suc k) =
        Some (mgr2, replicate k (Inr True) @ [Inr False]) \<and> mgr_inv mgr2 \<and>
      mapper mgr2 = fst (hm_remove_mapping hm (mapper mgr1) (guest_addr (?mp\<lparr>num_mappings := Suc k\<rparr>))) \<and>
      mgr_map mgr2 = (if mb_registered ?b1 then (mgr_map mgr1)(off \<mapsto> ?b1\<lparr>mb_mapping := None\<rparr>)
                      else (mgr_map mgr1)(off := None))"
    by (rule remove_until_last [OF m1(2)])
      (use m1 assms(7) in \<open>auto simp: mapped_at_def split: if_splits\<close>)
  moreover have "b\<lparr>mb_mapping := None\<rparr> = b" using assms(4) by simp
  ultimately obtain mgr2 where m2: "remove_n hm mgr1 addr (Suc k) =
        Some (mgr2, replicate k (Inr True) @ [Inr False])" "mgr_inv mgr2"
      "mapper mgr2 = fst (hm_remove_mapping hm m' addr)" "mgr_map mgr2 = mgr_map mgr"
    unfolding m1(3,4) using assms(2,3) by (auto simp: fun_upd_idem)
  have "buffers mgr2 = buffers mgr" by (rule buffers_determined [OF m2(2) assms(1) m2(4)])
  with c r m1 m2 show ?thesis by (intro exI [of _ mgr1] exI [of _ mgr2]) simp
qed

theorem mmap_refcount_roundtrip_witness:
  "\<exists>mgr1 mgr2.
    create_n True DummyHostMemoryMapper example_mgr 0x6000 3 True (Suc 4) =
      Some (mgr1, replicate (Suc 4) (Inr (0x80006000, ucast (mb_size (MmapBuffer_new 0x6000 0x2000))))) \<and>
    mapper mgr1 = () \<and>
    remove_n DummyHostMemoryMapper mgr1 0x80006000 (Suc 4) =
      Some (mgr2, replicate 4 (Inr True) @ [Inr False]) \<and>
    mapper mgr2 = fst (hm_remove_mapping DummyHostMemoryMapper () 0x80006000) \<and>
    buffers mgr2 = buffers example_mgr"
  by (rule mmap_refcount_roundtrip [OF example_mgr_inv])
    (simp_all add: example_mgr_def MmapBuffer_new_def mgr_map_def DummyHostMemoryMapper_def mapped_at_def)

text \<open>
  C22. Deferred release: when the registration of a buffer ends while the guest maps it
  \<open>k + 1\<close> times, the offset stays occupied and cannot be mapped again, the guest can still
  unmap it \<open>k + 1\<close> times, and after the last unmapping the entry is gone and the offset can be
  registered again.
\<close>

theorem mmap_deferred_release:
  assumes "mgr_inv mgr" and "mgr_map mgr off = Some b" and "mb_mapping b = Some mp"
    and "num_mappings mp = Suc k" and "unat off + unat (mb_size b) \<le> 2 ^ 32"
    and "\<forall>off'. mapped_at mgr off' (guest_addr mp) \<longrightarrow> off' = off" and "sz \<noteq> 0"
  shows "\<exists>mgr1 mgr2. unregister_buffer mgr off = (mgr1, True) \<and>
    create_mapping chk hm mgr1 off f w = Some (mgr1, Inl UnregisteredBuffer) \<and>
    register_buffer_by_offset mgr1 off sz = (mgr1, Inl OffsetOccupied) \<and>
    remove_n hm mgr1 (guest_addr mp) (Suc k) = Some (mgr2, replicate k (Inr True) @ [Inr False]) \<and>
    mgr_map mgr2 = (mgr_map mgr)(off := None) \<and>
    snd (register_buffer_by_offset mgr2 off sz) = Inr ()"
proof -
  let ?b = "b\<lparr>mb_registered := False\<rparr>"
  obtain mgr1 r where u: "unregister_buffer mgr off = (mgr1, r)" by (cases rule: prod.exhaust)
  note ref = unregister_refines [OF assms(1) u]
  from ref(3) assms(2,3) have m1: "r = True" "mgr_map mgr1 = (mgr_map mgr)(off \<mapsto> ?b)"
    by (simp_all add: spec_unregister_def)
  then have b1: "mgr_map mgr1 off = Some ?b" by simp
  from mgr_inv_buffer_ok [OF assms(1,2)] mgr_map_Some [OF assms(2)]
  have al: "off AND PAGE_MASK = off" by (auto simp: buffer_ok_def)
  obtain i where i: "binary_search_by_key off mb_offset (buffers mgr1) = Inr i" "buffers mgr1 ! i = ?b"
    by (rule search_found [OF ref(1) b1])
  have cr: "create_mapping chk hm mgr1 off f w = Some (mgr1, Inl UnregisteredBuffer)"
    using create_mapping_unfold [OF ref(1) b1 i] assms(5) by simp
  have occ: "register_buffer_by_offset mgr1 off sz = (mgr1, Inl OffsetOccupied)"
    using al assms(7) i by (simp add: register_buffer_by_offset_def)
  have "\<exists>mgr2. remove_n hm mgr1 (guest_addr mp) (Suc k) =
        Some (mgr2, replicate k (Inr True) @ [Inr False]) \<and> mgr_inv mgr2 \<and>
      mapper mgr2 = fst (hm_remove_mapping hm (mapper mgr1) (guest_addr mp)) \<and>
      mgr_map mgr2 = (if mb_registered ?b then (mgr_map mgr1)(off \<mapsto> ?b\<lparr>mb_mapping := None\<rparr>)
                      else (mgr_map mgr1)(off := None))"
    by (rule remove_until_last [OF ref(1) b1])
      (use assms m1 in \<open>auto simp: mapped_at_def split: if_splits\<close>)
  then obtain mgr2 where m2: "remove_n hm mgr1 (guest_addr mp) (Suc k) =
        Some (mgr2, replicate k (Inr True) @ [Inr False])" "mgr_inv mgr2"
      "mgr_map mgr2 = (mgr_map mgr)(off := None)"
    unfolding m1(2) by (simp only: fun_upd_upd) auto
  obtain mgr3 r3 where r3: "register_buffer_by_offset mgr2 off sz = (mgr3, r3)" by (cases rule: prod.exhaust)
  from register_by_offset_refines(3) [OF m2(2) r3] m2(3) al assms(7)
  have "r3 = Inr ()" by (simp add: spec_register_def page_aligned_iff)
  with u m1(1) cr occ m2 r3 show ?thesis by (intro exI [of _ mgr1] exI [of _ mgr2]) simp
qed

theorem mmap_deferred_release_witness:
  "\<exists>mgr1 mgr2. unregister_buffer example_mgr 0 = (mgr1, True) \<and>
    create_mapping True DummyHostMemoryMapper mgr1 0 3 True = Some (mgr1, Inl UnregisteredBuffer) \<and>
    register_buffer_by_offset mgr1 0 0x1000 = (mgr1, Inl OffsetOccupied) \<and>
    remove_n DummyHostMemoryMapper mgr1 (guest_addr \<lparr>num_mappings = 2, guest_addr = 0x80000000, rw = True\<rparr>)
      (Suc 1) = Some (mgr2, replicate 1 (Inr True) @ [Inr False]) \<and>
    mgr_map mgr2 = (mgr_map example_mgr)(0 := None) \<and>
    snd (register_buffer_by_offset mgr2 0 0x1000) = Inr ()"
  by (rule mmap_deferred_release [OF example_mgr_inv])
    (simp_all add: example_mgr_def MmapBuffer_new_def mgr_map_def mapped_at_def split: if_splits,
      simp_all)

end
