(* ===== verification/Vb_Laws.thy ===== *)
theory Vb_Laws
  imports V4l2r_Example
begin

unbundle bit_operations_syntax

text \<open>
  What the devices rely on in the \<open>V4l2Buffer\<close> of the \<open>v4l2r\<close> crate: a new buffer has the queue,
  the index and the memory type it was made with, a setter changes the field it names and no other
  one the devices read, the flag operations are those of a bit set, and a new MMAP buffer has at
  least one plane.
\<close>

text \<open>A function that changes a buffer keeps what identifies it and where it can be mapped.\<close>

definition vb_keeps_identity :: "'vb v4l2r \<Rightarrow> ('vb \<Rightarrow> 'vb) \<Rightarrow> bool" where
  "vb_keeps_identity K f \<longleftrightarrow> (\<forall>b. vb_index K (f b) = vb_index K b \<and> vb_queue K (f b) = vb_queue K b \<and>
     vb_memory K (f b) = vb_memory K b \<and> vb_mmap_offsets K (f b) = vb_mmap_offsets K b)"

definition vb_keeps_flags :: "'vb v4l2r \<Rightarrow> ('vb \<Rightarrow> 'vb) \<Rightarrow> bool" where
  "vb_keeps_flags K f \<longleftrightarrow> (\<forall>b. vb_flags K (f b) = vb_flags K b)"

definition vb_laws :: "'vb v4l2r \<Rightarrow> bool" where
  "vb_laws K \<longleftrightarrow>
     (\<forall>q i m. vb_index K (vb_new K q i m) = i \<and> vb_queue K (vb_new K q i m) = q \<and>
        vb_memory K (vb_new K q i m) = m) \<and>
     (\<forall>b f. vb_flags K (vb_set_flags K b f) = f \<and> vb_flags K (vb_add_flags K b f) = vb_flags K b OR f \<and>
        vb_flags K (vb_clear_flags K b f) = vb_flags K b AND NOT f) \<and>
     (\<forall>x. vb_keeps_identity K (\<lambda>b. vb_set_flags K b x)) \<and>
     (\<forall>x. vb_keeps_identity K (\<lambda>b. vb_add_flags K b x)) \<and>
     (\<forall>x. vb_keeps_identity K (\<lambda>b. vb_clear_flags K b x)) \<and>
     (\<forall>x. vb_keeps_identity K (\<lambda>b. vb_set_field K b x) \<and> vb_keeps_flags K (\<lambda>b. vb_set_field K b x)) \<and>
     (\<forall>x. vb_keeps_identity K (\<lambda>b. vb_set_sequence K b x) \<and> vb_keeps_flags K (\<lambda>b. vb_set_sequence K b x)) \<and>
     (\<forall>x. vb_keeps_identity K (\<lambda>b. vb_set_timestamp K b x) \<and> vb_keeps_flags K (\<lambda>b. vb_set_timestamp K b x)) \<and>
     (\<forall>x. vb_keeps_identity K (\<lambda>b. vb_set_bytesused K b x) \<and> vb_keeps_flags K (\<lambda>b. vb_set_bytesused K b x)) \<and>
     (\<forall>x. vb_keeps_identity K (\<lambda>b. vb_set_length K b x) \<and> vb_keeps_flags K (\<lambda>b. vb_set_length K b x)) \<and>
     (\<forall>x. vb_keeps_identity K (\<lambda>b. vb_set_data_offset K b x) \<and>
        vb_keeps_flags K (\<lambda>b. vb_set_data_offset K b x)) \<and>
     (\<forall>q i off len. \<exists>b rest. vb_set_mmap_plane K (vb_new K q i Mmap) off len = Some b \<and>
        vb_index K b = i \<and> vb_queue K b = q \<and> vb_memory K b = Mmap \<and>
        vb_mmap_offsets K b = Some (off # rest)) \<and>
     BUF_QUEUED K \<noteq> 0 \<and> BUF_TIMESTAMP_MONOTONIC K AND BUF_QUEUED K = 0"

text \<open>
  What the guest reads of a buffer that a device returns to it, the sequence number, the time stamp
  and the number of bytes used, is what was set last.
\<close>

definition vb_stamp_laws :: "'vb v4l2r \<Rightarrow> bool" where
  "vb_stamp_laws K \<longleftrightarrow>
     (\<forall>b x. vb_sequence K (vb_set_sequence K b x) = x \<and> vb_bytesused K (vb_set_sequence K b x) = vb_bytesused K b) \<and>
     (\<forall>b x. vb_timestamp K (vb_set_timestamp K b x) = x \<and> vb_sequence K (vb_set_timestamp K b x) = vb_sequence K b \<and>
        vb_bytesused K (vb_set_timestamp K b x) = vb_bytesused K b) \<and>
     (\<forall>b x. vb_bytesused K (vb_set_bytesused K b x) = x) \<and>
     (\<forall>b x. vb_sequence K (vb_set_flags K b x) = vb_sequence K b \<and> vb_timestamp K (vb_set_flags K b x) = vb_timestamp K b \<and>
        vb_bytesused K (vb_set_flags K b x) = vb_bytesused K b)"

lemma vb_stamp_laws_ex_K: "vb_stamp_laws ex_K"
  by (simp add: vb_stamp_laws_def)

lemma vb_laws_ex_K: "vb_laws ex_K"
  by (simp add: vb_laws_def vb_keeps_identity_def vb_keeps_flags_def ex_new_def)

lemma vb_laws_simps:
  assumes "vb_laws K"
  shows "vb_index K (vb_new K q i m) = i" "vb_queue K (vb_new K q i m) = q" "vb_memory K (vb_new K q i m) = m"
    "vb_flags K (vb_set_flags K b f) = f" "vb_flags K (vb_add_flags K b f) = vb_flags K b OR f"
    "vb_flags K (vb_clear_flags K b f) = vb_flags K b AND NOT f"
    "vb_flags K (vb_set_field K b x1) = vb_flags K b" "vb_flags K (vb_set_sequence K b x2) = vb_flags K b"
    "vb_flags K (vb_set_timestamp K b x3) = vb_flags K b" "vb_flags K (vb_set_bytesused K b x2) = vb_flags K b"
    "vb_flags K (vb_set_length K b x2) = vb_flags K b" "vb_flags K (vb_set_data_offset K b x2) = vb_flags K b"
  using assms unfolding vb_laws_def vb_keeps_flags_def by simp_all

lemma vb_laws_index:
  assumes "vb_laws K"
  shows "vb_index K (vb_set_flags K b f) = vb_index K b" "vb_index K (vb_add_flags K b f) = vb_index K b"
    "vb_index K (vb_clear_flags K b f) = vb_index K b" "vb_index K (vb_set_field K b x1) = vb_index K b"
    "vb_index K (vb_set_sequence K b x2) = vb_index K b" "vb_index K (vb_set_timestamp K b x3) = vb_index K b"
    "vb_index K (vb_set_bytesused K b x2) = vb_index K b" "vb_index K (vb_set_length K b x2) = vb_index K b"
    "vb_index K (vb_set_data_offset K b x2) = vb_index K b"
  using assms unfolding vb_laws_def vb_keeps_identity_def by simp_all

lemma vb_laws_offsets:
  assumes "vb_laws K"
  shows "vb_mmap_offsets K (vb_set_flags K b f) = vb_mmap_offsets K b"
    "vb_mmap_offsets K (vb_add_flags K b f) = vb_mmap_offsets K b"
    "vb_mmap_offsets K (vb_clear_flags K b f) = vb_mmap_offsets K b"
    "vb_mmap_offsets K (vb_set_field K b x1) = vb_mmap_offsets K b"
    "vb_mmap_offsets K (vb_set_sequence K b x2) = vb_mmap_offsets K b"
    "vb_mmap_offsets K (vb_set_timestamp K b x3) = vb_mmap_offsets K b"
    "vb_mmap_offsets K (vb_set_bytesused K b x2) = vb_mmap_offsets K b"
    "vb_mmap_offsets K (vb_set_length K b x2) = vb_mmap_offsets K b"
    "vb_mmap_offsets K (vb_set_data_offset K b x2) = vb_mmap_offsets K b"
  using assms unfolding vb_laws_def vb_keeps_identity_def by simp_all

lemma vb_laws_memory:
  assumes "vb_laws K"
  shows "vb_memory K (vb_set_flags K b f) = vb_memory K b" "vb_memory K (vb_add_flags K b f) = vb_memory K b"
    "vb_memory K (vb_clear_flags K b f) = vb_memory K b" "vb_memory K (vb_set_field K b x1) = vb_memory K b"
    "vb_memory K (vb_set_sequence K b x2) = vb_memory K b" "vb_memory K (vb_set_timestamp K b x3) = vb_memory K b"
    "vb_memory K (vb_set_bytesused K b x2) = vb_memory K b" "vb_memory K (vb_set_length K b x2) = vb_memory K b"
    "vb_memory K (vb_set_data_offset K b x2) = vb_memory K b"
  using assms unfolding vb_laws_def vb_keeps_identity_def by simp_all

lemma vb_laws_queue:
  assumes "vb_laws K"
  shows "vb_queue K (vb_set_flags K b f) = vb_queue K b" "vb_queue K (vb_add_flags K b f) = vb_queue K b"
    "vb_queue K (vb_clear_flags K b f) = vb_queue K b" "vb_queue K (vb_set_field K b x1) = vb_queue K b"
    "vb_queue K (vb_set_sequence K b x2) = vb_queue K b" "vb_queue K (vb_set_timestamp K b x3) = vb_queue K b"
    "vb_queue K (vb_set_bytesused K b x2) = vb_queue K b" "vb_queue K (vb_set_length K b x2) = vb_queue K b"
    "vb_queue K (vb_set_data_offset K b x2) = vb_queue K b"
  using assms unfolding vb_laws_def vb_keeps_identity_def by simp_all

lemma vb_laws_mmap_plane:
  assumes "vb_laws K"
  obtains b rest where "vb_set_mmap_plane K (vb_new K q i Mmap) off len = Some b" and "vb_index K b = i"
    and "vb_queue K b = q" and "vb_memory K b = Mmap" and "vb_mmap_offsets K b = Some (off # rest)"
  using assms unfolding vb_laws_def by metis

lemma vb_laws_queued:
  assumes "vb_laws K"
  shows "BUF_QUEUED K \<noteq> 0" "BUF_TIMESTAMP_MONOTONIC K AND BUF_QUEUED K = 0"
  using assms unfolding vb_laws_def by simp_all

text \<open>Whether the flag that marks a buffer as queued is set.\<close>

definition vb_queued :: "'vb v4l2r \<Rightarrow> 'vb \<Rightarrow> bool" where
  "vb_queued K b \<longleftrightarrow> vb_flags K b AND BUF_QUEUED K \<noteq> 0"

lemma flag_or [simp]: "(f OR q) AND q = (q :: u32)" and flag_and_not [simp]: "(f AND NOT q) AND q = (0 :: u32)"
  by (simp_all add: bit_eq_iff bit_simps)

end
