(* ===== verification/Memfd.thy ===== *)
theory Memfd
  imports Prelude
begin

text \<open>
  Buffers backed by anonymous files, \<open>device/src/memfd.rs\<close>. The system calls are parameters over
  the state \<open>'w\<close> of the operating system. Closing a descriptor when a buffer is dropped, and
  unmapping when a mapping is, are not modelled.
\<close>

record 'w Os =
  os_memfd_create :: "'w \<Rightarrow> 'w \<times> (i32 + fd)"
  os_set_len :: "fd \<Rightarrow> u64 \<Rightarrow> 'w \<Rightarrow> 'w \<times> (i32 + unit)"
  os_add_seals :: "fd \<Rightarrow> 'w \<Rightarrow> 'w \<times> (i32 + unit)"
  os_seek_start :: "fd \<Rightarrow> 'w \<Rightarrow> 'w \<times> (i32 + unit)"
  os_write :: "fd \<Rightarrow> u8 list \<Rightarrow> 'w \<Rightarrow> 'w \<times> (i32 + unit)"

text \<open>The field \<open>size\<close> is a \<open>NonZeroU64\<close> in the source.\<close>

record MemFdBuffer =
  mfb_file :: fd
  mfb_size :: u64

text \<open>The operating-system errors carry the error number of the call that failed.\<close>

datatype NewMemFdBufferError =
    ZeroSize
  | FailedToCreate i32
  | FailedToSetSize i32
  | FailedToSeal i32

definition MemFdBuffer_new :: "'w Os \<Rightarrow> u64 \<Rightarrow> 'w \<Rightarrow> 'w \<times> (NewMemFdBufferError + MemFdBuffer)" where
  "MemFdBuffer_new OS sz w =
     (if sz = 0 then (w, Inl ZeroSize)
      else case os_memfd_create OS w of
             (w1, Inl e) \<Rightarrow> (w1, Inl (FailedToCreate e))
           | (w1, Inr file) \<Rightarrow>
               (case os_set_len OS file sz w1 of
                  (w2, Inl e) \<Rightarrow> (w2, Inl (FailedToSetSize e))
                | (w2, Inr _) \<Rightarrow>
                    (case os_add_seals OS file w2 of
                       (w3, Inl e) \<Rightarrow> (w3, Inl (FailedToSeal e))
                     | (w3, Inr _) \<Rightarrow> (w3, Inr \<lparr>mfb_file = file, mfb_size = sz\<rparr>))))"

definition as_file :: "MemFdBuffer \<Rightarrow> fd" where
  "as_file b = mfb_file b"

text \<open>
  Mapping a buffer into the memory of the device: the slice is given by its address and its length.
  A \<open>usize\<close> has 64 bits, so no buffer is too large for it. The system call is a parameter.
\<close>

record MemFdMapping =
  mm_data :: u64
  mm_len :: u64

datatype MemFdMmapError = BufferTooLarge u64 | MmapFailed i32

definition MemFdBuffer_mmap ::
  "(fd \<Rightarrow> u64 \<Rightarrow> 'w \<Rightarrow> 'w \<times> (i32 + u64)) \<Rightarrow> MemFdBuffer \<Rightarrow> 'w \<Rightarrow> 'w \<times> (MemFdMmapError + MemFdMapping)"
where
  "MemFdBuffer_mmap os_mmap b w =
     (case os_mmap (mfb_file b) (mfb_size b) w of
        (w', Inl e) \<Rightarrow> (w', Inl (MmapFailed e))
      | (w', Inr data) \<Rightarrow> (w', Inr \<lparr>mm_data = data, mm_len = mfb_size b\<rparr>))"

definition MemFdMapping_size :: "MemFdMapping \<Rightarrow> u64" where
  "MemFdMapping_size m = mm_len m"

text \<open>The descriptor of a buffer, borrowed or as a number, and the file it is turned into.\<close>

definition MemFdBuffer_as_fd :: "MemFdBuffer \<Rightarrow> fd" where
  "MemFdBuffer_as_fd b = mfb_file b"

definition MemFdBuffer_as_raw_fd :: "MemFdBuffer \<Rightarrow> fd" where
  "MemFdBuffer_as_raw_fd b = mfb_file b"

definition MemFdBuffer_into_file :: "MemFdBuffer \<Rightarrow> fd" where
  "MemFdBuffer_into_file b = mfb_file b"

text \<open>
  The memory of a mapping, its address and length, and the end of a mapping: it is unmapped, and an error of
  that is only logged.
\<close>

definition MemFdMapping_as_ref :: "MemFdMapping \<Rightarrow> u64 \<times> u64" where
  "MemFdMapping_as_ref m = (mm_data m, mm_len m)"

definition MemFdMapping_as_mut :: "MemFdMapping \<Rightarrow> u64 \<times> u64" where
  "MemFdMapping_as_mut m = (mm_data m, mm_len m)"

definition MemFdMapping_drop :: "(u64 \<Rightarrow> u64 \<Rightarrow> 'w \<Rightarrow> 'w \<times> (i32 + unit)) \<Rightarrow> MemFdMapping \<Rightarrow> 'w \<Rightarrow> 'w" where
  "MemFdMapping_drop munmap m w = fst (munmap (mm_data m) (mm_len m) w)"

text \<open>A buffer has the requested size, and that size is not zero.\<close>

lemma MemFdBuffer_new_size: "MemFdBuffer_new OS sz w = (w', Inr b) \<Longrightarrow> mfb_size b = sz \<and> sz \<noteq> 0"
  by (auto simp: MemFdBuffer_new_def split: if_splits prod.splits sum.splits)

text \<open>An operating system whose files are numbered and whose calls succeed, for the concrete instances.\<close>

definition ex_Os :: "nat Os" where
  "ex_Os =
     \<lparr>os_memfd_create = (\<lambda>n. (Suc n, Inr n)), os_set_len = (\<lambda>_ _ n. (n, Inr ())),
      os_add_seals = (\<lambda>_ n. (n, Inr ())), os_seek_start = (\<lambda>_ n. (n, Inr ())),
      os_write = (\<lambda>_ _ n. (n, Inr ()))\<rparr>"

end
