(* ===== verification/Simple_Device.thy ===== *)
theory Simple_Device
  imports Runner Mmap Vb_Laws Memfd
begin

unbundle bit_operations_syntax

text \<open>
  The simple capture device, \<open>device/src/devices/simple_device.rs\<close>: a device that fills queued
  MMAP buffers with uniform frames and sends them back to the guest. The device holds the event
  queue, seen as the list of the events sent so far, the MMAP manager, and the session that has
  buffers; the state of the operating system is carried along.
\<close>

section \<open>Data\<close>

datatype BufferState = New | Incoming | Outgoing u32

record 'vb Buffer =
  buf_state :: BufferState
  buf_v4l2 :: 'vb
  buf_fd :: MemFdBuffer
  buf_offset :: u32

record 'vb SimpleCaptureDeviceSession =
  ss_id :: u32
  ss_iteration :: u64
  ss_buffers :: "'vb Buffer list"
  ss_queued_buffers :: "nat list"
  ss_streaming :: bool

record ('m, 'vb, 'w) SimpleCaptureDevice =
  sd_evt_queue :: "('vb, v4l2_event) V4l2Event list"
  sd_mmap_manager :: "'m MmapMappingManager"
  sd_active_session :: "u32 option"
  sd_os :: 'w

definition SimpleCaptureDevice_new :: "'m \<Rightarrow> 'w \<Rightarrow> ('m, 'vb, 'w) SimpleCaptureDevice" where
  "SimpleCaptureDevice_new m os =
     \<lparr>sd_evt_queue = [], sd_mmap_manager = MmapMappingManager_from m, sd_active_session = None, sd_os = os\<rparr>"

definition WIDTH :: u32 where "WIDTH = 640"
definition HEIGHT :: u32 where "HEIGHT = 480"
definition FRAME_RATE :: u32 where "FRAME_RATE = 30"
definition BYTES_PER_LINE :: u32 where "BYTES_PER_LINE = WIDTH * 3"
definition BUFFER_SIZE :: u32 where "BUFFER_SIZE = BYTES_PER_LINE * HEIGHT"
definition PIXELFORMAT :: "'vb v4l2r \<Rightarrow> u32" where "PIXELFORMAT K = fourcc K [0x52, 0x47, 0x42, 0x33]"

text \<open>The name \<open>Default\<close>, padded with zeros to 32 bytes.\<close>

definition INPUTS :: "'vb v4l2r \<Rightarrow> v4l2_input list" where
  "INPUTS K =
     [\<lparr>input_index = 0, input_name = [0x44, 0x65, 0x66, 0x61, 0x75, 0x6C, 0x74] @ replicate 25 0,
       input_type = V4L2_INPUT_TYPE_CAMERA K, input_rest = input_zeroed K\<rparr>]"

section \<open>Buffers and frames\<close>

text \<open>\<open>Buffer::set_state\<close>. The time stamp is computed from \<open>sequence + 1\<close>, which can overflow.\<close>

definition set_state :: "bool \<Rightarrow> 'vb v4l2r \<Rightarrow> BufferState \<Rightarrow> 'vb Buffer \<Rightarrow> 'vb Buffer option" where
  "set_state chk K state b =
     (let flags = vb_flags K (buf_v4l2 b) in
      case state of
        New \<Rightarrow>
          (let v = vb_set_bytesused K (buf_v4l2 b) 0 in
           Some (b\<lparr>buf_v4l2 := vb_set_flags K v (flags AND NOT (BUF_QUEUED K)), buf_state := state\<rparr>))
      | Incoming \<Rightarrow>
          (let v = vb_set_bytesused K (buf_v4l2 b) 0 in
           Some (b\<lparr>buf_v4l2 := vb_set_flags K v (flags OR BUF_QUEUED K), buf_state := state\<rparr>))
      | Outgoing sequence \<Rightarrow> do {
          n \<leftarrow> add_ov chk sequence 1;
          (let v = vb_set_bytesused K (buf_v4l2 b) BUFFER_SIZE;
               v = vb_set_sequence K v sequence;
               v = vb_set_timestamp K v \<lparr>tv_sec = ucast n div 1000, tv_usec = ucast n mod 1000\<rparr>
           in Some (b\<lparr>buf_v4l2 := vb_set_flags K v (flags AND NOT (BUF_QUEUED K)), buf_state := state\<rparr>))
        })"

text \<open>
  The frame of a sequence number: one colour, in every pixel. The pixels are written one by one
  through a \<open>BufWriter\<close>; the model writes them at once, and the call fails when one of these
  writes reports an error.
\<close>

definition frame_color :: "u32 \<Rightarrow> u8 list" where
  "frame_color sequence =
     [0xFF * (ucast sequence mod 2), 0x55 * (ucast sequence mod 3), 0x10 * (ucast sequence mod 16)]"

definition frame_bytes :: "u32 \<Rightarrow> u8 list" where
  "frame_bytes sequence = concat (replicate (unat (WIDTH * HEIGHT)) (frame_color sequence))"

definition send_event ::
  "('vb, v4l2_event) V4l2Event \<Rightarrow> ('m, 'vb, 'w) SimpleCaptureDevice \<Rightarrow> ('m, 'vb, 'w) SimpleCaptureDevice"
where
  "send_event ev d = d\<lparr>sd_evt_queue := sd_evt_queue d @ [ev]\<rparr>"

text \<open>One turn of the loop of \<open>process_queued_buffers\<close>, for the buffer just taken from the queue.\<close>

definition process_buffer ::
  "bool \<Rightarrow> 'vb v4l2r \<Rightarrow> 'w Os \<Rightarrow> nat \<Rightarrow>
   ('m, 'vb, 'w) SimpleCaptureDevice \<Rightarrow> 'vb SimpleCaptureDeviceSession \<Rightarrow>
   (('m, 'vb, 'w) SimpleCaptureDevice \<times> 'vb SimpleCaptureDeviceSession \<times> (i32 + unit)) option"
where
  "process_buffer chk K OS buf_id d s =
     (case vec_get (ss_buffers s) buf_id of
        None \<Rightarrow> Some (d, s, Inl EIO)
      | Some buffer \<Rightarrow>
          (let sequence = ucast (ss_iteration s) in
           case os_seek_start OS (as_file (buf_fd buffer)) (sd_os d) of
             (os1, Inl e) \<Rightarrow> Some (d\<lparr>sd_os := os1\<rparr>, s, Inl EIO)
           | (os1, Inr _) \<Rightarrow>
               (case os_write OS (as_file (buf_fd buffer)) (frame_bytes sequence) os1 of
                  (os2, Inl e) \<Rightarrow> Some (d\<lparr>sd_os := os2\<rparr>, s, Inl EIO)
                | (os2, Inr _) \<Rightarrow> do {
                    buffer' \<leftarrow> set_state chk K (Outgoing sequence)
                      (buffer\<lparr>buf_v4l2 := vb_set_bytesused K (buf_v4l2 buffer) BUFFER_SIZE\<rparr>);
                    iteration' \<leftarrow> add_ov chk (ss_iteration s) 1;
                    Some (send_event (DequeueBuffer (DequeueBufferEvent_new (ss_id s) (buf_v4l2 buffer')))
                            (d\<lparr>sd_os := os2\<rparr>),
                          s\<lparr>ss_buffers := (ss_buffers s)[buf_id := buffer'], ss_iteration := iteration'\<rparr>,
                          Inr ())
                  })))"

text \<open>The loop takes a buffer from the front of the queue until it is empty or a turn fails.\<close>

fun process_queue ::
  "bool \<Rightarrow> 'vb v4l2r \<Rightarrow> 'w Os \<Rightarrow> nat list \<Rightarrow>
   ('m, 'vb, 'w) SimpleCaptureDevice \<Rightarrow> 'vb SimpleCaptureDeviceSession \<Rightarrow>
   (('m, 'vb, 'w) SimpleCaptureDevice \<times> 'vb SimpleCaptureDeviceSession \<times> (i32 + unit)) option"
where
  "process_queue chk K OS [] d s = Some (d, s\<lparr>ss_queued_buffers := []\<rparr>, Inr ())"
| "process_queue chk K OS (buf_id # queue) d s = do {
     (d', s', res) \<leftarrow> process_buffer chk K OS buf_id d (s\<lparr>ss_queued_buffers := queue\<rparr>);
     (case res of
        Inl e \<Rightarrow> Some (d', s', Inl e)
      | Inr _ \<Rightarrow> process_queue chk K OS queue d' s')
   }"

definition process_queued_buffers ::
  "bool \<Rightarrow> 'vb v4l2r \<Rightarrow> 'w Os \<Rightarrow> ('m, 'vb, 'w) SimpleCaptureDevice \<Rightarrow> 'vb SimpleCaptureDeviceSession \<Rightarrow>
   (('m, 'vb, 'w) SimpleCaptureDevice \<times> 'vb SimpleCaptureDeviceSession \<times> (i32 + unit)) option"
where
  "process_queued_buffers chk K OS d s = process_queue chk K OS (ss_queued_buffers s) d s"

section \<open>Formats\<close>

type_synonym ('m, 'vb, 'w, 'r) simple_ro =
  "(('m, 'vb, 'w) SimpleCaptureDevice, 'vb SimpleCaptureDeviceSession, 'r) ro_method"
type_synonym ('m, 'vb, 'w, 'r) simple_rw =
  "(('m, 'vb, 'w) SimpleCaptureDevice, 'vb SimpleCaptureDeviceSession, 'r) rw_method"

definition default_fmtdesc :: "'vb v4l2r \<Rightarrow> QueueType \<Rightarrow> v4l2_fmtdesc" where
  "default_fmtdesc K queue =
     \<lparr>fmtdesc_index = 0, fmtdesc_type = queue_as_u32 K queue, fmtdesc_pixelformat = PIXELFORMAT K,
      fmtdesc_rest = fmtdesc_default K\<rparr>"

definition default_fmt :: "'vb v4l2r \<Rightarrow> QueueType \<Rightarrow> v4l2_format" where
  "default_fmt K queue =
     \<lparr>format_type = queue_as_u32 K queue,
      format_fmt = fmt_pix K
        \<lparr>pix_width = WIDTH, pix_height = HEIGHT, pix_pixelformat = PIXELFORMAT K,
         pix_field = V4L2_FIELD_NONE K, pix_bytesperline = BYTES_PER_LINE, pix_sizeimage = BUFFER_SIZE,
         pix_colorspace = V4L2_COLORSPACE_SRGB K, pix_rest = pix_default K\<rparr>\<rparr>"

definition simple_enum_fmt :: "'vb v4l2r \<Rightarrow> QueueType \<Rightarrow> u32 \<Rightarrow> ('m, 'vb, 'w, v4l2_fmtdesc) simple_ro" where
  "simple_enum_fmt K queue index d s =
     Some (d, if queue \<noteq> VideoCapture then Inl EINVAL else if 0 < index then Inl EINVAL
              else Inr (default_fmtdesc K queue))"

definition simple_g_fmt :: "'vb v4l2r \<Rightarrow> QueueType \<Rightarrow> ('m, 'vb, 'w, v4l2_format) simple_ro" where
  "simple_g_fmt K queue d s =
     Some (d, if queue \<noteq> VideoCapture then Inl EINVAL else Inr (default_fmt K queue))"

definition simple_s_fmt :: "'vb v4l2r \<Rightarrow> QueueType \<Rightarrow> v4l2_format \<Rightarrow> ('m, 'vb, 'w, v4l2_format) simple_rw" where
  "simple_s_fmt K queue format d s =
     Some (d, s, if queue \<noteq> VideoCapture then Inl EINVAL else Inr (default_fmt K queue))"

definition simple_try_fmt :: "'vb v4l2r \<Rightarrow> QueueType \<Rightarrow> v4l2_format \<Rightarrow> ('m, 'vb, 'w, v4l2_format) simple_ro" where
  "simple_try_fmt K queue format d s =
     Some (d, if queue \<noteq> VideoCapture then Inl EINVAL else Inr (default_fmt K queue))"

text \<open>The fixed frame rate, written over the capture parameters.\<close>

definition fixed_rate :: "'vb v4l2r \<Rightarrow> v4l2_streamparm \<Rightarrow> v4l2_streamparm" where
  "fixed_rate K parm =
     parm\<lparr>streamparm_parm := set_capture_timeperframe K
       (set_capture_capability K (streamparm_parm parm) (V4L2_CAP_TIMEPERFRAME K)) 1 FRAME_RATE\<rparr>"

definition simple_g_parm :: "'vb v4l2r \<Rightarrow> QueueType \<Rightarrow> ('m, 'vb, 'w, v4l2_streamparm) simple_ro" where
  "simple_g_parm K queue d s =
     Some (d, if queue \<noteq> VideoCapture then Inl EINVAL
              else Inr (fixed_rate K \<lparr>streamparm_type = queue_as_u32 K queue,
                                      streamparm_parm = streamparm_default K\<rparr>))"

definition simple_s_parm :: "'vb v4l2r \<Rightarrow> v4l2_streamparm \<Rightarrow> ('m, 'vb, 'w, v4l2_streamparm) simple_rw" where
  "simple_s_parm K parm d s =
     Some (d, s, if streamparm_type parm \<noteq> queue_as_u32 K VideoCapture then Inl EINVAL
                 else Inr (fixed_rate K parm))"

section \<open>Buffers of a session\<close>

definition simple_streamoff :: "bool \<Rightarrow> 'vb v4l2r \<Rightarrow> QueueType \<Rightarrow> ('m, 'vb, 'w, unit) simple_rw" where
  "simple_streamoff chk K queue d s =
     (if queue \<noteq> VideoCapture then Some (d, s, Inl EINVAL)
      else do {
        bufs \<leftarrow> those (map (set_state chk K New) (ss_buffers s));
        Some (d, s\<lparr>ss_streaming := False, ss_queued_buffers := [], ss_buffers := bufs\<rparr>, Inr ())
      })"

text \<open>One turn of the closure that \<open>reqbufs\<close> maps over the indices of the new buffers.\<close>

definition alloc_buffer ::
  "bool \<Rightarrow> 'vb v4l2r \<Rightarrow> 'w Os \<Rightarrow> u32 \<Rightarrow> ('m, 'vb, 'w) SimpleCaptureDevice \<Rightarrow>
   (('m, 'vb, 'w) SimpleCaptureDevice \<times> (i32 + 'vb Buffer)) option"
where
  "alloc_buffer chk K OS i d =
     (case MemFdBuffer_new OS (ucast BUFFER_SIZE) (sd_os d) of
        (os1, Inl e) \<Rightarrow> Some (d\<lparr>sd_os := os1\<rparr>, Inl ENOMEM)
      | (os1, Inr fd) \<Rightarrow> do {
          (mgr, res) \<leftarrow> register_buffer chk (sd_mmap_manager d) None BUFFER_SIZE;
          (let d' = d\<lparr>sd_os := os1, sd_mmap_manager := mgr\<rparr> in
           case res of
             Inl e \<Rightarrow> Some (d', Inl EINVAL)
           | Inr offset \<Rightarrow> do {
               v \<leftarrow> vb_set_mmap_plane K (vb_new K VideoCapture i Mmap) offset BUFFER_SIZE;
               Some (d', Inr \<lparr>buf_state = New,
                 buf_v4l2 = vb_set_flags K (vb_set_field K v (FIELD_NONE K)) (BUF_TIMESTAMP_MONOTONIC K),
                 buf_fd = fd, buf_offset = offset\<rparr>)
             })
        })"

text \<open>The closure runs for each index until it fails; what it did to the device stays.\<close>

fun alloc_buffers ::
  "bool \<Rightarrow> 'vb v4l2r \<Rightarrow> 'w Os \<Rightarrow> u32 list \<Rightarrow> ('m, 'vb, 'w) SimpleCaptureDevice \<Rightarrow>
   (('m, 'vb, 'w) SimpleCaptureDevice \<times> (i32 + 'vb Buffer list)) option"
where
  "alloc_buffers chk K OS [] d = Some (d, Inr [])"
| "alloc_buffers chk K OS (i # is) d = do {
     (d', res) \<leftarrow> alloc_buffer chk K OS i d;
     (case res of
        Inl e \<Rightarrow> Some (d', Inl e)
      | Inr b \<Rightarrow> do {
          (d'', res') \<leftarrow> alloc_buffers chk K OS is d';
          Some (d'', map_sum id (\<lambda>bs. b # bs) res')
        })
   }"

definition reqbufs_response :: "'vb v4l2r \<Rightarrow> u32 \<Rightarrow> QueueType \<Rightarrow> MemoryType \<Rightarrow> u32 \<Rightarrow> v4l2_requestbuffers" where
  "reqbufs_response K count queue memory flags =
     \<lparr>reqbufs_count = count, reqbufs_type = queue_as_u32 K queue, reqbufs_memory = memory_as_u32 K memory,
      reqbufs_capabilities = SUPPORTS_MMAP K OR SUPPORTS_ORPHANED_BUFS K, reqbufs_flags = flags,
      reqbufs_reserved = reqbufs_default K\<rparr>"

definition simple_reqbufs ::
  "bool \<Rightarrow> 'vb v4l2r \<Rightarrow> 'w Os \<Rightarrow> QueueType \<Rightarrow> MemoryType \<Rightarrow> u32 \<Rightarrow> MemoryConsistency \<Rightarrow>
   ('m, 'vb, 'w, v4l2_requestbuffers) simple_rw"
where
  "simple_reqbufs chk K OS queue memory count flags d s =
     (if queue \<noteq> VideoCapture then Some (d, s, Inl EINVAL)
      else if memory \<noteq> Mmap then Some (d, s, Inl EINVAL)
      else if ss_streaming s then Some (d, s, Inl EBUSY)
      else if (case sd_active_session d of Some sid \<Rightarrow> sid \<noteq> ss_id s | None \<Rightarrow> False) then Some (d, s, Inl EBUSY)
      else do {
        (d1, s1, res) \<leftarrow>
          (if count = 0 then simple_streamoff chk K queue (d\<lparr>sd_active_session := None\<rparr>) s
           else do {
             bufs \<leftarrow> those (map (set_state chk K New) (ss_buffers s));
             Some (d\<lparr>sd_active_session := Some (ss_id s)\<rparr>,
                   s\<lparr>ss_queued_buffers := [], ss_buffers := bufs\<rparr>, Inr ())
           });
        (case res of
           Inl e \<Rightarrow> Some (d1, s1, Inl e)
         | Inr _ \<Rightarrow>
             (let count' = min count 32;
                  d2 = d1\<lparr>sd_mmap_manager :=
                         unregister_all (sd_mmap_manager d1) (map buf_offset (ss_buffers s1))\<rparr>
              in do {
                (d3, bufs) \<leftarrow> alloc_buffers chk K OS (map of_nat [0..<unat count']) d2;
                (case bufs of
                   Inl e \<Rightarrow> Some (d3, s1, Inl e)
                 | Inr bs \<Rightarrow>
                     Some (d3, s1\<lparr>ss_buffers := bs\<rparr>, Inr (reqbufs_response K count' queue memory 0)))
              }))
      })"

definition simple_querybuf :: "QueueType \<Rightarrow> u32 \<Rightarrow> ('m, 'vb, 'w, 'vb) simple_ro" where
  "simple_querybuf queue index d s =
     Some (d, if queue \<noteq> VideoCapture then Inl EINVAL
              else case vec_get (ss_buffers s) (unat index) of
                     None \<Rightarrow> Inl EINVAL
                   | Some b \<Rightarrow> Inr (buf_v4l2 b))"

definition simple_qbuf ::
  "bool \<Rightarrow> 'vb v4l2r \<Rightarrow> 'w Os \<Rightarrow> 'vb \<Rightarrow> SgEntry list list \<Rightarrow> ('m, 'vb, 'w, 'vb) simple_rw"
where
  "simple_qbuf chk K OS buffer guest_regions d s =
     (let i = unat (vb_index K buffer) in
      case vec_get (ss_buffers s) i of
        None \<Rightarrow> Some (d, s, Inl EINVAL)
      | Some host_buffer \<Rightarrow>
          if buf_state host_buffer = Incoming then Some (d, s, Inl EINVAL)
          else do {
            host_buffer' \<leftarrow> set_state chk K Incoming host_buffer;
            (let s1 = s\<lparr>ss_buffers := (ss_buffers s)[i := host_buffer'],
                       ss_queued_buffers := ss_queued_buffers s @ [i]\<rparr> in
             if ss_streaming s1 then do {
               (d2, s2, res) \<leftarrow> process_queued_buffers chk K OS d s1;
               Some (d2, s2, map_sum id (\<lambda>_. buf_v4l2 host_buffer') res)
             }
             else Some (d, s1, Inr (buf_v4l2 host_buffer')))
          })"

definition simple_streamon :: "bool \<Rightarrow> 'vb v4l2r \<Rightarrow> 'w Os \<Rightarrow> QueueType \<Rightarrow> ('m, 'vb, 'w, unit) simple_rw" where
  "simple_streamon chk K OS queue d s =
     (if queue \<noteq> VideoCapture \<or> ss_buffers s = [] then Some (d, s, Inl EINVAL)
      else process_queued_buffers chk K OS d (s\<lparr>ss_streaming := True\<rparr>))"

section \<open>Inputs and frame sizes\<close>

definition simple_g_input :: "('m, 'vb, 'w, i32) simple_ro" where
  "simple_g_input d s = Some (d, Inr 0)"

definition simple_s_input :: "i32 \<Rightarrow> ('m, 'vb, 'w, i32) simple_rw" where
  "simple_s_input input d s = Some (d, s, if input \<noteq> 0 then Inl EINVAL else Inr 0)"

definition simple_enuminput :: "'vb v4l2r \<Rightarrow> u32 \<Rightarrow> ('m, 'vb, 'w, v4l2_input) simple_ro" where
  "simple_enuminput K index d s =
     Some (d, case vec_get (INPUTS K) (unat index) of Some input \<Rightarrow> Inr input | None \<Rightarrow> Inl EINVAL)"

definition simple_enum_framesizes :: "'vb v4l2r \<Rightarrow> u32 \<Rightarrow> u32 \<Rightarrow> ('m, 'vb, 'w, v4l2_frmsizeenum) simple_ro" where
  "simple_enum_framesizes K index pixel_format d s =
     Some (d, if pixel_format \<noteq> PIXELFORMAT K then Inl EINVAL else if 0 < index then Inl EINVAL
              else Inr \<lparr>frmsize_index = index, frmsize_pixel_format = pixel_format,
                frmsize_type = V4L2_FRMSIZE_TYPE_DISCRETE K, frmsize_anon = frmsize_discrete K WIDTH HEIGHT,
                frmsize_rest = frmsize_default K\<rparr>)"

definition simple_enum_frameintervals ::
  "'vb v4l2r \<Rightarrow> u32 \<Rightarrow> u32 \<Rightarrow> u32 \<Rightarrow> u32 \<Rightarrow> ('m, 'vb, 'w, v4l2_frmivalenum) simple_ro"
where
  "simple_enum_frameintervals K index pixel_format width height d s =
     Some (d, if pixel_format \<noteq> PIXELFORMAT K then Inl EINVAL
              else if width \<noteq> WIDTH \<or> height \<noteq> HEIGHT then Inl EINVAL
              else if 0 < index then Inl EINVAL
              else Inr \<lparr>frmival_index = index, frmival_pixel_format = pixel_format, frmival_width = width,
                frmival_height = height, frmival_type = V4L2_FRMIVAL_TYPE_DISCRETE K,
                frmival_anon = frmival_discrete K 1 FRAME_RATE, frmival_rest = frmival_default K\<rparr>)"

section \<open>The device\<close>

text \<open>The implementation of \<open>VirtioMediaIoctlHandler\<close>: the methods above, the defaults elsewhere.\<close>

definition simple_handler :: "bool \<Rightarrow> 'vb v4l2r \<Rightarrow> 'w Os \<Rightarrow>
    (('m, 'vb, 'w) SimpleCaptureDevice, 'vb SimpleCaptureDeviceSession, 'vb) VirtioMediaIoctlHandler"
where
  "simple_handler chk K OS = default_handler
     \<lparr>h_enum_fmt := simple_enum_fmt K, h_g_fmt := simple_g_fmt K, h_s_fmt := simple_s_fmt K,
      h_try_fmt := simple_try_fmt K, h_g_parm := simple_g_parm K, h_s_parm := simple_s_parm K,
      h_reqbufs := simple_reqbufs chk K OS, h_querybuf := simple_querybuf, h_qbuf := simple_qbuf chk K OS,
      h_streamon := simple_streamon chk K OS, h_streamoff := simple_streamoff chk K,
      h_g_input := simple_g_input, h_s_input := simple_s_input, h_enuminput := simple_enuminput K,
      h_enum_framesizes := simple_enum_framesizes K, h_enum_frameintervals := simple_enum_frameintervals K\<rparr>"

definition simple_new_session :: "u32 \<Rightarrow> ('m, 'vb, 'w) SimpleCaptureDevice \<Rightarrow>
    (('m, 'vb, 'w) SimpleCaptureDevice \<times> (i32 + 'vb SimpleCaptureDeviceSession)) option"
where
  "simple_new_session session_id d =
     Some (d, Inr \<lparr>ss_id = session_id, ss_iteration = 0, ss_buffers = [], ss_queued_buffers = [],
                  ss_streaming = False\<rparr>)"

definition simple_close_session :: "'vb SimpleCaptureDeviceSession \<Rightarrow>
    ('m, 'vb, 'w) SimpleCaptureDevice \<Rightarrow> ('m, 'vb, 'w) SimpleCaptureDevice option"
where
  "simple_close_session session d =
     Some (d\<lparr>sd_active_session :=
              (if sd_active_session d = Some (ss_id session) then None else sd_active_session d),
            sd_mmap_manager := unregister_all (sd_mmap_manager d) (map buf_offset (ss_buffers session))\<rparr>)"

definition simple_do_mmap :: "bool \<Rightarrow> 'm VirtioMediaHostMemoryMapper \<Rightarrow> u32 \<Rightarrow> u32 \<Rightarrow>
    ('m, 'vb, 'w, u64 \<times> u64) simple_rw"
where
  "simple_do_mmap chk hm flags offset d s =
     (case find (\<lambda>b. buf_offset b = offset) (ss_buffers s) of
        None \<Rightarrow> Some (d, s, Inl EINVAL)
      | Some buffer \<Rightarrow> do {
          (mgr, res) \<leftarrow> create_mapping chk hm (sd_mmap_manager d) offset (as_file (buf_fd buffer))
            (flags AND VIRTIO_MEDIA_MMAP_FLAG_RW \<noteq> 0);
          Some (d\<lparr>sd_mmap_manager := mgr\<rparr>, s, map_sum (\<lambda>_. EINVAL) id res)
        })"

definition simple_do_munmap :: "'m VirtioMediaHostMemoryMapper \<Rightarrow> u64 \<Rightarrow>
    ('m, 'vb, 'w) SimpleCaptureDevice \<Rightarrow> (('m, 'vb, 'w) SimpleCaptureDevice \<times> (i32 + unit)) option"
where
  "simple_do_munmap hm addr d = do {
     (mgr, res) \<leftarrow> remove_mapping hm (sd_mmap_manager d) addr;
     Some (d\<lparr>sd_mmap_manager := mgr\<rparr>, map_sum (\<lambda>_. EINVAL) (\<lambda>_. ()) res)
   }"

definition simple_poll_fd :: "'vb SimpleCaptureDeviceSession \<Rightarrow> fd option" where
  "simple_poll_fd s = None"

definition simple_device :: "bool \<Rightarrow> 'vb v4l2r \<Rightarrow> 'w Os \<Rightarrow> 'm VirtioMediaHostMemoryMapper \<Rightarrow>
    (('m, 'vb, 'w) SimpleCaptureDevice, 'vb SimpleCaptureDeviceSession) VirtioMediaDevice"
where
  "simple_device chk K OS hm =
     \<lparr>dev_new_session = simple_new_session, dev_close_session = simple_close_session,
      dev_do_ioctl = virtio_media_dispatch_ioctl K (simple_handler chk K OS),
      dev_do_mmap = simple_do_mmap chk hm, dev_do_munmap = simple_do_munmap hm,
      dev_process_events = default_process_events, dev_poll_fd = simple_poll_fd\<rparr>"

section \<open>Invariant of a session\<close>

text \<open>
  The V4L2 representation of a buffer agrees with the bookkeeping of the device: it has the index
  of its position, and the flag for queued buffers is set exactly when the buffer is incoming.
\<close>

definition buffer_inv :: "'vb v4l2r \<Rightarrow> nat \<Rightarrow> 'vb Buffer \<Rightarrow> bool" where
  "buffer_inv K i b \<longleftrightarrow> unat (vb_index K (buf_v4l2 b)) = i \<and>
     (vb_queued K (buf_v4l2 b) \<longleftrightarrow> buf_state b = Incoming)"

text \<open>The queue holds indices of incoming buffers, each at most once.\<close>

definition sess_inv :: "'vb v4l2r \<Rightarrow> 'vb SimpleCaptureDeviceSession \<Rightarrow> bool" where
  "sess_inv K s \<longleftrightarrow> length (ss_buffers s) \<le> 32 \<and>
     (\<forall>i < length (ss_buffers s). buffer_inv K i (ss_buffers s ! i)) \<and> distinct (ss_queued_buffers s) \<and>
     (\<forall>i \<in> set (ss_queued_buffers s). i < length (ss_buffers s) \<and> buf_state (ss_buffers s ! i) = Incoming)"

lemma set_state_same:
  "set_state chk K st b = Some b' \<Longrightarrow>
   buf_state b' = st \<and> buf_offset b' = buf_offset b \<and> buf_fd b' = buf_fd b"
  by (auto simp: set_state_def Let_def elim!: bind_SomeE split: BufferState.splits)

lemma set_state_inv:
  assumes "vb_laws K" and "set_state chk K st b = Some b'" and "unat (vb_index K (buf_v4l2 b)) = i"
  shows "buffer_inv K i b'"
proof (cases st)
  case (Outgoing sq)
  with assms show ?thesis
    by (auto simp: set_state_def Let_def buffer_inv_def vb_queued_def vb_laws_simps vb_laws_index
        elim!: bind_SomeE)
qed (use assms in \<open>auto simp: set_state_def Let_def buffer_inv_def vb_queued_def vb_laws_simps vb_laws_index
      vb_laws_queued\<close>)

lemma set_state_New: "\<exists>b'. set_state chk K New b = Some b'"
  by (simp add: set_state_def Let_def)

lemma reset_buffers:
  assumes "those (map (set_state chk K New) bs) = Some bs'"
  shows "length bs' = length bs" and "map buf_offset bs' = map buf_offset bs"
    and "\<forall>i < length bs. buf_state (bs' ! i) = New"
    and "vb_laws K \<Longrightarrow> \<forall>i < length bs. buffer_inv K i (bs ! i) \<Longrightarrow> \<forall>i < length bs. buffer_inv K i (bs' ! i)"
proof -
  note t = those_map_Some [OF assms]
  show len: "length bs' = length bs" using t by simp
  have "buf_offset (bs' ! i) = buf_offset (bs ! i)" if "i < length bs" for i
    using t that set_state_same by blast
  then show "map buf_offset bs' = map buf_offset bs"
    by (intro nth_equalityI) (simp_all add: len)
  show "\<forall>i < length bs. buf_state (bs' ! i) = New" using t set_state_same by blast
  show "\<forall>i < length bs. buffer_inv K i (bs' ! i)"
    if "vb_laws K" "\<forall>i < length bs. buffer_inv K i (bs ! i)"
    using t set_state_inv [OF that(1)] that(2) by (auto simp: buffer_inv_def)
qed

lemma reset_buffers_total: "\<exists>bs'. those (map (set_state chk K New) bs) = Some bs'"
proof (induction bs)
  case (Cons b bs)
  then obtain bs' where bs': "those (map (set_state chk K New) bs) = Some bs'" by blast
  obtain b' where "set_state chk K New b = Some b'" using set_state_New by blast
  with bs' show ?case by simp
qed simp

lemma sess_inv_reset:
  assumes "vb_laws K" and "sess_inv K s" and "those (map (set_state chk K New) (ss_buffers s)) = Some bs'"
  shows "sess_inv K (s\<lparr>ss_queued_buffers := [], ss_buffers := bs'\<rparr>)"
  using assms(2) reset_buffers(1) [OF assms(3)] reset_buffers(4) [OF assms(3,1)] by (simp add: sess_inv_def)

lemma sess_inv_streaming [simp]: "sess_inv K (s\<lparr>ss_streaming := x\<rparr>) = sess_inv K s"
  by (simp add: sess_inv_def)

section \<open>Processing the queue\<close>

lemma process_buffer_cases:
  assumes "process_buffer chk K OS i d s = Some (d', s', res)"
  obtains e where "res = Inl e" and "s' = s" and "sd_mmap_manager d' = sd_mmap_manager d"
      and "sd_evt_queue d' = sd_evt_queue d" and "sd_active_session d' = sd_active_session d"
  | b' c where "res = Inr ()" and "i < length (ss_buffers s)"
      and "set_state chk K (Outgoing (ucast (ss_iteration s)))
        ((ss_buffers s ! i)\<lparr>buf_v4l2 := vb_set_bytesused K (buf_v4l2 (ss_buffers s ! i)) BUFFER_SIZE\<rparr>) = Some b'"
      and "add_ov chk (ss_iteration s) 1 = Some c"
      and "s' = s\<lparr>ss_buffers := (ss_buffers s)[i := b'], ss_iteration := c\<rparr>"
      and "sd_mmap_manager d' = sd_mmap_manager d" and "sd_active_session d' = sd_active_session d"
      and "sd_evt_queue d' = sd_evt_queue d @ [DequeueBuffer (DequeueBufferEvent_new (ss_id s) (buf_v4l2 b'))]"
proof (cases "i < length (ss_buffers s)")
  case False
  with assms show ?thesis by (intro that(1)) (auto simp: process_buffer_def vec_get_def)
next
  case True
  let ?f = "as_file (buf_fd (ss_buffers s ! i))"
  obtain os1 r1 where seek: "os_seek_start OS ?f (sd_os d) = (os1, r1)" by force
  obtain os2 r2 where wr: "os_write OS ?f (frame_bytes (ucast (ss_iteration s))) os1 = (os2, r2)" by force
  show ?thesis
  proof (cases "isl r1 \<or> isl r2")
    case True
    with assms seek wr \<open>i < length (ss_buffers s)\<close> show ?thesis
      by (cases r1; cases r2) (auto simp: process_buffer_def vec_get_def Let_def intro: that(1))
  next
    case False
    with assms seek wr \<open>i < length (ss_buffers s)\<close> show ?thesis
      by (cases r1; cases r2)
        (auto simp: process_buffer_def vec_get_def Let_def send_event_def elim!: bind_SomeE intro: that(2))
  qed
qed

lemma process_buffer_inv:
  assumes "vb_laws K" and "sess_inv K (s\<lparr>ss_queued_buffers := i # q\<rparr>)"
    and "process_buffer chk K OS i d (s\<lparr>ss_queued_buffers := q\<rparr>) = Some (d', s', res)"
  shows "sess_inv K s' \<and> ss_queued_buffers s' = q"
  using assms(3)
proof (cases rule: process_buffer_cases)
  case 1
  with assms(2) show ?thesis by (simp add: sess_inv_def)
next
  case (2 b' c)
  have "buffer_inv K i b'"
    by (rule set_state_inv [OF assms(1) 2(3)]) (use assms(2) 2(2) in \<open>auto simp: sess_inv_def buffer_inv_def vb_laws_index [OF assms(1)]\<close>)
  with assms(2) 2 show ?thesis
    by (auto simp: sess_inv_def nth_list_update)
qed

lemma process_queue_inv:
  assumes "vb_laws K"
  shows "sess_inv K (s\<lparr>ss_queued_buffers := q\<rparr>) \<Longrightarrow> process_queue chk K OS q d s = Some (d', s', res) \<Longrightarrow>
    sess_inv K s'"
proof (induction q arbitrary: d s)
  case (Cons i q)
  from Cons.prems(2) obtain d1 s1 res1 where
    p: "process_buffer chk K OS i d (s\<lparr>ss_queued_buffers := q\<rparr>) = Some (d1, s1, res1)"
    and r: "(case res1 of Inl e \<Rightarrow> Some (d1, s1, Inl e) | Inr _ \<Rightarrow> process_queue chk K OS q d1 s1) = Some (d', s', res)"
    by (auto elim!: bind_SomeE)
  from process_buffer_inv [OF assms Cons.prems(1) p]
  have s1: "sess_inv K s1" "ss_queued_buffers s1 = q" by simp_all
  then have "s1\<lparr>ss_queued_buffers := q\<rparr> = s1" by simp
  with s1 r Cons.IH [of s1 d1] show ?case by (auto split: sum.splits)
qed simp

lemma process_queue_mgr:
  "process_queue chk K OS q d s = Some (d', s', res) \<Longrightarrow>
   sd_mmap_manager d' = sd_mmap_manager d \<and> sd_active_session d' = sd_active_session d \<and> ss_id s' = ss_id s"
proof (induction q arbitrary: d s)
  case (Cons i q)
  from Cons.prems obtain d1 s1 res1 where
    p: "process_buffer chk K OS i d (s\<lparr>ss_queued_buffers := q\<rparr>) = Some (d1, s1, res1)"
    and r: "(case res1 of Inl e \<Rightarrow> Some (d1, s1, Inl e) | Inr _ \<Rightarrow> process_queue chk K OS q d1 s1) = Some (d', s', res)"
    by (auto elim!: bind_SomeE)
  from p have "sd_mmap_manager d1 = sd_mmap_manager d \<and> sd_active_session d1 = sd_active_session d \<and> ss_id s1 = ss_id s"
    by (cases rule: process_buffer_cases) auto
  with r Cons.IH [of d1 s1] show ?case by (auto split: sum.splits)
qed auto

section \<open>Allocating buffers\<close>

lemma alloc_buffer_Inr:
  assumes "mgr_inv (sd_mmap_manager d)" and "alloc_buffer chk K OS i d = Some (d', Inr b)"
  shows "mgr_inv (sd_mmap_manager d')" and "mgr_map (sd_mmap_manager d) (buf_offset b) = None"
    and "mgr_map (sd_mmap_manager d') =
      (mgr_map (sd_mmap_manager d))(buf_offset b \<mapsto> MmapBuffer_new (buf_offset b) BUFFER_SIZE)"
    and "buf_state b = New" and "vb_laws K \<Longrightarrow> buffer_inv K (unat i) b"
    and "sd_active_session d' = sd_active_session d" and "sd_evt_queue d' = sd_evt_queue d"
proof -
  from assms(2) obtain os1 fd mgr v where
    reg: "register_buffer chk (sd_mmap_manager d) None BUFFER_SIZE = Some (mgr, Inr (buf_offset b))"
    and d': "d' = d\<lparr>sd_os := os1, sd_mmap_manager := mgr\<rparr>"
    and v: "vb_set_mmap_plane K (vb_new K VideoCapture i Mmap) (buf_offset b) BUFFER_SIZE = Some v"
    and b: "buf_state b = New"
      "buf_v4l2 b = vb_set_flags K (vb_set_field K v (FIELD_NONE K)) (BUF_TIMESTAMP_MONOTONIC K)"
    by (cases "MemFdBuffer_new OS (ucast BUFFER_SIZE) (sd_os d)")
      (auto simp: alloc_buffer_def Let_def elim!: bind_SomeE split: sum.split_asm)
  note r = register_buffer_Inr [OF assms(1) reg]
  show "mgr_inv (sd_mmap_manager d')" "mgr_map (sd_mmap_manager d) (buf_offset b) = None"
      "mgr_map (sd_mmap_manager d') =
        (mgr_map (sd_mmap_manager d))(buf_offset b \<mapsto> MmapBuffer_new (buf_offset b) BUFFER_SIZE)"
      "buf_state b = New" "sd_active_session d' = sd_active_session d" "sd_evt_queue d' = sd_evt_queue d"
    using r b by (simp_all add: d')
  assume K: "vb_laws K"
  obtain v' rest where "vb_set_mmap_plane K (vb_new K VideoCapture i Mmap) (buf_offset b) BUFFER_SIZE = Some v'"
      "vb_index K v' = i"
    by (rule vb_laws_mmap_plane [OF K])
  with v b vb_laws_queued(2) [OF K] show "buffer_inv K (unat i) b"
    by (simp add: buffer_inv_def vb_queued_def vb_laws_simps [OF K] vb_laws_index [OF K])
qed

lemma alloc_buffer_inv:
  assumes "mgr_inv (sd_mmap_manager d)" and "alloc_buffer chk K OS i d = Some (d', res)"
  shows "mgr_inv (sd_mmap_manager d')"
proof -
  obtain os1 r where os: "MemFdBuffer_new OS (ucast BUFFER_SIZE) (sd_os d) = (os1, r)" by force
  with assms register_buffer_inv [OF assms(1)] show ?thesis
    by (cases r) (auto simp: alloc_buffer_def Let_def elim!: bind_SomeE split: sum.split_asm)
qed

lemma alloc_buffers_inv:
  "mgr_inv (sd_mmap_manager d) \<Longrightarrow> alloc_buffers chk K OS is d = Some (d', res) \<Longrightarrow> mgr_inv (sd_mmap_manager d')"
proof (induction "is" arbitrary: d res)
  case (Cons i "is")
  from Cons.prems(2) obtain d1 r1 where a: "alloc_buffer chk K OS i d = Some (d1, r1)" by (auto elim!: bind_SomeE)
  note d1 = alloc_buffer_inv [OF Cons.prems(1) a]
  show ?case
  proof (cases r1)
    case (Inl e)
    with Cons.prems a d1 show ?thesis by simp
  next
    case (Inr b)
    with Cons.prems(2) a obtain r2 where "alloc_buffers chk K OS is d1 = Some (d', r2)" by (auto elim!: bind_SomeE)
    with Cons.IH [OF d1] show ?thesis by blast
  qed
qed simp

text \<open>
  What a successful allocation gives: a buffer per index, all at different offsets that were free
  before and are registered afterwards; the other entries of the manager do not change.
\<close>

definition allocated ::
  "'vb v4l2r \<Rightarrow> u32 list \<Rightarrow> (u32 \<rightharpoonup> MmapBuffer) \<Rightarrow> (u32 \<rightharpoonup> MmapBuffer) \<Rightarrow> 'vb Buffer list \<Rightarrow> bool"
where
  "allocated K is \<sigma> \<sigma>' bs \<longleftrightarrow> length bs = length is \<and> distinct (map buf_offset bs) \<and>
     (\<forall>b \<in> set bs. buf_state b = New \<and> \<sigma> (buf_offset b) = None \<and>
        \<sigma>' (buf_offset b) = Some (MmapBuffer_new (buf_offset b) BUFFER_SIZE)) \<and>
     (\<forall>off. off \<notin> buf_offset ` set bs \<longrightarrow> \<sigma>' off = \<sigma> off) \<and>
     (vb_laws K \<longrightarrow> (\<forall>k < length is. buffer_inv K (unat (is ! k)) (bs ! k)))"

lemma alloc_buffers_allocated:
  "mgr_inv (sd_mmap_manager d) \<Longrightarrow> alloc_buffers chk K OS is d = Some (d', Inr bs) \<Longrightarrow>
   allocated K is (mgr_map (sd_mmap_manager d)) (mgr_map (sd_mmap_manager d')) bs \<and>
   sd_active_session d' = sd_active_session d \<and> sd_evt_queue d' = sd_evt_queue d"
proof (induction "is" arbitrary: d bs)
  case Nil
  then show ?case by (simp add: allocated_def)
next
  case (Cons i "is")
  from Cons.prems(2) obtain d1 b res' where
    a: "alloc_buffer chk K OS i d = Some (d1, Inr b)" and
    rs: "alloc_buffers chk K OS is d1 = Some (d', res')" "map_sum id (\<lambda>bs. b # bs) res' = Inr bs"
    by (auto elim!: bind_SomeE split: result_splits)
  then obtain cs where cs: "res' = Inr cs" "bs = b # cs" by (cases res') auto
  note one = alloc_buffer_Inr [OF Cons.prems(1) a]
  from Cons.IH [OF one(1)] rs(1) cs
  have IH: "allocated K is (mgr_map (sd_mmap_manager d1)) (mgr_map (sd_mmap_manager d')) cs"
      "sd_active_session d' = sd_active_session d1" "sd_evt_queue d' = sd_evt_queue d1" by auto
  have fresh: "buf_offset b \<notin> buf_offset ` set cs"
    using IH(1) one(3) by (auto simp: allocated_def)
  have "mgr_map (sd_mmap_manager d) (buf_offset c) = None" if "c \<in> set cs" for c
    using IH(1) one(3) that fresh by (auto simp: allocated_def split: if_splits)
  moreover have "mgr_map (sd_mmap_manager d') (buf_offset b) = Some (MmapBuffer_new (buf_offset b) BUFFER_SIZE)"
    using IH(1) one(3) fresh by (auto simp: allocated_def)
  moreover have "buffer_inv K (unat ((i # is) ! k)) ((b # cs) ! k)" if "vb_laws K" "k < length (i # is)" for k
    using IH(1) one(5) [OF that(1)] that by (cases k) (auto simp: allocated_def)
  ultimately have "allocated K (i # is) (mgr_map (sd_mmap_manager d)) (mgr_map (sd_mmap_manager d')) bs"
    using IH(1) one(2,3,4) fresh unfolding cs(2) allocated_def by simp
  with IH one show ?case by simp
qed

section \<open>What the methods keep\<close>

lemma process_queue_length:
  "process_queue chk K OS q d s = Some (d', s', res) \<Longrightarrow> length (ss_buffers s') = length (ss_buffers s)"
proof (induction q arbitrary: d s)
  case (Cons i q)
  from Cons.prems obtain d1 s1 res1 where
    p: "process_buffer chk K OS i d (s\<lparr>ss_queued_buffers := q\<rparr>) = Some (d1, s1, res1)"
    and r: "(case res1 of Inl e \<Rightarrow> Some (d1, s1, Inl e) | Inr _ \<Rightarrow> process_queue chk K OS q d1 s1) = Some (d', s', res)"
    by (auto elim!: bind_SomeE)
  from p have "length (ss_buffers s1) = length (ss_buffers s)"
    by (cases rule: process_buffer_cases) auto
  with r Cons.IH [of d1 s1] show ?case by (auto split: sum.splits)
qed auto

text \<open>
  The state of the device and of one session that the ioctls keep. A session that has buffers is
  the active one; a session \<open>busy\<close> that was active before stays active while another session
  runs its ioctls.
\<close>

definition simple_I :: "'vb v4l2r \<Rightarrow> u32 \<Rightarrow> u32 option \<Rightarrow> ('m, 'vb, 'w) SimpleCaptureDevice \<Rightarrow>
    'vb SimpleCaptureDeviceSession \<Rightarrow> bool"
where
  "simple_I K sid busy d s \<longleftrightarrow> mgr_inv (sd_mmap_manager d) \<and> ss_id s = sid \<and> (vb_laws K \<longrightarrow> sess_inv K s) \<and>
     (ss_buffers s \<noteq> [] \<longrightarrow> sd_active_session d = Some sid) \<and>
     (\<forall>other. busy = Some other \<longrightarrow> other \<noteq> sid \<longrightarrow> sd_active_session d = Some other)"

lemma process_queued_buffers_keeps:
  assumes "simple_I K sid busy d s" and "process_queued_buffers chk K OS d s = Some (d', s', res)"
  shows "simple_I K sid busy d' s'"
proof -
  note p = assms(2) [unfolded process_queued_buffers_def]
  have "s\<lparr>ss_queued_buffers := ss_queued_buffers s\<rparr> = s" by simp
  with process_queue_inv [OF _ _ p] assms(1)
  have "vb_laws K \<longrightarrow> sess_inv K s'" by (simp add: simple_I_def)
  with process_queue_mgr [OF p] process_queue_length [OF p] assms(1) show ?thesis
    by (auto simp: simple_I_def)
qed

lemma simple_I_streaming [simp]: "simple_I K sid busy d (s\<lparr>ss_streaming := x\<rparr>) = simple_I K sid busy d s"
  by (simp add: simple_I_def)

lemma streamon_keeps: "rw_keeps (simple_I K sid busy) (simple_streamon chk K OS queue)"
  by (auto simp: rw_keeps_def simple_streamon_def split: if_splits)
    (erule process_queued_buffers_keeps [rotated], simp)

lemma streamoff_keeps: "rw_keeps (simple_I K sid busy) (simple_streamoff chk K queue)"
proof -
  have "simple_I K sid busy d (s\<lparr>ss_streaming := False, ss_queued_buffers := [], ss_buffers := bufs\<rparr>)"
    if "simple_I K sid busy d s" "those (map (set_state chk K New) (ss_buffers s)) = Some bufs" for d s bufs
    using that sess_inv_reset [OF _ _ that(2)] reset_buffers(1) [OF that(2)]
    by (auto simp: simple_I_def sess_inv_def)
  then show ?thesis
    by (auto simp: rw_keeps_def simple_streamoff_def elim!: bind_SomeE split: if_splits)
qed

lemma qbuf_inv:
  assumes "vb_laws K" and "sess_inv K s" and "i < length (ss_buffers s)"
    and "buf_state (ss_buffers s ! i) \<noteq> Incoming" and "set_state chk K Incoming (ss_buffers s ! i) = Some b"
  shows "sess_inv K (s\<lparr>ss_buffers := (ss_buffers s)[i := b], ss_queued_buffers := ss_queued_buffers s @ [i]\<rparr>)"
proof -
  have "buffer_inv K i b"
    by (rule set_state_inv [OF assms(1,5)]) (use assms(2,3) in \<open>simp add: sess_inv_def buffer_inv_def\<close>)
  with assms(2,3,4) set_state_same [OF assms(5)] show ?thesis
    by (auto simp: sess_inv_def nth_list_update)
qed

lemma qbuf_keeps: "rw_keeps (simple_I K sid busy) (simple_qbuf chk K OS b regions)"
  unfolding rw_keeps_def
proof (intro allI impI)
  fix d s d' s' x
  assume I: "simple_I K sid busy d s" and run: "simple_qbuf chk K OS b regions d s = Some (d', s', x)"
  let ?i = "unat (vb_index K b)"
  show "simple_I K sid busy d' s'"
  proof (cases "?i < length (ss_buffers s) \<and> buf_state (ss_buffers s ! ?i) \<noteq> Incoming")
    case False
    with I run show ?thesis by (auto simp: simple_qbuf_def vec_get_def Let_def split: if_splits)
  next
    case True
    with run obtain h where h: "set_state chk K Incoming (ss_buffers s ! ?i) = Some h"
      by (auto simp: simple_qbuf_def vec_get_def Let_def elim!: bind_SomeE)
    let ?s1 = "s\<lparr>ss_buffers := (ss_buffers s)[?i := h], ss_queued_buffers := ss_queued_buffers s @ [?i]\<rparr>"
    have I1: "simple_I K sid busy d ?s1"
      using I True qbuf_inv [OF _ _ _ _ h] by (auto simp: simple_I_def)
    show ?thesis
    proof (cases "ss_streaming s")
      case False
      with run True h I1 show ?thesis by (auto simp: simple_qbuf_def vec_get_def Let_def)
    next
      case st: True
      with run True h obtain x' where "process_queued_buffers chk K OS d ?s1 = Some (d', s', x')"
        by (auto simp: simple_qbuf_def vec_get_def Let_def elim!: bind_SomeE)
      then show ?thesis by (rule process_queued_buffers_keeps [OF I1])
    qed
  qed
qed

subsection \<open>Requesting buffers\<close>

text \<open>The conditions under which \<open>reqbufs\<close> goes ahead.\<close>

definition may_request :: "QueueType \<Rightarrow> MemoryType \<Rightarrow> ('m, 'vb, 'w) SimpleCaptureDevice \<Rightarrow>
    'vb SimpleCaptureDeviceSession \<Rightarrow> bool"
where
  "may_request queue memory d s \<longleftrightarrow> queue = VideoCapture \<and> memory = Mmap \<and> \<not> ss_streaming s \<and>
     (sd_active_session d = None \<or> sd_active_session d = Some (ss_id s))"

lemma reqbufs_refused:
  "\<not> may_request queue memory d s \<Longrightarrow>
   \<exists>e \<in> {EINVAL, EBUSY}. simple_reqbufs chk K OS queue memory count flags d s = Some (d, s, Inl e)"
  by (auto simp: may_request_def simple_reqbufs_def split: option.splits)

text \<open>The device and the buffers between the reset of the old buffers and the allocation of the new ones.\<close>

lemma reqbufs_allowed:
  assumes "may_request queue memory d s"
    and "simple_reqbufs chk K OS queue memory count flags d s = Some (d', s', res)"
  obtains old d3 bufs where "those (map (set_state chk K New) (ss_buffers s)) = Some old"
    and "alloc_buffers chk K OS (map of_nat [0..<unat (min count 32)])
      (d\<lparr>sd_active_session := (if count = 0 then None else Some (ss_id s)),
         sd_mmap_manager := unregister_all (sd_mmap_manager d) (map buf_offset old)\<rparr>) = Some (d3, bufs)"
    and "d' = d3" and "s' = s\<lparr>ss_queued_buffers := [], ss_buffers := (case bufs of Inl e \<Rightarrow> old | Inr bs \<Rightarrow> bs)\<rparr>"
    and "res = map_sum id (\<lambda>_. reqbufs_response K (min count 32) queue memory 0) bufs"
proof -
  obtain old where old: "those (map (set_state chk K New) (ss_buffers s)) = Some old"
    using reset_buffers_total by blast
  have st: "\<not> ss_streaming s" and qm: "queue = VideoCapture" "memory = Mmap"
    and act: "sd_active_session d = None \<or> sd_active_session d = Some (ss_id s)"
    using assms(1) by (simp_all add: may_request_def)
  let ?d = "d\<lparr>sd_active_session := (if count = 0 then None else Some (ss_id s)),
         sd_mmap_manager := unregister_all (sd_mmap_manager d) (map buf_offset old)\<rparr>"
  let ?is = "map of_nat [0..<unat (min count 32)] :: u32 list"
  have off: "s\<lparr>ss_streaming := False, ss_queued_buffers := [], ss_buffers := bs\<rparr> =
      s\<lparr>ss_queued_buffers := [], ss_buffers := bs\<rparr>" for bs
    using st by (simp add: SimpleCaptureDeviceSession.equality)
  have run: "simple_reqbufs chk K OS queue memory count flags d s =
      (case alloc_buffers chk K OS ?is ?d of None \<Rightarrow> None
       | Some (d3, Inl e) \<Rightarrow> Some (d3, s\<lparr>ss_queued_buffers := [], ss_buffers := old\<rparr>, Inl e)
       | Some (d3, Inr bs) \<Rightarrow> Some (d3, s\<lparr>ss_queued_buffers := [], ss_buffers := bs\<rparr>,
           Inr (reqbufs_response K (min count 32) queue memory 0)))"
  proof (cases "count = 0")
    case True
    then show ?thesis
      using old st act by (auto simp: simple_reqbufs_def simple_streamoff_def qm off)
  next
    case False
    then show ?thesis
      using old st act
      by (auto simp: simple_reqbufs_def qm Let_def split: option.splits sum.splits)
  qed
  with assms(2) old that show thesis by (auto split: option.splits sum.splits)
qed

lemma alloc_buffers_session:
  "alloc_buffers chk K OS is d = Some (d', res) \<Longrightarrow> sd_active_session d' = sd_active_session d"
proof (induction "is" arbitrary: d res)
  case (Cons i "is")
  from Cons.prems obtain d1 r1 where a: "alloc_buffer chk K OS i d = Some (d1, r1)" by (auto elim!: bind_SomeE)
  obtain os1 r where os: "MemFdBuffer_new OS (ucast BUFFER_SIZE) (sd_os d) = (os1, r)" by force
  with a have d1: "sd_active_session d1 = sd_active_session d"
    by (cases r) (auto simp: alloc_buffer_def Let_def elim!: bind_SomeE split: sum.split_asm)
  show ?case
  proof (cases r1)
    case (Inl e)
    with Cons.prems a d1 show ?thesis by simp
  next
    case (Inr b)
    with Cons.prems a obtain r2 where "alloc_buffers chk K OS is d1 = Some (d', r2)" by (auto elim!: bind_SomeE)
    with Cons.IH d1 show ?thesis by metis
  qed
qed simp

lemma indices_nth: "count \<le> 32 \<Longrightarrow> k < unat count \<Longrightarrow>
    unat ((map of_nat [0..<unat (count :: u32)] :: u32 list) ! k) = k"
  by (simp add: word_le_nat_alt unat_of_nat)

lemma reqbufs_keeps: "rw_keeps (simple_I K sid busy) (simple_reqbufs chk K OS queue memory count flags)"
  unfolding rw_keeps_def
proof (intro allI impI)
  fix d s d' s' x
  assume I: "simple_I K sid busy d s"
    and run: "simple_reqbufs chk K OS queue memory count flags d s = Some (d', s', x)"
  show "simple_I K sid busy d' s'"
  proof (cases "may_request queue memory d s")
    case False
    with reqbufs_refused [OF False, of chk K OS count flags] I run show ?thesis by auto
  next
    case True
    obtain old bufs where old: "those (map (set_state chk K New) (ss_buffers s)) = Some old"
      and al: "alloc_buffers chk K OS (map of_nat [0..<unat (min count 32)])
        (d\<lparr>sd_active_session := (if count = 0 then None else Some (ss_id s)),
           sd_mmap_manager := unregister_all (sd_mmap_manager d) (map buf_offset old)\<rparr>) = Some (d', bufs)"
      and s': "s' = s\<lparr>ss_queued_buffers := [], ss_buffers := (case bufs of Inl e \<Rightarrow> old | Inr bs \<Rightarrow> bs)\<rparr>"
      by (rule reqbufs_allowed [OF True run]) blast
    have m: "mgr_inv (unregister_all (sd_mmap_manager d) (map buf_offset old))"
      using I by (simp add: simple_I_def unregister_all_inv)
    from alloc_buffers_inv [OF _ al] m have m': "mgr_inv (sd_mmap_manager d')" by simp
    have act: "sd_active_session d' = (if count = 0 then None else Some (ss_id s))"
      using alloc_buffers_session [OF al] by simp
    have none: "\<nexists>other. busy = Some other \<and> other \<noteq> sid"
      using I True by (auto simp: simple_I_def may_request_def)
    have empty: "count = 0 \<Longrightarrow> bufs = Inr []" using al by simp
    have c32: "min count 32 \<le> 32" by simp
    have inv: "sess_inv K s'" if K: "vb_laws K"
    proof (cases bufs)
      case (Inl e)
      with sess_inv_reset [OF K _ old] I K show ?thesis by (simp add: s' simple_I_def)
    next
      case (Inr bs)
      from alloc_buffers_allocated [OF _ al [unfolded Inr]] m
      have "length bs = unat (min count 32)" "\<forall>k < unat (min count 32). buffer_inv K k (bs ! k)"
        using K indices_nth [OF c32] by (simp_all add: allocated_def)
      with c32 show ?thesis by (simp add: s' Inr sess_inv_def word_le_nat_alt)
    qed
    show ?thesis
      using m' act none empty inv I by (auto simp: simple_I_def s')
  qed
qed

section \<open>The device keeps its contracts\<close>

lemmas simple_method_defs = simple_enum_fmt_def simple_g_fmt_def simple_s_fmt_def simple_try_fmt_def
  simple_g_parm_def simple_s_parm_def simple_querybuf_def simple_g_input_def simple_s_input_def
  simple_enuminput_def simple_enum_framesizes_def simple_enum_frameintervals_def

interpretation simple_handler: ioctl_handler "simple_handler chk K OS" "simple_I K sid busy" for chk K OS sid busy
  by unfold_locales
    (simp_all add: simple_handler_def default_handler_def streamon_keeps streamoff_keeps qbuf_keeps reqbufs_keeps,
     simp_all add: ro_keeps_def rw_keeps_def simple_method_defs)

text \<open>
  Of all the open sessions at once: every session is stored under its identifier and keeps its
  invariant, and a session that has buffers is the active one.
\<close>

definition simple_inv :: "'vb v4l2r \<Rightarrow> ('m, 'vb, 'w) SimpleCaptureDevice \<Rightarrow>
    (u32 \<rightharpoonup> 'vb SimpleCaptureDeviceSession) \<Rightarrow> bool"
where
  "simple_inv K d ss \<longleftrightarrow> mgr_inv (sd_mmap_manager d) \<and>
     (\<forall>sid s. ss sid = Some s \<longrightarrow> ss_id s = sid \<and> (vb_laws K \<longrightarrow> sess_inv K s) \<and>
        (ss_buffers s \<noteq> [] \<longrightarrow> sd_active_session d = Some sid))"

lemma simple_inv_I:
  "simple_inv K d ss \<Longrightarrow> ss sid = Some s \<Longrightarrow> simple_I K sid (sd_active_session d) d s"
  by (auto simp: simple_inv_def simple_I_def)

lemma simple_I_inv:
  assumes "simple_inv K d ss" and "simple_I K sid (sd_active_session d) d' s'"
  shows "simple_inv K d' (ss(sid \<mapsto> s'))"
  using assms by (auto simp: simple_inv_def simple_I_def)

interpretation simple_device: media_device "simple_device chk K OS hm" "simple_inv K" for chk K OS hm
proof (unfold_locales, goal_cases)
  case (1 d ss sid d' res)
  then show ?case
    by (auto simp: simple_device_def simple_new_session_def simple_inv_def sess_inv_def)
next
  case (2 d ss sid s d')
  then show ?case
    by (auto simp: simple_device_def simple_close_session_def simple_inv_def unregister_all_inv)
next
  case (3 d ss sid s ioctl r w d' s' r' w' x)
  have "fn_keeps (simple_I K sid (sd_active_session d)) (dev_do_ioctl (simple_device chk K OS hm) ioctl)"
    by (simp add: simple_device_def simple_handler.dispatch_keeps)
  with simple_inv_I [OF 3(1,2)] 3(3) show ?case
    unfolding fn_keeps_def by (intro simple_I_inv [OF 3(1)]) blast
next
  case (4 d ss sid s fl off d' s' res')
  from simple_inv_I [OF 4(1,2)] 4(3) show ?case
    by (intro simple_I_inv [OF 4(1)])
      (auto simp: simple_device_def simple_do_mmap_def simple_I_def create_mapping_inv elim!: bind_SomeE
        split: option.splits)
next
  case (5 d ss addr d' res'')
  then show ?case
    by (auto simp: simple_device_def simple_do_munmap_def simple_inv_def remove_mapping_inv elim!: bind_SomeE)
next
  case (6 d ss sid s d' s' res)
  then show ?case by (simp add: simple_device_def default_process_events_def)
next
  case (7 ioctl)
  show ?case by (simp add: simple_device_def answers_dispatch)
qed

section \<open>Delivery of the queued buffers\<close>

lemma small_sequence:
  assumes "unat (x :: u64) + n < 2 ^ 32" and "0 < n"
  shows "add_ov chk (ucast x :: u32) 1 = Some (ucast x + 1)" and "add_ov chk x 1 = Some (x + 1)"
    and "unat (x + 1) = unat x + 1"
proof -
  have "unat x < 2 ^ 32" using assms by simp
  then have u: "unat (ucast x :: u32) = unat x" by (simp add: unsigned_ucast_eq take_bit_nat_eq_self)
  show "add_ov chk (ucast x :: u32) 1 = Some (ucast x + 1)" "add_ov chk x 1 = Some (x + 1)"
    using assms u by (simp_all add: add_ov_no_overflow)
  show "unat (x + 1) = unat x + 1" using assms by (simp add: unat_word_ariths)
qed

text \<open>The calls on the backing files succeed.\<close>

definition os_ok :: "'w Os \<Rightarrow> bool" where
  "os_ok OS \<longleftrightarrow> (\<forall>f w. snd (os_seek_start OS f w) = Inr ()) \<and> (\<forall>f bytes w. snd (os_write OS f bytes w) = Inr ())"

text \<open>
  What the guest reads in a buffer that carries the frame with number \<open>n\<close>: this sequence number, the
  size of a frame, \<open>n + 1\<close> split by 1000 into the two parts of the time stamp, no mark of a queued buffer, and
  the index of the buffer the guest had queued.
\<close>

definition stamped :: "'vb v4l2r \<Rightarrow> nat \<Rightarrow> 'vb \<Rightarrow> 'vb \<Rightarrow> bool" where
  "stamped K n v v' \<longleftrightarrow> vb_sequence K v' = of_nat n \<and> vb_bytesused K v' = BUFFER_SIZE \<and>
     unat (tv_sec (vb_timestamp K v')) = (n + 1) div 1000 \<and> unat (tv_usec (vb_timestamp K v')) = (n + 1) mod 1000 \<and>
     \<not> vb_queued K v' \<and> vb_index K v' = vb_index K v"

lemma set_state_stamped:
  assumes "vb_laws K" and "vb_stamp_laws K" and "unat x + 1 < 2 ^ 32"
    and "set_state chk K (Outgoing (ucast (x :: u64))) (b\<lparr>buf_v4l2 := vb_set_bytesused K v n\<rparr>) = Some b'"
  shows "stamped K (unat x) v (buf_v4l2 b')"
proof -
  let ?sq = "ucast x :: u32"
  have sq: "?sq = of_nat (unat x)" by simp
  have n: "unat (ucast (?sq + 1) :: u64) = unat x + 1"
    using assms(3) by (simp add: unsigned_ucast_eq unat_word_ariths take_bit_nat_eq_self)
  from assms(4) obtain c where c: "add_ov chk ?sq 1 = Some c"
    and b': "buf_v4l2 b' = vb_set_flags K (vb_set_timestamp K (vb_set_sequence K (vb_set_bytesused K (vb_set_bytesused K v n) BUFFER_SIZE) ?sq)
        \<lparr>tv_sec = ucast c div 1000, tv_usec = ucast c mod 1000\<rparr>)
        (vb_flags K (vb_set_bytesused K v n) AND NOT (BUF_QUEUED K))"
    by (auto simp: set_state_def Let_def elim!: bind_SomeE)
  have "c = ?sq + 1" using c by (auto simp: add_ov_def split: if_splits)
  with n have "unat (ucast c div 1000 :: u64) = (unat x + 1) div 1000" "unat (ucast c mod 1000 :: u64) = (unat x + 1) mod 1000"
    by (simp_all add: unat_div unat_mod)
  moreover have "\<not> vb_queued K (buf_v4l2 b')"
    using b' by (simp add: vb_queued_def vb_laws_simps [OF assms(1)])
  ultimately show ?thesis
    using b' assms(2) by (simp add: stamped_def vb_stamp_laws_def vb_laws_index [OF assms(1)] del: sq)
qed

lemma process_buffer_ok:
  assumes "vb_laws K" and "vb_stamp_laws K" and "os_ok OS" and "i < length (ss_buffers s)"
    and "unat (ss_iteration s) + n < 2 ^ 32" and "0 < n"
  obtains b where "process_buffer chk K OS i d s =
      Some (d\<lparr>sd_os := fst (os_write OS (as_file (buf_fd (ss_buffers s ! i))) (frame_bytes (of_nat (unat (ss_iteration s))))
            (fst (os_seek_start OS (as_file (buf_fd (ss_buffers s ! i))) (sd_os d)))),
          sd_evt_queue := sd_evt_queue d @ [DequeueBuffer (DequeueBufferEvent_new (ss_id s) (buf_v4l2 b))]\<rparr>,
        s\<lparr>ss_buffers := (ss_buffers s)[i := b], ss_iteration := ss_iteration s + 1\<rparr>, Inr ())"
    and "buf_state b = Outgoing (of_nat (unat (ss_iteration s)))"
    and "stamped K (unat (ss_iteration s)) (buf_v4l2 (ss_buffers s ! i)) (buf_v4l2 b)"
proof -
  let ?f = "as_file (buf_fd (ss_buffers s ! i))" and ?sq = "ucast (ss_iteration s) :: u32"
  have sq: "of_nat (unat (ss_iteration s)) = ?sq" by simp
  obtain os1 where seek: "os_seek_start OS ?f (sd_os d) = (os1, Inr ())"
    using assms(3) unfolding os_ok_def by (metis prod.collapse)
  obtain os2 where wr: "os_write OS ?f (frame_bytes ?sq) os1 = (os2, Inr ())"
    using assms(3) unfolding os_ok_def by (metis prod.collapse)
  let ?b = "(ss_buffers s ! i)\<lparr>buf_v4l2 := vb_set_bytesused K (buf_v4l2 (ss_buffers s ! i)) BUFFER_SIZE\<rparr>"
  obtain b where b: "set_state chk K (Outgoing ?sq) ?b = Some b"
    by (simp add: set_state_def Let_def small_sequence(1) [OF assms(5,6)])
  have st: "stamped K (unat (ss_iteration s)) (buf_v4l2 (ss_buffers s ! i)) (buf_v4l2 b)"
    by (rule set_state_stamped [OF assms(1,2) _ b]) (use assms(5,6) in simp)
  show thesis
    by (rule that [where b = b], unfold sq)
      (use seek wr b st set_state_same [OF b] assms(4) small_sequence(2) [OF assms(5,6)] in
        \<open>simp_all add: process_buffer_def vec_get_def send_event_def Let_def\<close>)
qed

text \<open>
  What the device does with a list of buffers: into the file of each, from its start, goes the frame
  of the next number; each becomes outgoing with this number, the others stay as they are, and an
  event for each, with the stamps of its frame, follows the events sent before.
\<close>

fun frames_written :: "'w Os \<Rightarrow> nat \<Rightarrow> fd list \<Rightarrow> 'w \<Rightarrow> 'w" where
  "frames_written OS n [] w = w"
| "frames_written OS n (f # fs) w =
     frames_written OS (Suc n) fs (fst (os_write OS f (frame_bytes (of_nat n)) (fst (os_seek_start OS f w))))"

definition delivered ::
  "'vb v4l2r \<Rightarrow> 'w Os \<Rightarrow> nat list \<Rightarrow> ('m, 'vb, 'w) SimpleCaptureDevice \<Rightarrow> 'vb SimpleCaptureDeviceSession \<Rightarrow>
   ('m, 'vb, 'w) SimpleCaptureDevice \<Rightarrow> 'vb SimpleCaptureDeviceSession \<Rightarrow> bool"
where
  "delivered K OS q d s d' s' \<longleftrightarrow>
     length (ss_buffers s') = length (ss_buffers s) \<and> ss_id s' = ss_id s \<and>
     unat (ss_iteration s') = unat (ss_iteration s) + length q \<and> ss_streaming s' = ss_streaming s \<and>
     sd_os d' = frames_written OS (unat (ss_iteration s)) (map (\<lambda>i. as_file (buf_fd (ss_buffers s ! i))) q) (sd_os d) \<and>
     (\<forall>k < length q. buf_state (ss_buffers s' ! (q ! k)) = Outgoing (of_nat (unat (ss_iteration s) + k)) \<and>
        stamped K (unat (ss_iteration s) + k) (buf_v4l2 (ss_buffers s ! (q ! k))) (buf_v4l2 (ss_buffers s' ! (q ! k)))) \<and>
     (\<forall>i. i \<notin> set q \<longrightarrow> ss_buffers s' ! i = ss_buffers s ! i) \<and>
     sd_evt_queue d' = sd_evt_queue d @
       map (\<lambda>i. DequeueBuffer (DequeueBufferEvent_new (ss_id s) (buf_v4l2 (ss_buffers s' ! i)))) q"

lemma process_queue_ok:
  assumes "vb_laws K" and "vb_stamp_laws K" and "os_ok OS"
  shows "distinct q \<Longrightarrow> \<forall>i \<in> set q. i < length (ss_buffers s) \<Longrightarrow> unat (ss_iteration s) + length q < 2 ^ 32 \<Longrightarrow>
    \<exists>d' s'. process_queue chk K OS q d s = Some (d', s', Inr ()) \<and> ss_queued_buffers s' = [] \<and> delivered K OS q d s d' s'"
proof (induction q arbitrary: d s)
  case Nil
  then show ?case by (simp add: delivered_def)
next
  case (Cons i q)
  let ?s = "s\<lparr>ss_queued_buffers := q\<rparr>" and ?f = "as_file (buf_fd (ss_buffers s ! i))"
  obtain b where
    p: "process_buffer chk K OS i d ?s =
      Some (d\<lparr>sd_os := fst (os_write OS ?f (frame_bytes (of_nat (unat (ss_iteration s)))) (fst (os_seek_start OS ?f (sd_os d)))),
          sd_evt_queue := sd_evt_queue d @ [DequeueBuffer (DequeueBufferEvent_new (ss_id s) (buf_v4l2 b))]\<rparr>,
        ?s\<lparr>ss_buffers := (ss_buffers s)[i := b], ss_iteration := ss_iteration s + 1\<rparr>, Inr ())"
      (is "_ = Some (?d1, ?s1, _)")
    and b: "buf_state b = Outgoing (of_nat (unat (ss_iteration s)))"
      "stamped K (unat (ss_iteration s)) (buf_v4l2 (ss_buffers s ! i)) (buf_v4l2 b)"
    by (rule process_buffer_ok [OF assms, of i ?s "length (i # q)" chk d]) (use Cons.prems(2,3) in simp_all)
  have it: "unat (ss_iteration s + 1) = unat (ss_iteration s) + 1"
    using small_sequence(3) [OF Cons.prems(3)] by simp
  have i: "i \<notin> set q" "i < length (ss_buffers s)" using Cons.prems by simp_all
  then have same: "(ss_buffers s)[i := b] ! j = ss_buffers s ! j" if "j \<in> set q" for j using that by (metis nth_list_update_neq)
  obtain d' s' where r: "process_queue chk K OS q ?d1 ?s1 = Some (d', s', Inr ())" "ss_queued_buffers s' = []"
      and del: "delivered K OS q ?d1 ?s1 d' s'"
    using Cons.IH [of ?s1 ?d1] Cons.prems it by auto
  from del i have bi: "ss_buffers s' ! i = b" by (simp add: delivered_def)
  have states: "\<forall>k < length (i # q). buf_state (ss_buffers s' ! ((i # q) ! k)) = Outgoing (of_nat (unat (ss_iteration s) + k)) \<and>
      stamped K (unat (ss_iteration s) + k) (buf_v4l2 (ss_buffers s ! ((i # q) ! k))) (buf_v4l2 (ss_buffers s' ! ((i # q) ! k)))"
  proof (intro allI impI)
    fix k assume "k < length (i # q)"
    then show "buf_state (ss_buffers s' ! ((i # q) ! k)) = Outgoing (of_nat (unat (ss_iteration s) + k)) \<and>
        stamped K (unat (ss_iteration s) + k) (buf_v4l2 (ss_buffers s ! ((i # q) ! k))) (buf_v4l2 (ss_buffers s' ! ((i # q) ! k)))"
      using del b bi it same by (cases k) (auto simp: delivered_def)
  qed
  have files: "map (\<lambda>j. as_file (buf_fd ((ss_buffers s)[i := b] ! j))) q = map (\<lambda>j. as_file (buf_fd (ss_buffers s ! j))) q"
    using same by simp
  have os: "sd_os d' = frames_written OS (unat (ss_iteration s)) (map (\<lambda>j. as_file (buf_fd (ss_buffers s ! j))) (i # q)) (sd_os d)"
    using del it unfolding delivered_def by (simp add: files)
  have "delivered K OS (i # q) d s d' s'"
    unfolding delivered_def by (intro conjI states os) (use del bi i it in \<open>auto simp: delivered_def\<close>)
  with p r show ?case by auto
qed

section \<open>A concrete run\<close>

text \<open>
  A capture device over the example types, an operating system whose calls succeed and the mapper
  of the unit tests; a guest opens a session and requests two buffers.
\<close>

abbreviation cap_device ::
  "((unit, Ex_Buffer, nat) SimpleCaptureDevice, Ex_Buffer SimpleCaptureDeviceSession) VirtioMediaDevice"
where
  "cap_device \<equiv> simple_device True ex_K ex_Os DummyHostMemoryMapper"

definition cap_new :: "(unit, Ex_Buffer, nat) SimpleCaptureDevice" where
  "cap_new = SimpleCaptureDevice_new () 3"

definition cap_session0 :: "Ex_Buffer SimpleCaptureDeviceSession" where
  "cap_session0 = \<lparr>ss_id = 0, ss_iteration = 0, ss_buffers = [], ss_queued_buffers = [], ss_streaming = False\<rparr>"

definition cap_buffer :: "u32 \<Rightarrow> fd \<Rightarrow> u32 \<Rightarrow> Ex_Buffer Buffer" where
  "cap_buffer i f off =
     \<lparr>buf_state = New,
      buf_v4l2 = vb_set_flags ex_K (vb_set_field ex_K
        (the (vb_set_mmap_plane ex_K (vb_new ex_K VideoCapture i Mmap) off BUFFER_SIZE)) (FIELD_NONE ex_K))
        (BUF_TIMESTAMP_MONOTONIC ex_K),
      buf_fd = \<lparr>mfb_file = f, mfb_size = ucast BUFFER_SIZE\<rparr>, buf_offset = off\<rparr>"

definition cap_session :: "Ex_Buffer SimpleCaptureDeviceSession" where
  "cap_session = cap_session0\<lparr>ss_buffers := [cap_buffer 0 3 0, cap_buffer 1 4 0x1000]\<rparr>"

definition cap_dev :: "(unit, Ex_Buffer, nat) SimpleCaptureDevice" where
  "cap_dev = cap_new
     \<lparr>sd_active_session := Some 0, sd_os := 5,
      sd_mmap_manager := \<lparr>buffers = [MmapBuffer_new 0 BUFFER_SIZE, MmapBuffer_new 0x1000 BUFFER_SIZE], mapper = ()\<rparr>\<rparr>"

definition cap_runner ::
  "((unit, Ex_Buffer, nat) SimpleCaptureDevice, Ex_Buffer SimpleCaptureDeviceSession, unit) VirtioMediaDeviceRunner"
where
  "cap_runner = (Runner_new cap_dev ())\<lparr>sessions := [0 \<mapsto> cap_session], session_id_counter := 1\<rparr>"

lemma BUFFER_SIZE_eq: "BUFFER_SIZE = 921600"
  by (simp add: BUFFER_SIZE_def BYTES_PER_LINE_def WIDTH_def HEIGHT_def)

lemma cap_reqbufs:
  "simple_reqbufs True ex_K ex_Os VideoCapture Mmap 2 flags cap_new cap_session0 =
     Some (cap_dev, cap_session, Inr (reqbufs_response ex_K 2 VideoCapture Mmap 0))"
  by (simp add: simple_reqbufs_def cap_new_def cap_session0_def SimpleCaptureDevice_new_def cap_dev_def cap_session_def
      cap_buffer_def alloc_buffer_def MemFdBuffer_new_def ex_Os_def register_buffer_def next_offset_def
      register_buffer_by_offset_def unregister_all_def MmapMappingManager_from_def BUFFER_SIZE_eq
      binary_search_by_key_def bsearch.simps vec_insert_def PAGE_MASK_def PAGE_SIZE_def upt_rec
      next_multiple_of_def add_ov_def MmapBuffer_new_def ex_new_def)

definition reqbufs_payload :: "u8 list" where
  "reqbufs_payload = [2, 0, 0, 0, 1, 0, 0, 0, 1, 0, 0, 0, 0, 0, 0, 0, 0, 0, 0, 0, 0, 0, 0, 0]"

lemma reqbufs_payload_read:
  "read_obj ex_v4l2_requestbuffers reqbufs_payload =
     ([], Inr \<lparr>reqbufs_count = 2, reqbufs_type = 1, reqbufs_memory = 1, reqbufs_capabilities = 0,
              reqbufs_flags = 0, reqbufs_reserved = [0, 0, 0, 0]\<rparr>)"
  by (simp add: read_obj_def read_exact_def into_native_def reqbufs_payload_def ex_v4l2_requestbuffers_def
      wire_iso_def wire_pair_def wire_u32_def wire_int_def wire_bytes_def)

lemma simple_handler_reqbufs: "h_reqbufs (simple_handler chk K OS) = simple_reqbufs chk K OS"
  by (simp add: simple_handler_def)

lemma reqbufs_response_length:
  "length (as_bytes ex_v4l2_requestbuffers (reqbufs_response ex_K n queue memory fl)) = 24"
  by (simp add: reqbufs_response_def ex_v4l2_requestbuffers_def wire_iso_def wire_pair_def wire_u32_def wire_int_def
      wire_bytes_def)

lemma cap_dispatch:
  "\<exists>w'. dev_do_ioctl cap_device VIDIOC_REQBUFS cap_new cap_session0 reqbufs_payload (fresh_writer 32) =
     Some (cap_dev, cap_session, [], w', Inr ())"
  by (simp add: simple_device_def do_VIDIOC_REQBUFS_def wr_ioctl_def wr_ioctl_with_err_payload_def
      reqbufs_payload_read no_payload_def ok_or_def rw_call_def simple_handler_reqbufs cap_reqbufs ex_queue_n_def
      write_output_def w_then_def write_response_def RespHeader.write_fits RespHeader_ok_err write_obj_eq
      reqbufs_response_length)

lemma cap_reachable: "run_reachable cap_device unit_poller cap_new () cap_runner"
proof -
  let ?run = "(Runner_new cap_new ())\<lparr>sessions := [0 \<mapsto> cap_session0], session_id_counter := 1\<rparr>"
  have "handle_command True cap_device unit_poller (Runner_new cap_new ()) open_cmd (fresh_writer 16) =
      Some (?run, [], \<lparr>written = as_bytes wire_OpenResp (OpenResp_ok 0), room = 0\<rparr>)"
    by (simp add: handle_command_def run_command_def cmd_open_def read_commands reply_def add_session_def
        write_response_def OpenResp.write_fits Let_def Runner_new_def simple_device_def simple_new_session_def
        cap_session0_def simple_poll_fd_def add_ov_def)
  then have "run_reachable cap_device unit_poller cap_new () ?run" by (rule run_more [OF run_new])
  moreover obtain w' where "dev_do_ioctl cap_device VIDIOC_REQBUFS cap_new cap_session0 reqbufs_payload (fresh_writer 32) =
     Some (cap_dev, cap_session, [], w', Inr ())"
    using cap_dispatch by blast
  then have "handle_command True cap_device unit_poller ?run (ioctl_cmd 0 (as_u32 VIDIOC_REQBUFS) @ reqbufs_payload)
      (fresh_writer 32) = Some (cap_runner, [], w')"
    using ioctl_step [of ?run 0 cap_session0 "as_u32 VIDIOC_REQBUFS" VIDIOC_REQBUFS]
    by (simp add: V4l2Ioctl_n_as_u32 cap_runner_def Runner_new_def del: as_u32.simps)
  ultimately show ?thesis by (rule run_more)
qed

lemma find_unique_key: "distinct (map f xs) \<Longrightarrow> x \<in> set xs \<Longrightarrow> find (\<lambda>y. f y = f x) xs = Some x"
  by (induction xs) auto

section \<open>Panics\<close>

lemma set_state_unchecked: "set_state False K st b \<noteq> None"
  by (cases st) (simp_all add: set_state_def Let_def)

lemma process_queue_unchecked: "process_queue False K OS q d s \<noteq> None"
proof (induction q arbitrary: d s)
  case (Cons i q)
  have "process_buffer False K OS i d t \<noteq> None" for t
    by (simp add: process_buffer_def Let_def bind_eq_None_conv set_state_unchecked del: not_None_eq
        split: option.splits prod.splits sum.splits)
  then obtain d1 s1 r1 where "process_buffer False K OS i d (s\<lparr>ss_queued_buffers := q\<rparr>) = Some (d1, s1, r1)" by fastforce
  with Cons.IH show ?case by (auto split: sum.splits)
qed simp

lemma alloc_buffers_unchecked:
  assumes "vb_laws K"
  shows "alloc_buffers False K OS is d \<noteq> None"
proof (induction "is" arbitrary: d)
  case (Cons i "is")
  have "alloc_buffer False K OS i d \<noteq> None"
  proof -
    obtain os1 r where os: "MemFdBuffer_new OS (ucast BUFFER_SIZE) (sd_os d) = (os1, r)" by force
    obtain mgr x where reg: "register_buffer False (sd_mmap_manager d) None BUFFER_SIZE = Some (mgr, x)"
      using register_buffer_unchecked by fast
    have "vb_set_mmap_plane K (vb_new K VideoCapture i Mmap) off BUFFER_SIZE \<noteq> None" for off
      using vb_laws_mmap_plane [OF assms] by (metis option.discI)
    with os reg show ?thesis
      by (cases r; cases x) (simp_all add: alloc_buffer_def Let_def bind_eq_None_conv del: not_None_eq)
  qed
  then obtain d1 r1 where "alloc_buffer False K OS i d = Some (d1, r1)" by fast
  with Cons.IH [of d1] show ?case by (cases r1) (auto split: prod.splits)
qed simp

lemma simple_handler_total:
  assumes "vb_laws K"
  shows "handler_total (simple_handler False K OS) d s"
proof -
  obtain old where old: "those (map (set_state False K New) (ss_buffers s)) = Some old"
    using reset_buffers_total by blast
  have soff: "simple_streamoff False K queue d s \<noteq> None" for queue
    by (simp add: simple_streamoff_def old)
  have "simple_reqbufs False K OS queue memory count flags d s \<noteq> None" for queue memory count flags
    by (simp add: simple_reqbufs_def simple_streamoff_def old Let_def bind_eq_None_conv
        alloc_buffers_unchecked [OF assms] del: not_None_eq split: option.splits sum.splits prod.splits)
  moreover have "simple_streamon False K OS queue d s \<noteq> None" for queue
    by (simp add: simple_streamon_def process_queued_buffers_def process_queue_unchecked del: not_None_eq)
  moreover have "simple_qbuf False K OS b regions d s \<noteq> None" for b regions
    by (simp add: simple_qbuf_def process_queued_buffers_def Let_def bind_eq_None_conv set_state_unchecked
        process_queue_unchecked del: not_None_eq split: option.splits prod.splits)
  ultimately show ?thesis
    using soff
    by (simp add: handler_total_def simple_handler_def default_handler_def unhandled_rw_def unhandled_ro_def
        unhandled_ref_def unhandled_rw_ctrls_def unhandled_ro_ctrls_def simple_method_defs del: not_None_eq)
qed

section \<open>Properties\<close>

text \<open>
  C11. One session at a time: after any sequence of commands, every session that has buffers is the
  active one of the device, so at most one session has buffers.
\<close>

theorem simple_exclusive:
  assumes "run_reachable (simple_device True K OS hm) P (SimpleCaptureDevice_new m os) p run"
  shows "{sid. \<exists>s. sessions run sid = Some s \<and> ss_buffers s \<noteq> []} \<subseteq> set_option (sd_active_session (device run))"
proof -
  have "simple_inv K (SimpleCaptureDevice_new m os) Map.empty"
    by (simp add: simple_inv_def SimpleCaptureDevice_new_def)
  from simple_device.reachable_inv [OF assms this] show ?thesis
    by (auto simp: simple_device.run_inv_def simple_inv_def)
qed

theorem simple_exclusive_witness:
  "{sid. \<exists>s. sessions cap_runner sid = Some s \<and> ss_buffers s \<noteq> []} \<subseteq> set_option (sd_active_session (device cap_runner)) \<and>
   sessions cap_runner 0 = Some cap_session \<and> ss_buffers cap_session \<noteq> []"
  using simple_exclusive [OF cap_reachable [unfolded cap_new_def]] by (simp add: cap_runner_def cap_session_def)

text \<open>
  C26. Consistency of the sessions: after any sequence of commands, every session is stored under
  its identifier, has at most 32 buffers, each with the index of its position, and the flag that
  tells the guest that a buffer is queued is set exactly for the buffers the device holds; the queue
  lists such buffers, each once. The MMAP manager is in a valid state.
\<close>

theorem simple_sessions_consistent:
  assumes "vb_laws K" and "run_reachable (simple_device True K OS hm) P (SimpleCaptureDevice_new m os) p run"
    and "sessions run sid = Some s"
  shows "ss_id s = sid \<and> length (ss_buffers s) \<le> 32 \<and>
    (\<forall>i < length (ss_buffers s). unat (vb_index K (buf_v4l2 (ss_buffers s ! i))) = i \<and>
       (vb_queued K (buf_v4l2 (ss_buffers s ! i)) \<longleftrightarrow> buf_state (ss_buffers s ! i) = Incoming)) \<and>
    distinct (ss_queued_buffers s) \<and>
    (\<forall>i \<in> set (ss_queued_buffers s). i < length (ss_buffers s) \<and> buf_state (ss_buffers s ! i) = Incoming) \<and>
    mgr_inv (sd_mmap_manager (device run))"
proof -
  have "simple_inv K (SimpleCaptureDevice_new m os) Map.empty"
    by (simp add: simple_inv_def SimpleCaptureDevice_new_def)
  from simple_device.reachable_inv [OF assms(2) this] assms(1,3) show ?thesis
    by (simp add: simple_device.run_inv_def simple_inv_def sess_inv_def buffer_inv_def)
qed

theorem simple_sessions_consistent_witness:
  "ss_id cap_session = 0 \<and> length (ss_buffers cap_session) = 2 \<and>
    unat (vb_index ex_K (buf_v4l2 (ss_buffers cap_session ! 1))) = 1 \<and>
    (vb_queued ex_K (buf_v4l2 (ss_buffers cap_session ! 1)) \<longleftrightarrow> buf_state (ss_buffers cap_session ! 1) = Incoming) \<and>
    distinct (ss_queued_buffers cap_session) \<and> mgr_inv (sd_mmap_manager (device cap_runner))"
proof -
  have "sessions cap_runner 0 = Some cap_session" "length (ss_buffers cap_session) = 2"
    by (simp_all add: cap_runner_def cap_session_def)
  with simple_sessions_consistent [OF vb_laws_ex_K cap_reachable [unfolded cap_new_def], of 0 cap_session]
  show ?thesis by simp
qed

text \<open>
  C14. Every frame is delivered, in order: with the files writable and the sequence numbers within
  32 bits, processing returns with an empty queue. The frames with the next numbers are written to the files of the
  queued buffers, in the order of the queue; the guest is sent one event per buffer, in the same order, and the buffer in the
  event has the index of the queued buffer, the sequence number and the time stamp of its frame, the
  size of a frame as its used bytes, and is not marked as queued. The other buffers are left alone.
\<close>

theorem simple_delivery:
  assumes "vb_laws K" and "vb_stamp_laws K" and "sess_inv K s" and "os_ok OS"
    and "unat (ss_iteration s) + length (ss_queued_buffers s) < 2 ^ 32"
  shows "\<exists>d' s'. process_queued_buffers chk K OS d s = Some (d', s', Inr ()) \<and> ss_queued_buffers s' = [] \<and>
    delivered K OS (ss_queued_buffers s) d s d' s'"
  unfolding process_queued_buffers_def
  by (rule process_queue_ok) (use assms in \<open>auto simp: sess_inv_def\<close>)

definition queued_session :: "Ex_Buffer SimpleCaptureDeviceSession" where
  "queued_session = cap_session
     \<lparr>ss_buffers := map (\<lambda>b. the (set_state True ex_K Incoming b)) (ss_buffers cap_session),
      ss_queued_buffers := [1, 0], ss_iteration := 41, ss_streaming := True\<rparr>"

theorem simple_delivery_witness:
  "\<exists>d' s' v w. process_queued_buffers True ex_K ex_Os cap_dev queued_session = Some (d', s', Inr ()) \<and>
    ss_queued_buffers s' = [] \<and> sd_evt_queue d' = [DequeueBuffer (DequeueBufferEvent_new 0 v), DequeueBuffer (DequeueBufferEvent_new 0 w)] \<and>
    vb_sequence ex_K v = 41 \<and> vb_index ex_K v = 1 \<and> vb_sequence ex_K w = 42 \<and> vb_index ex_K w = 0"
proof -
  have "sess_inv ex_K queued_session"
    by (simp add: sess_inv_def buffer_inv_def queued_session_def cap_session_def cap_session0_def cap_buffer_def
        set_state_def vb_queued_def ex_new_def less_Suc_eq)
  moreover have "os_ok ex_Os" by (simp add: os_ok_def ex_Os_def)
  moreover have "unat (ss_iteration queued_session) + length (ss_queued_buffers queued_session) < 2 ^ 32"
    by (simp add: queued_session_def)
  ultimately obtain d' s' where p: "process_queued_buffers True ex_K ex_Os cap_dev queued_session = Some (d', s', Inr ())"
    "ss_queued_buffers s' = []" and del: "delivered ex_K ex_Os (ss_queued_buffers queued_session) cap_dev queued_session d' s'"
    using simple_delivery [OF vb_laws_ex_K vb_stamp_laws_ex_K] by blast
  have q: "ss_queued_buffers queued_session = [1, 0]" "unat (ss_iteration queued_session) = 41" "ss_id queued_session = 0"
    "sd_evt_queue cap_dev = []" "vb_index ex_K (buf_v4l2 (ss_buffers queued_session ! 1)) = 1"
    "vb_index ex_K (buf_v4l2 (ss_buffers queued_session ! 0)) = 0"
    by (simp_all add: queued_session_def cap_session_def cap_session0_def cap_dev_def cap_new_def SimpleCaptureDevice_new_def
        cap_buffer_def set_state_def ex_new_def)
  have "stamped ex_K 41 (buf_v4l2 (ss_buffers queued_session ! 1)) (buf_v4l2 (ss_buffers s' ! 1))"
    "stamped ex_K 42 (buf_v4l2 (ss_buffers queued_session ! 0)) (buf_v4l2 (ss_buffers s' ! 0))"
    using del unfolding delivered_def q by (auto simp: less_Suc_eq)
  moreover have "sd_evt_queue d' = [DequeueBuffer (DequeueBufferEvent_new 0 (buf_v4l2 (ss_buffers s' ! 1))),
      DequeueBuffer (DequeueBufferEvent_new 0 (buf_v4l2 (ss_buffers s' ! 0)))]"
    using del unfolding delivered_def q by simp
  ultimately show ?thesis using p q unfolding stamped_def by auto
qed

text \<open>
  \<open>REQBUFS\<close>: when it succeeds, the guest gets the requested number of buffers, at most 32.
  They are new, unmapped and registered under different offsets with the size of a frame, nothing
  is queued, the session becomes the active one, or gives that up when it asked for no buffers; and
  the offsets of the buffers it had before, if not reused, can no longer be mapped.
\<close>

theorem simple_reqbufs_allocates:
  assumes "mgr_inv (sd_mmap_manager d)" and "\<not> ss_streaming s"
    and "sd_active_session d = None \<or> sd_active_session d = Some (ss_id s)"
    and "simple_reqbufs chk K OS VideoCapture Mmap count flags d s = Some (d', s', Inr resp)"
  shows "reqbufs_count resp = min count 32 \<and> length (ss_buffers s') = unat (min count 32) \<and>
    distinct (map buf_offset (ss_buffers s')) \<and>
    (\<forall>b \<in> set (ss_buffers s'). buf_state b = New \<and>
       mgr_map (sd_mmap_manager d') (buf_offset b) = Some (MmapBuffer_new (buf_offset b) BUFFER_SIZE)) \<and>
    (\<forall>b \<in> set (ss_buffers s). buf_offset b \<in> buf_offset ` set (ss_buffers s') \<or>
       (case mgr_map (sd_mmap_manager d') (buf_offset b) of None \<Rightarrow> True | Some e \<Rightarrow> \<not> mb_registered e)) \<and>
    ss_queued_buffers s' = [] \<and> sd_active_session d' = (if count = 0 then None else Some (ss_id s))"
proof -
  have may: "may_request VideoCapture Mmap d s" using assms by (simp add: may_request_def)
  obtain old bufs where old: "those (map (set_state chk K New) (ss_buffers s)) = Some old"
    and al: "alloc_buffers chk K OS (map of_nat [0..<unat (min count 32)])
      (d\<lparr>sd_active_session := (if count = 0 then None else Some (ss_id s)),
         sd_mmap_manager := unregister_all (sd_mmap_manager d) (map buf_offset old)\<rparr>) = Some (d', bufs)"
    and s': "s' = s\<lparr>ss_queued_buffers := [], ss_buffers := (case bufs of Inl e \<Rightarrow> old | Inr bs \<Rightarrow> bs)\<rparr>"
    and resp: "Inr resp = map_sum id (\<lambda>_. reqbufs_response K (min count 32) VideoCapture Mmap 0) bufs"
    by (rule reqbufs_allowed [OF may assms(4)]) blast
  from resp obtain bs where bs: "bufs = Inr bs" "resp = reqbufs_response K (min count 32) VideoCapture Mmap 0"
    by (cases bufs) auto
  have m: "mgr_inv (unregister_all (sd_mmap_manager d) (map buf_offset old))"
    using assms(1) by (rule unregister_all_inv)
  let ?u = "unregister_all (sd_mmap_manager d) (map buf_offset old)"
  from alloc_buffers_allocated [OF _ al [unfolded bs(1)]] m
  have a: "allocated K (map of_nat [0..<unat (min count 32)]) (mgr_map ?u) (mgr_map (sd_mmap_manager d')) bs" by simp
  have "buf_offset b \<in> buf_offset ` set bs \<or>
      (case mgr_map (sd_mmap_manager d') (buf_offset b) of None \<Rightarrow> True | Some e \<Rightarrow> \<not> mb_registered e)"
    if "b \<in> set (ss_buffers s)" for b
  proof (cases "buf_offset b \<in> buf_offset ` set bs")
    case False
    with a have "mgr_map (sd_mmap_manager d') (buf_offset b) = mgr_map ?u (buf_offset b)" by (simp add: allocated_def)
    moreover have "buf_offset b \<in> set (map buf_offset old)"
      unfolding reset_buffers(2) [OF old] using that by simp
    ultimately show ?thesis
      using mgr.all_unregistered [OF assms(1), of "buf_offset b" "map buf_offset old"]
      by (auto simp: unregister_all_def split: option.splits)
  qed simp
  with a alloc_buffers_session [OF al] show ?thesis
    by (simp add: s' bs reqbufs_response_def allocated_def)
qed

theorem simple_reqbufs_allocates_witness:
  "(let resp = reqbufs_response ex_K 2 VideoCapture Mmap 0 in
    reqbufs_count resp = min 2 32 \<and> length (ss_buffers cap_session) = unat (min 2 32 :: u32) \<and>
    distinct (map buf_offset (ss_buffers cap_session)) \<and>
    (\<forall>b \<in> set (ss_buffers cap_session). buf_state b = New \<and>
       mgr_map (sd_mmap_manager cap_dev) (buf_offset b) = Some (MmapBuffer_new (buf_offset b) BUFFER_SIZE)) \<and>
    (\<forall>b \<in> set (ss_buffers cap_session0). buf_offset b \<in> buf_offset ` set (ss_buffers cap_session) \<or>
       (case mgr_map (sd_mmap_manager cap_dev) (buf_offset b) of None \<Rightarrow> True | Some e \<Rightarrow> \<not> mb_registered e)) \<and>
    ss_queued_buffers cap_session = [] \<and>
    sd_active_session cap_dev = (if (2 :: u32) = 0 then None else Some (ss_id cap_session0)))"
  unfolding Let_def
  by (rule simple_reqbufs_allocates [OF _ _ _ cap_reqbufs])
    (simp_all add: cap_new_def SimpleCaptureDevice_new_def cap_session0_def)

text \<open>
  A frame can be mapped: in a valid state, mapping the offset of a registered, unmapped buffer
  of the session asks the mapper once, for the file of that buffer, its size and its offset, with
  write access exactly when the guest asked for it; the guest gets the address of the mapper and the
  size. If the mapper returned an address at which nothing was mapped, unmapping that address brings
  the manager back to the buffers it had.
\<close>

theorem simple_mmap_roundtrip:
  assumes "mgr_inv (sd_mmap_manager d)" and "distinct (map buf_offset (ss_buffers s))" and "b \<in> set (ss_buffers s)"
    and "mgr_map (sd_mmap_manager d) (buf_offset b) = Some (MmapBuffer_new (buf_offset b) BUFFER_SIZE)"
    and "unat (buf_offset b) + unat BUFFER_SIZE \<le> 2 ^ 32"
    and "hm_add_mapping hm (mapper (sd_mmap_manager d)) (as_file (buf_fd b)) (ucast BUFFER_SIZE)
      (ucast (buf_offset b)) (fl AND VIRTIO_MEDIA_MMAP_FLAG_RW \<noteq> 0) = (m', Inr addr)"
    and "\<forall>off. \<not> mapped_at (sd_mmap_manager d) off addr"
  shows "\<exists>d' d''. simple_do_mmap chk hm fl (buf_offset b) d s = Some (d', s, Inr (addr, ucast BUFFER_SIZE)) \<and>
    mgr_map (sd_mmap_manager d') = (mgr_map (sd_mmap_manager d))(buf_offset b \<mapsto>
      (MmapBuffer_new (buf_offset b) BUFFER_SIZE)\<lparr>mb_mapping := Some \<lparr>num_mappings = 1, guest_addr = addr,
        rw = (fl AND VIRTIO_MEDIA_MMAP_FLAG_RW \<noteq> 0)\<rparr>\<rparr>) \<and>
    mapper (sd_mmap_manager d') = m' \<and>
    simple_do_munmap hm addr d' = Some (d'', Inr ()) \<and>
    mgr_map (sd_mmap_manager d'') = mgr_map (sd_mmap_manager d) \<and>
    mapper (sd_mmap_manager d'') = fst (hm_remove_mapping hm m' addr)"
proof -
  let ?rw = "fl AND VIRTIO_MEDIA_MMAP_FLAG_RW \<noteq> 0" and ?off = "buf_offset b"
  let ?mp = "\<lparr>num_mappings = 1, guest_addr = addr, rw = ?rw\<rparr>"
  let ?e = "(MmapBuffer_new ?off BUFFER_SIZE)\<lparr>mb_mapping := Some ?mp\<rparr>"
  have found: "find (\<lambda>c. buf_offset c = ?off) (ss_buffers s) = Some b"
    by (rule find_unique_key [OF assms(2,3)])
  obtain mgr r where c: "create_mapping chk hm (sd_mmap_manager d) ?off (as_file (buf_fd b)) ?rw = Some (mgr, r)"
      "mgr_inv mgr"
    and sp: "spec_create hm ?off (as_file (buf_fd b)) ?rw (mgr_map (sd_mmap_manager d))
      (mapper (sd_mmap_manager d)) = (mgr_map mgr, mapper mgr, r)"
    using create_mapping_refines [OF assms(1)] by blast
  from sp assms(4-6) have m: "mgr_map mgr = (mgr_map (sd_mmap_manager d))(?off \<mapsto> ?e)" "mapper mgr = m'"
      "r = Inr (addr, ucast BUFFER_SIZE)"
    by (auto simp: spec_create_def MmapBuffer_new_def)
  have "off' = ?off" if "mapped_at mgr off' (guest_addr ?mp)" for off'
    using that assms(7) by (auto simp: mapped_at_def m(1) split: if_splits)
  moreover have "mgr_map mgr ?off = Some ?e" "mb_mapping ?e = Some ?mp" by (simp_all add: m(1))
  ultimately obtain mgr' where
    u: "remove_mapping hm mgr (guest_addr ?mp) = Some (mgr', Inr (1 < num_mappings ?mp))"
      "mgr_map mgr' = spec_unmap ?off ?e ?mp (mgr_map mgr)"
      "mapper mgr' = (if 1 < num_mappings ?mp then mapper mgr else fst (hm_remove_mapping hm (mapper mgr) (guest_addr ?mp)))"
    by (rule remove_mapping_at [OF c(2)])
  have restored: "mgr_map mgr' = mgr_map (sd_mmap_manager d)"
    using u(2) assms(4) by (simp add: spec_unmap_def m(1) MmapBuffer_new_def fun_upd_idem)
  show ?thesis
    by (rule exI [of _ "d\<lparr>sd_mmap_manager := mgr\<rparr>"], rule exI [of _ "d\<lparr>sd_mmap_manager := mgr'\<rparr>"])
      (use found c m u restored in \<open>simp add: simple_do_mmap_def simple_do_munmap_def\<close>)
qed

theorem simple_mmap_roundtrip_witness:
  "(let b = cap_buffer 1 4 0x1000 in
    \<exists>d' d''. simple_do_mmap True DummyHostMemoryMapper 1 (buf_offset b) cap_dev cap_session =
        Some (d', cap_session, Inr (0x80001000, ucast BUFFER_SIZE)) \<and>
    mgr_map (sd_mmap_manager d') = (mgr_map (sd_mmap_manager cap_dev))(buf_offset b \<mapsto>
      (MmapBuffer_new (buf_offset b) BUFFER_SIZE)\<lparr>mb_mapping := Some \<lparr>num_mappings = 1, guest_addr = 0x80001000,
        rw = ((1 :: u32) AND VIRTIO_MEDIA_MMAP_FLAG_RW \<noteq> 0)\<rparr>\<rparr>) \<and>
    mapper (sd_mmap_manager d') = () \<and>
    simple_do_munmap DummyHostMemoryMapper 0x80001000 d' = Some (d'', Inr ()) \<and>
    mgr_map (sd_mmap_manager d'') = mgr_map (sd_mmap_manager cap_dev) \<and>
    mapper (sd_mmap_manager d'') = fst (hm_remove_mapping DummyHostMemoryMapper () 0x80001000))"
  unfolding Let_def
  by (rule simple_mmap_roundtrip)
    (simp_all add: cap_dev_def cap_session_def cap_buffer_def mgr_inv_def buffer_ok_def MmapBuffer_new_def
      PAGE_MASK_def PAGE_SIZE_def BUFFER_SIZE_eq mgr_map_def DummyHostMemoryMapper_def mapped_at_def)

text \<open>
  Closing a session ends the registration of all its buffers: a buffer the guest does not map is
  forgotten, a mapped one stays, unregistered, until it is unmapped; no other entry of the manager
  changes, and the device is free for another session if this one was the active one.
\<close>

theorem simple_close_releases:
  assumes "mgr_inv (sd_mmap_manager d)"
  shows "\<exists>d'. simple_close_session s d = Some d' \<and> mgr_inv (sd_mmap_manager d') \<and>
    sd_active_session d' \<noteq> Some (ss_id s) \<and>
    (\<forall>off. mgr_map (sd_mmap_manager d') off =
       (if off \<in> buf_offset ` set (ss_buffers s)
        then (case mgr_map (sd_mmap_manager d) off of
                None \<Rightarrow> None
              | Some e \<Rightarrow> if mb_mapping e = None then None else Some (e\<lparr>mb_registered := False\<rparr>))
        else mgr_map (sd_mmap_manager d) off))"
  using assms mgr.all_after [OF assms] mgr.all_other [OF assms] unregister_all_inv [OF assms]
  by (simp add: simple_close_session_def unregister_all_def mgr.after_def image_iff)

theorem simple_close_releases_witness:
  "\<exists>d'. simple_close_session cap_session cap_dev = Some d' \<and> mgr_inv (sd_mmap_manager d') \<and>
    sd_active_session d' \<noteq> Some (ss_id cap_session) \<and>
    (\<forall>off. mgr_map (sd_mmap_manager d') off =
       (if off \<in> buf_offset ` set (ss_buffers cap_session)
        then (case mgr_map (sd_mmap_manager cap_dev) off of
                None \<Rightarrow> None
              | Some e \<Rightarrow> if mb_mapping e = None then None else Some (e\<lparr>mb_registered := False\<rparr>))
        else mgr_map (sd_mmap_manager cap_dev) off))"
  by (rule simple_close_releases)
    (simp add: cap_dev_def mgr_inv_def buffer_ok_def MmapBuffer_new_def PAGE_MASK_def PAGE_SIZE_def BUFFER_SIZE_eq)

text \<open>
  C27. No panic without overflow checks: in a build without them, no ioctl makes the capture device
  panic in any state, whatever the guest sends, except a subscription to an event or with flags the
  crate does not know.
\<close>

theorem simple_panic_free:
  assumes "vb_laws K" and "ioctl = VIDIOC_SUBSCRIBE_EVENT \<longrightarrow> valid_subscription K r"
  shows "dev_do_ioctl (simple_device False K OS hm) ioctl d s r w \<noteq> None"
proof -
  have "virtio_media_dispatch_ioctl K (simple_handler False K OS) ioctl d s r w \<noteq> None"
    by (rule dispatch_returns [OF simple_handler_total [OF assms(1)]]) (use assms(2) in simp)
  then show ?thesis by (simp add: simple_device_def)
qed

theorem simple_panic_free_witness:
  "dev_do_ioctl (simple_device False ex_K ex_Os DummyHostMemoryMapper) VIDIOC_REQBUFS cap_dev cap_session
     [0xFF, 0xFF, 0xFF, 0xFF, 7, 7] (fresh_writer 4) \<noteq> None"
  by (rule simple_panic_free) (simp_all add: vb_laws_ex_K)

text \<open>
  Queueing a buffer: an index the session does not have and a buffer the device already holds
  are refused with \<open>EINVAL\<close> and nothing changes. Otherwise, while the session does not stream, the
  buffer is the last of the queue, marked as queued in the answer, and no event is sent.
\<close>

theorem simple_qbuf_queues:
  assumes "vb_laws K" and "sess_inv K s" and "\<not> ss_streaming s"
  shows "(let i = unat (vb_index K b); ok = i < length (ss_buffers s) \<and> buf_state (ss_buffers s ! i) \<noteq> Incoming in
    if ok then \<exists>s' v. simple_qbuf chk K OS b regions d s = Some (d, s', Inr v) \<and> sess_inv K s' \<and>
        ss_queued_buffers s' = ss_queued_buffers s @ [i] \<and> vb_queued K v \<and> unat (vb_index K v) = i \<and>
        buf_v4l2 (ss_buffers s' ! i) = v \<and> buf_state (ss_buffers s' ! i) = Incoming
    else simple_qbuf chk K OS b regions d s = Some (d, s, Inl EINVAL))"
proof -
  let ?i = "unat (vb_index K b)"
  show ?thesis
  proof (cases "?i < length (ss_buffers s) \<and> buf_state (ss_buffers s ! ?i) \<noteq> Incoming")
    case True
    obtain h where h: "set_state chk K Incoming (ss_buffers s ! ?i) = Some h" by (simp add: set_state_def Let_def)
    have "buffer_inv K ?i h"
      by (rule set_state_inv [OF assms(1) h]) (use assms(2) True in \<open>simp add: sess_inv_def buffer_inv_def\<close>)
    with True h assms(3) qbuf_inv [OF assms(1,2) _ _ h] set_state_same [OF h] show ?thesis
      by (simp add: simple_qbuf_def vec_get_def Let_def buffer_inv_def)
  next
    case False
    then show ?thesis by (auto simp: simple_qbuf_def vec_get_def Let_def)
  qed
qed

theorem simple_qbuf_queues_witness:
  "(let i = unat (vb_index ex_K (ex_new VideoCapture 1 Mmap));
        ok = i < length (ss_buffers cap_session) \<and> buf_state (ss_buffers cap_session ! i) \<noteq> Incoming in
    if ok then \<exists>s' v. simple_qbuf True ex_K ex_Os (ex_new VideoCapture 1 Mmap) [] cap_dev cap_session =
          Some (cap_dev, s', Inr v) \<and> sess_inv ex_K s' \<and>
        ss_queued_buffers s' = ss_queued_buffers cap_session @ [i] \<and> vb_queued ex_K v \<and> unat (vb_index ex_K v) = i \<and>
        buf_v4l2 (ss_buffers s' ! i) = v \<and> buf_state (ss_buffers s' ! i) = Incoming
    else simple_qbuf True ex_K ex_Os (ex_new VideoCapture 1 Mmap) [] cap_dev cap_session =
          Some (cap_dev, cap_session, Inl EINVAL))"
  by (rule simple_qbuf_queues [OF vb_laws_ex_K])
    (simp_all add: sess_inv_def buffer_inv_def cap_session_def cap_session0_def cap_buffer_def
      vb_queued_def ex_new_def less_Suc_eq)

end
