(* ===== verification/Decoder_Session.thy ===== *)
theory Decoder_Session
  imports Runner Mmap Vb_Laws
begin

unbundle bit_operations_syntax

text \<open>
  The sessions of the video decoder, \<open>device/src/devices/video_decoder.rs\<close>, lines 48 to 472: the
  interface of the decoding backends, the buffers, the streaming state machine, the crop rectangle
  and the colour space, and the methods of a session. A backend is a parameter: the records below
  hold the methods of its traits, over the states \<open>'st\<close> of a buffer's storage, \<open>'bs\<close> of a backend
  session, \<open>'b\<close> of the backend and \<open>'w\<close> of the operating system. A method that decodes or handles events
  acts on the operating system and may panic or not return, which is \<open>None\<close>; so does the computation
  of a format, which may overflow.
\<close>

section \<open>Backends\<close>

record ('st, 'w) VideoDecoderBufferBacking =
  st_new :: "QueueType \<Rightarrow> u32 \<Rightarrow> nat list \<Rightarrow> 'w \<Rightarrow> 'w \<times> (i32 + 'st)"
  fd_for_plane :: "'st \<Rightarrow> nat \<Rightarrow> fd option"

record ('vb, 'st) VideoDecoderBuffer =
  db_v4l2 :: 'vb
  db_backing :: 'st

text \<open>\<open>sizes[0]\<close> panics when \<open>sizes\<close> is empty.\<close>

definition VideoDecoderBuffer_new ::
  "'vb v4l2r \<Rightarrow> ('st, 'w, 'x) VideoDecoderBufferBacking_scheme \<Rightarrow> QueueType \<Rightarrow> u32 \<Rightarrow> nat list \<Rightarrow> u32 \<Rightarrow> 'w \<Rightarrow>
   ('w \<times> (i32 + ('vb, 'st) VideoDecoderBuffer)) option"
where
  "VideoDecoderBuffer_new K B queue index sizes moffset w =
     (case st_new B queue index sizes w of
        (w', Inl e) \<Rightarrow> Some (w', Inl e)
      | (w', Inr backing) \<Rightarrow> do {
          size0 \<leftarrow> vec_get sizes 0;
          v \<leftarrow> vb_set_mmap_plane K (vb_new K queue index Mmap) moffset (of_nat size0);
          Some (w', Inr \<lparr>db_v4l2 = vb_set_field K (vb_set_flags K v (BUF_TIMESTAMP_MONOTONIC K)) (FIELD_NONE K),
                        db_backing = backing\<rparr>)
        })"

definition db_index :: "'vb v4l2r \<Rightarrow> ('vb, 'st) VideoDecoderBuffer \<Rightarrow> u32" where
  "db_index K b = vb_index K (db_v4l2 b)"

definition db_timestamp :: "'vb v4l2r \<Rightarrow> ('vb, 'st) VideoDecoderBuffer \<Rightarrow> timeval" where
  "db_timestamp K b = vb_timestamp K (db_v4l2 b)"

text \<open>The arguments of \<open>InputBufferDone\<close> and \<open>FrameCompleted\<close> are in the order of the source.\<close>

datatype VideoDecoderBackendEvent =
    StreamFormatChanged
  | InputBufferDone u32 i32
  | FrameCompleted u32 timeval "u32 list" bool

text \<open>\<open>v4l2r::Rect\<close> has the fields of \<open>v4l2_rect\<close>, into which the sources convert it.\<close>

type_synonym Rect = v4l2_rect

definition Rect_new :: "i32 \<Rightarrow> i32 \<Rightarrow> u32 \<Rightarrow> u32 \<Rightarrow> Rect" where
  "Rect_new l t w h = \<lparr>rect_left = l, rect_top = t, rect_width = w, rect_height = h\<rparr>"

record StreamParams =
  min_output_buffers :: u32
  coded_size :: "u32 \<times> u32"
  visible_rect :: Rect

record ('st, 'w, 'bs) VideoDecoderBackendSession = "('st, 'w) VideoDecoderBufferBacking" +
  bs_decode :: "'st \<Rightarrow> u32 \<Rightarrow> timeval \<Rightarrow> u32 \<Rightarrow> 'bs \<Rightarrow> 'w \<Rightarrow> ('w \<times> 'bs \<times> unit IoctlResult) option"
  bs_use_as_output :: "u32 \<Rightarrow> 'st \<Rightarrow> 'bs \<Rightarrow> 'w \<Rightarrow> ('w \<times> 'bs \<times> 'st \<times> unit IoctlResult) option"
  bs_drain :: "'bs \<Rightarrow> 'w \<Rightarrow> ('w \<times> 'bs \<times> unit IoctlResult) option"
  bs_clear_output_buffers :: "'bs \<Rightarrow> 'w \<Rightarrow> ('w \<times> 'bs \<times> unit IoctlResult) option"
  bs_next_event :: "'bs \<Rightarrow> 'w \<Rightarrow> ('w \<times> 'bs \<times> VideoDecoderBackendEvent option) option"
  bs_current_format :: "'bs \<Rightarrow> QueueDirection \<Rightarrow> V4l2MplaneFormat option"
  bs_stream_params :: "'bs \<Rightarrow> StreamParams"
  bs_buffers_allocated :: "QueueDirection \<Rightarrow> u32 \<Rightarrow> 'bs \<Rightarrow> 'bs"
  bs_poll_fd :: "'bs \<Rightarrow> fd option"
  bs_streaming_state :: "QueueDirection \<Rightarrow> bool \<Rightarrow> 'bs \<Rightarrow> 'bs"

section \<open>Streaming state\<close>

text \<open>\<open>Stopped\<close> holds whether the input and the output queue are streaming.\<close>

datatype VideoDecoderStreamingState = Stopped bool bool | Running | Paused

definition default_state :: VideoDecoderStreamingState where
  "default_state = Stopped False False"

fun input_streamon :: "VideoDecoderStreamingState \<Rightarrow> VideoDecoderStreamingState" where
  "input_streamon (Stopped input output) =
     (if \<not> input then (if output then Running else Stopped True output) else Stopped input output)"
| "input_streamon Running = Running"
| "input_streamon Paused = Paused"

fun input_streamoff :: "VideoDecoderStreamingState \<Rightarrow> VideoDecoderStreamingState" where
  "input_streamoff (Stopped input output) = Stopped False output"
| "input_streamoff Running = Stopped False True"
| "input_streamoff Paused = Stopped False True"

fun output_streamon :: "VideoDecoderStreamingState \<Rightarrow> VideoDecoderStreamingState" where
  "output_streamon (Stopped input output) =
     (if \<not> output then (if input then Running else Stopped input True) else Stopped input output)"
| "output_streamon Running = Running"
| "output_streamon Paused = Paused"

fun output_streamoff :: "VideoDecoderStreamingState \<Rightarrow> VideoDecoderStreamingState" where
  "output_streamoff (Stopped input output) = Stopped input False"
| "output_streamoff Running = Stopped True False"
| "output_streamoff Paused = Stopped True False"

fun is_output_streaming :: "VideoDecoderStreamingState \<Rightarrow> bool" where
  "is_output_streaming Running = True"
| "is_output_streaming (Stopped input output) = output"
| "is_output_streaming Paused = False"

section \<open>Crop rectangle and colour space\<close>

datatype CropRectangle = Settable Rect | FromStream Rect

fun crop_deref :: "CropRectangle \<Rightarrow> Rect" where
  "crop_deref (Settable r) = r"
| "crop_deref (FromStream r) = r"

record V4l2FormatColorspace =
  cs_colorspace :: Colorspace
  cs_xfer_func :: XferFunc
  cs_ycbcr_enc :: YCbCrEncoding
  cs_quantization :: Quantization

definition default_colorspace :: "'vb v4l2r \<Rightarrow> V4l2FormatColorspace" where
  "default_colorspace K =
     \<lparr>cs_colorspace = REC709 K, cs_xfer_func = XFER_NONE K, cs_ycbcr_enc = YCBCR_E709 K,
      cs_quantization = LIM_RANGE K\<rparr>"

text \<open>The casts \<open>as u8\<close> keep the low byte.\<close>

definition colorspace_apply :: "V4l2FormatColorspace \<Rightarrow> v4l2_pix_format_mplane \<Rightarrow> v4l2_pix_format_mplane" where
  "colorspace_apply cs pix =
     pix\<lparr>pix_mp_colorspace := cs_colorspace cs, pix_mp_ycbcr_enc := ucast (cs_ycbcr_enc cs),
        pix_mp_quantization := ucast (cs_quantization cs), pix_mp_xfer_func := ucast (cs_xfer_func cs)\<rparr>"

section \<open>Sessions\<close>

record ('vb, 'st, 'bs) VideoDecoderSession =
  vs_id :: u32
  vs_state :: VideoDecoderStreamingState
  vs_input_buffers :: "('vb, 'st) VideoDecoderBuffer list"
  vs_output_buffers :: "('vb, 'st) VideoDecoderBuffer list"
  vs_pending_output_buffers :: "u32 list"
  vs_sequence_cpt :: u32
  vs_src_change_subscribed :: bool
  vs_eos_subscribed :: bool
  vs_crop_rectangle :: CropRectangle
  vs_colorspace :: V4l2FormatColorspace
  vs_backend_session :: 'bs
  vs_format_change_pending :: bool

definition vs_poll_fd ::
  "('st, 'w, 'bs, 'x) VideoDecoderBackendSession_scheme \<Rightarrow> ('vb, 'st, 'bs) VideoDecoderSession \<Rightarrow> fd option"
where
  "vs_poll_fd B s = bs_poll_fd B (vs_backend_session s)"

definition vs_current_format ::
  "('st, 'w, 'bs, 'x) VideoDecoderBackendSession_scheme \<Rightarrow> ('vb, 'st, 'bs) VideoDecoderSession \<Rightarrow>
   QueueDirection \<Rightarrow> V4l2MplaneFormat option"
where
  "vs_current_format B s direction =
     map_option (\<lambda>format. (direction, colorspace_apply (vs_colorspace s) (snd format)))
       (bs_current_format B (vs_backend_session s) direction)"

definition vs_try_decoder_cmd ::
  "'vb v4l2r \<Rightarrow> ('vb, 'st, 'bs) VideoDecoderSession \<Rightarrow> DecoderCmd \<Rightarrow> DecoderCmd IoctlResult"
where
  "vs_try_decoder_cmd K s c =
     (case c of
        CmdStop _ \<Rightarrow> Inr (CmdStop (stop_default K))
      | CmdStart _ \<Rightarrow> Inr (CmdStart (start_default K))
      | CmdPause _ \<Rightarrow>
          (case vs_state s of
             Stopped _ _ \<Rightarrow> Inl EINVAL
           | Running \<Rightarrow> Inr (CmdPause (pause_default K))
           | Paused \<Rightarrow> Inr (CmdPause (pause_default K)))
      | CmdResume \<Rightarrow>
          (case vs_state s of
             Stopped _ _ \<Rightarrow> Inl EINVAL
           | Paused \<Rightarrow> Inr CmdResume
           | Running \<Rightarrow> Inr CmdResume))"

text \<open>
  The loop of \<open>try_send_pending_output_buffers\<close>. The indices are drained: when the backend refuses
  a buffer the loop returns its error, and the rest of the indices is dropped all the same. An index
  that is out of range panics, and so may the backend.
\<close>

fun send_outputs ::
  "'vb v4l2r \<Rightarrow> ('st, 'w, 'bs, 'x) VideoDecoderBackendSession_scheme \<Rightarrow> u32 list \<Rightarrow>
   ('vb, 'st) VideoDecoderBuffer list \<Rightarrow> 'bs \<Rightarrow> 'w \<Rightarrow>
   ('w \<times> ('vb, 'st) VideoDecoderBuffer list \<times> 'bs \<times> unit IoctlResult) option"
where
  "send_outputs K B [] bufs bs w = Some (w, bufs, bs, Inr ())"
| "send_outputs K B (i # pending) bufs bs w = do {
     buffer \<leftarrow> vec_get bufs (unat i);
     (w', bs', backing', res) \<leftarrow> bs_use_as_output B (db_index K buffer) (db_backing buffer) bs w;
     (let bufs' = bufs[unat i := buffer\<lparr>db_backing := backing'\<rparr>] in
      case res of
        Inl e \<Rightarrow> Some (w', bufs', bs', Inl e)
      | Inr _ \<Rightarrow> send_outputs K B pending bufs' bs' w')
   }"

definition try_send_pending_output_buffers ::
  "'vb v4l2r \<Rightarrow> ('st, 'w, 'bs, 'x) VideoDecoderBackendSession_scheme \<Rightarrow> ('vb, 'st, 'bs) VideoDecoderSession \<Rightarrow> 'w \<Rightarrow>
   ('w \<times> ('vb, 'st, 'bs) VideoDecoderSession \<times> unit IoctlResult) option"
where
  "try_send_pending_output_buffers K B s w =
     (if \<not> is_output_streaming (vs_state s) then Some (w, s, Inr ())
      else do {
        (w', bufs, bs, res) \<leftarrow>
          send_outputs K B (vs_pending_output_buffers s) (vs_output_buffers s) (vs_backend_session s) w;
        Some (w', s\<lparr>vs_pending_output_buffers := [], vs_output_buffers := bufs, vs_backend_session := bs\<rparr>, res)
      })"

section \<open>The streaming state as two switches\<close>

text \<open>
  What the state machine promises: each queue is a switch that its own \<open>STREAMON\<close> and
  \<open>STREAMOFF\<close> turn on and off and the other queue's do not touch. The decoder can only run or pause
  while both are on.
\<close>

fun input_on :: "VideoDecoderStreamingState \<Rightarrow> bool" where
  "input_on (Stopped input output) = input"
| "input_on Running = True"
| "input_on Paused = True"

fun output_on :: "VideoDecoderStreamingState \<Rightarrow> bool" where
  "output_on (Stopped input output) = output"
| "output_on Running = True"
| "output_on Paused = True"

lemma input_on_ops [simp]:
  "input_on (input_streamon st)" "\<not> input_on (input_streamoff st)"
  "input_on (output_streamon st) = input_on st" "input_on (output_streamoff st) = input_on st"
  by (cases st; simp)+

lemma output_on_ops [simp]:
  "output_on (output_streamon st)" "\<not> output_on (output_streamoff st)"
  "output_on (input_streamon st) = output_on st" "output_on (input_streamoff st) = output_on st"
  by (cases st; simp)+

lemma is_output_streaming_on: "is_output_streaming st \<longleftrightarrow> output_on st \<and> st \<noteq> Paused"
  by (cases st) auto

section \<open>Sending the pending buffers\<close>

lemma send_outputs_v4l2:
  "send_outputs K B is bufs bs w = Some (w', bufs', bs', res) \<Longrightarrow> map db_v4l2 bufs' = map db_v4l2 bufs"
proof (induction "is" arbitrary: bufs bs w)
  case (Cons i "is")
  from Cons.prems obtain b w1 bs1 st1 r where i: "unat i < length bufs" "b = bufs ! unat i"
    and u: "bs_use_as_output B (db_index K b) (db_backing b) bs w = Some (w1, bs1, st1, r)"
    by (auto simp: vec_get_def elim!: bind_SomeE split: prod.split_asm if_split_asm)
  let ?bufs = "bufs[unat i := b\<lparr>db_backing := st1\<rparr>]"
  have same: "map db_v4l2 ?bufs = map db_v4l2 bufs"
    using i by (simp add: map_update) (metis list_update_id map_update)
  show ?case
  proof (cases r)
    case (Inl e)
    with Cons.prems i u same show ?thesis by (simp add: vec_get_def Let_def)
  next
    case (Inr x)
    with Cons.prems i u have "send_outputs K B is ?bufs bs1 w1 = Some (w', bufs', bs', res)"
      by (simp add: vec_get_def Let_def)
    from Cons.IH [OF this] same show ?thesis by simp
  qed
qed simp

lemma send_outputs_stale:
  assumes "length bufs \<le> unat i"
  shows "send_outputs K B (pre @ i # post) bufs bs w \<noteq> Some (w', bufs', bs', Inr ())"
  using assms
proof (induction pre arbitrary: bufs bs w)
  case Nil
  then show ?case by (simp add: vec_get_def)
next
  case (Cons j pre)
  then show ?case by (auto simp: vec_get_def Let_def elim!: bind_SomeE split: sum.split_asm prod.split_asm)
qed

end
