(* ===== verification/Video_Decoder.thy ===== *)
theory Video_Decoder
  imports Decoder_Session
begin

unbundle bit_operations_syntax

text \<open>
  The video decoder device, \<open>device/src/devices/video_decoder.rs\<close>, lines 474 to 1320: the device
  that turns the ioctls of a guest into calls of a decoding backend, and the events of the backend
  into V4L2 events. The device holds the backend, the events sent so far, the MMAP manager and the
  state of the operating system.
\<close>

section \<open>Data\<close>

record ('vb, 'st, 'w, 'bs, 'b) VideoDecoderBackend = "('st, 'w, 'bs) VideoDecoderBackendSession" +
  be_new_session :: "u32 \<Rightarrow> 'b \<Rightarrow> 'w \<Rightarrow> 'w \<times> 'b \<times> 'bs IoctlResult"
  be_close_session :: "'bs \<Rightarrow> 'b \<Rightarrow> 'b"
  be_enum_formats :: "'b \<Rightarrow> ('vb, 'st, 'bs) VideoDecoderSession \<Rightarrow> QueueDirection \<Rightarrow> u32 \<Rightarrow> v4l2_fmtdesc option"
  be_frame_sizes :: "'b \<Rightarrow> u32 \<Rightarrow> rest option"
  be_adjust_format :: "'b \<Rightarrow> 'bs \<Rightarrow> QueueDirection \<Rightarrow> V4l2MplaneFormat \<Rightarrow> V4l2MplaneFormat option"
  be_apply_format :: "'b \<Rightarrow> 'bs \<Rightarrow> QueueDirection \<Rightarrow> V4l2MplaneFormat \<Rightarrow> 'bs"

record ('m, 'vb, 'b, 'w) VideoDecoder =
  vd_backend :: 'b
  vd_event_queue :: "('vb, v4l2_event) V4l2Event list"
  vd_host_mapper :: "'m MmapMappingManager"
  vd_os :: 'w

type_synonym ('m, 'vb, 'st, 'bs, 'b, 'w, 'r) dec_ro =
  "(('m, 'vb, 'b, 'w) VideoDecoder, ('vb, 'st, 'bs) VideoDecoderSession, 'r) ro_method"
type_synonym ('m, 'vb, 'st, 'bs, 'b, 'w, 'r) dec_rw =
  "(('m, 'vb, 'b, 'w) VideoDecoder, ('vb, 'st, 'bs) VideoDecoderSession, 'r) rw_method"

definition VideoDecoder_new :: "'b \<Rightarrow> 'm \<Rightarrow> 'w \<Rightarrow> ('m, 'vb, 'b, 'w) VideoDecoder" where
  "VideoDecoder_new backend m os =
     \<lparr>vd_backend = backend, vd_event_queue = [], vd_host_mapper = MmapMappingManager_from m, vd_os = os\<rparr>"

definition dec_send ::
  "('vb, v4l2_event) V4l2Event \<Rightarrow> ('m, 'vb, 'b, 'w) VideoDecoder \<Rightarrow> ('m, 'vb, 'b, 'w) VideoDecoder"
where
  "dec_send ev d = d\<lparr>vd_event_queue := vd_event_queue d @ [ev]\<rparr>"

section \<open>Formats\<close>

text \<open>The colour space that a format asks for; what it does not name is taken from the session.\<close>

definition requested_colorspace ::
  "'vb v4l2r \<Rightarrow> v4l2_pix_format_mplane \<Rightarrow> V4l2FormatColorspace \<Rightarrow> V4l2FormatColorspace"
where
  "requested_colorspace K pix cs =
     \<lparr>cs_colorspace =
        (case Colorspace_n K (pix_mp_colorspace pix) of Some c \<Rightarrow> c | None \<Rightarrow> cs_colorspace cs),
      cs_xfer_func =
        (case XferFunc_n K (ucast (pix_mp_xfer_func pix)) of Some c \<Rightarrow> c | None \<Rightarrow> cs_xfer_func cs),
      cs_ycbcr_enc =
        (case YCbCrEncoding_n K (ucast (pix_mp_ycbcr_enc pix)) of Some c \<Rightarrow> c | None \<Rightarrow> cs_ycbcr_enc cs),
      cs_quantization =
        (case Quantization_n K (ucast (pix_mp_quantization pix)) of Some c \<Rightarrow> c | None \<Rightarrow> cs_quantization cs)\<rparr>"

definition try_format ::
  "'vb v4l2r \<Rightarrow> ('vb, 'st, 'w, 'bs, 'b) VideoDecoderBackend \<Rightarrow> ('m, 'vb, 'b, 'w) VideoDecoder \<Rightarrow>
   ('vb, 'st, 'bs) VideoDecoderSession \<Rightarrow> QueueType \<Rightarrow> v4l2_format \<Rightarrow>
   V4l2MplaneFormat IoctlResult option"
where
  "try_format K B d s queue format =
     (if queue_class K queue \<noteq> VideoMplane then Some (Inl EINVAL)
      else
        (let pix_mp = fmt_pix_mp K (format_fmt format);
             direction = queue_direction K queue;
             colorspace = (if direction = Output then requested_colorspace K pix_mp (vs_colorspace s)
                           else vs_colorspace s)
         in map_option (\<lambda>adjusted. Inr (direction, colorspace_apply colorspace (snd adjusted)))
              (be_adjust_format B (vd_backend d) (vs_backend_session s) direction (direction, pix_mp))))"

definition dec_enum_fmt ::
  "'vb v4l2r \<Rightarrow> ('vb, 'st, 'w, 'bs, 'b) VideoDecoderBackend \<Rightarrow> QueueType \<Rightarrow> u32 \<Rightarrow>
   ('m, 'vb, 'st, 'bs, 'b, 'w, v4l2_fmtdesc) dec_ro"
where
  "dec_enum_fmt K B queue index d s =
     Some (d,
       case (if queue = VideoOutputMplane \<or> queue = VideoCaptureMplane
             then be_enum_formats B (vd_backend d) s (queue_direction K queue) index else None) of
         Some f \<Rightarrow> Inr f
       | None \<Rightarrow> Inl EINVAL)"

definition dec_enum_framesizes ::
  "'vb v4l2r \<Rightarrow> ('vb, 'st, 'w, 'bs, 'b) VideoDecoderBackend \<Rightarrow> u32 \<Rightarrow> u32 \<Rightarrow>
   ('m, 'vb, 'st, 'bs, 'b, 'w, v4l2_frmsizeenum) dec_ro"
where
  "dec_enum_framesizes K B index pixel_format d s =
     Some (d,
       if index \<noteq> 0 then Inl EINVAL
       else case be_frame_sizes B (vd_backend d) pixel_format of
              None \<Rightarrow> Inl EINVAL
            | Some stepwise \<Rightarrow>
                Inr \<lparr>frmsize_index = 0, frmsize_pixel_format = pixel_format,
                     frmsize_type = V4L2_FRMSIZE_TYPE_STEPWISE K, frmsize_anon = frmsize_stepwise K stepwise,
                     frmsize_rest = frmsize_default K\<rparr>)"

definition dec_g_fmt ::
  "'vb v4l2r \<Rightarrow> ('vb, 'st, 'w, 'bs, 'b) VideoDecoderBackend \<Rightarrow> QueueType \<Rightarrow>
   ('m, 'vb, 'st, 'bs, 'b, 'w, v4l2_format) dec_ro"
where
  "dec_g_fmt K B queue d s =
     (if queue \<noteq> VideoOutputMplane \<and> queue \<noteq> VideoCaptureMplane then Some (d, Inl EINVAL)
      else map_option (\<lambda>format. (d, Inr (mplane_as_format K format))) (vs_current_format B s (queue_direction K queue)))"

definition dec_try_fmt ::
  "'vb v4l2r \<Rightarrow> ('vb, 'st, 'w, 'bs, 'b) VideoDecoderBackend \<Rightarrow> QueueType \<Rightarrow> v4l2_format \<Rightarrow>
   ('m, 'vb, 'st, 'bs, 'b, 'w, v4l2_format) dec_ro"
where
  "dec_try_fmt K B queue format d s =
     map_option (\<lambda>res. (d, map_sum id (mplane_as_format K) res)) (try_format K B d s queue format)"

definition dec_s_fmt ::
  "'vb v4l2r \<Rightarrow> ('vb, 'st, 'w, 'bs, 'b) VideoDecoderBackend \<Rightarrow> QueueType \<Rightarrow> v4l2_format \<Rightarrow>
   ('m, 'vb, 'st, 'bs, 'b, 'w, v4l2_format) dec_rw"
where
  "dec_s_fmt K B queue format d s =
     (case try_format K B d s queue format of
        None \<Rightarrow> None
      | Some (Inl e) \<Rightarrow> Some (d, s, Inl e)
      | Some (Inr f) \<Rightarrow>
          (let direction = queue_direction K queue;
               bs' = be_apply_format B (vd_backend d) (vs_backend_session s) direction f;
               cs' = (if direction = Output
                      then \<lparr>cs_colorspace = mplane_colorspace K f, cs_xfer_func = mplane_xfer_func K f,
                            cs_ycbcr_enc = mplane_ycbcr_enc K f, cs_quantization = mplane_quantization K f\<rparr>
                      else vs_colorspace s);
               crop' = (case vs_crop_rectangle s of
                          Settable _ \<Rightarrow> (case mplane_size K f of (width, height) \<Rightarrow> Settable (Rect_new 0 0 width height))
                        | FromStream r \<Rightarrow> FromStream r)
           in Some (d, s\<lparr>vs_backend_session := bs', vs_colorspace := cs', vs_crop_rectangle := crop'\<rparr>,
                    Inr (mplane_as_format K f))))"

section \<open>Buffers\<close>

text \<open>The buffers of a queue: the guest's OUTPUT queue is the input of the decoder.\<close>

definition queue_buffers ::
  "QueueType \<Rightarrow> ('vb, 'st, 'bs) VideoDecoderSession \<Rightarrow> ('vb, 'st) VideoDecoderBuffer list option"
where
  "queue_buffers queue s =
     (if queue = VideoOutputMplane then Some (vs_input_buffers s)
      else if queue = VideoCaptureMplane then Some (vs_output_buffers s) else None)"

definition set_queue_buffers ::
  "QueueType \<Rightarrow> ('vb, 'st) VideoDecoderBuffer list \<Rightarrow> ('vb, 'st, 'bs) VideoDecoderSession \<Rightarrow>
   ('vb, 'st, 'bs) VideoDecoderSession"
where
  "set_queue_buffers queue bufs s =
     (if queue = VideoOutputMplane then s\<lparr>vs_input_buffers := bufs\<rparr> else s\<lparr>vs_output_buffers := bufs\<rparr>)"

text \<open>The offsets under which the planes of MMAP buffers can be mapped.\<close>

definition buffer_offsets :: "'vb v4l2r \<Rightarrow> ('vb, 'st) VideoDecoderBuffer \<Rightarrow> u32 list" where
  "buffer_offsets K b = (case vb_mmap_offsets K (db_v4l2 b) of Some offs \<Rightarrow> offs | None \<Rightarrow> [])"

definition offsets_of :: "'vb v4l2r \<Rightarrow> ('vb, 'st) VideoDecoderBuffer list \<Rightarrow> u32 list" where
  "offsets_of K bufs = concat (map (buffer_offsets K) bufs)"

text \<open>
  One turn of the closure that \<open>reqbufs\<close> maps over the indices of the new buffers: the offset is
  registered first, and given back when the buffer cannot be created.
\<close>

definition dec_alloc_buffer ::
  "bool \<Rightarrow> 'vb v4l2r \<Rightarrow> ('vb, 'st, 'w, 'bs, 'b) VideoDecoderBackend \<Rightarrow> QueueType \<Rightarrow> u32 \<Rightarrow> nat \<Rightarrow>
   ('m, 'vb, 'b, 'w) VideoDecoder \<Rightarrow>
   (('m, 'vb, 'b, 'w) VideoDecoder \<times> ('vb, 'st) VideoDecoderBuffer IoctlResult) option"
where
  "dec_alloc_buffer chk K B queue sizeimage i d = do {
     (mgr, res) \<leftarrow> register_buffer chk (vd_host_mapper d) None sizeimage;
     (case res of
        Inl e \<Rightarrow> Some (d\<lparr>vd_host_mapper := mgr\<rparr>, Inl EINVAL)
      | Inr off \<Rightarrow> do {
          (os', buf) \<leftarrow> VideoDecoderBuffer_new K B queue (of_nat i) [unat sizeimage] off (vd_os d);
          (case buf of
             Inl e \<Rightarrow> Some (d\<lparr>vd_host_mapper := fst (unregister_buffer mgr off), vd_os := os'\<rparr>, Inl e)
           | Inr b \<Rightarrow> Some (d\<lparr>vd_host_mapper := mgr, vd_os := os'\<rparr>, Inr b))
        })
   }"

fun dec_alloc_buffers ::
  "bool \<Rightarrow> 'vb v4l2r \<Rightarrow> ('vb, 'st, 'w, 'bs, 'b) VideoDecoderBackend \<Rightarrow> QueueType \<Rightarrow> u32 \<Rightarrow> nat list \<Rightarrow>
   ('m, 'vb, 'b, 'w) VideoDecoder \<Rightarrow>
   (('m, 'vb, 'b, 'w) VideoDecoder \<times> ('vb, 'st) VideoDecoderBuffer list IoctlResult) option"
where
  "dec_alloc_buffers chk K B queue sizeimage [] d = Some (d, Inr [])"
| "dec_alloc_buffers chk K B queue sizeimage (i # is) d = do {
     (d', res) \<leftarrow> dec_alloc_buffer chk K B queue sizeimage i d;
     (case res of
        Inl e \<Rightarrow> Some (d', Inl e)
      | Inr b \<Rightarrow> do {
          (d'', res') \<leftarrow> dec_alloc_buffers chk K B queue sizeimage is d';
          Some (d'', map_sum id (\<lambda>bs. b # bs) res')
        })
   }"

definition dec_reqbufs_response ::
  "'vb v4l2r \<Rightarrow> u32 \<Rightarrow> QueueType \<Rightarrow> MemoryType \<Rightarrow> MemoryConsistency \<Rightarrow> v4l2_requestbuffers"
where
  "dec_reqbufs_response K count queue memory flags =
     \<lparr>reqbufs_count = count, reqbufs_type = queue_as_u32 K queue, reqbufs_memory = memory_as_u32 K memory,
      reqbufs_capabilities = SUPPORTS_MMAP K OR SUPPORTS_ORPHANED_BUFS K, reqbufs_flags = flags,
      reqbufs_reserved = reqbufs_default K\<rparr>"

definition dec_reqbufs ::
  "bool \<Rightarrow> 'vb v4l2r \<Rightarrow> ('vb, 'st, 'w, 'bs, 'b) VideoDecoderBackend \<Rightarrow> QueueType \<Rightarrow> MemoryType \<Rightarrow> u32 \<Rightarrow>
   MemoryConsistency \<Rightarrow> ('m, 'vb, 'st, 'bs, 'b, 'w, v4l2_requestbuffers) dec_rw"
where
  "dec_reqbufs chk K B queue memory count flags d s =
     (if memory \<noteq> Mmap then Some (d, s, Inl EINVAL)
      else case queue_buffers queue s of
        None \<Rightarrow> Some (d, s, Inl EINVAL)
      | Some bufs \<Rightarrow>
          (let allocated = (\<lambda>s'. s'\<lparr>vs_backend_session :=
                 bs_buffers_allocated B (queue_direction K queue) count (vs_backend_session s')\<rparr>);
               response = Inr (dec_reqbufs_response K count queue memory flags)
           in
           if unat count < length bufs then
             Some (d\<lparr>vd_host_mapper :=
                      unregister_all (vd_host_mapper d) (offsets_of K (drop (unat count) bufs))\<rparr>,
                   allocated (set_queue_buffers queue (take (unat count) bufs) s), response)
           else do {
             format \<leftarrow> bs_current_format B (vs_backend_session s) (queue_direction K queue);
             (case mplane_sizeimages K format of
                [] \<Rightarrow> Some (d, s, Inl EINVAL)
              | sizeimage # _ \<Rightarrow> do {
                  (d', res) \<leftarrow> dec_alloc_buffers chk K B queue sizeimage [length bufs..<unat count] d;
                  (case res of
                     Inl e \<Rightarrow> Some (d', s, Inl e)
                   | Inr bs \<Rightarrow> Some (d', allocated (set_queue_buffers queue (bufs @ bs) s), response))
                })
           }))"

definition dec_querybuf :: "QueueType \<Rightarrow> u32 \<Rightarrow> ('m, 'vb, 'st, 'bs, 'b, 'w, 'vb) dec_ro" where
  "dec_querybuf queue index d s =
     Some (d,
       case queue_buffers queue s of
         None \<Rightarrow> Inl EINVAL
       | Some bufs \<Rightarrow>
           (case vec_get bufs (unat index) of None \<Rightarrow> Inl EINVAL | Some b \<Rightarrow> Inr (db_v4l2 b)))"

text \<open>What a method of a session leaves of the operating system is put back into the device.\<close>

definition with_os ::
  "('m, 'vb, 'b, 'w) VideoDecoder \<Rightarrow> 'w \<times> 's \<times> 'r \<Rightarrow> ('m, 'vb, 'b, 'w) VideoDecoder \<times> 's \<times> 'r"
where
  "with_os d y = (case y of (w, s, res) \<Rightarrow> (d\<lparr>vd_os := w\<rparr>, s, res))"

lemma with_os_simp [simp]: "with_os d (w, s, res) = (d\<lparr>vd_os := w\<rparr>, s, res)"
  by (simp add: with_os_def)

text \<open>The values of the first plane that a guest hands over with a buffer.\<close>

definition copy_first_plane :: "'vb v4l2r \<Rightarrow> 'vb \<Rightarrow> 'vb \<Rightarrow> 'vb" where
  "copy_first_plane K guest v =
     (let v = vb_set_length K v (vb_length K guest);
          v = vb_set_bytesused K v (vb_bytesused K guest)
      in case vb_data_offset K v of
           Some _ \<Rightarrow> vb_set_data_offset K v (case vb_data_offset K guest of Some off \<Rightarrow> off | None \<Rightarrow> 0)
         | None \<Rightarrow> v)"

definition queue_input ::
  "'vb v4l2r \<Rightarrow> ('vb, 'st, 'w, 'bs, 'b) VideoDecoderBackend \<Rightarrow> 'vb \<Rightarrow> nat \<Rightarrow>
   ('vb, 'st) VideoDecoderBuffer \<Rightarrow> ('vb, 'st, 'bs) VideoDecoderSession \<Rightarrow> 'w \<Rightarrow>
   ('w \<times> ('vb, 'st, 'bs) VideoDecoderSession \<times> 'vb IoctlResult) option"
where
  "queue_input K B guest i host s w =
     (let v = vb_set_field K (db_v4l2 host) (FIELD_NONE K);
          v = vb_set_timestamp K v (vb_timestamp K guest);
          v = vb_set_bytesused K v (vb_bytesused K guest);
          v = copy_first_plane K guest v;
          host = host\<lparr>db_v4l2 := v\<rparr>;
          bytes_used = (if vb_bytesused K v = 0 then vb_length K v else vb_bytesused K v);
          s = s\<lparr>vs_input_buffers := (vs_input_buffers s)[i := host]\<rparr>
      in case bs_decode B (db_backing host) (db_index K host) (db_timestamp K host) bytes_used
                (vs_backend_session s) w of
           None \<Rightarrow> None
         | Some (w', bs', Inl e) \<Rightarrow> Some (w', s\<lparr>vs_backend_session := bs'\<rparr>, Inl e)
         | Some (w', bs', Inr _) \<Rightarrow>
             (let host = host\<lparr>db_v4l2 := vb_add_flags K v (BUF_QUEUED K)\<rparr> in
              Some (w', s\<lparr>vs_backend_session := bs', vs_input_buffers := (vs_input_buffers s)[i := host]\<rparr>,
                    Inr (db_v4l2 host))))"

definition queue_output ::
  "'vb v4l2r \<Rightarrow> ('vb, 'st, 'w, 'bs, 'b) VideoDecoderBackend \<Rightarrow> 'vb \<Rightarrow> nat \<Rightarrow>
   ('vb, 'st) VideoDecoderBuffer \<Rightarrow> ('vb, 'st, 'bs) VideoDecoderSession \<Rightarrow> 'w \<Rightarrow>
   ('w \<times> ('vb, 'st, 'bs) VideoDecoderSession \<times> 'vb IoctlResult) option"
where
  "queue_output K B guest i host s w =
     (let v = vb_add_flags K (db_v4l2 host) (BUF_QUEUED K);
          v = vb_clear_flags K v (BUF_LAST K);
          v = copy_first_plane K guest v;
          s = s\<lparr>vs_output_buffers := (vs_output_buffers s)[i := host\<lparr>db_v4l2 := v\<rparr>],
                vs_pending_output_buffers := vs_pending_output_buffers s @ [vb_index K guest]\<rparr>
      in do {
        (w', s', res) \<leftarrow> try_send_pending_output_buffers K B s w;
        Some (w', s', map_sum id (\<lambda>_. v) res)
      })"

definition dec_qbuf ::
  "'vb v4l2r \<Rightarrow> ('vb, 'st, 'w, 'bs, 'b) VideoDecoderBackend \<Rightarrow> 'vb \<Rightarrow> SgEntry list list \<Rightarrow>
   ('m, 'vb, 'st, 'bs, 'b, 'w, 'vb) dec_rw"
where
  "dec_qbuf K B guest guest_regions d s =
     (case queue_buffers (vb_queue K guest) s of
        None \<Rightarrow> Some (d, s, Inl EINVAL)
      | Some bufs \<Rightarrow>
          (let i = unat (vb_index K guest) in
           case vec_get bufs i of
             None \<Rightarrow> Some (d, s, Inl EINVAL)
           | Some host \<Rightarrow>
               if vb_memory K guest \<noteq> vb_memory K (db_v4l2 host) then Some (d, s, Inl EINVAL)
               else case queue_direction K (vb_queue K guest) of
                 Output \<Rightarrow> map_option (with_os d) (queue_input K B guest i host s (vd_os d))
               | Capture \<Rightarrow> map_option (with_os d) (queue_output K B guest i host s (vd_os d))))"

section \<open>Event subscriptions\<close>

definition dec_subscribe_event ::
  "EventType \<Rightarrow> SubscribeEventFlags \<Rightarrow> ('m, 'vb, 'st, 'bs, 'b, 'w, unit) dec_rw"
where
  "dec_subscribe_event event flags d s =
     (if event = SourceChange 0 then Some (d, s\<lparr>vs_src_change_subscribed := True\<rparr>, Inr ())
      else if event = Eos then Some (d, s\<lparr>vs_eos_subscribed := True\<rparr>, Inr ())
      else Some (d, s, Inl EINVAL))"

definition dec_unsubscribe_event ::
  "'vb v4l2r \<Rightarrow> v4l2_event_subscription \<Rightarrow> ('m, 'vb, 'st, 'bs, 'b, 'w, unit) dec_rw"
where
  "dec_unsubscribe_event K event d s =
     (let src = subscription_type event = 0 \<or> EventType_try_from K event = Some (SourceChange 0);
          s = (if src then s\<lparr>vs_src_change_subscribed := False\<rparr> else s);
          eos = subscription_type event = 0 \<or> EventType_try_from K event = Some Eos;
          s = (if eos then s\<lparr>vs_eos_subscribed := False\<rparr> else s)
      in Some (d, s, if src \<or> eos then Inr () else Inl EINVAL))"

section \<open>Streaming\<close>

definition set_streaming ::
  "('vb, 'st, 'w, 'bs, 'b) VideoDecoderBackend \<Rightarrow> QueueDirection \<Rightarrow> bool \<Rightarrow>
   ('vb, 'st, 'bs) VideoDecoderSession \<Rightarrow> ('vb, 'st, 'bs) VideoDecoderSession"
where
  "set_streaming B direction on s =
     s\<lparr>vs_backend_session := bs_streaming_state B direction on (vs_backend_session s)\<rparr>"

definition dec_streamon ::
  "'vb v4l2r \<Rightarrow> ('vb, 'st, 'w, 'bs, 'b) VideoDecoderBackend \<Rightarrow> QueueType \<Rightarrow>
   ('m, 'vb, 'st, 'bs, 'b, 'w, unit) dec_rw"
where
  "dec_streamon K B queue d s =
     (case queue_buffers queue s of
        None \<Rightarrow> Some (d, s, Inl EINVAL)
      | Some bufs \<Rightarrow>
          if bufs = [] then Some (d, s, Inl EINVAL)
          else
            (let direction = queue_direction K queue;
                 s = s\<lparr>vs_state := (case direction of
                        Output \<Rightarrow> input_streamon (vs_state s)
                      | Capture \<Rightarrow> output_streamon (vs_state s))\<rparr>;
                 s = set_streaming B direction True s
             in map_option (with_os d) (try_send_pending_output_buffers K B s (vd_os d))))"

definition clear_queued :: "'vb v4l2r \<Rightarrow> ('vb, 'st) VideoDecoderBuffer list \<Rightarrow> ('vb, 'st) VideoDecoderBuffer list" where
  "clear_queued K bufs = map (\<lambda>b. b\<lparr>db_v4l2 := vb_clear_flags K (db_v4l2 b) (BUF_QUEUED K)\<rparr>) bufs"

definition dec_streamoff ::
  "'vb v4l2r \<Rightarrow> ('vb, 'st, 'w, 'bs, 'b) VideoDecoderBackend \<Rightarrow> QueueType \<Rightarrow>
   ('m, 'vb, 'st, 'bs, 'b, 'w, unit) dec_rw"
where
  "dec_streamoff K B queue d s =
     (case queue_direction K queue of
        Output \<Rightarrow>
          (let s = s\<lparr>vs_state := input_streamoff (vs_state s), vs_input_buffers := clear_queued K (vs_input_buffers s)\<rparr>
           in Some (d, set_streaming B Output False s, Inr ()))
      | Capture \<Rightarrow>
          (case bs_clear_output_buffers B (vs_backend_session s) (vd_os d) of
             None \<Rightarrow> None
           | Some (w', bs', Inl e) \<Rightarrow> Some (d\<lparr>vd_os := w'\<rparr>, s\<lparr>vs_backend_session := bs'\<rparr>, Inl e)
           | Some (w', bs', Inr _) \<Rightarrow>
               (let s = s\<lparr>vs_backend_session := bs', vs_state := output_streamoff (vs_state s),
                         vs_pending_output_buffers := [],
                         vs_output_buffers := clear_queued K (vs_output_buffers s)\<rparr>
                in Some (d\<lparr>vd_os := w'\<rparr>, set_streaming B Capture False s, Inr ()))))"

section \<open>Selections\<close>

definition dec_g_selection ::
  "('vb, 'st, 'w, 'bs, 'b) VideoDecoderBackend \<Rightarrow> SelectionType \<Rightarrow> SelectionTarget \<Rightarrow>
   ('m, 'vb, 'st, 'bs, 'b, 'w, v4l2_rect) dec_ro"
where
  "dec_g_selection B sel_type sel_target d s =
     Some (d,
       if sel_type \<noteq> SelectionCapture then Inl EINVAL
       else if sel_target = CropBounds then
         (case coded_size (bs_stream_params B (vs_backend_session s)) of (w, h) \<Rightarrow> Inr (Rect_new 0 0 w h))
       else if sel_target \<in> {Crop, CropDefault, ComposeDefault, ComposeBounds, Compose}
         then Inr (crop_deref (vs_crop_rectangle s))
       else Inl EINVAL)"

text \<open>The subtractions can underflow; both dimensions are bounded by the coded width.\<close>

definition clamp_selection :: "bool \<Rightarrow> u32 \<Rightarrow> v4l2_rect \<Rightarrow> v4l2_rect option" where
  "clamp_selection chk coded_width rect =
     (let left = (if sint (rect_left rect) < 0 then 0 else rect_left rect);
          top = (if sint (rect_top rect) < 0 then 0 else rect_top rect)
      in do {
        w \<leftarrow> sub_ov chk (rect_width rect) left;
        h \<leftarrow> sub_ov chk (rect_height rect) top;
        Some \<lparr>rect_left = left, rect_top = top, rect_width = min coded_width w, rect_height = min coded_width h\<rparr>
      })"

definition dec_s_selection ::
  "bool \<Rightarrow> 'vb v4l2r \<Rightarrow> ('vb, 'st, 'w, 'bs, 'b) VideoDecoderBackend \<Rightarrow> SelectionType \<Rightarrow> SelectionTarget \<Rightarrow>
   v4l2_rect \<Rightarrow> SelectionFlags \<Rightarrow> ('m, 'vb, 'st, 'bs, 'b, 'w, v4l2_rect) dec_rw"
where
  "dec_s_selection chk K B sel_type sel_target sel_rect sel_flags d s =
     (if sel_type \<noteq> SelectionCapture \<or> sel_target \<noteq> Compose then Some (d, s, Inl EINVAL)
      else do {
        s' \<leftarrow> (case vs_crop_rectangle s of
                 Settable _ \<Rightarrow> do {
                   format \<leftarrow> bs_current_format B (vs_backend_session s) Capture;
                   rect \<leftarrow> clamp_selection chk (fst (mplane_size K format)) sel_rect;
                   Some (s\<lparr>vs_crop_rectangle := Settable rect\<rparr>)
                 }
               | FromStream _ \<Rightarrow> Some s);
        (d', res) \<leftarrow> dec_g_selection B sel_type sel_target d s';
        Some (d', s', res)
      })"

section \<open>Decoder commands\<close>

definition dec_try_decoder_cmd :: "'vb v4l2r \<Rightarrow> v4l2_decoder_cmd \<Rightarrow> ('m, 'vb, 'st, 'bs, 'b, 'w, v4l2_decoder_cmd) dec_ro" where
  "dec_try_decoder_cmd K c d s =
     Some (d,
       case DecoderCmd_try_from K c of
         None \<Rightarrow> Inl EINVAL
       | Some c' \<Rightarrow> map_sum id (decoder_cmd_into K) (vs_try_decoder_cmd K s c'))"

text \<open>The effect of a valid command; an error of the backend ends it.\<close>

definition apply_decoder_cmd ::
  "'vb v4l2r \<Rightarrow> ('vb, 'st, 'w, 'bs, 'b) VideoDecoderBackend \<Rightarrow> DecoderCmd \<Rightarrow> ('vb, 'st, 'bs) VideoDecoderSession \<Rightarrow>
   'w \<Rightarrow> ('w \<times> ('vb, 'st, 'bs) VideoDecoderSession \<times> unit IoctlResult) option"
where
  "apply_decoder_cmd K B c s w =
     (case c of
        CmdStop _ \<Rightarrow>
          (case vs_state s of
             Stopped _ _ \<Rightarrow> Some (w, s, Inr ())
           | _ \<Rightarrow>
               map_option (\<lambda>(w', bs', res). (w', s\<lparr>vs_state := Stopped True True, vs_backend_session := bs'\<rparr>, res))
                 (bs_drain B (vs_backend_session s) w))
      | CmdStart _ \<Rightarrow>
          (case vs_state s of
             Stopped input output \<Rightarrow>
               try_send_pending_output_buffers K B
                 (if input \<and> output then set_streaming B Capture True (s\<lparr>vs_state := Running\<rparr>) else s) w
           | _ \<Rightarrow> Some (w, s, Inr ()))
      | CmdPause _ \<Rightarrow> Some (w, if vs_state s = Running then s\<lparr>vs_state := Paused\<rparr> else s, Inr ())
      | CmdResume \<Rightarrow> Some (w, if vs_state s = Paused then s\<lparr>vs_state := Running\<rparr> else s, Inr ()))"

definition dec_decoder_cmd ::
  "'vb v4l2r \<Rightarrow> ('vb, 'st, 'w, 'bs, 'b) VideoDecoderBackend \<Rightarrow> v4l2_decoder_cmd \<Rightarrow>
   ('m, 'vb, 'st, 'bs, 'b, 'w, v4l2_decoder_cmd) dec_rw"
where
  "dec_decoder_cmd K B c d s =
     (case DecoderCmd_try_from K c of
        None \<Rightarrow> Some (d, s, Inl EINVAL)
      | Some c1 \<Rightarrow>
          (case vs_try_decoder_cmd K s c1 of
             Inl e \<Rightarrow> Some (d, s, Inl e)
           | Inr c2 \<Rightarrow>
               map_option (\<lambda>(w', s', res). (d\<lparr>vd_os := w'\<rparr>, s', map_sum id (\<lambda>_. decoder_cmd_into K c2) res))
                 (apply_decoder_cmd K B c2 s (vd_os d))))"

section \<open>The device\<close>

definition dec_handler :: "bool \<Rightarrow> 'vb v4l2r \<Rightarrow> ('vb, 'st, 'w, 'bs, 'b) VideoDecoderBackend \<Rightarrow>
    (('m, 'vb, 'b, 'w) VideoDecoder, ('vb, 'st, 'bs) VideoDecoderSession, 'vb) VirtioMediaIoctlHandler"
where
  "dec_handler chk K B = default_handler
     \<lparr>h_enum_fmt := dec_enum_fmt K B, h_enum_framesizes := dec_enum_framesizes K B, h_g_fmt := dec_g_fmt K B,
      h_try_fmt := dec_try_fmt K B, h_s_fmt := dec_s_fmt K B, h_reqbufs := dec_reqbufs chk K B,
      h_querybuf := dec_querybuf, h_subscribe_event := dec_subscribe_event,
      h_unsubscribe_event := dec_unsubscribe_event K, h_streamon := dec_streamon K B,
      h_streamoff := dec_streamoff K B, h_g_selection := dec_g_selection B,
      h_s_selection := dec_s_selection chk K B, h_qbuf := dec_qbuf K B,
      h_try_decoder_cmd := dec_try_decoder_cmd K, h_decoder_cmd := dec_decoder_cmd K B\<rparr>"

definition dec_new_session ::
  "'vb v4l2r \<Rightarrow> ('vb, 'st, 'w, 'bs, 'b) VideoDecoderBackend \<Rightarrow> u32 \<Rightarrow> ('m, 'vb, 'b, 'w) VideoDecoder \<Rightarrow>
   (('m, 'vb, 'b, 'w) VideoDecoder \<times> (i32 + ('vb, 'st, 'bs) VideoDecoderSession)) option"
where
  "dec_new_session K B session_id d =
     (case be_new_session B session_id (vd_backend d) (vd_os d) of
        (w', b', res) \<Rightarrow>
          Some (d\<lparr>vd_backend := b', vd_os := w'\<rparr>,
            map_sum id (\<lambda>bs.
              \<lparr>vs_id = session_id, vs_state = default_state, vs_input_buffers = [], vs_output_buffers = [],
               vs_pending_output_buffers = [], vs_sequence_cpt = 0, vs_src_change_subscribed = False,
               vs_eos_subscribed = False, vs_crop_rectangle = Settable (Rect_new 0 0 0 0),
               vs_colorspace = default_colorspace K, vs_backend_session = bs, vs_format_change_pending = False\<rparr>) res))"

definition dec_close_session ::
  "'vb v4l2r \<Rightarrow> ('vb, 'st, 'w, 'bs, 'b) VideoDecoderBackend \<Rightarrow> ('vb, 'st, 'bs) VideoDecoderSession \<Rightarrow>
   ('m, 'vb, 'b, 'w) VideoDecoder \<Rightarrow> ('m, 'vb, 'b, 'w) VideoDecoder option"
where
  "dec_close_session K B s d =
     Some (d\<lparr>vd_host_mapper :=
              unregister_all (vd_host_mapper d) (offsets_of K (vs_input_buffers s @ vs_output_buffers s)),
            vd_backend := be_close_session B (vs_backend_session s) (vd_backend d)\<rparr>)"

text \<open>The planes of the buffers of a session, in the order in which \<open>do_mmap\<close> looks at them.\<close>

definition mmap_planes ::
  "'vb v4l2r \<Rightarrow> ('vb, 'st) VideoDecoderBuffer list \<Rightarrow> (('vb, 'st) VideoDecoderBuffer \<times> nat \<times> u32) list"
where
  "mmap_planes K bufs = concat (map (\<lambda>b. map (\<lambda>p. (b, p)) (enumerate 0 (buffer_offsets K b))) bufs)"

definition dec_do_mmap ::
  "bool \<Rightarrow> 'vb v4l2r \<Rightarrow> ('vb, 'st, 'w, 'bs, 'b) VideoDecoderBackend \<Rightarrow> 'm VirtioMediaHostMemoryMapper \<Rightarrow>
   u32 \<Rightarrow> u32 \<Rightarrow> ('m, 'vb, 'st, 'bs, 'b, 'w, u64 \<times> u64) dec_rw"
where
  "dec_do_mmap chk K B hm flags offset d s =
     (case find (\<lambda>(_, _, off). off = offset) (mmap_planes K (vs_input_buffers s @ vs_output_buffers s)) of
        None \<Rightarrow> Some (d, s, Inl EINVAL)
      | Some (buffer, plane_idx, _) \<Rightarrow> do {
          fd \<leftarrow> fd_for_plane B (db_backing buffer) plane_idx;
          (mgr, res) \<leftarrow> create_mapping chk hm (vd_host_mapper d) offset fd (flags AND VIRTIO_MEDIA_MMAP_FLAG_RW \<noteq> 0);
          Some (d\<lparr>vd_host_mapper := mgr\<rparr>, s, map_sum (\<lambda>_. EINVAL) id res)
        })"

definition dec_do_munmap ::
  "'m VirtioMediaHostMemoryMapper \<Rightarrow> u64 \<Rightarrow> ('m, 'vb, 'b, 'w) VideoDecoder \<Rightarrow>
   (('m, 'vb, 'b, 'w) VideoDecoder \<times> (i32 + unit)) option"
where
  "dec_do_munmap hm addr d = do {
     (mgr, res) \<leftarrow> remove_mapping hm (vd_host_mapper d) addr;
     Some (d\<lparr>vd_host_mapper := mgr\<rparr>, map_sum (\<lambda>_. EINVAL) (\<lambda>_. ()) res)
   }"

subsection \<open>Events of the backend\<close>

definition v4l2_event_of :: "'vb v4l2r \<Rightarrow> u32 \<Rightarrow> u32 \<Rightarrow> rest \<Rightarrow> ('vb, v4l2_event) V4l2Event" where
  "v4l2_event_of K session_id typ u =
     Event (SessionEvent_new session_id \<lparr>event_type = typ, event_u = u, event_rest = event_default K\<rparr>)"

definition input_buffer_done ::
  "'vb v4l2r \<Rightarrow> u32 \<Rightarrow> i32 \<Rightarrow> ('m, 'vb, 'b, 'w) VideoDecoder \<Rightarrow> ('vb, 'st, 'bs) VideoDecoderSession \<Rightarrow>
   ('m, 'vb, 'b, 'w) VideoDecoder \<times> ('vb, 'st, 'bs) VideoDecoderSession"
where
  "input_buffer_done K buffer_id err d s =
     (case vec_get (vs_input_buffers s) (unat buffer_id) of
        None \<Rightarrow> (d, s)
      | Some buffer \<Rightarrow>
          (let v = vb_clear_flags K (db_v4l2 buffer) (BUF_QUEUED K);
               v = (if err \<noteq> 0 then vb_set_flags K v (BUF_ERROR K) else v)
           in (dec_send (DequeueBuffer (DequeueBufferEvent_new (vs_id s) v)) d,
               s\<lparr>vs_input_buffers := (vs_input_buffers s)[unat buffer_id := buffer\<lparr>db_v4l2 := v\<rparr>]\<rparr>)))"

definition stream_format_changed ::
  "'vb v4l2r \<Rightarrow> ('vb, 'st, 'w, 'bs, 'b) VideoDecoderBackend \<Rightarrow> ('m, 'vb, 'b, 'w) VideoDecoder \<Rightarrow>
   ('vb, 'st, 'bs) VideoDecoderSession \<Rightarrow> ('m, 'vb, 'b, 'w) VideoDecoder \<times> ('vb, 'st, 'bs) VideoDecoderSession"
where
  "stream_format_changed K B d s =
     (if vs_src_change_subscribed s
      then dec_send (v4l2_event_of K (vs_id s) (V4L2_EVENT_SOURCE_CHANGE K)
             (event_src_change K (SRC_CHANGE_RESOLUTION K))) d
      else d,
      s\<lparr>vs_crop_rectangle := FromStream (visible_rect (bs_stream_params B (vs_backend_session s))),
        vs_format_change_pending := True\<rparr>)"

definition frame_completed ::
  "bool \<Rightarrow> 'vb v4l2r \<Rightarrow> u32 \<Rightarrow> timeval \<Rightarrow> u32 list \<Rightarrow> bool \<Rightarrow> ('m, 'vb, 'b, 'w) VideoDecoder \<Rightarrow>
   ('vb, 'st, 'bs) VideoDecoderSession \<Rightarrow>
   (('m, 'vb, 'b, 'w) VideoDecoder \<times> ('vb, 'st, 'bs) VideoDecoderSession) option"
where
  "frame_completed chk K buffer_id timestamp bytes_used is_last d s =
     (case vec_get (vs_output_buffers s) (unat buffer_id) of
        None \<Rightarrow> Some (d, s)
      | Some buffer \<Rightarrow>
          (let v = vb_clear_flags K (db_v4l2 buffer) (BUF_QUEUED K);
               v = vb_set_flags K v (BUF_TIMESTAMP_COPY K);
               v = (if is_last then vb_set_flags K v (BUF_LAST K) else v);
               v = vb_set_sequence K v (vs_sequence_cpt s)
           in do {
             sequence_cpt \<leftarrow> add_ov chk (vs_sequence_cpt s) 1;
             (let v = vb_set_timestamp K v timestamp;
                  v = vb_set_bytesused K v (case bytes_used of [] \<Rightarrow> 0 | n # _ \<Rightarrow> n);
                  d = dec_send (DequeueBuffer (DequeueBufferEvent_new (vs_id s) v)) d;
                  s = s\<lparr>vs_output_buffers := (vs_output_buffers s)[unat buffer_id := buffer\<lparr>db_v4l2 := v\<rparr>],
                        vs_sequence_cpt := sequence_cpt\<rparr>
              in
              Some (if is_last \<and> \<not> vs_format_change_pending s \<and> vs_eos_subscribed s
                    then dec_send (v4l2_event_of K (vs_id s) (V4L2_EVENT_EOS K) (event_u_default K)) d else d,
                    if is_last then s\<lparr>vs_format_change_pending := False\<rparr> else s))
           }))"

definition dec_process_events ::
  "bool \<Rightarrow> 'vb v4l2r \<Rightarrow> ('vb, 'st, 'w, 'bs, 'b) VideoDecoderBackend \<Rightarrow> ('m, 'vb, 'b, 'w) VideoDecoder \<Rightarrow>
   ('vb, 'st, 'bs) VideoDecoderSession \<Rightarrow>
   (('m, 'vb, 'b, 'w) VideoDecoder \<times> ('vb, 'st, 'bs) VideoDecoderSession \<times> (i32 + unit)) option"
where
  "dec_process_events chk K B d s =
     (case bs_next_event B (vs_backend_session s) (vd_os d) of
        None \<Rightarrow> None
      | Some (w', bs', event) \<Rightarrow>
          (let d = d\<lparr>vd_os := w'\<rparr>; s = s\<lparr>vs_backend_session := bs'\<rparr> in
           map_option (\<lambda>(d', s'). (d', s', Inr ()))
             (case event of
                None \<Rightarrow> Some (d, s)
              | Some (InputBufferDone buffer_id err) \<Rightarrow> Some (input_buffer_done K buffer_id err d s)
              | Some StreamFormatChanged \<Rightarrow> Some (stream_format_changed K B d s)
              | Some (FrameCompleted buffer_id timestamp bytes_used is_last) \<Rightarrow>
                  frame_completed chk K buffer_id timestamp bytes_used is_last d s)))"

definition video_decoder ::
  "bool \<Rightarrow> 'vb v4l2r \<Rightarrow> ('vb, 'st, 'w, 'bs, 'b) VideoDecoderBackend \<Rightarrow> 'm VirtioMediaHostMemoryMapper \<Rightarrow>
   (('m, 'vb, 'b, 'w) VideoDecoder, ('vb, 'st, 'bs) VideoDecoderSession) VirtioMediaDevice"
where
  "video_decoder chk K B hm =
     \<lparr>dev_new_session = dec_new_session K B, dev_close_session = dec_close_session K B,
      dev_do_ioctl = virtio_media_dispatch_ioctl K (dec_handler chk K B),
      dev_do_mmap = dec_do_mmap chk K B hm, dev_do_munmap = dec_do_munmap hm,
      dev_process_events = dec_process_events chk K B, dev_poll_fd = vs_poll_fd B\<rparr>"

end
