(* ===== verification/Mmap_Registered.thy ===== *)
theory Mmap_Registered
  imports Mmap
begin

text \<open>
  The offsets that are registered with the MMAP manager, and what its operations do to them. The
  devices that keep a table of offsets of their own relate it to this set.
\<close>

section \<open>Registered offsets\<close>

definition registered :: "'m MmapMappingManager \<Rightarrow> u32 \<Rightarrow> bool" where
  "registered mgr off \<longleftrightarrow> (\<exists>e. mgr_map mgr off = Some e \<and> mb_registered e)"

lemma register_registered:
  assumes "mgr_inv mgr" and "register_buffer chk mgr off0 sz = Some (mgr', Inr off)"
  shows "mgr_inv mgr'" and "\<not> registered mgr off" and "registered mgr' off"
    and "registered mgr x \<Longrightarrow> registered mgr' x"
  using register_buffer_Inr [OF assms] by (auto simp: registered_def MmapBuffer_new_def)

lemma register_refused:
  assumes "mgr_inv mgr" and "register_buffer chk mgr off0 sz = Some (mgr', Inl e)"
  shows "mgr' = mgr"
  using assms(2)
  by (auto simp: register_buffer_def register_buffer_by_offset_def elim!: bind_SomeE split: sum.split_asm if_split_asm)

lemma unregister_other:
  "mgr_inv mgr \<Longrightarrow> registered mgr x \<Longrightarrow> x \<noteq> off \<Longrightarrow> registered (fst (unregister_buffer mgr off)) x"
  using mgr.unreg_other [of mgr x off] by (simp add: registered_def)

lemma unregister_all_other:
  "mgr_inv mgr \<Longrightarrow> registered mgr x \<Longrightarrow> x \<notin> set offs \<Longrightarrow> registered (unregister_all mgr offs) x"
  using mgr.all_other [of mgr x offs] by (simp add: registered_def unregister_all_def)

text \<open>The same as equivalences: mappings do not change what is registered.\<close>

lemma register_registered_iff:
  assumes "mgr_inv mgr" and "register_buffer chk mgr off0 sz = Some (mgr', Inr off)"
  shows "registered mgr' x \<longleftrightarrow> x = off \<or> registered mgr x"
  using register_buffer_Inr [OF assms] by (auto simp: registered_def MmapBuffer_new_def)

lemma unregister_all_registered:
  assumes "mgr_inv mgr"
  shows "registered (unregister_all mgr offs) x \<longleftrightarrow> registered mgr x \<and> x \<notin> set offs"
  using mgr.all_unregistered [OF assms, of x offs] mgr.all_other [OF assms, of x offs]
  by (cases "x \<in> set offs") (auto simp: registered_def unregister_all_def)

lemma create_registered_iff:
  assumes "mgr_inv mgr" and "create_mapping chk hm mgr off f w = Some (mgr', r)"
  shows "registered mgr' x \<longleftrightarrow> registered mgr x"
proof -
  obtain mgr1 r1 where "create_mapping chk hm mgr off f w = Some (mgr1, r1)"
    and "spec_create hm off f w (mgr_map mgr) (mapper mgr) = (mgr_map mgr1, mapper mgr1, r1)"
    using create_mapping_refines [OF assms(1)] by blast
  with assms(2) have m: "mgr_map mgr' = fst (spec_create hm off f w (mgr_map mgr) (mapper mgr))" by simp
  show ?thesis
    unfolding registered_def m by (auto simp: spec_create_def split: option.split prod.split sum.split)
qed

lemma remove_registered_iff:
  assumes "mgr_inv mgr" and "remove_mapping hm mgr addr = Some (mgr', r)"
  shows "registered mgr' x \<longleftrightarrow> registered mgr x"
  using remove_mapping_refines [OF assms(1), of addr hm]
proof (elim disjE exE conjE)
  assume "remove_mapping hm mgr addr = Some (mgr, Inl RemoveInvalidOffset)"
  with assms(2) show ?thesis by simp
next
  fix off b mp mgr1
  assume b: "mgr_map mgr off = Some b" and r: "remove_mapping hm mgr addr = Some (mgr1, Inr (1 < num_mappings mp))"
    and m: "mgr_map mgr1 = spec_unmap off b mp (mgr_map mgr)"
  from r assms(2) have "mgr_map mgr' = spec_unmap off b mp (mgr_map mgr)" using m by simp
  with b show ?thesis by (auto simp: spec_unmap_def registered_def split: if_split_asm)
qed

end
