(* ===== verification/Decoder_Invariant.thy ===== *)
theory Decoder_Invariant
  imports Video_Decoder Mmap_Registered "HOL-Library.Multiset"
begin

text \<open>
  What the video decoder keeps true under every ioctl, mapping, event and session change: each
  offset it advertises for a buffer is registered with the MMAP manager and belongs to one buffer of
  one session. The invariant only looks at the part of a buffer that identifies it, its
  \<open>view\<close>, and most methods do not change that part.
\<close>

section \<open>What the decoder relies on\<close>

text \<open>
  The laws of \<open>V4l2Buffer\<close>, the directions of the two multi-planar queues, and that a new buffer
  has a single plane: the device only supports single-planar formats.
\<close>

definition dec_laws :: "'vb v4l2r \<Rightarrow> bool" where
  "dec_laws K \<longleftrightarrow> vb_laws K \<and> queue_direction K VideoOutputMplane = Output \<and>
     queue_direction K VideoCaptureMplane = Capture \<and>
     (\<forall>q i off len b. vb_set_mmap_plane K (vb_new K q i Mmap) off len = Some b \<longrightarrow> vb_mmap_offsets K b = Some [off])"

lemma dec_laws_ex_K: "dec_laws ex_K"
  using vb_laws_ex_K by (simp add: dec_laws_def ex_new_def ex_direction_def)

lemma dec_laws_vb: "dec_laws K \<Longrightarrow> vb_laws K"
  by (simp add: dec_laws_def)

lemma dec_laws_directions:
  "dec_laws K \<Longrightarrow> queue_direction K VideoOutputMplane = Output"
  "dec_laws K \<Longrightarrow> queue_direction K VideoCaptureMplane = Capture"
  by (simp_all add: dec_laws_def)

section \<open>The identity of buffers\<close>

definition view1 :: "'vb v4l2r \<Rightarrow> ('vb, 'st) VideoDecoderBuffer \<Rightarrow> u32 \<times> MemoryType \<times> u32 list option \<times> QueueType" where
  "view1 K b = (vb_index K (db_v4l2 b), vb_memory K (db_v4l2 b), vb_mmap_offsets K (db_v4l2 b), vb_queue K (db_v4l2 b))"

abbreviation view :: "'vb v4l2r \<Rightarrow> ('vb, 'st) VideoDecoderBuffer list \<Rightarrow> (u32 \<times> MemoryType \<times> u32 list option \<times> QueueType) list" where
  "view K bufs \<equiv> map (view1 K) bufs"

lemma offsets_view: "offsets_of K bufs = concat (map (\<lambda>(_, _, offs, _). case offs of Some os \<Rightarrow> os | None \<Rightarrow> []) (view K bufs))"
  unfolding offsets_of_def by (induction bufs) (simp_all add: buffer_offsets_def view1_def)

lemma offsets_cong: "view K bufs = view K bufs' \<Longrightarrow> offsets_of K bufs = offsets_of K bufs'"
  by (simp add: offsets_view)

lemma offsets_append [simp]: "offsets_of K (xs @ ys) = offsets_of K xs @ offsets_of K ys"
  by (simp add: offsets_of_def)

lemma offsets_Nil [simp]: "offsets_of K [] = []"
  by (simp add: offsets_of_def)

lemma view_update:
  assumes "i < length bufs" and "view1 K b = view1 K (bufs ! i)"
  shows "view K (bufs[i := b]) = view K bufs"
  using assms by (simp add: map_update) (metis length_map list_update_id nth_map)

lemma view_same_v4l2:
  fixes bufs bufs' :: "('vb, 'st) VideoDecoderBuffer list"
  assumes "map db_v4l2 bufs' = map db_v4l2 bufs"
  shows "view K bufs' = view K bufs"
proof -
  have "view K bs = map (\<lambda>v. (vb_index K v, vb_memory K v, vb_mmap_offsets K v, vb_queue K v)) (map db_v4l2 bs)"
    for bs :: "('vb, 'st) VideoDecoderBuffer list"
    by (simp add: view1_def)
  then show ?thesis by (simp only: assms)
qed

text \<open>The changes that the methods make to the V4L2 part of a buffer keep its view.\<close>

lemmas vb_laws_identity = vb_laws_index vb_laws_memory vb_laws_offsets vb_laws_queue

lemma view1_set:
  assumes "vb_laws K"
  shows "view1 K (b\<lparr>db_v4l2 := vb_set_flags K v f\<rparr>) = view1 K (b\<lparr>db_v4l2 := v\<rparr>)"
    "view1 K (b\<lparr>db_v4l2 := vb_add_flags K v f\<rparr>) = view1 K (b\<lparr>db_v4l2 := v\<rparr>)"
    "view1 K (b\<lparr>db_v4l2 := vb_clear_flags K v f\<rparr>) = view1 K (b\<lparr>db_v4l2 := v\<rparr>)"
    "view1 K (b\<lparr>db_v4l2 := vb_set_field K v f\<rparr>) = view1 K (b\<lparr>db_v4l2 := v\<rparr>)"
    "view1 K (b\<lparr>db_v4l2 := vb_set_sequence K v f\<rparr>) = view1 K (b\<lparr>db_v4l2 := v\<rparr>)"
    "view1 K (b\<lparr>db_v4l2 := vb_set_timestamp K v t\<rparr>) = view1 K (b\<lparr>db_v4l2 := v\<rparr>)"
    "view1 K (b\<lparr>db_v4l2 := vb_set_bytesused K v f\<rparr>) = view1 K (b\<lparr>db_v4l2 := v\<rparr>)"
    "view1 K (b\<lparr>db_v4l2 := vb_set_length K v f\<rparr>) = view1 K (b\<lparr>db_v4l2 := v\<rparr>)"
    "view1 K (b\<lparr>db_v4l2 := vb_set_data_offset K v f\<rparr>) = view1 K (b\<lparr>db_v4l2 := v\<rparr>)"
    "view1 K (b\<lparr>db_v4l2 := copy_first_plane K g v\<rparr>) = view1 K (b\<lparr>db_v4l2 := v\<rparr>)"
    "view1 K (b\<lparr>db_v4l2 := db_v4l2 b\<rparr>) = view1 K b"
  by (simp_all add: view1_def vb_laws_identity [OF assms] copy_first_plane_def Let_def split: option.split)

lemma view_clear_queued: "vb_laws K \<Longrightarrow> view K (clear_queued K bufs) = view K bufs"
  by (simp add: clear_queued_def view1_set)

section \<open>The invariant of a session\<close>

text \<open>The buffer at position \<open>i\<close> has index \<open>i\<close> and is an MMAP buffer.\<close>

definition indices_ok :: "'vb v4l2r \<Rightarrow> ('vb, 'st) VideoDecoderBuffer list \<Rightarrow> bool" where
  "indices_ok K bufs \<longleftrightarrow> (\<forall>i < length bufs. unat (vb_index K (db_v4l2 (bufs ! i))) = i \<and>
     vb_memory K (db_v4l2 (bufs ! i)) = Mmap)"

lemma indices_view:
  "indices_ok K bufs \<longleftrightarrow> (\<forall>i < length (view K bufs). unat (fst (view K bufs ! i)) = i \<and> fst (snd (view K bufs ! i)) = Mmap)"
  by (simp add: indices_ok_def view1_def)

lemma indices_cong: "view K bufs = view K bufs' \<Longrightarrow> indices_ok K bufs = indices_ok K bufs'"
  unfolding indices_view by (simp only:)

definition sess_offsets :: "'vb v4l2r \<Rightarrow> ('vb, 'st, 'bs) VideoDecoderSession \<Rightarrow> u32 list" where
  "sess_offsets K s = offsets_of K (vs_input_buffers s @ vs_output_buffers s)"

text \<open>
  The offsets of the session are registered, belong to one plane of one buffer each, and are
  disjoint from the set \<open>others\<close> of the offsets of the other sessions, which are registered too.
\<close>

definition owns :: "'vb v4l2r \<Rightarrow> u32 set \<Rightarrow> 'm MmapMappingManager \<Rightarrow> ('vb, 'st, 'bs) VideoDecoderSession \<Rightarrow> bool" where
  "owns K others mgr s \<longleftrightarrow> distinct (sess_offsets K s) \<and> (\<forall>off \<in> set (sess_offsets K s). registered mgr off) \<and>
     set (sess_offsets K s) \<inter> others = {} \<and> (\<forall>off \<in> others. registered mgr off) \<and>
     indices_ok K (vs_input_buffers s) \<and> indices_ok K (vs_output_buffers s)"

definition dec_I :: "'vb v4l2r \<Rightarrow> u32 \<Rightarrow> u32 set \<Rightarrow> ('m, 'vb, 'b, 'w) VideoDecoder \<Rightarrow>
    ('vb, 'st, 'bs) VideoDecoderSession \<Rightarrow> bool"
where
  "dec_I K sid others d s \<longleftrightarrow> mgr_inv (vd_host_mapper d) \<and> vs_id s = sid \<and>
     (dec_laws K \<longrightarrow> owns K others (vd_host_mapper d) s)"

lemma owns_cong:
  assumes "view K (vs_input_buffers s') = view K (vs_input_buffers s)"
    and "view K (vs_output_buffers s') = view K (vs_output_buffers s)"
  shows "owns K others mgr s' = owns K others mgr s"
  using offsets_cong [OF assms(1)] offsets_cong [OF assms(2)] indices_cong [OF assms(1)] indices_cong [OF assms(2)]
  by (simp add: owns_def sess_offsets_def)

lemma owns_mono:
  "owns K others mgr s \<Longrightarrow> (\<And>off. registered mgr off \<Longrightarrow> registered mgr' off) \<Longrightarrow> owns K others mgr' s"
  by (auto simp: owns_def)

text \<open>A method that leaves the manager and the views of the buffers alone keeps the invariant.\<close>

lemma dec_I_view:
  assumes "dec_I K sid others d s" and "vd_host_mapper d' = vd_host_mapper d" and "vs_id s' = vs_id s"
    and "dec_laws K \<Longrightarrow> view K (vs_input_buffers s') = view K (vs_input_buffers s)"
    and "dec_laws K \<Longrightarrow> view K (vs_output_buffers s') = view K (vs_output_buffers s)"
  shows "dec_I K sid others d' s'"
  using assms(1-3) owns_cong [OF assms(4,5)] by (auto simp: dec_I_def)

section \<open>The methods that keep the views\<close>

lemma try_send_same:
  assumes "try_send_pending_output_buffers K B s w = Some (w', s', res)"
  shows "vs_id s' = vs_id s" and "vs_input_buffers s' = vs_input_buffers s"
    and "view K (vs_output_buffers s') = view K (vs_output_buffers s)"
proof -
  have same: "vs_id s' = vs_id s \<and> vs_input_buffers s' = vs_input_buffers s \<and>
      map db_v4l2 (vs_output_buffers s') = map db_v4l2 (vs_output_buffers s)"
  proof (cases "is_output_streaming (vs_state s)")
    case True
    with assms obtain bufs bs where
      s: "send_outputs K B (vs_pending_output_buffers s) (vs_output_buffers s) (vs_backend_session s) w = Some (w', bufs, bs, res)"
      and "s' = s\<lparr>vs_pending_output_buffers := [], vs_output_buffers := bufs, vs_backend_session := bs\<rparr>"
      by (simp add: try_send_pending_output_buffers_def) (auto elim!: bind_SomeE)
    with send_outputs_v4l2 [OF s] show ?thesis by simp
  next
    case False
    with assms show ?thesis by (simp add: try_send_pending_output_buffers_def)
  qed
  then show "vs_id s' = vs_id s" "vs_input_buffers s' = vs_input_buffers s" by simp_all
  from same show "view K (vs_output_buffers s') = view K (vs_output_buffers s)" by (intro view_same_v4l2) simp
qed

lemma dec_ro_keeps:
  "ro_keeps I (dec_enum_fmt K B queue index)" "ro_keeps I (dec_enum_framesizes K B index fmt)"
  "ro_keeps I (dec_g_fmt K B queue)" "ro_keeps I (dec_try_fmt K B queue format)"
  "ro_keeps I (dec_querybuf queue index)" "ro_keeps I (dec_g_selection B t tgt)"
  "ro_keeps I (dec_try_decoder_cmd K c)"
  by (auto simp: ro_keeps_def dec_enum_fmt_def dec_enum_framesizes_def dec_g_fmt_def dec_try_fmt_def
      dec_querybuf_def dec_g_selection_def dec_try_decoder_cmd_def split: if_split_asm)

lemma dec_s_fmt_keeps: "rw_keeps (dec_I K sid others) (dec_s_fmt K B queue format)"
  by (auto simp: rw_keeps_def dec_s_fmt_def Let_def split: sum.split_asm option.split_asm intro: dec_I_view)

lemma dec_subscribe_keeps:
  "rw_keeps (dec_I K sid others) (dec_subscribe_event event flags)"
  "rw_keeps (dec_I K sid others) (dec_unsubscribe_event K sub)"
  by (auto simp: rw_keeps_def dec_subscribe_event_def dec_unsubscribe_event_def Let_def split: if_split_asm
      intro: dec_I_view)

lemma dec_I_crop: "dec_I K sid others d (s\<lparr>vs_crop_rectangle := c\<rparr>) = dec_I K sid others d s"
  by (simp add: dec_I_def owns_def sess_offsets_def)

lemma dec_s_selection_keeps: "rw_keeps (dec_I K sid others) (dec_s_selection chk K B t tgt rect fl)"
  by (auto simp: rw_keeps_def dec_s_selection_def dec_g_selection_def dec_I_crop elim!: bind_SomeE
      split: if_split_asm CropRectangle.split_asm)

lemma dec_streamon_keeps: "rw_keeps (dec_I K sid others) (dec_streamon K B queue)"
  unfolding rw_keeps_def
proof (intro allI impI)
  fix d s d' s' x
  assume I: "dec_I K sid others d s" and run: "dec_streamon K B queue d s = Some (d', s', x)"
  show "dec_I K sid others d' s'"
  proof (cases "queue_buffers queue s = None \<or> queue_buffers queue s = Some []")
    case True
    with I run show ?thesis by (auto simp: dec_streamon_def)
  next
    case False
    with run obtain st w' where "d' = d\<lparr>vd_os := w'\<rparr>" and
      t: "try_send_pending_output_buffers K B (set_streaming B (queue_direction K queue) True (s\<lparr>vs_state := st\<rparr>)) (vd_os d) =
        Some (w', s', x)"
      by (auto simp: dec_streamon_def Let_def split: option.split_asm if_split_asm)
    with try_send_same [OF t] I show ?thesis
      by (intro dec_I_view [OF I]) (simp_all add: set_streaming_def)
  qed
qed

lemma dec_streamoff_keeps: "rw_keeps (dec_I K sid others) (dec_streamoff K B queue)"
  unfolding rw_keeps_def
proof (intro allI impI)
  fix d s d' s' x
  assume I: "dec_I K sid others d s" and run: "dec_streamoff K B queue d s = Some (d', s', x)"
  show "dec_I K sid others d' s'"
  proof (cases "queue_direction K queue")
    case Output
    with run show ?thesis
      by (intro dec_I_view [OF I]) (auto simp: dec_streamoff_def set_streaming_def view_clear_queued dec_laws_vb)
  next
    case Capture
    with run show ?thesis
      by (intro dec_I_view [OF I])
        (auto simp: dec_streamoff_def set_streaming_def view_clear_queued dec_laws_vb
          split: option.split_asm sum.split_asm)
  qed
qed

lemma apply_decoder_cmd_same:
  assumes "apply_decoder_cmd K B c s w = Some (w', s', r)"
  shows "vs_id s' = vs_id s" and "vs_input_buffers s' = vs_input_buffers s"
    and "view K (vs_output_buffers s') = view K (vs_output_buffers s)"
proof -
  have "vs_id s' = vs_id s \<and> vs_input_buffers s' = vs_input_buffers s \<and>
      view K (vs_output_buffers s') = view K (vs_output_buffers s)"
  proof (cases c)
    case (CmdStop x)
    with assms show ?thesis
      by (cases "vs_state s") (auto simp: apply_decoder_cmd_def)
  next
    case (CmdStart x)
    show ?thesis
    proof (cases "vs_state s")
      case (Stopped inp out)
      with CmdStart assms try_send_same [of K B _ w w' s' r] show ?thesis
        by (cases "inp \<and> out") (simp_all add: apply_decoder_cmd_def set_streaming_def)
    qed (use CmdStart assms in \<open>simp_all add: apply_decoder_cmd_def\<close>)
  qed (use assms in \<open>auto simp: apply_decoder_cmd_def\<close>)
  then show "vs_id s' = vs_id s" "vs_input_buffers s' = vs_input_buffers s"
      "view K (vs_output_buffers s') = view K (vs_output_buffers s)" by simp_all
qed

lemma dec_decoder_cmd_keeps: "rw_keeps (dec_I K sid others) (dec_decoder_cmd K B c)"
  unfolding rw_keeps_def
proof (intro allI impI)
  fix d s d' s' x
  assume I: "dec_I K sid others d s" and run: "dec_decoder_cmd K B c d s = Some (d', s', x)"
  show "dec_I K sid others d' s'"
  proof (cases "\<exists>c1 c2. DecoderCmd_try_from K c = Some c1 \<and> vs_try_decoder_cmd K s c1 = Inr c2")
    case True
    then obtain c1 c2 where "DecoderCmd_try_from K c = Some c1" "vs_try_decoder_cmd K s c1 = Inr c2" by blast
    with run obtain r w' where "d' = d\<lparr>vd_os := w'\<rparr>" and a: "apply_decoder_cmd K B c2 s (vd_os d) = Some (w', s', r)"
      by (auto simp: dec_decoder_cmd_def)
    with apply_decoder_cmd_same [OF a] show ?thesis by (intro dec_I_view [OF I]) simp_all
  next
    case False
    with I run show ?thesis by (auto simp: dec_decoder_cmd_def split: option.split_asm sum.split_asm)
  qed
qed

text \<open>The V4L2 part of an OUTPUT buffer after the values of the guest have been copied.\<close>

definition input_v4l2 :: "'vb v4l2r \<Rightarrow> 'vb \<Rightarrow> 'vb \<Rightarrow> 'vb" where
  "input_v4l2 K g v = copy_first_plane K g (vb_set_bytesused K (vb_set_timestamp K
     (vb_set_field K v (FIELD_NONE K)) (vb_timestamp K g)) (vb_bytesused K g))"

lemma queue_input_eq:
  assumes "v = input_v4l2 K g (db_v4l2 host)" and "n = (if vb_bytesused K v = 0 then vb_length K v else vb_bytesused K v)"
  shows "queue_input K B g i host s w = map_option (\<lambda>(w', bs', r). (w', case r of
      Inl e \<Rightarrow> (s\<lparr>vs_input_buffers := (vs_input_buffers s)[i := host\<lparr>db_v4l2 := v\<rparr>], vs_backend_session := bs'\<rparr>, Inl e)
    | Inr _ \<Rightarrow> (s\<lparr>vs_backend_session := bs',
        vs_input_buffers := (vs_input_buffers s)[i := host\<lparr>db_v4l2 := vb_add_flags K v (BUF_QUEUED K)\<rparr>]\<rparr>,
        Inr (vb_add_flags K v (BUF_QUEUED K)))))
    (bs_decode B (db_backing host) (vb_index K v) (vb_timestamp K v) n (vs_backend_session s) w)"
  unfolding assms(2)
  by (cases "vb_bytesused K v = 0")
    (auto simp: queue_input_def Let_def db_index_def db_timestamp_def simp flip: input_v4l2_def assms(1)
      split: option.split sum.split)

lemma queue_input_Some:
  assumes "v = input_v4l2 K g (db_v4l2 host)" and "n = (if vb_bytesused K v = 0 then vb_length K v else vb_bytesused K v)"
    and "queue_input K B g i host s w = Some (w', s', res)"
  obtains bs' r where "bs_decode B (db_backing host) (vb_index K v) (vb_timestamp K v) n (vs_backend_session s) w = Some (w', bs', r)"
    and "isl res = isl r"
    and "s' = s\<lparr>vs_backend_session := bs', vs_input_buffers := (vs_input_buffers s)
      [i := host\<lparr>db_v4l2 := if isl r then v else vb_add_flags K v (BUF_QUEUED K)\<rparr>]\<rparr>"
proof -
  from assms(3) obtain bs' r where
    "bs_decode B (db_backing host) (vb_index K v) (vb_timestamp K v) n (vs_backend_session s) w = Some (w', bs', r)"
    unfolding queue_input_eq [OF assms(1,2)] by auto
  with assms(3) that show thesis
    unfolding queue_input_eq [OF assms(1,2)] by (cases r) auto
qed

lemma queue_input_same:
  assumes "vb_laws K" and "i < length (vs_input_buffers s)"
    and "queue_input K B g i (vs_input_buffers s ! i) s w = Some (w', s', res)"
  shows "vs_id s' = vs_id s" and "view K (vs_input_buffers s') = view K (vs_input_buffers s)"
    and "vs_output_buffers s' = vs_output_buffers s"
proof -
  let ?host = "vs_input_buffers s ! i"
  define v where "v = input_v4l2 K g (db_v4l2 ?host)"
  from assms(3) obtain bs' fl where s': "s' = s\<lparr>vs_backend_session := bs', vs_input_buffers := (vs_input_buffers s)
      [i := ?host\<lparr>db_v4l2 := if fl then v else vb_add_flags K v (BUF_QUEUED K)\<rparr>]\<rparr>"
    by (rule queue_input_Some [OF v_def refl])
  have "view K ((vs_input_buffers s)[i := ?host\<lparr>db_v4l2 := if fl then v else vb_add_flags K v (BUF_QUEUED K)\<rparr>]) =
      view K (vs_input_buffers s)"
    by (rule view_update [OF assms(2)]) (simp add: v_def input_v4l2_def view1_set [OF assms(1)])
  with s' show "vs_id s' = vs_id s" "view K (vs_input_buffers s') = view K (vs_input_buffers s)"
      "vs_output_buffers s' = vs_output_buffers s" by simp_all
qed

lemma queue_output_same:
  assumes "vb_laws K" and "i < length (vs_output_buffers s)"
    and "queue_output K B g i (vs_output_buffers s ! i) s w = Some (w', s', res)"
  shows "vs_id s' = vs_id s" and "vs_input_buffers s' = vs_input_buffers s"
    and "view K (vs_output_buffers s') = view K (vs_output_buffers s)"
proof -
  define v where "v = copy_first_plane K g (vb_clear_flags K (vb_add_flags K (db_v4l2 (vs_output_buffers s ! i)) (BUF_QUEUED K)) (BUF_LAST K))"
  from assms(3) obtain r where
    t: "try_send_pending_output_buffers K B
      (s\<lparr>vs_output_buffers := (vs_output_buffers s)[i := (vs_output_buffers s ! i)\<lparr>db_v4l2 := v\<rparr>],
         vs_pending_output_buffers := vs_pending_output_buffers s @ [vb_index K g]\<rparr>) w = Some (w', s', r)"
    by (auto simp: queue_output_def Let_def v_def elim!: bind_SomeE)
  have "view K ((vs_output_buffers s)[i := (vs_output_buffers s ! i)\<lparr>db_v4l2 := v\<rparr>]) = view K (vs_output_buffers s)"
    by (rule view_update [OF assms(2)]) (simp add: v_def view1_set [OF assms(1)])
  with try_send_same [OF t] show "vs_id s' = vs_id s" "vs_input_buffers s' = vs_input_buffers s"
      "view K (vs_output_buffers s') = view K (vs_output_buffers s)" by simp_all
qed

lemma dec_qbuf_keeps: "rw_keeps (dec_I K sid others) (dec_qbuf K B g regions)"
  unfolding rw_keeps_def
proof (intro allI impI)
  fix d s d' s' x
  assume I: "dec_I K sid others d s" and run: "dec_qbuf K B g regions d s = Some (d', s', x)"
  let ?i = "unat (vb_index K g)"
  show "dec_I K sid others d' s'"
  proof (cases "\<exists>bufs. queue_buffers (vb_queue K g) s = Some bufs \<and> ?i < length bufs \<and>
      vb_memory K g = vb_memory K (db_v4l2 (bufs ! ?i))")
    case False
    with I run show ?thesis
      by (auto simp: dec_qbuf_def vec_get_def Let_def split: option.split_asm if_split_asm)
  next
    case True
    then obtain bufs where bufs: "queue_buffers (vb_queue K g) s = Some bufs" "?i < length bufs"
      "vb_memory K g = vb_memory K (db_v4l2 (bufs ! ?i))" by blast
    show ?thesis
    proof (cases "dec_laws K")
      case False
      with I run bufs show ?thesis
        by (auto simp: dec_qbuf_def vec_get_def Let_def dec_I_def queue_input_def queue_output_def
            split: QueueDirection.split_asm prod.split_asm option.split_asm sum.split_asm
            elim!: bind_SomeE dest: try_send_same(1))
    next
      case K: True
      note vb = dec_laws_vb [OF K]
      from bufs(1) consider "vb_queue K g = VideoOutputMplane" "bufs = vs_input_buffers s"
        | "vb_queue K g = VideoCaptureMplane" "bufs = vs_output_buffers s"
        by (auto simp: queue_buffers_def split: if_split_asm)
      then show ?thesis
      proof cases
        case 1
        with bufs run K obtain w' r where d': "d' = d\<lparr>vd_os := w'\<rparr>"
          and q: "queue_input K B g ?i (vs_input_buffers s ! ?i) s (vd_os d) = Some (w', s', r)"
          by (auto simp: dec_qbuf_def vec_get_def Let_def dec_laws_directions)
        from queue_input_same [OF vb _ q] bufs(2) 1 d' show ?thesis
          by (intro dec_I_view [OF I]) simp_all
      next
        case 2
        with bufs run K obtain w' r where d': "d' = d\<lparr>vd_os := w'\<rparr>"
          and q: "queue_output K B g ?i (vs_output_buffers s ! ?i) s (vd_os d) = Some (w', s', r)"
          by (auto simp: dec_qbuf_def vec_get_def Let_def dec_laws_directions)
        from queue_output_same [OF vb _ q] bufs(2) 2 d' show ?thesis
          by (intro dec_I_view [OF I]) simp_all
      qed
    qed
  qed
qed

section \<open>Allocation\<close>

lemma new_buffer_view:
  assumes "dec_laws K" and "VideoDecoderBuffer_new K B queue i [sz] off w = Some (w', Inr b)"
  shows "view1 K b = (i, Mmap, Some [off], queue)"
proof -
  note vb = dec_laws_vb [OF assms(1)]
  obtain v rest where v: "vb_set_mmap_plane K (vb_new K queue i Mmap) off (of_nat sz) = Some v"
    "vb_index K v = i" "vb_memory K v = Mmap" "vb_queue K v = queue"
    using vb_laws_mmap_plane [OF vb] by metis
  with assms(1) have "vb_mmap_offsets K v = Some [off]" unfolding dec_laws_def by blast
  with v assms(2) show ?thesis
    by (auto simp: VideoDecoderBuffer_new_def vec_get_def view1_def vb_laws_identity [OF vb]
        split: prod.split_asm sum.split_asm)
qed

text \<open>
  What an allocation does with the manager: it keeps what is registered, and the buffers it returns
  have offsets that were not registered before and are now.
\<close>

definition fresh_offsets :: "'m MmapMappingManager \<Rightarrow> 'm MmapMappingManager \<Rightarrow> u32 list \<Rightarrow> bool" where
  "fresh_offsets mgr mgr' offs \<longleftrightarrow> distinct offs \<and> (\<forall>off \<in> set offs. \<not> registered mgr off \<and> registered mgr' off)"

definition grows :: "'m MmapMappingManager \<Rightarrow> 'm MmapMappingManager \<Rightarrow> bool" where
  "grows mgr mgr' \<longleftrightarrow> mgr_inv mgr' \<and> (\<forall>off. registered mgr off \<longrightarrow> registered mgr' off)"

lemma dec_alloc_buffer_grows:
  assumes "mgr_inv (vd_host_mapper d)" and "dec_alloc_buffer chk K B queue sz i d = Some (d', res)"
  shows "grows (vd_host_mapper d) (vd_host_mapper d')"
    and "dec_laws K \<Longrightarrow> res = Inr b \<Longrightarrow> \<exists>off. view1 K b = (of_nat i, Mmap, Some [off], queue) \<and>
      fresh_offsets (vd_host_mapper d) (vd_host_mapper d') [off]"
proof -
  from assms(2) obtain mgr r where r: "register_buffer chk (vd_host_mapper d) None sz = Some (mgr, r)"
    by (auto simp: dec_alloc_buffer_def elim!: bind_SomeE)
  have "grows (vd_host_mapper d) (vd_host_mapper d') \<and> (dec_laws K \<longrightarrow> res = Inr b \<longrightarrow>
      (\<exists>off. view1 K b = (of_nat i, Mmap, Some [off], queue) \<and> fresh_offsets (vd_host_mapper d) (vd_host_mapper d') [off]))"
  proof (cases r)
    case (Inl e)
    with r register_refused [OF assms(1) r [unfolded Inl]] assms show ?thesis
      by (auto simp: dec_alloc_buffer_def grows_def)
  next
    case (Inr off)
    note reg = register_registered [OF assms(1) r [unfolded Inr]]
    from assms(2) r Inr obtain os' nb where
      nb: "VideoDecoderBuffer_new K B queue (of_nat i) [unat sz] off (vd_os d) = Some (os', nb)"
      by (auto simp: dec_alloc_buffer_def elim!: bind_SomeE)
    show ?thesis
    proof (cases nb)
      case (Inl e)
      with assms(2) r Inr nb have "vd_host_mapper d' = fst (unregister_buffer mgr off)" "\<nexists>b. res = Inr b"
        by (auto simp: dec_alloc_buffer_def)
      with reg show ?thesis
        by (auto simp: grows_def mgr.unreg_invar intro: unregister_other)
    next
      case b': (Inr b')
      with assms(2) r Inr nb have "vd_host_mapper d' = mgr" "res = Inr b'"
        by (auto simp: dec_alloc_buffer_def)
      with reg new_buffer_view [OF _ nb [unfolded b']] show ?thesis
        by (auto simp: grows_def fresh_offsets_def)
    qed
  qed
  then show "grows (vd_host_mapper d) (vd_host_mapper d')"
    and "dec_laws K \<Longrightarrow> res = Inr b \<Longrightarrow> \<exists>off. view1 K b = (of_nat i, Mmap, Some [off], queue) \<and>
      fresh_offsets (vd_host_mapper d) (vd_host_mapper d') [off]" by blast+
qed

lemma dec_alloc_buffers_grows:
  assumes "mgr_inv (vd_host_mapper d)" and "dec_alloc_buffers chk K B queue sz is d = Some (d', res)"
  shows "grows (vd_host_mapper d) (vd_host_mapper d') \<and> (\<forall>bs. res = Inr bs \<longrightarrow> dec_laws K \<longrightarrow>
    (\<exists>offs. length offs = length is \<and> view K bs = map2 (\<lambda>i off. (of_nat i, Mmap, Some [off], queue)) is offs \<and>
      fresh_offsets (vd_host_mapper d) (vd_host_mapper d') offs))"
  using assms
proof (induction "is" arbitrary: d res)
  case Nil
  then show ?case by (auto simp: grows_def fresh_offsets_def)
next
  case (Cons i "is")
  from Cons.prems(2) obtain d1 r1 where a: "dec_alloc_buffer chk K B queue sz i d = Some (d1, r1)"
    by (auto elim!: bind_SomeE)
  note one = dec_alloc_buffer_grows [OF Cons.prems(1) a]
  show ?case
  proof (cases r1)
    case (Inl e)
    with Cons.prems(2) a one(1) show ?thesis by auto
  next
    case (Inr b)
    with Cons.prems(2) a obtain r2 where al: "dec_alloc_buffers chk K B queue sz is d1 = Some (d', r2)"
      and res: "res = map_sum id (\<lambda>bs. b # bs) r2"
      by (auto elim!: bind_SomeE)
    have inv: "mgr_inv (vd_host_mapper d1)" using one(1) by (simp add: grows_def)
    note rest = Cons.IH [OF inv al]
    have g: "grows (vd_host_mapper d) (vd_host_mapper d')" using one(1) rest by (simp add: grows_def)
    have "\<exists>offs. length offs = length (i # is) \<and>
        view K bs = map2 (\<lambda>i off. (of_nat i, Mmap, Some [off], queue)) (i # is) offs \<and>
        fresh_offsets (vd_host_mapper d) (vd_host_mapper d') offs"
      if "res = Inr bs" and K: "dec_laws K" for bs
    proof -
      from that res obtain bs2 where bs: "bs = b # bs2" "r2 = Inr bs2" by (cases r2) auto
      from one(2) [OF K Inr] obtain off where off: "view1 K b = (of_nat i, Mmap, Some [off], queue)"
        "fresh_offsets (vd_host_mapper d) (vd_host_mapper d1) [off]" by blast
      from rest bs(2) K obtain offs where offs: "length offs = length is"
        "view K bs2 = map2 (\<lambda>i off. (of_nat i, Mmap, Some [off], queue)) is offs"
        "fresh_offsets (vd_host_mapper d1) (vd_host_mapper d') offs" by blast
      have "fresh_offsets (vd_host_mapper d) (vd_host_mapper d') (off # offs)"
        using off(2) offs(3) one(1) rest by (auto simp: fresh_offsets_def grows_def)
      with off(1) offs(1,2) bs(1) show ?thesis by (intro exI [of _ "off # offs"]) simp
    qed
    with g show ?thesis by blast
  qed
qed

lemma offsets_view_mmap:
  assumes "length offs = length is" and "view K bs = map2 (\<lambda>i off. (of_nat i, Mmap, Some [off], queue)) is offs"
  shows "offsets_of K bs = offs"
proof -
  have "length offs = length is \<Longrightarrow> concat (map (\<lambda>(_, _, offs, _). case offs of Some os \<Rightarrow> os | None \<Rightarrow> [])
      (map2 (\<lambda>i off. (of_nat i :: u32, Mmap, Some [off], queue)) is offs)) = offs"
    by (induction offs "is" rule: list_induct2) simp_all
  with assms show ?thesis by (simp only: offsets_view)
qed

lemma indices_append:
  assumes "indices_ok K bufs" and "length offs = n - length bufs" and "n < 2 ^ 32"
    and "view K bs = map2 (\<lambda>i off. (of_nat i, Mmap, Some [off], queue)) [length bufs..<n] offs"
  shows "indices_ok K (bufs @ bs)"
  unfolding indices_ok_def
proof (intro allI impI)
  fix i assume i: "i < length (bufs @ bs)"
  have len: "length bs = n - length bufs" using arg_cong [OF assms(4), of length] assms(2) by simp
  show "unat (vb_index K (db_v4l2 ((bufs @ bs) ! i))) = i \<and> vb_memory K (db_v4l2 ((bufs @ bs) ! i)) = Mmap"
  proof (cases "i < length bufs")
    case True
    with assms(1) show ?thesis by (simp add: indices_ok_def nth_append)
  next
    case False
    let ?k = "i - length bufs"
    have k: "?k < length bs" using i False by simp
    then have "view1 K (bs ! ?k) = map2 (\<lambda>i off. (of_nat i, Mmap, Some [off], queue)) [length bufs..<n] offs ! ?k"
      using assms(4) by (metis nth_map)
    also have "\<dots> = (of_nat i, Mmap, Some [offs ! ?k], queue)" using k len assms(2) False by simp
    finally have "vb_index K (db_v4l2 (bs ! ?k)) = of_nat i" "vb_memory K (db_v4l2 (bs ! ?k)) = Mmap"
      by (simp_all add: view1_def)
    then show ?thesis using False k len assms(3) by (simp add: nth_append unat_of_nat)
  qed
qed

lemma offsets_take_drop: "offsets_of K (take n bufs) @ offsets_of K (drop n bufs) = offsets_of K bufs"
  by (simp flip: offsets_append)

lemma indices_take: "indices_ok K bufs \<Longrightarrow> indices_ok K (take n bufs)"
  by (simp add: indices_ok_def)

lemma registered_keeps_some:
  assumes "mgr_inv mgr" and "distinct (xs @ ys)" and "\<forall>off \<in> set xs. registered mgr off"
  shows "\<forall>off \<in> set xs. registered (unregister_all mgr ys) off"
  using assms unregister_all_other [OF assms(1)] by auto

text \<open>Shrinking a queue gives back the offsets of the buffers that go, and no other.\<close>

lemma owns_shrink:
  assumes inv: "mgr_inv mgr" and own: "owns K others mgr s" and bufs: "queue_buffers queue s = Some bufs"
  shows "owns K others (unregister_all mgr (offsets_of K (drop n bufs))) (set_queue_buffers queue (take n bufs) s)"
proof -
  let ?out = "offsets_of K (drop n bufs)" and ?s = "set_queue_buffers queue (take n bufs) s"
  from bufs consider "queue = VideoOutputMplane" "bufs = vs_input_buffers s"
    | "queue = VideoCaptureMplane" "bufs = vs_output_buffers s"
    by (auto simp: queue_buffers_def split: if_split_asm)
  then have d: "distinct (sess_offsets K ?s @ ?out)" "set (sess_offsets K ?s @ ?out) = set (sess_offsets K s)"
    "indices_ok K (vs_input_buffers ?s)" "indices_ok K (vs_output_buffers ?s)"
    using own offsets_take_drop [of K n bufs, symmetric]
    by (cases; auto simp: owns_def sess_offsets_def set_queue_buffers_def indices_take)+
  from own d(2) have reg: "\<forall>off \<in> set (sess_offsets K ?s). registered mgr off" "set ?out \<inter> others = {}"
    "set (sess_offsets K ?s) \<inter> others = {}" "\<forall>off \<in> others. registered mgr off" by (auto simp: owns_def)
  have "\<forall>off \<in> others. registered (unregister_all mgr ?out) off"
    using reg unregister_all_other [OF inv] by blast
  with d reg registered_keeps_some [OF inv d(1)] show ?thesis by (simp add: owns_def)
qed

text \<open>Growing a queue adds buffers with fresh offsets.\<close>

lemma owns_grow:
  assumes own: "owns K others mgr s" and bufs: "queue_buffers queue s = Some bufs" and g: "grows mgr mgr'"
    and offs: "length offs = n - length bufs" "view K bs = map2 (\<lambda>i off. (of_nat i, Mmap, Some [off], queue)) [length bufs..<n] offs"
    and fresh: "fresh_offsets mgr mgr' offs" and n: "n < 2 ^ 32"
  shows "owns K others mgr' (set_queue_buffers queue (bufs @ bs) s)"
proof -
  let ?s = "set_queue_buffers queue (bufs @ bs) s"
  have o: "offsets_of K bs = offs" using offs by (intro offsets_view_mmap [OF _ offs(2)]) simp
  have ixs: "indices_ok K (vs_input_buffers s)" "indices_ok K (vs_output_buffers s)"
    using own by (simp_all add: owns_def)
  have ix: "indices_ok K (bufs @ bs)" if "indices_ok K bufs" by (rule indices_append [OF that offs(1) n offs(2)])
  from bufs consider "queue = VideoOutputMplane" "bufs = vs_input_buffers s"
    | "queue = VideoCaptureMplane" "bufs = vs_output_buffers s"
    by (auto simp: queue_buffers_def split: if_split_asm)
  then have "mset (sess_offsets K ?s) = mset (sess_offsets K s) + mset offs \<and>
    indices_ok K (vs_input_buffers ?s) \<and> indices_ok K (vs_output_buffers ?s)"
  proof cases
    case 1
    with ixs ix show ?thesis by (simp add: sess_offsets_def set_queue_buffers_def o)
  next
    case 2
    with ixs ix show ?thesis by (simp add: sess_offsets_def set_queue_buffers_def o)
  qed
  then have d: "mset (sess_offsets K ?s) = mset (sess_offsets K s) + mset offs"
    "indices_ok K (vs_input_buffers ?s)" "indices_ok K (vs_output_buffers ?s)" by blast+
  have set: "set (sess_offsets K ?s) = set (sess_offsets K s) \<union> set offs"
    using d(1) by (metis set_mset_mset set_mset_union)
  have new: "set offs \<inter> {off. registered mgr off} = {}" using fresh by (auto simp: fresh_offsets_def)
  have "distinct (sess_offsets K s @ offs)" using own new fresh by (auto simp: owns_def fresh_offsets_def)
  then have "distinct (sess_offsets K ?s)" using d(1) by (metis mset_append mset_eq_imp_distinct_iff)
  moreover have "set offs \<inter> others = {}" "\<forall>off \<in> set offs. registered mgr' off"
    using own new fresh by (auto simp: owns_def fresh_offsets_def)
  moreover have "set (sess_offsets K s) \<inter> others = {}" using own by (simp add: owns_def)
  moreover have "\<forall>off \<in> set (sess_offsets K s) \<union> others. registered mgr' off"
    using own g by (auto simp: owns_def grows_def)
  ultimately show ?thesis
    using d(2,3) unfolding owns_def set by blast
qed

lemma owns_backend [simp]: "owns K others mgr (s\<lparr>vs_backend_session := bs\<rparr>) = owns K others mgr s"
  by (simp add: owns_def sess_offsets_def)

lemma set_queue_buffers_id [simp]: "vs_id (set_queue_buffers queue bufs s) = vs_id s"
  by (simp add: set_queue_buffers_def)

lemma dec_reqbufs_keeps: "rw_keeps (dec_I K sid others) (dec_reqbufs chk K B queue memory cnt flags)"
  unfolding rw_keeps_def
proof (intro allI impI)
  fix d s d' s' x
  assume I: "dec_I K sid others d s" and run: "dec_reqbufs chk K B queue memory cnt flags d s = Some (d', s', x)"
  from I have inv: "mgr_inv (vd_host_mapper d)" by (simp add: dec_I_def)
  show "dec_I K sid others d' s'"
  proof (cases "memory = Mmap \<and> queue_buffers queue s \<noteq> None")
    case False
    with I run show ?thesis by (auto simp: dec_reqbufs_def split: if_split_asm)
  next
    case True
    then obtain bufs where bufs: "queue_buffers queue s = Some bufs" by blast
    show ?thesis
    proof (cases "unat cnt < length bufs")
      case True
      with run bufs \<open>memory = Mmap \<and> _\<close> obtain bs where
        "vd_host_mapper d' = unregister_all (vd_host_mapper d) (offsets_of K (drop (unat cnt) bufs))"
        "s' = (set_queue_buffers queue (take (unat cnt) bufs) s)\<lparr>vs_backend_session := bs\<rparr>"
        by (auto simp: dec_reqbufs_def Let_def)
      with I owns_shrink [OF inv _ bufs] unregister_all_inv [OF inv] show ?thesis by (simp add: dec_I_def)
    next
      case False
      show ?thesis
      proof (cases "\<exists>f sz rest. bs_current_format B (vs_backend_session s) (queue_direction K queue) = Some f \<and>
          mplane_sizeimages K f = sz # rest")
        case unsized: False
        with I run bufs False \<open>memory = Mmap \<and> _\<close> show ?thesis
          by (auto simp: dec_reqbufs_def Let_def elim!: bind_SomeE split: list.split_asm)
      next
        case True
        then obtain f sz rest where "bs_current_format B (vs_backend_session s) (queue_direction K queue) = Some f"
          "mplane_sizeimages K f = sz # rest" by blast
        with run bufs False \<open>memory = Mmap \<and> _\<close> obtain r where
          al: "dec_alloc_buffers chk K B queue sz [length bufs..<unat cnt] d = Some (d', r)"
          and s': "s' = s \<and> (\<exists>e. r = Inl e) \<or> (\<exists>bs. r = Inr bs \<and> s' = (set_queue_buffers queue (bufs @ bs) s)\<lparr>vs_backend_session :=
            bs_buffers_allocated B (queue_direction K queue) cnt (vs_backend_session (set_queue_buffers queue (bufs @ bs) s))\<rparr>)"
          by (auto simp: dec_reqbufs_def Let_def elim!: bind_SomeE split: sum.split_asm)
        note g = dec_alloc_buffers_grows [OF inv al]
        have n: "unat cnt < 2 ^ 32" using unsigned_less [of cnt] by simp
        have "dec_laws K \<longrightarrow> owns K others (vd_host_mapper d') s'"
        proof
          assume K: "dec_laws K"
          with I have own: "owns K others (vd_host_mapper d) s" by (simp add: dec_I_def)
          show "owns K others (vd_host_mapper d') s'"
          proof (cases r)
            case (Inl e)
            with s' g owns_mono [OF own] show ?thesis by (auto simp: grows_def)
          next
            case (Inr bs)
            with g K obtain offs where "length offs = length [length bufs..<unat cnt]"
              "view K bs = map2 (\<lambda>i off. (of_nat i, Mmap, Some [off], queue)) [length bufs..<unat cnt] offs"
              "fresh_offsets (vd_host_mapper d) (vd_host_mapper d') offs" by blast
            with owns_grow [OF own bufs _ _ _ _ n] g s' Inr show ?thesis by simp
          qed
        qed
        with s' I g show ?thesis by (auto simp: dec_I_def grows_def)
      qed
    qed
  qed
qed

section \<open>The device keeps its contracts\<close>

interpretation dec_handler: ioctl_handler "dec_handler chk K B" "dec_I K sid others" for chk K B sid others
  by unfold_locales
    (simp_all add: dec_handler_def default_handler_def dec_ro_keeps dec_s_fmt_keeps dec_subscribe_keeps
      dec_s_selection_keeps dec_streamon_keeps dec_streamoff_keeps dec_decoder_cmd_keeps dec_qbuf_keeps
      dec_reqbufs_keeps)

text \<open>
  Of all the open sessions at once: every session is stored under its identifier and owns its
  offsets, and no two sessions have an offset in common.
\<close>

definition dec_inv :: "'vb v4l2r \<Rightarrow> ('m, 'vb, 'b, 'w) VideoDecoder \<Rightarrow>
    (u32 \<rightharpoonup> ('vb, 'st, 'bs) VideoDecoderSession) \<Rightarrow> bool"
where
  "dec_inv K d ss \<longleftrightarrow> mgr_inv (vd_host_mapper d) \<and> (\<forall>sid s. ss sid = Some s \<longrightarrow> vs_id s = sid) \<and>
     (dec_laws K \<longrightarrow>
        (\<forall>sid s. ss sid = Some s \<longrightarrow> owns K {} (vd_host_mapper d) s) \<and>
        (\<forall>sid1 s1 sid2 s2. ss sid1 = Some s1 \<longrightarrow> ss sid2 = Some s2 \<longrightarrow> sid1 \<noteq> sid2 \<longrightarrow>
           set (sess_offsets K s1) \<inter> set (sess_offsets K s2) = {}))"

definition other_offsets :: "'vb v4l2r \<Rightarrow> (u32 \<rightharpoonup> ('vb, 'st, 'bs) VideoDecoderSession) \<Rightarrow> u32 \<Rightarrow> u32 set" where
  "other_offsets K ss sid = {off. \<exists>sid' s'. sid' \<noteq> sid \<and> ss sid' = Some s' \<and> off \<in> set (sess_offsets K s')}"

lemma owns_others:
  "owns K others mgr s \<longleftrightarrow> owns K {} mgr s \<and> set (sess_offsets K s) \<inter> others = {} \<and> (\<forall>off \<in> others. registered mgr off)"
  by (auto simp: owns_def)

lemma owns_registered: "owns K others mgr s \<Longrightarrow> off \<in> set (sess_offsets K s) \<Longrightarrow> registered mgr off"
  by (simp add: owns_def)

lemma owns_change:
  "owns K {} mgr s \<Longrightarrow> (\<And>off. off \<in> set (sess_offsets K s) \<Longrightarrow> registered mgr' off) \<Longrightarrow> owns K {} mgr' s"
  by (simp add: owns_def)

lemma dec_inv_disjoint:
  assumes "dec_inv K d ss" and "dec_laws K" and "ss sid1 = Some s1" and "ss sid2 = Some s2" and "sid1 \<noteq> sid2"
  shows "set (sess_offsets K s1) \<inter> set (sess_offsets K s2) = {}"
  using assms unfolding dec_inv_def by blast

lemma dec_inv_I:
  assumes "dec_inv K d ss" and "ss sid = Some s"
  shows "dec_I K sid (other_offsets K ss sid) d s"
proof -
  have "owns K (other_offsets K ss sid) (vd_host_mapper d) s" if K: "dec_laws K"
  proof -
    have "owns K {} (vd_host_mapper d) s" using assms K by (simp add: dec_inv_def)
    moreover have "set (sess_offsets K s) \<inter> other_offsets K ss sid = {}"
      using assms K unfolding dec_inv_def other_offsets_def by blast
    moreover have "\<forall>off \<in> other_offsets K ss sid. registered (vd_host_mapper d) off"
      using assms K unfolding dec_inv_def other_offsets_def by (blast intro: owns_registered)
    ultimately show ?thesis unfolding owns_others [of K "other_offsets K ss sid"] by blast
  qed
  with assms show ?thesis by (simp add: dec_I_def dec_inv_def)
qed

lemma dec_I_inv:
  assumes inv: "dec_inv K d ss" and I: "dec_I K sid (other_offsets K ss sid) d' s'"
  shows "dec_inv K d' (ss(sid \<mapsto> s'))"
proof -
  let ?ss = "ss(sid \<mapsto> s')"
  have "(\<forall>i s. ?ss i = Some s \<longrightarrow> owns K {} (vd_host_mapper d') s) \<and>
      (\<forall>i1 s1 i2 s2. ?ss i1 = Some s1 \<longrightarrow> ?ss i2 = Some s2 \<longrightarrow> i1 \<noteq> i2 \<longrightarrow>
         set (sess_offsets K s1) \<inter> set (sess_offsets K s2) = {})" if K: "dec_laws K"
  proof -
    have own: "owns K {} (vd_host_mapper d') s'" "set (sess_offsets K s') \<inter> other_offsets K ss sid = {}"
      "\<And>off. off \<in> other_offsets K ss sid \<Longrightarrow> registered (vd_host_mapper d') off"
      using I K owns_others [of K "other_offsets K ss sid"] by (auto simp: dec_I_def)
    have keep: "owns K {} (vd_host_mapper d') s" if "ss i = Some s" "i \<noteq> sid" for i s
    proof (rule owns_change [of _ "vd_host_mapper d"])
      show "owns K {} (vd_host_mapper d) s" using inv K that by (simp add: dec_inv_def)
      show "registered (vd_host_mapper d') off" if "off \<in> set (sess_offsets K s)" for off
        using own(3) that \<open>ss i = Some s\<close> \<open>i \<noteq> sid\<close> by (auto simp: other_offsets_def)
    qed
    have new: "set (sess_offsets K s') \<inter> set (sess_offsets K s) = {}" "set (sess_offsets K s) \<inter> set (sess_offsets K s') = {}"
      if "ss i = Some s" "i \<noteq> sid" for i s
      using own(2) that by (auto simp: other_offsets_def)
    have old: "set (sess_offsets K s1) \<inter> set (sess_offsets K s2) = {}"
      if "ss i1 = Some s1" "ss i2 = Some s2" "i1 \<noteq> i2" for i1 s1 i2 s2
      using inv K that unfolding dec_inv_def by blast
    show ?thesis
    proof (intro conjI allI impI)
      fix i s assume "?ss i = Some s"
      then show "owns K {} (vd_host_mapper d') s" using own(1) keep by (cases "i = sid") auto
    next
      fix i1 s1 i2 s2 assume "?ss i1 = Some s1" "?ss i2 = Some s2" "i1 \<noteq> i2"
      then show "set (sess_offsets K s1) \<inter> set (sess_offsets K s2) = {}"
        using new old by (cases "i1 = sid"; cases "i2 = sid") simp_all
    qed
  qed
  with assms show ?thesis by (simp add: dec_inv_def dec_I_def)
qed

text \<open>A change of the manager that keeps the registered offsets of the open sessions.\<close>

lemma dec_inv_manager:
  assumes "dec_inv K d ss" and "mgr_inv (vd_host_mapper d')"
    and "\<And>sid s off. dec_laws K \<Longrightarrow> ss' sid = Some s \<Longrightarrow> off \<in> set (sess_offsets K s) \<Longrightarrow>
      registered (vd_host_mapper d) off \<Longrightarrow> registered (vd_host_mapper d') off"
    and "\<And>sid s. ss' sid = Some s \<Longrightarrow> ss sid = Some s"
  shows "dec_inv K d' ss'"
proof -
  have "owns K {} (vd_host_mapper d') s" if "dec_laws K" "ss' sid = Some s" for sid s
  proof (rule owns_change)
    show own: "owns K {} (vd_host_mapper d) s" using assms(1) assms(4) [OF that(2)] that(1) by (simp add: dec_inv_def)
    show "registered (vd_host_mapper d') off" if "off \<in> set (sess_offsets K s)" for off
      using assms(3) \<open>dec_laws K\<close> \<open>ss' sid = Some s\<close> that owns_registered [OF own that] by blast
  qed
  moreover have "vs_id s = sid" if "ss' sid = Some s" for sid s
    using assms(1) assms(4) [OF that] by (simp add: dec_inv_def)
  moreover have "set (sess_offsets K s1) \<inter> set (sess_offsets K s2) = {}"
    if "dec_laws K" "ss' i1 = Some s1" "ss' i2 = Some s2" "i1 \<noteq> i2" for i1 s1 i2 s2
    using assms(1) assms(4) [OF that(2)] assms(4) [OF that(3)] that(1,4) unfolding dec_inv_def by blast
  ultimately show ?thesis using assms(2) by (simp add: dec_inv_def)
qed

lemma input_buffer_done_I:
  assumes "dec_I K sid others d s" and "input_buffer_done K i err d s = (d', s')"
  shows "dec_I K sid others d' s'"
proof (cases "unat i < length (vs_input_buffers s)")
  case True
  note u = view_update [OF True]
  from assms(2) True show ?thesis
    by (intro dec_I_view [OF assms(1)])
      (auto simp: input_buffer_done_def vec_get_def Let_def dec_send_def u view1_set dec_laws_vb)
qed (use assms in \<open>simp add: input_buffer_done_def vec_get_def\<close>)

lemma stream_format_changed_I:
  "dec_I K sid others d s \<Longrightarrow> stream_format_changed K B d s = (d', s') \<Longrightarrow> dec_I K sid others d' s'"
  by (erule dec_I_view) (auto simp: stream_format_changed_def dec_send_def)

lemma frame_completed_I:
  assumes "dec_I K sid others d s" and "frame_completed chk K i ts n is_last d s = Some (d', s')"
  shows "dec_I K sid others d' s'"
proof (cases "unat i < length (vs_output_buffers s)")
  case True
  note u = view_update [OF True]
  from assms(2) True show ?thesis
    by (intro dec_I_view [OF assms(1)])
      (auto simp: frame_completed_def vec_get_def Let_def dec_send_def u view1_set dec_laws_vb elim!: bind_SomeE)
qed (use assms in \<open>simp add: frame_completed_def vec_get_def\<close>)

lemma dec_process_events_I:
  assumes "dec_I K sid others d s" and "dec_process_events chk K B d s = Some (d', s', x)"
  shows "dec_I K sid others d' s'"
proof -
  from assms(2) obtain w' bs' ev where e: "bs_next_event B (vs_backend_session s) (vd_os d) = Some (w', bs', ev)"
    by (auto simp: dec_process_events_def split: option.split_asm)
  have I: "dec_I K sid others (d\<lparr>vd_os := w'\<rparr>) (s\<lparr>vs_backend_session := bs'\<rparr>)" by (rule dec_I_view [OF assms(1)]) simp_all
  show ?thesis
  proof (cases ev)
    case None
    with assms(2) e I show ?thesis by (simp add: dec_process_events_def)
  next
    case (Some e')
    with assms(2) e I show ?thesis
      by (cases e')
        (auto simp: dec_process_events_def split: prod.split_asm
          dest: input_buffer_done_I stream_format_changed_I frame_completed_I)
  qed
qed

interpretation video_decoder: media_device "video_decoder chk K B hm" "dec_inv K" for chk K B hm
proof (unfold_locales, goal_cases)
  case (1 d ss sid d' res)
  obtain w' b' r where "be_new_session B sid (vd_backend d) (vd_os d) = (w', b', r)" by (cases rule: prod_cases3)
  with 1(3) have mgr: "vd_host_mapper d' = vd_host_mapper d"
    and new: "res = Inr s \<Longrightarrow> vs_id s = sid \<and> vs_input_buffers s = [] \<and> vs_output_buffers s = []" for s
    by (cases r; auto simp: video_decoder_def dec_new_session_def)+
  have same: "dec_inv K d' ss" by (rule dec_inv_manager [OF 1(1)]) (use 1(1) mgr in \<open>simp_all add: dec_inv_def\<close>)
  have "dec_inv K d' (ss(sid \<mapsto> s))" if "res = Inr s" for s
  proof (rule dec_I_inv [OF same])
    have "\<forall>off \<in> other_offsets K ss sid. registered (vd_host_mapper d') off" if "dec_laws K"
      using same that unfolding dec_inv_def other_offsets_def by (blast intro: owns_registered)
    with new [OF that] same show "dec_I K sid (other_offsets K ss sid) d' s"
      by (simp add: dec_I_def owns_def sess_offsets_def indices_ok_def dec_inv_def)
  qed
  with same show ?case by (cases res) simp_all
next
  case (2 d ss sid s d')
  from 2(3) have d': "vd_host_mapper d' = unregister_all (vd_host_mapper d) (sess_offsets K s)"
    by (auto simp: video_decoder_def dec_close_session_def sess_offsets_def)
  have m: "mgr_inv (vd_host_mapper d)" using 2(1) by (simp add: dec_inv_def)
  show ?case
  proof (rule dec_inv_manager [OF 2(1)])
    fix sid1 s1 off
    assume "dec_laws K" "(ss(sid := None)) sid1 = Some s1" "off \<in> set (sess_offsets K s1)" "registered (vd_host_mapper d) off"
    moreover from this have "off \<notin> set (sess_offsets K s)"
      using dec_inv_disjoint [OF 2(1) _ 2(2)] by (auto split: if_split_asm)
    ultimately show "registered (vd_host_mapper d') off" using unregister_all_other [OF m] by (simp add: d')
  qed (use m in \<open>auto simp: d' unregister_all_inv split: if_split_asm\<close>)
next
  case (3 d ss sid s ioctl r w d' s' r' w' x)
  have "fn_keeps (dec_I K sid (other_offsets K ss sid)) (dev_do_ioctl (video_decoder chk K B hm) ioctl)"
    by (simp add: video_decoder_def dec_handler.dispatch_keeps)
  with dec_inv_I [OF 3(1,2)] 3(3) show ?case
    unfolding fn_keeps_def by (intro dec_I_inv [OF 3(1)]) blast
next
  case (4 d ss sid s fl off d' s' res')
  have m: "mgr_inv (vd_host_mapper d)" using 4(1) by (simp add: dec_inv_def)
  from 4(3) have "s' = s" and "d' = d \<or> (\<exists>f rw mgr r. create_mapping chk hm (vd_host_mapper d) off f rw = Some (mgr, r) \<and>
      d' = d\<lparr>vd_host_mapper := mgr\<rparr>)"
    by (auto simp: video_decoder_def dec_do_mmap_def elim!: bind_SomeE split: option.split_asm)
  with 4(1,2) m show ?case
    by (intro dec_inv_manager [OF 4(1)])
      (auto simp: create_mapping_inv create_registered_iff split: if_split_asm)
next
  case (5 d ss addr d' res'')
  have m: "mgr_inv (vd_host_mapper d)" using 5(1) by (simp add: dec_inv_def)
  from 5(2) obtain mgr r where "remove_mapping hm (vd_host_mapper d) addr = Some (mgr, r)" "d' = d\<lparr>vd_host_mapper := mgr\<rparr>"
    by (auto simp: video_decoder_def dec_do_munmap_def elim!: bind_SomeE)
  with m show ?case
    by (intro dec_inv_manager [OF 5(1)]) (auto simp: remove_mapping_inv remove_registered_iff)
next
  case (6 d ss sid s d' s' res)
  then have "dec_process_events chk K B d s = Some (d', s', res)" by (simp add: video_decoder_def)
  from dec_process_events_I [OF dec_inv_I [OF 6(1,2)] this] show ?case by (rule dec_I_inv [OF 6(1)])
next
  case (7 ioctl)
  show ?case by (simp add: video_decoder_def answers_dispatch)
qed

end
