(* ===== verification/Decoder_Example.thy ===== *)
theory Decoder_Example
  imports Decoder_Invariant
begin

text \<open>
  A concrete decoding backend and a run of the video decoder with it, for the concrete instances of
  the properties. The backend gives every buffer a file of its own, accepts all buffers, and keeps a
  record of the calls it gets; the events it reports are queued in its state.
\<close>

record Ex_Session =
  xs_decoded :: "(nat \<times> u32 \<times> timeval \<times> u32) list"
  xs_outputs :: "(u32 \<times> nat) list"
  xs_events :: "VideoDecoderBackendEvent list"
  xs_streaming :: "(QueueDirection \<times> bool) list"

definition ex_pix :: v4l2_pix_format_mplane where
  "ex_pix = \<lparr>pix_mp_width = 320, pix_mp_height = 240, pix_mp_pixelformat = 0x3231564E, pix_mp_field = 1, pix_mp_plane_fmt = [(320, 0x1C200)], pix_mp_num_planes = 1, pix_mp_flags = 0, 
        pix_mp_colorspace = 3, pix_mp_ycbcr_enc = 2, pix_mp_quantization = 2, pix_mp_xfer_func = 5, pix_mp_rest = []\<rparr>"

definition ex_B :: "(Ex_Buffer, nat, nat, Ex_Session, unit) VideoDecoderBackend" where
  "ex_B =
     \<lparr>st_new = (\<lambda>_ _ _ w. (w + 1, Inr w)),
      fd_for_plane = (\<lambda>st p. if p = 0 then Some st else None),
      bs_decode = (\<lambda>st i t n bs w. Some (w, bs\<lparr>xs_decoded := xs_decoded bs @ [(st, i, t, n)]\<rparr>, Inr ())),
      bs_use_as_output = (\<lambda>i st bs w. Some (w, bs\<lparr>xs_outputs := xs_outputs bs @ [(i, st)]\<rparr>, st, Inr ())),
      bs_drain = (\<lambda>bs w. Some (w, bs, Inr ())),
      bs_clear_output_buffers = (\<lambda>bs w. Some (w, bs\<lparr>xs_outputs := []\<rparr>, Inr ())),
      bs_next_event = (\<lambda>bs w. Some (w, bs\<lparr>xs_events := tl (xs_events bs)\<rparr>,
        case xs_events bs of [] \<Rightarrow> None | ev # _ \<Rightarrow> Some ev)),
      bs_current_format = (\<lambda>_ dir. Some (dir, ex_pix)),
      bs_stream_params = (\<lambda>_. \<lparr>min_output_buffers = 1, coded_size = (320, 240), visible_rect = Rect_new 0 0 320 180\<rparr>),
      bs_buffers_allocated = (\<lambda>_ _ bs. bs),
      bs_poll_fd = (\<lambda>_. None),
      bs_streaming_state = (\<lambda>dir on bs. bs\<lparr>xs_streaming := xs_streaming bs @ [(dir, on)]\<rparr>),
      be_new_session = (\<lambda>_ b w. (w, b, Inr \<lparr>xs_decoded = [], xs_outputs = [], xs_events = [], xs_streaming = []\<rparr>)),
      be_close_session = (\<lambda>_ b. b),
      be_enum_formats = (\<lambda>_ _ _ _. None),
      be_frame_sizes = (\<lambda>_ _. None),
      be_adjust_format = (\<lambda>_ _ _ f. Some f),
      be_apply_format = (\<lambda>_ bs _ _. bs)\<rparr>"

lemmas ex_B_simps [simp] = ex_B_def [THEN arg_cong [where f = st_new], simplified]
  ex_B_def [THEN arg_cong [where f = fd_for_plane], simplified]
  ex_B_def [THEN arg_cong [where f = bs_decode], simplified]
  ex_B_def [THEN arg_cong [where f = bs_use_as_output], simplified]
  ex_B_def [THEN arg_cong [where f = bs_drain], simplified]
  ex_B_def [THEN arg_cong [where f = bs_clear_output_buffers], simplified]
  ex_B_def [THEN arg_cong [where f = bs_next_event], simplified]
  ex_B_def [THEN arg_cong [where f = bs_current_format], simplified]
  ex_B_def [THEN arg_cong [where f = bs_stream_params], simplified]
  ex_B_def [THEN arg_cong [where f = bs_buffers_allocated], simplified]
  ex_B_def [THEN arg_cong [where f = bs_poll_fd], simplified]
  ex_B_def [THEN arg_cong [where f = bs_streaming_state], simplified]
  ex_B_def [THEN arg_cong [where f = be_new_session], simplified]
  ex_B_def [THEN arg_cong [where f = be_close_session], simplified]

section \<open>A run with two sessions\<close>

text \<open>Session 0 asks for two CAPTURE buffers, session 1 for one OUTPUT buffer.\<close>

abbreviation dec_device ::
  "((unit, Ex_Buffer, unit, nat) VideoDecoder, (Ex_Buffer, nat, Ex_Session) VideoDecoderSession) VirtioMediaDevice"
where
  "dec_device \<equiv> video_decoder True ex_K ex_B DummyHostMemoryMapper"

definition dec0 :: "(unit, Ex_Buffer, unit, nat) VideoDecoder" where
  "dec0 = VideoDecoder_new () () 3"

definition dec_fresh :: "u32 \<Rightarrow> (Ex_Buffer, nat, Ex_Session) VideoDecoderSession" where
  "dec_fresh sid =
     \<lparr>vs_id = sid, vs_state = Stopped False False, vs_input_buffers = [], vs_output_buffers = [],
      vs_pending_output_buffers = [], vs_sequence_cpt = 0, vs_src_change_subscribed = False,
      vs_eos_subscribed = False, vs_crop_rectangle = Settable (Rect_new 0 0 0 0),
      vs_colorspace = default_colorspace ex_K,
      vs_backend_session = \<lparr>xs_decoded = [], xs_outputs = [], xs_events = [], xs_streaming = []\<rparr>,
      vs_format_change_pending = False\<rparr>"

definition dec_buffer :: "QueueType \<Rightarrow> u32 \<Rightarrow> nat \<Rightarrow> u32 \<Rightarrow> (Ex_Buffer, nat) VideoDecoderBuffer" where
  "dec_buffer q i st off =
     \<lparr>db_v4l2 = vb_set_field ex_K (vb_set_flags ex_K
        (the (vb_set_mmap_plane ex_K (vb_new ex_K q i Mmap) off 0x1C200)) (BUF_TIMESTAMP_MONOTONIC ex_K)) (FIELD_NONE ex_K),
      db_backing = st\<rparr>"

definition dec_session0 :: "(Ex_Buffer, nat, Ex_Session) VideoDecoderSession" where
  "dec_session0 = (dec_fresh 0)
     \<lparr>vs_output_buffers := [dec_buffer VideoCaptureMplane 0 3 0, dec_buffer VideoCaptureMplane 1 4 0x1000]\<rparr>"

definition dec_session1 :: "(Ex_Buffer, nat, Ex_Session) VideoDecoderSession" where
  "dec_session1 = (dec_fresh 1)\<lparr>vs_input_buffers := [dec_buffer VideoOutputMplane 0 5 0x2000]\<rparr>"

definition dec1 :: "(unit, Ex_Buffer, unit, nat) VideoDecoder" where
  "dec1 = dec0\<lparr>vd_os := 5, vd_host_mapper :=
     \<lparr>buffers = [MmapBuffer_new 0 0x1C200, MmapBuffer_new 0x1000 0x1C200], mapper = ()\<rparr>\<rparr>"

definition dec2 :: "(unit, Ex_Buffer, unit, nat) VideoDecoder" where
  "dec2 = dec0\<lparr>vd_os := 6, vd_host_mapper :=
     \<lparr>buffers = [MmapBuffer_new 0 0x1C200, MmapBuffer_new 0x1000 0x1C200, MmapBuffer_new 0x2000 0x1C200], mapper = ()\<rparr>\<rparr>"

lemmas dec_alloc_eval = dec_reqbufs_def Let_def queue_buffers_def set_queue_buffers_def upt_rec dec_alloc_buffer_def
  VideoDecoderBuffer_new_def vec_get_def register_buffer_def next_offset_def register_buffer_by_offset_def
  binary_search_by_key_def bsearch.simps vec_insert_def PAGE_MASK_def PAGE_SIZE_def
  next_multiple_of_def add_ov_def MmapBuffer_new_def ex_new_def ex_direction_def

lemma dec_reqbufs0:
  "dec_reqbufs True ex_K ex_B VideoCaptureMplane Mmap 2 flags dec0 (dec_fresh 0) =
     Some (dec1, dec_session0, Inr (dec_reqbufs_response ex_K 2 VideoCaptureMplane Mmap flags))"
  by (simp add: dec_alloc_eval dec0_def VideoDecoder_new_def MmapMappingManager_from_def dec_fresh_def dec1_def
      dec_session0_def dec_buffer_def)

lemma dec_reqbufs1:
  "dec_reqbufs True ex_K ex_B VideoOutputMplane Mmap 1 flags dec1 (dec_fresh 1) =
     Some (dec2, dec_session1, Inr (dec_reqbufs_response ex_K 1 VideoOutputMplane Mmap flags))"
  by (simp add: dec_alloc_eval dec0_def VideoDecoder_new_def MmapMappingManager_from_def dec_fresh_def dec1_def
      dec2_def dec_session1_def dec_buffer_def)

definition dec_payload :: "u8 \<Rightarrow> u8 \<Rightarrow> u8 list" where
  "dec_payload cnt q = [cnt, 0, 0, 0, q, 0, 0, 0, 1, 0, 0, 0, 0, 0, 0, 0, 0, 0, 0, 0, 0, 0, 0, 0]"

lemma dec_payload_read:
  "read_obj ex_v4l2_requestbuffers (dec_payload 2 9) =
     ([], Inr \<lparr>reqbufs_count = 2, reqbufs_type = 9, reqbufs_memory = 1, reqbufs_capabilities = 0,
              reqbufs_flags = 0, reqbufs_reserved = [0, 0, 0, 0]\<rparr>)"
  "read_obj ex_v4l2_requestbuffers (dec_payload 1 10) =
     ([], Inr \<lparr>reqbufs_count = 1, reqbufs_type = 10, reqbufs_memory = 1, reqbufs_capabilities = 0,
              reqbufs_flags = 0, reqbufs_reserved = [0, 0, 0, 0]\<rparr>)"
  by (simp_all add: read_obj_def read_exact_def into_native_def dec_payload_def ex_v4l2_requestbuffers_def
      wire_iso_def wire_pair_def wire_u32_def wire_int_def wire_bytes_def)

lemma dec_response_length:
  "length (as_bytes ex_v4l2_requestbuffers (dec_reqbufs_response ex_K n queue memory fl)) = 24"
  by (simp add: dec_reqbufs_response_def ex_v4l2_requestbuffers_def wire_iso_def wire_pair_def wire_u32_def wire_int_def
      wire_bytes_def)

lemma dec_handler_reqbufs: "h_reqbufs (dec_handler chk K B) = dec_reqbufs chk K B"
  by (simp add: dec_handler_def)

lemma dec_dispatch:
  "\<exists>w'. dev_do_ioctl dec_device VIDIOC_REQBUFS dec0 (dec_fresh 0) (dec_payload 2 9) (fresh_writer 32) =
     Some (dec1, dec_session0, [], w', Inr ())"
  "\<exists>w'. dev_do_ioctl dec_device VIDIOC_REQBUFS dec1 (dec_fresh 1) (dec_payload 1 10) (fresh_writer 32) =
     Some (dec2, dec_session1, [], w', Inr ())"
  by (simp_all add: video_decoder_def do_VIDIOC_REQBUFS_def wr_ioctl_def wr_ioctl_with_err_payload_def
      dec_payload_read no_payload_def ok_or_def rw_call_def dec_handler_reqbufs dec_reqbufs0 dec_reqbufs1 ex_queue_n_def
      write_output_def w_then_def write_response_def RespHeader.write_fits RespHeader_ok_err write_obj_eq
      dec_response_length)

definition dec_runner ::
  "((unit, Ex_Buffer, unit, nat) VideoDecoder, (Ex_Buffer, nat, Ex_Session) VideoDecoderSession, unit) VirtioMediaDeviceRunner"
where
  "dec_runner = (Runner_new dec2 ())\<lparr>sessions := [0 \<mapsto> dec_session0, 1 \<mapsto> dec_session1], session_id_counter := 2\<rparr>"

text \<open>Opening a session and asking for its buffers, as two commands of a guest.\<close>

lemma dec_open:
  fixes run :: "((unit, Ex_Buffer, unit, nat) VideoDecoder, (Ex_Buffer, nat, Ex_Session) VideoDecoderSession, unit) VirtioMediaDeviceRunner"
  assumes "session_id_counter run < 5"
  shows "\<exists>w'. handle_command True dec_device unit_poller run open_cmd (fresh_writer 16) =
    Some (run\<lparr>sessions := (sessions run)(session_id_counter run \<mapsto> dec_fresh (session_id_counter run)),
      session_id_counter := session_id_counter run + 1\<rparr>, [], w')"
proof -
  have "add_ov True (session_id_counter run) 1 = Some (session_id_counter run + 1)"
    using assms by (intro add_ov_no_overflow) (simp add: word_less_nat_alt)
  then show ?thesis
    by (simp add: handle_command_def run_command_def cmd_open_def read_commands reply_def add_session_def
        write_response_def OpenResp.write_fits Let_def video_decoder_def dec_new_session_def dec_fresh_def
        default_state_def vs_poll_fd_def)
qed

lemma dec_open_request:
  assumes "run_reachable dec_device unit_poller d () run" and "session_id_counter run = sid" and "sid < 5"
    and "dev_do_ioctl dec_device VIDIOC_REQBUFS (device run) (dec_fresh sid) r (fresh_writer 32) = Some (d', s', [], w', Inr ())"
  shows "run_reachable dec_device unit_poller d ()
    (run\<lparr>device := d', sessions := (sessions run)(sid \<mapsto> s'), session_id_counter := sid + 1\<rparr>)"
proof -
  let ?run = "run\<lparr>sessions := (sessions run)(sid \<mapsto> dec_fresh sid), session_id_counter := sid + 1\<rparr>"
  have "run_reachable dec_device unit_poller d () ?run"
    using dec_open [of run] assms(2,3) run_more [OF assms(1)] by blast
  moreover have "handle_command True dec_device unit_poller ?run (ioctl_cmd sid (as_u32 VIDIOC_REQBUFS) @ r) (fresh_writer 32) =
      Some (run\<lparr>device := d', sessions := (sessions run)(sid \<mapsto> s'), session_id_counter := sid + 1\<rparr>, [], w')"
    using ioctl_step [of ?run sid "dec_fresh sid" "as_u32 VIDIOC_REQBUFS" VIDIOC_REQBUFS] assms(4)
    by (simp add: V4l2Ioctl_n_as_u32 del: as_u32.simps)
  ultimately show ?thesis by (rule run_more)
qed

lemma dec_reachable: "run_reachable dec_device unit_poller dec0 () dec_runner"
proof -
  let ?r1 = "(Runner_new dec0 ())\<lparr>device := dec1, sessions := [0 \<mapsto> dec_session0], session_id_counter := 1\<rparr>"
  have "run_reachable dec_device unit_poller dec0 () ?r1"
    using dec_open_request [OF run_new, where sid = 0] dec_dispatch(1) by (auto simp: Runner_new_def)
  from dec_open_request [OF this, where sid = 1] dec_dispatch(2) show ?thesis
    by (auto simp: Runner_new_def dec_runner_def)
qed

end
