(* ===== verification/Decoder_Order.thy ===== *)
theory Decoder_Order
  imports Decoder_Invariant "HOL-Library.Sublist"
begin

text \<open>
  The order of the buffers of a session of the video decoder, from the moment the guest queues them to
  the event that gives them back. The device only passes buffers on, so this is a property of the device
  together with its backend: what the device relies on is stated as a contract of the backend, and what
  follows is proved once for every backend that keeps it.
\<close>

lemma subseq_drop [simp]: "subseq (xs @ ys) (xs @ y # ys)" and subseq_prefix [simp]: "subseq xs (xs @ ys)"
  by (simp_all add: subseq_append' list_emb_Cons prefix_imp_subseq)

section \<open>The contract of a backend\<close>

text \<open>The buffers an event of a backend gives back.\<close>

fun done_id :: "VideoDecoderBackendEvent \<Rightarrow> u32 list" where
  "done_id (InputBufferDone i e) = [i]"
| "done_id _ = []"

fun frame_id :: "VideoDecoderBackendEvent \<Rightarrow> u32 list" where
  "frame_id (FrameCompleted i t b l) = [i]"
| "frame_id _ = []"

abbreviation event_done :: "VideoDecoderBackendEvent option \<Rightarrow> u32 list" where
  "event_done ev \<equiv> (case ev of None \<Rightarrow> [] | Some e \<Rightarrow> done_id e)"

abbreviation event_frame :: "VideoDecoderBackendEvent option \<Rightarrow> u32 list" where
  "event_frame ev \<equiv> (case ev of None \<Rightarrow> [] | Some e \<Rightarrow> frame_id e)"

text \<open>
  A backend session holds input buffers \<open>ins\<close> and output buffers \<open>outs\<close>, oldest first. Input buffers are
  added at the end by \<open>decode\<close> and leave at the front with the event that they are done; none is lost
  while no method fails. Output buffers are added at the end by \<open>use_as_output\<close>, unless it fails, and leave
  at the front with the event that completes a frame; the other methods may drop some.
\<close>

locale ordered_backend =
  fixes B :: "('vb, 'st, 'w, 'bs, 'b) VideoDecoderBackend"
    and ins outs :: "'bs \<Rightarrow> u32 list"
  assumes new_order: "be_new_session B i b w = (w', b', Inr bs) \<Longrightarrow> ins bs = [] \<and> outs bs = []"
    and decode_order: "bs_decode B st i t n bs w = Some (w', bs', r) \<Longrightarrow>
      subseq (outs bs') (outs bs) \<and> (r = Inr () \<longrightarrow> ins bs' = ins bs @ [i])"
    and use_order: "bs_use_as_output B i st bs w = Some (w', bs', st', r) \<Longrightarrow>
      subseq (outs bs') (outs bs @ (if r = Inr () then [i] else [])) \<and> ins bs' = ins bs"
    and drain_order: "bs_drain B bs w = Some (w', bs', r) \<Longrightarrow>
      subseq (outs bs') (outs bs) \<and> (r = Inr () \<longrightarrow> ins bs' = ins bs)"
    and clear_order: "bs_clear_output_buffers B bs w = Some (w', bs', r) \<Longrightarrow>
      subseq (outs bs') (outs bs) \<and> (r = Inr () \<longrightarrow> ins bs' = ins bs)"
    and event_order: "bs_next_event B bs w = Some (w', bs', ev) \<Longrightarrow>
      subseq (event_frame ev @ outs bs') (outs bs) \<and> event_done ev @ ins bs' = ins bs"
    and allocated_order: "ins (bs_buffers_allocated B dir n bs) = ins bs \<and> outs (bs_buffers_allocated B dir n bs) = outs bs"
    and streaming_order: "ins (bs_streaming_state B dir on bs) = ins bs \<and> outs (bs_streaming_state B dir on bs) = outs bs"
    and apply_order: "ins (be_apply_format B b bs dir f) = ins bs \<and> outs (be_apply_format B b bs dir f) = outs bs"

section \<open>Runs of a session\<close>

text \<open>
  The methods of the device that change a session, as the dispatcher and the runner call them, with
  whether the call succeeded.
\<close>

datatype 'vb DecCall =
    QBuf 'vb "SgEntry list list"
  | ReqBufs QueueType MemoryType u32 MemoryConsistency
  | StreamOn QueueType
  | StreamOff QueueType
  | SetFmt QueueType v4l2_format
  | SetSelection SelectionType SelectionTarget v4l2_rect SelectionFlags
  | DecoderCommand v4l2_decoder_cmd
  | SubscribeEvent EventType SubscribeEventFlags
  | UnsubscribeEvent v4l2_event_subscription
  | MapBuffer u32 u32
  | ProcessEvents

abbreviation outcome :: "'d \<times> 's \<times> 'r IoctlResult \<Rightarrow> 'd \<times> 's \<times> bool" where
  "outcome y \<equiv> (fst y, fst (snd y), \<not> isl (snd (snd y)))"

fun dec_call ::
  "bool \<Rightarrow> 'vb v4l2r \<Rightarrow> ('vb, 'st, 'w, 'bs, 'b) VideoDecoderBackend \<Rightarrow> 'm VirtioMediaHostMemoryMapper \<Rightarrow> 'vb DecCall \<Rightarrow>
   ('m, 'vb, 'b, 'w) VideoDecoder \<Rightarrow> ('vb, 'st, 'bs) VideoDecoderSession \<Rightarrow>
   (('m, 'vb, 'b, 'w) VideoDecoder \<times> ('vb, 'st, 'bs) VideoDecoderSession \<times> bool) option"
where
  "dec_call chk K B hm (QBuf guest regions) d s = map_option outcome (dec_qbuf K B guest regions d s)"
| "dec_call chk K B hm (ReqBufs queue memory n flags) d s =
     map_option outcome (dec_reqbufs chk K B queue memory n flags d s)"
| "dec_call chk K B hm (StreamOn queue) d s = map_option outcome (dec_streamon K B queue d s)"
| "dec_call chk K B hm (StreamOff queue) d s = map_option outcome (dec_streamoff K B queue d s)"
| "dec_call chk K B hm (SetFmt queue format) d s = map_option outcome (dec_s_fmt K B queue format d s)"
| "dec_call chk K B hm (SetSelection typ target rect flags) d s =
     map_option outcome (dec_s_selection chk K B typ target rect flags d s)"
| "dec_call chk K B hm (DecoderCommand c) d s = map_option outcome (dec_decoder_cmd K B c d s)"
| "dec_call chk K B hm (SubscribeEvent event flags) d s = map_option outcome (dec_subscribe_event event flags d s)"
| "dec_call chk K B hm (UnsubscribeEvent event) d s = map_option outcome (dec_unsubscribe_event K event d s)"
| "dec_call chk K B hm (MapBuffer flags offset) d s = map_option outcome (dec_do_mmap chk K B hm flags offset d s)"
| "dec_call chk K B hm ProcessEvents d s = map_option outcome (dec_process_events chk K B d s)"

text \<open>
  A run of a session with its history: the calls, whether they succeeded, and the events the device sent
  meanwhile. Between two calls the rest of the system may change the device in any way, and the world as far
  as \<open>R\<close> allows for the session of the backend.
\<close>

type_synonym 'vb dec_history = "('vb DecCall \<times> bool \<times> ('vb, v4l2_event) V4l2Event list) list"

inductive dec_run ::
  "bool \<Rightarrow> 'vb v4l2r \<Rightarrow> ('vb, 'st, 'w, 'bs, 'b) VideoDecoderBackend \<Rightarrow> 'm VirtioMediaHostMemoryMapper \<Rightarrow>
   ('bs \<Rightarrow> 'w \<Rightarrow> 'w \<Rightarrow> bool) \<Rightarrow> u32 \<Rightarrow>
   ('m, 'vb, 'b, 'w) VideoDecoder \<Rightarrow> ('vb, 'st, 'bs) VideoDecoderSession \<Rightarrow> 'vb dec_history \<Rightarrow> bool"
  for chk K B hm R sid
where
  dec_start: "dec_new_session K B sid d0 = Some (d, Inr s) \<Longrightarrow> dec_run chk K B hm R sid d s []"
| dec_step: "dec_run chk K B hm R sid d s h \<Longrightarrow> dec_call chk K B hm c d s = Some (d', s', ok) \<Longrightarrow>
    dec_run chk K B hm R sid d' s' (h @ [(c, ok, drop (length (vd_event_queue d)) (vd_event_queue d'))])"
| dec_world: "dec_run chk K B hm R sid d s h \<Longrightarrow> R (vs_backend_session s) (vd_os d) (vd_os d') \<Longrightarrow> dec_run chk K B hm R sid d' s h"

text \<open>
  What a history says of the buffers of a queue: those that were queued with success, and those that
  events gave back.
\<close>

fun queued_id :: "'vb v4l2r \<Rightarrow> QueueType \<Rightarrow> 'vb DecCall \<times> bool \<times> 'e \<Rightarrow> u32 list" where
  "queued_id K q (QBuf guest regions, ok, _) = (if ok \<and> vb_queue K guest = q then [vb_index K guest] else [])"
| "queued_id K q _ = []"

fun returned_id :: "'vb v4l2r \<Rightarrow> QueueType \<Rightarrow> ('vb, 'e) V4l2Event \<Rightarrow> u32 list" where
  "returned_id K q (DequeueBuffer e) = (if vb_queue K (dq_v4l2_buffer e) = q then [vb_index K (dq_v4l2_buffer e)] else [])"
| "returned_id K q _ = []"

definition queued_ids :: "'vb v4l2r \<Rightarrow> QueueType \<Rightarrow> 'vb dec_history \<Rightarrow> u32 list" where
  "queued_ids K q h = concat (map (queued_id K q) h)"

definition returned_ids :: "'vb v4l2r \<Rightarrow> QueueType \<Rightarrow> 'vb dec_history \<Rightarrow> u32 list" where
  "returned_ids K q h = concat (map (concat \<circ> map (returned_id K q) \<circ> snd \<circ> snd) h)"

section \<open>Identities of the buffers\<close>

text \<open>The buffers of a queue are numbered from 0 and say which queue they are of.\<close>

definition numbered :: "'vb v4l2r \<Rightarrow> QueueType \<Rightarrow> ('vb, 'st) VideoDecoderBuffer list \<Rightarrow> bool" where
  "numbered K q bufs \<longleftrightarrow> (\<forall>i < length bufs. unat (vb_index K (db_v4l2 (bufs ! i))) = i \<and> vb_queue K (db_v4l2 (bufs ! i)) = q)"

definition sess_numbered :: "'vb v4l2r \<Rightarrow> ('vb, 'st, 'bs) VideoDecoderSession \<Rightarrow> bool" where
  "sess_numbered K s \<longleftrightarrow> numbered K VideoOutputMplane (vs_input_buffers s) \<and> numbered K VideoCaptureMplane (vs_output_buffers s)"

abbreviation same_views ::
  "'vb v4l2r \<Rightarrow> ('vb, 'st, 'bs) VideoDecoderSession \<Rightarrow> ('vb, 'st, 'bs) VideoDecoderSession \<Rightarrow> bool"
where
  "same_views K s s' \<equiv> view K (vs_input_buffers s') = view K (vs_input_buffers s) \<and>
     view K (vs_output_buffers s') = view K (vs_output_buffers s)"

lemma numbered_view:
  "numbered K q bufs \<longleftrightarrow> (\<forall>i < length (view K bufs). unat (fst (view K bufs ! i)) = i \<and> snd (snd (snd (view K bufs ! i))) = q)"
  by (simp add: numbered_def view1_def)

lemma numbered_cong: "view K bufs = view K bufs' \<Longrightarrow> numbered K q bufs = numbered K q bufs'"
  unfolding numbered_view by (simp only:)

lemma sess_numbered_cong: "same_views K s s' \<Longrightarrow> sess_numbered K s' = sess_numbered K s"
  unfolding sess_numbered_def using numbered_cong by metis

lemma same_views_length: "same_views K s s' \<Longrightarrow> length (vs_input_buffers s') = length (vs_input_buffers s)"
  by (metis length_map)

lemma numbered_index: "numbered K q bufs \<Longrightarrow> unat i < length bufs \<Longrightarrow> vb_index K (db_v4l2 (bufs ! unat i)) = i"
  by (simp add: numbered_def word_unat_eq_iff)

lemma numbered_take: "numbered K q bufs \<Longrightarrow> numbered K q (take n bufs)"
  by (simp add: numbered_def)

lemma dec_alloc_buffers_view:
  assumes "dec_laws K" and "dec_alloc_buffers chk K B queue sz is d = Some (d', Inr bs)"
  shows "map (\<lambda>b. (vb_index K (db_v4l2 b), vb_queue K (db_v4l2 b))) bs = map (\<lambda>i. (of_nat i, queue)) is"
  using assms(2)
proof (induction "is" arbitrary: d bs)
  case (Cons i "is")
  from Cons.prems obtain d1 b bs2 where a: "dec_alloc_buffer chk K B queue sz i d = Some (d1, Inr b)"
    and r: "dec_alloc_buffers chk K B queue sz is d1 = Some (d', Inr bs2)" "bs = b # bs2"
    by (auto simp: map_sum_eq_Inr elim!: bind_SomeE split: sum.split_asm)
  from a obtain off os os' where n: "VideoDecoderBuffer_new K B queue (of_nat i) [unat sz] off os = Some (os', Inr b)"
    by (auto simp: dec_alloc_buffer_def elim!: bind_SomeE split: sum.split_asm)
  with Cons.IH [OF r(1)] r(2) new_buffer_view [OF assms(1) n] show ?case by (simp add: view1_def)
qed simp

lemma dec_alloc_buffers_events:
  "dec_alloc_buffers chk K B queue sz is d = Some (d', res) \<Longrightarrow> vd_event_queue d' = vd_event_queue d"
proof (induction "is" arbitrary: d res)
  case (Cons i "is")
  from Cons.prems obtain d1 r1 where a: "dec_alloc_buffer chk K B queue sz i d = Some (d1, r1)" by (auto elim!: bind_SomeE)
  then have "vd_event_queue d1 = vd_event_queue d" by (auto simp: dec_alloc_buffer_def elim!: bind_SomeE split: sum.split_asm)
  with Cons a show ?case by (auto elim!: bind_SomeE split: sum.split_asm)
qed simp

lemma numbered_append:
  assumes "numbered K q bufs" and "n < 2 ^ 32" and "length bufs \<le> n"
    and "map (\<lambda>b. (vb_index K (db_v4l2 b), vb_queue K (db_v4l2 b))) bs = map (\<lambda>i. (of_nat i, q)) [length bufs..<n]"
  shows "numbered K q (bufs @ bs)" and "length (bufs @ bs) = n"
proof -
  have len: "length bs = n - length bufs" using arg_cong [OF assms(4), of length] by simp
  then show "length (bufs @ bs) = n" using assms(3) by simp
  have "vb_index K (db_v4l2 (bs ! k)) = of_nat (length bufs + k) \<and> vb_queue K (db_v4l2 (bs ! k)) = q" if "k < length bs" for k
    using arg_cong [OF assms(4), of "\<lambda>xs. xs ! k"] that len by simp
  then show "numbered K q (bufs @ bs)"
    using assms(1,2) len by (auto simp: numbered_def nth_append unat_of_nat)
qed

text \<open>The number of buffers that the successful requests of a history asked for.\<close>

fun requested :: "QueueType \<Rightarrow> 'vb DecCall \<times> bool \<times> 'e \<Rightarrow> nat list" where
  "requested q (ReqBufs queue memory n flags, ok, _) = (if ok \<and> queue = q then [unat n] else [])"
| "requested q _ = []"

definition requests :: "QueueType \<Rightarrow> 'vb dec_history \<Rightarrow> nat list" where
  "requests q h = concat (map (requested q) h)"

lemmas dec_history_defs = queued_ids_def returned_ids_def requests_def

text \<open>The event of a completed frame gives back the buffer that the backend names.\<close>

lemma frame_completed_event:
  assumes "vb_laws K" and "numbered K VideoCaptureMplane (vs_output_buffers s)" and "unat i < length (vs_output_buffers s)"
    and "frame_completed chk K i ts ns is_last d s = Some (d', s')"
  shows "\<exists>v evs. vd_event_queue d' = vd_event_queue d @ DequeueBuffer (DequeueBufferEvent_new (vs_id s) v) # evs \<and>
    vb_index K v = i \<and> vb_queue K v = VideoCaptureMplane \<and> (\<forall>q. concat (map (returned_id K q) evs) = []) \<and>
    same_views K s s' \<and> vs_backend_session s' = vs_backend_session s \<and>
    vs_pending_output_buffers s' = vs_pending_output_buffers s"
proof -
  let ?b = "vs_output_buffers s ! unat i"
  define v where "v = vb_set_bytesused K (vb_set_timestamp K (vb_set_sequence K
    (let v = vb_set_flags K (vb_clear_flags K (db_v4l2 ?b) (BUF_QUEUED K)) (BUF_TIMESTAMP_COPY K)
     in if is_last then vb_set_flags K v (BUF_LAST K) else v) (vs_sequence_cpt s)) ts) (case ns of [] \<Rightarrow> 0 | n # _ \<Rightarrow> n)"
  have "vb_index K v = i" "vb_queue K v = VideoCaptureMplane"
    using assms(2,3) numbered_index [OF assms(2,3)]
    by (auto simp: v_def Let_def vb_laws_identity [OF assms(1)] numbered_def split: list.split)
  moreover have "view K ((vs_output_buffers s)[unat i := ?b\<lparr>db_v4l2 := v\<rparr>]) = view K (vs_output_buffers s)"
    by (rule view_update [OF assms(3)]) (simp add: v_def Let_def view1_set [OF assms(1)] split: list.split)
  ultimately show ?thesis
    using assms(3,4)
    by (intro exI [of _ v])
      (auto simp: frame_completed_def vec_get_def Let_def dec_send_def v4l2_event_of_def v_def elim!: bind_SomeE)
qed

section \<open>The calls\<close>

context ordered_backend
begin

text \<open>The output buffers that wait in the device come after those the backend has.\<close>

definition waiting :: "('vb, 'st, 'bs) VideoDecoderSession \<Rightarrow> u32 list" where
  "waiting s = outs (vs_backend_session s) @ vs_pending_output_buffers s"

definition holding :: "('vb, 'st, 'bs) VideoDecoderSession \<Rightarrow> u32 list" where
  "holding s = ins (vs_backend_session s)"

lemma send_outputs_order:
  assumes "numbered K q bufs" and "send_outputs K B is bufs bs w = Some (w', bufs', bs', r)"
  shows "subseq (outs bs') (outs bs @ (if r = Inr () then is else butlast is)) \<and> ins bs' = ins bs"
  using assms
proof (induction "is" arbitrary: bufs bs w)
  case (Cons i "is")
  from Cons.prems(2) obtain w1 bs1 st1 r1 where i: "unat i < length bufs"
    and u: "bs_use_as_output B (db_index K (bufs ! unat i)) (db_backing (bufs ! unat i)) bs w = Some (w1, bs1, st1, r1)"
    by (auto simp: vec_get_def elim!: bind_SomeE split: prod.split_asm if_split_asm)
  have ix: "db_index K (bufs ! unat i) = i" using numbered_index [OF Cons.prems(1) i] by (simp add: db_index_def)
  note use = use_order [OF u, unfolded ix]
  let ?bufs = "bufs[unat i := (bufs ! unat i)\<lparr>db_backing := st1\<rparr>]"
  show ?case
  proof (cases r1)
    case (Inl e)
    with Cons.prems(2) i u have "bs' = bs1" "r = Inl e" by (auto simp: vec_get_def)
    with use Inl show ?thesis by (auto intro: subseq_order.trans [OF _ subseq_prefix])
  next
    case (Inr x)
    with Cons.prems(2) i u have rest: "send_outputs K B is ?bufs bs1 w1 = Some (w', bufs', bs', r)" by (simp add: vec_get_def)
    have "numbered K q ?bufs" using Cons.prems(1) i by (simp add: numbered_def nth_list_update)
    from Cons.IH [OF this rest] have IH: "subseq (outs bs') (outs bs1 @ (if r = Inr () then is else butlast is))" "ins bs' = ins bs1"
      by simp_all
    have "is \<noteq> []" if "r \<noteq> Inr ()" using rest that by (cases "is") auto
    then have "(if r = Inr () then i # is else butlast (i # is)) = [i] @ (if r = Inr () then is else butlast is)" by auto
    moreover have "subseq (outs bs1 @ (if r = Inr () then is else butlast is)) ((outs bs @ [i]) @ (if r = Inr () then is else butlast is))"
      using use Inr by (intro list_emb_append_mono) auto
    ultimately show ?thesis using IH use by (auto intro: subseq_order.trans)
  qed
qed simp

lemma try_send_order:
  assumes "sess_numbered K s" and "try_send_pending_output_buffers K B s w = Some (w', s', r)"
  shows "subseq (waiting s') (outs (vs_backend_session s) @
      (if r = Inr () then vs_pending_output_buffers s else butlast (vs_pending_output_buffers s)))"
    and "holding s' = holding s"
proof -
  have "subseq (waiting s') (outs (vs_backend_session s) @
      (if r = Inr () then vs_pending_output_buffers s else butlast (vs_pending_output_buffers s))) \<and> holding s' = holding s"
  proof (cases "is_output_streaming (vs_state s)")
    case True
    with assms(2) obtain bufs bs where
      o: "send_outputs K B (vs_pending_output_buffers s) (vs_output_buffers s) (vs_backend_session s) w = Some (w', bufs, bs, r)"
      and s': "s' = s\<lparr>vs_pending_output_buffers := [], vs_output_buffers := bufs, vs_backend_session := bs\<rparr>"
      by (simp add: try_send_pending_output_buffers_def) (auto elim!: bind_SomeE)
    from assms(1) have "numbered K VideoCaptureMplane (vs_output_buffers s)" by (simp add: sess_numbered_def)
    from send_outputs_order [OF this o] s' show ?thesis by (simp add: waiting_def holding_def)
  next
    case False
    with assms(2) show ?thesis by (simp add: try_send_pending_output_buffers_def waiting_def)
  qed
  then show "subseq (waiting s') (outs (vs_backend_session s) @
      (if r = Inr () then vs_pending_output_buffers s else butlast (vs_pending_output_buffers s)))"
    "holding s' = holding s" by simp_all
qed

text \<open>What a call that is not about buffers leaves of the order: it may only drop output buffers.\<close>

definition harmless ::
  "'vb v4l2r \<Rightarrow> ('m, 'vb, 'b, 'w) VideoDecoder \<Rightarrow> ('vb, 'st, 'bs) VideoDecoderSession \<Rightarrow>
   ('m, 'vb, 'b, 'w) VideoDecoder \<Rightarrow> ('vb, 'st, 'bs) VideoDecoderSession \<Rightarrow> bool \<Rightarrow> bool"
where
  "harmless K d s d' s' ok \<longleftrightarrow> vd_event_queue d' = vd_event_queue d \<and> same_views K s s' \<and>
     subseq (waiting s') (waiting s) \<and> (ok \<longrightarrow> holding s' = holding s)"

lemma harmless_same:
  "vd_event_queue d' = vd_event_queue d \<Longrightarrow> vs_input_buffers s' = vs_input_buffers s \<Longrightarrow>
   vs_output_buffers s' = vs_output_buffers s \<Longrightarrow> ins (vs_backend_session s') = ins (vs_backend_session s) \<Longrightarrow>
   outs (vs_backend_session s') = outs (vs_backend_session s) \<Longrightarrow>
   vs_pending_output_buffers s' = vs_pending_output_buffers s \<Longrightarrow> harmless K d s d' s' ok"
  by (simp add: harmless_def waiting_def holding_def)

lemma settings_harmless:
  "dec_s_fmt K B queue format d s = Some (d', s', r) \<Longrightarrow> harmless K d s d' s' ok"
  "dec_subscribe_event event flags d s = Some (d', s', r1) \<Longrightarrow> harmless K d s d' s' ok"
  "dec_unsubscribe_event K sub d s = Some (d', s', r1) \<Longrightarrow> harmless K d s d' s' ok"
  "dec_s_selection chk K B typ target rect fl d s = Some (d', s', r2) \<Longrightarrow> harmless K d s d' s' ok"
  "dec_do_mmap chk K B hm fl2 off d s = Some (d', s', r3) \<Longrightarrow> harmless K d s d' s' ok"
  by (rule harmless_same; auto simp: dec_s_fmt_def apply_order Let_def dec_subscribe_event_def dec_unsubscribe_event_def
      dec_s_selection_def dec_g_selection_def dec_do_mmap_def elim!: bind_SomeE
      split: option.split_asm sum.split_asm if_split_asm CropRectangle.split_asm)+

lemma try_send_harmless:
  assumes "sess_numbered K s" and "try_send_pending_output_buffers K B s w = Some (w', s', r)"
    and "vd_event_queue d' = vd_event_queue d"
  shows "harmless K d s d' s' ok"
proof -
  have "subseq (outs (vs_backend_session s) @ (if r = Inr () then vs_pending_output_buffers s else butlast (vs_pending_output_buffers s)))
      (waiting s)"
    by (auto simp: waiting_def subseq_append' butlast_conv_take intro!: prefix_imp_subseq take_is_prefix)
  with try_send_order [OF assms(1,2)] try_send_same [OF assms(2)] assms(3) show ?thesis
    by (auto simp: harmless_def intro: subseq_order.trans)
qed

lemma streamon_harmless:
  assumes "sess_numbered K s" and "dec_streamon K B queue d s = Some (d', s', r)"
  shows "harmless K d s d' s' ok"
proof (cases "queue_buffers queue s = None \<or> queue_buffers queue s = Some []")
  case True
  with assms(2) show ?thesis by (auto simp: dec_streamon_def harmless_def)
next
  case False
  with assms(2) obtain st w' where d': "d' = d\<lparr>vd_os := w'\<rparr>" and
    t: "try_send_pending_output_buffers K B (set_streaming B (queue_direction K queue) True (s\<lparr>vs_state := st\<rparr>)) (vd_os d) =
      Some (w', s', r)"
    by (auto simp: dec_streamon_def Let_def split: option.split_asm if_split_asm)
  have "sess_numbered K (set_streaming B (queue_direction K queue) True (s\<lparr>vs_state := st\<rparr>))"
    using assms(1) by (simp add: sess_numbered_def set_streaming_def)
  from try_send_harmless [OF this t, of d' d] d' show ?thesis
    by (simp add: harmless_def waiting_def holding_def set_streaming_def streaming_order)
qed

lemma streamoff_harmless:
  assumes "vb_laws K" and "dec_streamoff K B queue d s = Some (d', s', r)"
  shows "harmless K d s d' s' (\<not> isl r)"
proof (cases "queue_direction K queue")
  case Output
  with assms(2) show ?thesis
    by (auto simp: dec_streamoff_def harmless_def waiting_def holding_def set_streaming_def streaming_order view_clear_queued [OF assms(1)])
next
  case Capture
  with assms(2) obtain w' bs' r1 where c: "bs_clear_output_buffers B (vs_backend_session s) (vd_os d) = Some (w', bs', r1)"
    by (auto simp: dec_streamoff_def split: option.split_asm)
  have "subseq (outs bs') (waiting s)"
    using clear_order [OF c] by (auto simp: waiting_def intro: subseq_order.trans [OF _ subseq_prefix])
  with clear_order [OF c] Capture assms(2) c show ?thesis
    by (cases r1) (auto simp: dec_streamoff_def harmless_def waiting_def holding_def set_streaming_def streaming_order
        view_clear_queued [OF assms(1)] intro: list_emb_append_mono)
qed

lemma decoder_cmd_harmless:
  assumes "sess_numbered K s" and "dec_decoder_cmd K B c d s = Some (d', s', r)"
  shows "harmless K d s d' s' (\<not> isl r)"
proof (cases "\<exists>c1 c2. DecoderCmd_try_from K c = Some c1 \<and> vs_try_decoder_cmd K s c1 = Inr c2")
  case False
  with assms(2) show ?thesis
    by (auto simp: dec_decoder_cmd_def harmless_def split: option.split_asm sum.split_asm)
next
  case True
  then obtain c1 c2 where "DecoderCmd_try_from K c = Some c1" "vs_try_decoder_cmd K s c1 = Inr c2" by blast
  with assms(2) obtain w' r1 where d': "d' = d\<lparr>vd_os := w'\<rparr>" and r: "isl r = isl r1" and
    a: "apply_decoder_cmd K B c2 s (vd_os d) = Some (w', s', r1)"
    by (auto simp: dec_decoder_cmd_def) (metis isl_map_sum)
  note same = apply_decoder_cmd_same [OF a]
  have "subseq (waiting s') (waiting s) \<and> (\<not> isl r1 \<longrightarrow> holding s' = holding s)"
  proof (cases "\<exists>x. c2 = CmdStart x")
    case False
    with a show ?thesis
      by (cases c2; cases r1) (auto simp: apply_decoder_cmd_def waiting_def holding_def dest!: drain_order
          split: VideoDecoderStreamingState.split_asm intro: list_emb_append_mono)
  next
    case True
    show ?thesis
    proof (cases "vs_state s")
      case (Stopped i1 o1)
      define s1 where "s1 = (if i1 \<and> o1 then set_streaming B Capture True (s\<lparr>vs_state := Running\<rparr>) else s)"
      have "try_send_pending_output_buffers K B s1 (vd_os d) = Some (w', s', r1)"
        using a True Stopped by (auto simp: apply_decoder_cmd_def s1_def)
      moreover have "sess_numbered K s1" "waiting s1 = waiting s" "holding s1 = holding s"
        using assms(1) by (simp_all add: s1_def sess_numbered_def waiting_def holding_def set_streaming_def streaming_order)
      ultimately show ?thesis using try_send_harmless [of K s1 "vd_os d" w' s' r1 d d True] by (simp add: harmless_def)
    qed (use a True in \<open>auto simp: apply_decoder_cmd_def\<close>)
  qed
  with same d' r show ?thesis by (simp add: harmless_def)
qed

text \<open>The calls about buffers.\<close>

lemma qbuf_capture_order:
  assumes "dec_laws K" and "sess_numbered K s" and "vb_queue K g = VideoCaptureMplane"
    and "dec_qbuf K B g regions d s = Some (d', s', r)"
  shows "vd_event_queue d' = vd_event_queue d \<and> same_views K s s' \<and> holding s' = holding s \<and>
    subseq (waiting s') (waiting s @ (if isl r then [] else [vb_index K g]))"
proof (cases "unat (vb_index K g) < length (vs_output_buffers s) \<and>
    vb_memory K g = vb_memory K (db_v4l2 (vs_output_buffers s ! unat (vb_index K g)))")
  case False
  with assms(3,4) show ?thesis by (auto simp: dec_qbuf_def queue_buffers_def vec_get_def Let_def split: if_split_asm)
next
  case True
  let ?i = "unat (vb_index K g)"
  from True assms(1,3,4) obtain w' where d': "d' = d\<lparr>vd_os := w'\<rparr>"
    and q: "queue_output K B g ?i (vs_output_buffers s ! ?i) s (vd_os d) = Some (w', s', r)"
    by (auto simp: dec_qbuf_def queue_buffers_def vec_get_def Let_def dec_laws_directions)
  note vb = dec_laws_vb [OF assms(1)]
  define v where "v = copy_first_plane K g (vb_clear_flags K (vb_add_flags K (db_v4l2 (vs_output_buffers s ! ?i)) (BUF_QUEUED K)) (BUF_LAST K))"
  define s1 where "s1 = s\<lparr>vs_output_buffers := (vs_output_buffers s)[?i := (vs_output_buffers s ! ?i)\<lparr>db_v4l2 := v\<rparr>],
    vs_pending_output_buffers := vs_pending_output_buffers s @ [vb_index K g]\<rparr>"
  from q obtain r1 where t: "try_send_pending_output_buffers K B s1 (vd_os d) = Some (w', s', r1)" and r: "isl r = isl r1"
    by (auto simp: queue_output_def Let_def v_def s1_def elim!: bind_SomeE) (metis isl_map_sum)
  have "same_views K s s1"
    using True by (simp add: s1_def view_update v_def view1_set [OF vb])
  then have "sess_numbered K s1" using assms(2) sess_numbered_cong by blast
  from try_send_order [OF this t] queue_output_same [OF vb _ q] True d' r show ?thesis
    by (cases r1) (auto simp: s1_def waiting_def holding_def)
qed

lemma qbuf_output_order:
  assumes "dec_laws K" and "vb_queue K g = VideoOutputMplane" and "dec_qbuf K B g regions d s = Some (d', s', r)"
  shows "vd_event_queue d' = vd_event_queue d \<and> same_views K s s' \<and> subseq (waiting s') (waiting s) \<and>
    (\<not> isl r \<longrightarrow> holding s' = holding s @ [vb_index K (db_v4l2 (vs_input_buffers s ! unat (vb_index K g)))] \<and>
       unat (vb_index K g) < length (vs_input_buffers s))"
proof (cases "unat (vb_index K g) < length (vs_input_buffers s) \<and>
    vb_memory K g = vb_memory K (db_v4l2 (vs_input_buffers s ! unat (vb_index K g)))")
  case False
  with assms(2,3) show ?thesis by (auto simp: dec_qbuf_def queue_buffers_def vec_get_def Let_def split: if_split_asm)
next
  case True
  let ?i = "unat (vb_index K g)"
  from True assms obtain w' where d': "d' = d\<lparr>vd_os := w'\<rparr>"
    and q: "queue_input K B g ?i (vs_input_buffers s ! ?i) s (vd_os d) = Some (w', s', r)"
    by (auto simp: dec_qbuf_def queue_buffers_def vec_get_def Let_def dec_laws_directions)
  note vb = dec_laws_vb [OF assms(1)]
  define v where "v = input_v4l2 K g (db_v4l2 (vs_input_buffers s ! ?i))"
  define n where "n = (if vb_bytesused K v = 0 then vb_length K v else vb_bytesused K v)"
  have ix: "vb_index K v = vb_index K (db_v4l2 (vs_input_buffers s ! ?i))"
    by (simp add: v_def input_v4l2_def copy_first_plane_def Let_def vb_laws_index [OF vb] split: option.split)
  from q obtain bs' r1 where
    dec: "bs_decode B (db_backing (vs_input_buffers s ! ?i)) (vb_index K v) (vb_timestamp K v) n (vs_backend_session s) (vd_os d) =
      Some (w', bs', r1)"
    and r: "isl r = isl r1"
    and s': "s' = s\<lparr>vs_backend_session := bs', vs_input_buffers := (vs_input_buffers s)
      [?i := (vs_input_buffers s ! ?i)\<lparr>db_v4l2 := if isl r1 then v else vb_add_flags K v (BUF_QUEUED K)\<rparr>]\<rparr>"
    by (rule queue_input_Some [OF v_def n_def])
  from decode_order [OF dec] r s' queue_input_same [OF vb _ q] True d' ix show ?thesis
    by (cases r1) (auto simp: waiting_def holding_def intro: list_emb_append_mono)
qed

lemma reqbufs_order:
  assumes "dec_laws K" and "sess_numbered K s" and "dec_reqbufs chk K B queue memory n flags d s = Some (d', s', r)"
  shows "vd_event_queue d' = vd_event_queue d \<and> sess_numbered K s' \<and> waiting s' = waiting s \<and> holding s' = holding s \<and>
    length (vs_input_buffers s') = (if isl r \<or> queue \<noteq> VideoOutputMplane then length (vs_input_buffers s) else unat n)"
proof (cases "memory = Mmap \<and> queue_buffers queue s \<noteq> None")
  case False
  with assms(3) have "d' = d \<and> s' = s \<and> isl r" by (cases "memory = Mmap") (auto simp: dec_reqbufs_def)
  with assms(2) show ?thesis by simp
next
  case True
  then obtain bufs where bufs: "queue_buffers queue s = Some bufs" by blast
  then have q: "queue = VideoOutputMplane \<and> bufs = vs_input_buffers s \<or> queue = VideoCaptureMplane \<and> bufs = vs_output_buffers s"
    by (auto simp: queue_buffers_def split: if_split_asm)
  then have num: "numbered K queue bufs" using assms(2) by (auto simp: sess_numbered_def)
  have bs: "vs_backend_session (set_queue_buffers queue bufs' s) = vs_backend_session s" for bufs'
    by (simp add: set_queue_buffers_def)
  define set where "set bufs' = (set_queue_buffers queue bufs' s)\<lparr>vs_backend_session :=
    bs_buffers_allocated B (queue_direction K queue) n (vs_backend_session s)\<rparr>" for bufs'
  have set: "sess_numbered K (set bufs') \<and> waiting (set bufs') = waiting s \<and> holding (set bufs') = holding s \<and>
      length (vs_input_buffers (set bufs')) = (if queue = VideoOutputMplane then length bufs' else length (vs_input_buffers s))"
    if "numbered K queue bufs'" for bufs'
    using q assms(2) that
    by (auto simp: set_def sess_numbered_def set_queue_buffers_def waiting_def holding_def allocated_order)
  show ?thesis
  proof (cases "unat n < length bufs")
    case shrink: True
    with assms(3) True bufs have "s' = set (take (unat n) bufs)" "vd_event_queue d' = vd_event_queue d" "\<not> isl r"
      by (auto simp: dec_reqbufs_def Let_def bs set_def)
    with set [OF numbered_take [OF num, of "unat n"]] shrink show ?thesis by simp
  next
    case False
    have n: "unat n < 2 ^ 32" using unsigned_less [of n] by simp
    show ?thesis
    proof (cases r)
      case (Inl e)
      with assms(2,3) True bufs False show ?thesis
        by (auto simp: dec_reqbufs_def Let_def dec_alloc_buffers_events elim!: bind_SomeE split: list.split_asm sum.split_asm)
    next
      case (Inr resp)
      with assms(3) True bufs False obtain sz new where
        al: "dec_alloc_buffers chk K B queue sz [length bufs..<unat n] d = Some (d', Inr new)"
        and s': "s' = set (bufs @ new)"
        by (auto simp: dec_reqbufs_def Let_def bs set_def elim!: bind_SomeE split: list.split_asm sum.split_asm)
      from False have "length bufs \<le> unat n" by simp
      note app = numbered_append [OF num n this dec_alloc_buffers_view [OF assms(1) al]]
      from set [OF app(1)] app(2) show ?thesis
        using Inr by (simp add: s' dec_alloc_buffers_events [OF al])
    qed
  qed
qed

lemma process_events_order:
  assumes "dec_laws K" and "sess_numbered K s" and "dec_process_events chk K B d s = Some (d', s', r)"
  shows "\<exists>evs. vd_event_queue d' = vd_event_queue d @ evs \<and> same_views K s s' \<and> \<not> isl r \<and>
    subseq (concat (map (returned_id K VideoCaptureMplane) evs) @ waiting s') (waiting s) \<and>
    ((\<forall>i \<in> set (holding s). unat i < length (vs_input_buffers s)) \<longrightarrow>
      concat (map (returned_id K VideoOutputMplane) evs) @ holding s' = holding s)"
proof -
  note vb = dec_laws_vb [OF assms(1)]
  from assms(3) obtain w' bs' ev where e: "bs_next_event B (vs_backend_session s) (vd_os d) = Some (w', bs', ev)"
    by (auto simp: dec_process_events_def split: option.split_asm)
  note ord = event_order [OF e]
  define s1 where "s1 = s\<lparr>vs_backend_session := bs'\<rparr>"
  define d1 where "d1 = d\<lparr>vd_os := w'\<rparr>"
  have held: "subseq (event_frame ev @ waiting s1) (waiting s)" "event_done ev @ holding s1 = holding s"
    using ord by (simp_all add: s1_def waiting_def holding_def flip: append_assoc)
  have num: "numbered K VideoOutputMplane (vs_input_buffers s1)" "numbered K VideoCaptureMplane (vs_output_buffers s1)"
    using assms(2) by (simp_all add: s1_def sess_numbered_def)
  show ?thesis
  proof (cases ev)
    case None
    with assms(3) e held show ?thesis by (auto simp: dec_process_events_def s1_def Let_def)
  next
    case (Some event)
    show ?thesis
    proof (cases event)
      case StreamFormatChanged
      with Some assms(3) e held show ?thesis
        by (auto simp: dec_process_events_def stream_format_changed_def dec_send_def v4l2_event_of_def s1_def waiting_def
            holding_def Let_def)
    next
      case (InputBufferDone i err)
      show ?thesis
      proof (cases "unat i < length (vs_input_buffers s)")
        case False
        have "i \<in> set (holding s)" unfolding held(2) [symmetric] using InputBufferDone Some by simp
        with False InputBufferDone Some assms(3) e held show ?thesis
          by (auto simp: dec_process_events_def input_buffer_done_def vec_get_def s1_def Let_def)
      next
        case True
        define v where "v = (let v = vb_clear_flags K (db_v4l2 (vs_input_buffers s ! unat i)) (BUF_QUEUED K)
          in if err \<noteq> 0 then vb_set_flags K v (BUF_ERROR K) else v)"
        have "vb_index K v = i" "vb_queue K v = VideoOutputMplane"
          using True assms(2) numbered_index [of K VideoOutputMplane "vs_input_buffers s" i]
          by (auto simp: v_def Let_def vb_laws_identity [OF vb] sess_numbered_def numbered_def)
        moreover have "view K ((vs_input_buffers s)[unat i := (vs_input_buffers s ! unat i)\<lparr>db_v4l2 := v\<rparr>]) = view K (vs_input_buffers s)"
          by (rule view_update [OF True]) (simp add: v_def Let_def view1_set [OF vb])
        moreover have "dec_process_events chk K B d s = Some (dec_send (DequeueBuffer (DequeueBufferEvent_new (vs_id s) v)) d1,
            s1\<lparr>vs_input_buffers := (vs_input_buffers s)[unat i := (vs_input_buffers s ! unat i)\<lparr>db_v4l2 := v\<rparr>]\<rparr>, Inr ())"
          using True InputBufferDone Some e
          by (simp add: dec_process_events_def input_buffer_done_def vec_get_def Let_def s1_def d1_def v_def)
        ultimately show ?thesis using assms(3) held InputBufferDone Some
          by (auto simp: dec_send_def d1_def s1_def waiting_def holding_def DequeueBufferEvent_new_def)
      qed
    next
      case (FrameCompleted i ts ns is_last)
      with Some assms(3) e have f: "frame_completed chk K i ts ns is_last d1 s1 = Some (d', s')" and "r = Inr ()"
        by (auto simp: dec_process_events_def Let_def d1_def s1_def)
      show ?thesis
      proof (cases "unat i < length (vs_output_buffers s)")
        case False
        with FrameCompleted Some f held \<open>r = Inr ()\<close> show ?thesis
          by (auto simp: frame_completed_def vec_get_def s1_def d1_def dest: subseq_Cons')
      next
        case True
        from frame_completed_event [OF vb num(2) _ f] True obtain v evs where
          ev: "vd_event_queue d' = vd_event_queue d1 @ DequeueBuffer (DequeueBufferEvent_new (vs_id s1) v) # evs"
            "vb_index K v = i" "vb_queue K v = VideoCaptureMplane"
            "concat (map (returned_id K VideoCaptureMplane) evs) = []" "concat (map (returned_id K VideoOutputMplane) evs) = []"
            "same_views K s1 s'" "vs_backend_session s' = vs_backend_session s1"
            "vs_pending_output_buffers s' = vs_pending_output_buffers s1"
          by (auto simp: s1_def)
        then show ?thesis
          using held FrameCompleted Some \<open>r = Inr ()\<close>
          by (intro exI [of _ "DequeueBuffer (DequeueBufferEvent_new (vs_id s1) v) # evs"])
            (simp add: d1_def s1_def waiting_def holding_def DequeueBufferEvent_new_def del: concat_eq_Nil_conv)
      qed
    qed
  qed
qed

section \<open>The order of the buffers\<close>

text \<open>What one call does to the order, with the events \<open>evs\<close> it sends.\<close>

definition call_ordered ::
  "'vb v4l2r \<Rightarrow> ('vb, 'st, 'bs) VideoDecoderSession \<Rightarrow> 'vb DecCall \<Rightarrow> bool \<Rightarrow> ('vb, v4l2_event) V4l2Event list \<Rightarrow>
   ('vb, 'st, 'bs) VideoDecoderSession \<Rightarrow> bool"
where
  "call_ordered K s c ok evs s' \<longleftrightarrow>
     sess_numbered K s' \<and>
     subseq (concat (map (returned_id K VideoCaptureMplane) evs) @ waiting s') (waiting s @ queued_id K VideoCaptureMplane (c, ok, evs)) \<and>
     (ok \<longrightarrow> (\<forall>i \<in> set (holding s). unat i < length (vs_input_buffers s)) \<longrightarrow>
        concat (map (returned_id K VideoOutputMplane) evs) @ holding s' = holding s @ queued_id K VideoOutputMplane (c, ok, evs) \<and>
        (\<forall>i \<in> set (queued_id K VideoOutputMplane (c, ok, evs)). unat i < length (vs_input_buffers s))) \<and>
     length (vs_input_buffers s') =
       (case requested VideoOutputMplane (c, ok, evs) of [] \<Rightarrow> length (vs_input_buffers s) | n # _ \<Rightarrow> n)"

lemma harmless_ordered:
  assumes "harmless K d s d' s' ok" and "sess_numbered K s" and "\<And>q. queued_id K q (c, ok, [] :: ('vb, v4l2_event) V4l2Event list) = []"
    and "requested VideoOutputMplane (c, ok, [] :: ('vb, v4l2_event) V4l2Event list) = []"
  shows "call_ordered K s c ok (drop (length (vd_event_queue d)) (vd_event_queue d')) s'"
proof -
  from assms(1) have same: "same_views K s s'" "vd_event_queue d' = vd_event_queue d" by (simp_all add: harmless_def)
  from sess_numbered_cong [OF same(1)] same_views_length [OF same(1)] assms(1,2,4) assms(3) [of VideoCaptureMplane]
    assms(3) [of VideoOutputMplane] same(2) show ?thesis
    by (cases ok) (simp_all add: call_ordered_def harmless_def)
qed

lemma qbuf_ordered:
  assumes "dec_laws K" and "sess_numbered K s" and "dec_qbuf K B g regions d s = Some (d', s', r)"
  shows "call_ordered K s (QBuf g regions) (\<not> isl r) (drop (length (vd_event_queue d)) (vd_event_queue d')) s'"
proof -
  consider "vb_queue K g = VideoCaptureMplane" | "vb_queue K g = VideoOutputMplane"
    | "vb_queue K g \<noteq> VideoCaptureMplane" "vb_queue K g \<noteq> VideoOutputMplane" by blast
  then show ?thesis
  proof cases
    case 1
    note o = qbuf_capture_order [OF assms(1,2) 1 assms(3)]
    then have same: "same_views K s s'" by simp
    from o sess_numbered_cong [OF same] same_views_length [OF same] assms(2) 1 show ?thesis
      by (cases "isl r") (simp_all add: call_ordered_def)
  next
    case 2
    note o = qbuf_output_order [OF assms(1) 2 assms(3)]
    then have same: "same_views K s s'" by simp
    have "vb_index K (db_v4l2 (vs_input_buffers s ! unat (vb_index K g))) = vb_index K g" if "\<not> isl r"
      using o that assms(2) by (intro numbered_index) (auto simp: sess_numbered_def)
    with o sess_numbered_cong [OF same] same_views_length [OF same] assms(2) 2 show ?thesis by (simp add: call_ordered_def)
  next
    case 3
    with assms(3) have "d' = d \<and> s' = s \<and> isl r" by (auto simp: dec_qbuf_def queue_buffers_def)
    with assms(2) 3 show ?thesis by (simp add: call_ordered_def)
  qed
qed

lemma dec_call_ordered:
  assumes "dec_laws K" and "sess_numbered K s" and "dec_call chk K B hm c d s = Some (d', s', ok)"
  shows "call_ordered K s c ok (drop (length (vd_event_queue d)) (vd_event_queue d')) s'"
proof (cases c)
  case (QBuf g regions)
  with assms(3) qbuf_ordered [OF assms(1,2), of g regions d d' s'] show ?thesis by auto
next
  case (ReqBufs queue memory n flags)
  with assms(3) obtain r where r: "dec_reqbufs chk K B queue memory n flags d s = Some (d', s', r)" "ok = (\<not> isl r)" by auto
  from reqbufs_order [OF assms(1,2) r(1)] r(2) ReqBufs show ?thesis by (auto simp: call_ordered_def)
next
  case (StreamOn queue)
  with assms(2,3) show ?thesis by (auto intro: harmless_ordered streamon_harmless)
next
  case (StreamOff queue)
  with assms(3) obtain r where r: "dec_streamoff K B queue d s = Some (d', s', r)" "ok = (\<not> isl r)" by auto
  from harmless_ordered [OF streamoff_harmless [OF dec_laws_vb [OF assms(1)] r(1)] assms(2)] r(2) StreamOff show ?thesis by simp
next
  case (DecoderCommand cm)
  with assms(3) obtain r where r: "dec_decoder_cmd K B cm d s = Some (d', s', r)" "ok = (\<not> isl r)" by auto
  from harmless_ordered [OF decoder_cmd_harmless [OF assms(2) r(1)] assms(2)] r(2) DecoderCommand show ?thesis by simp
next
  case ProcessEvents
  with assms(3) obtain r where r: "dec_process_events chk K B d s = Some (d', s', r)" "ok = (\<not> isl r)" by auto
  from process_events_order [OF assms(1,2) r(1)] obtain evs where
    evs: "vd_event_queue d' = vd_event_queue d @ evs" and same: "same_views K s s'" and
    o: "subseq (concat (map (returned_id K VideoCaptureMplane) evs) @ waiting s') (waiting s)"
      "(\<forall>i \<in> set (holding s). unat i < length (vs_input_buffers s)) \<longrightarrow>
        concat (map (returned_id K VideoOutputMplane) evs) @ holding s' = holding s" by blast
  from o evs sess_numbered_cong [OF same] same_views_length [OF same] assms(2) ProcessEvents show ?thesis
    by (simp add: call_ordered_def)
qed (use assms(2,3) in \<open>auto intro!: harmless_ordered intro: settings_harmless\<close>)

text \<open>
  The CAPTURE buffers that events gave back, and those that wait to be given back, are in the order in
  which they were queued.
\<close>

lemma capture_order:
  assumes "dec_laws K"
  shows "dec_run chk K B hm R sid d s h \<Longrightarrow> sess_numbered K s \<and>
    subseq (returned_ids K VideoCaptureMplane h @ waiting s) (queued_ids K VideoCaptureMplane h)"
proof (induction rule: dec_run.induct)
  case (dec_start d0 d s)
  then show ?case
    by (auto simp: dec_new_session_def sess_numbered_def numbered_def waiting_def dec_history_defs map_sum_eq_Inr dest: new_order
        split: prod.split_asm)
next
  case (dec_step d s h c d' s' ok)
  then have "call_ordered K s c ok (drop (length (vd_event_queue d)) (vd_event_queue d')) s'" by (intro dec_call_ordered [OF assms]) auto
  then have n: "sess_numbered K s'" and
    *: "subseq (concat (map (returned_id K VideoCaptureMplane) evs) @ waiting s') (waiting s @ queued_id K VideoCaptureMplane (c, ok, evs))"
    if "evs = drop (length (vd_event_queue d)) (vd_event_queue d')" for evs
    using that by (auto simp: call_ordered_def)
  let ?evs = "drop (length (vd_event_queue d)) (vd_event_queue d')"
  have "subseq (returned_ids K VideoCaptureMplane h @ concat (map (returned_id K VideoCaptureMplane) ?evs) @ waiting s')
      (returned_ids K VideoCaptureMplane h @ waiting s @ queued_id K VideoCaptureMplane (c, ok, ?evs))"
    using * [OF refl] by (simp add: subseq_append')
  also have "subseq \<dots> (queued_ids K VideoCaptureMplane h @ queued_id K VideoCaptureMplane (c, ok, ?evs))"
    using dec_step.IH by (metis append.assoc list_emb_append_mono subseq_order.order_refl)
  finally show ?case using n [OF refl] by (simp add: dec_history_defs)
qed

text \<open>
  As long as no call fails and no request makes the OUTPUT queue smaller, the OUTPUT buffers that events
  gave back and those the backend still has are exactly those that were queued, in order.
\<close>

lemma output_conserved:
  assumes "dec_laws K"
  shows "dec_run chk K B hm R sid d s h \<Longrightarrow> list_all (\<lambda>(c, ok, evs). ok) h \<Longrightarrow> sorted (requests VideoOutputMplane h) \<Longrightarrow>
    returned_ids K VideoOutputMplane h @ holding s = queued_ids K VideoOutputMplane h \<and>
    (\<forall>i \<in> set (holding s). unat i < length (vs_input_buffers s)) \<and>
    length (vs_input_buffers s) = last (0 # requests VideoOutputMplane h)"
proof (induction rule: dec_run.induct)
  case (dec_start d0 d s)
  then show ?case
    by (auto simp: dec_new_session_def holding_def dec_history_defs map_sum_eq_Inr dest: new_order split: prod.split_asm)
next
  case (dec_step d s h c d' s' ok)
  let ?evs = "drop (length (vd_event_queue d)) (vd_event_queue d')"
  from dec_step.prems have h: "list_all (\<lambda>(c, ok, evs). ok) h" "ok" and
    req: "sorted (requests VideoOutputMplane h @ requested VideoOutputMplane (c, ok, ?evs))" by (auto simp: requests_def)
  have "sorted (requests VideoOutputMplane h)" using req by (simp add: sorted_append)
  from dec_step.IH [OF h(1) this] have
    IH: "returned_ids K VideoOutputMplane h @ holding s = queued_ids K VideoOutputMplane h"
      "\<forall>i \<in> set (holding s). unat i < length (vs_input_buffers s)"
      "length (vs_input_buffers s) = last (0 # requests VideoOutputMplane h)" by blast+
  have "sess_numbered K s" using capture_order [OF assms dec_step.hyps(1)] by simp
  from dec_call_ordered [OF assms this dec_step.hyps(2)] IH(2) h(2) have
    o: "concat (map (returned_id K VideoOutputMplane) ?evs) @ holding s' = holding s @ queued_id K VideoOutputMplane (c, ok, ?evs)"
      "\<forall>i \<in> set (queued_id K VideoOutputMplane (c, ok, ?evs)). unat i < length (vs_input_buffers s)"
      "length (vs_input_buffers s') =
        (case requested VideoOutputMplane (c, ok, ?evs) of [] \<Rightarrow> length (vs_input_buffers s) | n # _ \<Rightarrow> n)"
    by (simp_all add: call_ordered_def)
  have len: "length (vs_input_buffers s') = last (0 # requests VideoOutputMplane (h @ [(c, ok, ?evs)]))"
    using o(3) IH(3) by (cases c) (auto simp: requests_def)
  have "length (vs_input_buffers s) \<le> length (vs_input_buffers s')"
    using o(3) IH(3) req by (cases c) (auto simp: sorted_append)
  moreover have "set (holding s') \<subseteq> set (holding s) \<union> set (queued_id K VideoOutputMplane (c, ok, ?evs))"
    using arg_cong [OF o(1), of set] by auto
  ultimately have "\<forall>i \<in> set (holding s'). unat i < length (vs_input_buffers s')" using IH(2) o(2) by fastforce
  moreover have "returned_ids K VideoOutputMplane (h @ [(c, ok, ?evs)]) @ holding s' = queued_ids K VideoOutputMplane (h @ [(c, ok, ?evs)])"
    using o(1) IH(1) by (simp add: queued_ids_def returned_ids_def)
  ultimately show ?case using len by blast
next
  case (dec_world d s h d')
  then show ?case by blast
qed

end

section \<open>The sessions of the runner\<close>

text \<open>Every session of a device that a runner drives is in a state that a run can reach.\<close>

abbreviation has_run ::
  "bool \<Rightarrow> 'vb v4l2r \<Rightarrow> ('vb, 'st, 'w, 'bs, 'b) VideoDecoderBackend \<Rightarrow> 'm VirtioMediaHostMemoryMapper \<Rightarrow> u32 \<Rightarrow>
   ('m, 'vb, 'b, 'w) VideoDecoder \<Rightarrow> ('vb, 'st, 'bs) VideoDecoderSession \<Rightarrow> bool"
where
  "has_run chk K B hm sid d s \<equiv> \<exists>h. dec_run chk K B hm (\<lambda>_ _ _. True) sid d s h"

lemma has_run_world: "has_run chk K B hm sid d s \<Longrightarrow> has_run chk K B hm sid d' s"
  by (blast intro: dec_world)

lemma rw_keepsD: "rw_keeps I f \<Longrightarrow> I d s \<Longrightarrow> f d s = Some (d', s', r) \<Longrightarrow> I d' s'"
  unfolding rw_keeps_def by blast

lemma has_run_keeps:
  assumes "\<And>d s. dec_call chk K B hm c d s = map_option outcome (f d s)"
  shows "rw_keeps (has_run chk K B hm sid) f"
  unfolding rw_keeps_def
proof (intro allI impI)
  fix d s d' s' r
  assume "has_run chk K B hm sid d s" and "f d s = Some (d', s', r)"
  then obtain h where "dec_run chk K B hm (\<lambda>_ _ _. True) sid d s h" "dec_call chk K B hm c d s = Some (d', s', \<not> isl r)"
    using assms by auto
  from dec_step [OF this] show "has_run chk K B hm sid d' s'" by blast
qed

lemma dec_calls_keep:
  "rw_keeps (has_run chk K B hm sid) (dec_qbuf K B guest regions)"
  "rw_keeps (has_run chk K B hm sid) (dec_reqbufs chk K B queue memory n flags)"
  "rw_keeps (has_run chk K B hm sid) (dec_streamon K B queue)"
  "rw_keeps (has_run chk K B hm sid) (dec_streamoff K B queue)"
  "rw_keeps (has_run chk K B hm sid) (dec_s_fmt K B queue format)"
  "rw_keeps (has_run chk K B hm sid) (dec_s_selection chk K B typ target rect sflags)"
  "rw_keeps (has_run chk K B hm sid) (dec_decoder_cmd K B c)"
  "rw_keeps (has_run chk K B hm sid) (dec_subscribe_event event eflags)"
  "rw_keeps (has_run chk K B hm sid) (dec_unsubscribe_event K sub)"
  by (rule has_run_keeps, rule dec_call.simps)+

lemma dec_other_calls_keep:
  "rw_keeps (has_run chk K B hm sid) (dec_do_mmap chk K B hm flags offset)"
  "rw_keeps (has_run chk K B hm sid) (dec_process_events chk K B)"
  by (rule has_run_keeps, rule dec_call.simps)+

interpretation dec_trace_handler: ioctl_handler "dec_handler chk K B" "has_run chk K B hm sid" for chk K B hm sid
  by unfold_locales (simp_all add: dec_handler_def default_handler_def dec_ro_keeps dec_calls_keep)

interpretation dec_trace: media_device "video_decoder chk K B hm" "\<lambda>d ss. \<forall>sid s. ss sid = Some s \<longrightarrow> has_run chk K B hm sid d s"
  for chk K B hm
proof (unfold_locales, goal_cases)
  case (1 d ss sid d' res)
  then have "has_run chk K B hm sid d' s" if "res = Inr s" for s
    using that by (auto simp: video_decoder_def intro: dec_start)
  with 1(1) show ?case by (auto intro: has_run_world split: sum.split)
next
  case (2 d ss sid s d')
  then show ?case by (auto intro: has_run_world split: if_split_asm)
next
  case (3 d ss sid s ioctl r w d' s' r' w' x)
  have "fn_keeps (has_run chk K B hm sid) (dev_do_ioctl (video_decoder chk K B hm) ioctl)"
    by (simp add: video_decoder_def dec_trace_handler.dispatch_keeps)
  with 3 have "has_run chk K B hm sid d' s'" unfolding fn_keeps_def by blast
  with 3(1) show ?case by (auto intro: has_run_world)
next
  case (4 d ss sid s fl off d' s' res')
  have "has_run chk K B hm sid d' s'"
    by (rule rw_keepsD [OF dec_other_calls_keep(1)]) (use 4 in \<open>simp_all add: video_decoder_def\<close>)
  with 4(1) show ?case by (auto intro: has_run_world)
next
  case (5 d ss addr d' res'')
  then show ?case by (blast intro: has_run_world)
next
  case (6 d ss sid s d' s' res)
  have "has_run chk K B hm sid d' s'"
    by (rule rw_keepsD [OF dec_other_calls_keep(2)]) (use 6 in \<open>simp_all add: video_decoder_def\<close>)
  with 6(1) show ?case by (auto intro: has_run_world)
next
  case (7 ioctl)
  show ?case by (simp add: video_decoder_def answers_dispatch)
qed

lemma reachable_has_run:
  assumes "run_reachable (video_decoder True K B hm) P d p run" and "sessions run sid = Some s"
  shows "has_run True K B hm sid (device run) s"
  using dec_trace.reachable_inv [OF assms(1)] assms(2) by (simp add: dec_trace.run_inv_def)

end
