(* ===== verification/Decoder_Returns.thy ===== *)
theory Decoder_Returns
  imports Decoder_Order
begin

text \<open>
  The calls on a session of the video decoder return: the device adds no panic to those of its backend, as
  long as the guest does not ask for fewer CAPTURE buffers than it has. What the device relies on is again
  stated as a contract of the backend.
\<close>

section \<open>The contract of a backend\<close>

text \<open>
  In the states \<open>I\<close> of a backend session, which all of its methods keep, the methods return: none panics,
  waits or loops. A buffer is to have the storage \<open>S\<close> to be used as an output.
\<close>

locale returning_backend =
  fixes B :: "('vb, 'st, 'w, 'bs, 'b) VideoDecoderBackend"
    and I :: "'bs \<Rightarrow> 'w \<Rightarrow> bool" and S :: "'st \<Rightarrow> bool"
  assumes new_ok: "be_new_session B i b w = (w', b', Inr bs) \<Longrightarrow> I bs w'"
    and storage_ok: "st_new B queue i [sz] w = (w', Inr st) \<Longrightarrow> S st"
    and storage_keeps: "I bs w \<Longrightarrow> st_new B queue i sizes w = (w', r) \<Longrightarrow> I bs w'"
    and decode_returns: "I bs w \<Longrightarrow> \<exists>w' bs' r. bs_decode B st i t n bs w = Some (w', bs', r) \<and> I bs' w'"
    and use_returns: "I bs w \<Longrightarrow> S st \<Longrightarrow>
      \<exists>w' bs' st' r. bs_use_as_output B i st bs w = Some (w', bs', st', r) \<and> I bs' w' \<and> S st'"
    and drain_returns: "I bs w \<Longrightarrow> \<exists>w' bs' r. bs_drain B bs w = Some (w', bs', r) \<and> I bs' w'"
    and clear_returns: "I bs w \<Longrightarrow> \<exists>w' bs' r. bs_clear_output_buffers B bs w = Some (w', bs', r) \<and> I bs' w'"
    and event_returns: "I bs w \<Longrightarrow> \<exists>w' bs' ev. bs_next_event B bs w = Some (w', bs', ev) \<and> I bs' w'"
    and format_returns: "I bs w \<Longrightarrow> bs_current_format B bs dir \<noteq> None"
    and adjust_returns: "I bs w \<Longrightarrow> be_adjust_format B b bs dir f \<noteq> None"
    and allocated_keeps: "I bs w \<Longrightarrow> I (bs_buffers_allocated B dir num bs) w"
    and streaming_keeps: "I bs w \<Longrightarrow> I (bs_streaming_state B dir on bs) w"
    and apply_keeps: "I bs w \<Longrightarrow> I (be_apply_format B b bs dir f) w"

section \<open>The calls\<close>

text \<open>The indices that wait for the backend are those of buffers.\<close>

definition pending_ok :: "('vb, 'st, 'bs) VideoDecoderSession \<Rightarrow> bool" where
  "pending_ok s \<longleftrightarrow> (\<forall>i \<in> set (vs_pending_output_buffers s). unat i < length (vs_output_buffers s))"

context returning_backend
begin

definition ready :: "'w \<Rightarrow> ('vb, 'st, 'bs) VideoDecoderSession \<Rightarrow> bool" where
  "ready w s \<longleftrightarrow> I (vs_backend_session s) w \<and> list_all (\<lambda>b. S (db_backing b)) (vs_output_buffers s) \<and> pending_ok s"

text \<open>What a session is left in by a call that returns, with as many CAPTURE buffers as before.\<close>

definition stays :: "('vb, 'st, 'bs) VideoDecoderSession \<Rightarrow> 'w \<times> ('vb, 'st, 'bs) VideoDecoderSession \<times> 'r \<Rightarrow> bool" where
  "stays s y \<longleftrightarrow> (case y of (w', s', r) \<Rightarrow> ready w' s' \<and> length (vs_output_buffers s') = length (vs_output_buffers s))"

lemma stays_simp [simp]: "stays s (w', s', r) \<longleftrightarrow> ready w' s' \<and> length (vs_output_buffers s') = length (vs_output_buffers s)"
  by (simp add: stays_def)

lemma ready_cong:
  "ready w s \<Longrightarrow> vs_backend_session s' = vs_backend_session s \<Longrightarrow> vs_output_buffers s' = vs_output_buffers s \<Longrightarrow>
   vs_pending_output_buffers s' = vs_pending_output_buffers s \<Longrightarrow> ready w s'"
  by (simp add: ready_def pending_ok_def)

lemma send_outputs_returns:
  assumes "I bs w" and "list_all (\<lambda>b. S (db_backing b)) bufs" and "\<forall>i \<in> set is. unat i < length bufs"
  shows "\<exists>w' bufs' bs' r. send_outputs K B is bufs bs w = Some (w', bufs', bs', r) \<and> I bs' w' \<and>
    list_all (\<lambda>b. S (db_backing b)) bufs' \<and> length bufs' = length bufs"
  using assms
proof (induction "is" arbitrary: bufs bs w)
  case (Cons i "is")
  let ?b = "bufs ! unat i"
  from Cons.prems have "S (db_backing ?b)" by (simp add: list_all_length)
  with Cons.prems(1) use_returns obtain w1 bs1 st1 r1 where
    use: "bs_use_as_output B (db_index K ?b) (db_backing ?b) bs w = Some (w1, bs1, st1, r1)" "I bs1 w1" "S st1" by blast
  let ?bufs = "bufs[unat i := ?b\<lparr>db_backing := st1\<rparr>]"
  have all: "list_all (\<lambda>b. S (db_backing b)) ?bufs" "\<forall>i \<in> set is. unat i < length ?bufs"
    using Cons.prems use(3) by (auto simp: list_all_length nth_list_update)
  show ?case
  proof (cases r1)
    case (Inl e)
    with use Cons.prems all show ?thesis by (simp add: vec_get_def Let_def)
  next
    case (Inr x)
    with use Cons.prems Cons.IH [OF use(2) all] show ?thesis by (simp add: vec_get_def Let_def)
  qed
qed simp

lemma try_send_returns:
  assumes "ready w s"
  shows "\<exists>y. try_send_pending_output_buffers K B s w = Some y \<and> stays s y"
proof (cases "is_output_streaming (vs_state s)")
  case True
  from assms send_outputs_returns [of "vs_backend_session s" w "vs_output_buffers s" "vs_pending_output_buffers s" K] obtain w' bufs' bs' r where
    "send_outputs K B (vs_pending_output_buffers s) (vs_output_buffers s) (vs_backend_session s) w = Some (w', bufs', bs', r)"
    "I bs' w'" "list_all (\<lambda>b. S (db_backing b)) bufs'" "length bufs' = length (vs_output_buffers s)"
    by (auto simp: ready_def pending_ok_def)
  with True show ?thesis by (simp add: try_send_pending_output_buffers_def ready_def pending_ok_def)
qed (use assms in \<open>simp add: try_send_pending_output_buffers_def\<close>)

lemma ready_streaming: "ready w s \<Longrightarrow> ready w (set_streaming B dir on s)"
  by (simp add: ready_def set_streaming_def streaming_keeps pending_ok_def)

text \<open>A call of the device on a session returns and leaves it as above.\<close>

definition goes_on ::
  "('vb, 'st, 'bs) VideoDecoderSession \<Rightarrow> (('m, 'vb, 'b, 'w) VideoDecoder \<times> ('vb, 'st, 'bs) VideoDecoderSession \<times> 'r) option \<Rightarrow> bool"
where
  "goes_on s y \<longleftrightarrow> (\<exists>d' s' r. y = Some (d', s', r) \<and> stays s (vd_os d', s', r))"

lemma goes_on_Some [simp]: "goes_on s (Some (d', s', r)) \<longleftrightarrow> stays s (vd_os d', s', r)"
  by (simp add: goes_on_def)

lemma goes_on_os: "\<exists>y. m = Some y \<and> stays s y \<Longrightarrow> goes_on s (map_option (with_os d) m)"
  by auto

lemma streamon_returns:
  assumes "ready (vd_os d) s"
  shows "goes_on s (dec_streamon K B queue d s)"
proof -
  have "goes_on s (map_option (with_os d) (try_send_pending_output_buffers K B (set_streaming B dir True (s\<lparr>vs_state := st\<rparr>)) (vd_os d)))"
    for dir st
    using try_send_returns [OF ready_streaming [OF ready_cong [OF assms, of "s\<lparr>vs_state := st\<rparr>"]], of K dir True]
    by (intro goes_on_os) (auto simp: set_streaming_def)
  with assms show ?thesis by (simp add: dec_streamon_def Let_def split: option.split)
qed

lemma streamoff_returns:
  assumes "ready (vd_os d) s"
  shows "goes_on s (dec_streamoff K B queue d s)"
proof -
  obtain w' bs' r where c: "bs_clear_output_buffers B (vs_backend_session s) (vd_os d) = Some (w', bs', r)" "I bs' w'"
    using clear_returns assms unfolding ready_def by blast
  have all: "list_all (\<lambda>b. S (db_backing b)) (clear_queued K (vs_output_buffers s))"
    using assms by (auto simp: ready_def clear_queued_def list_all_length)
  have "ready w' (s\<lparr>vs_backend_session := bs'\<rparr>)" using assms c by (simp add: ready_def pending_ok_def)
  moreover have "ready w' (set_streaming B Capture False (s\<lparr>vs_backend_session := bs', vs_state := output_streamoff (vs_state s),
      vs_pending_output_buffers := [], vs_output_buffers := clear_queued K (vs_output_buffers s)\<rparr>))"
    using c all by (intro ready_streaming) (simp add: ready_def pending_ok_def)
  moreover have "ready (vd_os d) (set_streaming B Output False
      (s\<lparr>vs_state := input_streamoff (vs_state s), vs_input_buffers := clear_queued K (vs_input_buffers s)\<rparr>))"
    using assms by (intro ready_streaming) (rule ready_cong, simp_all)
  ultimately show ?thesis
    using c(1)
    by (cases r) (auto simp: dec_streamoff_def Let_def set_streaming_def clear_queued_def split: QueueDirection.split)
qed

lemma decoder_cmd_returns:
  assumes "ready (vd_os d) s"
  shows "goes_on s (dec_decoder_cmd K B c d s)"
proof -
  obtain w' bs' r where dr: "bs_drain B (vs_backend_session s) (vd_os d) = Some (w', bs', r)" "I bs' w'"
    using drain_returns assms unfolding ready_def by blast
  have states: "ready (vd_os d) (s\<lparr>vs_state := st\<rparr>)" for st using assms by (rule ready_cong) simp_all
  have "\<exists>y. apply_decoder_cmd K B c2 s (vd_os d) = Some y \<and> stays s y" for c2
  proof (cases c2)
    case (CmdStop x)
    with dr assms show ?thesis
      by (cases "vs_state s") (simp_all add: apply_decoder_cmd_def ready_def pending_ok_def)
  next
    case (CmdStart x)
    show ?thesis
    proof (cases "vs_state s")
      case (Stopped i1 o1)
      let ?s1 = "if i1 \<and> o1 then set_streaming B Capture True (s\<lparr>vs_state := Running\<rparr>) else s"
      have "ready (vd_os d) ?s1" "length (vs_output_buffers ?s1) = length (vs_output_buffers s)"
        using assms by (simp_all add: ready_streaming states) (simp add: set_streaming_def)
      with try_send_returns [of "vd_os d" ?s1 K] CmdStart Stopped show ?thesis
        by (auto simp: apply_decoder_cmd_def)
    qed (use CmdStart assms in \<open>simp_all add: apply_decoder_cmd_def\<close>)
  qed (use assms states in \<open>simp_all add: apply_decoder_cmd_def\<close>)
  note a = this
  show ?thesis
  proof (cases "\<exists>c1 c2. DecoderCmd_try_from K c = Some c1 \<and> vs_try_decoder_cmd K s c1 = Inr c2")
    case True
    then obtain c1 c2 where "DecoderCmd_try_from K c = Some c1" "vs_try_decoder_cmd K s c1 = Inr c2" by blast
    with a [of c2] show ?thesis by (auto simp: dec_decoder_cmd_def)
  qed (use assms in \<open>auto simp: dec_decoder_cmd_def split: option.split sum.split\<close>)
qed

lemma settings_return:
  assumes "ready (vd_os d) s"
  shows "goes_on s (dec_s_fmt K B queue format d s)"
    and "goes_on s (dec_s_selection False K B typ target rect fl d s)"
    and "goes_on s (dec_subscribe_event event flags d s)"
    and "goes_on s (dec_unsubscribe_event K sub d s)"
proof -
  have I: "I (vs_backend_session s) (vd_os d)" using assms by (simp add: ready_def)
  have "\<exists>res. try_format K B d s queue format = Some res"
    using adjust_returns [OF I] by (auto simp: try_format_def Let_def)
  then obtain res where f: "try_format K B d s queue format = Some res" by blast
  have "ready (vd_os d) (s\<lparr>vs_backend_session := be_apply_format B b (vs_backend_session s) dir f, vs_colorspace := cs, vs_crop_rectangle := cr\<rparr>)"
    for b dir f cs cr using assms apply_keeps [OF I] by (simp add: ready_def pending_ok_def)
  then show "goes_on s (dec_s_fmt K B queue format d s)" using f assms by (cases res) (simp_all add: dec_s_fmt_def Let_def)
  have crop: "ready (vd_os d) (s\<lparr>vs_crop_rectangle := cr\<rparr>)" for cr using assms by (rule ready_cong) simp_all
  show "goes_on s (dec_s_selection False K B typ target rect fl d s)"
    using format_returns [OF I, of Capture] assms crop
    by (auto simp: dec_s_selection_def dec_g_selection_def clamp_selection_def Let_def split: CropRectangle.split)
  show "goes_on s (dec_subscribe_event event flags d s)"
    using ready_cong [OF assms] by (simp add: dec_subscribe_event_def assms)
  show "goes_on s (dec_unsubscribe_event K sub d s)"
    using ready_cong [OF assms] by (simp add: dec_unsubscribe_event_def Let_def assms)
qed

text \<open>The calls about buffers.\<close>

lemma qbuf_returns:
  assumes "dec_laws K" and "ready (vd_os d) s"
  shows "goes_on s (dec_qbuf K B g regions d s)"
proof -
  let ?i = "unat (vb_index K g)" and ?bufs = "vs_output_buffers s"
  have "\<exists>y. queue_output K B g ?i (?bufs ! ?i) s (vd_os d) = Some y \<and> stays s y" if i: "?i < length ?bufs"
  proof -
    define v where "v = copy_first_plane K g (vb_clear_flags K (vb_add_flags K (db_v4l2 (?bufs ! ?i)) (BUF_QUEUED K)) (BUF_LAST K))"
    define s1 where "s1 = s\<lparr>vs_output_buffers := ?bufs[?i := (?bufs ! ?i)\<lparr>db_v4l2 := v\<rparr>],
      vs_pending_output_buffers := vs_pending_output_buffers s @ [vb_index K g]\<rparr>"
    have "ready (vd_os d) s1"
      using assms(2) i by (auto simp: ready_def pending_ok_def s1_def list_all_length nth_list_update)
    from try_send_returns [OF this, of K] obtain w' s' r where
      "try_send_pending_output_buffers K B s1 (vd_os d) = Some (w', s', r)" "stays s1 (w', s', r)" by auto
    then show ?thesis by (simp add: queue_output_def Let_def s1_def v_def)
  qed
  moreover have "\<exists>y. queue_input K B g ?i host s (vd_os d) = Some y \<and> stays s y" for host
  proof -
    define v where "v = input_v4l2 K g (db_v4l2 host)"
    define n where "n = (if vb_bytesused K v = 0 then vb_length K v else vb_bytesused K v)"
    obtain w' bs' r where "bs_decode B (db_backing host) (vb_index K v) (vb_timestamp K v) n (vs_backend_session s) (vd_os d) = Some (w', bs', r)"
      "I bs' w'" using decode_returns assms(2) unfolding ready_def by blast
    with assms(2) show ?thesis
      by (cases r) (simp_all add: queue_input_eq [OF v_def n_def] ready_def pending_ok_def)
  qed
  ultimately show ?thesis
    using assms dec_laws_directions [OF assms(1)]
    by (auto simp: dec_qbuf_def vec_get_def Let_def queue_buffers_def intro!: goes_on_os split: QueueDirection.split)
qed

text \<open>Without overflow checks the allocation of buffers returns.\<close>

lemma alloc_buffer_returns:
  assumes "dec_laws K" and "I bs (vd_os d)"
  shows "\<exists>d' r. dec_alloc_buffer False K B queue sz i d = Some (d', r) \<and> I bs (vd_os d') \<and> (\<forall>b. r = Inr b \<longrightarrow> S (db_backing b))"
proof -
  obtain mgr x where reg: "register_buffer False (vd_host_mapper d) None sz = Some (mgr, x)"
    using register_buffer_unchecked by fast
  show ?thesis
  proof (cases x)
    case (Inl e)
    with reg assms(2) show ?thesis by (simp add: dec_alloc_buffer_def)
  next
    case (Inr off)
    obtain w' st where st: "st_new B queue (of_nat i) [unat sz] (vd_os d) = (w', st)" by fastforce
    obtain v where "vb_set_mmap_plane K (vb_new K queue (of_nat i) Mmap) off (of_nat (unat sz)) = Some v"
      using vb_laws_mmap_plane [OF dec_laws_vb [OF assms(1)]] by metis
    with reg Inr st storage_keeps [OF assms(2) st] storage_ok show ?thesis
      by (cases st) (auto simp: dec_alloc_buffer_def VideoDecoderBuffer_new_def vec_get_def)
  qed
qed

lemma alloc_buffers_return:
  assumes "dec_laws K" and "I bs (vd_os d)"
  shows "\<exists>d' r. dec_alloc_buffers False K B queue sz is d = Some (d', r) \<and> I bs (vd_os d') \<and>
    (\<forall>bufs. r = Inr bufs \<longrightarrow> list_all (\<lambda>b. S (db_backing b)) bufs \<and> length bufs = length is)"
  using assms(2)
proof (induction "is" arbitrary: d)
  case (Cons i "is")
  from alloc_buffer_returns [OF assms(1) Cons.prems] obtain d1 r1 where
    a: "dec_alloc_buffer False K B queue sz i d = Some (d1, r1)" "I bs (vd_os d1)" "\<forall>b. r1 = Inr b \<longrightarrow> S (db_backing b)" by blast
  from Cons.IH [OF a(2)] obtain d2 r2 where
    "dec_alloc_buffers False K B queue sz is d1 = Some (d2, r2)" "I bs (vd_os d2)"
    "\<forall>bufs. r2 = Inr bufs \<longrightarrow> list_all (\<lambda>b. S (db_backing b)) bufs \<and> length bufs = length is" by blast
  with a show ?case by (cases r1; cases r2) auto
qed simp

lemma reqbufs_returns:
  assumes "dec_laws K" and "ready (vd_os d) s" and "queue = VideoCaptureMplane \<longrightarrow> length (vs_output_buffers s) \<le> unat n"
  shows "\<exists>d' s' r. dec_reqbufs False K B queue memory n flags d s = Some (d', s', r) \<and> ready (vd_os d') s' \<and>
    length (vs_output_buffers s') = (if isl r \<or> queue \<noteq> VideoCaptureMplane then length (vs_output_buffers s) else unat n)"
proof (cases "memory = Mmap \<and> queue_buffers queue s \<noteq> None")
  case False
  with assms(2) show ?thesis by (auto simp: dec_reqbufs_def)
next
  case True
  then obtain bufs where bufs: "queue_buffers queue s = Some bufs" by blast
  then have q: "queue = VideoOutputMplane \<and> bufs = vs_input_buffers s \<or> queue = VideoCaptureMplane \<and> bufs = vs_output_buffers s"
    by (auto simp: queue_buffers_def split: if_split_asm)
  have I: "I (vs_backend_session s) (vd_os d)" using assms(2) by (simp add: ready_def)
  obtain format where f: "bs_current_format B (vs_backend_session s) (queue_direction K queue) = Some format"
    using format_returns [OF I] by blast
  define al where "al sz = dec_alloc_buffers False K B queue sz [length bufs..<unat n] d" for sz
  show ?thesis
  proof (cases "unat n < length bufs")
    case shrink: True
    with assms(3) q have "queue = VideoOutputMplane" by auto
    with shrink True bufs assms(2) allocated_keeps [OF I] show ?thesis
      by (auto simp: dec_reqbufs_def Let_def set_queue_buffers_def ready_def pending_ok_def)
  next
    case grow: False
    show ?thesis
    proof (cases "mplane_sizeimages K format")
      case Nil
      with grow True bufs f assms(2) show ?thesis by (auto simp: dec_reqbufs_def)
    next
      case (Cons sz szs)
      from alloc_buffers_return [OF assms(1) I, of queue sz "[length bufs..<unat n]"] obtain d' r where
        r: "dec_alloc_buffers False K B queue sz [length bufs..<unat n] d = Some (d', r)" "I (vs_backend_session s) (vd_os d')"
        "\<forall>bs. r = Inr bs \<longrightarrow> list_all (\<lambda>b. S (db_backing b)) bs \<and> length bs = unat n - length bufs" by auto
      with grow True bufs f Cons assms(2) q allocated_keeps [OF r(2)] show ?thesis
        by (cases r) (auto simp: dec_reqbufs_def Let_def set_queue_buffers_def ready_def pending_ok_def)
    qed
  qed
qed

text \<open>The events of the backend change the descriptions of buffers, not their storage.\<close>

lemma ready_described:
  assumes "ready w s" and "vs_output_buffers s' = (vs_output_buffers s)[i := (vs_output_buffers s ! i)\<lparr>db_v4l2 := v\<rparr>]"
    and "vs_backend_session s' = vs_backend_session s" and "vs_pending_output_buffers s' = vs_pending_output_buffers s"
  shows "ready w s'"
  using assms by (cases "i < length (vs_output_buffers s)") (auto simp: ready_def pending_ok_def list_all_length nth_list_update)

lemma frame_completed_returns:
  assumes "ready (vd_os d) s"
  shows "\<exists>d' s'. frame_completed False K i ts ns is_last d s = Some (d', s') \<and> stays s (vd_os d', s', ())"
proof (cases "unat i < length (vs_output_buffers s)")
  case True
  then show ?thesis
    by (auto simp: frame_completed_def vec_get_def Let_def add_ov_def dec_send_def intro: ready_described [OF assms])
qed (use assms in \<open>simp add: frame_completed_def vec_get_def\<close>)

lemma event_handlers_stay:
  assumes "ready (vd_os d) s"
  shows "input_buffer_done K i err d s = (d1, s1) \<Longrightarrow> stays s (vd_os d1, s1, ())"
    and "stream_format_changed K B d s = (d1, s1) \<Longrightarrow> stays s (vd_os d1, s1, ())"
  using ready_cong [OF assms]
  by (auto simp: input_buffer_done_def stream_format_changed_def Let_def dec_send_def split: option.split_asm if_split_asm)

lemma process_events_returns:
  assumes "ready (vd_os d) s"
  shows "goes_on s (dec_process_events False K B d s)"
proof -
  obtain w' bs' ev where e: "bs_next_event B (vs_backend_session s) (vd_os d) = Some (w', bs', ev)" "I bs' w'"
    using event_returns assms unfolding ready_def by blast
  let ?d = "d\<lparr>vd_os := w'\<rparr>" and ?s = "s\<lparr>vs_backend_session := bs'\<rparr>"
  have r: "ready (vd_os ?d) ?s" using e(2) assms by (simp add: ready_def pending_ok_def)
  have "\<exists>d' s'. (case ev of None \<Rightarrow> Some (?d, ?s)
      | Some (InputBufferDone i err) \<Rightarrow> Some (input_buffer_done K i err ?d ?s)
      | Some StreamFormatChanged \<Rightarrow> Some (stream_format_changed K B ?d ?s)
      | Some (FrameCompleted i ts ns l) \<Rightarrow> frame_completed False K i ts ns l ?d ?s) = Some (d', s') \<and> stays ?s (vd_os d', s', ())"
  proof (cases ev)
    case None
    with r show ?thesis by simp
  next
    case (Some event)
    show ?thesis
    proof (cases event)
      case (InputBufferDone i err)
      obtain d' s' where "input_buffer_done K i err ?d ?s = (d', s')" by fastforce
      with event_handlers_stay(1) [OF r this] Some InputBufferDone show ?thesis by simp
    next
      case StreamFormatChanged
      obtain d' s' where "stream_format_changed K B ?d ?s = (d', s')" by fastforce
      with event_handlers_stay(2) [OF r this] Some StreamFormatChanged show ?thesis by simp
    next
      case (FrameCompleted i ts ns l)
      with frame_completed_returns [OF r, of K i ts ns l] Some show ?thesis by simp
    qed
  qed
  then show ?thesis by (auto simp: dec_process_events_def e(1) Let_def)
qed

section \<open>The ioctls\<close>

lemma goes_on_returns: "goes_on s y \<Longrightarrow> y \<noteq> None"
  by (auto simp: goes_on_def)

lemma reqbufs_total:
  assumes "dec_laws K" and "ready (vd_os d) s"
  shows "dec_reqbufs False K B queue memory n flags d s \<noteq> None"
proof (cases "queue = VideoCaptureMplane \<and> unat n < length (vs_output_buffers s)")
  case True
  then show ?thesis by (simp add: dec_reqbufs_def queue_buffers_def Let_def)
next
  case False
  then have "queue = VideoCaptureMplane \<longrightarrow> length (vs_output_buffers s) \<le> unat n" by auto
  from reqbufs_returns [OF assms this, of memory flags] show ?thesis by auto
qed

text \<open>The answers to a guest: every ioctl returns, save a subscription to an event that the crate does not know.\<close>

lemma handler_returns:
  assumes "dec_laws K" and "ready (vd_os d) s"
  shows "handler_total (dec_handler False K B) d s"
proof -
  have I: "I (vs_backend_session s) (vd_os d)" using assms(2) by (simp add: ready_def)
  have "try_format K B d s queue format \<noteq> None" for queue format
    using adjust_returns [OF I] by (simp add: try_format_def Let_def)
  note readings = this format_returns [OF I]
  note writings = streamon_returns streamoff_returns decoder_cmd_returns settings_return qbuf_returns [OF assms(1)]
  show ?thesis
    using writings [OF assms(2), THEN goes_on_returns] reqbufs_total [OF assms] readings
    by (simp add: handler_total_def dec_handler_def default_handler_def unhandled_rw_def unhandled_ro_def
        unhandled_ref_def unhandled_rw_ctrls_def unhandled_ro_ctrls_def dec_enum_fmt_def dec_enum_framesizes_def
        dec_g_fmt_def vs_current_format_def dec_try_fmt_def dec_querybuf_def dec_g_selection_def dec_try_decoder_cmd_def
        Let_def del: not_None_eq)
qed

lemma ioctl_returns:
  assumes "dec_laws K" and "ready (vd_os d) s" and "ioctl = VIDIOC_SUBSCRIBE_EVENT \<longrightarrow> valid_subscription K r"
  shows "dev_do_ioctl (video_decoder False K B hm) ioctl d s r w \<noteq> None"
proof -
  have "virtio_media_dispatch_ioctl K (dec_handler False K B) ioctl d s r w \<noteq> None"
    by (rule dispatch_returns [OF handler_returns [OF assms(1,2)]]) (use assms(3) in simp)
  then show ?thesis by (simp add: video_decoder_def)
qed

section \<open>Runs\<close>

text \<open>
  A session of a run is ready as long as the requests for CAPTURE buffers do not get smaller and the rest of
  the system leaves the backend of the session alone.
\<close>

lemma goes_on_call:
  "goes_on s y \<Longrightarrow> map_option outcome y = Some (d', s', ok) \<Longrightarrow>
   ready (vd_os d') s' \<and> length (vs_output_buffers s') = length (vs_output_buffers s)"
  by (auto simp: goes_on_def)

lemma call_stays_ready:
  assumes "dec_laws K" and "ready (vd_os d) s" and "dec_call False K B hm c d s = Some (d', s', ok)"
    and "sorted (length (vs_output_buffers s) # requested VideoCaptureMplane (c, ok, evs))"
  shows "ready (vd_os d') s' \<and> length (vs_output_buffers s') =
    (case requested VideoCaptureMplane (c, ok, evs) of [] \<Rightarrow> length (vs_output_buffers s) | n # _ \<Rightarrow> n)"
proof -
  note calls = streamon_returns [OF assms(2)] streamoff_returns [OF assms(2)] decoder_cmd_returns [OF assms(2)]
    settings_return [OF assms(2)] qbuf_returns [OF assms(1,2)] process_events_returns [OF assms(2)]
  show ?thesis
  proof (cases c)
    case (ReqBufs queue memory n flags)
    show ?thesis
    proof (cases "queue = VideoCaptureMplane \<and> unat n < length (vs_output_buffers s)")
      case True
      with assms(2-4) ReqBufs show ?thesis by (cases "memory = Mmap") (auto simp: dec_reqbufs_def queue_buffers_def Let_def)
    next
      case False
      then have "queue = VideoCaptureMplane \<longrightarrow> length (vs_output_buffers s) \<le> unat n" by auto
      from reqbufs_returns [OF assms(1,2) this, of memory flags] assms(3) ReqBufs show ?thesis by auto
    qed
  next
    case (MapBuffer flags offset)
    with assms(2,3) show ?thesis by (auto simp: dec_do_mmap_def elim!: bind_SomeE split: option.split_asm)
  qed (use assms(3) calls [THEN goes_on_call] in simp_all)
qed

lemma run_ready:
  assumes "dec_laws K" and "\<And>bs w w'. I bs w \<Longrightarrow> R bs w w' \<Longrightarrow> I bs w'"
  shows "dec_run False K B hm R sid d s h \<Longrightarrow> sorted (requests VideoCaptureMplane h) \<Longrightarrow>
    ready (vd_os d) s \<and> length (vs_output_buffers s) = last (0 # requests VideoCaptureMplane h)"
proof (induction rule: dec_run.induct)
  case (dec_start d0 d s)
  then show ?case
    by (auto simp: dec_new_session_def ready_def pending_ok_def requests_def map_sum_eq_Inr intro: new_ok split: prod.split_asm)
next
  case (dec_step d s h c d' s' ok)
  let ?evs = "drop (length (vd_event_queue d)) (vd_event_queue d')"
  from dec_step.prems have req: "sorted (requests VideoCaptureMplane h @ requested VideoCaptureMplane (c, ok, ?evs))"
    by (simp add: requests_def)
  then have "sorted (requests VideoCaptureMplane h)" by (simp add: sorted_append)
  from dec_step.IH [OF this] have r: "ready (vd_os d) s" and len: "length (vs_output_buffers s) = last (0 # requests VideoCaptureMplane h)" by auto
  have "sorted (length (vs_output_buffers s) # requested VideoCaptureMplane (c, ok, ?evs))"
    using req len by (cases c) (auto simp: sorted_append)
  from call_stays_ready [OF assms(1) r dec_step.hyps(2) this] len show ?case by (cases c) (auto simp: requests_def)
next
  case (dec_world d s h d')
  then show ?case using assms(2) [of "vs_backend_session s" "vd_os d" "vd_os d'"] by (simp add: ready_def)
qed

end

end
