(* ===== verification/Decoder_Properties.thy ===== *)
theory Decoder_Properties
  imports Decoder_Example Decoder_Returns
begin

unbundle bit_operations_syntax

text \<open>
  The properties of the video decoder: who owns which offset, the streaming switches, the order in
  which buffers reach the backend, and what the guest is told about a frame.
\<close>

section \<open>Offsets\<close>

lemma dec_inv_new: "dec_inv K (VideoDecoder_new b m os) Map.empty"
  by (simp add: dec_inv_def VideoDecoder_new_def)

lemma reachable_dec_inv:
  assumes "run_reachable (video_decoder True K B hm) P (VideoDecoder_new b m os) p run"
  shows "dec_inv K (device run) (sessions run)"
  using video_decoder.reachable_inv [OF assms dec_inv_new] by (simp add: video_decoder.run_inv_def)

text \<open>The planes that \<open>do_mmap\<close> searches have the offsets of the session, and each is found.\<close>

lemma mmap_planes_offsets: "map (\<lambda>(_, _, off). off) (mmap_planes K bufs) = offsets_of K bufs"
  unfolding mmap_planes_def offsets_of_def
  by (induction bufs) (simp_all add: comp_def map_snd_enumerate [unfolded comp_def] split_def)

lemma mmap_planes_member:
  "(b, k, off) \<in> set (mmap_planes K bufs) \<Longrightarrow> b \<in> set bufs \<and> k < length (buffer_offsets K b) \<and> buffer_offsets K b ! k = off"
  by (auto simp: mmap_planes_def enumerate_eq_zip set_zip)

lemma find_plane:
  assumes "off \<in> set (offsets_of K bufs)"
  obtains b k where "find (\<lambda>(_, _, o1). o1 = off) (mmap_planes K bufs) = Some (b, k, off)" and "b \<in> set bufs"
    and "k < length (buffer_offsets K b)" and "buffer_offsets K b ! k = off"
proof -
  from assms have "off \<in> set (map (\<lambda>(_, _, o1). o1) (mmap_planes K bufs))" by (simp only: mmap_planes_offsets)
  then obtain p where "find (\<lambda>(_, _, o1). o1 = off) (mmap_planes K bufs) = Some p"
    by (cases "find (\<lambda>(_, _, o1). o1 = off) (mmap_planes K bufs)") (auto simp: find_None_iff split_def)
  moreover obtain b k o1 where "p = (b, k, o1)" by (cases p)
  ultimately have f: "find (\<lambda>(_, _, o1). o1 = off) (mmap_planes K bufs) = Some (b, k, o1)" by simp
  then have "(b, k, o1) \<in> set (mmap_planes K bufs)" "o1 = off"
    by (auto simp: find_Some_iff in_set_conv_nth)
  with f that mmap_planes_member [of b k o1 K bufs] show thesis by blast
qed

lemma no_plane:
  assumes "off \<notin> set (offsets_of K bufs)"
  shows "find (\<lambda>(_, _, o1). o1 = off) (mmap_planes K bufs) = None"
proof -
  from assms have "off \<notin> set (map (\<lambda>(_, _, o1). o1) (mmap_planes K bufs))" by (unfold mmap_planes_offsets)
  then show ?thesis by (auto simp: find_None_iff split_def image_iff)
qed

section \<open>The streaming state\<close>

lemma try_send_state:
  "try_send_pending_output_buffers K B s w = Some (w', s', r) \<Longrightarrow> vs_state s' = vs_state s"
  by (auto simp: try_send_pending_output_buffers_def elim!: bind_SomeE split: if_split_asm)

lemma apply_decoder_cmd_switches:
  assumes "apply_decoder_cmd K B c s w = Some (w', s', r)"
  shows "input_on (vs_state s') = input_on (vs_state s) \<and> output_on (vs_state s') = output_on (vs_state s)"
proof (cases "vs_state s")
  case (Stopped i1 o1)
  with assms show ?thesis
    by (cases c; cases "i1 \<and> o1")
      (auto simp: apply_decoder_cmd_def set_streaming_def dest!: try_send_state)
qed (use assms in \<open>cases c; auto simp: apply_decoder_cmd_def split: prod.split_asm\<close>)+

lemma dec_decoder_cmd_switches:
  assumes "dec_decoder_cmd K B c d s = Some (d', s', r)"
  shows "input_on (vs_state s') = input_on (vs_state s) \<and> output_on (vs_state s') = output_on (vs_state s)"
  using assms by (auto simp: dec_decoder_cmd_def split: option.split_asm sum.split_asm dest!: apply_decoder_cmd_switches)

section \<open>The buffers that reach the backend\<close>












lemma copy_first_plane_same:
  assumes "vb_laws K"
  shows "vb_index K (copy_first_plane K g v) = vb_index K v" "vb_flags K (copy_first_plane K g v) = vb_flags K v"
  by (simp_all add: copy_first_plane_def Let_def vb_laws_simps [OF assms] vb_laws_index [OF assms] split: option.split)


section \<open>Values of a buffer\<close>

text \<open>
  What the crate documents of the value accessors of a buffer: a setter is read back by its getter,
  and the other setters the decoder calls afterwards do not change the value.
\<close>

definition vb_value_laws :: "'vb v4l2r \<Rightarrow> bool" where
  "vb_value_laws K \<longleftrightarrow>
     (\<forall>b x. vb_sequence K (vb_set_sequence K b x) = x) \<and>
     (\<forall>b x. vb_timestamp K (vb_set_timestamp K b x) = x) \<and>
     (\<forall>b x. vb_bytesused K (vb_set_bytesused K b x) = x) \<and>
     (\<forall>b x. vb_length K (vb_set_length K b x) = x) \<and>
     (\<forall>b x. vb_sequence K (vb_set_timestamp K b x) = vb_sequence K b) \<and>
     (\<forall>b x. vb_sequence K (vb_set_bytesused K b x) = vb_sequence K b \<and> vb_timestamp K (vb_set_bytesused K b x) = vb_timestamp K b \<and>
        vb_length K (vb_set_bytesused K b x) = vb_length K b) \<and>
     (\<forall>b x. vb_timestamp K (vb_set_length K b x) = vb_timestamp K b) \<and>
     (\<forall>b x. vb_timestamp K (vb_set_data_offset K b x) = vb_timestamp K b \<and> vb_length K (vb_set_data_offset K b x) = vb_length K b \<and>
        vb_bytesused K (vb_set_data_offset K b x) = vb_bytesused K b) \<and>
     (\<forall>b x. vb_timestamp K (vb_add_flags K b x) = vb_timestamp K b \<and> vb_bytesused K (vb_add_flags K b x) = vb_bytesused K b)"

lemma vb_value_laws_ex_K: "vb_value_laws ex_K"
  by (simp add: vb_value_laws_def)

lemma vb_values:
  assumes "vb_value_laws K"
  shows "vb_sequence K (vb_set_sequence K b n) = n" "vb_timestamp K (vb_set_timestamp K b tv) = tv"
    "vb_bytesused K (vb_set_bytesused K b n) = n" "vb_length K (vb_set_length K b n) = n"
    "vb_sequence K (vb_set_timestamp K b tv) = vb_sequence K b"
    "vb_sequence K (vb_set_bytesused K b n) = vb_sequence K b" "vb_timestamp K (vb_set_bytesused K b n) = vb_timestamp K b"
    "vb_length K (vb_set_bytesused K b n) = vb_length K b" "vb_timestamp K (vb_set_length K b n) = vb_timestamp K b"
    "vb_timestamp K (vb_set_data_offset K b n) = vb_timestamp K b" "vb_length K (vb_set_data_offset K b n) = vb_length K b"
    "vb_bytesused K (vb_set_data_offset K b n) = vb_bytesused K b" "vb_timestamp K (vb_add_flags K b n) = vb_timestamp K b"
    "vb_bytesused K (vb_add_flags K b n) = vb_bytesused K b"
  using assms unfolding vb_value_laws_def by simp_all

lemma copy_first_plane_values:
  assumes "vb_value_laws K"
  shows "vb_bytesused K (copy_first_plane K g v) = vb_bytesused K g" "vb_length K (copy_first_plane K g v) = vb_length K g"
    "vb_timestamp K (copy_first_plane K g v) = vb_timestamp K v"
  by (simp_all add: copy_first_plane_def Let_def vb_values [OF assms] split: option.split)

section \<open>Properties\<close>

text \<open>
  C2. After any sequence of commands and backend events: a session of the decoder is stored under
  its identifier, the buffers of its queues are numbered from 0, the offsets under which their
  planes can be mapped are pairwise different and registered with the MMAP manager, and no other
  session has one of them.
\<close>

theorem decoder_offsets_owned:
  assumes "dec_laws K" and "run_reachable (video_decoder True K B hm) P (VideoDecoder_new b m os) p run"
    and "sessions run sid = Some s"
  shows "vs_id s = sid \<and> indices_ok K (vs_input_buffers s) \<and> indices_ok K (vs_output_buffers s) \<and>
    distinct (sess_offsets K s) \<and> (\<forall>off \<in> set (sess_offsets K s). registered (vd_host_mapper (device run)) off) \<and>
    (\<forall>sid' s'. sessions run sid' = Some s' \<longrightarrow> sid' \<noteq> sid \<longrightarrow> set (sess_offsets K s) \<inter> set (sess_offsets K s') = {})"
proof -
  note inv = reachable_dec_inv [OF assms(2)]
  with assms(1,3) have "owns K {} (vd_host_mapper (device run)) s" "vs_id s = sid"
    unfolding dec_inv_def by blast+
  with dec_inv_disjoint [OF inv assms(1,3)] show ?thesis by (auto simp: owns_def)
qed

lemma dec_runner_offsets:
  "sess_offsets ex_K dec_session0 = [0, 0x1000]" "sess_offsets ex_K dec_session1 = [0x2000]"
  by (simp_all add: sess_offsets_def offsets_of_def buffer_offsets_def dec_session0_def dec_session1_def dec_fresh_def
      dec_buffer_def ex_new_def)

theorem decoder_offsets_owned_witness:
  "vs_id dec_session0 = 0 \<and> distinct (sess_offsets ex_K dec_session0) \<and>
    registered (vd_host_mapper (device dec_runner)) 0x1000 \<and>
    set (sess_offsets ex_K dec_session0) \<inter> set (sess_offsets ex_K dec_session1) = {}"
proof -
  have "sessions dec_runner 0 = Some dec_session0" "sessions dec_runner 1 = Some dec_session1"
    by (simp_all add: dec_runner_def)
  with decoder_offsets_owned [OF dec_laws_ex_K dec_reachable [unfolded dec0_def], of 0 dec_session0]
  show ?thesis by (simp add: dec_runner_offsets)
qed

text \<open>
  C13. A session cannot map the buffers of another one: an offset that belongs to a session is
  refused with \<open>EINVAL\<close>, without a change, when any other session asks for it, while its owner is
  given a mapping of the file behind the plane that has this offset.
\<close>

theorem decoder_mmap_isolation:
  assumes "dec_laws K" and "run_reachable (video_decoder True K B hm) P (VideoDecoder_new b m os) p run"
    and "sessions run sid = Some s" and "sessions run sid' = Some s'" and "sid' \<noteq> sid"
    and "off \<in> set (sess_offsets K s')"
  shows "dec_do_mmap chk K B hm fl off (device run) s = Some (device run, s, Inl EINVAL) \<and>
    (\<exists>b k. b \<in> set (vs_input_buffers s' @ vs_output_buffers s') \<and> k < length (buffer_offsets K b) \<and>
       buffer_offsets K b ! k = off \<and>
       dec_do_mmap chk K B hm fl off (device run) s' = do {
         fd \<leftarrow> fd_for_plane B (db_backing b) k;
         (mgr, res) \<leftarrow> create_mapping chk hm (vd_host_mapper (device run)) off fd (fl AND VIRTIO_MEDIA_MMAP_FLAG_RW \<noteq> 0);
         Some ((device run)\<lparr>vd_host_mapper := mgr\<rparr>, s', map_sum (\<lambda>_. EINVAL) id res)
       })"
proof -
  have "off \<notin> set (sess_offsets K s)"
    using dec_inv_disjoint [OF reachable_dec_inv [OF assms(2)] assms(1,3,4)] assms(5,6) by blast
  then have "dec_do_mmap chk K B hm fl off (device run) s = Some (device run, s, Inl EINVAL)"
    unfolding sess_offsets_def dec_do_mmap_def by (simp add: no_plane del: offsets_append)
  moreover obtain b k where "find (\<lambda>(_, _, o1). o1 = off) (mmap_planes K (vs_input_buffers s' @ vs_output_buffers s')) = Some (b, k, off)"
    "b \<in> set (vs_input_buffers s' @ vs_output_buffers s')" "k < length (buffer_offsets K b)" "buffer_offsets K b ! k = off"
    using find_plane [of off K "vs_input_buffers s' @ vs_output_buffers s'"] assms(6) unfolding sess_offsets_def by blast
  ultimately show ?thesis unfolding dec_do_mmap_def by (intro conjI exI [of _ b] exI [of _ k]) simp_all
qed

theorem decoder_mmap_isolation_witness:
  "dec_do_mmap True ex_K ex_B DummyHostMemoryMapper 1 0x2000 (device dec_runner) dec_session0 =
     Some (device dec_runner, dec_session0, Inl EINVAL)"
  by (rule decoder_mmap_isolation [OF dec_laws_ex_K dec_reachable [unfolded dec0_def], of 0 _ 1 dec_session1, THEN conjunct1])
    (simp_all add: dec_runner_def dec_runner_offsets)

text \<open>
  C15. The two queues are independent switches. \<open>STREAMON\<close> of a queue that has buffers turns the
  switch of that queue on and leaves the other one alone, and starts the decoder when it turns on
  the second one; a \<open>STREAMOFF\<close> the backend accepts turns the switch of its queue off and leaves the
  other one alone, and the decoder is stopped; a decoder command, accepted or not, leaves both as
  they are.
\<close>

theorem decoder_streaming_switches:
  assumes "dec_laws K"
  shows "(q = VideoOutputMplane \<and> vs_input_buffers s \<noteq> [] \<or> q = VideoCaptureMplane \<and> vs_output_buffers s \<noteq> [] \<longrightarrow>
      dec_streamon K B q d s = Some (d1, s1, r1) \<longrightarrow>
      input_on (vs_state s1) = (q = VideoOutputMplane \<or> input_on (vs_state s)) \<and>
      output_on (vs_state s1) = (q = VideoCaptureMplane \<or> output_on (vs_state s)) \<and>
      (input_on (vs_state s) \<noteq> output_on (vs_state s) \<and> input_on (vs_state s1) \<and> output_on (vs_state s1) \<longrightarrow>
         vs_state s1 = Running)) \<and>
    (dec_streamoff K B q d s = Some (d2, s2, Inr ()) \<longrightarrow>
      input_on (vs_state s2) = (queue_direction K q = Capture \<and> input_on (vs_state s)) \<and>
      output_on (vs_state s2) = (queue_direction K q = Output \<and> output_on (vs_state s)) \<and>
      vs_state s2 \<notin> {Running, Paused}) \<and>
    (dec_decoder_cmd K B c d s = Some (d3, s3, r3) \<longrightarrow>
      input_on (vs_state s3) = input_on (vs_state s) \<and> output_on (vs_state s3) = output_on (vs_state s))"
proof (intro conjI impI)
  note dirs = dec_laws_directions [OF assms]
  assume q: "q = VideoOutputMplane \<and> vs_input_buffers s \<noteq> [] \<or> q = VideoCaptureMplane \<and> vs_output_buffers s \<noteq> []"
    and run: "dec_streamon K B q d s = Some (d1, s1, r1)"
  then have st: "vs_state s1 = (if q = VideoOutputMplane then input_streamon (vs_state s) else output_streamon (vs_state s))"
    using dirs by (auto simp: dec_streamon_def queue_buffers_def Let_def set_streaming_def dest!: try_send_state)
  from st q show "input_on (vs_state s1) = (q = VideoOutputMplane \<or> input_on (vs_state s))"
    "output_on (vs_state s1) = (q = VideoCaptureMplane \<or> output_on (vs_state s))" by auto
  assume "input_on (vs_state s) \<noteq> output_on (vs_state s) \<and> input_on (vs_state s1) \<and> output_on (vs_state s1)"
  with st show "vs_state s1 = Running" by (cases "vs_state s") (auto split: if_split_asm)
next
  assume run: "dec_streamoff K B q d s = Some (d2, s2, Inr ())"
  then have st: "vs_state s2 = (if queue_direction K q = Output then input_streamoff (vs_state s) else output_streamoff (vs_state s))"
    by (auto simp: dec_streamoff_def Let_def set_streaming_def
        split: QueueDirection.split_asm option.split_asm prod.split_asm sum.split_asm)
  show "input_on (vs_state s2) = (queue_direction K q = Capture \<and> input_on (vs_state s))"
    "output_on (vs_state s2) = (queue_direction K q = Output \<and> output_on (vs_state s))"
    "vs_state s2 \<notin> {Running, Paused}"
    unfolding st by (cases "queue_direction K q"; cases "vs_state s"; simp)+
next
  assume "dec_decoder_cmd K B c d s = Some (d3, s3, r3)"
  from dec_decoder_cmd_switches [OF this] show "input_on (vs_state s3) = input_on (vs_state s)"
    "output_on (vs_state s3) = output_on (vs_state s)" by simp_all
qed

theorem decoder_streaming_switches_witness:
  "\<exists>d1 s1 r1. dec_streamon ex_K ex_B VideoCaptureMplane dec2 (dec_session0\<lparr>vs_state := Stopped True False\<rparr>) = Some (d1, s1, r1) \<and>
     vs_state s1 = Running"
proof -
  let ?s = "dec_session0\<lparr>vs_state := Stopped True False\<rparr>"
  obtain d1 s1 r1 where run: "dec_streamon ex_K ex_B VideoCaptureMplane dec2 ?s = Some (d1, s1, r1)"
    by (simp add: dec_streamon_def queue_buffers_def dec_session0_def dec_fresh_def ex_direction_def Let_def
        set_streaming_def try_send_pending_output_buffers_def)
  have bufs: "vs_output_buffers ?s \<noteq> []" by (simp add: dec_session0_def)
  from decoder_streaming_switches [OF dec_laws_ex_K, of VideoCaptureMplane ?s ex_B dec2 d1 s1 r1] run bufs
  have "vs_state s1 = Running" by simp
  with run show ?thesis by blast
qed




text \<open>
  C30. A request for fewer CAPTURE buffers, but not for none, leaves the indices of removed buffers among those that
  wait for the backend: if such a \<open>REQBUFS\<close> removes a buffer that waits, and the session is not paused, then the next
  \<open>STREAMON\<close> of the queue does not succeed, whatever the backend does; and it makes the device panic if
  the removed buffer is the first of those that wait.
\<close>

theorem decoder_stale_pending:
  assumes "dec_laws K" and "vs_state s \<noteq> Paused" and "vs_pending_output_buffers s = pre @ i # post"
    and "unat cnt \<le> unat i" and "unat i < length (vs_output_buffers s)" and "cnt \<noteq> 0"
  shows "\<exists>d' s' resp. dec_reqbufs chk K B VideoCaptureMplane Mmap cnt flags d s = Some (d', s', Inr resp) \<and>
    (\<forall>d2 s2. dec_streamon K B VideoCaptureMplane d' s' \<noteq> Some (d2, s2, Inr ())) \<and>
    (pre = [] \<longrightarrow> dec_streamon K B VideoCaptureMplane d' s' = None)"
proof -
  note dirs = dec_laws_directions [OF assms(1)]
  obtain d' s' resp where r: "dec_reqbufs chk K B VideoCaptureMplane Mmap cnt flags d s = Some (d', s', Inr resp)"
    and s': "vs_state s' = vs_state s" "vs_pending_output_buffers s' = vs_pending_output_buffers s"
      "vs_output_buffers s' = take (unat cnt) (vs_output_buffers s)"
    using assms(4,5) by (simp add: dec_reqbufs_def queue_buffers_def set_queue_buffers_def Let_def)
  define s2 where "s2 = set_streaming B Capture True (s'\<lparr>vs_state := output_streamon (vs_state s')\<rparr>)"
  have p: "vs_pending_output_buffers s2 = pre @ i # post" "length (vs_output_buffers s2) \<le> unat i"
    using assms(3,4) s' by (simp_all add: s2_def set_streaming_def)
  have str: "is_output_streaming (vs_state s2)" using assms(2) s'(1) by (cases "vs_state s") (simp_all add: s2_def set_streaming_def)
  have "vs_output_buffers s' \<noteq> []" using s'(3) assms(5,6) by (auto simp: unat_eq_0)
  then have on: "dec_streamon K B VideoCaptureMplane d' s' = map_option (with_os d') (try_send_pending_output_buffers K B s2 (vd_os d'))"
    using dirs by (simp add: dec_streamon_def queue_buffers_def Let_def s2_def)
  have "try_send_pending_output_buffers K B s2 (vd_os d') \<noteq> Some (w3, s3, Inr ())" for w3 s3
    using send_outputs_stale [OF p(2), of K B pre post] str p(1)
    by (auto simp: try_send_pending_output_buffers_def elim!: bind_SomeE)
  then have "dec_streamon K B VideoCaptureMplane d' s' \<noteq> Some (d2, s3, Inr ())" for d2 s3
    unfolding on by auto
  moreover have "dec_streamon K B VideoCaptureMplane d' s' = None" if "pre = []"
    unfolding on using that p str by (simp add: try_send_pending_output_buffers_def vec_get_def)
  ultimately show ?thesis using r by blast
qed

theorem decoder_stale_pending_witness:
  "\<exists>d' s' resp. dec_reqbufs True ex_K ex_B VideoCaptureMplane Mmap 1 0 dec2 (dec_session0\<lparr>vs_pending_output_buffers := [1]\<rparr>) =
     Some (d', s', Inr resp) \<and> dec_streamon ex_K ex_B VideoCaptureMplane d' s' = None"
proof -
  let ?s = "dec_session0\<lparr>vs_pending_output_buffers := [1]\<rparr>"
  have "vs_state ?s \<noteq> Paused" "vs_pending_output_buffers ?s = [] @ 1 # []" "unat (1 :: u32) < length (vs_output_buffers ?s)"
    by (simp_all add: dec_session0_def dec_fresh_def)
  from decoder_stale_pending [OF dec_laws_ex_K this(1,2) _ this(3), of 1 True ex_B 0 dec2] show ?thesis by auto
qed

text \<open>
  C18. What the guest learns of a decoded frame: the CAPTURE buffer the backend names is given back
  with one event, after those sent before, with the counter of the session as its sequence number,
  the timestamp and the size the backend reports, and a flag word that is just the one for the last
  frame if it is the last one, and just the one for copied timestamps otherwise. The counter steps
  by one. After the last frame an end-of-stream event follows if the guest subscribed to it and no
  format change is pending, and the pending format change is over.
\<close>

theorem decoder_frame_completed:
  assumes "vb_laws K" and "vb_value_laws K" and "unat i < length (vs_output_buffers s)"
    and "vs_sequence_cpt s \<noteq> 0xFFFFFFFF"
    and "bs_next_event B (vs_backend_session s) (vd_os d) = Some (w', bs', Some (FrameCompleted i ts ns is_last))"
  shows "\<exists>d' s' v. dec_process_events chk K B d s = Some (d', s', Inr ()) \<and>
    vd_event_queue d' = vd_event_queue d @ [DequeueBuffer (DequeueBufferEvent_new (vs_id s) v)] @
      (if is_last \<and> vs_eos_subscribed s \<and> \<not> vs_format_change_pending s
       then [v4l2_event_of K (vs_id s) (V4L2_EVENT_EOS K) (event_u_default K)] else []) \<and>
    vb_index K v = vb_index K (db_v4l2 (vs_output_buffers s ! unat i)) \<and>
    vb_sequence K v = vs_sequence_cpt s \<and> vb_timestamp K v = ts \<and>
    vb_bytesused K v = (if ns = [] then 0 else hd ns) \<and>
    vb_flags K v = (if is_last then BUF_LAST K else BUF_TIMESTAMP_COPY K) \<and>
    db_v4l2 (vs_output_buffers s' ! unat i) = v \<and> unat (vs_sequence_cpt s') = unat (vs_sequence_cpt s) + 1 \<and>
    vs_format_change_pending s' = (vs_format_change_pending s \<and> \<not> is_last) \<and> vs_state s' = vs_state s"
proof -
  let ?b = "vs_output_buffers s ! unat i"
  have lt: "unat (vs_sequence_cpt s) + 1 < 2 ^ 32"
  proof -
    have "unat (vs_sequence_cpt s) \<noteq> unat (0xFFFFFFFF :: u32)" using assms(4) by (simp add: word_unat_eq_iff)
    moreover have "unat (vs_sequence_cpt s) < 2 ^ 32" using unsigned_less [of "vs_sequence_cpt s"] by simp
    ultimately show ?thesis by simp
  qed
  have add: "add_ov chk (vs_sequence_cpt s) 1 = Some (vs_sequence_cpt s + 1)" using lt by (intro add_ov_no_overflow) simp
  have un: "unat (vs_sequence_cpt s + 1) = unat (vs_sequence_cpt s) + 1" using lt by (simp add: unat_word_ariths)
  define v where "v = vb_set_bytesused K (vb_set_timestamp K (vb_set_sequence K
    (let v = vb_set_flags K (vb_clear_flags K (db_v4l2 ?b) (BUF_QUEUED K)) (BUF_TIMESTAMP_COPY K)
     in if is_last then vb_set_flags K v (BUF_LAST K) else v) (vs_sequence_cpt s)) ts) (case ns of [] \<Rightarrow> 0 | n # _ \<Rightarrow> n)"
  have v: "vb_index K v = vb_index K (db_v4l2 ?b)" "vb_sequence K v = vs_sequence_cpt s" "vb_timestamp K v = ts"
    "vb_bytesused K v = (if ns = [] then 0 else hd ns)" "vb_flags K v = (if is_last then BUF_LAST K else BUF_TIMESTAMP_COPY K)"
    by (simp_all add: v_def Let_def vb_laws_index [OF assms(1)] vb_laws_simps [OF assms(1)] vb_values [OF assms(2)] split: list.split)
  define d1 where "d1 = dec_send (DequeueBuffer (DequeueBufferEvent_new (vs_id s) v)) (d\<lparr>vd_os := w'\<rparr>)"
  define s1 where "s1 = s\<lparr>vs_backend_session := bs', vs_output_buffers := (vs_output_buffers s)[unat i := ?b\<lparr>db_v4l2 := v\<rparr>],
    vs_sequence_cpt := vs_sequence_cpt s + 1\<rparr>"
  define d2 where "d2 = (if is_last \<and> \<not> vs_format_change_pending s \<and> vs_eos_subscribed s
      then dec_send (v4l2_event_of K (vs_id s) (V4L2_EVENT_EOS K) (event_u_default K)) d1 else d1)"
  define s2 where "s2 = (if is_last then s1\<lparr>vs_format_change_pending := False\<rparr> else s1)"
  have "dec_process_events chk K B d s = Some (d2, s2, Inr ())"
    using assms(3,5) add
    by (simp add: dec_process_events_def frame_completed_def vec_get_def Let_def v_def d1_def s1_def d2_def s2_def)
  then show ?thesis
    using assms(3) un v
    by (intro exI [of _ d2] exI [of _ s2] exI [of _ v]) (simp add: d1_def s1_def d2_def s2_def dec_send_def)
qed

definition eos_session :: "(Ex_Buffer, nat, Ex_Session) VideoDecoderSession" where
  "eos_session = dec_session0
     \<lparr>vs_state := Running, vs_eos_subscribed := True, vs_sequence_cpt := 41,
      vs_backend_session := (vs_backend_session dec_session0)
        \<lparr>xs_events := [FrameCompleted 1 \<lparr>tv_sec = 7, tv_usec = 8\<rparr> [0x1000] True]\<rparr>\<rparr>"

theorem decoder_frame_completed_witness:
  "\<exists>d' s' v. dec_process_events True ex_K ex_B dec2 eos_session = Some (d', s', Inr ()) \<and>
     vd_event_queue d' = [DequeueBuffer (DequeueBufferEvent_new 0 v), v4l2_event_of ex_K 0 2 (event_u_default ex_K)] \<and>
     vb_index ex_K v = 1 \<and> vb_sequence ex_K v = 41 \<and> vb_bytesused ex_K v = 0x1000 \<and> vb_flags ex_K v = 0x100000 \<and>
     unat (vs_sequence_cpt s') = 42"
proof -
  have s: "unat (1 :: u32) < length (vs_output_buffers eos_session)" "vs_sequence_cpt eos_session \<noteq> 0xFFFFFFFF"
    "bs_next_event ex_B (vs_backend_session eos_session) (vd_os dec2) =
      Some (vd_os dec2, (vs_backend_session eos_session)\<lparr>xs_events := []\<rparr>, Some (FrameCompleted 1 \<lparr>tv_sec = 7, tv_usec = 8\<rparr> [0x1000] True))"
    by (simp_all add: eos_session_def dec_session0_def dec_fresh_def)
  from decoder_frame_completed [OF vb_laws_ex_K vb_value_laws_ex_K s, of True] show ?thesis
    by (auto simp: eos_session_def dec_session0_def dec_fresh_def dec2_def dec0_def VideoDecoder_new_def dec_buffer_def
        ex_new_def)
qed

text \<open>
  Queueing an OUTPUT buffer starts one decoding: the backend is given the storage of the named
  buffer, its index, the timestamp of the guest, and as the number of bytes what the guest says is
  used, or the length of the plane when the guest says 0. When the backend accepts, the answer has
  the flag that marks a queued buffer; when it refuses, its error is the answer, and the flags of the
  buffer are as before.
\<close>

theorem decoder_qbuf_decodes:
  assumes "dec_laws K" and "vb_value_laws K" and "vb_queue K g = VideoOutputMplane"
    and "unat (vb_index K g) < length (vs_input_buffers s)"
    and "vb_memory K g = vb_memory K (db_v4l2 (vs_input_buffers s ! unat (vb_index K g)))"
  shows "(let host = vs_input_buffers s ! unat (vb_index K g);
      n = (if vb_bytesused K g = 0 then vb_length K g else vb_bytesused K g) in
    \<exists>s' host'. vs_input_buffers s' = (vs_input_buffers s)[unat (vb_index K g) := host'] \<and>
      view1 K host' = view1 K host \<and> vs_state s' = vs_state s \<and>
      (case bs_decode B (db_backing host) (db_index K host) (vb_timestamp K g) n (vs_backend_session s) (vd_os d) of
         None \<Rightarrow> dec_qbuf K B g regions d s = None
       | Some (w', bs', Inl e) \<Rightarrow> dec_qbuf K B g regions d s = Some (d\<lparr>vd_os := w'\<rparr>, s', Inl e) \<and>
           vs_backend_session s' = bs' \<and> vb_flags K (db_v4l2 host') = vb_flags K (db_v4l2 host)
       | Some (w', bs', Inr _) \<Rightarrow> dec_qbuf K B g regions d s = Some (d\<lparr>vd_os := w'\<rparr>, s', Inr (db_v4l2 host')) \<and>
           vs_backend_session s' = bs' \<and> vb_queued K (db_v4l2 host')))"
proof -
  note dirs = dec_laws_directions [OF assms(1)] and vb = dec_laws_vb [OF assms(1)]
  let ?i = "unat (vb_index K g)"
  define host where "host = vs_input_buffers s ! ?i"
  define v where "v = input_v4l2 K g (db_v4l2 host)"
  define n where "n = (if vb_bytesused K g = 0 then vb_length K g else vb_bytesused K g)"
  define y where "y = bs_decode B (db_backing host) (db_index K host) (vb_timestamp K g) n (vs_backend_session s) (vd_os d)"
  have v: "vb_bytesused K v = vb_bytesused K g" "vb_length K v = vb_length K g" "vb_timestamp K v = vb_timestamp K g"
    "vb_index K v = vb_index K (db_v4l2 host)" "vb_flags K v = vb_flags K (db_v4l2 host)"
    by (simp_all add: v_def input_v4l2_def copy_first_plane_values [OF assms(2)] copy_first_plane_same [OF vb] vb_values [OF assms(2)]
        vb_laws_simps [OF vb] vb_laws_index [OF vb])
  have view: "view1 K (host\<lparr>db_v4l2 := v\<rparr>) = view1 K host"
    "view1 K (host\<lparr>db_v4l2 := vb_add_flags K v (BUF_QUEUED K)\<rparr>) = view1 K host"
    by (simp_all add: v_def input_v4l2_def view1_set [OF vb])
  have q: "dec_qbuf K B g regions d s = map_option (with_os d) (queue_input K B g ?i host s (vd_os d))"
    using assms(3-5) dirs by (simp add: dec_qbuf_def queue_buffers_def vec_get_def Let_def host_def)
  have "n = (if vb_bytesused K v = 0 then vb_length K v else vb_bytesused K v)" by (simp add: n_def v)
  from queue_input_eq [OF v_def this, of B ?i s "vd_os d"]
  have eq: "queue_input K B g ?i host s (vd_os d) = map_option (\<lambda>(w', bs', r). (w', case r of
      Inl e \<Rightarrow> (s\<lparr>vs_input_buffers := (vs_input_buffers s)[?i := host\<lparr>db_v4l2 := v\<rparr>], vs_backend_session := bs'\<rparr>, Inl e)
    | Inr _ \<Rightarrow> (s\<lparr>vs_backend_session := bs', vs_input_buffers := (vs_input_buffers s)[?i := host\<lparr>db_v4l2 := vb_add_flags K v (BUF_QUEUED K)\<rparr>]\<rparr>,
        Inr (vb_add_flags K v (BUF_QUEUED K))))) y"
    by (simp add: v db_index_def y_def)
  have fl: "vb_queued K (vb_add_flags K v (BUF_QUEUED K))"
    by (simp add: vb_queued_def vb_laws_simps [OF vb] vb_laws_queued [OF vb])
  show ?thesis
  proof (cases y)
    case None
    with q eq view(1) show ?thesis
      by (simp add: y_def Let_def flip: host_def n_def) (intro exI [of _ s] exI [of _ host], simp add: host_def)
  next
    case (Some z)
    then obtain w' bs' r where "y = Some (w', bs', r)" by (cases z) auto
    with q eq view v(5) fl show ?thesis
      by (cases r) (auto simp: y_def Let_def simp flip: host_def n_def)
  qed
qed

theorem decoder_qbuf_decodes_witness:
  "\<exists>s' v. dec_qbuf ex_K ex_B ((ex_new VideoOutputMplane 0 Mmap)\<lparr>ex_length := 0x1C200\<rparr>) [] dec2 dec_session1 = Some (dec2, s', Inr v) \<and>
     vb_queued ex_K v \<and> xs_decoded (vs_backend_session s') = [(5, 0, \<lparr>tv_sec = 0, tv_usec = 0\<rparr>, 0x1C200)]"
proof -
  let ?g = "(ex_new VideoOutputMplane 0 Mmap)\<lparr>ex_length := 0x1C200\<rparr>"
  have "vb_queue ex_K ?g = VideoOutputMplane" "unat (vb_index ex_K ?g) < length (vs_input_buffers dec_session1)"
    "vb_memory ex_K ?g = vb_memory ex_K (db_v4l2 (vs_input_buffers dec_session1 ! unat (vb_index ex_K ?g)))"
    by (simp_all add: ex_new_def dec_session1_def dec_buffer_def)
  from decoder_qbuf_decodes [OF dec_laws_ex_K vb_value_laws_ex_K this, of ex_B "[]" dec2] show ?thesis
    by (auto simp: dec_session1_def dec_fresh_def dec_buffer_def db_index_def ex_new_def Let_def)
qed

text \<open>
  C31. The crop rectangle: \<open>S_SELECTION\<close> of the composition rectangle is ignored once the stream
  has set it. Before that, the rectangle that is stored and returned does not start at a negative
  position, and both its width and its height are at most the width of the coded frames; with
  overflow checks the device panics exactly when a size the guest asks for is smaller than the
  position, or when the backend panics as it computes the format of the frames.
\<close>

theorem decoder_selection:
  "(let sel = dec_s_selection True K B SelectionCapture Compose rect fl d s in
    case (vs_crop_rectangle s, bs_current_format B (vs_backend_session s) Capture) of
      (FromStream r, _) \<Rightarrow> sel = Some (d, s, Inr r)
    | (Settable _, None) \<Rightarrow> sel = None
    | (Settable _, Some format) \<Rightarrow>
        if rect_width rect < (if sint (rect_left rect) < 0 then 0 else rect_left rect) \<or>
           rect_height rect < (if sint (rect_top rect) < 0 then 0 else rect_top rect) then sel = None
        else \<exists>r. sel = Some (d, s\<lparr>vs_crop_rectangle := Settable r\<rparr>, Inr r) \<and>
          0 \<le> sint (rect_left r) \<and> 0 \<le> sint (rect_top r) \<and>
          rect_width r \<le> fst (mplane_size K format) \<and> rect_height r \<le> fst (mplane_size K format) \<and>
          rect_width r \<le> rect_width rect \<and> rect_height r \<le> rect_height rect)"
proof (cases "vs_crop_rectangle s")
  case (FromStream r)
  then show ?thesis by (simp add: dec_s_selection_def dec_g_selection_def)
next
  case (Settable r0)
  define l where "l = (if sint (rect_left rect) < 0 then 0 else rect_left rect)"
  define t where "t = (if sint (rect_top rect) < 0 then 0 else rect_top rect)"
  have lt: "0 \<le> sint l" "0 \<le> sint t" by (simp_all add: l_def t_def)
  have clamp: "clamp_selection True cw rect =
      (if rect_width rect < l \<or> rect_height rect < t then None
       else Some \<lparr>rect_left = l, rect_top = t, rect_width = min cw (rect_width rect - l), rect_height = min cw (rect_height rect - t)\<rparr>)" for cw
    by (auto simp: clamp_selection_def sub_ov_def Let_def l_def t_def)
  show ?thesis
  proof (cases "bs_current_format B (vs_backend_session s) Capture")
    case None
    with Settable show ?thesis by (simp add: dec_s_selection_def)
  next
    case (Some format)
    show ?thesis
    proof (cases "rect_width rect < l \<or> rect_height rect < t")
      case True
      with Settable Some clamp show ?thesis by (simp add: dec_s_selection_def flip: l_def t_def)
    next
      case False
      then have "rect_width rect - l \<le> rect_width rect" "rect_height rect - t \<le> rect_height rect"
        by (simp_all add: word_le_nat_alt unat_sub_if' not_less)
      with False Settable Some clamp lt show ?thesis
        by (simp add: dec_s_selection_def dec_g_selection_def min.coboundedI2 flip: l_def t_def)
    qed
  qed
qed

end
