(* ===== verification/Proxy_Session.thy ===== *)
theory Proxy_Session
  imports Runner Mmap Vb_Laws Btree_Map
begin

unbundle bit_operations_syntax

text \<open>
  The sessions of the proxy of host V4L2 devices, \<open>device/src/devices/v4l2_device_proxy.rs\<close>, lines
  105 to 330: the translation of the user pointers of buffers and of extended controls between the
  guest and the host, and the state of a session. The host, that is, the system calls that
  \<open>v4l2r::ioctl\<close> and \<open>v4l2r::device\<close> make, and the mapper of guest memory are parameters, over
  the states \<open>'w\<close> of the host, \<open>'dev\<close> of an open device, \<open>'pol\<close> of a poller, \<open>'gm\<close> of the memory
  mapper and \<open>'r\<close> of a mapping. Memory that is mapped is released when its owner is dropped; that
  is left to the mapper.
\<close>

section \<open>Parameters\<close>

text \<open>
  More of the \<open>v4l2r\<close> crate: the planes of MMAP buffers with offset and length, those of USERPTR
  buffers with length and address and the replacement of the addresses, and the fields of the
  structures that only the proxy looks at.
\<close>

record 'vb v4l2r_proxy =
  vb_mmap_planes :: "'vb \<Rightarrow> (u32 \<times> u32) list option"
  vb_userptr_planes :: "'vb \<Rightarrow> (u32 \<times> u64) list option"
  vb_set_userptrs :: "'vb \<Rightarrow> u64 list \<Rightarrow> 'vb"
  ext_ctrl_ptr :: "v4l2_ext_control \<Rightarrow> u64"
  ext_ctrl_set_ptr :: "v4l2_ext_control \<Rightarrow> u64 \<Rightarrow> v4l2_ext_control"
  ext_ctrls_set_error_idx :: "v4l2_ext_controls \<Rightarrow> u32 \<Rightarrow> v4l2_ext_controls"
  create_index :: "v4l2_create_buffers \<Rightarrow> u32"
  SUPPORTS_REQUESTS :: u32
  V4L2_EVENT_ALL :: u32
  SEND_INITIAL :: SubscribeEventFlags

text \<open>The traits \<open>VirtioMediaGuestMemoryMapper\<close> and \<open>GuestMemoryRange\<close>.\<close>

record ('w, 'gm, 'r) VirtioMediaGuestMemoryMapper =
  new_mapping :: "'gm \<Rightarrow> SgEntry list \<Rightarrow> 'w \<Rightarrow> 'w \<times> 'r option"
  as_ptr :: "'r \<Rightarrow> u64"
  as_mut_ptr :: "'r \<Rightarrow> 'r \<times> u64"

datatype DeviceEvent = CaptureReady | V4L2Event
datatype PollEvent = PollDevice DeviceEvent | PollOther nat

text \<open>
  The outcome of dequeueing: the errors the code tells apart, and the number of all others, as
  \<open>into_errno\<close> gives it.
\<close>

datatype DqBufError = DqBufEos | DqBufNotReady | DqBufOther i32
datatype DqEventError = DqEventNotReady | DqEventOther i32

text \<open>
  The host: opening a device, its poller, and the ioctls around which the proxy keeps state. An
  ioctl that fails returns its error number. The ones for extended controls return the array, which
  they change in place, and on failure also the index of the control at fault.
\<close>

type_synonym ('dev, 'w, 'a) host_ioctl = "'dev \<Rightarrow> 'w \<Rightarrow> 'w \<times> 'a IoctlResult"
type_synonym ('dev, 'w) host_ctrls_ioctl = "CtrlWhich \<Rightarrow> v4l2_ext_control list \<Rightarrow> 'dev \<Rightarrow> 'w \<Rightarrow>
  'w \<times> v4l2_ext_control list \<times> (u32 \<times> i32 + unit)"

record ('dev, 'pol, 'w, 'vb) V4l2Host =
  x_open :: "string \<Rightarrow> 'w \<Rightarrow> 'w \<times> (i32 + 'dev)"
  poller_new :: "'dev \<Rightarrow> 'w \<Rightarrow> 'w \<times> 'pol option"
  enable_event :: "DeviceEvent \<Rightarrow> 'pol \<Rightarrow> 'w \<Rightarrow> 'w \<times> 'pol \<times> bool"
  disable_event :: "DeviceEvent \<Rightarrow> 'pol \<Rightarrow> 'w \<Rightarrow> 'w \<times> 'pol \<times> bool"
  poll :: "'pol \<Rightarrow> 'w \<Rightarrow> 'w \<times> 'pol \<times> PollEvent list option"
  poller_fd :: "'pol \<Rightarrow> fd"
  x_reqbufs :: "QueueType \<Rightarrow> MemoryType \<Rightarrow> u32 \<Rightarrow> MemoryConsistency \<Rightarrow> ('dev, 'w, v4l2_requestbuffers) host_ioctl"
  x_create_bufs :: "u32 \<Rightarrow> MemoryType \<Rightarrow> v4l2_format \<Rightarrow> ('dev, 'w, v4l2_create_buffers) host_ioctl"
  x_querybuf :: "QueueType \<Rightarrow> nat \<Rightarrow> ('dev, 'w, 'vb) host_ioctl"
  x_qbuf :: "'vb \<Rightarrow> ('dev, 'w, 'vb) host_ioctl"
  x_prepare_buf :: "'vb \<Rightarrow> ('dev, 'w, 'vb) host_ioctl"
  x_dqbuf :: "QueueType \<Rightarrow> 'dev \<Rightarrow> 'w \<Rightarrow> 'w \<times> (DqBufError + 'vb)"
  x_dqevent :: "'dev \<Rightarrow> 'w \<Rightarrow> 'w \<times> (DqEventError + v4l2_event)"
  x_streamon :: "QueueType \<Rightarrow> ('dev, 'w, unit) host_ioctl"
  x_streamoff :: "QueueType \<Rightarrow> ('dev, 'w, unit) host_ioctl"
  x_expbuf :: "QueueType \<Rightarrow> nat \<Rightarrow> nat \<Rightarrow> bool \<Rightarrow> ('dev, 'w, fd) host_ioctl"
  x_subscribe_event :: "EventType \<Rightarrow> SubscribeEventFlags \<Rightarrow> ('dev, 'w, unit) host_ioctl"
  x_unsubscribe_event :: "EventType \<Rightarrow> ('dev, 'w, unit) host_ioctl"
  x_unsubscribe_all_events :: "('dev, 'w, unit) host_ioctl"
  x_g_ext_ctrls :: "('dev, 'w) host_ctrls_ioctl"
  x_s_ext_ctrls :: "('dev, 'w) host_ctrls_ioctl"
  x_try_ext_ctrls :: "('dev, 'w) host_ctrls_ioctl"

section \<open>Sessions\<close>

record 'r V4l2UserPlaneInfo =
  up_queue :: QueueType
  up_index :: u8
  up_guest_addr :: u64
  up_guest_resource :: 'r

record ('dev, 'pol, 'r) V4l2Session =
  ps_id :: u32
  ps_device :: 'dev
  ps_poller :: 'pol
  ps_capture_queue_type :: "QueueType option"
  ps_output_queue_type :: "QueueType option"
  ps_capture_streaming :: bool
  ps_capture_num_queued :: u64
  ps_output_streaming :: bool
  ps_output_num_queued :: u64
  ps_userptr_buffers :: "(u64 \<times> 'r V4l2UserPlaneInfo) list"

definition ps_poll_fd :: "('dev, 'pol, 'w, 'vb, 'x) V4l2Host_scheme \<Rightarrow> ('dev, 'pol, 'r) V4l2Session \<Rightarrow> fd option" where
  "ps_poll_fd X s = Some (poller_fd X (ps_poller s))"

text \<open>Both the poller and the events it reports are needed: a failure of either panics.\<close>

definition V4l2Session_new ::
  "('dev, 'pol, 'w, 'vb, 'x) V4l2Host_scheme \<Rightarrow> u32 \<Rightarrow> 'dev \<Rightarrow> 'w \<Rightarrow> ('w \<times> ('dev, 'pol, 'r) V4l2Session) option"
where
  "V4l2Session_new X session_id dev w =
     (case poller_new X dev w of
        (w1, None) \<Rightarrow> None
      | (w1, Some pol) \<Rightarrow>
          (case enable_event X V4L2Event pol w1 of
             (w2, pol', ok) \<Rightarrow>
               if \<not> ok then None
               else Some (w2,
                 \<lparr>ps_id = session_id, ps_device = dev, ps_poller = pol', ps_capture_queue_type = None,
                  ps_output_queue_type = None, ps_capture_streaming = False, ps_capture_num_queued = 0,
                  ps_output_streaming = False, ps_output_num_queued = 0, ps_userptr_buffers = []\<rparr>)))"

definition should_poll_capture :: "('dev, 'pol, 'r) V4l2Session \<Rightarrow> bool" where
  "should_poll_capture s \<longleftrightarrow> ps_capture_streaming s \<and> 0 < ps_capture_num_queued s"

section \<open>User pointers\<close>

text \<open>
  The loop of \<open>guest_v4l2_buffer_to_host\<close>: the planes that are not empty are paired with the
  regions, each is mapped, and the address of the mapping replaces that of the guest. It ends with
  the planes or with the regions; the planes it does not reach keep their address.
\<close>

fun map_planes ::
  "('w, 'gm, 'r) VirtioMediaGuestMemoryMapper \<Rightarrow> 'gm \<Rightarrow> bool \<Rightarrow> (u32 \<times> u64) list \<Rightarrow> SgEntry list list \<Rightarrow> 'w \<Rightarrow>
   'w \<times> (u64 list \<times> 'r list) option"
where
  "map_planes G m writable [] regions w = (w, Some ([], []))"
| "map_planes G m writable ((len, p) # planes) regions w =
     (if len = 0 then
        (case map_planes G m writable planes regions w of
           (w', res) \<Rightarrow> (w', map_option (\<lambda>(ps, rs). (p # ps, rs)) res))
      else case regions of
        [] \<Rightarrow> (w, Some (p # map snd planes, []))
      | region # regions' \<Rightarrow>
          (case new_mapping G m region w of
             (w1, None) \<Rightarrow> (w1, None)
           | (w1, Some r) \<Rightarrow>
               (case (if writable then as_mut_ptr G r else (r, as_ptr G r)) of
                  (r', p') \<Rightarrow>
                    (case map_planes G m writable planes regions' w1 of
                       (w2, res) \<Rightarrow> (w2, map_option (\<lambda>(ps, rs). (p' # ps, r' # rs)) res)))))"

definition guest_v4l2_buffer_to_host ::
  "'vb v4l2r \<Rightarrow> 'vb v4l2r_proxy \<Rightarrow> ('w, 'gm, 'r) VirtioMediaGuestMemoryMapper \<Rightarrow> 'vb \<Rightarrow> SgEntry list list \<Rightarrow> 'gm \<Rightarrow> 'w \<Rightarrow>
   'w \<times> ('vb \<times> 'r list) option"
where
  "guest_v4l2_buffer_to_host K L G guest_buffer guest_regions m w =
     (let writable = queue_direction K (vb_queue K guest_buffer) = Capture in
      case vb_userptr_planes L guest_buffer of
        None \<Rightarrow> (w, Some (guest_buffer, []))
      | Some planes \<Rightarrow>
          (case map_planes G m writable planes guest_regions w of
             (w', res) \<Rightarrow> (w', map_option (\<lambda>(ps, rs). (vb_set_userptrs L guest_buffer ps, rs)) res)))"

text \<open>The loop of \<open>host_v4l2_buffer_to_guest\<close>; an address that is not registered is an error.\<close>

fun guest_ptrs :: "(u64 \<times> 'r V4l2UserPlaneInfo) list \<Rightarrow> u64 list \<Rightarrow> u64 list option" where
  "guest_ptrs ups [] = Some []"
| "guest_ptrs ups (p # ps) =
     (if p = 0 then map_option (\<lambda>ps'. p # ps') (guest_ptrs ups ps)
      else case map_of ups p of
        None \<Rightarrow> None
      | Some info \<Rightarrow> map_option (\<lambda>ps'. up_guest_addr info # ps') (guest_ptrs ups ps))"

definition host_v4l2_buffer_to_guest ::
  "'vb v4l2r_proxy \<Rightarrow> 'vb \<Rightarrow> (u64 \<times> 'r V4l2UserPlaneInfo) list \<Rightarrow> 'vb option"
where
  "host_v4l2_buffer_to_guest L host_buffer userptr_buffers =
     (case vb_userptr_planes L host_buffer of
        None \<Rightarrow> Some host_buffer
      | Some planes \<Rightarrow>
          map_option (vb_set_userptrs L host_buffer) (guest_ptrs userptr_buffers (map snd planes)))"

definition register_userptr_addresses ::
  "'vb v4l2r \<Rightarrow> 'vb v4l2r_proxy \<Rightarrow> 'vb \<Rightarrow> 'vb \<Rightarrow> 'r list \<Rightarrow> ('dev, 'pol, 'r) V4l2Session \<Rightarrow> ('dev, 'pol, 'r) V4l2Session"
where
  "register_userptr_addresses K L host_buffer guest_buffer guest_resources s =
     (case (vb_userptr_planes L host_buffer, vb_userptr_planes L guest_buffer) of
        (Some host_planes, Some guest_planes) \<Rightarrow>
          s\<lparr>ps_userptr_buffers :=
             foldl (\<lambda>ups ((h, g), r). bt_insert h
                      \<lparr>up_queue = vb_queue K guest_buffer, up_index = ucast (vb_index K guest_buffer),
                       up_guest_addr = g, up_guest_resource = r\<rparr> ups)
               (ps_userptr_buffers s)
               (zip (filter (\<lambda>(h, _). h \<noteq> 0) (zip (map snd host_planes) (map snd guest_planes))) guest_resources)\<rparr>
      | _ \<Rightarrow> s)"

section \<open>Extended controls\<close>

datatype ExtCtrlIoctl = ExtGet | ExtSet | ExtTry

text \<open>The mappings of the payloads; the first failure ends the iteration.\<close>

fun map_payloads ::
  "('w, 'gm, 'r) VirtioMediaGuestMemoryMapper \<Rightarrow> 'gm \<Rightarrow> SgEntry list list \<Rightarrow> 'w \<Rightarrow> 'w \<times> 'r list option"
where
  "map_payloads G m [] w = (w, Some [])"
| "map_payloads G m (sgs # regions) w =
     (case new_mapping G m sgs w of
        (w1, None) \<Rightarrow> (w1, None)
      | (w1, Some r) \<Rightarrow>
          (case map_payloads G m regions w1 of (w2, res) \<Rightarrow> (w2, map_option (\<lambda>rs. r # rs) res)))"

text \<open>The controls with a payload, in order, are given the addresses of the payloads.\<close>

fun patch_ctrls :: "'vb v4l2r_proxy \<Rightarrow> v4l2_ext_control list \<Rightarrow> u64 list \<Rightarrow> v4l2_ext_control list" where
  "patch_ctrls L [] ps = []"
| "patch_ctrls L (c # cs) ps =
     (if ext_ctrl_size c = 0 then c # patch_ctrls L cs ps
      else case ps of [] \<Rightarrow> c # cs | p # ps' \<Rightarrow> ext_ctrl_set_ptr L c p # patch_ctrls L cs ps')"

text \<open>The controls that had a payload are given back the address of the guest.\<close>

fun restore_ctrls ::
  "'vb v4l2r_proxy \<Rightarrow> v4l2_ext_control list \<Rightarrow> v4l2_ext_control list \<Rightarrow> v4l2_ext_control list"
where
  "restore_ctrls L (c # cs) (b # bs) =
     (if ext_ctrl_size b = 0 then c else ext_ctrl_set_ptr L c (ext_ctrl_ptr L b)) # restore_ctrls L cs bs"
| "restore_ctrls L cs [] = cs"
| "restore_ctrls L [] bs = []"

definition perform_ext_ctrls_ioctl ::
  "'vb v4l2r_proxy \<Rightarrow> ('dev, 'pol, 'w, 'vb, 'x) V4l2Host_scheme \<Rightarrow> ('w, 'gm, 'r) VirtioMediaGuestMemoryMapper \<Rightarrow>
   ExtCtrlIoctl \<Rightarrow> 'dev \<Rightarrow> 'gm \<Rightarrow> CtrlWhich \<Rightarrow> v4l2_ext_controls \<Rightarrow> v4l2_ext_control list \<Rightarrow> SgEntry list list \<Rightarrow> 'w \<Rightarrow>
   ('w \<times> v4l2_ext_controls \<times> v4l2_ext_control list \<times> unit IoctlResult) option"
where
  "perform_ext_ctrls_ioctl L X G ioctl dev mem which ctrls ctrl_array mem_regions w =
     (case map_payloads G mem (take (length (filter (\<lambda>c. 0 < ext_ctrl_size c) ctrl_array)) mem_regions) w of
        (w1, None) \<Rightarrow> None
      | (w1, Some payloads) \<Rightarrow>
          (let patched = patch_ctrls L ctrl_array (map (\<lambda>r. snd (as_mut_ptr G r)) payloads) in
           case (case ioctl of
                   ExtGet \<Rightarrow> x_g_ext_ctrls X which patched dev w1
                 | ExtSet \<Rightarrow> x_s_ext_ctrls X which patched dev w1
                 | ExtTry \<Rightarrow> x_try_ext_ctrls X which patched dev w1) of
             (w2, array', res) \<Rightarrow>
               Some (w2,
                 (case res of Inl (error_idx, _) \<Rightarrow> ext_ctrls_set_error_idx L ctrls error_idx | Inr _ \<Rightarrow> ctrls),
                 restore_ctrls L array' ctrl_array, map_sum snd id res)))"

end
