(* ===== verification/Proxy_Device.thy ===== *)
theory Proxy_Device
  imports Proxy_Session
begin

unbundle bit_operations_syntax

text \<open>
  The state of the proxy of host V4L2 devices and the operations around which it keeps state,
  \<open>device/src/devices/v4l2_device_proxy.rs\<close>: the offsets of MMAP buffers, the events and buffers
  it dequeues from the host, and the ioctls on buffers, streams and events.
\<close>

section \<open>State\<close>

record V4l2MmapPlaneInfo =
  mp_session_id :: u32
  mp_queue :: QueueType
  mp_index :: u8
  mp_plane :: u8
  mp_map_address :: u64
  mp_active :: bool

record ('w, 'gm, 'm, 'vb) V4l2ProxyDevice =
  pd_device_path :: string
  pd_mem :: 'gm
  pd_evt_queue :: "('vb, v4l2_event) V4l2Event list"
  pd_mmap_buffers :: "(u32 \<times> V4l2MmapPlaneInfo) list"
  pd_mmap_manager :: "'m MmapMappingManager"
  pd_os :: 'w

type_synonym ('dev, 'pol, 'r, 'w, 'gm, 'm, 'vb, 'a) proxy_ro =
  "(('w, 'gm, 'm, 'vb) V4l2ProxyDevice, ('dev, 'pol, 'r) V4l2Session, 'a) ro_method"
type_synonym ('dev, 'pol, 'r, 'w, 'gm, 'm, 'vb, 'a) proxy_rw =
  "(('w, 'gm, 'm, 'vb) V4l2ProxyDevice, ('dev, 'pol, 'r) V4l2Session, 'a) rw_method"
type_synonym ('dev, 'pol, 'r, 'w, 'gm, 'm, 'vb, 'a) proxy_ref =
  "(('w, 'gm, 'm, 'vb) V4l2ProxyDevice, ('dev, 'pol, 'r) V4l2Session, 'a) ref_method"

definition V4l2ProxyDevice_new :: "string \<Rightarrow> 'gm \<Rightarrow> 'm \<Rightarrow> 'w \<Rightarrow> ('w, 'gm, 'm, 'vb) V4l2ProxyDevice" where
  "V4l2ProxyDevice_new path mem m os =
     \<lparr>pd_device_path = path, pd_mem = mem, pd_evt_queue = [], pd_mmap_buffers = [],
      pd_mmap_manager = MmapMappingManager_from m, pd_os = os\<rparr>"

definition proxy_send ::
  "('vb, v4l2_event) V4l2Event \<Rightarrow> ('w, 'gm, 'm, 'vb) V4l2ProxyDevice \<Rightarrow> ('w, 'gm, 'm, 'vb) V4l2ProxyDevice"
where
  "proxy_send ev d = d\<lparr>pd_evt_queue := pd_evt_queue d @ [ev]\<rparr>"

definition send_error ::
  "u32 \<Rightarrow> i32 \<Rightarrow> ('w, 'gm, 'm, 'vb) V4l2ProxyDevice \<Rightarrow> ('w, 'gm, 'm, 'vb) V4l2ProxyDevice"
where
  "send_error session_id e d = proxy_send (Error (ErrorEvent_new session_id e)) d"

section \<open>MMAP buffers\<close>

text \<open>
  The planes that a predicate selects are unregistered, in the order of their offsets, and marked as
  inactive; then the inactive planes are dropped from the map.
\<close>

definition drop_planes ::
  "(V4l2MmapPlaneInfo \<Rightarrow> bool) \<Rightarrow> ('w, 'gm, 'm, 'vb) V4l2ProxyDevice \<Rightarrow> ('w, 'gm, 'm, 'vb) V4l2ProxyDevice"
where
  "drop_planes p d =
     d\<lparr>pd_mmap_manager :=
         unregister_all (pd_mmap_manager d) (map fst (filter (\<lambda>(_, b). p b) (pd_mmap_buffers d))),
       pd_mmap_buffers :=
         filter (\<lambda>(_, b). mp_active b)
           (map (\<lambda>(off, b). (off, if p b then b\<lparr>mp_active := False\<rparr> else b)) (pd_mmap_buffers d))\<rparr>"

definition delete_session ::
  "('dev, 'pol, 'r) V4l2Session \<Rightarrow> ('w, 'gm, 'm, 'vb) V4l2ProxyDevice \<Rightarrow> ('w, 'gm, 'm, 'vb) V4l2ProxyDevice"
where
  "delete_session s d = drop_planes (\<lambda>b. mp_session_id b = ps_id s) d"

text \<open>The loop over the planes of a new buffer; \<open>unwrap\<close> panics when the registration is refused.\<close>

fun add_planes ::
  "bool \<Rightarrow> u32 \<Rightarrow> QueueType \<Rightarrow> u32 \<Rightarrow> nat \<Rightarrow> (u32 \<times> u32) list \<Rightarrow> ('w, 'gm, 'm, 'vb) V4l2ProxyDevice \<Rightarrow>
   ('w, 'gm, 'm, 'vb) V4l2ProxyDevice option"
where
  "add_planes chk sid queue index j [] d = Some d"
| "add_planes chk sid queue index j ((offset, len) # planes) d = do {
     (mgr, res) \<leftarrow> register_buffer chk (pd_mmap_manager d) (Some offset) len;
     (case res of
        Inl e \<Rightarrow> None
      | Inr _ \<Rightarrow>
          add_planes chk sid queue index (Suc j) planes
            (d\<lparr>pd_mmap_manager := mgr,
               pd_mmap_buffers := bt_insert offset
                 \<lparr>mp_session_id = sid, mp_queue = queue, mp_index = ucast index, mp_plane = of_nat j,
                  mp_map_address = 0, mp_active = True\<rparr> (pd_mmap_buffers d)\<rparr>))
   }"

text \<open>The loop over the indices of the new buffers; one that cannot be queried is skipped.\<close>

fun add_buffers ::
  "bool \<Rightarrow> 'vb v4l2r \<Rightarrow> 'vb v4l2r_proxy \<Rightarrow> ('dev, 'pol, 'w, 'vb, 'x) V4l2Host_scheme \<Rightarrow> ('dev, 'pol, 'r) V4l2Session \<Rightarrow>
   QueueType \<Rightarrow> nat list \<Rightarrow> ('w, 'gm, 'm, 'vb) V4l2ProxyDevice \<Rightarrow> ('w, 'gm, 'm, 'vb) V4l2ProxyDevice option"
where
  "add_buffers chk K L X s queue [] d = Some d"
| "add_buffers chk K L X s queue (i # is) d =
     (case x_querybuf X queue i (ps_device s) (pd_os d) of
        (w', Inl e) \<Rightarrow> add_buffers chk K L X s queue is (d\<lparr>pd_os := w'\<rparr>)
      | (w', Inr buffer) \<Rightarrow> do {
          d' \<leftarrow> (case vb_mmap_planes L buffer of
                  Some planes \<Rightarrow> add_planes chk (ps_id s) queue (vb_index K buffer) 0 planes (d\<lparr>pd_os := w'\<rparr>)
                | None \<Rightarrow> Some (d\<lparr>pd_os := w'\<rparr>));
          add_buffers chk K L X s queue is d'
        })"

definition is_capture :: "QueueType \<Rightarrow> bool" where
  "is_capture queue \<longleftrightarrow> queue = VideoCapture \<or> queue = VideoCaptureMplane"

definition is_output :: "QueueType \<Rightarrow> bool" where
  "is_output queue \<longleftrightarrow> queue = VideoOutput \<or> queue = VideoOutputMplane"

text \<open>The range of the new buffers is given by its ends.\<close>

definition update_mmap_offsets ::
  "bool \<Rightarrow> 'vb v4l2r \<Rightarrow> 'vb v4l2r_proxy \<Rightarrow> ('dev, 'pol, 'w, 'vb, 'x) V4l2Host_scheme \<Rightarrow> QueueType \<Rightarrow> u32 \<Rightarrow> u32 \<Rightarrow>
   ('w, 'gm, 'm, 'vb) V4l2ProxyDevice \<Rightarrow> ('dev, 'pol, 'r) V4l2Session \<Rightarrow>
   (('w, 'gm, 'm, 'vb) V4l2ProxyDevice \<times> ('dev, 'pol, 'r) V4l2Session) option"
where
  "update_mmap_offsets chk K L X queue first past d s = do {
     d' \<leftarrow> add_buffers chk K L X s queue [unat first..<unat past]
       (drop_planes (\<lambda>b. mp_session_id b = ps_id s \<and> mp_queue b = queue \<and>
          (past \<le> first \<or> first \<le> ucast (mp_index b))) d);
     Some (d',
       if is_capture queue then s\<lparr>ps_capture_queue_type := Some queue\<rparr>
       else if is_output queue then s\<lparr>ps_output_queue_type := Some queue\<rparr>
       else s)
   }"

section \<open>Events and buffers from the host\<close>

text \<open>
  The loops that dequeue until the host has nothing left; a loop that the host keeps busy forever
  does not return, which is \<open>None\<close> here.
\<close>

partial_function (option) dequeue_events ::
  "('dev, 'pol, 'w, 'vb, 'x) V4l2Host_scheme \<Rightarrow> ('dev, 'pol, 'r) V4l2Session \<Rightarrow> ('w, 'gm, 'm, 'vb) V4l2ProxyDevice \<Rightarrow>
   (('w, 'gm, 'm, 'vb) V4l2ProxyDevice \<times> (i32 + unit)) option"
where
  "dequeue_events X s d =
     (case x_dqevent X (ps_device s) (pd_os d) of
        (w', Inr event) \<Rightarrow>
          dequeue_events X s (proxy_send (Event (SessionEvent_new (ps_id s) event)) (d\<lparr>pd_os := w'\<rparr>))
      | (w', Inl e) \<Rightarrow>
          (case e of
             DqEventNotReady \<Rightarrow> Some (d\<lparr>pd_os := w'\<rparr>, Inr ())
           | DqEventOther err \<Rightarrow> Some (send_error (ps_id s) err (d\<lparr>pd_os := w'\<rparr>), Inl err)))"

text \<open>The planes of a buffer that comes back from the host are forgotten.\<close>

definition forget_userptrs ::
  "QueueType option \<Rightarrow> u8 \<Rightarrow> ('dev, 'pol, 'r) V4l2Session \<Rightarrow> ('dev, 'pol, 'r) V4l2Session"
where
  "forget_userptrs queue_type index s =
     s\<lparr>ps_userptr_buffers :=
        filter (\<lambda>(_, v). Some (up_queue v) \<noteq> queue_type \<or> up_index v \<noteq> index) (ps_userptr_buffers s)\<rparr>"

partial_function (option) dequeue_output_loop ::
  "'vb v4l2r \<Rightarrow> ('dev, 'pol, 'w, 'vb, 'x) V4l2Host_scheme \<Rightarrow> QueueType \<Rightarrow> ('w, 'gm, 'm, 'vb) V4l2ProxyDevice \<Rightarrow>
   ('dev, 'pol, 'r) V4l2Session \<Rightarrow>
   (('w, 'gm, 'm, 'vb) V4l2ProxyDevice \<times> ('dev, 'pol, 'r) V4l2Session \<times> (i32 + unit)) option"
where
  "dequeue_output_loop K X queue d s =
     (case x_dqbuf X queue (ps_device s) (pd_os d) of
        (w', Inr buffer) \<Rightarrow>
          dequeue_output_loop K X queue
            (proxy_send (DequeueBuffer (DequeueBufferEvent_new (ps_id s) buffer)) (d\<lparr>pd_os := w'\<rparr>))
            (forget_userptrs (ps_output_queue_type s) (ucast (vb_index K buffer)) s)
      | (w', Inl e) \<Rightarrow>
          (case e of
             DqBufOther err \<Rightarrow> Some (send_error (ps_id s) err (d\<lparr>pd_os := w'\<rparr>), s, Inl err)
           | _ \<Rightarrow> Some (d\<lparr>pd_os := w'\<rparr>, s, Inr ())))"

definition dequeue_output_buffers ::
  "'vb v4l2r \<Rightarrow> ('dev, 'pol, 'w, 'vb, 'x) V4l2Host_scheme \<Rightarrow> ('w, 'gm, 'm, 'vb) V4l2ProxyDevice \<Rightarrow>
   ('dev, 'pol, 'r) V4l2Session \<Rightarrow>
   (('w, 'gm, 'm, 'vb) V4l2ProxyDevice \<times> ('dev, 'pol, 'r) V4l2Session \<times> (i32 + unit)) option"
where
  "dequeue_output_buffers K X d s =
     (case ps_output_queue_type s of
        None \<Rightarrow> Some (d, s, Inr ())
      | Some queue \<Rightarrow>
          if \<not> ps_output_streaming s \<or> ps_output_num_queued s = 0 then Some (d, s, Inr ())
          else dequeue_output_loop K X queue d s)"

text \<open>Turning the polling of CAPTURE buffers on and off; a failure is only logged.\<close>

definition set_capture_polling ::
  "('dev, 'pol, 'w, 'vb, 'x) V4l2Host_scheme \<Rightarrow> bool \<Rightarrow> ('w, 'gm, 'm, 'vb) V4l2ProxyDevice \<Rightarrow>
   ('dev, 'pol, 'r) V4l2Session \<Rightarrow> ('w, 'gm, 'm, 'vb) V4l2ProxyDevice \<times> ('dev, 'pol, 'r) V4l2Session"
where
  "set_capture_polling X on d s =
     (case (if on then enable_event X CaptureReady (ps_poller s) (pd_os d)
            else disable_event X CaptureReady (ps_poller s) (pd_os d)) of
        (w', pol', _) \<Rightarrow> (d\<lparr>pd_os := w'\<rparr>, s\<lparr>ps_poller := pol'\<rparr>))"

text \<open>The subtraction panics when no CAPTURE buffer is counted as queued.\<close>

definition dequeue_capture_buffer ::
  "bool \<Rightarrow> 'vb v4l2r \<Rightarrow> ('dev, 'pol, 'w, 'vb, 'x) V4l2Host_scheme \<Rightarrow> ('w, 'gm, 'm, 'vb) V4l2ProxyDevice \<Rightarrow>
   ('dev, 'pol, 'r) V4l2Session \<Rightarrow>
   (('w, 'gm, 'm, 'vb) V4l2ProxyDevice \<times> ('dev, 'pol, 'r) V4l2Session \<times> (i32 + unit)) option"
where
  "dequeue_capture_buffer chk K X d s =
     (case ps_capture_queue_type s of
        None \<Rightarrow> Some (d, s, Inr ())
      | Some queue \<Rightarrow>
          (case x_dqbuf X queue (ps_device s) (pd_os d) of
             (w', Inl e) \<Rightarrow>
               (case e of
                  DqBufOther err \<Rightarrow> Some (send_error (ps_id s) err (d\<lparr>pd_os := w'\<rparr>), s, Inl err)
                | _ \<Rightarrow> Some (d\<lparr>pd_os := w'\<rparr>, s, Inr ()))
           | (w', Inr v4l2_buffer) \<Rightarrow>
               (let s1 = forget_userptrs (ps_capture_queue_type s) (ucast (vb_index K v4l2_buffer)) s;
                    capture_polling_active = should_poll_capture s1
                in do {
                  num_queued \<leftarrow> sub_ov chk (ps_capture_num_queued s1) 1;
                  (let s2 = s1\<lparr>ps_capture_num_queued := num_queued\<rparr>;
                       (d3, s3) =
                         (if capture_polling_active \<and> num_queued = 0 \<or> vb_flags K v4l2_buffer AND BUF_LAST K = BUF_LAST K
                          then set_capture_polling X False (d\<lparr>pd_os := w'\<rparr>) s2 else (d\<lparr>pd_os := w'\<rparr>, s2))
                   in Some (proxy_send (DequeueBuffer (DequeueBufferEvent_new (ps_id s) v4l2_buffer)) d3, s3, Inr ()))
                })))"

section \<open>Ioctls on buffers\<close>

text \<open>The end of streaming on a queue, as \<open>STREAMOFF\<close> and \<open>REQBUFS(0)\<close> do it.\<close>

definition stop_queue ::
  "('dev, 'pol, 'w, 'vb, 'x) V4l2Host_scheme \<Rightarrow> QueueType \<Rightarrow> ('w, 'gm, 'm, 'vb) V4l2ProxyDevice \<Rightarrow>
   ('dev, 'pol, 'r) V4l2Session \<Rightarrow> ('w, 'gm, 'm, 'vb) V4l2ProxyDevice \<times> ('dev, 'pol, 'r) V4l2Session"
where
  "stop_queue X queue d s =
     (if is_capture queue then
        (let was_polling_capture = should_poll_capture s;
             s1 = s\<lparr>ps_capture_streaming := False, ps_capture_num_queued := 0\<rparr>
         in if was_polling_capture then set_capture_polling X False d s1 else (d, s1))
      else if is_output queue then (d, s\<lparr>ps_output_streaming := False, ps_output_num_queued := 0\<rparr>)
      else (d, s))"

definition proxy_reqbufs ::
  "bool \<Rightarrow> 'vb v4l2r \<Rightarrow> 'vb v4l2r_proxy \<Rightarrow> ('dev, 'pol, 'w, 'vb, 'x) V4l2Host_scheme \<Rightarrow> QueueType \<Rightarrow> MemoryType \<Rightarrow> u32 \<Rightarrow>
   MemoryConsistency \<Rightarrow> ('dev, 'pol, 'r, 'w, 'gm, 'm, 'vb, v4l2_requestbuffers) proxy_rw"
where
  "proxy_reqbufs chk K L X queue memory count flags d s =
     (case x_reqbufs X queue memory count flags (ps_device s) (pd_os d) of
        (w', Inl e) \<Rightarrow> Some (d\<lparr>pd_os := w'\<rparr>, s, Inl e)
      | (w', Inr reqbufs) \<Rightarrow>
          (let reqbufs = reqbufs\<lparr>reqbufs_capabilities := reqbufs_capabilities reqbufs AND NOT (SUPPORTS_REQUESTS L)\<rparr> in
           do {
             (d1, s1) \<leftarrow> update_mmap_offsets chk K L X queue 0 (reqbufs_count reqbufs) (d\<lparr>pd_os := w'\<rparr>) s;
             (let (d2, s2) = (if reqbufs_count reqbufs = 0 then stop_queue X queue d1 s1 else (d1, s1))
              in Some (d2, s2, Inr reqbufs))
           }))"

definition proxy_querybuf ::
  "'vb v4l2r_proxy \<Rightarrow> ('dev, 'pol, 'w, 'vb, 'x) V4l2Host_scheme \<Rightarrow> QueueType \<Rightarrow> u32 \<Rightarrow>
   ('dev, 'pol, 'r, 'w, 'gm, 'm, 'vb, 'vb) proxy_ro"
where
  "proxy_querybuf L X queue index d s =
     (case x_querybuf X queue (unat index) (ps_device s) (pd_os d) of
        (w', Inl e) \<Rightarrow> Some (d\<lparr>pd_os := w'\<rparr>, Inl e)
      | (w', Inr host_buffer) \<Rightarrow>
          Some (d\<lparr>pd_os := w'\<rparr>,
            case host_v4l2_buffer_to_guest L host_buffer (ps_userptr_buffers s) of
              None \<Rightarrow> Inl EINVAL
            | Some b \<Rightarrow> Inr b))"

definition proxy_streamon ::
  "('dev, 'pol, 'w, 'vb, 'x) V4l2Host_scheme \<Rightarrow> QueueType \<Rightarrow> ('dev, 'pol, 'r, 'w, 'gm, 'm, 'vb, unit) proxy_rw"
where
  "proxy_streamon X queue d s =
     (case x_streamon X queue (ps_device s) (pd_os d) of
        (w', Inl e) \<Rightarrow> Some (d\<lparr>pd_os := w'\<rparr>, s, Inl e)
      | (w', Inr _) \<Rightarrow>
          (let d = d\<lparr>pd_os := w'\<rparr>;
               (d', s') =
                 (if is_capture queue \<and> \<not> ps_capture_streaming s then
                    (let s1 = s\<lparr>ps_capture_streaming := True\<rparr> in
                     if should_poll_capture s1 then set_capture_polling X True d s1 else (d, s1))
                  else if is_output queue \<and> \<not> ps_output_streaming s then (d, s\<lparr>ps_output_streaming := True\<rparr>)
                  else (d, s))
           in Some (d', s', Inr ())))"

definition proxy_streamoff ::
  "('dev, 'pol, 'w, 'vb, 'x) V4l2Host_scheme \<Rightarrow> QueueType \<Rightarrow> ('dev, 'pol, 'r, 'w, 'gm, 'm, 'vb, unit) proxy_rw"
where
  "proxy_streamoff X queue d s =
     (case x_streamoff X queue (ps_device s) (pd_os d) of
        (w', Inl e) \<Rightarrow> Some (d\<lparr>pd_os := w'\<rparr>, s, Inl e)
      | (w', Inr _) \<Rightarrow>
          (let (d', s') = stop_queue X queue (d\<lparr>pd_os := w'\<rparr>) s in Some (d', s', Inr ())))"

text \<open>
  The part that \<open>QBUF\<close> and \<open>PREPARE_BUF\<close> share: the buffer is translated for the host and its
  addresses are registered, the host gets it, and the result is translated back.
\<close>

definition exchange_buffer ::
  "'vb v4l2r \<Rightarrow> 'vb v4l2r_proxy \<Rightarrow> ('w, 'gm, 'r) VirtioMediaGuestMemoryMapper \<Rightarrow> ('vb \<Rightarrow> ('dev, 'w, 'vb) host_ioctl) \<Rightarrow>
   'vb \<Rightarrow> SgEntry list list \<Rightarrow> ('w, 'gm, 'm, 'vb) V4l2ProxyDevice \<Rightarrow> ('dev, 'pol, 'r) V4l2Session \<Rightarrow>
   ('w, 'gm, 'm, 'vb) V4l2ProxyDevice \<times> ('dev, 'pol, 'r) V4l2Session \<times> 'vb IoctlResult"
where
  "exchange_buffer K L G host_call guest_buffer guest_regions d s =
     (case guest_v4l2_buffer_to_host K L G guest_buffer guest_regions (pd_mem d) (pd_os d) of
        (w1, None) \<Rightarrow> (d\<lparr>pd_os := w1\<rparr>, s, Inl EINVAL)
      | (w1, Some (host_buffer, guest_resources)) \<Rightarrow>
          (let s1 = register_userptr_addresses K L host_buffer guest_buffer guest_resources s in
           case host_call host_buffer (ps_device s1) w1 of
             (w2, Inl e) \<Rightarrow> (d\<lparr>pd_os := w2\<rparr>, s1, Inl e)
           | (w2, Inr host_out_buffer) \<Rightarrow>
               (d\<lparr>pd_os := w2\<rparr>, s1,
                case host_v4l2_buffer_to_guest L host_out_buffer (ps_userptr_buffers s1) of
                  None \<Rightarrow> Inl EINVAL
                | Some b \<Rightarrow> Inr b)))"

definition count_queued ::
  "bool \<Rightarrow> ('dev, 'pol, 'w, 'vb, 'x) V4l2Host_scheme \<Rightarrow> QueueType \<Rightarrow> ('w, 'gm, 'm, 'vb) V4l2ProxyDevice \<Rightarrow>
   ('dev, 'pol, 'r) V4l2Session \<Rightarrow> (('w, 'gm, 'm, 'vb) V4l2ProxyDevice \<times> ('dev, 'pol, 'r) V4l2Session) option"
where
  "count_queued chk X queue d s =
     (if is_capture queue then do {
        n \<leftarrow> add_ov chk (ps_capture_num_queued s) 1;
        (let s1 = s\<lparr>ps_capture_num_queued := n\<rparr> in
         Some (if \<not> should_poll_capture s \<and> should_poll_capture s1 then set_capture_polling X True d s1 else (d, s1)))
      }
      else if is_output queue then do {
        n \<leftarrow> add_ov chk (ps_output_num_queued s) 1;
        Some (d, s\<lparr>ps_output_num_queued := n\<rparr>)
      }
      else Some (d, s))"

text \<open>The result of the first step is ignored, but not that it may panic or not return.\<close>

definition proxy_qbuf ::
  "bool \<Rightarrow> 'vb v4l2r \<Rightarrow> 'vb v4l2r_proxy \<Rightarrow> ('dev, 'pol, 'w, 'vb, 'x) V4l2Host_scheme \<Rightarrow>
   ('w, 'gm, 'r) VirtioMediaGuestMemoryMapper \<Rightarrow> 'vb \<Rightarrow> SgEntry list list \<Rightarrow>
   ('dev, 'pol, 'r, 'w, 'gm, 'm, 'vb, 'vb) proxy_rw"
where
  "proxy_qbuf chk K L X G guest_buffer guest_regions d s = do {
     (d1, s1, _) \<leftarrow> dequeue_output_buffers K X d s;
     (case exchange_buffer K L G (x_qbuf X) guest_buffer guest_regions d1 s1 of
        (d2, s2, Inl e) \<Rightarrow> Some (d2, s2, Inl e)
      | (d2, s2, Inr out_buffer) \<Rightarrow>
          map_option (\<lambda>(d3, s3). (d3, s3, Inr out_buffer)) (count_queued chk X (vb_queue K guest_buffer) d2 s2))
   }"

definition proxy_prepare_buf ::
  "'vb v4l2r \<Rightarrow> 'vb v4l2r_proxy \<Rightarrow> ('dev, 'pol, 'w, 'vb, 'x) V4l2Host_scheme \<Rightarrow>
   ('w, 'gm, 'r) VirtioMediaGuestMemoryMapper \<Rightarrow> 'vb \<Rightarrow> SgEntry list list \<Rightarrow>
   ('dev, 'pol, 'r, 'w, 'gm, 'm, 'vb, 'vb) proxy_rw"
where
  "proxy_prepare_buf K L X G guest_buffer guest_regions d s =
     Some (exchange_buffer K L G (x_prepare_buf X) guest_buffer guest_regions d s)"

definition proxy_create_bufs ::
  "bool \<Rightarrow> 'vb v4l2r \<Rightarrow> 'vb v4l2r_proxy \<Rightarrow> ('dev, 'pol, 'w, 'vb, 'x) V4l2Host_scheme \<Rightarrow> u32 \<Rightarrow> QueueType \<Rightarrow> MemoryType \<Rightarrow>
   v4l2_format \<Rightarrow> ('dev, 'pol, 'r, 'w, 'gm, 'm, 'vb, v4l2_create_buffers) proxy_rw"
where
  "proxy_create_bufs chk K L X count queue memory format d s =
     (case x_create_bufs X count memory format (ps_device s) (pd_os d) of
        (w', Inl e) \<Rightarrow> Some (d\<lparr>pd_os := w'\<rparr>, s, Inl e)
      | (w', Inr create_bufs) \<Rightarrow>
          if count = 0 then Some (d\<lparr>pd_os := w'\<rparr>, s, Inr create_bufs)
          else do {
            past \<leftarrow> add_ov chk (create_index L create_bufs) (create_count create_bufs);
            (d', s') \<leftarrow> update_mmap_offsets chk K L X queue (create_index L create_bufs) past (d\<lparr>pd_os := w'\<rparr>) s;
            Some (d', s', Inr create_bufs)
          })"

section \<open>Ioctls on events\<close>

definition proxy_subscribe_event ::
  "'vb v4l2r_proxy \<Rightarrow> ('dev, 'pol, 'w, 'vb, 'x) V4l2Host_scheme \<Rightarrow> EventType \<Rightarrow> SubscribeEventFlags \<Rightarrow>
   ('dev, 'pol, 'r, 'w, 'gm, 'm, 'vb, unit) proxy_rw"
where
  "proxy_subscribe_event L X event flags d s =
     (case x_subscribe_event X event flags (ps_device s) (pd_os d) of
        (w', Inl e) \<Rightarrow> Some (d\<lparr>pd_os := w'\<rparr>, s, Inl e)
      | (w', Inr _) \<Rightarrow>
          if flags AND SEND_INITIAL L = SEND_INITIAL L
          then map_option (\<lambda>(d', _). (d', s, Inr ())) (dequeue_events X s (d\<lparr>pd_os := w'\<rparr>))
          else Some (d\<lparr>pd_os := w'\<rparr>, s, Inr ()))"

definition proxy_unsubscribe_event ::
  "'vb v4l2r \<Rightarrow> 'vb v4l2r_proxy \<Rightarrow> ('dev, 'pol, 'w, 'vb, 'x) V4l2Host_scheme \<Rightarrow> v4l2_event_subscription \<Rightarrow>
   ('dev, 'pol, 'r, 'w, 'gm, 'm, 'vb, unit) proxy_rw"
where
  "proxy_unsubscribe_event K L X event d s =
     (if subscription_type event = V4L2_EVENT_ALL L then
        (case x_unsubscribe_all_events X (ps_device s) (pd_os d) of (w', res) \<Rightarrow> Some (d\<lparr>pd_os := w'\<rparr>, s, res))
      else case EventType_try_from K event of
        None \<Rightarrow> Some (d, s, Inl EINVAL)
      | Some event' \<Rightarrow>
          (case x_unsubscribe_event X event' (ps_device s) (pd_os d) of (w', res) \<Rightarrow> Some (d\<lparr>pd_os := w'\<rparr>, s, res)))"

section \<open>Sessions, mappings and events\<close>

text \<open>An error number of the \<open>nix\<close> crate is its value.\<close>

definition proxy_new_session ::
  "('dev, 'pol, 'w, 'vb, 'x) V4l2Host_scheme \<Rightarrow> u32 \<Rightarrow> ('w, 'gm, 'm, 'vb) V4l2ProxyDevice \<Rightarrow>
   (('w, 'gm, 'm, 'vb) V4l2ProxyDevice \<times> (i32 + ('dev, 'pol, 'r) V4l2Session)) option"
where
  "proxy_new_session X session_id d =
     (case x_open X (pd_device_path d) (pd_os d) of
        (w1, Inl e) \<Rightarrow> Some (d\<lparr>pd_os := w1\<rparr>, Inl e)
      | (w1, Inr dev) \<Rightarrow>
          map_option (\<lambda>(w2, s). (d\<lparr>pd_os := w2\<rparr>, Inr s)) (V4l2Session_new X session_id dev w1))"

definition proxy_close_session ::
  "('dev, 'pol, 'r) V4l2Session \<Rightarrow> ('w, 'gm, 'm, 'vb) V4l2ProxyDevice \<Rightarrow> ('w, 'gm, 'm, 'vb) V4l2ProxyDevice option"
where
  "proxy_close_session s d = Some (delete_session s d)"

definition proxy_do_mmap ::
  "bool \<Rightarrow> ('dev, 'pol, 'w, 'vb, 'x) V4l2Host_scheme \<Rightarrow> 'm VirtioMediaHostMemoryMapper \<Rightarrow> u32 \<Rightarrow> u32 \<Rightarrow>
   ('dev, 'pol, 'r, 'w, 'gm, 'm, 'vb, u64 \<times> u64) proxy_rw"
where
  "proxy_do_mmap chk X hm flags offset d s =
     (let rw = flags AND VIRTIO_MEDIA_MMAP_FLAG_RW \<noteq> 0 in
      case map_of (pd_mmap_buffers d) offset of
        None \<Rightarrow> Some (d, s, Inl EINVAL)
      | Some plane_info \<Rightarrow>
          (case x_expbuf X (mp_queue plane_info) (unat (mp_index plane_info)) (unat (mp_plane plane_info)) rw
                  (ps_device s) (pd_os d) of
             (w', Inl e) \<Rightarrow> Some (d\<lparr>pd_os := w'\<rparr>, s, Inl e)
           | (w', Inr exported_fd) \<Rightarrow> do {
               (mgr, res) \<leftarrow> create_mapping chk hm (pd_mmap_manager d) offset exported_fd rw;
               (case res of
                  Inl _ \<Rightarrow> Some (d\<lparr>pd_os := w', pd_mmap_manager := mgr\<rparr>, s, Inl EINVAL)
                | Inr (mapping_addr, mapping_size) \<Rightarrow>
                    Some (d\<lparr>pd_os := w', pd_mmap_manager := mgr,
                             pd_mmap_buffers :=
                               bt_insert offset (plane_info\<lparr>mp_map_address := mapping_addr\<rparr>) (pd_mmap_buffers d)\<rparr>,
                          s, Inr (mapping_addr, mapping_size)))
             }))"

definition proxy_do_munmap ::
  "'m VirtioMediaHostMemoryMapper \<Rightarrow> u64 \<Rightarrow> ('w, 'gm, 'm, 'vb) V4l2ProxyDevice \<Rightarrow>
   (('w, 'gm, 'm, 'vb) V4l2ProxyDevice \<times> (i32 + unit)) option"
where
  "proxy_do_munmap hm addr d = do {
     (mgr, res) \<leftarrow> remove_mapping hm (pd_mmap_manager d) addr;
     Some (d\<lparr>pd_mmap_manager := mgr\<rparr>, map_sum (\<lambda>_. EINVAL) (\<lambda>_. ()) res)
   }"

text \<open>The loop over the events of the poller; the first error ends it.\<close>

fun handle_poll_events ::
  "bool \<Rightarrow> 'vb v4l2r \<Rightarrow> ('dev, 'pol, 'w, 'vb, 'x) V4l2Host_scheme \<Rightarrow> PollEvent list \<Rightarrow>
   ('dev, 'pol, 'r, 'w, 'gm, 'm, 'vb, unit) proxy_rw"
where
  "handle_poll_events chk K X [] d s = Some (d, s, Inr ())"
| "handle_poll_events chk K X (event # events) d s = do {
     (d1, s1, res) \<leftarrow>
       (case event of
          PollDevice CaptureReady \<Rightarrow> do {
            (d1, s1, res1) \<leftarrow> dequeue_capture_buffer chk K X d s;
            (case res1 of Inl e \<Rightarrow> Some (d1, s1, Inl e) | Inr _ \<Rightarrow> dequeue_output_buffers K X d1 s1)
          }
        | PollDevice V4L2Event \<Rightarrow> map_option (\<lambda>(d1, res1). (d1, s, res1)) (dequeue_events X s d)
        | PollOther _ \<Rightarrow> None);
     (case res of Inl e \<Rightarrow> Some (d1, s1, Inl e) | Inr _ \<Rightarrow> handle_poll_events chk K X events d1 s1)
   }"

definition proxy_process_events ::
  "bool \<Rightarrow> 'vb v4l2r \<Rightarrow> ('dev, 'pol, 'w, 'vb, 'x) V4l2Host_scheme \<Rightarrow>
   ('dev, 'pol, 'r, 'w, 'gm, 'm, 'vb, unit) proxy_rw"
where
  "proxy_process_events chk K X d s =
     (case poll X (ps_poller s) (pd_os d) of
        (w', pol', None) \<Rightarrow> Some (d\<lparr>pd_os := w'\<rparr>, s\<lparr>ps_poller := pol'\<rparr>, Inl EIO)
      | (w', pol', Some events) \<Rightarrow> handle_poll_events chk K X events (d\<lparr>pd_os := w'\<rparr>) (s\<lparr>ps_poller := pol'\<rparr>))"

end
