(* ===== verification/Proxy_Ioctls.thy ===== *)
theory Proxy_Ioctls
  imports Proxy_Device
begin

text \<open>
  The ioctls that the proxy of host V4L2 devices passes on to the host without any state of its own,
  and the proxy as a handler of ioctls and as a device. Every method hands its arguments to the ioctl
  of the same name on the host device of the session and returns the result, or the number of the
  error.
\<close>

section \<open>The ioctls of the host\<close>

record ('dev, 'pol, 'w, 'vb) V4l2HostIoctls = "('dev, 'pol, 'w, 'vb) V4l2Host" +
  x_enum_fmt :: "QueueType \<Rightarrow> u32 \<Rightarrow> ('dev, 'w, v4l2_fmtdesc) host_ioctl"
  x_g_fmt :: "QueueType \<Rightarrow> ('dev, 'w, v4l2_format) host_ioctl"
  x_s_fmt :: "v4l2_format \<Rightarrow> ('dev, 'w, v4l2_format) host_ioctl"
  x_g_parm :: "QueueType \<Rightarrow> ('dev, 'w, v4l2_streamparm) host_ioctl"
  x_s_parm :: "v4l2_streamparm \<Rightarrow> ('dev, 'w, v4l2_streamparm) host_ioctl"
  x_g_std :: "('dev, 'w, v4l2_std_id) host_ioctl"
  x_s_std :: "v4l2_std_id \<Rightarrow> ('dev, 'w, unit) host_ioctl"
  x_enumstd :: "u32 \<Rightarrow> ('dev, 'w, v4l2_standard) host_ioctl"
  x_enuminput :: "nat \<Rightarrow> ('dev, 'w, v4l2_input) host_ioctl"
  x_g_tuner :: "u32 \<Rightarrow> ('dev, 'w, v4l2_tuner) host_ioctl"
  x_s_tuner :: "u32 \<Rightarrow> TunerMode \<Rightarrow> ('dev, 'w, unit) host_ioctl"
  x_g_audio :: "('dev, 'w, v4l2_audio) host_ioctl"
  x_s_audio :: "u32 \<Rightarrow> AudioMode option \<Rightarrow> ('dev, 'w, unit) host_ioctl"
  x_queryctrl :: "CtrlId \<Rightarrow> QueryCtrlFlags \<Rightarrow> ('dev, 'w, v4l2_queryctrl) host_ioctl"
  x_querymenu :: "u32 \<Rightarrow> u32 \<Rightarrow> ('dev, 'w, v4l2_querymenu) host_ioctl"
  x_enumoutput :: "nat \<Rightarrow> ('dev, 'w, v4l2_output) host_ioctl"
  x_g_audout :: "('dev, 'w, v4l2_audioout) host_ioctl"
  x_s_audout :: "u32 \<Rightarrow> ('dev, 'w, unit) host_ioctl"
  x_g_modulator :: "u32 \<Rightarrow> ('dev, 'w, v4l2_modulator) host_ioctl"
  x_s_modulator :: "u32 \<Rightarrow> TunerTransmissionFlags \<Rightarrow> ('dev, 'w, unit) host_ioctl"
  x_g_frequency :: "u32 \<Rightarrow> ('dev, 'w, v4l2_frequency) host_ioctl"
  x_s_frequency :: "u32 \<Rightarrow> TunerType \<Rightarrow> u32 \<Rightarrow> ('dev, 'w, unit) host_ioctl"
  x_querystd :: "('dev, 'w, v4l2_std_id) host_ioctl"
  x_try_fmt :: "v4l2_format \<Rightarrow> ('dev, 'w, v4l2_format) host_ioctl"
  x_enumaudio :: "u32 \<Rightarrow> ('dev, 'w, v4l2_audio) host_ioctl"
  x_enumaudout :: "u32 \<Rightarrow> ('dev, 'w, v4l2_audioout) host_ioctl"
  x_enum_framesizes :: "u32 \<Rightarrow> u32 \<Rightarrow> ('dev, 'w, v4l2_frmsizeenum) host_ioctl"
  x_enum_frameintervals :: "u32 \<Rightarrow> u32 \<Rightarrow> u32 \<Rightarrow> u32 \<Rightarrow> ('dev, 'w, v4l2_frmivalenum) host_ioctl"
  x_g_enc_index :: "('dev, 'w, v4l2_enc_idx) host_ioctl"
  x_encoder_cmd :: "v4l2_encoder_cmd \<Rightarrow> ('dev, 'w, v4l2_encoder_cmd) host_ioctl"
  x_try_encoder_cmd :: "v4l2_encoder_cmd \<Rightarrow> ('dev, 'w, v4l2_encoder_cmd) host_ioctl"
  x_s_dv_timings :: "v4l2_dv_timings \<Rightarrow> ('dev, 'w, v4l2_dv_timings) host_ioctl"
  x_g_dv_timings :: "('dev, 'w, v4l2_dv_timings) host_ioctl"
  x_g_selection :: "SelectionType \<Rightarrow> SelectionTarget \<Rightarrow> ('dev, 'w, v4l2_rect) host_ioctl"
  x_s_selection :: "SelectionType \<Rightarrow> SelectionTarget \<Rightarrow> v4l2_rect \<Rightarrow> SelectionFlags \<Rightarrow> ('dev, 'w, v4l2_rect) host_ioctl"
  x_decoder_cmd :: "v4l2_decoder_cmd \<Rightarrow> ('dev, 'w, v4l2_decoder_cmd) host_ioctl"
  x_try_decoder_cmd :: "v4l2_decoder_cmd \<Rightarrow> ('dev, 'w, v4l2_decoder_cmd) host_ioctl"
  x_enum_dv_timings :: "u32 \<Rightarrow> ('dev, 'w, v4l2_dv_timings) host_ioctl"
  x_query_dv_timings :: "('dev, 'w, v4l2_dv_timings) host_ioctl"
  x_dv_timings_cap :: "('dev, 'w, v4l2_dv_timings_cap) host_ioctl"
  x_enum_freq_bands :: "u32 \<Rightarrow> TunerType \<Rightarrow> u32 \<Rightarrow> ('dev, 'w, v4l2_frequency_band) host_ioctl"
  x_query_ext_ctrl :: "CtrlId \<Rightarrow> QueryCtrlFlags \<Rightarrow> ('dev, 'w, v4l2_query_ext_ctrl) host_ioctl"
  x_g_ctrl :: "u32 \<Rightarrow> ('dev, 'w, i32) host_ioctl"
  x_s_ctrl :: "u32 \<Rightarrow> i32 \<Rightarrow> ('dev, 'w, i32) host_ioctl"
  x_g_input :: "('dev, 'w, u64) host_ioctl"
  x_s_input :: "u64 \<Rightarrow> ('dev, 'w, u64) host_ioctl"
  x_g_output :: "('dev, 'w, u64) host_ioctl"
  x_s_output :: "u64 \<Rightarrow> ('dev, 'w, unit) host_ioctl"

section \<open>Passing on\<close>

definition pass_ro :: "('dev, 'w, 'a) host_ioctl \<Rightarrow> ('dev, 'pol, 'r, 'w, 'gm, 'm, 'vb, 'a) proxy_ro" where
  "pass_ro f d s = (case f (ps_device s) (pd_os d) of (w', res) \<Rightarrow> Some (d\<lparr>pd_os := w'\<rparr>, res))"

definition pass_rw :: "('dev, 'w, 'a) host_ioctl \<Rightarrow> ('dev, 'pol, 'r, 'w, 'gm, 'm, 'vb, 'a) proxy_rw" where
  "pass_rw f d s = (case f (ps_device s) (pd_os d) of (w', res) \<Rightarrow> Some (d\<lparr>pd_os := w'\<rparr>, s, res))"

text \<open>The two methods that share the device only query the host, which they leave as it is.\<close>

definition pass_ref :: "('dev, 'w, 'a) host_ioctl \<Rightarrow> ('dev, 'pol, 'r, 'w, 'gm, 'm, 'vb, 'a) proxy_ref" where
  "pass_ref f d s = Some (snd (f (ps_device s) (pd_os d)))"

definition map_host :: "('a \<Rightarrow> 'b) \<Rightarrow> ('dev, 'w, 'a) host_ioctl \<Rightarrow> ('dev, 'w, 'b) host_ioctl" where
  "map_host g f dev w = (case f dev w of (w', res) \<Rightarrow> (w', map_sum id g res))"

definition proxy_enum_fmt :: "('dev, 'pol, 'w, 'vb) V4l2HostIoctls \<Rightarrow> QueueType \<Rightarrow> u32 \<Rightarrow> ('dev, 'pol, 'r, 'w, 'gm, 'm, 'vb, v4l2_fmtdesc) proxy_ro" where
  "proxy_enum_fmt X a b = pass_ro (x_enum_fmt X a b)"

definition proxy_g_fmt :: "('dev, 'pol, 'w, 'vb) V4l2HostIoctls \<Rightarrow> QueueType \<Rightarrow> ('dev, 'pol, 'r, 'w, 'gm, 'm, 'vb, v4l2_format) proxy_ro" where
  "proxy_g_fmt X a = pass_ro (x_g_fmt X a)"

definition proxy_s_fmt :: "('dev, 'pol, 'w, 'vb) V4l2HostIoctls \<Rightarrow> QueueType \<Rightarrow> v4l2_format \<Rightarrow> ('dev, 'pol, 'r, 'w, 'gm, 'm, 'vb, v4l2_format) proxy_rw" where
  "proxy_s_fmt X queue format = pass_rw (x_s_fmt X format)"

definition proxy_g_parm :: "('dev, 'pol, 'w, 'vb) V4l2HostIoctls \<Rightarrow> QueueType \<Rightarrow> ('dev, 'pol, 'r, 'w, 'gm, 'm, 'vb, v4l2_streamparm) proxy_ro" where
  "proxy_g_parm X a = pass_ro (x_g_parm X a)"

definition proxy_s_parm :: "('dev, 'pol, 'w, 'vb) V4l2HostIoctls \<Rightarrow> v4l2_streamparm \<Rightarrow> ('dev, 'pol, 'r, 'w, 'gm, 'm, 'vb, v4l2_streamparm) proxy_rw" where
  "proxy_s_parm X a = pass_rw (x_s_parm X a)"

definition proxy_g_std :: "('dev, 'pol, 'w, 'vb) V4l2HostIoctls \<Rightarrow> ('dev, 'pol, 'r, 'w, 'gm, 'm, 'vb, v4l2_std_id) proxy_ro" where
  "proxy_g_std X = pass_ro (x_g_std X)"

definition proxy_s_std :: "('dev, 'pol, 'w, 'vb) V4l2HostIoctls \<Rightarrow> v4l2_std_id \<Rightarrow> ('dev, 'pol, 'r, 'w, 'gm, 'm, 'vb, unit) proxy_rw" where
  "proxy_s_std X a = pass_rw (x_s_std X a)"

definition proxy_enumstd :: "('dev, 'pol, 'w, 'vb) V4l2HostIoctls \<Rightarrow> u32 \<Rightarrow> ('dev, 'pol, 'r, 'w, 'gm, 'm, 'vb, v4l2_standard) proxy_ro" where
  "proxy_enumstd X a = pass_ro (x_enumstd X a)"

definition proxy_enuminput :: "('dev, 'pol, 'w, 'vb) V4l2HostIoctls \<Rightarrow> u32 \<Rightarrow> ('dev, 'pol, 'r, 'w, 'gm, 'm, 'vb, v4l2_input) proxy_ro" where
  "proxy_enuminput X index = pass_ro (x_enuminput X (unat index))"

definition proxy_g_tuner :: "('dev, 'pol, 'w, 'vb) V4l2HostIoctls \<Rightarrow> u32 \<Rightarrow> ('dev, 'pol, 'r, 'w, 'gm, 'm, 'vb, v4l2_tuner) proxy_ro" where
  "proxy_g_tuner X a = pass_ro (x_g_tuner X a)"

definition proxy_s_tuner :: "('dev, 'pol, 'w, 'vb) V4l2HostIoctls \<Rightarrow> u32 \<Rightarrow> TunerMode \<Rightarrow> ('dev, 'pol, 'r, 'w, 'gm, 'm, 'vb, unit) proxy_rw" where
  "proxy_s_tuner X a b = pass_rw (x_s_tuner X a b)"

definition proxy_g_audio :: "('dev, 'pol, 'w, 'vb) V4l2HostIoctls \<Rightarrow> ('dev, 'pol, 'r, 'w, 'gm, 'm, 'vb, v4l2_audio) proxy_ro" where
  "proxy_g_audio X = pass_ro (x_g_audio X)"

definition proxy_s_audio :: "('dev, 'pol, 'w, 'vb) V4l2HostIoctls \<Rightarrow> u32 \<Rightarrow> AudioMode option \<Rightarrow> ('dev, 'pol, 'r, 'w, 'gm, 'm, 'vb, unit) proxy_rw" where
  "proxy_s_audio X a b = pass_rw (x_s_audio X a b)"

definition proxy_queryctrl :: "('dev, 'pol, 'w, 'vb) V4l2HostIoctls \<Rightarrow> CtrlId \<Rightarrow> QueryCtrlFlags \<Rightarrow> ('dev, 'pol, 'r, 'w, 'gm, 'm, 'vb, v4l2_queryctrl) proxy_ro" where
  "proxy_queryctrl X a b = pass_ro (x_queryctrl X a b)"

definition proxy_querymenu :: "('dev, 'pol, 'w, 'vb) V4l2HostIoctls \<Rightarrow> u32 \<Rightarrow> u32 \<Rightarrow> ('dev, 'pol, 'r, 'w, 'gm, 'm, 'vb, v4l2_querymenu) proxy_ro" where
  "proxy_querymenu X a b = pass_ro (x_querymenu X a b)"

definition proxy_enumoutput :: "('dev, 'pol, 'w, 'vb) V4l2HostIoctls \<Rightarrow> u32 \<Rightarrow> ('dev, 'pol, 'r, 'w, 'gm, 'm, 'vb, v4l2_output) proxy_ro" where
  "proxy_enumoutput X index = pass_ro (x_enumoutput X (unat index))"

definition proxy_g_audout :: "('dev, 'pol, 'w, 'vb) V4l2HostIoctls \<Rightarrow> ('dev, 'pol, 'r, 'w, 'gm, 'm, 'vb, v4l2_audioout) proxy_ro" where
  "proxy_g_audout X = pass_ro (x_g_audout X)"

definition proxy_s_audout :: "('dev, 'pol, 'w, 'vb) V4l2HostIoctls \<Rightarrow> u32 \<Rightarrow> ('dev, 'pol, 'r, 'w, 'gm, 'm, 'vb, unit) proxy_rw" where
  "proxy_s_audout X a = pass_rw (x_s_audout X a)"

definition proxy_g_modulator :: "('dev, 'pol, 'w, 'vb) V4l2HostIoctls \<Rightarrow> u32 \<Rightarrow> ('dev, 'pol, 'r, 'w, 'gm, 'm, 'vb, v4l2_modulator) proxy_ro" where
  "proxy_g_modulator X a = pass_ro (x_g_modulator X a)"

definition proxy_s_modulator :: "('dev, 'pol, 'w, 'vb) V4l2HostIoctls \<Rightarrow> u32 \<Rightarrow> TunerTransmissionFlags \<Rightarrow> ('dev, 'pol, 'r, 'w, 'gm, 'm, 'vb, unit) proxy_rw" where
  "proxy_s_modulator X a b = pass_rw (x_s_modulator X a b)"

definition proxy_g_frequency :: "('dev, 'pol, 'w, 'vb) V4l2HostIoctls \<Rightarrow> u32 \<Rightarrow> ('dev, 'pol, 'r, 'w, 'gm, 'm, 'vb, v4l2_frequency) proxy_ro" where
  "proxy_g_frequency X a = pass_ro (x_g_frequency X a)"

definition proxy_s_frequency :: "('dev, 'pol, 'w, 'vb) V4l2HostIoctls \<Rightarrow> u32 \<Rightarrow> TunerType \<Rightarrow> u32 \<Rightarrow> ('dev, 'pol, 'r, 'w, 'gm, 'm, 'vb, unit) proxy_rw" where
  "proxy_s_frequency X a b c = pass_rw (x_s_frequency X a b c)"

definition proxy_querystd :: "('dev, 'pol, 'w, 'vb) V4l2HostIoctls \<Rightarrow> ('dev, 'pol, 'r, 'w, 'gm, 'm, 'vb, v4l2_std_id) proxy_ro" where
  "proxy_querystd X = pass_ro (x_querystd X)"

definition proxy_try_fmt :: "('dev, 'pol, 'w, 'vb) V4l2HostIoctls \<Rightarrow> QueueType \<Rightarrow> v4l2_format \<Rightarrow> ('dev, 'pol, 'r, 'w, 'gm, 'm, 'vb, v4l2_format) proxy_ro" where
  "proxy_try_fmt X queue format = pass_ro (x_try_fmt X format)"

definition proxy_enumaudio :: "('dev, 'pol, 'w, 'vb) V4l2HostIoctls \<Rightarrow> u32 \<Rightarrow> ('dev, 'pol, 'r, 'w, 'gm, 'm, 'vb, v4l2_audio) proxy_ro" where
  "proxy_enumaudio X a = pass_ro (x_enumaudio X a)"

definition proxy_enumaudout :: "('dev, 'pol, 'w, 'vb) V4l2HostIoctls \<Rightarrow> u32 \<Rightarrow> ('dev, 'pol, 'r, 'w, 'gm, 'm, 'vb, v4l2_audioout) proxy_ro" where
  "proxy_enumaudout X a = pass_ro (x_enumaudout X a)"

definition proxy_enum_framesizes :: "('dev, 'pol, 'w, 'vb) V4l2HostIoctls \<Rightarrow> u32 \<Rightarrow> u32 \<Rightarrow> ('dev, 'pol, 'r, 'w, 'gm, 'm, 'vb, v4l2_frmsizeenum) proxy_ro" where
  "proxy_enum_framesizes X a b = pass_ro (x_enum_framesizes X a b)"

definition proxy_enum_frameintervals :: "('dev, 'pol, 'w, 'vb) V4l2HostIoctls \<Rightarrow> u32 \<Rightarrow> u32 \<Rightarrow> u32 \<Rightarrow> u32 \<Rightarrow> ('dev, 'pol, 'r, 'w, 'gm, 'm, 'vb, v4l2_frmivalenum) proxy_ro" where
  "proxy_enum_frameintervals X a b c e = pass_ro (x_enum_frameintervals X a b c e)"

definition proxy_g_enc_index :: "('dev, 'pol, 'w, 'vb) V4l2HostIoctls \<Rightarrow> ('dev, 'pol, 'r, 'w, 'gm, 'm, 'vb, v4l2_enc_idx) proxy_ro" where
  "proxy_g_enc_index X = pass_ro (x_g_enc_index X)"

definition proxy_encoder_cmd :: "('dev, 'pol, 'w, 'vb) V4l2HostIoctls \<Rightarrow> v4l2_encoder_cmd \<Rightarrow> ('dev, 'pol, 'r, 'w, 'gm, 'm, 'vb, v4l2_encoder_cmd) proxy_rw" where
  "proxy_encoder_cmd X a = pass_rw (x_encoder_cmd X a)"

definition proxy_try_encoder_cmd :: "('dev, 'pol, 'w, 'vb) V4l2HostIoctls \<Rightarrow> v4l2_encoder_cmd \<Rightarrow> ('dev, 'pol, 'r, 'w, 'gm, 'm, 'vb, v4l2_encoder_cmd) proxy_ro" where
  "proxy_try_encoder_cmd X a = pass_ro (x_try_encoder_cmd X a)"

definition proxy_s_dv_timings :: "('dev, 'pol, 'w, 'vb) V4l2HostIoctls \<Rightarrow> v4l2_dv_timings \<Rightarrow> ('dev, 'pol, 'r, 'w, 'gm, 'm, 'vb, v4l2_dv_timings) proxy_rw" where
  "proxy_s_dv_timings X a = pass_rw (x_s_dv_timings X a)"

definition proxy_g_dv_timings :: "('dev, 'pol, 'w, 'vb) V4l2HostIoctls \<Rightarrow> ('dev, 'pol, 'r, 'w, 'gm, 'm, 'vb, v4l2_dv_timings) proxy_ro" where
  "proxy_g_dv_timings X = pass_ro (x_g_dv_timings X)"

definition proxy_g_selection :: "('dev, 'pol, 'w, 'vb) V4l2HostIoctls \<Rightarrow> SelectionType \<Rightarrow> SelectionTarget \<Rightarrow> ('dev, 'pol, 'r, 'w, 'gm, 'm, 'vb, v4l2_rect) proxy_ro" where
  "proxy_g_selection X a b = pass_ro (x_g_selection X a b)"

definition proxy_s_selection :: "('dev, 'pol, 'w, 'vb) V4l2HostIoctls \<Rightarrow> SelectionType \<Rightarrow> SelectionTarget \<Rightarrow> v4l2_rect \<Rightarrow> SelectionFlags \<Rightarrow> ('dev, 'pol, 'r, 'w, 'gm, 'm, 'vb, v4l2_rect) proxy_rw" where
  "proxy_s_selection X a b c e = pass_rw (x_s_selection X a b c e)"

definition proxy_decoder_cmd :: "('dev, 'pol, 'w, 'vb) V4l2HostIoctls \<Rightarrow> v4l2_decoder_cmd \<Rightarrow> ('dev, 'pol, 'r, 'w, 'gm, 'm, 'vb, v4l2_decoder_cmd) proxy_rw" where
  "proxy_decoder_cmd X a = pass_rw (x_decoder_cmd X a)"

definition proxy_try_decoder_cmd :: "('dev, 'pol, 'w, 'vb) V4l2HostIoctls \<Rightarrow> v4l2_decoder_cmd \<Rightarrow> ('dev, 'pol, 'r, 'w, 'gm, 'm, 'vb, v4l2_decoder_cmd) proxy_ro" where
  "proxy_try_decoder_cmd X a = pass_ro (x_try_decoder_cmd X a)"

definition proxy_enum_dv_timings :: "('dev, 'pol, 'w, 'vb) V4l2HostIoctls \<Rightarrow> u32 \<Rightarrow> ('dev, 'pol, 'r, 'w, 'gm, 'm, 'vb, v4l2_dv_timings) proxy_ro" where
  "proxy_enum_dv_timings X a = pass_ro (x_enum_dv_timings X a)"

definition proxy_query_dv_timings :: "('dev, 'pol, 'w, 'vb) V4l2HostIoctls \<Rightarrow> ('dev, 'pol, 'r, 'w, 'gm, 'm, 'vb, v4l2_dv_timings) proxy_ro" where
  "proxy_query_dv_timings X = pass_ro (x_query_dv_timings X)"

definition proxy_dv_timings_cap :: "('dev, 'pol, 'w, 'vb) V4l2HostIoctls \<Rightarrow> ('dev, 'pol, 'r, 'w, 'gm, 'm, 'vb, v4l2_dv_timings_cap) proxy_ref" where
  "proxy_dv_timings_cap X = pass_ref (x_dv_timings_cap X)"

definition proxy_enum_freq_bands :: "('dev, 'pol, 'w, 'vb) V4l2HostIoctls \<Rightarrow> u32 \<Rightarrow> TunerType \<Rightarrow> u32 \<Rightarrow> ('dev, 'pol, 'r, 'w, 'gm, 'm, 'vb, v4l2_frequency_band) proxy_ref" where
  "proxy_enum_freq_bands X a b c = pass_ref (x_enum_freq_bands X a b c)"

definition proxy_query_ext_ctrl :: "('dev, 'pol, 'w, 'vb) V4l2HostIoctls \<Rightarrow> CtrlId \<Rightarrow> QueryCtrlFlags \<Rightarrow> ('dev, 'pol, 'r, 'w, 'gm, 'm, 'vb, v4l2_query_ext_ctrl) proxy_ro" where
  "proxy_query_ext_ctrl X a b = pass_ro (x_query_ext_ctrl X a b)"

text \<open>The ones that convert their argument or their result; \<open>as usize\<close> extends the sign of an \<open>i32\<close>.\<close>

definition proxy_g_ctrl :: "('dev, 'pol, 'w, 'vb) V4l2HostIoctls \<Rightarrow> u32 \<Rightarrow> ('dev, 'pol, 'r, 'w, 'gm, 'm, 'vb, v4l2_control) proxy_ro" where
  "proxy_g_ctrl X i = pass_ro (map_host (\<lambda>value. \<lparr>control_id = i, control_value = value\<rparr>) (x_g_ctrl X i))"

definition proxy_s_ctrl ::
  "('dev, 'pol, 'w, 'vb) V4l2HostIoctls \<Rightarrow> u32 \<Rightarrow> i32 \<Rightarrow> ('dev, 'pol, 'r, 'w, 'gm, 'm, 'vb, v4l2_control) proxy_rw"
where
  "proxy_s_ctrl X i value = pass_rw (map_host (\<lambda>value'. \<lparr>control_id = i, control_value = value'\<rparr>) (x_s_ctrl X i value))"

definition proxy_g_input :: "('dev, 'pol, 'w, 'vb) V4l2HostIoctls \<Rightarrow> ('dev, 'pol, 'r, 'w, 'gm, 'm, 'vb, i32) proxy_ro" where
  "proxy_g_input X = pass_ro (map_host ucast (x_g_input X))"

definition proxy_s_input :: "('dev, 'pol, 'w, 'vb) V4l2HostIoctls \<Rightarrow> i32 \<Rightarrow> ('dev, 'pol, 'r, 'w, 'gm, 'm, 'vb, i32) proxy_rw" where
  "proxy_s_input X input = pass_rw (map_host ucast (x_s_input X (scast input)))"

definition proxy_g_output :: "('dev, 'pol, 'w, 'vb) V4l2HostIoctls \<Rightarrow> ('dev, 'pol, 'r, 'w, 'gm, 'm, 'vb, i32) proxy_ro" where
  "proxy_g_output X = pass_ro (map_host ucast (x_g_output X))"

definition proxy_s_output :: "('dev, 'pol, 'w, 'vb) V4l2HostIoctls \<Rightarrow> i32 \<Rightarrow> ('dev, 'pol, 'r, 'w, 'gm, 'm, 'vb, i32) proxy_rw" where
  "proxy_s_output X output = pass_rw (map_host (\<lambda>_. output) (x_s_output X (scast output)))"

section \<open>Extended controls\<close>

text \<open>The error of the host is returned as its number.\<close>

definition proxy_ext_ctrls ::
  "'vb v4l2r_proxy \<Rightarrow> ('dev, 'pol, 'w, 'vb) V4l2HostIoctls \<Rightarrow> ('w, 'gm, 'r) VirtioMediaGuestMemoryMapper \<Rightarrow> ExtCtrlIoctl \<Rightarrow>
   CtrlWhich \<Rightarrow> v4l2_ext_controls \<Rightarrow> v4l2_ext_control list \<Rightarrow> SgEntry list list \<Rightarrow>
   (('w, 'gm, 'm, 'vb) V4l2ProxyDevice, ('dev, 'pol, 'r) V4l2Session) ro_ctrls_method"
where
  "proxy_ext_ctrls L X G ioctl which ctrls ctrl_array user_regions d s =
     map_option (\<lambda>(w', res). (d\<lparr>pd_os := w'\<rparr>, res))
       (perform_ext_ctrls_ioctl L X G ioctl (ps_device s) (pd_mem d) which ctrls ctrl_array user_regions (pd_os d))"

definition proxy_g_ext_ctrls ::
  "'vb v4l2r_proxy \<Rightarrow> ('dev, 'pol, 'w, 'vb) V4l2HostIoctls \<Rightarrow> ('w, 'gm, 'r) VirtioMediaGuestMemoryMapper \<Rightarrow>
   CtrlWhich \<Rightarrow> v4l2_ext_controls \<Rightarrow> v4l2_ext_control list \<Rightarrow> SgEntry list list \<Rightarrow>
   (('w, 'gm, 'm, 'vb) V4l2ProxyDevice, ('dev, 'pol, 'r) V4l2Session) ro_ctrls_method"
where
  "proxy_g_ext_ctrls L X G = proxy_ext_ctrls L X G ExtGet"

definition proxy_s_ext_ctrls ::
  "'vb v4l2r_proxy \<Rightarrow> ('dev, 'pol, 'w, 'vb) V4l2HostIoctls \<Rightarrow> ('w, 'gm, 'r) VirtioMediaGuestMemoryMapper \<Rightarrow>
   CtrlWhich \<Rightarrow> v4l2_ext_controls \<Rightarrow> v4l2_ext_control list \<Rightarrow> SgEntry list list \<Rightarrow>
   (('w, 'gm, 'm, 'vb) V4l2ProxyDevice, ('dev, 'pol, 'r) V4l2Session) rw_ctrls_method"
where
  "proxy_s_ext_ctrls L X G which ctrls ctrl_array user_regions d s =
     map_option (\<lambda>(d', res). (d', s, res)) (proxy_ext_ctrls L X G ExtSet which ctrls ctrl_array user_regions d s)"

definition proxy_try_ext_ctrls ::
  "'vb v4l2r_proxy \<Rightarrow> ('dev, 'pol, 'w, 'vb) V4l2HostIoctls \<Rightarrow> ('w, 'gm, 'r) VirtioMediaGuestMemoryMapper \<Rightarrow>
   CtrlWhich \<Rightarrow> v4l2_ext_controls \<Rightarrow> v4l2_ext_control list \<Rightarrow> SgEntry list list \<Rightarrow>
   (('w, 'gm, 'm, 'vb) V4l2ProxyDevice, ('dev, 'pol, 'r) V4l2Session) ro_ctrls_method"
where
  "proxy_try_ext_ctrls L X G = proxy_ext_ctrls L X G ExtTry"

section \<open>The device\<close>

definition proxy_handler ::
  "bool \<Rightarrow> 'vb v4l2r \<Rightarrow> 'vb v4l2r_proxy \<Rightarrow> ('dev, 'pol, 'w, 'vb) V4l2HostIoctls \<Rightarrow>
   ('w, 'gm, 'r) VirtioMediaGuestMemoryMapper \<Rightarrow>
   (('w, 'gm, 'm, 'vb) V4l2ProxyDevice, ('dev, 'pol, 'r) V4l2Session, 'vb) VirtioMediaIoctlHandler"
where
  "proxy_handler chk K L X G = default_handler
     \<lparr>h_enum_fmt := proxy_enum_fmt X,
      h_g_fmt := proxy_g_fmt X,
      h_s_fmt := proxy_s_fmt X,
      h_g_parm := proxy_g_parm X,
      h_s_parm := proxy_s_parm X,
      h_g_std := proxy_g_std X,
      h_s_std := proxy_s_std X,
      h_enumstd := proxy_enumstd X,
      h_enuminput := proxy_enuminput X,
      h_g_tuner := proxy_g_tuner X,
      h_s_tuner := proxy_s_tuner X,
      h_g_audio := proxy_g_audio X,
      h_s_audio := proxy_s_audio X,
      h_queryctrl := proxy_queryctrl X,
      h_querymenu := proxy_querymenu X,
      h_enumoutput := proxy_enumoutput X,
      h_g_audout := proxy_g_audout X,
      h_s_audout := proxy_s_audout X,
      h_g_modulator := proxy_g_modulator X,
      h_s_modulator := proxy_s_modulator X,
      h_g_frequency := proxy_g_frequency X,
      h_s_frequency := proxy_s_frequency X,
      h_querystd := proxy_querystd X,
      h_try_fmt := proxy_try_fmt X,
      h_enumaudio := proxy_enumaudio X,
      h_enumaudout := proxy_enumaudout X,
      h_enum_framesizes := proxy_enum_framesizes X,
      h_enum_frameintervals := proxy_enum_frameintervals X,
      h_g_enc_index := proxy_g_enc_index X,
      h_encoder_cmd := proxy_encoder_cmd X,
      h_try_encoder_cmd := proxy_try_encoder_cmd X,
      h_s_dv_timings := proxy_s_dv_timings X,
      h_g_dv_timings := proxy_g_dv_timings X,
      h_g_selection := proxy_g_selection X,
      h_s_selection := proxy_s_selection X,
      h_decoder_cmd := proxy_decoder_cmd X,
      h_try_decoder_cmd := proxy_try_decoder_cmd X,
      h_enum_dv_timings := proxy_enum_dv_timings X,
      h_query_dv_timings := proxy_query_dv_timings X,
      h_dv_timings_cap := proxy_dv_timings_cap X,
      h_enum_freq_bands := proxy_enum_freq_bands X,
      h_query_ext_ctrl := proxy_query_ext_ctrl X,
      h_g_ctrl := proxy_g_ctrl X, h_s_ctrl := proxy_s_ctrl X, h_g_input := proxy_g_input X,
      h_s_input := proxy_s_input X, h_g_output := proxy_g_output X, h_s_output := proxy_s_output X,
      h_g_ext_ctrls := proxy_g_ext_ctrls L X G, h_s_ext_ctrls := proxy_s_ext_ctrls L X G,
      h_try_ext_ctrls := proxy_try_ext_ctrls L X G,
      h_reqbufs := proxy_reqbufs chk K L X, h_querybuf := proxy_querybuf L X, h_qbuf := proxy_qbuf chk K L X G,
      h_streamon := proxy_streamon X, h_streamoff := proxy_streamoff X,
      h_subscribe_event := proxy_subscribe_event L X, h_unsubscribe_event := proxy_unsubscribe_event K L X,
      h_create_bufs := proxy_create_bufs chk K L X, h_prepare_buf := proxy_prepare_buf K L X G\<rparr>"

definition proxy_device ::
  "bool \<Rightarrow> 'vb v4l2r \<Rightarrow> 'vb v4l2r_proxy \<Rightarrow> ('dev, 'pol, 'w, 'vb) V4l2HostIoctls \<Rightarrow>
   ('w, 'gm, 'r) VirtioMediaGuestMemoryMapper \<Rightarrow> 'm VirtioMediaHostMemoryMapper \<Rightarrow>
   (('w, 'gm, 'm, 'vb) V4l2ProxyDevice, ('dev, 'pol, 'r) V4l2Session) VirtioMediaDevice"
where
  "proxy_device chk K L X G hm =
     \<lparr>dev_new_session = proxy_new_session X, dev_close_session = proxy_close_session,
      dev_do_ioctl = virtio_media_dispatch_ioctl K (proxy_handler chk K L X G),
      dev_do_mmap = proxy_do_mmap chk X hm, dev_do_munmap = proxy_do_munmap hm,
      dev_process_events = proxy_process_events chk K X, dev_poll_fd = ps_poll_fd X\<rparr>"

end
