(* ===== verification/Proxy_Invariant.thy ===== *)
theory Proxy_Invariant
  imports Proxy_Ioctls Mmap_Registered
begin

text \<open>
  What the proxy of host devices keeps true: its table of MMAP planes and the MMAP manager have the
  same offsets, every plane belongs to an open session, and a session is only polled for CAPTURE
  buffers while it streams and has buffers queued.
\<close>

section \<open>The table of planes\<close>

definition dev_ok :: "u32 set \<Rightarrow> ('w, 'gm, 'm, 'vb) V4l2ProxyDevice \<Rightarrow> bool" where
  "dev_ok A d \<longleftrightarrow> mgr_inv (pd_mmap_manager d) \<and> bt_ok (pd_mmap_buffers d) \<and>
     (\<forall>b \<in> snd ` set (pd_mmap_buffers d). mp_active b \<and> mp_session_id b \<in> A) \<and>
     (\<forall>off. registered (pd_mmap_manager d) off \<longleftrightarrow> off \<in> fst ` set (pd_mmap_buffers d))"

lemma dev_ok_update [simp]:
  "dev_ok A (d\<lparr>pd_os := w\<rparr>) = dev_ok A d" "dev_ok A (d\<lparr>pd_evt_queue := q\<rparr>) = dev_ok A d"
  "dev_ok A (proxy_send ev d) = dev_ok A d" "dev_ok A (send_error sid e d) = dev_ok A d"
  by (simp_all add: dev_ok_def proxy_send_def send_error_def)

text \<open>A plane is entered into the table under an offset that the manager has registered.\<close>

lemma dev_ok_insert:
  assumes "dev_ok A d" and "mgr_inv mgr" and "\<And>x. registered mgr x \<longleftrightarrow> x = off \<or> registered (pd_mmap_manager d) x"
    and "mp_active b" and "mp_session_id b \<in> A"
  shows "dev_ok A (d\<lparr>pd_mmap_manager := mgr, pd_mmap_buffers := bt_insert off b (pd_mmap_buffers d)\<rparr>)"
proof -
  have old: "\<forall>b \<in> snd ` set (pd_mmap_buffers d). mp_active b \<and> mp_session_id b \<in> A"
    using assms(1) by (simp add: dev_ok_def)
  have "mp_active b' \<and> mp_session_id b' \<in> A" if "b' \<in> snd ` set (bt_insert off b (pd_mmap_buffers d))" for b'
    using that old assms(4,5) bt_insert_values [of off b "pd_mmap_buffers d"] by blast
  moreover have "bt_ok (bt_insert off b (pd_mmap_buffers d))"
    "registered mgr x \<longleftrightarrow> x \<in> fst ` set (bt_insert off b (pd_mmap_buffers d))" for x
    using assms(1) by (simp_all add: assms(3) dev_ok_def bt_insert_ok bt_insert_keys)
  ultimately show ?thesis using assms(2) unfolding dev_ok_def by simp
qed

lemma retain_active:
  "\<forall>(off, b) \<in> set bufs. mp_active b \<Longrightarrow>
   filter (\<lambda>(_, b). mp_active b) (map (\<lambda>(off, b). (off, if p b then b\<lparr>mp_active := False\<rparr> else b)) bufs) =
     filter (\<lambda>(_, b). \<not> p b) bufs"
  by (induction bufs) auto

lemma drop_planes_buffers:
  assumes "dev_ok A d"
  shows "pd_mmap_buffers (drop_planes p d) = filter (\<lambda>(_, b). \<not> p b) (pd_mmap_buffers d)"
proof -
  have "\<forall>(off, b) \<in> set (pd_mmap_buffers d). mp_active b" using assms by (auto simp: dev_ok_def)
  then show ?thesis unfolding drop_planes_def by (simp add: retain_active)
qed

lemma drop_planes_ok:
  assumes "dev_ok A d"
  shows "dev_ok A (drop_planes p d)"
proof -
  let ?bufs = "pd_mmap_buffers d"
  have keys: "distinct (map fst ?bufs)" using assms by (simp add: dev_ok_def bt_ok_distinct)
  note bufs = drop_planes_buffers [OF assms, of p]
  have mgr: "mgr_inv (pd_mmap_manager d)" using assms by (simp add: dev_ok_def)
  have "registered (pd_mmap_manager (drop_planes p d)) off \<longleftrightarrow> off \<in> fst ` set (filter (\<lambda>(_, b). \<not> p b) ?bufs)" for off
  proof -
    have "off \<in> fst ` set (filter (\<lambda>(_, b). \<not> p b) ?bufs) \<longleftrightarrow>
        off \<in> fst ` set ?bufs \<and> off \<notin> fst ` set (filter (\<lambda>(_, b). p b) ?bufs)"
      using keys by (auto simp: distinct_map inj_on_def image_iff) (metis fst_conv snd_conv)+
    then show ?thesis
      using assms by (simp add: drop_planes_def unregister_all_registered [OF mgr] dev_ok_def)
  qed
  with assms show ?thesis
    by (auto simp: dev_ok_def bufs bt_ok_filter) (simp add: drop_planes_def unregister_all_inv)
qed

lemma add_planes_ok:
  assumes "dev_ok A d" and "sid \<in> A" and "add_planes chk sid queue i j planes d = Some d'"
  shows "dev_ok A d'"
  using assms(1,3)
proof (induction planes arbitrary: j d)
  case (Cons plane planes)
  obtain off len where plane: "plane = (off, len)" by (cases plane)
  with Cons.prems(2) obtain mgr off1 where
    reg: "register_buffer chk (pd_mmap_manager d) (Some off) len = Some (mgr, Inr off1)" and
    rest: "add_planes chk sid queue i (Suc j) planes (d\<lparr>pd_mmap_manager := mgr, pd_mmap_buffers := bt_insert off
      \<lparr>mp_session_id = sid, mp_queue = queue, mp_index = ucast i, mp_plane = of_nat j,
       mp_map_address = 0, mp_active = True\<rparr> (pd_mmap_buffers d)\<rparr>) = Some d'"
    by (auto elim!: bind_SomeE split: sum.split_asm)
  have inv: "mgr_inv (pd_mmap_manager d)" using Cons.prems(1) by (simp add: dev_ok_def)
  have "off1 = off"
    using reg by (cases "snd (register_buffer_by_offset (pd_mmap_manager d) off len)")
      (auto simp: register_buffer_def split: prod.split_asm)
  show ?case
  proof (rule Cons.IH [OF _ rest])
    show "dev_ok A (d\<lparr>pd_mmap_manager := mgr, pd_mmap_buffers := bt_insert off
      \<lparr>mp_session_id = sid, mp_queue = queue, mp_index = ucast i, mp_plane = of_nat j,
       mp_map_address = 0, mp_active = True\<rparr> (pd_mmap_buffers d)\<rparr>)"
      by (rule dev_ok_insert [OF Cons.prems(1)])
        (use assms(2) register_registered(1) [OF inv reg] register_registered_iff [OF inv reg] \<open>off1 = off\<close> in simp_all)
  qed
qed simp

lemma add_buffers_ok:
  assumes "dev_ok A d" and "ps_id s \<in> A" and "add_buffers chk K L X s queue is d = Some d'"
  shows "dev_ok A d'"
  using assms(1,3)
proof (induction "is" arbitrary: d)
  case (Cons i "is")
  obtain w' r where q: "x_querybuf X queue i (ps_device s) (pd_os d) = (w', r)" by fastforce
  show ?case
  proof (cases r)
    case (Inl e)
    with Cons.prems(2) q have "add_buffers chk K L X s queue is (d\<lparr>pd_os := w'\<rparr>) = Some d'" by simp
    with Cons.prems(1) show ?thesis by (intro Cons.IH) simp_all
  next
    case (Inr b)
    with Cons.prems(2) q obtain d1 where rest: "add_buffers chk K L X s queue is d1 = Some d'"
      and d1: "(case vb_mmap_planes L b of
          Some planes \<Rightarrow> add_planes chk (ps_id s) queue (vb_index K b) 0 planes (d\<lparr>pd_os := w'\<rparr>)
        | None \<Rightarrow> Some (d\<lparr>pd_os := w'\<rparr>)) = Some d1"
      by (auto elim!: bind_SomeE)
    have "dev_ok A d1"
      using d1 Cons.prems(1) add_planes_ok [OF _ assms(2), of "d\<lparr>pd_os := w'\<rparr>"] by (auto split: option.split_asm)
    from Cons.IH [OF this rest] show ?thesis .
  qed
qed simp

lemma update_mmap_offsets_ok:
  assumes "dev_ok A d" and "ps_id s \<in> A" and "update_mmap_offsets chk K L X queue i j d s = Some (d', s')"
  shows "dev_ok A d'"
  using assms(3) by (auto simp: update_mmap_offsets_def elim!: bind_SomeE
      intro: add_buffers_ok [OF drop_planes_ok [OF assms(1)] assms(2)])

section \<open>The invariant of a session\<close>

text \<open>
  What the poller promises, where \<open>E\<close> tells whether it reports CAPTURE buffers and \<open>F\<close> whether a request to
  stop reporting them has failed since the poller was made: a new poller does not report them;
  a request to stop that succeeds takes effect, and nothing is promised about one that fails; the
  other operations leave both as they are, but for the request to report CAPTURE buffers.
\<close>

definition poller_laws :: "('dev, 'pol, 'w, 'vb, 'x) V4l2Host_scheme \<Rightarrow> ('pol \<Rightarrow> bool) \<Rightarrow> ('pol \<Rightarrow> bool) \<Rightarrow> bool" where
  "poller_laws X E F \<longleftrightarrow>
     (\<forall>dev w w' pol. poller_new X dev w = (w', Some pol) \<longrightarrow> \<not> E pol \<and> \<not> F pol) \<and>
     (\<forall>pol w w' pol' ok. enable_event X V4L2Event pol w = (w', pol', ok) \<longrightarrow> E pol' = E pol \<and> F pol' = F pol) \<and>
     (\<forall>pol w w' pol' ok. enable_event X CaptureReady pol w = (w', pol', ok) \<longrightarrow> F pol' = F pol) \<and>
     (\<forall>pol w w' pol' ok. disable_event X CaptureReady pol w = (w', pol', ok) \<longrightarrow>
        (ok \<longrightarrow> \<not> E pol') \<and> F pol' = (F pol \<or> \<not> ok)) \<and>
     (\<forall>pol w w' pol' evs. poll X pol w = (w', pol', evs) \<longrightarrow> E pol' = E pol \<and> F pol' = F pol)"

text \<open>
  A property of pollers that only a request to report CAPTURE buffers can establish, and that a
  request to stop always ends: under the laws, to report CAPTURE buffers without a failed request to stop.
\<close>

definition polling_tracked :: "('dev, 'pol, 'w, 'vb, 'x) V4l2Host_scheme \<Rightarrow> ('pol \<Rightarrow> bool) \<Rightarrow> bool" where
  "polling_tracked X E \<longleftrightarrow>
     (\<forall>dev w w' pol. poller_new X dev w = (w', Some pol) \<longrightarrow> \<not> E pol) \<and>
     (\<forall>pol w. E (fst (snd (enable_event X V4L2Event pol w))) = E pol) \<and>
     (\<forall>pol w. \<not> E (fst (snd (disable_event X CaptureReady pol w)))) \<and>
     (\<forall>pol w. E (fst (snd (poll X pol w))) = E pol)"

lemma poller_laws_tracked:
  assumes "poller_laws X E F"
  shows "polling_tracked X (\<lambda>pol. E pol \<and> \<not> F pol)"
proof -
  note laws = assms [unfolded poller_laws_def]
  note new = laws [THEN conjunct1, rule_format] and enable = laws [THEN conjunct2, THEN conjunct1, rule_format]
    and disable = laws [THEN conjunct2, THEN conjunct2, THEN conjunct2, THEN conjunct1, rule_format]
    and polled = laws [THEN conjunct2, THEN conjunct2, THEN conjunct2, THEN conjunct2, rule_format]
  have "E (fst (snd (enable_event X V4L2Event pol w))) = E pol \<and> F (fst (snd (enable_event X V4L2Event pol w))) = F pol" for pol w
    by (rule enable [of pol w "fst (enable_event X V4L2Event pol w)" _ "snd (snd (enable_event X V4L2Event pol w))"]) simp
  moreover have "\<not> (E (fst (snd (disable_event X CaptureReady pol w))) \<and> \<not> F (fst (snd (disable_event X CaptureReady pol w))))" for pol w
    using disable [of pol w "fst (disable_event X CaptureReady pol w)" "fst (snd (disable_event X CaptureReady pol w))"
        "snd (snd (disable_event X CaptureReady pol w))"] by auto
  moreover have "E (fst (snd (poll X pol w))) = E pol \<and> F (fst (snd (poll X pol w))) = F pol" for pol w
    by (rule polled [of pol w "fst (poll X pol w)" _ "snd (snd (poll X pol w))"]) simp
  ultimately show ?thesis unfolding polling_tracked_def by (intro conjI allI impI) (simp_all add: new)
qed

definition poll_ok :: "('pol \<Rightarrow> bool) \<Rightarrow> ('dev, 'pol, 'r) V4l2Session \<Rightarrow> bool" where
  "poll_ok E s \<longleftrightarrow> (E (ps_poller s) \<longrightarrow> should_poll_capture s)"

definition proxy_I :: "('dev, 'pol, 'w, 'vb, 'x) V4l2Host_scheme \<Rightarrow> ('pol \<Rightarrow> bool) \<Rightarrow> u32 set \<Rightarrow> u32 \<Rightarrow>
    ('w, 'gm, 'm, 'vb) V4l2ProxyDevice \<Rightarrow> ('dev, 'pol, 'r) V4l2Session \<Rightarrow> bool"
where
  "proxy_I X E A sid d s \<longleftrightarrow> dev_ok A d \<and> ps_id s = sid \<and> sid \<in> A \<and> (polling_tracked X E \<longrightarrow> poll_ok E s)"

lemma proxy_I_dev:
  "proxy_I X E A sid d s \<Longrightarrow> dev_ok A d' \<Longrightarrow> proxy_I X E A sid d' s"
  by (simp add: proxy_I_def)

lemma proxy_I_update [simp]:
  "proxy_I X E A sid (d\<lparr>pd_os := w\<rparr>) s = proxy_I X E A sid d s"
  "proxy_I X E A sid (proxy_send ev d) s = proxy_I X E A sid d s"
  "proxy_I X E A sid (send_error sid' e d) s = proxy_I X E A sid d s"
  "proxy_I X E A sid d (s\<lparr>ps_userptr_buffers := u\<rparr>) = proxy_I X E A sid d s"
  "proxy_I X E A sid d (s\<lparr>ps_capture_queue_type := q\<rparr>) = proxy_I X E A sid d s"
  "proxy_I X E A sid d (s\<lparr>ps_output_queue_type := q\<rparr>) = proxy_I X E A sid d s"
  "proxy_I X E A sid d (s\<lparr>ps_output_streaming := b\<rparr>) = proxy_I X E A sid d s"
  "proxy_I X E A sid d (s\<lparr>ps_output_num_queued := n\<rparr>) = proxy_I X E A sid d s"
  "proxy_I X E A sid d (forget_userptrs qt i s) = proxy_I X E A sid d s"
  by (simp_all add: proxy_I_def poll_ok_def should_poll_capture_def forget_userptrs_def)

lemma register_userptr_I [simp]:
  "proxy_I X E A sid d (register_userptr_addresses K L h g rs s) = proxy_I X E A sid d s"
  by (simp add: register_userptr_addresses_def split: option.split)

lemma proxy_I_poll:
  "proxy_I X E A sid d s \<Longrightarrow> dev_ok A d' \<Longrightarrow> ps_id s' = ps_id s \<Longrightarrow> (polling_tracked X E \<Longrightarrow> poll_ok E s') \<Longrightarrow>
   proxy_I X E A sid d' s'"
  by (simp add: proxy_I_def)

lemma set_capture_polling_I:
  assumes "dev_ok A d" and "ps_id s = sid" and "sid \<in> A" and "on \<longrightarrow> should_poll_capture s"
    and "set_capture_polling X on d s = (d', s')"
  shows "proxy_I X E A sid d' s'"
proof -
  obtain w' pol' b where c: "(if on then enable_event X CaptureReady (ps_poller s) (pd_os d)
      else disable_event X CaptureReady (ps_poller s) (pd_os d)) = (w', pol', b)"
    by (cases rule: prod_cases3)
  have "d' = d\<lparr>pd_os := w'\<rparr>" "s' = s\<lparr>ps_poller := pol'\<rparr>"
    using assms(5) unfolding set_capture_polling_def c by auto
  moreover have "poll_ok E (s\<lparr>ps_poller := pol'\<rparr>)" if "polling_tracked X E"
  proof (cases on)
    case True
    with assms(4) show ?thesis by (simp add: poll_ok_def should_poll_capture_def)
  next
    case False
    have "\<not> E (fst (snd (disable_event X CaptureReady (ps_poller s) (pd_os d))))"
      using that by (simp add: polling_tracked_def)
    with c False show ?thesis by (simp add: poll_ok_def)
  qed
  ultimately show ?thesis using assms(1-3) by (simp add: proxy_I_def)
qed

section \<open>Dequeueing\<close>

text \<open>What the loops leave alone: the table of planes, the manager and, of the session, all but its user pointers.\<close>

definition same_planes :: "('w, 'gm, 'm, 'vb) V4l2ProxyDevice \<Rightarrow> ('w, 'gm, 'm, 'vb) V4l2ProxyDevice \<Rightarrow> bool" where
  "same_planes d d' \<longleftrightarrow> pd_mmap_buffers d' = pd_mmap_buffers d \<and> pd_mmap_manager d' = pd_mmap_manager d"

lemma same_planes_simps [simp]:
  "same_planes d d" "same_planes d (d'\<lparr>pd_os := w\<rparr>) = same_planes d d'"
  "same_planes (d\<lparr>pd_os := w\<rparr>) d' = same_planes d d'" "same_planes (proxy_send ev d) d' = same_planes d d'"
  "same_planes d (proxy_send ev d') = same_planes d d'" "same_planes d (send_error i e d') = same_planes d d'"
  by (auto simp: same_planes_def proxy_send_def send_error_def)

lemma same_planes_ok: "same_planes d d' \<Longrightarrow> dev_ok A d' = dev_ok A d"
  by (simp add: same_planes_def dev_ok_def)

lemma same_planes_I: "same_planes d d' \<Longrightarrow> proxy_I X E A sid d' s = proxy_I X E A sid d s"
  by (simp add: proxy_I_def same_planes_ok)

lemma dequeue_events_same:
  assumes "dequeue_events X s d = Some y"
  shows "same_planes d (fst y)"
proof (rule dequeue_events.raw_induct [where P = "\<lambda>X s d y. same_planes d (fst y)", OF _ assms], goal_cases)
  case (1 f X s d y)
  obtain w' r where q: "x_dqevent X (ps_device s) (pd_os d) = (w', r)" by fastforce
  show ?case
  proof (cases r)
    case (Inl e)
    with 1(2) q show ?thesis by (cases e) auto
  next
    case (Inr ev)
    with 1(2) q have "f X s (proxy_send (Event (SessionEvent_new (ps_id s) ev)) (d\<lparr>pd_os := w'\<rparr>)) = Some y" by simp
    from 1(1) [OF this] show ?thesis by simp
  qed
qed

lemma dequeue_output_loop_same:
  assumes "dequeue_output_loop K X queue d s = Some y"
  shows "same_planes d (fst y) \<and> (\<exists>u. fst (snd y) = s\<lparr>ps_userptr_buffers := u\<rparr>)"
proof (rule dequeue_output_loop.raw_induct
    [where P = "\<lambda>K X queue d s y. same_planes d (fst y) \<and> (\<exists>u. fst (snd y) = s\<lparr>ps_userptr_buffers := u\<rparr>)", OF _ assms], goal_cases)
  case (1 f K X queue d s y)
  obtain w' r where q: "x_dqbuf X queue (ps_device s) (pd_os d) = (w', r)" by fastforce
  show ?case
  proof (cases r)
    case (Inl e)
    with 1(2) q show ?thesis
      by (cases e) (auto intro!: exI [of _ "ps_userptr_buffers s"])
  next
    case (Inr b)
    with 1(2) q have "f K X queue (proxy_send (DequeueBuffer (DequeueBufferEvent_new (ps_id s) b)) (d\<lparr>pd_os := w'\<rparr>))
        (forget_userptrs (ps_output_queue_type s) (ucast (vb_index K b)) s) = Some y" by simp
    from 1(1) [OF this] show ?thesis by (auto simp: forget_userptrs_def)
  qed
qed

lemma dequeue_output_buffers_I:
  assumes "dequeue_output_buffers K X d s = Some (d', s', r)" and "proxy_I X E A sid d s"
  shows "proxy_I X E A sid d' s'"
proof -
  have "same_planes d d' \<and> (\<exists>u. s' = s\<lparr>ps_userptr_buffers := u\<rparr>)"
    using assms(1) dequeue_output_loop_same [of K X _ d s "(d', s', r)"]
    by (auto simp: dequeue_output_buffers_def intro!: exI [of _ "ps_userptr_buffers s"] split: option.split_asm if_split_asm)
  with assms(2) show ?thesis by (auto simp: same_planes_I)
qed

lemma add_one_pos:
  fixes a :: u64
  assumes "add_ov True a 1 = Some n"
  shows "0 < n"
proof -
  have "n = a + 1" "unat a + 1 < 2 ^ 64"
    using assms by (auto simp: add_ov_def split: if_split_asm)
  then have "unat n = unat a + 1" by (simp add: unat_word_ariths)
  then show ?thesis by (simp add: word_less_nat_alt)
qed

lemma poll_ok_forget [simp]: "poll_ok E (forget_userptrs qt i s) = poll_ok E s"
  by (simp add: poll_ok_def forget_userptrs_def should_poll_capture_def)

lemma dequeue_capture_buffer_I:
  assumes "dequeue_capture_buffer True K X d s = Some (d', s', r)" and I: "proxy_I X E A sid d s"
  shows "proxy_I X E A sid d' s'"
proof (cases "ps_capture_queue_type s")
  case None
  with assms show ?thesis by (simp add: dequeue_capture_buffer_def)
next
  case (Some queue)
  obtain w' res where q: "x_dqbuf X queue (ps_device s) (pd_os d) = (w', res)" by fastforce
  show ?thesis
  proof (cases res)
    case (Inl e)
    with Some q assms show ?thesis by (cases e) (auto simp: dequeue_capture_buffer_def)
  next
    case (Inr b)
    define s1 where "s1 = forget_userptrs (Some queue) (ucast (vb_index K b)) s"
    have I1: "proxy_I X E A sid (d\<lparr>pd_os := w'\<rparr>) s1" using I by (simp add: s1_def)
    from Some q Inr assms(1) obtain n where n: "sub_ov True (ps_capture_num_queued s1) 1 = Some n"
      by (auto simp: dequeue_capture_buffer_def Let_def s1_def elim!: bind_SomeE)
    then have n': "n = ps_capture_num_queued s1 - 1" "0 < ps_capture_num_queued s1"
      by (auto simp: sub_ov_def word_gt_0 split: if_split_asm)
    let ?s2 = "s1\<lparr>ps_capture_num_queued := n\<rparr>"
    let ?off = "should_poll_capture s1 \<and> n = 0 \<or> vb_flags K b AND BUF_LAST K = BUF_LAST K"
    obtain d3 where d': "d' = proxy_send (DequeueBuffer (DequeueBufferEvent_new (ps_id s) b)) d3"
      and p: "(d3, s') = (if ?off then set_capture_polling X False (d\<lparr>pd_os := w'\<rparr>) ?s2 else (d\<lparr>pd_os := w'\<rparr>, ?s2))"
      using Some q Inr assms(1) n
      by (cases "?off"; cases "set_capture_polling X False (d\<lparr>pd_os := w'\<rparr>) ?s2")
        (auto simp: dequeue_capture_buffer_def Let_def s1_def)
    have "proxy_I X E A sid d3 s'"
    proof (cases ?off)
      case True
      with p I1 show ?thesis by (intro set_capture_polling_I [of A "d\<lparr>pd_os := w'\<rparr>" ?s2 sid False]) (simp_all add: proxy_I_def)
    next
      case False
      have "poll_ok E ?s2" if "polling_tracked X E"
        using I1 that False n' by (auto simp: proxy_I_def poll_ok_def should_poll_capture_def word_gt_0)
      with p False I1 show ?thesis by (simp add: proxy_I_def)
    qed
    then show ?thesis by (simp add: d')
  qed
qed

section \<open>The ioctls\<close>

lemma stop_queue_I:
  assumes I: "proxy_I X E A sid d s" and run: "stop_queue X queue d s = (d', s')"
  shows "proxy_I X E A sid d' s'"
proof (cases "is_capture queue")
  case True
  let ?s1 = "s\<lparr>ps_capture_streaming := False, ps_capture_num_queued := 0\<rparr>"
  show ?thesis
  proof (cases "should_poll_capture s")
    case True
    with run \<open>is_capture queue\<close> have "set_capture_polling X False d ?s1 = (d', s')" by (simp add: stop_queue_def Let_def)
    with I show ?thesis by (intro set_capture_polling_I [of A d ?s1 sid False]) (simp_all add: proxy_I_def)
  next
    case False
    with I have "proxy_I X E A sid d ?s1" by (auto simp: proxy_I_def poll_ok_def)
    with run False \<open>is_capture queue\<close> show ?thesis by (auto simp: stop_queue_def Let_def)
  qed
next
  case False
  with I run show ?thesis by (auto simp: stop_queue_def split: if_split_asm)
qed

lemma update_mmap_offsets_I:
  assumes I: "proxy_I X E A sid d s" and "update_mmap_offsets chk K L X queue i j d s = Some (d', s')"
  shows "proxy_I X E A sid d' s'"
proof -
  have ok: "dev_ok A d" "ps_id s \<in> A" using I by (simp_all add: proxy_I_def)
  from update_mmap_offsets_ok [OF ok assms(2)] have "dev_ok A d'" .
  with I have "proxy_I X E A sid d' s" by (rule proxy_I_dev)
  with assms(2) show ?thesis by (auto simp: update_mmap_offsets_def elim!: bind_SomeE split: if_split_asm)
qed

lemma proxy_reqbufs_keeps: "rw_keeps (proxy_I X E A sid) (proxy_reqbufs chk K L X queue memory cnt flags)"
  unfolding rw_keeps_def
proof (intro allI impI)
  fix d s d' s' x
  assume I: "proxy_I X E A sid d s" and run: "proxy_reqbufs chk K L X queue memory cnt flags d s = Some (d', s', x)"
  obtain w' r where q: "x_reqbufs X queue memory cnt flags (ps_device s) (pd_os d) = (w', r)" by fastforce
  show "proxy_I X E A sid d' s'"
  proof (cases r)
    case (Inl e)
    with I run q show ?thesis by (auto simp: proxy_reqbufs_def)
  next
    case (Inr rb)
    with run q obtain d1 s1 where
      u: "update_mmap_offsets chk K L X queue 0 (reqbufs_count rb) (d\<lparr>pd_os := w'\<rparr>) s = Some (d1, s1)"
      and e: "(d', s') = (if reqbufs_count rb = 0 then stop_queue X queue d1 s1 else (d1, s1))"
      by (auto simp: proxy_reqbufs_def Let_def elim!: bind_SomeE split: prod.split_asm)
    have "proxy_I X E A sid d1 s1" by (rule update_mmap_offsets_I [OF _ u]) (simp add: I)
    with e show ?thesis by (auto dest!: sym [of "(d', s')"] intro: stop_queue_I split: if_split_asm)
  qed
qed

lemma proxy_streamon_keeps: "rw_keeps (proxy_I X E A sid) (proxy_streamon X queue)"
  unfolding rw_keeps_def
proof (intro allI impI)
  fix d s d' s' x
  assume I: "proxy_I X E A sid d s" and run: "proxy_streamon X queue d s = Some (d', s', x)"
  obtain w' r where q: "x_streamon X queue (ps_device s) (pd_os d) = (w', r)" by fastforce
  let ?d = "d\<lparr>pd_os := w'\<rparr>" and ?s1 = "s\<lparr>ps_capture_streaming := True\<rparr>"
  show "proxy_I X E A sid d' s'"
  proof (cases r)
    case (Inl e)
    with I run q show ?thesis by (auto simp: proxy_streamon_def)
  next
    case (Inr u)
    show ?thesis
    proof (cases "is_capture queue \<and> \<not> ps_capture_streaming s")
      case True
      with run q Inr have e: "(d', s') = (if should_poll_capture ?s1 then set_capture_polling X True ?d ?s1 else (?d, ?s1))"
        by (auto simp: proxy_streamon_def Let_def split: prod.split_asm)
      show ?thesis
      proof (cases "should_poll_capture ?s1")
        case True
        with e I show ?thesis by (intro set_capture_polling_I [of A ?d ?s1 sid True]) (simp_all add: proxy_I_def)
      next
        case False
        with I \<open>is_capture queue \<and> _\<close> have "proxy_I X E A sid ?d ?s1"
          by (auto simp: proxy_I_def poll_ok_def should_poll_capture_def)
        with e False show ?thesis by simp
      qed
    next
      case False
      with I run q Inr show ?thesis by (auto simp: proxy_streamon_def Let_def split: if_split_asm)
    qed
  qed
qed

lemma proxy_streamoff_keeps: "rw_keeps (proxy_I X E A sid) (proxy_streamoff X queue)"
  unfolding rw_keeps_def
proof (intro allI impI)
  fix d s d' s' x
  assume I: "proxy_I X E A sid d s" and run: "proxy_streamoff X queue d s = Some (d', s', x)"
  obtain w' r where q: "x_streamoff X queue (ps_device s) (pd_os d) = (w', r)" by fastforce
  show "proxy_I X E A sid d' s'"
  proof (cases r)
    case (Inl e)
    with I run q show ?thesis by (auto simp: proxy_streamoff_def)
  next
    case (Inr u)
    with run q have "stop_queue X queue (d\<lparr>pd_os := w'\<rparr>) s = (d', s')"
      by (simp add: proxy_streamoff_def split: prod.split_asm)
    from stop_queue_I [OF _ this, of E A sid] I show ?thesis by simp
  qed
qed

lemma exchange_buffer_I:
  assumes "proxy_I X E A sid d s" and "exchange_buffer K L G call b regions d s = (d', s', x)"
  shows "proxy_I X E A sid d' s'"
proof -
  obtain w1 r where g: "guest_v4l2_buffer_to_host K L G b regions (pd_mem d) (pd_os d) = (w1, r)" by fastforce
  show ?thesis
  proof (cases r)
    case None
    with g assms show ?thesis by (auto simp: exchange_buffer_def)
  next
    case (Some hb)
    obtain h rs where hb: "hb = (h, rs)" by (cases hb)
    let ?s = "register_userptr_addresses K L h b rs s"
    obtain w2 res where "call h (ps_device ?s) w1 = (w2, res)" by fastforce
    with g Some hb assms(2) have "d' = d\<lparr>pd_os := w2\<rparr>" "s' = ?s"
      by (cases res; simp add: exchange_buffer_def Let_def)+
    with assms(1) show ?thesis by simp
  qed
qed

lemma count_queued_I:
  assumes I: "proxy_I X E A sid d s" and run: "count_queued True X queue d s = Some (d', s')"
  shows "proxy_I X E A sid d' s'"
proof (cases "is_capture queue")
  case True
  with run obtain n where n: "add_ov True (ps_capture_num_queued s) 1 = Some n"
    and e: "(d', s') = (let s1 = s\<lparr>ps_capture_num_queued := n\<rparr> in
      if \<not> should_poll_capture s \<and> should_poll_capture s1 then set_capture_polling X True d s1 else (d, s1))"
    by (auto simp: count_queued_def Let_def elim!: bind_SomeE)
  let ?s1 = "s\<lparr>ps_capture_num_queued := n\<rparr>"
  show ?thesis
  proof (cases "\<not> should_poll_capture s \<and> should_poll_capture ?s1")
    case True
    with e I show ?thesis by (intro set_capture_polling_I [of A d ?s1 sid True]) (simp_all add: proxy_I_def)
  next
    case False
    have "0 < n" using n add_one_pos [of "ps_capture_num_queued s" n] by blast
    with I False have "proxy_I X E A sid d ?s1"
      by (auto simp: proxy_I_def poll_ok_def should_poll_capture_def)
    with e False show ?thesis by simp
  qed
next
  case False
  with I run show ?thesis by (auto simp: count_queued_def elim!: bind_SomeE split: if_split_asm)
qed

lemma proxy_qbuf_keeps: "rw_keeps (proxy_I X E A sid) (proxy_qbuf True K L X G b regions)"
  unfolding rw_keeps_def
proof (intro allI impI)
  fix d s d' s' x
  assume I: "proxy_I X E A sid d s" and run: "proxy_qbuf True K L X G b regions d s = Some (d', s', x)"
  from run obtain d1 s1 r1 where o: "dequeue_output_buffers K X d s = Some (d1, s1, r1)"
    by (auto simp: proxy_qbuf_def elim!: bind_SomeE)
  obtain d2 s2 r2 where e: "exchange_buffer K L G (x_qbuf X) b regions d1 s1 = (d2, s2, r2)" by (cases rule: prod_cases3)
  have I2: "proxy_I X E A sid d2 s2" by (rule exchange_buffer_I [OF dequeue_output_buffers_I [OF o I] e])
  show "proxy_I X E A sid d' s'"
  proof (cases r2)
    case (Inl err)
    with run o e I2 show ?thesis by (simp add: proxy_qbuf_def)
  next
    case (Inr out)
    with run o e have "count_queued True X (vb_queue K b) d2 s2 = Some (d', s')"
      by (auto simp: proxy_qbuf_def)
    from count_queued_I [OF I2 this] show ?thesis .
  qed
qed

lemma proxy_create_bufs_keeps: "rw_keeps (proxy_I X E A sid) (proxy_create_bufs chk K L X cnt queue memory format)"
  unfolding rw_keeps_def
proof (intro allI impI)
  fix d s d' s' x
  assume I: "proxy_I X E A sid d s"
    and run: "proxy_create_bufs chk K L X cnt queue memory format d s = Some (d', s', x)"
  obtain w' r where q: "x_create_bufs X cnt memory format (ps_device s) (pd_os d) = (w', r)" by fastforce
  show "proxy_I X E A sid d' s'"
  proof (cases "cnt = 0 \<or> (\<exists>e. r = Inl e)")
    case True
    with I run q show ?thesis by (cases r) (auto simp: proxy_create_bufs_def)
  next
    case False
    then obtain cb where "r = Inr cb" by (cases r) auto
    with False run q obtain past where
      u: "update_mmap_offsets chk K L X queue (create_index L cb) past (d\<lparr>pd_os := w'\<rparr>) s = Some (d', s')"
      by (auto simp: proxy_create_bufs_def elim!: bind_SomeE)
    show ?thesis by (rule update_mmap_offsets_I [OF _ u]) (simp add: I)
  qed
qed

lemma proxy_subscribe_keeps: "rw_keeps (proxy_I X E A sid) (proxy_subscribe_event L X' event flags)"
  unfolding rw_keeps_def
proof (intro allI impI)
  fix d s d' s' x
  assume I: "proxy_I X E A sid d s" and run: "proxy_subscribe_event L X' event flags d s = Some (d', s', x)"
  obtain w' r where q: "x_subscribe_event X' event flags (ps_device s) (pd_os d) = (w', r)" by fastforce
  show "proxy_I X E A sid d' s'"
  proof (cases "(\<exists>u. r = Inr u) \<and> flags AND SEND_INITIAL L = SEND_INITIAL L")
    case True
    then obtain u where u: "r = Inr u" "flags AND SEND_INITIAL L = SEND_INITIAL L" by blast
    from run have "map_option (\<lambda>(d', _). (d', s, Inr ())) (dequeue_events X' s (d\<lparr>pd_os := w'\<rparr>)) = Some (d', s', x)"
      by (simp only: proxy_subscribe_event_def q u prod.case sum.case if_True simp_thms)
    then obtain z where z: "dequeue_events X' s (d\<lparr>pd_os := w'\<rparr>) = Some z"
      "(case z of (d', _) \<Rightarrow> (d', s, Inr ())) = (d', s', x)"
      unfolding map_option_eq_Some by blast
    then have "fst z = d'" "s' = s" by (simp_all split: prod.split_asm)
    with dequeue_events_same [OF z(1)] I show ?thesis by (simp add: same_planes_I)
  next
    case False
    with I run q show ?thesis by (cases r) (auto simp: proxy_subscribe_event_def split: if_split_asm)
  qed
qed

lemma pass_keeps: "ro_keeps (proxy_I X E A sid) (pass_ro f)" "rw_keeps (proxy_I X E A sid) (pass_rw f)"
  by (auto simp: ro_keeps_def rw_keeps_def pass_ro_def pass_rw_def split: prod.split_asm)

lemma proxy_unsubscribe_keeps: "rw_keeps (proxy_I X E A sid) (proxy_unsubscribe_event K L X' event)"
  by (auto simp: rw_keeps_def proxy_unsubscribe_event_def split: prod.split_asm option.split_asm if_split_asm)

lemma proxy_querybuf_keeps: "ro_keeps (proxy_I X E A sid) (proxy_querybuf L X' queue i)"
  by (auto simp: ro_keeps_def proxy_querybuf_def split: prod.split_asm sum.split_asm)

lemma proxy_prepare_keeps: "rw_keeps (proxy_I X E A sid) (proxy_prepare_buf K L X' G b regions)"
  by (auto simp: rw_keeps_def proxy_prepare_buf_def intro: exchange_buffer_I)

lemma proxy_ext_ctrls_keeps: "ro_keeps (proxy_I X E A sid) (proxy_ext_ctrls L X' G io which c a u)"
  "rw_keeps (proxy_I X E A sid) (proxy_s_ext_ctrls L X' G which c a u)"
  by (auto simp: ro_keeps_def rw_keeps_def proxy_s_ext_ctrls_def proxy_ext_ctrls_def)

section \<open>The device keeps its contracts\<close>

lemmas proxy_pass_defs = proxy_enum_fmt_def proxy_g_fmt_def proxy_s_fmt_def proxy_g_parm_def proxy_s_parm_def
  proxy_g_std_def proxy_s_std_def proxy_enumstd_def proxy_enuminput_def proxy_g_tuner_def proxy_s_tuner_def
  proxy_g_audio_def proxy_s_audio_def proxy_queryctrl_def proxy_querymenu_def proxy_enumoutput_def proxy_g_audout_def
  proxy_s_audout_def proxy_g_modulator_def proxy_s_modulator_def proxy_g_frequency_def proxy_s_frequency_def
  proxy_querystd_def proxy_try_fmt_def proxy_enumaudio_def proxy_enumaudout_def proxy_enum_framesizes_def
  proxy_enum_frameintervals_def proxy_g_enc_index_def proxy_encoder_cmd_def proxy_try_encoder_cmd_def
  proxy_s_dv_timings_def proxy_g_dv_timings_def proxy_g_selection_def proxy_s_selection_def proxy_decoder_cmd_def
  proxy_try_decoder_cmd_def proxy_enum_dv_timings_def proxy_query_dv_timings_def proxy_query_ext_ctrl_def
  proxy_g_ctrl_def proxy_s_ctrl_def proxy_g_input_def proxy_s_input_def proxy_g_output_def proxy_s_output_def
  proxy_g_ext_ctrls_def proxy_try_ext_ctrls_def

interpretation proxy_handler: ioctl_handler "proxy_handler True K L X G" "proxy_I X E A sid" for K L X G E A sid
  by unfold_locales
    (simp_all add: proxy_handler_def default_handler_def proxy_pass_defs pass_keeps proxy_reqbufs_keeps
      proxy_streamon_keeps proxy_streamoff_keeps proxy_qbuf_keeps proxy_create_bufs_keeps proxy_subscribe_keeps
      proxy_unsubscribe_keeps proxy_querybuf_keeps proxy_prepare_keeps proxy_ext_ctrls_keeps)

lemma handle_poll_events_I:
  assumes "handle_poll_events True K X events d s = Some (d', s', x)" and "proxy_I X E A sid d s"
  shows "proxy_I X E A sid d' s'"
  using assms
proof (induction events arbitrary: d s)
  case (Cons event events)
  from Cons.prems(1) obtain d1 s1 r1 where
    step: "(case event of
        PollDevice CaptureReady \<Rightarrow> do {
          (d1, s1, res1) \<leftarrow> dequeue_capture_buffer True K X d s;
          (case res1 of Inl e \<Rightarrow> Some (d1, s1, Inl e) | Inr _ \<Rightarrow> dequeue_output_buffers K X d1 s1)
        }
      | PollDevice V4L2Event \<Rightarrow> map_option (\<lambda>(d1, res1). (d1, s, res1)) (dequeue_events X s d)
      | PollOther _ \<Rightarrow> None) = Some (d1, s1, r1)"
    and rest: "(case r1 of Inl e \<Rightarrow> Some (d1, s1, Inl e) | Inr _ \<Rightarrow> handle_poll_events True K X events d1 s1) = Some (d', s', x)"
    by (simp only: handle_poll_events.simps) (auto elim!: bind_SomeE)
  have I1: "proxy_I X E A sid d1 s1"
  proof (cases event)
    case (PollDevice ev)
    show ?thesis
    proof (cases ev)
      case CaptureReady
      with step PollDevice obtain d2 s2 r2 where c: "dequeue_capture_buffer True K X d s = Some (d2, s2, r2)"
        and o: "(case r2 of Inl e \<Rightarrow> Some (d2, s2, Inl e) | Inr _ \<Rightarrow> dequeue_output_buffers K X d2 s2) = Some (d1, s1, r1)"
        by (auto elim!: bind_SomeE)
      have I2: "proxy_I X E A sid d2 s2" by (rule dequeue_capture_buffer_I [OF c Cons.prems(2)])
      show ?thesis
      proof (cases r2)
        case (Inl e)
        with o I2 show ?thesis by simp
      next
        case (Inr u)
        with o have "dequeue_output_buffers K X d2 s2 = Some (d1, s1, r1)" by simp
        from dequeue_output_buffers_I [OF this I2] show ?thesis .
      qed
    next
      case V4L2Event
      with step PollDevice obtain y where y: "dequeue_events X s d = Some (d1, y)" and "s1 = s"
        by (cases "dequeue_events X s d") auto
      with dequeue_events_same [OF y] Cons.prems(2) show ?thesis by (simp add: same_planes_I)
    qed
  qed (use step in simp)
  show ?case
  proof (cases r1)
    case (Inl e)
    with rest I1 show ?thesis by simp
  next
    case (Inr u)
    with rest have "handle_poll_events True K X events d1 s1 = Some (d', s', x)" by simp
    from Cons.IH [OF this I1] show ?thesis .
  qed
qed simp

lemma proxy_process_events_I:
  assumes I: "proxy_I X E A sid d s" and run: "proxy_process_events True K X d s = Some (d', s', x)"
  shows "proxy_I X E A sid d' s'"
proof -
  obtain w' pol' evs where p: "poll X (ps_poller s) (pd_os d) = (w', pol', evs)" by (cases rule: prod_cases3)
  have "poll_ok E (s\<lparr>ps_poller := pol'\<rparr>)" if laws: "polling_tracked X E"
  proof -
    have "E pol' = E (ps_poller s)" using laws p unfolding polling_tracked_def by (metis fst_conv snd_conv)
    with I laws show ?thesis by (simp add: proxy_I_def poll_ok_def should_poll_capture_def)
  qed
  with I have I': "proxy_I X E A sid (d\<lparr>pd_os := w'\<rparr>) (s\<lparr>ps_poller := pol'\<rparr>)" by (simp add: proxy_I_def)
  show ?thesis
  proof (cases evs)
    case None
    with run p I' show ?thesis by (auto simp: proxy_process_events_def)
  next
    case (Some events)
    with run p have "handle_poll_events True K X events (d\<lparr>pd_os := w'\<rparr>) (s\<lparr>ps_poller := pol'\<rparr>) = Some (d', s', x)"
      by (simp add: proxy_process_events_def)
    from handle_poll_events_I [OF this I'] show ?thesis .
  qed
qed

lemma map_of_value: "map_of m k = Some v \<Longrightarrow> k \<in> fst ` set m \<and> v \<in> snd ` set m"
  by (force dest: map_of_SomeD)

lemma proxy_do_mmap_ok:
  assumes "dev_ok A d" and run: "proxy_do_mmap chk X hm fl off d s = Some (d', s', x)"
  shows "dev_ok A d' \<and> s' = s"
proof (cases "map_of (pd_mmap_buffers d) off")
  case None
  with assms show ?thesis by (auto simp: proxy_do_mmap_def Let_def)
next
  case (Some b)
  let ?rw = "fl AND VIRTIO_MEDIA_MMAP_FLAG_RW \<noteq> 0"
  obtain w' r where q: "x_expbuf X (mp_queue b) (unat (mp_index b)) (unat (mp_plane b)) ?rw (ps_device s) (pd_os d) = (w', r)"
    by fastforce
  have inv: "mgr_inv (pd_mmap_manager d)" using assms(1) by (simp add: dev_ok_def)
  show ?thesis
  proof (cases r)
    case (Inl e)
    with assms Some q show ?thesis by (auto simp: proxy_do_mmap_def Let_def)
  next
    case (Inr f)
    with run Some q obtain mgr res where c: "create_mapping chk hm (pd_mmap_manager d) off f ?rw = Some (mgr, res)"
      by (auto simp: proxy_do_mmap_def Let_def elim!: bind_SomeE)
    have m: "mgr_inv mgr" "registered mgr x = registered (pd_mmap_manager d) x" for x
      using create_mapping_inv [OF inv c] create_registered_iff [OF inv c] by simp_all
    have "mp_active b" "mp_session_id b \<in> A" "registered (pd_mmap_manager d) off"
      using assms(1) map_of_value [OF Some] by (auto simp: dev_ok_def)
    then have "dev_ok A ((d\<lparr>pd_os := w'\<rparr>)\<lparr>pd_mmap_manager := mgr,
        pd_mmap_buffers := bt_insert off (b\<lparr>mp_map_address := a\<rparr>) (pd_mmap_buffers (d\<lparr>pd_os := w'\<rparr>))\<rparr>)" for a
      using m assms(1) by (intro dev_ok_insert) auto
    moreover have "dev_ok A (d\<lparr>pd_os := w', pd_mmap_manager := mgr\<rparr>)" using assms(1) m by (simp add: dev_ok_def)
    moreover have "s' = s \<and> (d' = d\<lparr>pd_os := w', pd_mmap_manager := mgr\<rparr> \<or>
        (\<exists>a. d' = (d\<lparr>pd_os := w'\<rparr>)\<lparr>pd_mmap_manager := mgr,
          pd_mmap_buffers := bt_insert off (b\<lparr>mp_map_address := a\<rparr>) (pd_mmap_buffers (d\<lparr>pd_os := w'\<rparr>))\<rparr>))"
      using run Some q Inr c by (cases res) (auto simp: proxy_do_mmap_def Let_def split: prod.split_asm)
    ultimately show ?thesis by blast
  qed
qed

text \<open>Of all the open sessions at once.\<close>

definition proxy_inv :: "('dev, 'pol, 'w, 'vb, 'x) V4l2Host_scheme \<Rightarrow> ('pol \<Rightarrow> bool) \<Rightarrow>
    ('w, 'gm, 'm, 'vb) V4l2ProxyDevice \<Rightarrow> (u32 \<rightharpoonup> ('dev, 'pol, 'r) V4l2Session) \<Rightarrow> bool"
where
  "proxy_inv X E d ss \<longleftrightarrow> dev_ok (dom ss) d \<and>
     (\<forall>sid s. ss sid = Some s \<longrightarrow> ps_id s = sid \<and> (polling_tracked X E \<longrightarrow> poll_ok E s))"

lemma proxy_inv_I: "proxy_inv X E d ss \<Longrightarrow> ss sid = Some s \<Longrightarrow> proxy_I X E (dom ss) sid d s"
  by (auto simp: proxy_inv_def proxy_I_def)

lemma proxy_I_inv:
  assumes "proxy_inv X E d ss" and "ss sid = Some s" and "proxy_I X E (dom ss) sid d' s'"
  shows "proxy_inv X E d' (ss(sid \<mapsto> s'))"
proof -
  have "dom (ss(sid \<mapsto> s')) = dom ss" using assms(2) by auto
  with assms show ?thesis by (auto simp: proxy_inv_def proxy_I_def)
qed

lemma dev_ok_mono: "dev_ok A d \<Longrightarrow> A \<subseteq> A' \<Longrightarrow> dev_ok A' d"
  by (auto simp: dev_ok_def)

lemma delete_session_ok:
  assumes "dev_ok A d"
  shows "dev_ok (A - {ps_id s}) (delete_session s d)"
proof -
  have "dev_ok A (delete_session s d)" unfolding delete_session_def by (rule drop_planes_ok [OF assms])
  moreover have "mp_session_id b \<noteq> ps_id s" if "b \<in> snd ` set (pd_mmap_buffers (delete_session s d))" for b
    using that by (auto simp: delete_session_def drop_planes_buffers [OF assms])
  ultimately show ?thesis by (simp add: dev_ok_def)
qed

lemma V4l2Session_new_ok:
  assumes "V4l2Session_new X sid dev w = Some (w', s)"
  shows "ps_id s = sid" and "polling_tracked X E \<Longrightarrow> poll_ok E s"
proof -
  obtain w1 p where p: "poller_new X dev w = (w1, p)" by fastforce
  with assms obtain pol where pol: "p = Some pol" by (cases p) (auto simp: V4l2Session_new_def)
  obtain w2 pol' b where e: "enable_event X V4L2Event pol w1 = (w2, pol', b)" by (cases rule: prod_cases3)
  with assms p pol show "ps_id s = sid" by (auto simp: V4l2Session_new_def split: if_split_asm)
  assume laws: "polling_tracked X E"
  then have "\<not> E pol" using p pol unfolding polling_tracked_def by blast
  moreover have "E pol' = E pol" using laws e unfolding polling_tracked_def by (metis fst_conv snd_conv)
  ultimately show "poll_ok E s"
    using assms p pol e by (auto simp: V4l2Session_new_def poll_ok_def split: if_split_asm)
qed

interpretation proxy_device: media_device "proxy_device True K L X G hm" "proxy_inv X E" for K L X G hm E
proof (unfold_locales, goal_cases)
  case (1 d ss sid d' res)
  obtain w1 r where o: "x_open X (pd_device_path d) (pd_os d) = (w1, r)" by fastforce
  show ?case
  proof (cases r)
    case (Inl e)
    with 1 o show ?thesis by (auto simp: proxy_device_def proxy_new_session_def proxy_inv_def)
  next
    case (Inr dev)
    with 1(3) o obtain w2 s where n: "V4l2Session_new X sid dev w1 = Some (w2, s)" "res = Inr s" "d' = d\<lparr>pd_os := w2\<rparr>"
      by (auto simp: proxy_device_def proxy_new_session_def)
    from dev_ok_mono [of "dom ss" d "dom (ss(sid \<mapsto> s))"] 1(1) have "dev_ok (dom (ss(sid \<mapsto> s))) d"
      by (auto simp: proxy_inv_def)
    with 1(1) n V4l2Session_new_ok [OF n(1)] show ?thesis by (auto simp: proxy_inv_def)
  qed
next
  case (2 d ss sid s d')
  then have "ps_id s = sid" "d' = delete_session s d" "dev_ok (dom ss) d"
    by (auto simp: proxy_device_def proxy_close_session_def proxy_inv_def)
  with delete_session_ok [of "dom ss" d s] 2(1) show ?case by (auto simp: proxy_inv_def)
next
  case (3 d ss sid s ioctl r w d' s' r' w' x)
  have "fn_keeps (proxy_I X E (dom ss) sid) (dev_do_ioctl (proxy_device True K L X G hm) ioctl)"
    by (simp add: proxy_device_def proxy_handler.dispatch_keeps)
  with proxy_inv_I [OF 3(1,2)] 3(3) show ?case
    unfolding fn_keeps_def by (intro proxy_I_inv [OF 3(1,2)]) blast
next
  case (4 d ss sid s fl off d' s' res')
  then have "dev_ok (dom ss) d' \<and> s' = s"
    by (intro proxy_do_mmap_ok [of "dom ss" d]) (auto simp: proxy_device_def proxy_inv_def)
  with proxy_inv_I [OF 4(1,2)] show ?case by (intro proxy_I_inv [OF 4(1,2)]) (simp add: proxy_I_def)
next
  case (5 d ss addr d' res'')
  have inv: "mgr_inv (pd_mmap_manager d)" using 5(1) by (simp add: proxy_inv_def dev_ok_def)
  from 5(2) obtain mgr r where r: "remove_mapping hm (pd_mmap_manager d) addr = Some (mgr, r)" "d' = d\<lparr>pd_mmap_manager := mgr\<rparr>"
    by (auto simp: proxy_device_def proxy_do_munmap_def elim!: bind_SomeE)
  with 5(1) remove_mapping_inv [OF inv r(1)] remove_registered_iff [OF inv r(1)] show ?case
    by (simp add: proxy_inv_def dev_ok_def)
next
  case (6 d ss sid s d' s' res)
  then have "proxy_process_events True K X d s = Some (d', s', res)" by (simp add: proxy_device_def)
  from proxy_process_events_I [OF proxy_inv_I [OF 6(1,2)] this] show ?case by (rule proxy_I_inv [OF 6(1,2)])
next
  case (7 ioctl)
  show ?case by (simp add: proxy_device_def answers_dispatch)
qed

end
