(* ===== verification/Proxy_Example.thy ===== *)
theory Proxy_Example
  imports Proxy_Invariant
begin

text \<open>
  A concrete host for the proxy, for the concrete instances of the properties. Its devices have
  buffers of one page; the world keeps how many buffers each device has, which are queued, and
  the events that wait. A poller is whether it reports CAPTURE buffers.
\<close>

section \<open>The host\<close>

record Px_World =
  pw_opens :: nat
  pw_alloc :: "nat \<Rightarrow> nat"
  pw_queued :: "Ex_Buffer list"
  pw_events :: "v4l2_event list"

definition px_refuse :: "(nat, Px_World, 'a) host_ioctl" where
  "px_refuse dev w = (w, Inl ENOTTY)"

definition px_ctrls :: "(nat, Px_World) host_ctrls_ioctl" where
  "px_ctrls which cs dev w = (w, cs, if cs = [] then Inl (0, EINVAL) else Inr ())"

text \<open>The buffer with an index. The offsets of all devices start at zero, as those of the open files of a memory-to-memory device do.\<close>

definition px_buffer :: "QueueType \<Rightarrow> nat \<Rightarrow> Ex_Buffer" where
  "px_buffer q i = (ex_new q (of_nat i) Mmap)
     \<lparr>ex_length := 0x1000, ex_mem_offset := of_nat (i * 0x1000)\<rparr>"

definition px_querybuf :: "QueueType \<Rightarrow> nat \<Rightarrow> (nat, Px_World, Ex_Buffer) host_ioctl" where
  "px_querybuf q i dev w = (w, if i < pw_alloc w dev then Inr (px_buffer q i) else Inl EINVAL)"

definition px_dqbuf :: "QueueType \<Rightarrow> nat \<Rightarrow> Px_World \<Rightarrow> Px_World \<times> (DqBufError + Ex_Buffer)" where
  "px_dqbuf q dev w = (case pw_queued w of
      b # bs \<Rightarrow> if ex_queue b = q then (w\<lparr>pw_queued := bs\<rparr>, Inr b) else (w, Inl DqBufNotReady)
    | [] \<Rightarrow> (w, Inl DqBufNotReady))"

definition px_dqevent :: "nat \<Rightarrow> Px_World \<Rightarrow> Px_World \<times> (DqEventError + v4l2_event)" where
  "px_dqevent dev w = (case pw_events w of
      e # es \<Rightarrow> (w\<lparr>pw_events := es\<rparr>, Inr e)
    | [] \<Rightarrow> (w, Inl DqEventNotReady))"

definition px_poll :: "bool \<Rightarrow> Px_World \<Rightarrow> Px_World \<times> bool \<times> PollEvent list option" where
  "px_poll pol w = (w, pol, Some ((if pol \<and> pw_queued w \<noteq> [] then [PollDevice CaptureReady] else []) @
     (if pw_events w \<noteq> [] then [PollDevice V4L2Event] else [])))"

definition px_reqbufs :: "QueueType \<Rightarrow> MemoryType \<Rightarrow> u32 \<Rightarrow> MemoryConsistency \<Rightarrow> (nat, Px_World, v4l2_requestbuffers) host_ioctl" where
  "px_reqbufs q m n fl dev w = (w\<lparr>pw_alloc := (pw_alloc w)(dev := unat n)\<rparr>,
     Inr \<lparr>reqbufs_count = n, reqbufs_type = ex_queue_u32 q, reqbufs_memory = 1, reqbufs_capabilities = 0x11,
          reqbufs_flags = 0, reqbufs_reserved = [0, 0, 0, 0]\<rparr>)"

definition px_expbuf :: "QueueType \<Rightarrow> nat \<Rightarrow> nat \<Rightarrow> bool \<Rightarrow> (nat, Px_World, fd) host_ioctl" where
  "px_expbuf q i p writable dev w = (w, if i < pw_alloc w dev then Inr (100 * dev + i) else Inl EINVAL)"

definition px_X :: "(nat, bool, Px_World, Ex_Buffer) V4l2HostIoctls" where
  "px_X =
     \<lparr>x_open = (\<lambda>_ w. (w\<lparr>pw_opens := pw_opens w + 1\<rparr>, Inr (pw_opens w))),
      poller_new = (\<lambda>_ w. (w, Some False)),
      enable_event = (\<lambda>ev pol w. (w, pol \<or> ev = CaptureReady, True)),
      disable_event = (\<lambda>ev pol w. (w, pol \<and> ev \<noteq> CaptureReady, True)),
      poll = px_poll,
      poller_fd = (\<lambda>_. 7),
      x_reqbufs = px_reqbufs,
      x_create_bufs = (\<lambda>_ _ _. px_refuse),
      x_querybuf = px_querybuf,
      x_qbuf = (\<lambda>b _ w. (w\<lparr>pw_queued := pw_queued w @ [b]\<rparr>, Inr b)),
      x_prepare_buf = (\<lambda>b _ w. (w, Inr b)),
      x_dqbuf = px_dqbuf,
      x_dqevent = px_dqevent,
      x_streamon = (\<lambda>_ _ w. (w, Inr ())),
      x_streamoff = (\<lambda>_ _ w. (w\<lparr>pw_queued := []\<rparr>, Inr ())),
      x_expbuf = px_expbuf,
      x_subscribe_event = (\<lambda>_ _ _ w. (w, Inr ())),
      x_unsubscribe_event = (\<lambda>_ _ w. (w, Inr ())),
      x_unsubscribe_all_events = (\<lambda>_ w. (w, Inr ())),
      x_g_ext_ctrls = px_ctrls,
      x_s_ext_ctrls = px_ctrls,
      x_try_ext_ctrls = px_ctrls,
      x_enum_fmt = (\<lambda>_ _. px_refuse), x_g_fmt = (\<lambda>_. px_refuse),
      x_s_fmt = (\<lambda>_. px_refuse), x_g_parm = (\<lambda>_. px_refuse),
      x_s_parm = (\<lambda>_. px_refuse), x_g_std = px_refuse, x_s_std = (\<lambda>_. px_refuse),
      x_enumstd = (\<lambda>_. px_refuse), x_enuminput = (\<lambda>_. px_refuse),
      x_g_tuner = (\<lambda>_. px_refuse), x_s_tuner = (\<lambda>_ _. px_refuse), x_g_audio = px_refuse,
      x_s_audio = (\<lambda>_ _. px_refuse), x_queryctrl = (\<lambda>_ _. px_refuse),
      x_querymenu = (\<lambda>_ _. px_refuse), x_enumoutput = (\<lambda>_. px_refuse), x_g_audout = px_refuse,
      x_s_audout = (\<lambda>_. px_refuse), x_g_modulator = (\<lambda>_. px_refuse),
      x_s_modulator = (\<lambda>_ _. px_refuse), x_g_frequency = (\<lambda>_. px_refuse),
      x_s_frequency = (\<lambda>_ _ _. px_refuse), x_querystd = px_refuse, x_try_fmt = (\<lambda>_. px_refuse),
      x_enumaudio = (\<lambda>_. px_refuse), x_enumaudout = (\<lambda>_. px_refuse),
      x_enum_framesizes = (\<lambda>_ _. px_refuse), x_enum_frameintervals = (\<lambda>_ _ _ _. px_refuse),
      x_g_enc_index = px_refuse, x_encoder_cmd = (\<lambda>_. px_refuse),
      x_try_encoder_cmd = (\<lambda>_. px_refuse), x_s_dv_timings = (\<lambda>_. px_refuse),
      x_g_dv_timings = px_refuse, x_g_selection = (\<lambda>_ _. px_refuse),
      x_s_selection = (\<lambda>_ _ _ _. px_refuse), x_decoder_cmd = (\<lambda>_. px_refuse),
      x_try_decoder_cmd = (\<lambda>_. px_refuse), x_enum_dv_timings = (\<lambda>_. px_refuse),
      x_query_dv_timings = px_refuse, x_dv_timings_cap = px_refuse,
      x_enum_freq_bands = (\<lambda>_ _ _. px_refuse), x_query_ext_ctrl = (\<lambda>_ _. px_refuse),
      x_g_ctrl = (\<lambda>_. px_refuse), x_s_ctrl = (\<lambda>_ _. px_refuse), x_g_input = px_refuse,
      x_s_input = (\<lambda>_. px_refuse), x_g_output = px_refuse, x_s_output = (\<lambda>_. px_refuse)\<rparr>"

lemmas px_X_simps [simp] = px_X_def [THEN arg_cong [where f = x_open], simplified]
  px_X_def [THEN arg_cong [where f = poller_new], simplified]
  px_X_def [THEN arg_cong [where f = enable_event], simplified]
  px_X_def [THEN arg_cong [where f = disable_event], simplified]
  px_X_def [THEN arg_cong [where f = poll], simplified]
  px_X_def [THEN arg_cong [where f = poller_fd], simplified]
  px_X_def [THEN arg_cong [where f = x_reqbufs], simplified]
  px_X_def [THEN arg_cong [where f = x_create_bufs], simplified]
  px_X_def [THEN arg_cong [where f = x_querybuf], simplified]
  px_X_def [THEN arg_cong [where f = x_qbuf], simplified]
  px_X_def [THEN arg_cong [where f = x_prepare_buf], simplified]
  px_X_def [THEN arg_cong [where f = x_dqbuf], simplified]
  px_X_def [THEN arg_cong [where f = x_dqevent], simplified]
  px_X_def [THEN arg_cong [where f = x_streamon], simplified]
  px_X_def [THEN arg_cong [where f = x_streamoff], simplified]
  px_X_def [THEN arg_cong [where f = x_expbuf], simplified]
  px_X_def [THEN arg_cong [where f = x_subscribe_event], simplified]
  px_X_def [THEN arg_cong [where f = x_unsubscribe_event], simplified]
  px_X_def [THEN arg_cong [where f = x_unsubscribe_all_events], simplified]
  px_X_def [THEN arg_cong [where f = x_g_ext_ctrls], simplified]
  px_X_def [THEN arg_cong [where f = x_s_ext_ctrls], simplified]
  px_X_def [THEN arg_cong [where f = x_try_ext_ctrls], simplified]

text \<open>Guest memory appears at a fixed distance in the host.\<close>

definition px_G :: "(Px_World, unit, u64) VirtioMediaGuestMemoryMapper" where
  "px_G =
     \<lparr>new_mapping = (\<lambda>_ sgs w. (w, case sgs of [] \<Rightarrow> None | sg # _ \<Rightarrow> Some (sg_start sg + 0x7F0000000000))),
      as_ptr = (\<lambda>r. r), as_mut_ptr = (\<lambda>r. (r, r))\<rparr>"

definition px_L :: "Ex_Buffer v4l2r_proxy" where
  "px_L =
     \<lparr>vb_mmap_planes = (\<lambda>b. if ex_memory b = Mmap then Some [(ex_mem_offset b, ex_length b)] else None),
      vb_userptr_planes = (\<lambda>b. if ex_memory b = UserPtr then Some [(ex_length b, ex_userptr b)] else None),
      vb_set_userptrs = (\<lambda>b ps. b\<lparr>ex_userptr := hd ps\<rparr>),
      ext_ctrl_ptr = (\<lambda>c. from_bytes wire_u64 (take 8 (ext_ctrl_rest c))),
      ext_ctrl_set_ptr = (\<lambda>c p. c\<lparr>ext_ctrl_rest := as_bytes wire_u64 p @ drop 8 (ext_ctrl_rest c)\<rparr>),
      ext_ctrls_set_error_idx = (\<lambda>cs i. cs\<lparr>ext_ctrls_rest := as_bytes wire_u32 i\<rparr>),
      create_index = (\<lambda>_. 0), SUPPORTS_REQUESTS = 0x10, V4L2_EVENT_ALL = 0, SEND_INITIAL = 1\<rparr>"

lemmas px_L_simps [simp] = px_L_def [THEN arg_cong [where f = vb_mmap_planes], simplified]
  px_L_def [THEN arg_cong [where f = vb_userptr_planes], simplified]
  px_L_def [THEN arg_cong [where f = vb_set_userptrs], simplified]
  px_L_def [THEN arg_cong [where f = ext_ctrl_ptr], simplified]
  px_L_def [THEN arg_cong [where f = ext_ctrl_set_ptr], simplified]
  px_L_def [THEN arg_cong [where f = SUPPORTS_REQUESTS], simplified]
  px_L_def [THEN arg_cong [where f = SEND_INITIAL], simplified]

definition px_poller :: "(fd \<times> u32) list SessionPoller" where
  "px_poller = \<lparr>poller_add_session = (\<lambda>f sid p. Some ((f, sid) # p, Inr ())),
     poller_remove_session = (\<lambda>f p. Some (filter (\<lambda>(g, _). g \<noteq> f) p))\<rparr>"

section \<open>A run\<close>

text \<open>
  A guest opens a session, asks for two CAPTURE buffers, queues the first one and starts streaming,
  while two events of the host device wait.
\<close>

abbreviation px_device ::
  "((Px_World, unit, unit, Ex_Buffer) V4l2ProxyDevice, (nat, bool, u64) V4l2Session) VirtioMediaDevice"
where
  "px_device \<equiv> proxy_device True ex_K px_L px_X px_G DummyHostMemoryMapper"

definition px_event :: "u32 \<Rightarrow> v4l2_event" where
  "px_event t = \<lparr>event_type = t, event_u = [], event_rest = []\<rparr>"

definition px_w0 :: Px_World where
  "px_w0 = \<lparr>pw_opens = 0, pw_alloc = (\<lambda>_. 0), pw_queued = [], pw_events = [px_event 2, px_event 5]\<rparr>"

abbreviation px0 :: "(Px_World, unit, unit, Ex_Buffer) V4l2ProxyDevice" where
  "px0 \<equiv> V4l2ProxyDevice_new ''/dev/video0'' () () px_w0"

definition px_plane :: "u32 \<Rightarrow> u8 \<Rightarrow> V4l2MmapPlaneInfo" where
  "px_plane sid i = \<lparr>mp_session_id = sid, mp_queue = VideoCapture, mp_index = i, mp_plane = 0, mp_map_address = 0, mp_active = True\<rparr>"

definition px1 :: "(Px_World, unit, unit, Ex_Buffer) V4l2ProxyDevice" where
  "px1 = px0\<lparr>pd_mmap_buffers := [(0, px_plane 0 0), (0x1000, px_plane 0 1)],
     pd_mmap_manager := \<lparr>buffers = [MmapBuffer_new 0 0x1000, MmapBuffer_new 0x1000 0x1000], mapper = ()\<rparr>,
     pd_os := px_w0\<lparr>pw_opens := 1, pw_alloc := (\<lambda>_. 0)(0 := 2)\<rparr>\<rparr>"

definition px2 :: "(Px_World, unit, unit, Ex_Buffer) V4l2ProxyDevice" where
  "px2 = px1\<lparr>pd_os := (pd_os px1)\<lparr>pw_queued := [ex_new VideoCapture 0 Mmap]\<rparr>\<rparr>"

definition px_fresh :: "u32 \<Rightarrow> nat \<Rightarrow> (nat, bool, u64) V4l2Session" where
  "px_fresh sid dev =
     \<lparr>ps_id = sid, ps_device = dev, ps_poller = False, ps_capture_queue_type = None, ps_output_queue_type = None,
      ps_capture_streaming = False, ps_capture_num_queued = 0, ps_output_streaming = False,
      ps_output_num_queued = 0, ps_userptr_buffers = []\<rparr>"

definition px_session1 :: "(nat, bool, u64) V4l2Session" where
  "px_session1 = (px_fresh 0 0)\<lparr>ps_capture_queue_type := Some VideoCapture\<rparr>"

definition px_session2 :: "(nat, bool, u64) V4l2Session" where
  "px_session2 = px_session1\<lparr>ps_capture_num_queued := 1\<rparr>"

definition px_session3 :: "(nat, bool, u64) V4l2Session" where
  "px_session3 = px_session2\<lparr>ps_capture_streaming := True, ps_poller := True\<rparr>"

definition px_opened :: "(Px_World, unit, unit, Ex_Buffer) V4l2ProxyDevice" where
  "px_opened = px0\<lparr>pd_os := px_w0\<lparr>pw_opens := 1\<rparr>\<rparr>"

lemma ex_new_simps [simp]: "ex_queue (ex_new q i m) = q" "ex_memory (ex_new q i m) = m"
  by (simp_all add: ex_new_def)

lemma px_reqbufs_run:
  "proxy_reqbufs True ex_K px_L px_X VideoCapture Mmap 2 flags px_opened (px_fresh 0 0) =
     Some (px1, px_session1, Inr \<lparr>reqbufs_count = 2, reqbufs_type = 1, reqbufs_memory = 1, reqbufs_capabilities = 1,
          reqbufs_flags = 0, reqbufs_reserved = [0, 0, 0, 0]\<rparr>)"
  by (simp add: proxy_reqbufs_def px_reqbufs_def update_mmap_offsets_def drop_planes_def px_opened_def V4l2ProxyDevice_new_def
      MmapMappingManager_from_def px_fresh_def px_querybuf_def px_buffer_def px_w0_def upt_rec ex_new_def
      register_buffer_def register_buffer_by_offset_def binary_search_by_key_def bsearch.simps vec_insert_def
      PAGE_MASK_def PAGE_SIZE_def MmapBuffer_new_def px1_def px_plane_def px_session1_def is_capture_def
      unregister_all_def ex_queue_u32_def)

lemma px_qbuf_run:
  "proxy_qbuf True ex_K px_L px_X px_G (ex_new VideoCapture 0 Mmap) [] px1 px_session1 =
     Some (px2, px_session2, Inr (ex_new VideoCapture 0 Mmap))"
  by (simp add: proxy_qbuf_def dequeue_output_buffers_def px_session1_def px_session2_def px_fresh_def exchange_buffer_def
      guest_v4l2_buffer_to_host_def register_userptr_addresses_def host_v4l2_buffer_to_guest_def ex_new_def
      count_queued_def is_capture_def should_poll_capture_def add_ov_def px1_def px2_def px_w0_def)

lemma px_streamon_run: "proxy_streamon px_X VideoCapture px2 px_session2 = Some (px2, px_session3, Inr ())"
  by (simp add: proxy_streamon_def is_capture_def px_session2_def px_session1_def px_fresh_def px_session3_def
      should_poll_capture_def set_capture_polling_def px2_def)

lemma px_reads:
  "read_obj ex_v4l2_requestbuffers [2, 0, 0, 0, 1, 0, 0, 0, 1, 0, 0, 0, 0, 0, 0, 0, 0, 0, 0, 0, 0, 0, 0, 0] =
     ([], Inr \<lparr>reqbufs_count = 2, reqbufs_type = 1, reqbufs_memory = 1, reqbufs_capabilities = 0,
              reqbufs_flags = 0, reqbufs_reserved = [0, 0, 0, 0]\<rparr>)"
  "read_obj ex_v4l2_buffer [0, 0, 0, 0, 1, 0, 0, 0, 1, 0, 0, 0, 0, 0, 0, 0, 0, 0, 0, 0, 0, 0, 0, 0] =
     ([], Inr \<lparr>buffer_index = 0, buffer_type = 1, buffer_length = 1, buffer_m_planes = 0, buffer_rest = [0, 0, 0, 0]\<rparr>)"
  "read_obj wire_u32 [1, 0, 0, 0] = ([], Inr 1)"
  by (simp_all add: read_obj_def read_exact_def into_native_def ex_v4l2_requestbuffers_def ex_v4l2_buffer_def
      wire_iso_def wire_pair_def wire_u32_def wire_u64_def wire_int_def wire_bytes_def)

lemma px_response_length:
  "length (as_bytes ex_v4l2_requestbuffers \<lparr>reqbufs_count = n, reqbufs_type = q, reqbufs_memory = m, reqbufs_capabilities = c,
     reqbufs_flags = 0, reqbufs_reserved = [0, 0, 0, 0]\<rparr>) = 24"
  "length (as_bytes ex_v4l2_buffer (ex_raw b)) = 24"
  by (simp_all add: ex_v4l2_requestbuffers_def ex_v4l2_buffer_def ex_raw_def wire_iso_def wire_pair_def wire_u32_def wire_u64_def
      wire_int_def wire_bytes_def)

lemma px_methods:
  "h_reqbufs (proxy_handler chk K L X G) = proxy_reqbufs chk K L X"
  "h_qbuf (proxy_handler chk K L X G) = proxy_qbuf chk K L X G"
  "h_streamon (proxy_handler chk K L X G) = proxy_streamon X"
  by (simp_all add: proxy_handler_def)

lemma px_dispatch:
  "\<exists>w'. dev_do_ioctl px_device VIDIOC_REQBUFS px_opened (px_fresh 0 0)
     [2, 0, 0, 0, 1, 0, 0, 0, 1, 0, 0, 0, 0, 0, 0, 0, 0, 0, 0, 0, 0, 0, 0, 0] (fresh_writer 99) =
     Some (px1, px_session1, [], w', Inr ())"
  "\<exists>w'. dev_do_ioctl px_device VIDIOC_QBUF px1 px_session1
     [0, 0, 0, 0, 1, 0, 0, 0, 1, 0, 0, 0, 0, 0, 0, 0, 0, 0, 0, 0, 0, 0, 0, 0] (fresh_writer 99) =
     Some (px2, px_session2, [], w', Inr ())"
  "\<exists>w'. dev_do_ioctl px_device VIDIOC_STREAMON px2 px_session2 [1, 0, 0, 0] (fresh_writer 99) =
     Some (px2, px_session3, [], w', Inr ())"
  by (simp_all add: proxy_device_def do_VIDIOC_REQBUFS_def do_VIDIOC_QBUF_def do_VIDIOC_STREAMON_def wr_ioctl_def w_ioctl_def
      wr_ioctl_with_err_payload_def px_reads no_payload_def ok_or_def rw_call_def map_ok_def px_methods px_reqbufs_run px_qbuf_run
      px_streamon_run ex_queue_n_def read_V4l2Buffer_def read_planes_def r_then_def r_ok_def ex_multiplanar_def ex_try_from_def
      write_V4l2Buffer_def write_output_def w_then_def write_response_def RespHeader.write_fits RespHeader_ok_err write_obj_eq
      px_response_length wire_unit_def wire_bytes_def)

text \<open>The commands of the guest, one after the other.\<close>

definition px_runner ::
  "((Px_World, unit, unit, Ex_Buffer) V4l2ProxyDevice, (nat, bool, u64) V4l2Session, (fd \<times> u32) list) VirtioMediaDeviceRunner"
where
  "px_runner = \<lparr>device = px2, poller = [(7, 0)], sessions = [0 \<mapsto> px_session3], session_id_counter = 1\<rparr>"

lemma px_open:
  "\<exists>w'. handle_command True px_device px_poller (Runner_new px0 []) open_cmd (fresh_writer 16) =
    Some (px_runner\<lparr>device := px_opened, sessions := [0 \<mapsto> px_fresh 0 0]\<rparr>, [], w')"
  by (simp add: handle_command_def run_command_def cmd_open_def read_commands reply_def add_session_def
      write_response_def OpenResp.write_fits Let_def proxy_device_def proxy_new_session_def V4l2Session_new_def
      ps_poll_fd_def px_poller_def px_opened_def px_fresh_def px_runner_def Runner_new_def add_ov_def V4l2ProxyDevice_new_def px_w0_def)

lemma px_request:
  assumes "run_reachable px_device px_poller px0 [] (px_runner\<lparr>device := d, sessions := [0 \<mapsto> s]\<rparr>)"
    and "\<exists>w'. dev_do_ioctl px_device i d s r (fresh_writer 99) = Some (d', s', [], w', Inr ())"
  shows "run_reachable px_device px_poller px0 [] (px_runner\<lparr>device := d', sessions := [0 \<mapsto> s']\<rparr>)"
proof -
  let ?run = "px_runner\<lparr>device := d, sessions := [0 \<mapsto> s]\<rparr>"
  from assms(2) obtain w' where "dev_do_ioctl px_device i d s r (fresh_writer 99) = Some (d', s', [], w', Inr ())" ..
  then have "handle_command True px_device px_poller ?run (ioctl_cmd 0 (as_u32 i) @ r) (fresh_writer 99) =
      Some (px_runner\<lparr>device := d', sessions := [0 \<mapsto> s']\<rparr>, [], w')"
    using ioctl_step [of ?run 0 s "as_u32 i" i px_device r "fresh_writer 99"]
    by (simp add: V4l2Ioctl_n_as_u32 del: as_u32.simps)
  from run_more [OF assms(1) this] show ?thesis .
qed

lemma px_reachable: "run_reachable px_device px_poller px0 [] px_runner"
proof -
  obtain w' where "handle_command True px_device px_poller (Runner_new px0 []) open_cmd (fresh_writer 16) =
    Some (px_runner\<lparr>device := px_opened, sessions := [0 \<mapsto> px_fresh 0 0]\<rparr>, [], w')"
    using px_open ..
  from run_more [OF run_new this]
  have "run_reachable px_device px_poller px0 [] (px_runner\<lparr>device := px_opened, sessions := [0 \<mapsto> px_fresh 0 0]\<rparr>)" .
  from px_request [OF px_request [OF px_request [OF this px_dispatch(1)] px_dispatch(2)] px_dispatch(3)]
  show ?thesis by (simp add: px_runner_def)
qed

end
