(* ===== verification/Proxy_Properties.thy ===== *)
theory Proxy_Properties
  imports Proxy_Example
begin

unbundle bit_operations_syntax

text \<open>
  The properties of the proxy of host V4L2 devices: the offsets it hands out, the counting of
  buffers, mappings, the delivery of events and buffers, and the translation of addresses.
\<close>

section \<open>Offsets\<close>

lemma proxy_inv_new: "proxy_inv X E (V4l2ProxyDevice_new path mem m os) Map.empty"
  by (simp add: proxy_inv_def dev_ok_def V4l2ProxyDevice_new_def registered_def bt_ok_def)

lemma reachable_proxy_inv:
  assumes "run_reachable (proxy_device True K L X G hm) P (V4l2ProxyDevice_new path mem m os) p run"
  shows "proxy_inv X E (device run) (sessions run)"
  using proxy_device.reachable_inv [OF assms proxy_inv_new] by (simp add: proxy_device.run_inv_def)

text \<open>An offset the manager has an entry for cannot be registered again.\<close>

lemma register_occupied:
  assumes "mgr_inv mgr" and "mgr_map mgr off = Some e" and "register_buffer chk mgr (Some off) len = Some (mgr', r)"
  shows "\<exists>err. r = Inl err"
proof (rule ccontr)
  assume "\<nexists>err. r = Inl err"
  then obtain off1 where r: "r = Inr off1" by (cases r) auto
  have "off1 = off"
    using assms(3) r by (cases "snd (register_buffer_by_offset mgr off len)")
      (auto simp: register_buffer_def split: prod.split_asm)
  with register_buffer_Inr(1) [OF assms(1) assms(3) [unfolded r]] assms(2) show False by simp
qed

text \<open>What is left of an entry when the planes of a session are dropped: it stays if another session owns it or it is mapped.\<close>

lemma drop_planes_occupied:
  assumes "dev_ok A d" and "mgr_map (pd_mmap_manager d) off = Some e"
    and "mb_mapping e \<noteq> None \<or> (\<exists>b. map_of (pd_mmap_buffers d) off = Some b \<and> \<not> p b)"
  shows "\<exists>e'. mgr_map (pd_mmap_manager (drop_planes p d)) off = Some e'"
proof -
  let ?offs = "map fst (filter (\<lambda>(_, b). p b) (pd_mmap_buffers d))"
  have inv: "mgr_inv (pd_mmap_manager d)" using assms(1) by (simp add: dev_ok_def)
  have keys: "distinct (map fst (pd_mmap_buffers d))" using assms(1) by (simp add: dev_ok_def bt_ok_distinct)
  have m: "mgr_map (pd_mmap_manager (drop_planes p d)) off =
      mgr_map (foldl (\<lambda>m off. fst (unregister_buffer m off)) (pd_mmap_manager d) ?offs) off"
    by (simp add: drop_planes_def unregister_all_def)
  show ?thesis
  proof (cases "off \<in> set ?offs")
    case True
    then obtain b where "(off, b) \<in> set (pd_mmap_buffers d)" "p b" by auto
    then have "map_of (pd_mmap_buffers d) off = Some b" using keys by simp
    with assms(3) \<open>p b\<close> have "mb_mapping e \<noteq> None" by auto
    with mgr.all_after [OF inv True] assms(2) show ?thesis unfolding m by (simp add: mgr.after_def)
  next
    case False
    with mgr.all_other [OF inv False] assms(2) show ?thesis unfolding m by simp
  qed
qed

section \<open>The host has finitely much to report\<close>

text \<open>
  Hypotheses on the host. A measure of the events and buffers that wait in it gets smaller with every
  one that is dequeued, and the poller reports device events only, CAPTURE buffers at most once, and
  only while it is told to.
\<close>

definition host_finite :: "('dev, 'pol, 'w, 'vb, 'x) V4l2Host_scheme \<Rightarrow> ('w \<Rightarrow> nat) \<Rightarrow> bool" where
  "host_finite X pend \<longleftrightarrow>
     (\<forall>dev w w' ev. x_dqevent X dev w = (w', Inr ev) \<longrightarrow> pend w' < pend w) \<and>
     (\<forall>queue dev w w' b. x_dqbuf X queue dev w = (w', Inr b) \<longrightarrow> pend w' < pend w)"

definition poll_reports :: "('dev, 'pol, 'w, 'vb, 'x) V4l2Host_scheme \<Rightarrow> ('pol \<Rightarrow> bool) \<Rightarrow> bool" where
  "poll_reports X E \<longleftrightarrow> (\<forall>pol w w' pol' events. poll X pol w = (w', pol', Some events) \<longrightarrow>
     (\<forall>n. PollOther n \<notin> set events) \<and> length (filter (\<lambda>ev. ev = PollDevice CaptureReady) events) \<le> 1 \<and>
     (PollDevice CaptureReady \<in> set events \<longrightarrow> E pol))"

lemma dequeue_events_returns:
  assumes "host_finite X pend"
  shows "\<exists>y. dequeue_events X s d = Some y"
proof (induction "pend (pd_os d)" arbitrary: d rule: less_induct)
  case less
  obtain w' r where q: "x_dqevent X (ps_device s) (pd_os d) = (w', r)" by fastforce
  show ?case
  proof (cases r)
    case (Inl e)
    with q show ?thesis by (cases e) (simp_all add: dequeue_events.simps)
  next
    case (Inr ev)
    with q assms have "pend w' < pend (pd_os d)" unfolding host_finite_def by blast
    with less [of "proxy_send (Event (SessionEvent_new (ps_id s) ev)) (d\<lparr>pd_os := w'\<rparr>)"] q Inr show ?thesis
      by (simp add: dequeue_events.simps [of X s d] proxy_send_def)
  qed
qed

lemma dequeue_output_loop_returns:
  assumes "host_finite X pend"
  shows "\<exists>y. dequeue_output_loop K X queue d s = Some y"
proof (induction "pend (pd_os d)" arbitrary: d s rule: less_induct)
  case less
  obtain w' r where q: "x_dqbuf X queue (ps_device s) (pd_os d) = (w', r)" by fastforce
  show ?case
  proof (cases r)
    case (Inl e)
    with q show ?thesis by (cases e) (simp_all add: dequeue_output_loop.simps)
  next
    case (Inr b)
    with q assms have "pend w' < pend (pd_os d)" unfolding host_finite_def by blast
    with less [of "proxy_send (DequeueBuffer (DequeueBufferEvent_new (ps_id s) b)) (d\<lparr>pd_os := w'\<rparr>)"] q Inr show ?thesis
      by (simp add: dequeue_output_loop.simps [of K X queue d s] proxy_send_def)
  qed
qed

lemma dequeue_output_buffers_returns:
  "host_finite X pend \<Longrightarrow> \<exists>d' s' r. dequeue_output_buffers K X d s = Some (d', s', r)"
  using dequeue_output_loop_returns [of X pend K _ d s]
  by (auto simp: dequeue_output_buffers_def split: option.split)

text \<open>A buffer that is counted as queued can be taken off the count.\<close>

lemma sub_one:
  fixes n :: u64
  assumes "0 < n"
  shows "sub_ov True n 1 = Some (n - 1)"
  using assms by (auto simp: sub_ov_def word_le_nat_alt word_less_nat_alt)

lemma dequeue_capture_buffer_returns:
  assumes "0 < ps_capture_num_queued s"
  shows "\<exists>d' s' r. dequeue_capture_buffer True K X d s = Some (d', s', r)"
proof -
  have "sub_ov True (ps_capture_num_queued (forget_userptrs qt i s)) 1 = Some (ps_capture_num_queued s - 1)" for qt i
    using sub_one [OF assms] by (simp add: forget_userptrs_def)
  then show ?thesis
    by (auto simp: dequeue_capture_buffer_def Let_def split: option.split prod.split sum.split DqBufError.split)
qed

lemma handle_poll_events_returns:
  assumes "host_finite X pend"
  shows "\<forall>n. PollOther n \<notin> set events \<Longrightarrow> length (filter (\<lambda>ev. ev = PollDevice CaptureReady) events) \<le> 1 \<Longrightarrow>
    (PollDevice CaptureReady \<in> set events \<Longrightarrow> 0 < ps_capture_num_queued s) \<Longrightarrow>
    \<exists>d' s' r. handle_poll_events True K X events d s = Some (d', s', r)"
proof (induction events arbitrary: d s)
  case (Cons event events)
  note IH = Cons.IH
  show ?case
  proof (cases "event = PollDevice CaptureReady")
    case True
    with Cons.prems obtain d1 s1 r1 where c: "dequeue_capture_buffer True K X d s = Some (d1, s1, r1)"
      using dequeue_capture_buffer_returns [of s K X d] by auto
    obtain d2 s2 r2 where o: "dequeue_output_buffers K X d1 s1 = Some (d2, s2, r2)"
      using dequeue_output_buffers_returns [OF assms] by blast
    have "PollDevice CaptureReady \<notin> set events" using Cons.prems(2) True by (auto simp: filter_empty_conv)
    with IH [of s2 d2] Cons.prems(1,2) True c o show ?thesis by (cases r1; cases r2) auto
  next
    case False
    with Cons.prems(1) have ev: "event = PollDevice V4L2Event"
      by (cases event; cases "case event of PollDevice e \<Rightarrow> e | _ \<Rightarrow> V4L2Event") auto
    obtain d1 r1 where e: "dequeue_events X s d = Some (d1, r1)" using dequeue_events_returns [OF assms] by fastforce
    with IH [of s d1] Cons.prems ev show ?thesis by (cases r1) auto
  qed
qed simp

section \<open>Properties of the offsets\<close>

text \<open>
  C10. After any sequence of commands and host events, the MMAP manager of the proxy is well formed, an
  offset is registered with it exactly when the table of planes has it, and every plane of the table
  is active and belongs to an open session, which is stored under the identifier it has.
\<close>

theorem proxy_offsets_consistent:
  assumes "run_reachable (proxy_device True K L X G hm) P (V4l2ProxyDevice_new path mem m os) p run"
  shows "mgr_inv (pd_mmap_manager (device run)) \<and>
    (\<forall>off. registered (pd_mmap_manager (device run)) off \<longleftrightarrow> map_of (pd_mmap_buffers (device run)) off \<noteq> None) \<and>
    (\<forall>off b. map_of (pd_mmap_buffers (device run)) off = Some b \<longrightarrow>
       mp_active b \<and> (\<exists>s. sessions run (mp_session_id b) = Some s \<and> ps_id s = mp_session_id b))"
proof -
  have inv: "proxy_inv X (\<lambda>_. False) (device run) (sessions run)" by (rule reachable_proxy_inv [OF assms])
  then have ok: "dev_ok (dom (sessions run)) (device run)" by (simp add: proxy_inv_def)
  have "mp_active b \<and> (\<exists>s. sessions run (mp_session_id b) = Some s \<and> ps_id s = mp_session_id b)"
    if "map_of (pd_mmap_buffers (device run)) off = Some b" for off b
  proof -
    have "mp_active b" "mp_session_id b \<in> dom (sessions run)"
      using map_of_value [OF that] ok unfolding dev_ok_def by blast+
    with inv show ?thesis by (auto simp: proxy_inv_def)
  qed
  moreover have "registered (pd_mmap_manager (device run)) off \<longleftrightarrow> map_of (pd_mmap_buffers (device run)) off \<noteq> None" for off
    using ok by (simp add: dev_ok_def map_of_eq_None_iff del: not_None_eq)
  ultimately show ?thesis using ok by (simp add: dev_ok_def)
qed

theorem proxy_offsets_consistent_witness:
  "registered (pd_mmap_manager px2) 0x1000 \<and> \<not> registered (pd_mmap_manager px2) 0x2000 \<and>
   (\<exists>s. sessions px_runner (mp_session_id (px_plane 0 1)) = Some s \<and> ps_id s = 0)"
proof -
  note props = proxy_offsets_consistent [OF px_reachable]
  have dev: "device px_runner = px2" by (simp add: px_runner_def)
  have bufs: "map_of (pd_mmap_buffers px2) 0x1000 = Some (px_plane 0 1)" "map_of (pd_mmap_buffers px2) 0x2000 = None"
    by (simp_all add: px2_def px1_def)
  have sid: "mp_session_id (px_plane 0 1) = 0" by (simp add: px_plane_def)
  from props bufs sid show ?thesis unfolding dev by fastforce
qed

text \<open>
  C37. A buffer whose offset is taken makes the proxy panic: if the first buffer that \<open>REQBUFS\<close> allocates
  on the host is at an offset at which the manager still has an entry after the old buffers of the queue
  were dropped, because another session has a plane there or because the guest still maps what was
  there, then the registration is refused and its result unwrapped.
\<close>

theorem proxy_offset_clash_panics:
  assumes "run_reachable (proxy_device True K L X G hm) P (V4l2ProxyDevice_new path mem m os) p run"
    and "x_reqbufs X queue memory cnt flags (ps_device s) (pd_os (device run)) = (w1, Inr rb)" and "0 < reqbufs_count rb"
    and "x_querybuf X queue 0 (ps_device s) w1 = (w2, Inr b)" and "vb_mmap_planes L b = Some ((off, len) # planes)"
    and "mgr_map (pd_mmap_manager (device run)) off = Some e"
    and "mb_mapping e \<noteq> None \<or> (\<exists>info. map_of (pd_mmap_buffers (device run)) off = Some info \<and> mp_session_id info \<noteq> ps_id s)"
  shows "proxy_reqbufs True K L X queue memory cnt flags (device run) s = None"
proof -
  define d0 where "d0 = (device run)\<lparr>pd_os := w1\<rparr>"
  define pred :: "V4l2MmapPlaneInfo \<Rightarrow> bool" where "pred = (\<lambda>b. mp_session_id b = ps_id s \<and> mp_queue b = queue)"
  have ok: "dev_ok (dom (sessions run)) d0"
    using reachable_proxy_inv [OF assms(1)] by (simp add: proxy_inv_def d0_def)
  obtain e' where e': "mgr_map (pd_mmap_manager (drop_planes pred d0)) off = Some e'"
    using drop_planes_occupied [OF ok, of off e pred] assms(6,7) by (auto simp: d0_def pred_def)
  have inv: "mgr_inv (pd_mmap_manager (drop_planes pred d0))" using drop_planes_ok [OF ok] by (simp add: dev_ok_def)
  have os: "pd_os (drop_planes pred d0) = w1" by (simp add: drop_planes_def d0_def)
  have "[unat (0 :: u32)..<unat (reqbufs_count rb)] = 0 # [1..<unat (reqbufs_count rb)]"
    using assms(3) by (simp add: upt_rec word_less_nat_alt)
  moreover have "add_planes True (ps_id s) queue i 0 ((off, len) # planes) ((drop_planes pred d0)\<lparr>pd_os := w2\<rparr>) = None" for i
    using register_occupied [OF inv e', of True len]
    by (cases "register_buffer True (pd_mmap_manager (drop_planes pred d0)) (Some off) len") auto
  ultimately have "update_mmap_offsets True K L X queue 0 (reqbufs_count rb) d0 s = None"
    using assms(4,5) os by (simp add: update_mmap_offsets_def pred_def [symmetric] del: upt.simps add_planes.simps)
  then show ?thesis using assms(2) by (simp add: proxy_reqbufs_def d0_def Let_def)
qed

theorem proxy_offset_clash_panics_witness:
  "proxy_reqbufs True ex_K px_L px_X VideoCapture Mmap 1 0 (device px_runner) (px_fresh 1 1) = None"
proof (rule proxy_offset_clash_panics [OF px_reachable])
  show "x_reqbufs px_X VideoCapture Mmap 1 0 (ps_device (px_fresh 1 1)) (pd_os (device px_runner)) =
      ((pd_os px2)\<lparr>pw_alloc := (pw_alloc (pd_os px2))(1 := 1)\<rparr>,
       Inr \<lparr>reqbufs_count = 1, reqbufs_type = ex_queue_u32 VideoCapture, reqbufs_memory = 1, reqbufs_capabilities = 0x11,
            reqbufs_flags = 0, reqbufs_reserved = [0, 0, 0, 0]\<rparr>)"
    by (simp add: px_reqbufs_def px_fresh_def px_runner_def)
  show "x_querybuf px_X VideoCapture 0 (ps_device (px_fresh 1 1)) ((pd_os px2)\<lparr>pw_alloc := (pw_alloc (pd_os px2))(1 := 1)\<rparr>) =
      ((pd_os px2)\<lparr>pw_alloc := (pw_alloc (pd_os px2))(1 := 1)\<rparr>, Inr (px_buffer VideoCapture 0))"
    by (simp add: px_querybuf_def px_fresh_def)
  show "vb_mmap_planes px_L (px_buffer VideoCapture 0) = Some ((0, 0x1000) # [])"
    by (simp add: px_buffer_def)
  show "mgr_map (pd_mmap_manager (device px_runner)) 0 = Some (MmapBuffer_new 0 0x1000)"
    by (simp add: px_runner_def px2_def px1_def mgr_map_def MmapBuffer_new_def)
  show "mb_mapping (MmapBuffer_new 0 0x1000) \<noteq> None \<or>
      (\<exists>info. map_of (pd_mmap_buffers (device px_runner)) 0 = Some info \<and> mp_session_id info \<noteq> ps_id (px_fresh 1 1))"
    by (simp add: px_runner_def px2_def px1_def px_plane_def px_fresh_def)
qed simp

text \<open>
  C34. Mapping a plane. In every reachable state \<open>do_mmap\<close> returns. An offset that is not in the table
  is refused with \<open>EINVAL\<close>. Otherwise the host is asked to export the plane on the device of the session
  that asks, whichever session the plane belongs to, with write access exactly if the guest wants it;
  if the host refuses, its error is the answer and the manager is left as it is, and if it exports the
  plane, the manager maps the file it returned as its specification says.
\<close>

theorem proxy_mmap_refines:
  assumes "run_reachable (proxy_device True K L X G hm) P (V4l2ProxyDevice_new path mem m os) p run"
  shows "\<exists>d' r. proxy_do_mmap True X hm fl off (device run) s = Some (d', s, r) \<and>
    (case map_of (pd_mmap_buffers (device run)) off of
       None \<Rightarrow> d' = device run \<and> r = Inl EINVAL
     | Some b \<Rightarrow>
         (case x_expbuf X (mp_queue b) (unat (mp_index b)) (unat (mp_plane b)) (fl AND VIRTIO_MEDIA_MMAP_FLAG_RW \<noteq> 0)
             (ps_device s) (pd_os (device run)) of
            (w', Inl e) \<Rightarrow> d' = (device run)\<lparr>pd_os := w'\<rparr> \<and> r = Inl e
          | (w', Inr f) \<Rightarrow>
              (case spec_create hm off f (fl AND VIRTIO_MEDIA_MMAP_FLAG_RW \<noteq> 0) (mgr_map (pd_mmap_manager (device run)))
                  (mapper (pd_mmap_manager (device run))) of
                 (\<sigma>, m', res) \<Rightarrow> mgr_map (pd_mmap_manager d') = \<sigma> \<and> mapper (pd_mmap_manager d') = m' \<and>
                   r = map_sum (\<lambda>_. EINVAL) id res)))"
proof (cases "map_of (pd_mmap_buffers (device run)) off")
  case None
  then show ?thesis by (simp add: proxy_do_mmap_def Let_def)
next
  case (Some b)
  let ?d = "device run" and ?rw = "fl AND VIRTIO_MEDIA_MMAP_FLAG_RW \<noteq> 0"
  obtain w' x where q: "x_expbuf X (mp_queue b) (unat (mp_index b)) (unat (mp_plane b)) ?rw (ps_device s) (pd_os ?d) = (w', x)"
    by fastforce
  show ?thesis
  proof (cases x)
    case (Inl e)
    with Some q show ?thesis by (simp add: proxy_do_mmap_def Let_def)
  next
    case (Inr f)
    have "mgr_inv (pd_mmap_manager ?d)"
      using reachable_proxy_inv [OF assms, of "\<lambda>_. False"] by (simp add: proxy_inv_def dev_ok_def)
    from create_mapping_refines [OF this, of True hm off f ?rw] obtain mgr res where
      "create_mapping True hm (pd_mmap_manager ?d) off f ?rw = Some (mgr, res)" and
      "spec_create hm off f ?rw (mgr_map (pd_mmap_manager ?d)) (mapper (pd_mmap_manager ?d)) = (mgr_map mgr, mapper mgr, res)"
      by blast
    with Some q Inr show ?thesis by (cases res) (auto simp: proxy_do_mmap_def Let_def)
  qed
qed

theorem proxy_mmap_refines_witness:
  "(\<exists>d'. proxy_do_mmap True px_X DummyHostMemoryMapper 0 0x1000 px2 px_session3 =
     Some (d', px_session3, Inr (0x80001000, 0x1000))) \<and>
   (\<exists>d'. proxy_do_mmap True px_X DummyHostMemoryMapper 0 0x1000 px2 (px_fresh 1 1) = Some (d', px_fresh 1 1, Inl EINVAL) \<and>
     pd_mmap_manager d' = pd_mmap_manager px2)"
proof -
  have dev: "device px_runner = px2" by (simp add: px_runner_def)
  have look: "map_of (pd_mmap_buffers px2) 0x1000 = Some (px_plane 0 1)" by (simp add: px2_def px1_def)
  note eval = dev look px_expbuf_def px_plane_def px_session3_def px_session2_def px_session1_def px_fresh_def
    px2_def px1_def px_w0_def spec_create_def mgr_map_def MmapBuffer_new_def DummyHostMemoryMapper_def
  have "\<exists>d'. proxy_do_mmap True px_X DummyHostMemoryMapper 0 0x1000 px2 px_session3 =
     Some (d', px_session3, Inr (0x80001000, 0x1000))"
    using proxy_mmap_refines [OF px_reachable, of 0 "0x1000" px_session3] by (auto simp: eval)
  moreover have "\<exists>d'. proxy_do_mmap True px_X DummyHostMemoryMapper 0 0x1000 px2 (px_fresh 1 1) =
     Some (d', px_fresh 1 1, Inl EINVAL) \<and> pd_mmap_manager d' = pd_mmap_manager px2"
    using proxy_mmap_refines [OF px_reachable, of 0 "0x1000" "px_fresh 1 1"] by (auto simp: eval)
  ultimately show ?thesis ..
qed

section \<open>Properties of events and buffers\<close>

text \<open>
  C4. The proxy handles every event of the host without a panic and in finite time: in every reachable
  state, for every open session whose requests to stop reporting CAPTURE buffers have all succeeded, if the host has finitely
  many events and buffers to report and the poller works as documented, then \<open>process_events\<close>
  returns. In particular the count of queued CAPTURE buffers never goes below zero, because such a
  session only listens for CAPTURE buffers while it streams and has buffers queued. The code goes on
  after a request to stop that failed; nothing is said about such a session.
\<close>

theorem proxy_process_events_returns:
  assumes "run_reachable (proxy_device True K L X G hm) P (V4l2ProxyDevice_new path mem m os) p run"
    and "sessions run sid = Some s" and "poller_laws X E F" and "\<not> F (ps_poller s)"
    and "poll_reports X E" and "host_finite X pend"
  shows "(\<exists>d' s' r. dev_process_events (proxy_device True K L X G hm) (device run) s = Some (d', s', r)) \<and>
    (E (ps_poller s) \<longrightarrow> ps_capture_streaming s \<and> 0 < ps_capture_num_queued s)"
proof -
  have "poll_ok (\<lambda>pol. E pol \<and> \<not> F pol) s"
    using reachable_proxy_inv [OF assms(1)] poller_laws_tracked [OF assms(3)] assms(2) unfolding proxy_inv_def by blast
  then have E: "E (ps_poller s) \<longrightarrow> ps_capture_streaming s \<and> 0 < ps_capture_num_queued s"
    using assms(4) by (simp add: poll_ok_def should_poll_capture_def)
  obtain w' pol' evs where q: "poll X (ps_poller s) (pd_os (device run)) = (w', pol', evs)" by (cases rule: prod_cases3)
  have "\<exists>d' s' r. proxy_process_events True K X (device run) s = Some (d', s', r)"
  proof (cases evs)
    case None
    with q show ?thesis by (simp add: proxy_process_events_def)
  next
    case (Some events)
    with q assms(5) have "\<forall>n. PollOther n \<notin> set events" "length (filter (\<lambda>ev. ev = PollDevice CaptureReady) events) \<le> 1"
      "PollDevice CaptureReady \<in> set events \<Longrightarrow> E (ps_poller s)"
      unfolding poll_reports_def by blast+
    with handle_poll_events_returns [OF assms(6), of events "s\<lparr>ps_poller := pol'\<rparr>" K "(device run)\<lparr>pd_os := w'\<rparr>"] E
    show ?thesis using q Some by (simp add: proxy_process_events_def)
  qed
  with E show ?thesis by (simp add: proxy_device_def)
qed

text \<open>The poller of the example host does what it is told, and its requests do not fail.\<close>

lemma px_poller_laws: "poller_laws px_X (\<lambda>pol. pol) (\<lambda>pol. False)"
  by (simp add: poller_laws_def px_poll_def)

lemma px_poll_reports: "poll_reports px_X (\<lambda>pol. pol)"
  by (auto simp: poll_reports_def px_poll_def)

lemma px_host_finite: "host_finite px_X (\<lambda>w. length (pw_queued w) + length (pw_events w))"
  by (auto simp: host_finite_def px_dqevent_def px_dqbuf_def split: list.split_asm if_split_asm)

theorem proxy_process_events_returns_witness:
  "ps_poller px_session3 \<and> fst (snd (px_poll (ps_poller px_session3) (pd_os px2))) \<and>
   (\<exists>d' s' r. dev_process_events px_device px2 px_session3 = Some (d', s', r)) \<and> 0 < ps_capture_num_queued px_session3"
  using proxy_process_events_returns [OF px_reachable _ px_poller_laws _ px_poll_reports px_host_finite, of 0 px_session3]
  by (simp add: px_runner_def px_poll_def) (simp add: px_session3_def)

text \<open>A session that has CAPTURE buffers queued and streams does not touch its poller in \<open>QBUF\<close>.\<close>

lemma dequeue_output_buffers_session:
  assumes "dequeue_output_buffers K X d s = Some (d', s', r)"
  obtains u where "s' = s\<lparr>ps_userptr_buffers := u\<rparr>"
  using assms dequeue_output_loop_same [of K X _ d s "(d', s', r)"] that [of "ps_userptr_buffers s"] that
  by (fastforce simp: dequeue_output_buffers_def split: option.split_asm if_split_asm)

lemma exchange_buffer_session:
  assumes "exchange_buffer K L G host_call b regions d s = (d', s', r)"
  obtains u where "s' = s\<lparr>ps_userptr_buffers := u\<rparr>"
proof -
  have "\<exists>u. s = s\<lparr>ps_userptr_buffers := u\<rparr>" by (rule exI [of _ "ps_userptr_buffers s"]) simp
  moreover have "\<exists>u. register_userptr_addresses K L h g rs s = s\<lparr>ps_userptr_buffers := u\<rparr>" for h g rs
    using calculation by (auto simp: register_userptr_addresses_def split: option.split)
  ultimately have "\<exists>u. s' = s\<lparr>ps_userptr_buffers := u\<rparr>"
    using assms by (auto simp: exchange_buffer_def Let_def split: prod.split_asm option.split_asm sum.split_asm)
  with that show thesis by blast
qed

lemma count_queued_poller:
  assumes "count_queued True X queue d s = Some (d', s')" and "should_poll_capture s"
  shows "ps_poller s' = ps_poller s \<and> should_poll_capture s'"
proof -
  have "0 < n" if "add_ov True (ps_capture_num_queued s) 1 = Some n" for n
    using that assms(2) by (auto simp: add_ov_def should_poll_capture_def word_less_nat_alt unat_word_ariths split: if_split_asm)
  with assms show ?thesis
    by (auto simp: count_queued_def Let_def should_poll_capture_def elim!: bind_SomeE split: if_split_asm)
qed

lemma qbuf_keeps_poller:
  assumes "proxy_qbuf True K L X G guest regions d s = Some (d', s', x)" and "should_poll_capture s"
  shows "ps_poller s' = ps_poller s \<and> should_poll_capture s'"
proof -
  obtain d1 s1 r1 where o: "dequeue_output_buffers K X d s = Some (d1, s1, r1)"
    and rest: "(case exchange_buffer K L G (x_qbuf X) guest regions d1 s1 of
        (d2, s2, Inl e) \<Rightarrow> Some (d2, s2, Inl e)
      | (d2, s2, Inr out_buffer) \<Rightarrow>
          map_option (\<lambda>(d3, s3). (d3, s3, Inr out_buffer)) (count_queued True X (vb_queue K guest) d2 s2)) = Some (d', s', x)"
    using assms(1) by (auto simp: proxy_qbuf_def elim!: bind_SomeE)
  obtain d2 s2 r2 where e: "exchange_buffer K L G (x_qbuf X) guest regions d1 s1 = (d2, s2, r2)" by (cases rule: prod_cases3)
  obtain u where s1: "s1 = s\<lparr>ps_userptr_buffers := u\<rparr>" by (rule dequeue_output_buffers_session [OF o])
  obtain u' where s2: "s2 = s1\<lparr>ps_userptr_buffers := u'\<rparr>" by (rule exchange_buffer_session [OF e])
  have p: "ps_poller s2 = ps_poller s" "should_poll_capture s2"
    using assms(2) by (simp_all add: s1 s2 should_poll_capture_def)
  show ?thesis
  proof (cases r2)
    case (Inl err)
    with rest e p show ?thesis by simp
  next
    case (Inr b)
    with rest e obtain d3 where "count_queued True X (vb_queue K guest) d2 s2 = Some (d3, s')" by auto
    from count_queued_poller [OF this p(2)] p(1) show ?thesis by simp
  qed
qed

lemma poller_laws_disable:
  assumes "poller_laws X E F" and "disable_event X CaptureReady pol w = (w', pol', ok)"
  shows "(ok \<longrightarrow> \<not> E pol') \<and> F pol' = (F pol \<or> \<not> ok)"
  using assms(1) [unfolded poller_laws_def, THEN conjunct2, THEN conjunct2, THEN conjunct2, THEN conjunct1, rule_format, OF assms(2)] .

text \<open>
  C32. The end of a stream stops the CAPTURE queue: when the buffer that a session takes from the host
  is marked as the last one while others are still queued, the session stops listening for CAPTURE
  buffers, although it streams and has buffers queued; and from then on neither a \<open>QBUF\<close> nor a \<open>STREAMON\<close>
  makes it listen again, whatever their outcome, so that further buffers of the host stay there.
\<close>

theorem proxy_last_stops_polling:
  assumes "poller_laws X E F" and "dequeue_capture_buffer True K X d s = Some (d1, s1, r)" and "\<not> F (ps_poller s1)"
    and "ps_capture_queue_type s = Some queue" and "x_dqbuf X queue (ps_device s) (pd_os d) = (w', Inr b)"
    and "vb_flags K b AND BUF_LAST K = BUF_LAST K" and "ps_capture_streaming s" and "1 < ps_capture_num_queued s"
  shows "\<not> E (ps_poller s1) \<and> should_poll_capture s1 \<and>
    (\<forall>L G guest regions d2 d3 s3 x. proxy_qbuf True K L X G guest regions d2 s1 = Some (d3, s3, x) \<longrightarrow>
       ps_poller s3 = ps_poller s1 \<and> should_poll_capture s3) \<and>
    (\<forall>queue' d2 d3 s3 x. proxy_streamon X queue' d2 s1 = Some (d3, s3, x) \<longrightarrow>
       ps_poller s3 = ps_poller s1 \<and> should_poll_capture s3)"
proof -
  define s0 where "s0 = forget_userptrs (Some queue) (ucast (vb_index K b)) s"
  have s0: "ps_capture_num_queued s0 = ps_capture_num_queued s" "ps_capture_streaming s0" "ps_poller s0 = ps_poller s"
    using assms(7) by (simp_all add: s0_def forget_userptrs_def)
  let ?n = "ps_capture_num_queued s - 1"
  have n: "sub_ov True (ps_capture_num_queued s) 1 = Some ?n" "0 < ?n"
  proof -
    have "?n \<noteq> 0" using assms(8) by auto
    then show "0 < ?n" by (simp only: word_neq_0_conv)
    show "sub_ov True (ps_capture_num_queued s) 1 = Some ?n" by (rule sub_one) (use assms(8) in \<open>rule less_trans [rotated], simp\<close>)
  qed
  obtain w2 pol' ok where dis: "disable_event X CaptureReady (ps_poller s) w' = (w2, pol', ok)" by (cases rule: prod_cases3)
  have s1: "s1 = s0\<lparr>ps_capture_num_queued := ?n, ps_poller := pol'\<rparr>"
    using assms(2,4-6) n dis s0
    by (auto simp: dequeue_capture_buffer_def Let_def s0_def [symmetric] set_capture_polling_def)
  have "(ok \<longrightarrow> \<not> E pol') \<and> F pol' = (F (ps_poller s) \<or> \<not> ok)" by (rule poller_laws_disable [OF assms(1) dis])
  with assms(3) have "\<not> E (ps_poller s1)" by (simp add: s1)
  moreover have poll: "should_poll_capture s1" using s0 n(2) by (simp add: s1 should_poll_capture_def)
  moreover have "ps_poller s3 = ps_poller s1 \<and> should_poll_capture s3"
    if "proxy_qbuf True K L X G guest regions d2 s1 = Some (d3, s3, x)" for L G guest regions d2 d3 s3 x
    by (rule qbuf_keeps_poller [OF that poll])
  moreover have "ps_poller s3 = ps_poller s1 \<and> should_poll_capture s3"
    if "proxy_streamon X queue' d2 s1 = Some (d3, s3, x)" for queue' d2 d3 s3 x
    using that poll
    by (auto simp: proxy_streamon_def Let_def should_poll_capture_def split: prod.split_asm sum.split_asm if_split_asm)
  ultimately show ?thesis by blast
qed

definition px_drained :: "(nat, bool, u64) V4l2Session" where
  "px_drained = px_session3\<lparr>ps_capture_num_queued := 2\<rparr>"

definition px_draining :: "(Px_World, unit, unit, Ex_Buffer) V4l2ProxyDevice" where
  "px_draining = px2\<lparr>pd_os := px_w0\<lparr>pw_queued := [(px_buffer VideoCapture 0)\<lparr>ex_flags := BUF_LAST ex_K\<rparr>, px_buffer VideoCapture 1]\<rparr>\<rparr>"

theorem proxy_last_stops_polling_witness:
  "\<exists>d1 s1. dequeue_capture_buffer True ex_K px_X px_draining px_drained = Some (d1, s1, Inr ()) \<and>
    \<not> ps_poller s1 \<and> should_poll_capture s1 \<and> pw_queued (pd_os d1) = [px_buffer VideoCapture 1]"
proof -
  have dq: "x_dqbuf px_X VideoCapture (ps_device px_drained) (pd_os px_draining) =
      (px_w0\<lparr>pw_queued := [px_buffer VideoCapture 1]\<rparr>, Inr ((px_buffer VideoCapture 0)\<lparr>ex_flags := BUF_LAST ex_K\<rparr>))"
    by (simp add: px_dqbuf_def px_draining_def px_buffer_def ex_new_def)
  have s: "ps_capture_queue_type px_drained = Some VideoCapture" "ps_capture_streaming px_drained" "1 < ps_capture_num_queued px_drained"
    by (simp_all add: px_drained_def px_session3_def px_session2_def px_session1_def px_fresh_def)
  have two: "ps_capture_num_queued px_drained = 2" by (simp add: px_drained_def)
  obtain d1 s1 where r: "dequeue_capture_buffer True ex_K px_X px_draining px_drained = Some (d1, s1, Inr ())"
      "pw_queued (pd_os d1) = [px_buffer VideoCapture 1]"
    using dq s by (auto simp: two dequeue_capture_buffer_def Let_def forget_userptrs_def sub_ov_def set_capture_polling_def proxy_send_def
        split: prod.split)
  from proxy_last_stops_polling [OF px_poller_laws r(1) _ s(1) dq _ s(2,3)] r show ?thesis by auto
qed

text \<open>
  What the host has to report, as a list: dequeueing gives these events, and then says that there are
  no more; likewise for the buffers of a queue.
\<close>

fun reports_events :: "('dev, 'pol, 'w, 'vb, 'x) V4l2Host_scheme \<Rightarrow> 'dev \<Rightarrow> v4l2_event list \<Rightarrow> 'w \<Rightarrow> 'w \<Rightarrow> bool" where
  "reports_events X dev [] w w' \<longleftrightarrow> x_dqevent X dev w = (w', Inl DqEventNotReady)"
| "reports_events X dev (ev # evs) w w' \<longleftrightarrow>
     (case x_dqevent X dev w of (w1, r) \<Rightarrow> r = Inr ev \<and> reports_events X dev evs w1 w')"

fun reports_buffers ::
  "('dev, 'pol, 'w, 'vb, 'x) V4l2Host_scheme \<Rightarrow> QueueType \<Rightarrow> 'dev \<Rightarrow> 'vb list \<Rightarrow> 'w \<Rightarrow> 'w \<Rightarrow> bool"
where
  "reports_buffers X queue dev [] w w' \<longleftrightarrow>
     x_dqbuf X queue dev w = (w', Inl DqBufNotReady) \<or> x_dqbuf X queue dev w = (w', Inl DqBufEos)"
| "reports_buffers X queue dev (b # bs) w w' \<longleftrightarrow>
     (case x_dqbuf X queue dev w of (w1, r) \<Rightarrow> r = Inr b \<and> reports_buffers X queue dev bs w1 w')"

lemma dequeue_events_reported:
  "reports_events X (ps_device s) evs (pd_os d) w' \<Longrightarrow>
   dequeue_events X s d = Some (d\<lparr>pd_os := w', pd_evt_queue :=
     pd_evt_queue d @ map (\<lambda>ev. Event (SessionEvent_new (ps_id s) ev)) evs\<rparr>, Inr ())"
proof (induction evs arbitrary: d)
  case Nil
  then show ?case by (simp add: dequeue_events.simps)
next
  case (Cons ev evs)
  obtain w1 where q: "x_dqevent X (ps_device s) (pd_os d) = (w1, Inr ev)" and r: "reports_events X (ps_device s) evs w1 w'"
    using Cons.prems by auto
  from Cons.IH [of "proxy_send (Event (SessionEvent_new (ps_id s) ev)) (d\<lparr>pd_os := w1\<rparr>)"] r q show ?case
    by (simp add: dequeue_events.simps [of X s d] proxy_send_def)
qed

lemma dequeue_output_reported:
  "reports_buffers X queue (ps_device s) bs (pd_os d) w' \<Longrightarrow>
   dequeue_output_loop K X queue d s = Some (d\<lparr>pd_os := w', pd_evt_queue :=
     pd_evt_queue d @ map (\<lambda>b. DequeueBuffer (DequeueBufferEvent_new (ps_id s) b)) bs\<rparr>,
     s\<lparr>ps_userptr_buffers := filter (\<lambda>(_, v). Some (up_queue v) \<noteq> ps_output_queue_type s \<or>
       up_index v \<notin> (\<lambda>b. ucast (vb_index K b)) ` set bs) (ps_userptr_buffers s)\<rparr>, Inr ())"
proof (induction bs arbitrary: d s)
  case Nil
  have "filter (\<lambda>(_, v). Some (up_queue v) \<noteq> ps_output_queue_type s \<or> up_index v \<notin> (\<lambda>b. ucast (vb_index K b)) ` set [])
      (ps_userptr_buffers s) = ps_userptr_buffers s"
    by (simp add: split_def)
  moreover from Nil have "x_dqbuf X queue (ps_device s) (pd_os d) = (w', Inl DqBufNotReady) \<or>
      x_dqbuf X queue (ps_device s) (pd_os d) = (w', Inl DqBufEos)"
    by simp
  ultimately show ?case by (elim disjE) (simp_all add: dequeue_output_loop.simps [of K X queue d s])
next
  case (Cons b bs)
  obtain w1 where q: "x_dqbuf X queue (ps_device s) (pd_os d) = (w1, Inr b)" and r: "reports_buffers X queue (ps_device s) bs w1 w'"
    using Cons.prems by auto
  let ?d = "proxy_send (DequeueBuffer (DequeueBufferEvent_new (ps_id s) b)) (d\<lparr>pd_os := w1\<rparr>)"
    and ?s = "forget_userptrs (ps_output_queue_type s) (ucast (vb_index K b)) s"
  have "dequeue_output_loop K X queue d s = dequeue_output_loop K X queue ?d ?s"
    using q by (simp add: dequeue_output_loop.simps [of K X queue d s])
  also have "\<dots> = Some (?d\<lparr>pd_os := w', pd_evt_queue :=
      pd_evt_queue ?d @ map (\<lambda>b. DequeueBuffer (DequeueBufferEvent_new (ps_id ?s) b)) bs\<rparr>,
      ?s\<lparr>ps_userptr_buffers := filter (\<lambda>(_, v). Some (up_queue v) \<noteq> ps_output_queue_type ?s \<or>
        up_index v \<notin> (\<lambda>b. ucast (vb_index K b)) ` set bs) (ps_userptr_buffers ?s)\<rparr>, Inr ())"
    by (rule Cons.IH) (use r in \<open>simp add: proxy_send_def forget_userptrs_def\<close>)
  finally show ?case
    by (simp add: proxy_send_def forget_userptrs_def filter_filter split_def)
      (auto intro!: arg_cong [where f = "\<lambda>u. s\<lparr>ps_userptr_buffers := u\<rparr>"] filter_cong)
qed

text \<open>
  C35. Events reach the guest. If the host device of a session has some events to report, then a
  subscription that asks for the initial events sends exactly these to the guest, in their order and
  under the identifier of the session, before it is answered, and so does the handling of a poll event.
\<close>

theorem proxy_events_delivered:
  assumes "reports_events X (ps_device s) evs w1 w'"
  shows "(x_subscribe_event X event flags (ps_device s) (pd_os d) = (w1, Inr ()) \<longrightarrow> flags AND SEND_INITIAL L = SEND_INITIAL L \<longrightarrow>
      proxy_subscribe_event L X event flags d s = Some (d\<lparr>pd_os := w', pd_evt_queue :=
        pd_evt_queue d @ map (\<lambda>ev. Event (SessionEvent_new (ps_id s) ev)) evs\<rparr>, s, Inr ())) \<and>
    (poll X (ps_poller s) (pd_os d) = (w1, pol', Some [PollDevice V4L2Event]) \<longrightarrow>
      proxy_process_events chk K X d s = Some (d\<lparr>pd_os := w', pd_evt_queue :=
        pd_evt_queue d @ map (\<lambda>ev. Event (SessionEvent_new (ps_id s) ev)) evs\<rparr>, s\<lparr>ps_poller := pol'\<rparr>, Inr ()))"
proof -
  have "dequeue_events X s (d\<lparr>pd_os := w1\<rparr>) = Some (d\<lparr>pd_os := w', pd_evt_queue :=
      pd_evt_queue d @ map (\<lambda>ev. Event (SessionEvent_new (ps_id s) ev)) evs\<rparr>, Inr ())"
    using dequeue_events_reported [of X s evs "d\<lparr>pd_os := w1\<rparr>" w'] assms by simp
  moreover have "dequeue_events X (s\<lparr>ps_poller := pol'\<rparr>) (d\<lparr>pd_os := w1\<rparr>) = Some (d\<lparr>pd_os := w', pd_evt_queue :=
      pd_evt_queue d @ map (\<lambda>ev. Event (SessionEvent_new (ps_id s) ev)) evs\<rparr>, Inr ())"
    using dequeue_events_reported [of X "s\<lparr>ps_poller := pol'\<rparr>" evs "d\<lparr>pd_os := w1\<rparr>" w'] assms by simp
  ultimately show ?thesis by (simp add: proxy_subscribe_event_def proxy_process_events_def)
qed

theorem proxy_events_delivered_witness:
  "proxy_subscribe_event px_L px_X Eos 1 px2 px_session3 = Some (px2\<lparr>pd_os := (pd_os px2)\<lparr>pw_events := []\<rparr>, pd_evt_queue :=
     [Event (SessionEvent_new 0 (px_event 2)), Event (SessionEvent_new 0 (px_event 5))]\<rparr>, px_session3, Inr ())"
proof -
  have "reports_events px_X (ps_device px_session3) [px_event 2, px_event 5] (pd_os px2) ((pd_os px2)\<lparr>pw_events := []\<rparr>)"
    by (simp add: px_dqevent_def px2_def px1_def px_w0_def)
  from proxy_events_delivered [OF this, of Eos 1 px2 px_L] show ?thesis
    by (simp add: px_session3_def px_session2_def px_session1_def px_fresh_def) (simp add: px2_def px1_def V4l2ProxyDevice_new_def)
qed

text \<open>
  C36. Processed OUTPUT buffers come back. If the OUTPUT queue of a session streams and has buffers
  queued, and the host has finished with some of them, then exactly these are sent to the guest in
  the order of the host, and of the user pointers the session keeps exactly those of the other queue
  and of the other buffers; else nothing is dequeued.
\<close>

theorem proxy_output_returned:
  assumes "ps_output_queue_type s = Some queue" and "reports_buffers X queue (ps_device s) bs (pd_os d) w'"
  shows "dequeue_output_buffers K X d s = Some
    (if ps_output_streaming s \<and> ps_output_num_queued s \<noteq> 0
     then (d\<lparr>pd_os := w', pd_evt_queue := pd_evt_queue d @ map (\<lambda>b. DequeueBuffer (DequeueBufferEvent_new (ps_id s) b)) bs\<rparr>,
           s\<lparr>ps_userptr_buffers := filter (\<lambda>(_, v). up_queue v \<noteq> queue \<or>
              up_index v \<notin> (\<lambda>b. ucast (vb_index K b)) ` set bs) (ps_userptr_buffers s)\<rparr>, Inr ())
     else (d, s, Inr ()))"
  using dequeue_output_reported [OF assms(2), of K] assms(1) by (auto simp: dequeue_output_buffers_def)

text \<open>A session with two OUTPUT buffers queued, of which the host has finished with the first.\<close>

definition px_out_session :: "(nat, bool, u64) V4l2Session" where
  "px_out_session = (px_fresh 0 0)\<lparr>ps_output_queue_type := Some VideoOutput, ps_output_streaming := True, ps_output_num_queued := 2,
     ps_userptr_buffers := [(0x1000, \<lparr>up_queue = VideoOutput, up_index = 0, up_guest_addr = 0x10, up_guest_resource = 0\<rparr>),
       (0x2000, \<lparr>up_queue = VideoOutput, up_index = 1, up_guest_addr = 0x20, up_guest_resource = 0\<rparr>),
       (0x3000, \<lparr>up_queue = VideoCapture, up_index = 0, up_guest_addr = 0x30, up_guest_resource = 0\<rparr>)]\<rparr>"

definition px_out_device :: "(Px_World, unit, unit, Ex_Buffer) V4l2ProxyDevice" where
  "px_out_device = px0\<lparr>pd_os := px_w0\<lparr>pw_queued := [ex_new VideoOutput 0 UserPtr]\<rparr>\<rparr>"

theorem proxy_output_returned_witness:
  "\<exists>d' s'. dequeue_output_buffers ex_K px_X px_out_device px_out_session = Some (d', s', Inr ()) \<and>
     pd_evt_queue d' = [DequeueBuffer (DequeueBufferEvent_new 0 (ex_new VideoOutput 0 UserPtr))] \<and>
     map fst (ps_userptr_buffers s') = [0x2000, 0x3000]"
proof -
  have q: "ps_output_queue_type px_out_session = Some VideoOutput" by (simp add: px_out_session_def)
  have r: "reports_buffers px_X VideoOutput (ps_device px_out_session) [ex_new VideoOutput 0 UserPtr] (pd_os px_out_device)
      ((pd_os px_out_device)\<lparr>pw_queued := []\<rparr>)"
    by (simp add: px_dqbuf_def px_out_device_def)
  have "ex_index (ex_new VideoOutput 0 UserPtr) = 0" by (simp add: ex_new_def)
  with proxy_output_returned [OF q r, of ex_K] show ?thesis
    by (simp add: px_out_session_def px_out_device_def px_fresh_def V4l2ProxyDevice_new_def)
qed

section \<open>Addresses\<close>

text \<open>
  What the proxy relies on in the \<open>v4l2r\<close> crate: replacing the user pointers of a buffer replaces them
  and nothing else the proxy reads, and the pointer of a control is what it was set to.
\<close>

definition userptr_laws :: "'vb v4l2r_proxy \<Rightarrow> bool" where
  "userptr_laws L \<longleftrightarrow> (\<forall>b planes ps. vb_userptr_planes L b = Some planes \<longrightarrow> length ps = length planes \<longrightarrow>
     vb_userptr_planes L (vb_set_userptrs L b ps) = Some (zip (map fst planes) ps))"

definition ext_ctrl_laws :: "'vb v4l2r_proxy \<Rightarrow> bool" where
  "ext_ctrl_laws L \<longleftrightarrow> (\<forall>c p. ext_ctrl_ptr L (ext_ctrl_set_ptr L c p) = p \<and> ext_ctrl_size (ext_ctrl_set_ptr L c p) = ext_ctrl_size c)"

subsection \<open>User pointers\<close>

text \<open>
  Mapping the planes, against mapping the regions alone, one after the other, as many as there are
  planes that are not empty: the planes that are not empty get the addresses of these mappings, in order,
  and the others keep theirs.
\<close>

abbreviation filled :: "(u32 \<times> u64) list \<Rightarrow> (u32 \<times> u64) list" where
  "filled planes \<equiv> filter (\<lambda>(len, _). 0 < len) planes"

definition mapping_addr :: "('w, 'gm, 'r) VirtioMediaGuestMemoryMapper \<Rightarrow> bool \<Rightarrow> 'r \<Rightarrow> u64" where
  "mapping_addr G wr r = (if wr then snd (as_mut_ptr G r) else as_ptr G r)"

lemma map_planes_mappings:
  assumes "length (filled planes) \<le> length regions"
    and "map_payloads G m (take (length (filled planes)) regions) w = (w', Some maps)"
  shows "\<exists>ps rs. map_planes G m wr planes regions w = (w', Some (ps, rs)) \<and> length ps = length planes \<and>
    length rs = length maps \<and> map snd (filled (zip (map fst planes) ps)) = map (mapping_addr G wr) maps \<and>
    (\<forall>i < length planes. fst (planes ! i) = 0 \<longrightarrow> ps ! i = snd (planes ! i))"
  using assms
proof (induction planes arbitrary: regions w maps)
  case (Cons plane planes)
  obtain len p where plane: "plane = (len, p)" by (cases plane)
  show ?case
  proof (cases "len = 0")
    case True
    with Cons.prems plane obtain ps rs where m: "map_planes G m wr planes regions w = (w', Some (ps, rs))" "length ps = length planes"
      "length rs = length maps" "map snd (filled (zip (map fst planes) ps)) = map (mapping_addr G wr) maps"
      "\<forall>i < length planes. fst (planes ! i) = 0 \<longrightarrow> ps ! i = snd (planes ! i)"
      using Cons.IH [of regions w maps] by auto
    show ?thesis
      by (rule exI [of _ "p # ps"], rule exI [of _ rs]) (use m plane True in \<open>auto simp: nth_Cons split: nat.split\<close>)
  next
    case False
    then have pos: "0 < len" by (simp add: word_neq_0_conv)
    with Cons.prems(1) plane obtain region regions' where regions: "regions = region # regions'" by (cases regions) auto
    with Cons.prems(2) plane pos obtain w1 r maps' where r: "new_mapping G m region w = (w1, Some r)"
      and rest: "map_payloads G m (take (length (filled planes)) regions') w1 = (w', Some maps')" and maps: "maps = r # maps'"
      by (auto split: prod.split_asm option.split_asm)
    from Cons.IH [OF _ rest] Cons.prems(1) plane pos regions obtain ps rs where
      m: "map_planes G m wr planes regions' w1 = (w', Some (ps, rs))" "length ps = length planes"
      "length rs = length maps'" "map snd (filled (zip (map fst planes) ps)) = map (mapping_addr G wr) maps'"
      "\<forall>i < length planes. fst (planes ! i) = 0 \<longrightarrow> ps ! i = snd (planes ! i)"
      by auto
    obtain r' where r': "(if wr then as_mut_ptr G r else (r, as_ptr G r)) = (r', mapping_addr G wr r)"
      by (cases wr) (auto simp: mapping_addr_def intro: prod.collapse [symmetric])
    show ?thesis
      by (rule exI [of _ "mapping_addr G wr r # ps"], rule exI [of _ "r' # rs"])
        (use m plane False pos regions r r' maps in \<open>auto simp: nth_Cons split: nat.split\<close>)
  qed
qed simp

lemma filled_pointers:
  assumes "length ps = length planes" and "map snd (filled (zip (map fst planes) ps)) = addrs" and "0 \<notin> set addrs"
    and "\<forall>i < length planes. fst (planes ! i) = 0 \<longrightarrow> ps ! i = 0"
  shows "filter (\<lambda>h. h \<noteq> 0) ps = addrs"
  using assms
proof (induction ps planes arbitrary: addrs rule: list_induct2)
  case (Cons h ps plane planes)
  obtain len p where plane: "plane = (len, p)" by (cases plane)
  have empty: "\<forall>i < length planes. fst (planes ! i) = 0 \<longrightarrow> ps ! i = 0" using Cons.prems(3) by auto
  show ?case
  proof (cases "len = 0")
    case True
    with Cons.prems(3) plane have "h = 0" by force
    with Cons.IH [OF _ _ empty] Cons.prems plane True show ?thesis by auto
  next
    case False
    then have "0 < len" by (simp add: word_neq_0_conv)
    with Cons.prems plane have "addrs = h # map snd (filled (zip (map fst planes) ps))" by auto
    with Cons.IH [OF refl _ empty] Cons.prems(2) show ?thesis by auto
  qed
qed simp

lemma pointer_filled:
  assumes "length ps = length planes" and "map snd (filled (zip (map fst planes) ps)) = addrs" and "0 \<notin> set addrs"
    and "i < length planes" and "ps ! i = 0"
  shows "fst (planes ! i) = 0"
proof (rule ccontr)
  assume "fst (planes ! i) \<noteq> 0"
  moreover have "zip (map fst planes) ps ! i = (fst (planes ! i), ps ! i)" "i < length (zip (map fst planes) ps)"
    using assms(1,4) by simp_all
  then have "(fst (planes ! i), ps ! i) \<in> set (zip (map fst planes) ps)" by (metis nth_mem)
  ultimately have "(fst (planes ! i), ps ! i) \<in> set (filled (zip (map fst planes) ps))"
    by (simp add: word_neq_0_conv)
  then have "ps ! i \<in> set addrs" unfolding assms(2) [symmetric] by force
  with assms(3,5) show False by simp
qed

text \<open>Registering the addresses makes each of them known, with the address of the guest.\<close>

lemma bt_insert_all_keeps:
  "h \<notin> (\<lambda>((h, _), _). h) ` set xs \<Longrightarrow>
   map_of (foldl (\<lambda>ups ((h, g), r). bt_insert h (f g r) ups) ups xs) h = map_of ups h"
  by (induction xs arbitrary: ups) (auto simp: map_of_bt_insert)

lemma bt_insert_all:
  "distinct (map (\<lambda>((h, _), _). h) xs) \<Longrightarrow> ((h, g), r) \<in> set xs \<Longrightarrow>
   map_of (foldl (\<lambda>ups ((h, g), r). bt_insert h (f g r) ups) ups xs) h = Some (f g r)"
proof (induction xs arbitrary: ups)
  case (Cons x xs)
  show ?case
  proof (cases "x = ((h, g), r)")
    case True
    then have "h \<notin> (\<lambda>((h, _), _). h) ` set xs" using Cons.prems(1) by simp
    with True show ?thesis by (simp add: bt_insert_all_keeps map_of_bt_insert)
  next
    case False
    with Cons show ?thesis by auto
  qed
qed simp

lemma guest_ptrs_known:
  "length hs = length gs \<Longrightarrow>
   (\<And>h g. (h, g) \<in> set (zip hs gs) \<Longrightarrow> h = 0 \<and> g = 0 \<or> h \<noteq> 0 \<and> (\<exists>info. map_of ups h = Some info \<and> up_guest_addr info = g)) \<Longrightarrow>
   guest_ptrs ups hs = Some gs"
proof (induction hs gs rule: list_induct2)
  case (Cons h hs g gs)
  then have "guest_ptrs ups hs = Some gs" by simp
  moreover have "h = 0 \<and> g = 0 \<or> h \<noteq> 0 \<and> (\<exists>info. map_of ups h = Some info \<and> up_guest_addr info = g)"
    using Cons.prems by simp
  ultimately show ?case by auto
qed simp

lemma map_fst_fst_zip: "map (\<lambda>((h, _), _). h) (zip ps rs) = take (length rs) (map fst ps)"
proof (induction ps arbitrary: rs)
  case (Cons p ps)
  then show ?case by (cases rs) (auto simp: split_def)
qed simp

lemma length_filter_pointwise:
  assumes "length xs = length ys" and "\<And>i. i < length xs \<Longrightarrow> P (xs ! i) \<longleftrightarrow> Q (ys ! i)"
  shows "length (filter P xs) = length (filter Q ys)"
  using assms unfolding length_filter_conv_card by (metis (mono_tags, lifting) Collect_cong)

lemma register_known:
  assumes "length hs = length gs" and "distinct (filter (\<lambda>h. h \<noteq> 0) hs)" and "length (filter (\<lambda>h. h \<noteq> 0) hs) \<le> length rs"
    and "(h, g) \<in> set (zip hs gs)" and "h \<noteq> 0"
  shows "\<exists>r. map_of (foldl (\<lambda>ups ((h, g), r). bt_insert h (f g r) ups) ups
    (zip (filter (\<lambda>(h, _). h \<noteq> 0) (zip hs gs)) rs)) h = Some (f g r)"
proof -
  let ?ps = "filter (\<lambda>(h, _). h \<noteq> 0) (zip hs gs)"
  have hs: "map fst ?ps = filter (\<lambda>h. h \<noteq> 0) hs"
    using assms(1) by (induction hs gs rule: list_induct2) auto
  then have len: "length ?ps \<le> length rs" using assms(3) by (metis length_map)
  from assms(4,5) have "(h, g) \<in> set ?ps" by simp
  then obtain i where i: "i < length ?ps" "?ps ! i = (h, g)" unfolding in_set_conv_nth by blast
  have i': "i < length rs" using i(1) len by (rule less_le_trans)
  have "((h, g), rs ! i) \<in> set (zip ?ps rs)"
    using nth_mem [of i "zip ?ps rs"] i i' by (simp add: nth_zip [OF i(1) i'])
  moreover have "distinct (map (\<lambda>((h, _), _). h) (zip ?ps rs))" using assms(2) by (simp only: map_fst_fst_zip hs distinct_take)
  ultimately show ?thesis using bt_insert_all [of "zip ?ps rs" h g "rs ! i" f ups] by blast
qed

text \<open>
  C20. User pointers. Take a USERPTR buffer of which every plane that is not empty has a region, suppose that the
  mapper maps these regions at different addresses that are not null, and that the empty planes have a
  null address. Then what \<open>QBUF\<close> and \<open>PREPARE_BUF\<close> hand to the host is the buffer with the addresses of
  the mappings in the planes that are not empty, in order, and its other planes unchanged. An error of the host is
  the answer to the guest; and if the host accepts the buffer and returns it with the addresses it was
  given, the guest gets a buffer whose planes are its own, and with the records the session then has, \<open>QUERYBUF\<close> translates
  a buffer with these addresses in the same way.
\<close>

theorem proxy_userptr_roundtrip:
  assumes "userptr_laws L" and "vb_userptr_planes L guest = Some planes" and "length (filled planes) \<le> length regions"
    and "map_payloads G (pd_mem d) (take (length (filled planes)) regions) (pd_os d) = (w1, Some maps)"
    and "addrs = map (mapping_addr G (queue_direction K (vb_queue K guest) = Capture)) maps"
    and "distinct addrs" and "0 \<notin> set addrs" and "\<forall>i < length planes. fst (planes ! i) = 0 \<longrightarrow> snd (planes ! i) = 0"
  shows "\<exists>ps. length ps = length planes \<and> vb_userptr_planes L (vb_set_userptrs L guest ps) = Some (zip (map fst planes) ps) \<and>
    map snd (filled (zip (map fst planes) ps)) = addrs \<and> (\<forall>i < length planes. fst (planes ! i) = 0 \<longrightarrow> ps ! i = snd (planes ! i)) \<and>
    (\<forall>w2 e. host_call (vb_set_userptrs L guest ps) (ps_device s) w1 = (w2, Inl e) \<longrightarrow>
      (\<exists>s'. exchange_buffer K L G host_call guest regions d s = (d\<lparr>pd_os := w2\<rparr>, s', Inl e))) \<and>
    (\<forall>w2 out_buf. host_call (vb_set_userptrs L guest ps) (ps_device s) w1 = (w2, Inr out_buf) \<and>
        vb_userptr_planes L out_buf = Some (zip (map fst planes) ps) \<longrightarrow>
      vb_userptr_planes L (vb_set_userptrs L out_buf (map snd planes)) = Some planes \<and>
      (\<exists>s'. exchange_buffer K L G host_call guest regions d s =
          (d\<lparr>pd_os := w2\<rparr>, s', Inr (vb_set_userptrs L out_buf (map snd planes))) \<and>
        (\<forall>queue i d3 w3 b. x_querybuf X queue (unat i) (ps_device s') (pd_os d3) = (w3, Inr b) \<and>
            vb_userptr_planes L b = Some (zip (map fst planes) ps) \<longrightarrow>
          proxy_querybuf L X queue i d3 s' = Some (d3\<lparr>pd_os := w3\<rparr>, Inr (vb_set_userptrs L b (map snd planes))))))"
proof -
  define wr where "wr = (queue_direction K (vb_queue K guest) = Capture)"
  obtain ps rs where m: "map_planes G (pd_mem d) wr planes regions (pd_os d) = (w1, Some (ps, rs))" and len: "length ps = length planes"
    "length rs = length maps" and filled: "map snd (filled (zip (map fst planes) ps)) = addrs"
    and empty: "\<forall>i < length planes. fst (planes ! i) = 0 \<longrightarrow> ps ! i = snd (planes ! i)"
    using map_planes_mappings [OF assms(3,4), of wr] assms(5) wr_def by blast
  define host hplanes where "host = vb_set_userptrs L guest ps" and "hplanes = zip (map fst planes) ps"
  have conv: "guest_v4l2_buffer_to_host K L G guest regions (pd_mem d) (pd_os d) = (w1, Some (host, rs))"
    using assms(2) m by (simp add: guest_v4l2_buffer_to_host_def host_def wr_def)
  have hp: "vb_userptr_planes L host = Some hplanes"
    using assms(1,2) len by (simp add: userptr_laws_def host_def hplanes_def)
  have snds: "map snd hplanes = ps" "map fst hplanes = map fst planes" using len by (simp_all add: hplanes_def)
  have ptrs: "filter (\<lambda>h. h \<noteq> 0) ps = addrs"
    by (rule filled_pointers [OF len(1) filled assms(7)]) (use empty assms(8) in simp)
  define s' where "s' = register_userptr_addresses K L host guest rs s"
  have known: "guest_ptrs (ps_userptr_buffers s') ps = Some (map snd planes)"
  proof (rule guest_ptrs_known)
    fix h g assume hg: "(h, g) \<in> set (zip ps (map snd planes))"
    show "h = 0 \<and> g = 0 \<or> h \<noteq> 0 \<and> (\<exists>info. map_of (ps_userptr_buffers s') h = Some info \<and> up_guest_addr info = g)"
    proof (cases "h = 0")
      case True
      with hg obtain i where i: "i < length planes" "ps ! i = 0" "g = snd (planes ! i)" using len by (auto simp: set_zip)
      have "fst (planes ! i) = 0" using pointer_filled [OF len(1) filled assms(7) i(1)] i(2) by blast
      with assms(8) i True show ?thesis by simp
    next
      case False
      have "\<exists>info. map_of (ps_userptr_buffers s') h = Some info \<and> up_guest_addr info = g"
        unfolding s'_def register_userptr_addresses_def
        using register_known [OF _ _ _ hg False, of rs "\<lambda>g r. \<lparr>up_queue = vb_queue K guest, up_index = ucast (vb_index K guest),
            up_guest_addr = g, up_guest_resource = r\<rparr>" "ps_userptr_buffers s"] len assms(2,5,6) hp ptrs
        by (auto simp: snds)
      with False show ?thesis by simp
    qed
  qed (use len in simp)
  have restored: "host_v4l2_buffer_to_guest L b (ps_userptr_buffers s') = Some (vb_set_userptrs L b (map snd planes))"
    if "vb_userptr_planes L b = Some hplanes" for b
    using that known by (simp add: host_v4l2_buffer_to_guest_def snds)
  have dev: "ps_device s' = ps_device s" by (simp add: s'_def register_userptr_addresses_def split: option.split)
  have "\<exists>s'. exchange_buffer K L G host_call guest regions d s = (d\<lparr>pd_os := w2\<rparr>, s', Inl e)"
    if "host_call host (ps_device s) w1 = (w2, Inl e)" for w2 e
    using conv that dev by (simp add: exchange_buffer_def s'_def [symmetric])
  moreover have "exchange_buffer K L G host_call guest regions d s = (d\<lparr>pd_os := w2\<rparr>, s', Inr (vb_set_userptrs L out_buf (map snd planes)))"
    if "host_call host (ps_device s) w1 = (w2, Inr out_buf)" "vb_userptr_planes L out_buf = Some hplanes" for w2 out_buf
    using conv that dev restored [OF that(2)] by (simp add: exchange_buffer_def s'_def [symmetric])
  moreover have "vb_userptr_planes L (vb_set_userptrs L out_buf (map snd planes)) = Some planes"
    if "vb_userptr_planes L out_buf = Some hplanes" for out_buf
    using assms(1) that len snds by (simp add: userptr_laws_def hplanes_def zip_map_fst_snd)
  moreover have "proxy_querybuf L X queue i d3 s' = Some (d3\<lparr>pd_os := w3\<rparr>, Inr (vb_set_userptrs L b (map snd planes)))"
    if "x_querybuf X queue (unat i) (ps_device s') (pd_os d3) = (w3, Inr b)" "vb_userptr_planes L b = Some hplanes" for queue i d3 w3 b
    using that restored [OF that(2)] by (simp add: proxy_querybuf_def)
  ultimately show ?thesis
    using hp len(1) filled empty unfolding hplanes_def host_def by (intro exI [of _ ps]) blast
qed

lemma px_userptr_laws: "userptr_laws px_L"
  by (auto simp: userptr_laws_def length_Suc_conv split: if_split_asm)

definition px_user_buffer :: "u64 \<Rightarrow> Ex_Buffer" where
  "px_user_buffer p = (ex_new VideoOutput 0 UserPtr)\<lparr>ex_length := 0x100, ex_userptr := p\<rparr>"

theorem proxy_userptr_roundtrip_witness:
  "\<exists>s'. exchange_buffer ex_K px_L px_G (x_qbuf px_X) (px_user_buffer 0x5000) [[\<lparr>sg_start = 0x5000, sg_len = 0x100, sg_padding = 0\<rparr>]]
       px0 (px_fresh 0 0) = (px0\<lparr>pd_os := px_w0\<lparr>pw_queued := [px_user_buffer 0x7F0000005000]\<rparr>\<rparr>, s', Inr (px_user_buffer 0x5000))"
proof -
  let ?guest = "px_user_buffer 0x5000" and ?regions = "[[\<lparr>sg_start = 0x5000, sg_len = 0x100, sg_padding = 0\<rparr>]]"
  have planes: "vb_userptr_planes px_L (px_user_buffer p) = Some [(0x100, p)]" for p by (simp add: px_user_buffer_def)
  have set_ptr: "vb_set_userptrs px_L (px_user_buffer p) [q] = px_user_buffer q" for p q by (simp add: px_user_buffer_def)
  have maps: "map_payloads px_G (pd_mem px0) (take (length (filled [(0x100, 0x5000)])) ?regions) (pd_os px0) = (px_w0, Some [0x7F0000005000])"
    by (simp add: px_G_def V4l2ProxyDevice_new_def)
  have addrs: "[0x7F0000005000] = map (mapping_addr px_G wr) [0x7F0000005000]" for wr
    by (simp add: mapping_addr_def px_G_def)
  have one: "length (filled [(0x100, 0x5000)]) \<le> length ?regions"
    "\<forall>i < length [(0x100 :: u32, 0x5000 :: u64)]. fst ([(0x100 :: u32, 0x5000 :: u64)] ! i) = 0 \<longrightarrow> snd ([(0x100 :: u32, 0x5000 :: u64)] ! i) = 0"
    by simp_all
  have d: "distinct [0x7F0000005000 :: u64]" "0 \<notin> set [0x7F0000005000 :: u64]" by simp_all
  obtain ps where ps: "length ps = length [(0x100 :: u32, 0x5000 :: u64)]" "map snd (filled (zip (map fst [(0x100, 0x5000 :: u64)]) ps)) = [0x7F0000005000]"
    and ok: "\<And>w2 out_buf. x_qbuf px_X (vb_set_userptrs px_L ?guest ps) (ps_device (px_fresh 0 0)) px_w0 = (w2, Inr out_buf) \<Longrightarrow>
      vb_userptr_planes px_L out_buf = Some (zip (map fst [(0x100, 0x5000 :: u64)]) ps) \<Longrightarrow>
      \<exists>s'. exchange_buffer ex_K px_L px_G (x_qbuf px_X) ?guest ?regions px0 (px_fresh 0 0) =
          (px0\<lparr>pd_os := w2\<rparr>, s', Inr (vb_set_userptrs px_L out_buf (map snd [(0x100 :: u32, 0x5000)])))"
    using proxy_userptr_roundtrip [where host_call = "x_qbuf px_X" and d = px0 and s = "px_fresh 0 0" and X = px_X and K = ex_K,
      OF px_userptr_laws planes one(1) maps addrs d one(2)] by (elim exE conjE) (rule that, assumption, assumption, blast)
  from ps have "ps = [0x7F0000005000]" by (auto simp: length_Suc_conv)
  moreover have "x_qbuf px_X (px_user_buffer 0x7F0000005000) (ps_device (px_fresh 0 0)) px_w0 =
      (px_w0\<lparr>pw_queued := [px_user_buffer 0x7F0000005000]\<rparr>, Inr (px_user_buffer 0x7F0000005000))"
    by (simp add: px_w0_def)
  ultimately show ?thesis
    using ok [of "px_w0\<lparr>pw_queued := [px_user_buffer 0x7F0000005000]\<rparr>" "px_user_buffer 0x7F0000005000"]
    by (simp add: set_ptr planes del: px_L_simps px_X_simps)
qed

subsection \<open>Extended controls\<close>

abbreviation has_payload :: "v4l2_ext_control \<Rightarrow> bool" where
  "has_payload c \<equiv> 0 < ext_ctrl_size c"

abbreviation host_ctrls :: "('dev, 'pol, 'w, 'vb, 'x) V4l2Host_scheme \<Rightarrow> ExtCtrlIoctl \<Rightarrow> ('dev, 'w) host_ctrls_ioctl" where
  "host_ctrls X ioctl \<equiv> (case ioctl of ExtGet \<Rightarrow> x_g_ext_ctrls X | ExtSet \<Rightarrow> x_s_ext_ctrls X | ExtTry \<Rightarrow> x_try_ext_ctrls X)"

lemma patch_ctrls_shape:
  assumes "ext_ctrl_laws L" and "length (filter has_payload cs) = length ps"
  shows "length (patch_ctrls L cs ps) = length cs \<and>
    map (ext_ctrl_ptr L) (filter has_payload (patch_ctrls L cs ps)) = ps \<and>
    filter (\<lambda>c. \<not> has_payload c) (patch_ctrls L cs ps) = filter (\<lambda>c. \<not> has_payload c) cs"
  using assms(2)
proof (induction cs arbitrary: ps)
  case (Cons c cs)
  show ?case
  proof (cases "ext_ctrl_size c = 0")
    case True
    with Cons show ?thesis by simp
  next
    case False
    then have "has_payload c" by (simp add: word_neq_0_conv)
    with Cons.prems obtain p ps' where "ps = p # ps'" "length (filter has_payload cs) = length ps'" by (cases ps) auto
    with Cons.IH [of ps'] False \<open>has_payload c\<close> assms(1) show ?thesis by (simp add: ext_ctrl_laws_def)
  qed
qed simp

lemma restore_ctrls_nth:
  "length cs = length bs \<Longrightarrow> i < length bs \<Longrightarrow>
   restore_ctrls L cs bs ! i = (if has_payload (bs ! i) then ext_ctrl_set_ptr L (cs ! i) (ext_ctrl_ptr L (bs ! i)) else cs ! i)"
proof (induction cs bs arbitrary: i rule: list_induct2)
  case (Cons c cs b bs)
  then show ?case by (cases i) (auto simp: word_neq_0_conv)
qed simp

lemma map_payloads_length: "map_payloads G m regions w = (w', Some rs) \<Longrightarrow> length rs = length regions"
  by (induction regions arbitrary: w w' rs) (auto split: prod.split_asm option.split_asm)

lemma restore_ctrls_length: "length (restore_ctrls L cs bs) = length cs"
  by (induction L cs bs rule: restore_ctrls.induct) auto

text \<open>
  C33. The pointers of extended controls. If every control with a payload has its region, as the
  dispatcher makes sure, and the payloads can be mapped, then the host gets the controls in order,
  those with a payload pointing to the mappings of their payloads and the others as they are, and
  the guest gets back the array of the host in which the controls that had a payload point again to
  where the guest had them.
\<close>

theorem proxy_ext_ctrls_pointers:
  assumes "ext_ctrl_laws L" and "map_payloads G mem regions w = (w1, Some payloads)"
    and "length regions = length (filter has_payload ctrl_array)"
    and "\<forall>cs w. length (fst (snd (host_ctrls X ioctl which cs dev w))) = length cs"
  shows "\<exists>patched w2 cs' r.
    host_ctrls X ioctl which patched dev w1 = (w2, cs', r) \<and>
    length patched = length ctrl_array \<and>
    map (ext_ctrl_ptr L) (filter has_payload patched) = map (\<lambda>p. snd (as_mut_ptr G p)) payloads \<and>
    filter (\<lambda>c. \<not> has_payload c) patched = filter (\<lambda>c. \<not> has_payload c) ctrl_array \<and>
    (\<exists>ctrls' array'. perform_ext_ctrls_ioctl L X G ioctl dev mem which ctrls ctrl_array regions w =
       Some (w2, ctrls', array', map_sum snd id r) \<and> length array' = length ctrl_array \<and>
       (\<forall>i < length ctrl_array. if has_payload (ctrl_array ! i)
          then ext_ctrl_ptr L (array' ! i) = ext_ctrl_ptr L (ctrl_array ! i) else array' ! i = cs' ! i))"
proof -
  define patched where "patched = patch_ctrls L ctrl_array (map (\<lambda>p. snd (as_mut_ptr G p)) payloads)"
  obtain w2 cs' r where run: "host_ctrls X ioctl which patched dev w1 = (w2, cs', r)" by (cases rule: prod_cases3)
  have "length payloads = length (filter has_payload ctrl_array)" using map_payloads_length [OF assms(2)] assms(3) by simp
  with patch_ctrls_shape [OF assms(1), of ctrl_array "map (\<lambda>p. snd (as_mut_ptr G p)) payloads"]
  have shape: "length patched = length ctrl_array"
    "map (ext_ctrl_ptr L) (filter has_payload patched) = map (\<lambda>p. snd (as_mut_ptr G p)) payloads"
    "filter (\<lambda>c. \<not> has_payload c) patched = filter (\<lambda>c. \<not> has_payload c) ctrl_array"
    unfolding patched_def by simp_all
  have len: "length cs' = length ctrl_array"
    using assms(4) run shape(1) by (metis fst_conv snd_conv)
  define array' where "array' = restore_ctrls L cs' ctrl_array"
  have "if has_payload (ctrl_array ! i) then ext_ctrl_ptr L (array' ! i) = ext_ctrl_ptr L (ctrl_array ! i) else array' ! i = cs' ! i"
    if "i < length ctrl_array" for i
    using restore_ctrls_nth [OF len that, of L] assms(1) unfolding array'_def by (simp add: ext_ctrl_laws_def)
  moreover have "length array' = length ctrl_array" unfolding array'_def by (simp add: restore_ctrls_length len)
  moreover have "\<exists>ctrls'. perform_ext_ctrls_ioctl L X G ioctl dev mem which ctrls ctrl_array regions w =
      Some (w2, ctrls', array', map_sum snd id r)"
    using assms(2,3) run unfolding perform_ext_ctrls_ioctl_def array'_def patched_def
    by (cases ioctl) (auto simp: Let_def)
  ultimately show ?thesis using run shape by blast
qed

lemma px_ext_ctrl_laws: "ext_ctrl_laws px_L"
  proof -
  have "length (as_bytes wire_u64 p) = 8" for p using u64.as_bytes_length [of p] by (simp add: wire_u64_def wire_int_def)
  then show ?thesis by (simp add: ext_ctrl_laws_def u64.from_as_bytes)
qed

definition px_ctrl :: "u32 \<Rightarrow> u64 \<Rightarrow> v4l2_ext_control" where
  "px_ctrl sz p = \<lparr>ext_ctrl_size = sz, ext_ctrl_rest = as_bytes wire_u64 p\<rparr>"

theorem proxy_ext_ctrls_pointers_witness:
  "\<exists>patched w2 cs' r.
    host_ctrls px_X ExtSet 0 patched (0 :: nat) px_w0 = (w2, cs', r) \<and>
    map (ext_ctrl_ptr px_L) (filter has_payload patched) = [0x7F0000005000] \<and>
    (\<exists>ctrls' array'. perform_ext_ctrls_ioctl px_L px_X px_G ExtSet 0 () 0
        \<lparr>ext_ctrls_count = 2, ext_ctrls_controls = 0, ext_ctrls_rest = []\<rparr> [px_ctrl 0 7, px_ctrl 4 0x5000]
        [[\<lparr>sg_start = 0x5000, sg_len = 4, sg_padding = 0\<rparr>]] px_w0 = Some (w2, ctrls', array', map_sum snd id r) \<and>
      ext_ctrl_ptr px_L (array' ! 1) = ext_ctrl_ptr px_L (px_ctrl 4 0x5000))"
proof -
  let ?cs = "[px_ctrl 0 7, px_ctrl 4 0x5000]" and ?regions = "[[\<lparr>sg_start = 0x5000, sg_len = 4, sg_padding = 0\<rparr>]]"
    and ?ctrls = "\<lparr>ext_ctrls_count = 2, ext_ctrls_controls = 0, ext_ctrls_rest = []\<rparr>"
  have m: "map_payloads px_G () ?regions px_w0 = (px_w0, Some [0x7F0000005000])" by (simp add: px_G_def)
  have n: "length ?regions = length (filter has_payload ?cs)" by (simp add: px_ctrl_def)
  have l: "\<forall>cs w. length (fst (snd (host_ctrls px_X ExtSet 0 cs 0 w))) = length cs"
    by (simp add: px_ctrls_def)
  have ptr: "map (\<lambda>p. snd (as_mut_ptr px_G p)) [0x7F0000005000] = [0x7F0000005000]" by (simp add: px_G_def)
  from proxy_ext_ctrls_pointers [where X = px_X and ioctl = ExtSet and which = 0 and dev = 0 and ctrls = ?ctrls,
      OF px_ext_ctrl_laws m n l] obtain patched w2 cs' r ctrls' array' where
    c: "host_ctrls px_X ExtSet 0 patched (0 :: nat) px_w0 = (w2, cs', r)"
    "map (ext_ctrl_ptr px_L) (filter has_payload patched) = map (\<lambda>p. snd (as_mut_ptr px_G p)) [0x7F0000005000]"
    "perform_ext_ctrls_ioctl px_L px_X px_G ExtSet 0 () 0 ?ctrls ?cs ?regions px_w0 = Some (w2, ctrls', array', map_sum snd id r)"
    and i: "\<forall>i < length ?cs. if has_payload (?cs ! i)
      then ext_ctrl_ptr px_L (array' ! i) = ext_ctrl_ptr px_L (?cs ! i) else array' ! i = cs' ! i"
    by blast
  have "ext_ctrl_ptr px_L (array' ! 1) = ext_ctrl_ptr px_L (px_ctrl 4 0x5000)"
    using i [rule_format, of 1] by (simp add: px_ctrl_def del: px_L_simps)
  with c(3) show ?thesis using c(1,2) [unfolded ptr] by (intro exI conjI) (assumption | fact)+
qed

end
