(* ===== verification/Ffmpeg_Av.thy ===== *)
theory Ffmpeg_Av
  imports Memfd "HOL-Library.Product_Lexorder"
begin

unbundle bit_operations_syntax

text \<open>
  The wrappers around \<open>libavcodec\<close> and \<open>libswscale\<close> that the decoding backend uses,
  \<open>extras/ffmpeg-decoder/src/ffmpeg/\<close>: error codes, codec contexts, packets, the construction of frames over
  buffers of the caller, and the conversion of frames. The functions of the two libraries are a
  parameter, over the states \<open>'av\<close> of a codec context, \<open>'sw\<close> of a converter, \<open>'b\<close> of a buffer and
  \<open>'w\<close> of everything else; what the wrappers make of their results is modelled. \<open>usize\<close> has 64 bits.
  What is freed when a context, a buffer or a frame is dropped is the subject of theory \<open>Ffmpeg_Lifetime\<close>.
\<close>

section \<open>Error codes\<close>

definition FFERRTAG :: "u8 \<times> u8 \<times> u8 \<times> u8 \<Rightarrow> i32" where
  "FFERRTAG tag =
     (case tag of (a, b, c, d) \<Rightarrow>
        - (ucast a OR push_bit 8 (ucast b) OR push_bit 16 (ucast c) OR push_bit 24 (ucast d)))"

definition AVERROR_EOF :: i32 where "AVERROR_EOF = FFERRTAG (0x45, 0x4F, 0x46, 0x20)"
definition AVERROR_INVALIDDATA :: i32 where "AVERROR_INVALIDDATA = FFERRTAG (0x49, 0x4E, 0x44, 0x41)"
definition AVERROR_EAGAIN :: i32 where "AVERROR_EAGAIN = - 11"

text \<open>The struct \<open>AvError\<close> holds the number.\<close>

definition AvError_result :: "i32 \<Rightarrow> i32 + unit" where
  "AvError_result ret = (if 0 \<le> sint ret then Inr () else Inl ret)"

section \<open>The libraries\<close>

text \<open>A name is \<open>None\<close> when the C string is not UTF-8.\<close>

record AvProfile =
  ap_profile :: i32
  ap_c_name :: "string option"

text \<open>
  A codec. The arrays of its profiles and pixel formats are the lists of their elements up to and with
  the terminator, and empty when the pointer is null.
\<close>

record AvCodec =
  codec_is_decoder :: bool
  codec_is_encoder :: bool
  codec_c_name :: "string option"
  codec_capabilities :: u32
  codec_profiles :: "AvProfile list"
  codec_pix_fmts :: "i32 list"

definition codec_name :: "AvCodec \<Rightarrow> string" where
  "codec_name codec = (case codec_c_name codec of None \<Rightarrow> ''invalid codec'' | Some name \<Rightarrow> name)"

text \<open>
  A codec context: the fields the sources write or read, and what the library keeps in it. The signed
  fields are in two's complement.
\<close>

record 'av AvCodecContext =
  avc_width :: i32
  avc_height :: i32
  avc_coded_width :: i32
  avc_coded_height :: i32
  avc_pix_fmt :: i32
  avc_time_base :: "i32 \<times> i32"
  avc_bit_rate :: u64
  avc_rc_max_rate :: u64
  avc_lib :: 'av

text \<open>The sources of buffers: a vector of bytes and a mapping; the length is that of the source.\<close>

datatype AvBufferSource = SrcVec "u8 list" | SrcMapping MemFdMapping

fun source_len :: "AvBufferSource \<Rightarrow> u64" where
  "source_len (SrcVec bs) = of_nat (length bs)"
| "source_len (SrcMapping m) = MemFdMapping_size m"

text \<open>
  A packet: the buffer it owns, if any, what its data pointer points to, the size of the data, its time
  stamps and its position.
\<close>

datatype 'b PacketData = NullData | BufferData 'b | BorrowedData AvBufferSource

record 'b AvPacket =
  pkt_buf :: "'b option"
  pkt_data :: "'b PacketData"
  pkt_size :: i32
  pkt_pts :: u64
  pkt_dts :: u64
  pkt_pos :: u64

text \<open>
  A frame: the fields the sources read. A plane is given by the index of its buffer, its offset in it and
  its line size.
\<close>

record 'b AvFrame =
  af_width :: i32
  af_height :: i32
  af_format :: i32
  af_pict_type :: u32
  af_pts :: u64
  af_crop_top :: u64
  af_crop_bottom :: u64
  af_crop_left :: u64
  af_crop_right :: u64
  af_planes :: "(u64 \<times> u64 \<times> i32) list"
  af_buf :: "'b list"

record ('w, 'av, 'sw, 'b) Libav =
  av_codecs :: "AvCodec list"
  avcodec_alloc_context3 :: "AvCodec \<Rightarrow> 'w \<Rightarrow> 'w \<times> 'av AvCodecContext option"
  avcodec_open2 :: "AvCodec \<Rightarrow> 'av AvCodecContext \<Rightarrow> 'w \<Rightarrow> 'w \<times> 'av AvCodecContext \<times> i32"
  avcodec_send_packet :: "'b AvPacket option \<Rightarrow> 'av AvCodecContext \<Rightarrow> 'w \<Rightarrow> 'w \<times> 'av AvCodecContext \<times> i32"
  avcodec_receive_frame :: "'av AvCodecContext \<Rightarrow> 'w \<Rightarrow> 'w \<times> 'av AvCodecContext \<times> 'b AvFrame \<times> i32"
  avcodec_send_frame :: "'b AvFrame option \<Rightarrow> 'av AvCodecContext \<Rightarrow> 'w \<Rightarrow> 'w \<times> 'av AvCodecContext \<times> i32"
  avcodec_receive_packet :: "'av AvCodecContext \<Rightarrow> 'w \<Rightarrow> 'w \<times> 'av AvCodecContext \<times> 'b AvPacket \<times> i32"
  avcodec_flush_buffers :: "'av AvCodecContext \<Rightarrow> 'w \<Rightarrow> 'w \<times> 'av AvCodecContext"
  av_frame_alloc :: "'w \<Rightarrow> 'w \<times> 'b AvFrame option"
  av_frame_is_writable :: "'b AvFrame \<Rightarrow> 'w \<Rightarrow> bool"
  av_frame_make_writable :: "'b AvFrame \<Rightarrow> 'w \<Rightarrow> 'w \<times> 'b AvFrame \<times> i32"
  av_buffer_create :: "AvBufferSource \<Rightarrow> u64 \<Rightarrow> 'w \<Rightarrow> 'w \<times> 'b option"
  av_buffer_size :: "'b \<Rightarrow> u64"
  av_image_get_linesize :: "i32 \<Rightarrow> i32 \<Rightarrow> i32 \<Rightarrow> i32"
  av_image_fill_plane_sizes :: "i32 \<Rightarrow> i32 \<Rightarrow> i32 list \<Rightarrow> u64 list \<times> i32"
  sws_getContext :: "i32 \<Rightarrow> i32 \<Rightarrow> i32 \<Rightarrow> i32 \<Rightarrow> i32 \<Rightarrow> i32 \<Rightarrow> 'w \<Rightarrow> 'w \<times> 'sw option"
  sws_scale :: "'sw \<Rightarrow> 'b AvFrame \<Rightarrow> i32 \<Rightarrow> 'b AvFrame \<Rightarrow> 'w \<Rightarrow> 'w \<times> 'sw \<times> i32"
  av_get_pix_fmt_name :: "i32 \<Rightarrow> string option"
  avcodec_pix_fmt_to_codec_tag :: "i32 \<Rightarrow> u32"
  AV_PROFILE_UNKNOWN :: i32
  AV_PIX_FMT_NONE :: i32
  AV_PIX_FMT_NB :: i32
  AV_PIX_FMT_YUV420P :: i32
  AV_PIX_FMT_NV12 :: i32
  AV_CODEC_CAP_DR1 :: u32

section \<open>Codec contexts\<close>

datatype AvCodecOpenError = ContextAllocation | ContextOpen | UnexpectedCodecType

text \<open>
  The decoder builder: a context is allocated, its format set, and it is opened. The builder holds the
  codec and the context.
\<close>

definition alloc_context ::
  "('w, 'av, 'sw, 'b) Libav \<Rightarrow> AvCodec \<Rightarrow> 'w \<Rightarrow> 'w \<times> (AvCodecOpenError + 'av AvCodecContext)"
where
  "alloc_context A codec w =
     (case avcodec_alloc_context3 A codec w of
        (w', None) \<Rightarrow> (w', Inl ContextAllocation)
      | (w', Some av) \<Rightarrow> (w', Inr av))"

definition build_decoder ::
  "('w, 'av, 'sw, 'b) Libav \<Rightarrow> AvCodec \<Rightarrow> 'w \<Rightarrow> 'w \<times> (AvCodecOpenError + AvCodec \<times> 'av AvCodecContext)"
where
  "build_decoder A codec w =
     (if \<not> codec_is_decoder codec then (w, Inl UnexpectedCodecType)
      else case alloc_context A codec w of
        (w', Inl e) \<Rightarrow> (w', Inl e)
      | (w', Inr av) \<Rightarrow> (w', Inr (codec, av)))"

definition set_initial_format ::
  "u32 \<times> u32 \<Rightarrow> i32 \<Rightarrow> AvCodec \<times> 'av AvCodecContext \<Rightarrow> AvCodec \<times> 'av AvCodecContext"
where
  "set_initial_format coded_format pix_fmt b =
     (fst b, (snd b)\<lparr>avc_width := fst coded_format, avc_height := snd coded_format,
                     avc_coded_width := fst coded_format, avc_coded_height := snd coded_format,
                     avc_pix_fmt := pix_fmt\<rparr>)"

definition av_init ::
  "('w, 'av, 'sw, 'b) Libav \<Rightarrow> AvCodec \<Rightarrow> 'av AvCodecContext \<Rightarrow> 'w \<Rightarrow> 'w \<times> 'av AvCodecContext \<times> (AvCodecOpenError + unit)"
where
  "av_init A codec av w =
     (case avcodec_open2 A codec av w of
        (w', av', ret) \<Rightarrow> (w', av', if sint ret < 0 then Inl ContextOpen else Inr ()))"

definition av_build ::
  "('w, 'av, 'sw, 'b) Libav \<Rightarrow> AvCodec \<times> 'av AvCodecContext \<Rightarrow> 'w \<Rightarrow> 'w \<times> (AvCodecOpenError + 'av AvCodecContext)"
where
  "av_build A b w =
     (case av_init A (fst b) (snd b) w of
        (w', av', Inl e) \<Rightarrow> (w', Inl e)
      | (w', av', Inr _) \<Rightarrow> (w', Inr av'))"

definition try_send_packet ::
  "('w, 'av, 'sw, 'b) Libav \<Rightarrow> 'b AvPacket \<Rightarrow> 'av AvCodecContext \<Rightarrow> 'w \<Rightarrow> 'w \<times> 'av AvCodecContext \<times> (i32 + bool)"
where
  "try_send_packet A packet av w =
     (case avcodec_send_packet A (Some packet) av w of
        (w', av', ret) \<Rightarrow>
          (w', av',
           if ret = AVERROR_EAGAIN then Inr False
           else if 0 \<le> sint ret then Inr True
           else Inl ret))"

datatype TryReceiveResult = Received | TryAgain | FlushCompleted

text \<open>The frame is filled by the library.\<close>

definition av_try_receive_frame ::
  "('w, 'av, 'sw, 'b) Libav \<Rightarrow> 'av AvCodecContext \<Rightarrow> 'w \<Rightarrow> 'w \<times> 'av AvCodecContext \<times> 'b AvFrame \<times> (i32 + TryReceiveResult)"
where
  "av_try_receive_frame A av w =
     (case avcodec_receive_frame A av w of
        (w', av', frame, ret) \<Rightarrow>
          (w', av', frame,
           if ret = AVERROR_EAGAIN then Inr TryAgain
           else if ret = AVERROR_EOF then Inr FlushCompleted
           else if 0 \<le> sint ret then Inr Received
           else Inl ret))"

definition flush_decoder ::
  "('w, 'av, 'sw, 'b) Libav \<Rightarrow> 'av AvCodecContext \<Rightarrow> 'w \<Rightarrow> 'w \<times> 'av AvCodecContext \<times> (i32 + unit)"
where
  "flush_decoder A av w =
     (case avcodec_send_packet A None av w of (w', av', ret) \<Rightarrow> (w', av', AvError_result ret))"

section \<open>Image sizes\<close>

definition MAX_FFMPEG_PLANES :: nat where "MAX_FFMPEG_PLANES = 4"

definition av_image_line_size :: "('w, 'av, 'sw, 'b) Libav \<Rightarrow> i32 \<Rightarrow> u32 \<Rightarrow> nat \<Rightarrow> i32 + u64" where
  "av_image_line_size A format width plane =
     (let i = av_image_get_linesize A format width (of_nat plane) in
      if 0 \<le> sint i then Inr (ucast i) else Inl i)"

definition av_image_plane_sizes :: "('w, 'av, 'sw, 'b) Libav \<Rightarrow> i32 \<Rightarrow> u32 list \<Rightarrow> u32 \<Rightarrow> i32 + u64 list" where
  "av_image_plane_sizes A format linesizes height =
     (let ls = take MAX_FFMPEG_PLANES linesizes in
      case av_image_fill_plane_sizes A format height (ls @ replicate (MAX_FFMPEG_PLANES - length ls) 0) of
        (sizes, ret) \<Rightarrow> map_sum id (\<lambda>_. take (length ls) sizes) (AvError_result ret))"

definition line_size :: "('w, 'av, 'sw, 'b) Libav \<Rightarrow> i32 \<Rightarrow> u32 \<Rightarrow> nat \<Rightarrow> u64" where
  "line_size A format width plane = (case av_image_line_size A format width plane of Inl _ \<Rightarrow> 0 | Inr i \<Rightarrow> i)"

definition plane_sizes :: "('w, 'av, 'sw, 'b) Libav \<Rightarrow> i32 \<Rightarrow> u32 list \<Rightarrow> u32 \<Rightarrow> u64 list" where
  "plane_sizes A format linesizes height =
     (case av_image_plane_sizes A format linesizes height of Inl _ \<Rightarrow> [] | Inr sizes \<Rightarrow> sizes)"

section \<open>Buffers and packets\<close>

definition AvBuffer_new :: "('w, 'av, 'sw, 'b) Libav \<Rightarrow> AvBufferSource \<Rightarrow> 'w \<Rightarrow> 'w \<times> 'b option" where
  "AvBuffer_new A source w = av_buffer_create A source (source_len source) w"

text \<open>The packet owns the buffer; its position is \<open>-1\<close>.\<close>

definition AV_NOPTS_VALUE :: u64 where "AV_NOPTS_VALUE = 0x8000000000000000"

definition AvPacket_new_owned :: "('w, 'av, 'sw, 'b) Libav \<Rightarrow> u64 \<Rightarrow> 'b \<Rightarrow> 'b AvPacket" where
  "AvPacket_new_owned A pts buf =
     \<lparr>pkt_buf = Some buf, pkt_data = BufferData buf, pkt_size = ucast (av_buffer_size A buf), pkt_pts = pts,
      pkt_dts = AV_NOPTS_VALUE, pkt_pos = - 1\<rparr>"

section \<open>Frames\<close>

record PlaneDescriptor =
  pd_buffer_index :: u64
  pd_offset :: u64
  stride :: u64

datatype AvFrameError =
    FrameAllocationFailed | DimensionOverflow | InvalidStride | BufferOutOfRange | BufferTooSmall | BufferAlias | FrameAvError i32

definition AvFrame_new :: "('w, 'av, 'sw, 'b) Libav \<Rightarrow> 'w \<Rightarrow> 'w \<times> (AvFrameError + 'b AvFrame)" where
  "AvFrame_new A w =
     (case av_frame_alloc A w of
        (w', None) \<Rightarrow> (w', Inl FrameAllocationFailed)
      | (w', Some frame) \<Rightarrow> (w', Inr frame))"

definition dimensions :: "'b AvFrame \<Rightarrow> u32 \<times> u32" where
  "dimensions frame = (af_width frame, af_height frame)"

text \<open>A dimension that is not an \<open>i32\<close> is refused; the width is written before the height is looked at.\<close>

definition set_dimensions :: "u32 \<times> u32 \<Rightarrow> 'b AvFrame \<Rightarrow> 'b AvFrame \<times> (AvFrameError + unit)" where
  "set_dimensions dims frame =
     (if 2 ^ 31 \<le> unat (fst dims) then (frame, Inl DimensionOverflow)
      else if 2 ^ 31 \<le> unat (snd dims) then (frame\<lparr>af_width := fst dims\<rparr>, Inl DimensionOverflow)
      else (frame\<lparr>af_width := fst dims, af_height := snd dims\<rparr>, Inr ()))"

definition set_format :: "i32 \<Rightarrow> 'b AvFrame \<Rightarrow> 'b AvFrame" where
  "set_format format frame = frame\<lparr>af_format := format\<rparr>"

text \<open>
  The loop of \<open>build_owned\<close> over the planes, with the index of the plane. It panics when there is no
  size for the plane, when the index of the buffer is one too large (the guard lets it pass), when
  the end of the plane overflows, and when the plane begins after the end of its buffer. It collects
  the ranges and sets the data pointer and the line size of each plane of the new frame, which has
  none yet.
\<close>

fun place_planes ::
  "bool \<Rightarrow> ('w, 'av, 'sw, 'b) Libav \<Rightarrow> u64 list \<Rightarrow> 'b list \<Rightarrow> nat \<Rightarrow> PlaneDescriptor list \<Rightarrow> 'b AvFrame \<Rightarrow>
   (AvFrameError + 'b AvFrame \<times> (u64 \<times> u64 \<times> u64) list) option"
where
  "place_planes chk A sizes bufs plane [] frame = Some (Inr (frame, []))"
| "place_planes chk A sizes bufs plane (p # ps) frame =
     (if length bufs < unat (pd_buffer_index p) then Some (Inl BufferOutOfRange)
      else do {
        sz \<leftarrow> vec_get sizes plane;
        past \<leftarrow> add_ov chk (pd_offset p) sz;
        buf \<leftarrow> vec_get bufs (unat (pd_buffer_index p));
        (if av_buffer_size A buf < past then Some (Inl BufferTooSmall)
         else if stride p < line_size A (af_format frame) (fst (dimensions frame)) plane then Some (Inl InvalidStride)
         else if av_buffer_size A buf < pd_offset p then None
         else
           map_option (map_sum id (\<lambda>(frame', ranges). (frame', (pd_buffer_index p, pd_offset p, past) # ranges)))
             (place_planes chk A sizes bufs (Suc plane) ps
               (frame\<lparr>af_planes := af_planes frame @ [(pd_buffer_index p, pd_offset p, ucast (stride p))]\<rparr>)))
      })"

text \<open>The check of neighbouring ranges, \<open>windows(2)\<close>.\<close>

fun no_overlap :: "(u64 \<times> u64 \<times> u64) list \<Rightarrow> bool" where
  "no_overlap ((b0, s0, e0) # (b1, s1, e1) # ranges) \<longleftrightarrow>
     (b0 \<noteq> b1 \<or> e0 \<le> s1) \<and> no_overlap ((b1, s1, e1) # ranges)"
| "no_overlap _ \<longleftrightarrow> True"

text \<open>
  The array \<open>buf\<close> of an \<open>AVFrame\<close> has eight elements in the headers of the library: more buffers panic.
\<close>

definition AV_NUM_DATA_POINTERS :: nat where "AV_NUM_DATA_POINTERS = 8"

definition build_owned ::
  "bool \<Rightarrow> ('w, 'av, 'sw, 'b) Libav \<Rightarrow> 'b list \<Rightarrow> PlaneDescriptor list \<Rightarrow> 'b AvFrame \<Rightarrow>
   (AvFrameError + 'b AvFrame) option"
where
  "build_owned chk A bufs planes frame =
     (let sizes = plane_sizes A (af_format frame) (map (\<lambda>p. ucast (stride p)) planes) (snd (dimensions frame)) in do {
        placed \<leftarrow> place_planes chk A sizes bufs 0 planes frame;
        (case placed of
          Inl e \<Rightarrow> Some (Inl e)
        | Inr (frame', ranges) \<Rightarrow>
            if \<not> no_overlap (sort ranges) then Some (Inl BufferAlias)
            else if AV_NUM_DATA_POINTERS < length bufs then None
            else Some (Inr (frame'\<lparr>af_buf := bufs\<rparr>)))
      })"

section \<open>Conversion\<close>

record 'sw SwConverter =
  sw_context :: 'sw
  src_pix_format :: i32
  dst_pix_format :: i32

datatype ConversionError =
    FormatMismatch i32 i32 | DimensionMismatch "u32 \<times> u32" "u32 \<times> u32" | NotWritable | ConvAvError i32

text \<open>The only error of the creation is \<open>CreationFailure\<close>.\<close>

definition SwConverter_new ::
  "('w, 'av, 'sw, 'b) Libav \<Rightarrow> u64 \<Rightarrow> u64 \<Rightarrow> i32 \<Rightarrow> i32 \<Rightarrow> 'w \<Rightarrow> 'w \<times> (unit + 'sw SwConverter)"
where
  "SwConverter_new A width height src dst w =
     (case sws_getContext A (ucast width) (ucast height) src (ucast width) (ucast height) dst w of
        (w', None) \<Rightarrow> (w', Inl ())
      | (w', Some sw) \<Rightarrow> (w', Inr \<lparr>sw_context = sw, src_pix_format = src, dst_pix_format = dst\<rparr>))"

definition convert ::
  "('w, 'av, 'sw, 'b) Libav \<Rightarrow> 'b AvFrame \<Rightarrow> 'b AvFrame \<Rightarrow> 'sw SwConverter \<Rightarrow> 'w \<Rightarrow>
   'w \<times> 'sw SwConverter \<times> (ConversionError + unit)"
where
  "convert A src dst c w =
     (if af_format src \<noteq> src_pix_format c then (w, c, Inl (FormatMismatch (af_format src) (src_pix_format c)))
      else if af_format dst \<noteq> dst_pix_format c then (w, c, Inl (FormatMismatch (af_format dst) (dst_pix_format c)))
      else if dimensions src \<noteq> dimensions dst then (w, c, Inl (DimensionMismatch (dimensions src) (dimensions dst)))
      else if \<not> av_frame_is_writable A dst w then (w, c, Inl NotWritable)
      else case sws_scale A (sw_context c) src (af_height src) dst w of
        (w', sw', ret) \<Rightarrow> (w', c\<lparr>sw_context := sw'\<rparr>, map_sum ConvAvError id (AvError_result ret)))"

end
