(* ===== verification/Event_Queue.thy ===== *)
theory Event_Queue
  imports Prelude "HOL-Library.Sublist"
begin

text \<open>
  The queue of the events of a decoding backend, \<open>extras/ffmpeg-decoder/src/event_queue.rs\<close>: a FIFO with
  an \<open>eventfd\<close> that is to be readable exactly while events are pending. The \<open>eventfd\<close> is a
  parameter over the state \<open>'w\<close> of the operating system. It is created in blocking mode, so a read or
  write that would have to wait does not return, which is \<open>None\<close>.
\<close>

record 'w EventFd =
  ef_new :: "'w \<Rightarrow> 'w \<times> (i32 + fd)"
  ef_write :: "fd \<Rightarrow> u64 \<Rightarrow> 'w \<Rightarrow> ('w \<times> (i32 + unit)) option"
  ef_read :: "fd \<Rightarrow> 'w \<Rightarrow> ('w \<times> (i32 + u64)) option"

record 'a EventQueue =
  eq_event :: fd
  eq_pending :: "'a list"

definition EventQueue_new :: "('w, 'x) EventFd_scheme \<Rightarrow> 'w \<Rightarrow> 'w \<times> (i32 + 'a EventQueue)" where
  "EventQueue_new E w =
     (case ef_new E w of
        (w', Inl e) \<Rightarrow> (w', Inl e)
      | (w', Inr f) \<Rightarrow> (w', Inr \<lparr>eq_event = f, eq_pending = []\<rparr>))"

definition queue_event ::
  "('w, 'x) EventFd_scheme \<Rightarrow> 'a \<Rightarrow> 'a EventQueue \<Rightarrow> 'w \<Rightarrow> ('w \<times> 'a EventQueue \<times> (i32 + unit)) option"
where
  "queue_event E event q w =
     (let q' = q\<lparr>eq_pending := eq_pending q @ [event]\<rparr> in
      if length (eq_pending q') = 1 then
        map_option (\<lambda>(w', r). (w', q', r)) (ef_write E (eq_event q') 1 w)
      else Some (w, q', Inr ()))"

text \<open>The result of the read is only logged.\<close>

definition dequeue_event ::
  "('w, 'x) EventFd_scheme \<Rightarrow> 'a EventQueue \<Rightarrow> 'w \<Rightarrow> ('w \<times> 'a EventQueue \<times> 'a option) option"
where
  "dequeue_event E q w =
     (case eq_pending q of
        [] \<Rightarrow> Some (w, q, None)
      | event # pending \<Rightarrow>
          (let q' = q\<lparr>eq_pending := pending\<rparr> in
           if pending = [] then map_option (\<lambda>(w', _). (w', q', Some event)) (ef_read E (eq_event q') w)
           else Some (w, q', Some event)))"

definition retain ::
  "('w, 'x) EventFd_scheme \<Rightarrow> ('a \<Rightarrow> bool) \<Rightarrow> 'a EventQueue \<Rightarrow> 'w \<Rightarrow> ('w \<times> 'a EventQueue) option"
where
  "retain E predicate q w =
     (let q' = q\<lparr>eq_pending := filter predicate (eq_pending q)\<rparr> in
      if eq_pending q \<noteq> [] \<and> eq_pending q' = []
      then map_option (\<lambda>(w', _). (w', q')) (ef_read E (eq_event q') w)
      else Some (w, q'))"

section \<open>The queue as a FIFO\<close>

text \<open>
  What a client relies on: the pending events as a list, to which one is appended, from whose front
  one is taken, and of which some are dropped.
\<close>

locale event_fifo =
  fixes pending :: "'q \<Rightarrow> 'a list"
    and put :: "'a \<Rightarrow> 'q \<Rightarrow> 'w \<Rightarrow> ('w \<times> 'q \<times> (i32 + unit)) option"
    and get :: "'q \<Rightarrow> 'w \<Rightarrow> ('w \<times> 'q \<times> 'a option) option"
    and keep :: "('a \<Rightarrow> bool) \<Rightarrow> 'q \<Rightarrow> 'w \<Rightarrow> ('w \<times> 'q) option"
  assumes put_pending: "put x q w = Some (w', q', r) \<Longrightarrow> pending q' = pending q @ [x]"
    and get_pending: "get q w = Some (w', q', y) \<Longrightarrow>
      pending q = (case y of None \<Rightarrow> [] | Some x \<Rightarrow> [x]) @ pending q'"
    and keep_pending: "keep p q w = Some (w', q') \<Longrightarrow> pending q' = filter p (pending q)"
begin

text \<open>
  A history of the queue: what was put into it and what was taken out. Whatever is done, what was taken
  out and what is pending is what was put in, in order, less what was dropped.
\<close>

inductive history :: "'q \<Rightarrow> 'q \<Rightarrow> 'a list \<Rightarrow> 'a list \<Rightarrow> bool" where
  h_start: "history q q [] []"
| h_put: "history q0 q ins outs \<Longrightarrow> put x q w = Some (w', q', r) \<Longrightarrow> history q0 q' (ins @ [x]) outs"
| h_get: "history q0 q ins outs \<Longrightarrow> get q w = Some (w', q', y) \<Longrightarrow>
    history q0 q' ins (outs @ (case y of None \<Rightarrow> [] | Some x \<Rightarrow> [x]))"
| h_keep: "history q0 q ins outs \<Longrightarrow> keep p q w = Some (w', q') \<Longrightarrow> history q0 q' ins outs"

lemma history_subseq: "history q0 q ins outs \<Longrightarrow> subseq (outs @ pending q) (pending q0 @ ins)"
proof (induction rule: history.induct)
  case (h_put q0 q ins outs x w w' q' r)
  then show ?case
    using list_emb_append_mono [of "(=)" "outs @ pending q" "pending q0 @ ins" "[x]" "[x]"] by (simp add: put_pending)
next
  case (h_get q0 q ins outs w w' q' y)
  then show ?case by (simp add: get_pending)
next
  case (h_keep q0 q ins outs p w w' q')
  have "subseq (pending q') (pending q)" by (simp add: keep_pending [OF h_keep.hyps(2)])
  then have "subseq (outs @ pending q') (outs @ pending q)" by (simp add: subseq_append')
  with h_keep.IH show ?case by (rule subseq_order.trans [rotated])
qed simp

end

interpretation eq: event_fifo eq_pending "queue_event E" "dequeue_event E" "retain E" for E
  by unfold_locales
    (auto simp: queue_event_def dequeue_event_def retain_def Let_def split: list.split_asm if_split_asm)

section \<open>The event file descriptor\<close>

text \<open>
  The documented behaviour of an \<open>eventfd\<close>, where \<open>cnt\<close> is its counter: a write adds to the counter and
  waits only if that would exceed the maximum, and a read of a counter that is not zero returns and
  resets it. Only the descriptor itself is affected.
\<close>

definition eventfd_laws :: "('w, 'x) EventFd_scheme \<Rightarrow> (fd \<Rightarrow> 'w \<Rightarrow> nat) \<Rightarrow> bool" where
  "eventfd_laws E cnt \<longleftrightarrow>
     (\<forall>w w' f. ef_new E w = (w', Inr f) \<longrightarrow> cnt f w' = 0) \<and>
     (\<forall>f n w. cnt f w + unat n < 2 ^ 64 - 1 \<longrightarrow> (\<exists>w'. ef_write E f n w = Some (w', Inr ()) \<and> cnt f w' = cnt f w + unat n)) \<and>
     (\<forall>f w. 0 < cnt f w \<longrightarrow> (\<exists>w'. ef_read E f w = Some (w', Inr (of_nat (cnt f w))) \<and> cnt f w' = 0))"

text \<open>The descriptor is readable exactly while events are pending.\<close>

definition queue_ok :: "(fd \<Rightarrow> 'w \<Rightarrow> nat) \<Rightarrow> 'a EventQueue \<Rightarrow> 'w \<Rightarrow> bool" where
  "queue_ok cnt q w \<longleftrightarrow> cnt (eq_event q) w = (if eq_pending q = [] then 0 else 1)"

lemma queue_event_ok:
  assumes "eventfd_laws E cnt" and "queue_ok cnt q w"
  shows "\<exists>w'. queue_event E ev q w = Some (w', q\<lparr>eq_pending := eq_pending q @ [ev]\<rparr>, Inr ()) \<and>
    queue_ok cnt (q\<lparr>eq_pending := eq_pending q @ [ev]\<rparr>) w'"
proof (cases "eq_pending q = []")
  case True
  with assms(2) have "cnt (eq_event q) w + unat (1 :: u64) < 2 ^ 64 - 1" by (simp add: queue_ok_def)
  with assms(1) obtain w' where "ef_write E (eq_event q) 1 w = Some (w', Inr ())" "cnt (eq_event q) w' = cnt (eq_event q) w + unat (1 :: u64)"
    unfolding eventfd_laws_def by blast
  with True assms(2) show ?thesis by (auto simp: queue_event_def queue_ok_def)
next
  case False
  with assms(2) show ?thesis by (auto simp: queue_event_def queue_ok_def)
qed

lemma read_ok:
  assumes "eventfd_laws E cnt" and "queue_ok cnt q w" and "eq_pending q \<noteq> []"
  obtains w' n where "ef_read E (eq_event q) w = Some (w', Inr n)" and "cnt (eq_event q) w' = 0"
  using assms unfolding eventfd_laws_def queue_ok_def by (metis zero_less_one)

lemma dequeue_event_ok:
  assumes "eventfd_laws E cnt" and "queue_ok cnt q w"
  shows "\<exists>w'. dequeue_event E q w = Some (w', q\<lparr>eq_pending := tl (eq_pending q)\<rparr>,
      if eq_pending q = [] then None else Some (hd (eq_pending q))) \<and>
    queue_ok cnt (q\<lparr>eq_pending := tl (eq_pending q)\<rparr>) w'"
proof (cases "eq_pending q")
  case Nil
  with assms(2) show ?thesis by (simp add: dequeue_event_def queue_ok_def)
next
  case (Cons ev evs)
  then obtain w' n where "ef_read E (eq_event q) w = Some (w', Inr n)" "cnt (eq_event q) w' = 0"
    using read_ok [OF assms] by (metis list.discI)
  with Cons assms(2) show ?thesis by (cases "evs = []") (auto simp: dequeue_event_def queue_ok_def)
qed

lemma retain_ok:
  assumes "eventfd_laws E cnt" and "queue_ok cnt q w"
  shows "\<exists>w'. retain E p q w = Some (w', q\<lparr>eq_pending := filter p (eq_pending q)\<rparr>) \<and>
    queue_ok cnt (q\<lparr>eq_pending := filter p (eq_pending q)\<rparr>) w'"
proof (cases "eq_pending q \<noteq> [] \<and> filter p (eq_pending q) = []")
  case True
  then obtain w' n where "ef_read E (eq_event q) w = Some (w', Inr n)" "cnt (eq_event q) w' = 0"
    using read_ok [OF assms] by metis
  with True assms(2) show ?thesis by (auto simp: retain_def queue_ok_def)
next
  case False
  with assms(2) show ?thesis by (auto simp: retain_def queue_ok_def)
qed

end
