(* ===== verification/Ffmpeg_Session.thy ===== *)
theory Ffmpeg_Session
  imports Ffmpeg_Av Event_Queue Btree_Map Decoder_Session "HOL-Library.Signed_Division"
begin

text \<open>
  The FFmpeg decoding backend, \<open>extras/ffmpeg-decoder/src/lib.rs\<close>: its buffers and formats, the decoding
  context, the decoding loop, the methods of a session and those of the backend. The functions of
  \<open>libavcodec\<close> and \<open>libswscale\<close> are the parameter \<open>A\<close>, those of the operating system \<open>E\<close>, and the
  constants and functions of the \<open>v4l2r\<close> crate \<open>K\<close> and \<open>D\<close>. A function that may panic, or wait for the
  \<open>eventfd\<close>, or loop, returns an \<open>option\<close>; the others are total. The state \<open>'w\<close> is that of the operating
  system and of the libraries.
\<close>

section \<open>Parameters\<close>

record 'w FfOs = "'w EventFd" +
  ff_os :: "'w Os"
  os_mmap :: "fd \<Rightarrow> u64 \<Rightarrow> 'w \<Rightarrow> 'w \<times> (i32 + u64)"
  os_read_exact :: "fd \<Rightarrow> nat \<Rightarrow> 'w \<Rightarrow> 'w \<times> (i32 + u8 list)"

record v4l2_frmsize_stepwise =
  sw_min_width :: u32
  sw_max_width :: u32
  sw_step_width :: u32
  sw_min_height :: u32
  sw_max_height :: u32
  sw_step_height :: u32

record v4l2_defaults =
  V4L2_COLORSPACE_DEFAULT :: u32
  V4L2_YCBCR_ENC_DEFAULT :: u32
  V4L2_QUANTIZATION_DEFAULT :: u32
  V4L2_XFER_FUNC_DEFAULT :: u32
  pix_mp_default :: rest
  from_dir_and_class :: "QueueDirection \<Rightarrow> QueueClass \<Rightarrow> QueueType"
  stepwise_rest :: "v4l2_frmsize_stepwise \<Rightarrow> rest"

section \<open>Buffers\<close>

record FfmpegDecoderBuffer =
  fb_fds :: "MemFdBuffer list"

fun new_fds :: "'w Os \<Rightarrow> nat list \<Rightarrow> 'w \<Rightarrow> 'w \<times> (NewMemFdBufferError + MemFdBuffer list)" where
  "new_fds OS [] w = (w, Inr [])"
| "new_fds OS (sz # sizes) w =
     (case MemFdBuffer_new OS (of_nat sz) w of
        (w1, Inl e) \<Rightarrow> (w1, Inl e)
      | (w1, Inr b) \<Rightarrow>
          (case new_fds OS sizes w1 of
             (w2, Inl e) \<Rightarrow> (w2, Inl e)
           | (w2, Inr bs) \<Rightarrow> (w2, Inr (b # bs))))"

definition FfmpegDecoderBuffer_new ::
  "'w Os \<Rightarrow> QueueType \<Rightarrow> u32 \<Rightarrow> nat list \<Rightarrow> 'w \<Rightarrow> 'w \<times> (i32 + FfmpegDecoderBuffer)"
where
  "FfmpegDecoderBuffer_new OS queue index sizes w =
     (case new_fds OS sizes w of
        (w', Inl e) \<Rightarrow> (w', Inl ENOMEM)
      | (w', Inr fds) \<Rightarrow> (w', Inr \<lparr>fb_fds = fds\<rparr>))"

definition ffmpeg_fd_for_plane :: "FfmpegDecoderBuffer \<Rightarrow> nat \<Rightarrow> fd option" where
  "ffmpeg_fd_for_plane b plane_idx = map_option as_file (vec_get (fb_fds b) plane_idx)"

section \<open>Formats\<close>

datatype OutputFormat = H264 | VP8 | VP9 | HEVC

datatype CaptureFormat = NV12

text \<open>The discriminants, which also order the formats, and the conversions from them.\<close>

fun output_as_u32 :: "'vb v4l2r \<Rightarrow> OutputFormat \<Rightarrow> u32" where
  "output_as_u32 K H264 = fourcc K [0x48, 0x32, 0x36, 0x34]"
| "output_as_u32 K VP8 = fourcc K [0x56, 0x50, 0x38, 0x30]"
| "output_as_u32 K VP9 = fourcc K [0x56, 0x50, 0x39, 0x30]"
| "output_as_u32 K HEVC = fourcc K [0x48, 0x45, 0x56, 0x43]"

definition OutputFormat_n :: "'vb v4l2r \<Rightarrow> u32 \<Rightarrow> OutputFormat option" where
  "OutputFormat_n K v = find (\<lambda>f. output_as_u32 K f = v) [H264, VP8, VP9, HEVC]"

fun capture_as_u32 :: "'vb v4l2r \<Rightarrow> CaptureFormat \<Rightarrow> u32" where
  "capture_as_u32 K NV12 = fourcc K [0x4E, 0x56, 0x31, 0x32]"

definition CaptureFormat_n :: "'vb v4l2r \<Rightarrow> u32 \<Rightarrow> CaptureFormat option" where
  "CaptureFormat_n K v = find (\<lambda>f. capture_as_u32 K f = v) [NV12]"

fun av_format :: "('w, 'av, 'sw, 'b) Libav \<Rightarrow> CaptureFormat \<Rightarrow> i32" where
  "av_format A NV12 = AV_PIX_FMT_NV12 A"

definition format_filler :: "'vb v4l2r \<Rightarrow> v4l2_defaults \<Rightarrow> v4l2_pix_format_mplane" where
  "format_filler K D =
     \<lparr>pix_mp_width = 0, pix_mp_height = 0, pix_mp_pixelformat = 0, pix_mp_field = V4L2_FIELD_NONE K,
      pix_mp_plane_fmt = replicate (unat (VIDEO_MAX_PLANES K)) (0, 0), pix_mp_num_planes = 0, pix_mp_flags = 0,
      pix_mp_colorspace = V4L2_COLORSPACE_DEFAULT D, pix_mp_ycbcr_enc = ucast (V4L2_YCBCR_ENC_DEFAULT D),
      pix_mp_quantization = ucast (V4L2_QUANTIZATION_DEFAULT D), pix_mp_xfer_func = ucast (V4L2_XFER_FUNC_DEFAULT D),
      pix_mp_rest = pix_mp_default D\<rparr>"

definition INPUT_SIZEIMAGE :: u32 where "INPUT_SIZEIMAGE = 1024 * 1024"

definition output_pix_format ::
  "'vb v4l2r \<Rightarrow> v4l2_defaults \<Rightarrow> OutputFormat \<Rightarrow> u32 \<times> u32 \<Rightarrow> v4l2_pix_format_mplane"
where
  "output_pix_format K D fmt dims =
     (format_filler K D)\<lparr>pix_mp_width := fst dims, pix_mp_height := snd dims, pix_mp_pixelformat := output_as_u32 K fmt,
        pix_mp_plane_fmt := (replicate (unat (VIDEO_MAX_PLANES K)) (0, 0))[0 := (0, INPUT_SIZEIMAGE)],
        pix_mp_num_planes := 1\<rparr>"

text \<open>The sum of an iterator of \<open>usize\<close>, from the left.\<close>

fun sum_ov :: "bool \<Rightarrow> u64 \<Rightarrow> u64 list \<Rightarrow> u64 option" where
  "sum_ov chk acc [] = Some acc"
| "sum_ov chk acc (x # xs) = Option.bind (add_ov chk acc x) (\<lambda>acc'. sum_ov chk acc' xs)"

definition capture_pix_format ::
  "bool \<Rightarrow> ('w, 'av, 'sw, 'b) Libav \<Rightarrow> 'vb v4l2r \<Rightarrow> v4l2_defaults \<Rightarrow> CaptureFormat \<Rightarrow> u32 \<times> u32 \<Rightarrow>
   v4l2_pix_format_mplane option"
where
  "capture_pix_format chk A K D fmt dims =
     (let bytesperline = (ucast (line_size A (av_format A fmt) (fst dims) 0) :: u32) in do {
        sizeimage \<leftarrow> sum_ov chk 0 (plane_sizes A (av_format A fmt) [bytesperline, bytesperline] (snd dims));
        Some ((format_filler K D)\<lparr>pix_mp_width := fst dims, pix_mp_height := snd dims,
           pix_mp_pixelformat := capture_as_u32 K fmt,
           pix_mp_plane_fmt := (replicate (unat (VIDEO_MAX_PLANES K)) (0, 0))[0 := (bytesperline, ucast sizeimage)],
           pix_mp_num_planes := 1\<rparr>)
      })"

section \<open>Sessions\<close>

datatype 'b FfmpegDecoderJob = DecodeJob "'b AvPacket" u32 | DrainJob

datatype DrainState = NoDrain | Initiated | AwaitingFinalFrame

record ('av, 'sw, 'b) DecodingContext =
  dc_jobs :: "'b FfmpegDecoderJob list"
  dc_av_context :: "'av AvCodecContext"
  dc_converter :: "'sw SwConverter"
  dc_accepting_output_buffers :: bool
  dc_avframe :: "'b AvFrame option"
  dc_drain_state :: DrainState

datatype NewDecodingContextError = DecoderCreation AvCodecOpenError | SwConverterCreation

definition create_converter_from_context ::
  "('w, 'av, 'sw, 'b) Libav \<Rightarrow> 'av AvCodecContext \<Rightarrow> CaptureFormat \<Rightarrow> 'w \<Rightarrow> 'w \<times> (unit + 'sw SwConverter)"
where
  "create_converter_from_context A av fmt w =
     SwConverter_new A (scast (avc_width av)) (scast (avc_height av)) (avc_pix_fmt av) (av_format A fmt) w"

definition DecodingContext_new ::
  "('w, 'av, 'sw, 'b) Libav \<Rightarrow> AvCodec \<Rightarrow> CaptureFormat \<Rightarrow> u32 \<times> u32 \<Rightarrow> 'w \<Rightarrow>
   'w \<times> (NewDecodingContextError + ('av, 'sw, 'b) DecodingContext)"
where
  "DecodingContext_new A codec fmt dims w =
     (case build_decoder A codec w of
        (w1, Inl e) \<Rightarrow> (w1, Inl (DecoderCreation e))
      | (w1, Inr b) \<Rightarrow>
          (case av_build A (set_initial_format dims (AV_PIX_FMT_YUV420P A) b) w1 of
             (w2, Inl e) \<Rightarrow> (w2, Inl (DecoderCreation e))
           | (w2, Inr av) \<Rightarrow>
               (case create_converter_from_context A av fmt w2 of
                  (w3, Inl _) \<Rightarrow> (w3, Inl SwConverterCreation)
                | (w3, Inr conv) \<Rightarrow>
                    (w3, Inr \<lparr>dc_jobs = [], dc_av_context = av, dc_converter = conv,
                             dc_accepting_output_buffers = True, dc_avframe = None, dc_drain_state = NoDrain\<rparr>))))"

definition update_converter ::
  "('w, 'av, 'sw, 'b) Libav \<Rightarrow> CaptureFormat \<Rightarrow> ('av, 'sw, 'b) DecodingContext \<Rightarrow> 'w \<Rightarrow>
   'w \<times> ('av, 'sw, 'b) DecodingContext \<times> (unit + unit)"
where
  "update_converter A fmt c w =
     (case create_converter_from_context A (dc_av_context c) fmt w of
        (w', Inl _) \<Rightarrow> (w', c, Inl ())
      | (w', Inr conv) \<Rightarrow> (w', c\<lparr>dc_converter := conv\<rparr>, Inr ()))"

record AvailableOutputFrame =
  of_index :: u32
  of_planes :: "MemFdMapping list"

record ('av, 'sw, 'b) FfmpegDecoderSession =
  fs_input_format :: "OutputFormat \<times> AvCodec"
  fs_output_format :: CaptureFormat
  fs_coded_size :: "u32 \<times> u32"
  fs_stream_params :: StreamParams
  fs_context :: "('av, 'sw, 'b) DecodingContext option"
  fs_available_output_frames :: "AvailableOutputFrame list"
  fs_events :: "VideoDecoderBackendEvent EventQueue"

datatype TrySendInputError = SendNoContext | SendAvError i32 | SendEventQueue i32

datatype TryReceiveFrameError =
    ReceiveNoContext | CannotCreateAvFrame AvFrameError | DecodingError i32 | ReceiveEventQueue i32
  | ReceiveSwConverter | DrainFailed

datatype TryOutputFrameError =
    OutputNoContext | OutputAvFrame AvFrameError | OutputEventQueue i32 | NotEnoughPlanes
  | CannotBuild AvFrameError | OutputConversionError ConversionError

datatype TryDecodeError =
    SendInput TrySendInputError | ReceiveFrame TryReceiveFrameError | OutputFrame TryOutputFrameError

text \<open>A method of a session that may fail with \<open>'e\<close> and returns \<open>'r\<close>.\<close>

type_synonym ('w, 'av, 'sw, 'b, 'e, 'r) ff_method =
  "('av, 'sw, 'b) FfmpegDecoderSession \<Rightarrow> 'w \<Rightarrow> ('w \<times> ('av, 'sw, 'b) FfmpegDecoderSession \<times> ('e + 'r)) option"

text \<open>An event is queued and the error of the queue mapped.\<close>

definition send_event ::
  "('w, 'x) EventFd_scheme \<Rightarrow> VideoDecoderBackendEvent \<Rightarrow> (i32 \<Rightarrow> 'e) \<Rightarrow> ('w, 'av, 'sw, 'b, 'e, unit) ff_method"
where
  "send_event E event err s w =
     map_option (\<lambda>(w', q, r). (w', s\<lparr>fs_events := q\<rparr>, map_sum err id r)) (queue_event E event (fs_events s) w)"

section \<open>Input\<close>

text \<open>
  A packet that is refused stays at the front of the queue; one that fails for another reason is
  dropped.
\<close>

definition try_send_input_job ::
  "('w, 'av, 'sw, 'b) Libav \<Rightarrow> ('w, 'x) EventFd_scheme \<Rightarrow> ('w, 'av, 'sw, 'b, TrySendInputError, bool) ff_method"
where
  "try_send_input_job A E s w =
     (case fs_context s of
        None \<Rightarrow> Some (w, s, Inl SendNoContext)
      | Some c \<Rightarrow>
          (case dc_jobs c of
             [] \<Rightarrow> Some (w, s, Inr False)
           | DecodeJob packet input_idx # jobs \<Rightarrow>
               (case try_send_packet A packet (dc_av_context c) w of
                  (w1, av, r) \<Rightarrow>
                    (let refused = s\<lparr>fs_context := Some (c\<lparr>dc_av_context := av\<rparr>)\<rparr>;
                         taken = s\<lparr>fs_context := Some (c\<lparr>dc_jobs := jobs, dc_av_context := av\<rparr>)\<rparr>;
                         completed = map_option (\<lambda>(w', s', r'). (w', s', map_sum id (\<lambda>_. True) r'))
                           (send_event E (InputBufferDone input_idx 0) SendEventQueue taken w1)
                     in case r of
                          Inr accepted \<Rightarrow> if accepted then completed else Some (w1, refused, Inr False)
                        | Inl e \<Rightarrow>
                            if e = AVERROR_EOF then Some (w1, refused, Inr False)
                            else if e = AVERROR_INVALIDDATA then completed
                            else Some (w1, taken, Inl (SendAvError e))))
           | DrainJob # jobs \<Rightarrow>
               Some (w, s\<lparr>fs_context := Some (c\<lparr>dc_jobs := jobs, dc_drain_state := Initiated\<rparr>)\<rparr>, Inr True)))"

section \<open>Frames from the decoder\<close>

text \<open>
  The branch of \<open>try_receive_frame\<close> for a frame that was received, where \<open>c\<close> is the context of the session.
  The subtractions of the crop values panic or wrap around.
\<close>

definition frame_received ::
  "bool \<Rightarrow> ('w, 'av, 'sw, 'b) Libav \<Rightarrow> ('w, 'x) EventFd_scheme \<Rightarrow> 'b AvFrame \<Rightarrow> ('av, 'sw, 'b) DecodingContext \<Rightarrow>
   ('w, 'av, 'sw, 'b, TryReceiveFrameError, bool) ff_method"
where
  "frame_received chk A E avframe c s w = do {
     width \<leftarrow> sub_ov chk (af_crop_right avframe) (af_crop_left avframe);
     height \<leftarrow> sub_ov chk (af_crop_bottom avframe) (af_crop_top avframe);
     (let new_coded_size = (af_width avframe, af_height avframe);
          new_visible_rect =
            Rect_new (ucast (af_crop_left avframe)) (ucast (af_crop_top avframe)) (ucast width) (ucast height);
          params = fs_stream_params s
      in
        if new_coded_size \<noteq> coded_size params \<or> new_visible_rect \<noteq> visible_rect params then
          (let s1 = s\<lparr>fs_stream_params := params\<lparr>coded_size := new_coded_size, visible_rect := new_visible_rect\<rparr>,
                     fs_coded_size :=
                       if fst (fs_coded_size s) < fst new_coded_size \<or> snd (fs_coded_size s) < snd new_coded_size
                       then new_coded_size else fs_coded_size s\<rparr>
           in case update_converter A (fs_output_format s) c w of
                (w1, c1, Inl _) \<Rightarrow> Some (w1, s1, Inl ReceiveSwConverter)
              | (w1, c1, Inr _) \<Rightarrow>
                  (let c2 = c1\<lparr>dc_accepting_output_buffers := False\<rparr>;
                       s2 = s1\<lparr>fs_available_output_frames := [], fs_context := Some c2\<rparr>
                   in do {
                     (w2, s3, r) \<leftarrow> send_event E StreamFormatChanged ReceiveEventQueue s2 w1;
                     Some (case r of
                       Inl e \<Rightarrow> (w2, s3, Inl e)
                     | Inr _ \<Rightarrow> (w2, s3\<lparr>fs_context := Some (c2\<lparr>dc_avframe := Some avframe\<rparr>)\<rparr>, Inr True))
                   }))
        else Some (w, s\<lparr>fs_context := Some (c\<lparr>dc_avframe := Some avframe\<rparr>)\<rparr>, Inr True))
   }"

text \<open>After a flush the function calls itself.\<close>

partial_function (option) try_receive_frame ::
  "bool \<Rightarrow> ('w, 'av, 'sw, 'b) Libav \<Rightarrow> ('w, 'x) EventFd_scheme \<Rightarrow> ('av, 'sw, 'b) FfmpegDecoderSession \<Rightarrow> 'w \<Rightarrow>
   ('w \<times> ('av, 'sw, 'b) FfmpegDecoderSession \<times> (TryReceiveFrameError + bool)) option"
where
  "try_receive_frame chk A E s w =
     (case fs_context s of
        None \<Rightarrow> Some (w, s, Inl ReceiveNoContext)
      | Some c \<Rightarrow>
          (case dc_avframe c of
             Some _ \<Rightarrow> Some (w, s, Inr False)
           | None \<Rightarrow>
               (case AvFrame_new A w of
                  (w1, Inl e) \<Rightarrow> Some (w1, s, Inl (CannotCreateAvFrame e))
                | (w1, Inr _) \<Rightarrow>
                    (case av_try_receive_frame A (dc_av_context c) w1 of
                       (w2, av, avframe, r) \<Rightarrow>
                         (let c1 = c\<lparr>dc_av_context := av\<rparr>; s1 = s\<lparr>fs_context := Some c1\<rparr> in
                          case r of
                            Inr Received \<Rightarrow> frame_received chk A E avframe c1 s1 w2
                          | Inr TryAgain \<Rightarrow>
                              if dc_drain_state c = Initiated then
                                (case flush_decoder A av w2 of
                                   (w3, av', Inr _) \<Rightarrow>
                                     try_receive_frame chk A E (s\<lparr>fs_context := Some (c\<lparr>dc_av_context := av'\<rparr>)\<rparr>) w3
                                 | (w3, av', Inl _) \<Rightarrow>
                                     Some (w3, s\<lparr>fs_context := Some (c\<lparr>dc_av_context := av', dc_drain_state := NoDrain\<rparr>)\<rparr>,
                                           Inl DrainFailed))
                              else Some (w2, s1, Inr False)
                          | Inr FlushCompleted \<Rightarrow>
                              if dc_drain_state c = Initiated then
                                Some (w2, s\<lparr>fs_context := Some (c1\<lparr>dc_drain_state := AwaitingFinalFrame\<rparr>)\<rparr>, Inr True)
                              else Some (w2, s1, Inr False)
                          | Inl e \<Rightarrow>
                              Some (w2, s1, if e = AVERROR_INVALIDDATA then Inr True else Inl (DecodingError e)))))))"

section \<open>Frames to the client\<close>

text \<open>
  The frame over the memory of the client. \<open>bytes_used[0]\<close> panics without a size, \<open>planes.remove(0)\<close>
  without a plane.
\<close>

definition dst_frame ::
  "bool \<Rightarrow> ('w, 'av, 'sw, 'b) Libav \<Rightarrow> i32 \<Rightarrow> u32 \<times> u32 \<Rightarrow> u64 list \<Rightarrow> MemFdMapping list \<Rightarrow> 'w \<Rightarrow>
   ('w \<times> (TryOutputFrameError + 'b AvFrame)) option"
where
  "dst_frame chk A fmt dims bytes_used planes w =
     (case AvFrame_new A w of
        (w1, Inl e) \<Rightarrow> Some (w1, Inl (OutputAvFrame e))
      | (w1, Inr frame) \<Rightarrow>
          (case set_dimensions dims frame of
             (_, Inl e) \<Rightarrow> Some (w1, Inl (OutputAvFrame e))
           | (frame1, Inr _) \<Rightarrow> do {
               chroma \<leftarrow> vec_get bytes_used 0;
               plane \<leftarrow> vec_get planes 0;
               (case AvBuffer_new A (SrcMapping plane) w1 of
                  (w2, None) \<Rightarrow> Some (w2, Inl NotEnoughPlanes)
                | (w2, Some buf) \<Rightarrow>
                    map_option (\<lambda>r. (w2, map_sum CannotBuild id r))
                      (build_owned chk A [buf]
                        [\<lparr>pd_buffer_index = 0, pd_offset = 0, stride = line_size A fmt (fst dims) 0\<rparr>,
                         \<lparr>pd_buffer_index = 0, pd_offset = chroma, stride = line_size A fmt (fst dims) 1\<rparr>]
                        (set_format fmt frame1)))
             }))"

text \<open>The time stamp of a frame, in microseconds: signed division truncates towards zero.\<close>

definition pts_timeval :: "u64 \<Rightarrow> timeval" where
  "pts_timeval pts = \<lparr>tv_sec = word_of_int (sint pts sdiv 1000000), tv_usec = word_of_int (sint pts smod 1000000)\<rparr>"

text \<open>
  The decoded frame \<open>avframe\<close> is written into the memory of \<open>output_frame\<close>, both of which have been taken
  from the session.
\<close>

definition output_avframe ::
  "bool \<Rightarrow> ('w, 'av, 'sw, 'b) Libav \<Rightarrow> ('w, 'x) EventFd_scheme \<Rightarrow> AvailableOutputFrame \<Rightarrow> 'b AvFrame \<Rightarrow>
   ('av, 'sw, 'b) DecodingContext \<Rightarrow> ('w, 'av, 'sw, 'b, TryOutputFrameError, bool) ff_method"
where
  "output_avframe chk A E output_frame avframe c s w =
     (let fmt = av_format A (fs_output_format s);
          bytes_used =
            plane_sizes A fmt [fst (fs_coded_size s), fst (fs_coded_size s)] (snd (fs_coded_size s))
      in do {
        (w1, dst) \<leftarrow> dst_frame chk A fmt (fs_coded_size s) bytes_used (of_planes output_frame) w;
        (case dst of
           Inl e \<Rightarrow> Some (w1, s, Inl e)
         | Inr frame \<Rightarrow>
             (case convert A avframe frame (dc_converter c) w1 of
                (w2, conv, r) \<Rightarrow>
                  (let s1 = s\<lparr>fs_context := Some (c\<lparr>dc_converter := conv\<rparr>)\<rparr> in
                   case r of
                     Inl e \<Rightarrow> Some (w2, s1, Inl (OutputConversionError e))
                   | Inr _ \<Rightarrow> do {
                       total \<leftarrow> sum_ov chk 0 bytes_used;
                       map_option (\<lambda>(w', s', r'). (w', s', map_sum id (\<lambda>_. True) r'))
                         (send_event E
                           (FrameCompleted (of_index output_frame) (pts_timeval (af_pts avframe)) [ucast total] False)
                           OutputEventQueue s1 w2)
                     })))
      })"

definition try_output_frame ::
  "bool \<Rightarrow> ('w, 'av, 'sw, 'b) Libav \<Rightarrow> ('w, 'x) EventFd_scheme \<Rightarrow> ('w, 'av, 'sw, 'b, TryOutputFrameError, bool) ff_method"
where
  "try_output_frame chk A E s w =
     (case fs_context s of
        None \<Rightarrow> Some (w, s, Inl OutputNoContext)
      | Some c \<Rightarrow>
          (case fs_available_output_frames s of
             [] \<Rightarrow> Some (w, s, Inr False)
           | output_frame # frames \<Rightarrow>
               if dc_drain_state c = AwaitingFinalFrame then
                 (case dc_avframe c of
                    Some _ \<Rightarrow> Some (w, s, Inr False)
                  | None \<Rightarrow>
                      map_option (\<lambda>(w', s', r'). (w', s', map_sum id (\<lambda>_. True) r'))
                        (send_event E (FrameCompleted (of_index output_frame) \<lparr>tv_sec = 0, tv_usec = 0\<rparr> [] True)
                          OutputEventQueue
                          (s\<lparr>fs_context := Some (c\<lparr>dc_drain_state := NoDrain\<rparr>), fs_available_output_frames := frames\<rparr>) w))
               else
                 (case dc_avframe c of
                    None \<Rightarrow> Some (w, s, Inr False)
                  | Some avframe \<Rightarrow>
                      (let c1 = c\<lparr>dc_avframe := None\<rparr> in
                       output_avframe chk A E output_frame avframe c1
                         (s\<lparr>fs_context := Some c1, fs_available_output_frames := frames\<rparr>) w))))"

section \<open>The decoding loop\<close>

partial_function (option) decode_loop ::
  "bool \<Rightarrow> ('w, 'av, 'sw, 'b) Libav \<Rightarrow> ('w, 'x) EventFd_scheme \<Rightarrow> ('av, 'sw, 'b) FfmpegDecoderSession \<Rightarrow> 'w \<Rightarrow>
   ('w \<times> ('av, 'sw, 'b) FfmpegDecoderSession \<times> (TryDecodeError + unit)) option"
where
  "decode_loop chk A E s w = do {
     (w1, s1, r1) \<leftarrow> try_output_frame chk A E s w;
     (case r1 of
        Inl e \<Rightarrow> Some (w1, s1, Inl (OutputFrame e))
      | Inr progress \<Rightarrow>
          if progress then decode_loop chk A E s1 w1
          else do {
            (w2, s2, r2) \<leftarrow> try_receive_frame chk A E s1 w1;
            (case r2 of
               Inl e \<Rightarrow> Some (w2, s2, Inl (ReceiveFrame e))
             | Inr progress \<Rightarrow>
                 if progress then decode_loop chk A E s2 w2
                 else do {
                   (w3, s3, r3) \<leftarrow> try_send_input_job A E s2 w2;
                   (case r3 of
                      Inl e \<Rightarrow> Some (w3, s3, Inl (SendInput e))
                    | Inr progress \<Rightarrow> if progress then decode_loop chk A E s3 w3 else Some (w3, s3, Inr ()))
                 })
          })
   }"

definition try_decode ::
  "bool \<Rightarrow> ('w, 'av, 'sw, 'b) Libav \<Rightarrow> ('w, 'x) EventFd_scheme \<Rightarrow> ('w, 'av, 'sw, 'b, TryDecodeError, unit) ff_method"
where
  "try_decode chk A E s w =
     (if fs_context s = None then Some (w, s, Inr ()) else decode_loop chk A E s w)"

section \<open>The methods of a session\<close>

text \<open>The sum of two signed values.\<close>

definition add_sov :: "bool \<Rightarrow> u64 \<Rightarrow> u64 \<Rightarrow> u64 option" where
  "add_sov chk a b = (if chk \<and> sint a + sint b \<notin> {- (2 ^ 63) ..< 2 ^ 63} then None else Some (a + b))"

text \<open>The microseconds of a time stamp: \<open>wrapping_mul\<close> wraps around, the sum may panic.\<close>

definition timeval_pts :: "bool \<Rightarrow> timeval \<Rightarrow> u64 option" where
  "timeval_pts chk t = add_sov chk (tv_sec t * 1000000) (tv_usec t)"

text \<open>The packet made of the data of an input buffer.\<close>

definition input_packet ::
  "('w, 'av, 'sw, 'b) Libav \<Rightarrow> 'w FfOs \<Rightarrow> FfmpegDecoderBuffer \<Rightarrow> u64 \<Rightarrow> u32 \<Rightarrow> 'w \<Rightarrow> 'w \<times> (i32 + 'b AvPacket)"
where
  "input_packet A E input pts bytes_used w =
     (case fb_fds input of
        [] \<Rightarrow> (w, Inl EINVAL)
      | b # _ \<Rightarrow>
          (case os_seek_start (ff_os E) (as_file b) w of
             (w1, Inl _) \<Rightarrow> (w1, Inl EIO)
           | (w1, Inr _) \<Rightarrow>
               (case os_read_exact E (as_file b) (unat bytes_used) w1 of
                  (w2, Inl _) \<Rightarrow> (w2, Inl EIO)
                | (w2, Inr input_data) \<Rightarrow>
                    (case AvBuffer_new A (SrcVec input_data) w2 of
                       (w3, None) \<Rightarrow> (w3, Inl ENOMEM)
                     | (w3, Some buf) \<Rightarrow> (w3, Inr (AvPacket_new_owned A pts buf))))))"

text \<open>The context in which to decode, created when there is none yet.\<close>

definition ensure_context ::
  "('w, 'av, 'sw, 'b) Libav \<Rightarrow> ('av, 'sw, 'b) FfmpegDecoderSession \<Rightarrow> 'w \<Rightarrow> 'w \<times> (i32 + ('av, 'sw, 'b) DecodingContext)"
where
  "ensure_context A s w =
     (case fs_context s of
        Some c \<Rightarrow> (w, Inr c)
      | None \<Rightarrow>
          (case DecodingContext_new A (snd (fs_input_format s)) (fs_output_format s) (coded_size (fs_stream_params s)) w of
             (w', Inl _) \<Rightarrow> (w', Inl ENODEV)
           | (w', Inr c) \<Rightarrow> (w', Inr c)))"

text \<open>A job is queued and the loop run, with any error as \<open>EINVAL\<close>.\<close>

definition run_job ::
  "bool \<Rightarrow> ('w, 'av, 'sw, 'b) Libav \<Rightarrow> ('w, 'x) EventFd_scheme \<Rightarrow> 'b FfmpegDecoderJob \<Rightarrow> ('av, 'sw, 'b) DecodingContext \<Rightarrow>
   ('w, 'av, 'sw, 'b, i32, unit) ff_method"
where
  "run_job chk A E job c s w =
     map_option (\<lambda>(w', s', r). (w', s', map_sum (\<lambda>_. EINVAL) id r))
       (try_decode chk A E (s\<lparr>fs_context := Some (c\<lparr>dc_jobs := dc_jobs c @ [job]\<rparr>)\<rparr>) w)"

definition ffmpeg_decode ::
  "bool \<Rightarrow> ('w, 'av, 'sw, 'b) Libav \<Rightarrow> 'w FfOs \<Rightarrow> FfmpegDecoderBuffer \<Rightarrow> u32 \<Rightarrow> timeval \<Rightarrow> u32 \<Rightarrow>
   ('w, 'av, 'sw, 'b, i32, unit) ff_method"
where
  "ffmpeg_decode chk A E input index timestamp bytes_used s w =
     (case ensure_context A s w of
        (w1, Inl e) \<Rightarrow> Some (w1, s, Inl e)
      | (w1, Inr c) \<Rightarrow> do {
          pts \<leftarrow> timeval_pts chk timestamp;
          (case input_packet A E input pts bytes_used w1 of
             (w2, Inl e) \<Rightarrow> Some (w2, s\<lparr>fs_context := Some c\<rparr>, Inl e)
           | (w2, Inr packet) \<Rightarrow> run_job chk A E (DecodeJob packet index) c s w2)
        })"

fun mmap_fds ::
  "'w FfOs \<Rightarrow> MemFdBuffer list \<Rightarrow> 'w \<Rightarrow> 'w \<times> (MemFdMmapError + MemFdMapping list)"
where
  "mmap_fds E [] w = (w, Inr [])"
| "mmap_fds E (b # bs) w =
     (case MemFdBuffer_mmap (os_mmap E) b w of
        (w1, Inl e) \<Rightarrow> (w1, Inl e)
      | (w1, Inr m) \<Rightarrow>
          (case mmap_fds E bs w1 of
             (w2, Inl e) \<Rightarrow> (w2, Inl e)
           | (w2, Inr ms) \<Rightarrow> (w2, Inr (m # ms))))"

text \<open>A buffer that comes while none is accepted is ignored and the call succeeds.\<close>

definition ffmpeg_use_as_output ::
  "'w FfOs \<Rightarrow> u32 \<Rightarrow> FfmpegDecoderBuffer \<Rightarrow> ('av, 'sw, 'b) FfmpegDecoderSession \<Rightarrow> 'w \<Rightarrow>
   'w \<times> ('av, 'sw, 'b) FfmpegDecoderSession \<times> unit IoctlResult"
where
  "ffmpeg_use_as_output E index backing s w =
     (if \<not> (case fs_context s of None \<Rightarrow> True | Some c \<Rightarrow> dc_accepting_output_buffers c) then (w, s, Inr ())
      else case mmap_fds E (fb_fds backing) w of
        (w', Inl _) \<Rightarrow> (w', s, Inl ENOMEM)
      | (w', Inr planes) \<Rightarrow>
          (w', s\<lparr>fs_available_output_frames :=
             fs_available_output_frames s @ [\<lparr>of_index = index, of_planes = planes\<rparr>]\<rparr>, Inr ()))"

definition ffmpeg_drain ::
  "bool \<Rightarrow> ('w, 'av, 'sw, 'b) Libav \<Rightarrow> ('w, 'x) EventFd_scheme \<Rightarrow> ('w, 'av, 'sw, 'b, i32, unit) ff_method"
where
  "ffmpeg_drain chk A E s w =
     (case fs_context s of
        None \<Rightarrow> Some (w, s, Inr ())
      | Some c \<Rightarrow> run_job chk A E DrainJob c s w)"

fun is_frame_completed :: "VideoDecoderBackendEvent \<Rightarrow> bool" where
  "is_frame_completed (FrameCompleted _ _ _ _) = True"
| "is_frame_completed _ = False"

definition ffmpeg_clear_output_buffers ::
  "('w, 'x) EventFd_scheme \<Rightarrow> ('w, 'av, 'sw, 'b, i32, unit) ff_method"
where
  "ffmpeg_clear_output_buffers E s w =
     map_option (\<lambda>(w', q). (w', s\<lparr>fs_available_output_frames := [], fs_events := q\<rparr>, Inr ()))
       (retain E (\<lambda>event. \<not> is_frame_completed event) (fs_events s) w)"

definition ffmpeg_next_event ::
  "('w, 'x) EventFd_scheme \<Rightarrow> ('av, 'sw, 'b) FfmpegDecoderSession \<Rightarrow> 'w \<Rightarrow>
   ('w \<times> ('av, 'sw, 'b) FfmpegDecoderSession \<times> VideoDecoderBackendEvent option) option"
where
  "ffmpeg_next_event E s w =
     map_option (\<lambda>(w', q, event). (w', s\<lparr>fs_events := q\<rparr>, event)) (dequeue_event E (fs_events s) w)"

definition ffmpeg_poll_fd :: "('av, 'sw, 'b) FfmpegDecoderSession \<Rightarrow> fd option" where
  "ffmpeg_poll_fd s = Some (eq_event (fs_events s))"

fun ffmpeg_current_format ::
  "bool \<Rightarrow> ('w, 'av, 'sw, 'b) Libav \<Rightarrow> 'vb v4l2r \<Rightarrow> v4l2_defaults \<Rightarrow> ('av, 'sw, 'b) FfmpegDecoderSession \<Rightarrow>
   QueueDirection \<Rightarrow> V4l2MplaneFormat option"
where
  "ffmpeg_current_format chk A K D s Output =
     Some (Output, output_pix_format K D (fst (fs_input_format s)) (coded_size (fs_stream_params s)))"
| "ffmpeg_current_format chk A K D s Capture =
     map_option (Pair Capture) (capture_pix_format chk A K D (fs_output_format s) (fs_coded_size s))"

definition ffmpeg_stream_params :: "('av, 'sw, 'b) FfmpegDecoderSession \<Rightarrow> StreamParams" where
  "ffmpeg_stream_params s = fs_stream_params s"

definition ffmpeg_streaming_state ::
  "QueueDirection \<Rightarrow> bool \<Rightarrow> ('av, 'sw, 'b) FfmpegDecoderSession \<Rightarrow> ('av, 'sw, 'b) FfmpegDecoderSession"
where
  "ffmpeg_streaming_state direction streaming s =
     (if direction = Capture \<and> streaming
      then s\<lparr>fs_context := map_option (\<lambda>c. c\<lparr>dc_accepting_output_buffers := True\<rparr>) (fs_context s)\<rparr>
      else s)"

section \<open>The backend\<close>

text \<open>
  The codecs are a \<open>BTreeMap\<close> whose keys are ordered by their discriminants: the list is keyed by the
  discriminant and carries the format.
\<close>

record FfmpegDecoder =
  fd_codecs :: "(u32 \<times> OutputFormat \<times> AvCodec) list"

definition codec_format :: "('w, 'av, 'sw, 'b) Libav \<Rightarrow> AvCodec \<Rightarrow> OutputFormat option" where
  "codec_format A codec =
     (if \<not> codec_is_decoder codec then None
      else case map_of [(''h264'', H264), (''hevc'', HEVC), (''vp8'', VP8), (''vp9'', VP9)] (codec_name codec) of
        None \<Rightarrow> None
      | Some fmt \<Rightarrow> if codec_capabilities codec AND AV_CODEC_CAP_DR1 A = 0 then None else Some fmt)"

definition FfmpegDecoder_new :: "('w, 'av, 'sw, 'b) Libav \<Rightarrow> 'vb v4l2r \<Rightarrow> FfmpegDecoder" where
  "FfmpegDecoder_new A K =
     \<lparr>fd_codecs =
        fold (\<lambda>codec m. case codec_format A codec of
                None \<Rightarrow> m
              | Some fmt \<Rightarrow> bt_insert (output_as_u32 K fmt) (fmt, codec) m) (av_codecs A) []\<rparr>"

definition SUPPORTED_OUTPUT_FORMATS :: "CaptureFormat list" where "SUPPORTED_OUTPUT_FORMATS = [NV12]"

definition DEFAULT_CODED_SIZE :: "u32 \<times> u32" where "DEFAULT_CODED_SIZE = (320, 240)"

definition ffmpeg_new_session ::
  "('w, 'x) EventFd_scheme \<Rightarrow> u32 \<Rightarrow> FfmpegDecoder \<Rightarrow> 'w \<Rightarrow> 'w \<times> FfmpegDecoder \<times> (i32 + ('av, 'sw, 'b) FfmpegDecoderSession)"
where
  "ffmpeg_new_session E session_id d w =
     (case fd_codecs d of
        [] \<Rightarrow> (w, d, Inl ENODEV)
      | (_, input_format) # _ \<Rightarrow>
          (case EventQueue_new E w of
             (w', Inl _) \<Rightarrow> (w', d, Inl EIO)
           | (w', Inr q) \<Rightarrow>
               (w', d, Inr
                 \<lparr>fs_input_format = input_format,
                  fs_output_format = (case SUPPORTED_OUTPUT_FORMATS of [] \<Rightarrow> NV12 | f # _ \<Rightarrow> f),
                  fs_coded_size = DEFAULT_CODED_SIZE,
                  fs_stream_params =
                    \<lparr>min_output_buffers = 4, coded_size = DEFAULT_CODED_SIZE,
                     visible_rect = Rect_new 0 0 (fst DEFAULT_CODED_SIZE) (snd DEFAULT_CODED_SIZE)\<rparr>,
                  fs_context = None, fs_available_output_frames = [], fs_events = q\<rparr>)))"

text \<open>Closing a session drops it.\<close>

definition ffmpeg_close_session :: "('av, 'sw, 'b) FfmpegDecoderSession \<Rightarrow> FfmpegDecoder \<Rightarrow> FfmpegDecoder" where
  "ffmpeg_close_session session d = d"

fun ffmpeg_enum_formats ::
  "'vb v4l2r \<Rightarrow> v4l2_defaults \<Rightarrow> FfmpegDecoder \<Rightarrow> QueueDirection \<Rightarrow> u32 \<Rightarrow> v4l2_fmtdesc option"
where
  "ffmpeg_enum_formats K D d direction index =
     map_option
       (\<lambda>pixelformat. \<lparr>fmtdesc_index = index, fmtdesc_type = queue_as_u32 K (from_dir_and_class D direction VideoMplane),
                       fmtdesc_pixelformat = pixelformat, fmtdesc_rest = fmtdesc_default K\<rparr>)
       (case direction of
          Output \<Rightarrow> map_option (output_as_u32 K \<circ> fst \<circ> snd) (vec_get (fd_codecs d) (unat index))
        | Capture \<Rightarrow> map_option (capture_as_u32 K) (vec_get SUPPORTED_OUTPUT_FORMATS (unat index)))"

definition ffmpeg_frame_sizes :: "'vb v4l2r \<Rightarrow> u32 \<Rightarrow> v4l2_frmsize_stepwise option" where
  "ffmpeg_frame_sizes K pixel_format =
     map_option
       (\<lambda>_. \<lparr>sw_min_width = 32, sw_max_width = 4096, sw_step_width = 1,
             sw_min_height = 32, sw_max_height = 4096, sw_step_height = 1\<rparr>)
       (CaptureFormat_n K pixel_format)"

fun ffmpeg_adjust_format ::
  "bool \<Rightarrow> ('w, 'av, 'sw, 'b) Libav \<Rightarrow> 'vb v4l2r \<Rightarrow> v4l2_defaults \<Rightarrow> ('av, 'sw, 'b) FfmpegDecoderSession \<Rightarrow>
   QueueDirection \<Rightarrow> V4l2MplaneFormat \<Rightarrow> V4l2MplaneFormat option"
where
  "ffmpeg_adjust_format chk A K D s Output format =
     Some (Output, output_pix_format K D
       (case OutputFormat_n K (pix_mp_pixelformat (snd format)) of None \<Rightarrow> fst (fs_input_format s) | Some f \<Rightarrow> f)
       (coded_size (fs_stream_params s)))"
| "ffmpeg_adjust_format chk A K D s Capture format =
     map_option (Pair Capture) (capture_pix_format chk A K D
       (case CaptureFormat_n K (pix_mp_pixelformat (snd format)) of None \<Rightarrow> fs_output_format s | Some f \<Rightarrow> f)
       (fs_coded_size s))"

fun ffmpeg_apply_format ::
  "'vb v4l2r \<Rightarrow> FfmpegDecoder \<Rightarrow> QueueDirection \<Rightarrow> V4l2MplaneFormat \<Rightarrow>
   ('av, 'sw, 'b) FfmpegDecoderSession \<Rightarrow> ('av, 'sw, 'b) FfmpegDecoderSession"
where
  "ffmpeg_apply_format K d Output format s =
     (case OutputFormat_n K (pix_mp_pixelformat (snd format)) of
        None \<Rightarrow> s
      | Some fmt \<Rightarrow>
          (case map_of (fd_codecs d) (output_as_u32 K fmt) of
             None \<Rightarrow> s
           | Some (_, codec) \<Rightarrow> s\<lparr>fs_input_format := (fmt, codec)\<rparr>))"
| "ffmpeg_apply_format K d Capture format s =
     (case CaptureFormat_n K (pix_mp_pixelformat (snd format)) of
        None \<Rightarrow> s
      | Some fmt \<Rightarrow> s\<lparr>fs_output_format := fmt\<rparr>)"

end
