(* ===== verification/Ffmpeg_Steps.thy ===== *)
theory Ffmpeg_Steps
  imports Ffmpeg_Session
begin

text \<open>
  The two recursive functions of the FFmpeg backend as inductive relations, one rule per branch of the
  code. What a run of them does is then proved by rule induction.
\<close>

section \<open>Receiving a frame\<close>

inductive received for chk A E where
  r_none: "fs_context s = None \<Longrightarrow> received chk A E s w (w, s, Inl ReceiveNoContext)"
| r_waiting: "fs_context s = Some c \<Longrightarrow> dc_avframe c = Some f \<Longrightarrow> received chk A E s w (w, s, Inr False)"
| r_alloc: "fs_context s = Some c \<Longrightarrow> dc_avframe c = None \<Longrightarrow> AvFrame_new A w = (w1, Inl e) \<Longrightarrow>
    received chk A E s w (w1, s, Inl (CannotCreateAvFrame e))"
| r_frame: "fs_context s = Some c \<Longrightarrow> dc_avframe c = None \<Longrightarrow> AvFrame_new A w = (w1, Inr f) \<Longrightarrow>
    av_try_receive_frame A (dc_av_context c) w1 = (w2, av, fr, Inr Received) \<Longrightarrow>
    frame_received chk A E fr (c\<lparr>dc_av_context := av\<rparr>) (s\<lparr>fs_context := Some (c\<lparr>dc_av_context := av\<rparr>)\<rparr>) w2 = Some y \<Longrightarrow>
    received chk A E s w y"
| r_again: "fs_context s = Some c \<Longrightarrow> dc_avframe c = None \<Longrightarrow> AvFrame_new A w = (w1, Inr f) \<Longrightarrow>
    av_try_receive_frame A (dc_av_context c) w1 = (w2, av, fr, Inr TryAgain) \<Longrightarrow> dc_drain_state c \<noteq> Initiated \<Longrightarrow>
    received chk A E s w (w2, s\<lparr>fs_context := Some (c\<lparr>dc_av_context := av\<rparr>)\<rparr>, Inr False)"
| r_flush: "fs_context s = Some c \<Longrightarrow> dc_avframe c = None \<Longrightarrow> AvFrame_new A w = (w1, Inr f) \<Longrightarrow>
    av_try_receive_frame A (dc_av_context c) w1 = (w2, av, fr, Inr TryAgain) \<Longrightarrow> dc_drain_state c = Initiated \<Longrightarrow>
    flush_decoder A av w2 = (w3, av', Inr ()) \<Longrightarrow>
    received chk A E (s\<lparr>fs_context := Some (c\<lparr>dc_av_context := av'\<rparr>)\<rparr>) w3 y \<Longrightarrow> received chk A E s w y"
| r_flush_failed: "fs_context s = Some c \<Longrightarrow> dc_avframe c = None \<Longrightarrow> AvFrame_new A w = (w1, Inr f) \<Longrightarrow>
    av_try_receive_frame A (dc_av_context c) w1 = (w2, av, fr, Inr TryAgain) \<Longrightarrow> dc_drain_state c = Initiated \<Longrightarrow>
    flush_decoder A av w2 = (w3, av', Inl e) \<Longrightarrow>
    received chk A E s w (w3, s\<lparr>fs_context := Some (c\<lparr>dc_av_context := av', dc_drain_state := NoDrain\<rparr>)\<rparr>, Inl DrainFailed)"
| r_completed: "fs_context s = Some c \<Longrightarrow> dc_avframe c = None \<Longrightarrow> AvFrame_new A w = (w1, Inr f) \<Longrightarrow>
    av_try_receive_frame A (dc_av_context c) w1 = (w2, av, fr, Inr FlushCompleted) \<Longrightarrow> dc_drain_state c = Initiated \<Longrightarrow>
    received chk A E s w
      (w2, s\<lparr>fs_context := Some (c\<lparr>dc_av_context := av, dc_drain_state := AwaitingFinalFrame\<rparr>)\<rparr>, Inr True)"
| r_end: "fs_context s = Some c \<Longrightarrow> dc_avframe c = None \<Longrightarrow> AvFrame_new A w = (w1, Inr f) \<Longrightarrow>
    av_try_receive_frame A (dc_av_context c) w1 = (w2, av, fr, Inr FlushCompleted) \<Longrightarrow> dc_drain_state c \<noteq> Initiated \<Longrightarrow>
    received chk A E s w (w2, s\<lparr>fs_context := Some (c\<lparr>dc_av_context := av\<rparr>)\<rparr>, Inr False)"
| r_error: "fs_context s = Some c \<Longrightarrow> dc_avframe c = None \<Longrightarrow> AvFrame_new A w = (w1, Inr f) \<Longrightarrow>
    av_try_receive_frame A (dc_av_context c) w1 = (w2, av, fr, Inl e) \<Longrightarrow>
    received chk A E s w (w2, s\<lparr>fs_context := Some (c\<lparr>dc_av_context := av\<rparr>)\<rparr>,
      if e = AVERROR_INVALIDDATA then Inr True else Inl (DecodingError e))"

lemma receive_outcome:
  assumes here: "fs_context s = Some c" "dc_avframe c = None" "AvFrame_new A w = (w1, Inr f)"
      "av_try_receive_frame A (dc_av_context c) w1 = (w2, av, fr, r)"
    and rec: "\<And>s w. rec s w = Some y \<Longrightarrow> received chk A E s w y"
    and body: "(case r of
        Inr Received \<Rightarrow> frame_received chk A E fr (c\<lparr>dc_av_context := av\<rparr>) (s\<lparr>fs_context := Some (c\<lparr>dc_av_context := av\<rparr>)\<rparr>) w2
      | Inr TryAgain \<Rightarrow>
          if dc_drain_state c = Initiated then
            (case flush_decoder A av w2 of
               (w3, av', Inr _) \<Rightarrow> rec (s\<lparr>fs_context := Some (c\<lparr>dc_av_context := av'\<rparr>)\<rparr>) w3
             | (w3, av', Inl _) \<Rightarrow>
                 Some (w3, s\<lparr>fs_context := Some (c\<lparr>dc_av_context := av', dc_drain_state := NoDrain\<rparr>)\<rparr>, Inl DrainFailed))
          else Some (w2, s\<lparr>fs_context := Some (c\<lparr>dc_av_context := av\<rparr>)\<rparr>, Inr False)
      | Inr FlushCompleted \<Rightarrow>
          if dc_drain_state c = Initiated then
            Some (w2, s\<lparr>fs_context := Some (c\<lparr>dc_av_context := av, dc_drain_state := AwaitingFinalFrame\<rparr>)\<rparr>, Inr True)
          else Some (w2, s\<lparr>fs_context := Some (c\<lparr>dc_av_context := av\<rparr>)\<rparr>, Inr False)
      | Inl e \<Rightarrow>
          Some (w2, s\<lparr>fs_context := Some (c\<lparr>dc_av_context := av\<rparr>)\<rparr>,
            if e = AVERROR_INVALIDDATA then Inr True else Inl (DecodingError e))) = Some y"
  shows "received chk A E s w y"
proof -
  consider "r = Inr Received" | "r = Inr TryAgain" | "r = Inr FlushCompleted" | e where "r = Inl e"
    by (cases r; cases "projr r") auto
  then show ?thesis
  proof cases
    case 1
    with body r_frame [OF here [unfolded 1]] show ?thesis by simp
  next
    case 2
    show ?thesis
    proof (cases "dc_drain_state c = Initiated")
      case True
      obtain w3 av' r3 where fl: "flush_decoder A av w2 = (w3, av', r3)" by (metis prod_cases3)
      show ?thesis
      proof (cases r3)
        case (Inl e)
        with True 2 body fl r_flush_failed [OF here [unfolded 2] True, of w3 av' e] show ?thesis by simp
      next
        case (Inr u)
        with True 2 body fl have "rec (s\<lparr>fs_context := Some (c\<lparr>dc_av_context := av'\<rparr>)\<rparr>) w3 = Some y" by simp
        from r_flush [OF here [unfolded 2] True _ rec [OF this]] fl Inr show ?thesis by simp
      qed
    qed (use 2 body r_again [OF here [unfolded 2]] in simp)
  next
    case 3
    with body r_completed [OF here [unfolded 3]] r_end [OF here [unfolded 3]] show ?thesis
      by (cases "dc_drain_state c = Initiated") auto
  next
    case (4 e)
    with body r_error [OF here [unfolded 4]] show ?thesis by auto
  qed
qed

lemma try_receive_frame_received:
  assumes "try_receive_frame chk A E s w = Some y"
  shows "received chk A E s w y"
proof (rule try_receive_frame.raw_induct [where P = "received", OF _ assms], goal_cases)
  case (1 rec chk A E s w y)
  show ?case
  proof (cases "fs_context s")
    case None
    with 1(2) show ?thesis by (auto intro: r_none)
  next
    case (Some c)
    note c = this
    show ?thesis
    proof (cases "dc_avframe c")
      case (Some f)
      with c 1(2) show ?thesis by (auto intro: r_waiting)
    next
      case None
      obtain w1 a where a: "AvFrame_new A w = (w1, a)" by fastforce
      obtain w2 av fr r where r: "av_try_receive_frame A (dc_av_context c) w1 = (w2, av, fr, r)" by (metis prod_cases4)
      show ?thesis
      proof (cases a)
        case (Inl e)
        with c None a 1(2) show ?thesis by (auto intro: r_alloc)
      next
        case (Inr f)
        with 1(2) c None a r show ?thesis
          by (intro receive_outcome [of s c A w w1 f w2 av fr r "rec chk A E", OF _ _ _ _ 1(1)]) (simp_all add: Let_def)
      qed
    qed
  qed
qed

section \<open>The decoding loop\<close>

inductive decoded for chk A E where
  d_output_error: "try_output_frame chk A E s w = Some (w1, s1, Inl e) \<Longrightarrow>
    decoded chk A E s w (w1, s1, Inl (OutputFrame e))"
| d_output: "try_output_frame chk A E s w = Some (w1, s1, Inr True) \<Longrightarrow> decoded chk A E s1 w1 y \<Longrightarrow> decoded chk A E s w y"
| d_receive_error: "try_output_frame chk A E s w = Some (w1, s1, Inr False) \<Longrightarrow>
    received chk A E s1 w1 (w2, s2, Inl e) \<Longrightarrow> decoded chk A E s w (w2, s2, Inl (ReceiveFrame e))"
| d_receive: "try_output_frame chk A E s w = Some (w1, s1, Inr False) \<Longrightarrow>
    received chk A E s1 w1 (w2, s2, Inr True) \<Longrightarrow> decoded chk A E s2 w2 y \<Longrightarrow> decoded chk A E s w y"
| d_send_error: "try_output_frame chk A E s w = Some (w1, s1, Inr False) \<Longrightarrow>
    received chk A E s1 w1 (w2, s2, Inr False) \<Longrightarrow> try_send_input_job A E s2 w2 = Some (w3, s3, Inl e) \<Longrightarrow>
    decoded chk A E s w (w3, s3, Inl (SendInput e))"
| d_send: "try_output_frame chk A E s w = Some (w1, s1, Inr False) \<Longrightarrow>
    received chk A E s1 w1 (w2, s2, Inr False) \<Longrightarrow> try_send_input_job A E s2 w2 = Some (w3, s3, Inr True) \<Longrightarrow>
    decoded chk A E s3 w3 y \<Longrightarrow> decoded chk A E s w y"
| d_done: "try_output_frame chk A E s w = Some (w1, s1, Inr False) \<Longrightarrow>
    received chk A E s1 w1 (w2, s2, Inr False) \<Longrightarrow> try_send_input_job A E s2 w2 = Some (w3, s3, Inr False) \<Longrightarrow>
    decoded chk A E s w (w3, s3, Inr ())"

lemma decode_loop_decoded:
  assumes "decode_loop chk A E s w = Some y"
  shows "decoded chk A E s w y"
proof (rule decode_loop.raw_induct [where P = "decoded", OF _ assms], goal_cases)
  case (1 rec chk A E s w y)
  from 1(2) obtain w1 s1 r1 where out: "try_output_frame chk A E s w = Some (w1, s1, r1)"
    by (auto elim!: bind_SomeE)
  note body1 = 1(2) [unfolded out, simplified]
  consider e where "r1 = Inl e" | "r1 = Inr True" | "r1 = Inr False" by (cases r1) auto
  then show ?case
  proof cases
    case (1 e)
    with body1 out show ?thesis by (auto intro: d_output_error)
  next
    case 2
    with body1 out show ?thesis by (auto intro: d_output 1(1))
  next
    case 3
    note out = out [unfolded 3]
    from body1 3 obtain w2 s2 r2 where rcv: "try_receive_frame chk A E s1 w1 = Some (w2, s2, r2)"
      by (auto elim!: bind_SomeE)
    note body2 = body1 [unfolded 3 rcv, simplified] and rcv = try_receive_frame_received [OF rcv]
    consider e where "r2 = Inl e" | "r2 = Inr True" | "r2 = Inr False" by (cases r2) auto
    then show ?thesis
    proof cases
      case (1 e)
      with body2 rcv d_receive_error [OF out] show ?thesis by auto
    next
      case 2
      with body2 have "rec chk A E s2 w2 = Some y" by simp
      from d_receive [OF out _ 1(1) [OF this]] rcv 2 show ?thesis by simp
    next
      case 3
      from body2 3 obtain w3 s3 r3 where snd: "try_send_input_job A E s2 w2 = Some (w3, s3, r3)"
        by (auto elim!: bind_SomeE)
      note body3 = body2 [unfolded 3 snd, simplified]
      consider e where "r3 = Inl e" | "r3 = Inr True" | "r3 = Inr False" by (cases r3) auto
      then show ?thesis
      proof cases
        case (1 e)
        with body3 rcv 3 snd d_send_error [OF out] show ?thesis by auto
      next
        case 2
        with body3 have "rec chk A E s3 w3 = Some y" by simp
        from d_send [OF out _ _ 1(1) [OF this]] rcv 3 snd 2 show ?thesis by simp
      next
        case 3
        with body3 rcv \<open>r2 = Inr False\<close> snd d_done [OF out] show ?thesis by auto
      qed
    qed
  qed
qed

section \<open>Runs of a session\<close>

text \<open>
  The calls a device makes on a session, with their replies. Between two calls the rest of the system
  runs, which does not change the counter of the session's \<open>eventfd\<close>.
\<close>

datatype FfCall =
    Decode FfmpegDecoderBuffer u32 timeval u32
  | UseAsOutput u32 FfmpegDecoderBuffer
  | Drain
  | ClearOutputBuffers
  | NextEvent
  | StreamingState QueueDirection bool
  | ApplyFormat QueueDirection V4l2MplaneFormat

datatype FfReply = Status "unit IoctlResult" | NextIs "VideoDecoderBackendEvent option"

abbreviation status ::
  "('w \<times> ('av, 'sw, 'b) FfmpegDecoderSession \<times> unit IoctlResult) \<Rightarrow> 'w \<times> ('av, 'sw, 'b) FfmpegDecoderSession \<times> FfReply"
where
  "status y \<equiv> (fst y, fst (snd y), Status (snd (snd y)))"

fun ffmpeg_call ::
  "bool \<Rightarrow> ('w, 'av, 'sw, 'b) Libav \<Rightarrow> 'vb v4l2r \<Rightarrow> 'w FfOs \<Rightarrow> FfmpegDecoder \<Rightarrow> FfCall \<Rightarrow>
   ('av, 'sw, 'b) FfmpegDecoderSession \<Rightarrow> 'w \<Rightarrow> ('w \<times> ('av, 'sw, 'b) FfmpegDecoderSession \<times> FfReply) option"
where
  "ffmpeg_call chk A K E d (Decode input index timestamp bytes_used) s w =
     map_option status (ffmpeg_decode chk A E input index timestamp bytes_used s w)"
| "ffmpeg_call chk A K E d (UseAsOutput index backing) s w = Some (status (ffmpeg_use_as_output E index backing s w))"
| "ffmpeg_call chk A K E d Drain s w = map_option status (ffmpeg_drain chk A E s w)"
| "ffmpeg_call chk A K E d ClearOutputBuffers s w = map_option status (ffmpeg_clear_output_buffers E s w)"
| "ffmpeg_call chk A K E d NextEvent s w =
     map_option (\<lambda>(w', s', event). (w', s', NextIs event)) (ffmpeg_next_event E s w)"
| "ffmpeg_call chk A K E d (StreamingState direction streaming) s w =
     Some (w, ffmpeg_streaming_state direction streaming s, Status (Inr ()))"
| "ffmpeg_call chk A K E d (ApplyFormat direction format) s w =
     Some (w, ffmpeg_apply_format K d direction format s, Status (Inr ()))"

inductive ff_run for chk A K E d cnt where
  run_start: "ffmpeg_new_session E i d w0 = (w, d', Inr s) \<Longrightarrow> ff_run chk A K E d cnt s w []"
| run_call: "ff_run chk A K E d cnt s w h \<Longrightarrow> ffmpeg_call chk A K E d c s w = Some (w', s', r) \<Longrightarrow>
    ff_run chk A K E d cnt s' w' (h @ [(c, r)])"
| run_world: "ff_run chk A K E d cnt s w h \<Longrightarrow> cnt (eq_event (fs_events s)) w' = cnt (eq_event (fs_events s)) w \<Longrightarrow>
    ff_run chk A K E d cnt s w' h"

end
