(* ===== verification/Ffmpeg_Fifo.thy ===== *)
theory Ffmpeg_Fifo
  imports Ffmpeg_Steps Decoder_Order
begin

text \<open>
  The order of the buffers in a session of the FFmpeg backend: the input buffers, from the job queue to
  the event that says they are done, and the output buffers, from the queue of available frames to the
  event that completes them.
\<close>

fun job_id :: "'b FfmpegDecoderJob \<Rightarrow> u32 list" where
  "job_id (DecodeJob p i) = [i]"
| "job_id DrainJob = []"

text \<open>The input buffers whose events are pending and those still queued, and likewise the output buffers.\<close>

definition job_ids :: "('av, 'sw, 'b) DecodingContext option \<Rightarrow> u32 list" where
  "job_ids c = (case c of None \<Rightarrow> [] | Some c \<Rightarrow> concat (map job_id (dc_jobs c)))"

definition in_ids :: "('av, 'sw, 'b) FfmpegDecoderSession \<Rightarrow> u32 list" where
  "in_ids s = concat (map done_id (eq_pending (fs_events s))) @ job_ids (fs_context s)"

definition out_ids :: "('av, 'sw, 'b) FfmpegDecoderSession \<Rightarrow> u32 list" where
  "out_ids s = concat (map frame_id (eq_pending (fs_events s))) @ map of_index (fs_available_output_frames s)"

lemmas ids_defs = job_ids_def in_ids_def out_ids_def

section \<open>The parts of the loop\<close>

lemma send_event_Some:
  assumes "send_event E ev err s w = Some (w', s', r)"
  obtains q where "s' = s\<lparr>fs_events := q\<rparr>" "eq_pending q = eq_pending (fs_events s) @ [ev]"
    "eq_event q = eq_event (fs_events s)"
proof -
  from assms obtain q r1 where q: "queue_event E ev (fs_events s) w = Some (w', q, r1)" "s' = s\<lparr>fs_events := q\<rparr>"
    by (auto simp: send_event_def)
  then have "eq_event q = eq_event (fs_events s)" by (auto simp: queue_event_def Let_def split: if_split_asm)
  with q eq.put_pending [OF q(1)] show ?thesis by (intro that)
qed

lemma try_send_input_job_ids:
  assumes "try_send_input_job A E s w = Some (w', s', r)"
  shows "subseq (in_ids s') (in_ids s)" and "r = Inr b \<Longrightarrow> in_ids s' = in_ids s" and "out_ids s' = out_ids s"
  using assms unfolding try_send_input_job_def
  by (auto simp: ids_defs Let_def elim!: send_event_Some split: option.split_asm list.split_asm prod.split_asm
      FfmpegDecoderJob.split_asm sum.split_asm if_split_asm)

lemma frame_received_ids:
  assumes "frame_received chk A E fr c s w = Some (w', s', r)" and "fs_context s = Some c"
  shows "in_ids s' = in_ids s" and "subseq (out_ids s') (out_ids s)"
  using assms unfolding frame_received_def update_converter_def
  by (auto simp: ids_defs Let_def elim!: bind_SomeE send_event_Some split: prod.split_asm sum.split_asm if_split_asm)

text \<open>A step keeps the order of the buffers, whatever it returns.\<close>

definition keeps_order :: "('av, 'sw, 'b) FfmpegDecoderSession \<Rightarrow> ('av, 'sw, 'b) FfmpegDecoderSession \<Rightarrow> bool" where
  "keeps_order s s' \<longleftrightarrow> in_ids s' = in_ids s \<and> subseq (out_ids s') (out_ids s)"

lemma received_ids: "received chk A E s w y \<Longrightarrow> keeps_order s (fst (snd y))"
proof (induction rule: received.induct)
  case (r_frame s c w w1 f w2 av fr y)
  then show ?case
    using frame_received_ids [of chk A E fr "c\<lparr>dc_av_context := av\<rparr>" "s\<lparr>fs_context := Some (c\<lparr>dc_av_context := av\<rparr>)\<rparr>" w2]
    by (cases y) (auto simp: keeps_order_def ids_defs)
qed (auto simp: keeps_order_def ids_defs)

lemma output_avframe_ids:
  assumes "output_avframe chk A E fr avframe c s w = Some (w', s', r)" and "fs_context s = Some c"
  shows "in_ids s' = in_ids s \<and>
    subseq (out_ids s') (concat (map frame_id (eq_pending (fs_events s))) @ of_index fr # map of_index (fs_available_output_frames s))"
  using assms unfolding output_avframe_def
  by (auto simp: ids_defs Let_def elim!: bind_SomeE send_event_Some split: prod.split_asm sum.split_asm)

lemma try_output_frame_ids:
  assumes "try_output_frame chk A E s w = Some (w', s', r)"
  shows "keeps_order s s'"
  using assms unfolding try_output_frame_def
  by (auto simp: keeps_order_def ids_defs Let_def elim!: send_event_Some dest!: output_avframe_ids
      split: option.split_asm list.split_asm if_split_asm)

section \<open>The loop\<close>

lemma decoded_ids:
  "decoded chk A E s w y \<Longrightarrow>
   subseq (in_ids (fst (snd y))) (in_ids s) \<and> subseq (out_ids (fst (snd y))) (out_ids s) \<and>
   (snd (snd y) = Inr () \<longrightarrow> in_ids (fst (snd y)) = in_ids s)"
proof (induction rule: decoded.induct)
  case (d_output_error s w w1 s1 e)
  then show ?case using try_output_frame_ids by (fastforce simp: keeps_order_def)
next
  case (d_output s w w1 s1 y)
  then show ?case using try_output_frame_ids [OF d_output.hyps(1)] by (auto simp: keeps_order_def intro: subseq_order.trans)
next
  case (d_receive_error s w w1 s1 w2 s2 e)
  then show ?case
    using try_output_frame_ids [OF d_receive_error.hyps(1)] received_ids [OF d_receive_error.hyps(2)]
    by (auto simp: keeps_order_def intro: subseq_order.trans)
next
  case (d_receive s w w1 s1 w2 s2 y)
  then show ?case
    using try_output_frame_ids [OF d_receive.hyps(1)] received_ids [OF d_receive.hyps(2)]
    by (auto simp: keeps_order_def intro: subseq_order.trans)
next
  case (d_send_error s w w1 s1 w2 s2 w3 s3 e)
  then show ?case
    using try_output_frame_ids [OF d_send_error.hyps(1)] received_ids [OF d_send_error.hyps(2)]
      try_send_input_job_ids(1,3) [OF d_send_error.hyps(3)]
    by (auto simp: keeps_order_def intro: subseq_order.trans)
next
  case (d_send s w w1 s1 w2 s2 w3 s3 y)
  then show ?case
    using try_output_frame_ids [OF d_send.hyps(1)] received_ids [OF d_send.hyps(2)]
      try_send_input_job_ids(2) [OF d_send.hyps(3) refl] try_send_input_job_ids(3) [OF d_send.hyps(3)]
    by (auto simp: keeps_order_def intro: subseq_order.trans)
next
  case (d_done s w w1 s1 w2 s2 w3 s3)
  then show ?case
    using try_output_frame_ids [OF d_done.hyps(1)] received_ids [OF d_done.hyps(2)]
      try_send_input_job_ids(2) [OF d_done.hyps(3) refl] try_send_input_job_ids(3) [OF d_done.hyps(3)]
    by (auto simp: keeps_order_def intro: subseq_order.trans)
qed

lemma run_job_ids:
  assumes "run_job chk A E job c s w = Some (w', s', r)"
  shows "subseq (in_ids s') (concat (map done_id (eq_pending (fs_events s))) @ job_ids (Some c) @ job_id job)"
    and "subseq (out_ids s') (out_ids s)"
    and "r = Inr () \<Longrightarrow> in_ids s' = concat (map done_id (eq_pending (fs_events s))) @ job_ids (Some c) @ job_id job"
proof -
  from assms obtain r1 where
    "decode_loop chk A E (s\<lparr>fs_context := Some (c\<lparr>dc_jobs := dc_jobs c @ [job]\<rparr>)\<rparr>) w = Some (w', s', r1)" and
    "r = map_sum (\<lambda>_. EINVAL) id r1"
    by (auto simp: run_job_def try_decode_def)
  with decoded_ids [OF decode_loop_decoded [OF this(1)]]
  show "subseq (in_ids s') (concat (map done_id (eq_pending (fs_events s))) @ job_ids (Some c) @ job_id job)"
    and "subseq (out_ids s') (out_ids s)"
    and "r = Inr () \<Longrightarrow> in_ids s' = concat (map done_id (eq_pending (fs_events s))) @ job_ids (Some c) @ job_id job"
    by (cases r1; auto simp: ids_defs)+
qed

lemma ensure_context_jobs: "ensure_context A s w = (w1, Inr c) \<Longrightarrow> job_ids (Some c) = job_ids (fs_context s)"
  by (auto simp: ensure_context_def DecodingContext_new_def job_ids_def split: option.split_asm prod.split_asm sum.split_asm)

lemma ffmpeg_decode_ids:
  assumes "ffmpeg_decode chk A E input i t u s w = Some (w', s', r)"
  shows "subseq (out_ids s') (out_ids s) \<and> (r = Inr () \<longrightarrow> in_ids s' = in_ids s @ [i])"
proof -
  obtain w1 r1 where c: "ensure_context A s w = (w1, r1)" by fastforce
  show ?thesis
  proof (cases r1)
    case (Inl e)
    with assms c show ?thesis by (auto simp: ffmpeg_decode_def)
  next
    case (Inr c)
    with assms \<open>ensure_context A s w = (w1, r1)\<close> obtain pts where
      *: "(case input_packet A E input pts u w1 of
             (w2, Inl e) \<Rightarrow> Some (w2, s\<lparr>fs_context := Some c\<rparr>, Inl e)
           | (w2, Inr packet) \<Rightarrow> run_job chk A E (DecodeJob packet i) c s w2) = Some (w', s', r)"
      by (auto simp: ffmpeg_decode_def elim!: bind_SomeE)
    have job: "job_ids (Some c) = job_ids (fs_context s)"
      using \<open>ensure_context A s w = (w1, r1)\<close> Inr by (simp add: ensure_context_jobs)
    obtain w2 r2 where p: "input_packet A E input pts u w1 = (w2, r2)" by fastforce
    show ?thesis
    proof (cases r2)
      case (Inl e)
      with * p show ?thesis by (auto simp: out_ids_def)
    next
      case (Inr packet)
      with * p have "run_job chk A E (DecodeJob packet i) c s w2 = Some (w', s', r)" by simp
      from run_job_ids(2,3) [OF this] job show ?thesis by (simp add: in_ids_def)
    qed
  qed
qed

section \<open>The calls\<close>

text \<open>What a history says of the buffers: those given to the session, and those its events gave back.\<close>

fun submitted_id :: "FfCall \<Rightarrow> u32 list" where
  "submitted_id (Decode b i t u) = [i]"
| "submitted_id _ = []"

fun handed_id :: "FfCall \<Rightarrow> u32 list" where
  "handed_id (UseAsOutput i b) = [i]"
| "handed_id _ = []"

fun reply_events :: "FfReply \<Rightarrow> VideoDecoderBackendEvent list" where
  "reply_events (NextIs (Some event)) = [event]"
| "reply_events _ = []"

definition submitted :: "(FfCall \<times> FfReply) list \<Rightarrow> u32 list" where
  "submitted h = concat (map (submitted_id \<circ> fst) h)"

definition handed :: "(FfCall \<times> FfReply) list \<Rightarrow> u32 list" where
  "handed h = concat (map (handed_id \<circ> fst) h)"

definition inputs_done :: "(FfCall \<times> FfReply) list \<Rightarrow> u32 list" where
  "inputs_done h = concat (map (concat \<circ> map done_id \<circ> reply_events \<circ> snd) h)"

definition frames_completed :: "(FfCall \<times> FfReply) list \<Rightarrow> u32 list" where
  "frames_completed h = concat (map (concat \<circ> map frame_id \<circ> reply_events \<circ> snd) h)"

lemmas history_defs = submitted_def handed_def inputs_done_def frames_completed_def

definition no_error :: "FfReply \<Rightarrow> bool" where
  "no_error r \<longleftrightarrow> (case r of Status (Inl e) \<Rightarrow> False | _ \<Rightarrow> True)"

lemma filter_done_id: "concat (map done_id (filter (\<lambda>e. \<not> is_frame_completed e) es)) = concat (map done_id es)"
proof (induction es)
  case (Cons e es)
  then show ?case by (cases e) auto
qed simp

lemma filter_frame_id: "concat (map frame_id (filter (\<lambda>e. \<not> is_frame_completed e) es)) = []"
proof (induction es)
  case (Cons e es)
  then show ?case by (cases e) auto
qed simp

text \<open>One call: what it gives back and what is left come from what was there and what is given.\<close>

lemma ffmpeg_call_ids:
  assumes "ffmpeg_call chk A K E d c s w = Some (w', s', r)"
  shows "subseq (concat (map frame_id (reply_events r)) @ out_ids s') (out_ids s @ handed_id c) \<and>
    (no_error r \<longrightarrow> concat (map done_id (reply_events r)) @ in_ids s' = in_ids s @ submitted_id c)"
proof (cases c)
  case (Decode input index timestamp bytes_used)
  with assms show ?thesis
    by (auto simp: no_error_def dest!: ffmpeg_decode_ids split: sum.split_asm)
next
  case (UseAsOutput index backing)
  with assms show ?thesis
    by (auto simp: ffmpeg_use_as_output_def ids_defs subseq_append' split: prod.split_asm sum.split_asm if_split_asm)
next
  case Drain
  with assms show ?thesis
    using run_job_ids(2,3) [of chk A E DrainJob]
    by (auto simp: ffmpeg_drain_def ids_defs no_error_def split: option.split_asm sum.split_asm)
next
  case ClearOutputBuffers
  with assms show ?thesis
    by (auto simp: ffmpeg_clear_output_buffers_def ids_defs filter_done_id filter_frame_id dest!: eq.keep_pending)
next
  case NextEvent
  with assms show ?thesis
    using eq.get_pending [of E "fs_events s" w] by (auto simp: ffmpeg_next_event_def ids_defs split: option.splits)
next
  case (StreamingState direction streaming)
  with assms show ?thesis by (auto simp: ffmpeg_streaming_state_def ids_defs split: option.splits)
next
  case (ApplyFormat direction format)
  have "out_ids (ffmpeg_apply_format K d direction format s) = out_ids s"
    "in_ids (ffmpeg_apply_format K d direction format s) = in_ids s"
    by (cases direction; auto simp: ids_defs split: option.splits)+
  with ApplyFormat assms show ?thesis by auto
qed

lemma ff_run_ids:
  "ff_run chk A K E d cnt s w h \<Longrightarrow>
   subseq (frames_completed h @ out_ids s) (handed h) \<and>
   (list_all (no_error \<circ> snd) h \<longrightarrow> inputs_done h @ in_ids s = submitted h)"
proof (induction rule: ff_run.induct)
  case (run_start i w0 w d' s)
  then show ?case
    by (auto simp: ffmpeg_new_session_def EventQueue_new_def ids_defs history_defs split: list.split_asm prod.split_asm sum.split_asm)
next
  case (run_call s w h c w' s' r)
  from ffmpeg_call_ids [OF run_call.hyps(2)] have
    *: "subseq (concat (map frame_id (reply_events r)) @ out_ids s') (out_ids s @ handed_id c)" and
    in': "no_error r \<Longrightarrow> concat (map done_id (reply_events r)) @ in_ids s' = in_ids s @ submitted_id c" by auto
  have "subseq (frames_completed h @ concat (map frame_id (reply_events r)) @ out_ids s') (frames_completed h @ out_ids s @ handed_id c)"
    using * by (simp add: subseq_append')
  also have "subseq \<dots> (handed h @ handed_id c)"
    using run_call.IH by (metis append.assoc list_emb_append_mono subseq_order.order_refl)
  finally show ?case using in' run_call.IH by (auto simp: history_defs)
qed

end
