(* ===== verification/Ffmpeg_Progress.thy ===== *)
theory Ffmpeg_Progress
  imports Ffmpeg_Steps
begin

text \<open>
  The calls on a session of the FFmpeg backend return, and the \<open>eventfd\<close> of the session is readable exactly
  while events are pending. The hypotheses are on the parameters: the documented behaviour of \<open>eventfd\<close>,
  that the libraries leave that descriptor alone, that the decoder has finitely many frames to give, and
  that the sizes of the planes of its frames can be computed.
\<close>

section \<open>Hypotheses on the libraries\<close>

text \<open>Only the operations on the \<open>eventfd\<close> itself change its counter.\<close>

definition quiet :: "('w, 'av, 'sw, 'b) Libav \<Rightarrow> 'w FfOs \<Rightarrow> (fd \<Rightarrow> 'w \<Rightarrow> nat) \<Rightarrow> bool" where
  "quiet A E cnt \<longleftrightarrow>
     (\<forall>f w codec. cnt f (fst (avcodec_alloc_context3 A codec w)) = cnt f w) \<and>
     (\<forall>f w codec av. cnt f (fst (avcodec_open2 A codec av w)) = cnt f w) \<and>
     (\<forall>f w packet av. cnt f (fst (avcodec_send_packet A packet av w)) = cnt f w) \<and>
     (\<forall>f w av. cnt f (fst (avcodec_receive_frame A av w)) = cnt f w) \<and>
     (\<forall>f w. cnt f (fst (av_frame_alloc A w)) = cnt f w) \<and>
     (\<forall>f w src n. cnt f (fst (av_buffer_create A src n w)) = cnt f w) \<and>
     (\<forall>f w a b c d e g. cnt f (fst (sws_getContext A a b c d e g w)) = cnt f w) \<and>
     (\<forall>f w sw src h dst. cnt f (fst (sws_scale A sw src h dst w)) = cnt f w) \<and>
     (\<forall>f w g. cnt f (fst (os_seek_start (ff_os E) g w)) = cnt f w) \<and>
     (\<forall>f w g n. cnt f (fst (os_read_exact E g n w)) = cnt f w) \<and>
     (\<forall>f w g n. cnt f (fst (os_mmap E g n w)) = cnt f w) \<and>
     (\<forall>f w. cnt f (fst (os_memfd_create (ff_os E) w)) = cnt f w) \<and>
     (\<forall>f w g n. cnt f (fst (os_set_len (ff_os E) g n w)) = cnt f w) \<and>
     (\<forall>f w g. cnt f (fst (os_add_seals (ff_os E) g w)) = cnt f w)"

text \<open>
  The sizes of the planes of an NV12 frame can be computed, both from the width and from the line sizes,
  and they add up.
\<close>

definition dims_ok :: "('w, 'av, 'sw, 'b) Libav \<Rightarrow> u32 \<times> u32 \<Rightarrow> bool" where
  "dims_ok A dims \<longleftrightarrow>
     (let fmt = AV_PIX_FMT_NV12 A;
          sizes = plane_sizes A fmt [fst dims, fst dims] (snd dims);
          sizes' = plane_sizes A fmt [ucast (line_size A fmt (fst dims) 0), ucast (line_size A fmt (fst dims) 1)] (snd dims)
      in length sizes = 2 \<and> length sizes' = 2 \<and>
         unat (sizes ! 0) + unat (sizes ! 1) < 2 ^ 64 \<and> unat (sizes ! 0) + unat (sizes' ! 1) < 2 ^ 64)"

text \<open>
  The decoder holds finitely many frames, \<open>pend\<close>: receiving one, or skipping invalid data, leaves fewer,
  and a flush adds none. After a flush the decoder does not ask for more input. With overflow checks
  the crop values of its frames are also to be in the order the code expects.
\<close>

definition crop_ok :: "'b AvFrame \<Rightarrow> bool" where
  "crop_ok fr \<longleftrightarrow> af_crop_left fr \<le> af_crop_right fr \<and> af_crop_top fr \<le> af_crop_bottom fr"

definition libav_laws :: "bool \<Rightarrow> ('w, 'av, 'sw, 'b) Libav \<Rightarrow> ('av AvCodecContext \<Rightarrow> nat) \<Rightarrow> bool" where
  "libav_laws chk A pend \<longleftrightarrow>
     dims_ok A DEFAULT_CODED_SIZE \<and>
     (\<forall>av w w' av' fr ret. avcodec_receive_frame A av w = (w', av', fr, ret) \<longrightarrow>
        pend av' \<le> pend av \<and>
        (0 \<le> sint ret \<or> ret = AVERROR_INVALIDDATA \<longrightarrow> pend av' < pend av) \<and>
        (0 \<le> sint ret \<longrightarrow> dims_ok A (dimensions fr) \<and> (chk \<longrightarrow> crop_ok fr))) \<and>
     (\<forall>av w w' av' ret. avcodec_send_packet A None av w = (w', av', ret) \<longrightarrow> 0 \<le> sint ret \<longrightarrow>
        pend av' \<le> pend av \<and> (\<forall>w2. snd (snd (snd (avcodec_receive_frame A av' w2))) \<noteq> AVERROR_EAGAIN))"

section \<open>The counter of the descriptor\<close>

lemma quiet_functions:
  assumes "quiet A E cnt"
  shows "avcodec_alloc_context3 A codec w = (w', a) \<Longrightarrow> cnt f w' = cnt f w"
    and "avcodec_open2 A codec av w = (w', b) \<Longrightarrow> cnt f w' = cnt f w"
    and "avcodec_send_packet A packet av w = (w', c) \<Longrightarrow> cnt f w' = cnt f w"
    and "avcodec_receive_frame A av w = (w', d) \<Longrightarrow> cnt f w' = cnt f w"
    and "av_frame_alloc A w = (w', e) \<Longrightarrow> cnt f w' = cnt f w"
    and "av_buffer_create A src n w = (w', g) \<Longrightarrow> cnt f w' = cnt f w"
    and "sws_getContext A a1 a2 a3 a4 a5 a6 w = (w', h) \<Longrightarrow> cnt f w' = cnt f w"
    and "sws_scale A sw from hgt to w = (w', i) \<Longrightarrow> cnt f w' = cnt f w"
    and "os_seek_start (ff_os E) fd w = (w', j) \<Longrightarrow> cnt f w' = cnt f w"
    and "os_read_exact E fd len w = (w', k) \<Longrightarrow> cnt f w' = cnt f w"
    and "os_mmap E fd len64 w = (w', l) \<Longrightarrow> cnt f w' = cnt f w"
    and "os_memfd_create (ff_os E) w = (w', mc) \<Longrightarrow> cnt f w' = cnt f w"
    and "os_set_len (ff_os E) fd len64 w = (w', sl) \<Longrightarrow> cnt f w' = cnt f w"
    and "os_add_seals (ff_os E) fd w = (w', sa) \<Longrightarrow> cnt f w' = cnt f w"
  using assms unfolding quiet_def by (metis fst_conv)+

lemma quiet_wrappers:
  assumes "quiet A E cnt"
  shows "AvFrame_new A w = (w', a) \<Longrightarrow> cnt f w' = cnt f w"
    and "av_try_receive_frame A av w = (w', b) \<Longrightarrow> cnt f w' = cnt f w"
    and "try_send_packet A packet av w = (w', c) \<Longrightarrow> cnt f w' = cnt f w"
    and "flush_decoder A av w = (w', d) \<Longrightarrow> cnt f w' = cnt f w"
    and "AvBuffer_new A src w = (w', e) \<Longrightarrow> cnt f w' = cnt f w"
    and "convert A from to conv w = (w', g) \<Longrightarrow> cnt f w' = cnt f w"
    and "update_converter A fmt dc w = (w', h) \<Longrightarrow> cnt f w' = cnt f w"
    and "ensure_context A s w = (w', i) \<Longrightarrow> cnt f w' = cnt f w"
    and "input_packet A E input pts u w = (w', j) \<Longrightarrow> cnt f w' = cnt f w"
    and "mmap_fds E bs w = (w', k) \<Longrightarrow> cnt f w' = cnt f w"
proof -
  show "AvFrame_new A w = (w', a) \<Longrightarrow> cnt f w' = cnt f w" "av_try_receive_frame A av w = (w', b) \<Longrightarrow> cnt f w' = cnt f w"
    "try_send_packet A packet av w = (w', c) \<Longrightarrow> cnt f w' = cnt f w" "flush_decoder A av w = (w', d) \<Longrightarrow> cnt f w' = cnt f w"
    "AvBuffer_new A src w = (w', e) \<Longrightarrow> cnt f w' = cnt f w" "convert A from to conv w = (w', g) \<Longrightarrow> cnt f w' = cnt f w"
    by (auto simp: AvFrame_new_def av_try_receive_frame_def try_send_packet_def flush_decoder_def AvBuffer_new_def convert_def
        dest: quiet_functions [OF assms, where f = f] split: prod.split_asm option.split_asm if_split_asm)
  show "update_converter A fmt dc w = (w', h) \<Longrightarrow> cnt f w' = cnt f w" "ensure_context A s w = (w', i) \<Longrightarrow> cnt f w' = cnt f w"
    "input_packet A E input pts u w = (w', j) \<Longrightarrow> cnt f w' = cnt f w"
    by (auto simp: update_converter_def create_converter_from_context_def SwConverter_new_def ensure_context_def
        DecodingContext_new_def build_decoder_def alloc_context_def av_build_def av_init_def set_initial_format_def
        input_packet_def AvBuffer_new_def
        dest!: quiet_functions [OF assms, where f = f] split: prod.split_asm sum.split_asm option.split_asm list.split_asm if_split_asm)
  show "mmap_fds E bs w = (w', k) \<Longrightarrow> cnt f w' = cnt f w"
    by (induction bs arbitrary: w k)
      (auto simp: MemFdBuffer_mmap_def dest!: quiet_functions [OF assms, where f = f] split: prod.split_asm sum.split_asm)
qed

lemma new_fds_quiet:
  assumes "quiet A E cnt"
  shows "new_fds (ff_os E) sizes w = (w', r) \<Longrightarrow> cnt f w' = cnt f w"
  by (induction sizes arbitrary: w r)
    (auto simp: MemFdBuffer_new_def dest!: quiet_functions [OF assms, where f = f] split: prod.split_asm sum.split_asm if_split_asm)

lemma dst_frame_quiet:
  assumes "quiet A E cnt" and "dst_frame chk A fmt dims bytes planes w = Some (w', r)"
  shows "cnt f w' = cnt f w"
  using assms(2)
  by (auto simp: dst_frame_def dest!: quiet_wrappers [OF assms(1), where f = f] elim!: bind_SomeE
      split: prod.split_asm sum.split_asm option.split_asm)

section \<open>The session\<close>

text \<open>
  The state between two calls: the descriptor is readable exactly while events are pending, the sizes of
  the planes can be computed, and the available frames have memory.
\<close>

definition ff_ok :: "('w, 'av, 'sw, 'b) Libav \<Rightarrow> (fd \<Rightarrow> 'w \<Rightarrow> nat) \<Rightarrow> ('av, 'sw, 'b) FfmpegDecoderSession \<Rightarrow> 'w \<Rightarrow> bool" where
  "ff_ok A cnt s w \<longleftrightarrow>
     queue_ok cnt (fs_events s) w \<and> dims_ok A (fs_coded_size s) \<and> list_all (\<lambda>f. of_planes f \<noteq> []) (fs_available_output_frames s)"

lemma queue_ok_cong: "cnt (eq_event q) w' = cnt (eq_event q) w \<Longrightarrow> queue_ok cnt q w' = queue_ok cnt q w"
  by (simp add: queue_ok_def)

lemma send_event_ok:
  assumes "eventfd_laws E cnt" and "queue_ok cnt (fs_events s) w"
  obtains w' q where "send_event E ev err s w = Some (w', s\<lparr>fs_events := q\<rparr>, Inr ())" and "queue_ok cnt q w'"
  using queue_event_ok [OF assms, of ev] that by (auto simp: send_event_def)

text \<open>The measure of the loop: jobs, then a drain to be completed, then frames in the decoder, then buffers for them.\<close>

definition ff_measure :: "('av AvCodecContext \<Rightarrow> nat) \<Rightarrow> ('av, 'sw, 'b) FfmpegDecoderSession rel" where
  "ff_measure pend =
     measures [\<lambda>s. length (dc_jobs (the (fs_context s))),
       \<lambda>s. if dc_drain_state (the (fs_context s)) = Initiated then 1 else 0,
       \<lambda>s. pend (dc_av_context (the (fs_context s))),
       \<lambda>s. length (fs_available_output_frames s)]"

lemma wf_ff_measure: "wf (ff_measure pend)"
  by (simp add: ff_measure_def)

section \<open>The parts of the loop return\<close>

lemma add_ov_0 [simp]: "add_ov chk 0 a = Some a" for a :: u64
  using unsigned_less [where ?'a = nat, of a] by (simp add: add_ov_def not_le)

lemma build_owned_returns:
  assumes "\<exists>r. place_planes chk A (plane_sizes A (af_format fr) (map (\<lambda>p. ucast (stride p)) planes) (snd (dimensions fr))) bufs 0 planes fr = Some r"
    and "length bufs \<le> AV_NUM_DATA_POINTERS"
  shows "\<exists>r. build_owned chk A bufs planes fr = Some r"
  using assms by (auto simp: build_owned_def Let_def split: sum.split prod.split)

lemma build_owned_two:
  assumes "sizes = plane_sizes A (af_format fr) [ucast s0, ucast s1] (snd (dimensions fr))" and "length sizes = 2"
    and "unat o1 + unat (sizes ! 1) < 2 ^ 64"
  shows "\<exists>r. build_owned chk A [b] [\<lparr>pd_buffer_index = 0, pd_offset = 0, stride = s0\<rparr>,
    \<lparr>pd_buffer_index = 0, pd_offset = o1, stride = s1\<rparr>] fr = Some r"
proof -
  have a1: "add_ov chk o1 (sizes ! 1) = Some (o1 + sizes ! 1)" using assms(3) by (intro add_ov_no_overflow) simp
  have o1: "o1 \<le> o1 + sizes ! 1" using assms(3) by (simp add: word_le_nat_alt unat_add_lem [THEN iffD1])
  have "\<exists>r. place_planes chk A sizes [b] 0 [\<lparr>pd_buffer_index = 0, pd_offset = 0, stride = s0\<rparr>,
      \<lparr>pd_buffer_index = 0, pd_offset = o1, stride = s1\<rparr>] fr = Some r"
    using assms(2) a1 o1 by (auto simp: vec_get_def)
  then show ?thesis unfolding assms(1) by (intro build_owned_returns) (simp_all add: AV_NUM_DATA_POINTERS_def)
qed

lemma dst_frame_returns:
  assumes "dims_ok A dims" and "planes \<noteq> []"
  shows "\<exists>w' r. dst_frame chk A (AV_PIX_FMT_NV12 A) dims (plane_sizes A (AV_PIX_FMT_NV12 A) [fst dims, fst dims] (snd dims)) planes w = Some (w', r)"
proof -
  define sizes where "sizes = plane_sizes A (AV_PIX_FMT_NV12 A) [fst dims, fst dims] (snd dims)"
  note ok = assms(1) [unfolded dims_ok_def Let_def, folded sizes_def]
  have "\<exists>r. build_owned chk A [b] [\<lparr>pd_buffer_index = 0, pd_offset = 0, stride = line_size A (AV_PIX_FMT_NV12 A) (fst dims) 0\<rparr>,
      \<lparr>pd_buffer_index = 0, pd_offset = sizes ! 0, stride = line_size A (AV_PIX_FMT_NV12 A) (fst dims) 1\<rparr>]
      (set_format (AV_PIX_FMT_NV12 A) (fr\<lparr>af_width := fst dims, af_height := snd dims\<rparr>)) = Some r" for b fr
    using ok by (intro build_owned_two [OF refl]) (simp_all add: set_format_def dimensions_def)
  with ok assms(2) show ?thesis
    by (auto simp: dst_frame_def sizes_def [symmetric] vec_get_def set_dimensions_def split: prod.split sum.split option.split)
qed

lemma sum_ov_two:
  assumes "length sizes = 2" and "unat (sizes ! 0) + unat (sizes ! 1) < 2 ^ 64"
  shows "\<exists>t. sum_ov chk 0 sizes = Some t"
proof -
  from assms(1) obtain a b where [simp]: "sizes = [a, b]" by (auto simp: length_Suc_conv numeral_2_eq_2)
  have "add_ov chk a b = Some (a + b)" using assms(2) by (intro add_ov_no_overflow) simp
  then show ?thesis by simp
qed

lemma output_avframe_returns:
  assumes "eventfd_laws E cnt" and "quiet A E cnt" and "ff_ok A cnt s w" and "of_planes f \<noteq> []" and "fs_context s = Some c"
  shows "\<exists>w' s' r c'. output_avframe chk A E f fr c s w = Some (w', s', r) \<and> ff_ok A cnt s' w' \<and> r \<noteq> Inr False \<and>
    fs_available_output_frames s' = fs_available_output_frames s \<and> fs_context s' = Some c' \<and>
    dc_jobs c' = dc_jobs c \<and> dc_drain_state c' = dc_drain_state c \<and> dc_av_context c' = dc_av_context c"
proof -
  define sizes where "sizes = plane_sizes A (AV_PIX_FMT_NV12 A) [fst (fs_coded_size s), fst (fs_coded_size s)] (snd (fs_coded_size s))"
  have fmt: "av_format A (fs_output_format s) = AV_PIX_FMT_NV12 A" by (cases "fs_output_format s") simp
  have dims: "dims_ok A (fs_coded_size s)" and ready: "queue_ok cnt (fs_events s) w" using assms(3) by (auto simp: ff_ok_def)
  obtain w1 dst where d: "dst_frame chk A (AV_PIX_FMT_NV12 A) (fs_coded_size s) sizes (of_planes f) w = Some (w1, dst)"
    using dst_frame_returns [OF dims assms(4)] unfolding sizes_def by blast
  have ready1: "queue_ok cnt (fs_events s) w1"
    using ready queue_ok_cong [of cnt "fs_events s" w1 w, OF dst_frame_quiet [OF assms(2) d]] by simp
  show ?thesis
  proof (cases dst)
    case (Inl e)
    with d fmt ready1 assms(3,5) show ?thesis by (auto simp: output_avframe_def sizes_def [symmetric] ff_ok_def)
  next
    case (Inr frame)
    obtain w2 conv r where conv: "convert A fr frame (dc_converter c) w1 = (w2, conv, r)" by (metis prod_cases3)
    define s1 where "s1 = s\<lparr>fs_context := Some (c\<lparr>dc_converter := conv\<rparr>)\<rparr>"
    have ready2: "queue_ok cnt (fs_events s1) w2"
      using ready1 queue_ok_cong [of cnt "fs_events s" w2 w1, OF quiet_wrappers(6) [OF assms(2) conv]] by (simp add: s1_def)
    obtain t where t: "sum_ov chk 0 sizes = Some t"
      using dims sum_ov_two [of sizes chk] by (auto simp: dims_ok_def Let_def sizes_def)
    obtain w3 q where ev: "send_event E (FrameCompleted (of_index f) (pts_timeval (af_pts fr)) [ucast t] False) OutputEventQueue s1 w2 =
        Some (w3, s1\<lparr>fs_events := q\<rparr>, Inr ())" and q: "queue_ok cnt q w3"
      using send_event_ok [OF assms(1) ready2] by blast
    show ?thesis
    proof (cases r)
      case (Inl e)
      with d fmt Inr conv ready2 assms(3,5) show ?thesis
        by (auto simp: output_avframe_def sizes_def [symmetric] ff_ok_def s1_def Let_def)
    next
      case (Inr u)
      with d fmt \<open>dst = Inr frame\<close> conv t ev q assms(3,5) show ?thesis
        by (auto simp: output_avframe_def sizes_def [symmetric] ff_ok_def s1_def Let_def)
    qed
  qed
qed

lemma try_output_frame_returns:
  assumes "eventfd_laws E cnt" and "quiet A E cnt" and "ff_ok A cnt s w" and "fs_context s = Some c"
  shows "\<exists>w' s' r. try_output_frame chk A E s w = Some (w', s', r) \<and> ff_ok A cnt s' w' \<and> fs_context s' \<noteq> None \<and>
    (r = Inr False \<longrightarrow> s' = s) \<and> (r = Inr True \<longrightarrow> (s', s) \<in> ff_measure pend)"
proof (cases "fs_available_output_frames s")
  case Nil
  with assms show ?thesis by (auto simp: try_output_frame_def)
next
  case (Cons f fs)
  with assms(3) have f: "of_planes f \<noteq> []" "list_all (\<lambda>f. of_planes f \<noteq> []) fs" by (auto simp: ff_ok_def)
  show ?thesis
  proof (cases "dc_drain_state c = AwaitingFinalFrame")
    case True
    let ?s = "s\<lparr>fs_context := Some (c\<lparr>dc_drain_state := NoDrain\<rparr>), fs_available_output_frames := fs\<rparr>"
    have "queue_ok cnt (fs_events ?s) w" using assms(3) by (simp add: ff_ok_def)
    from send_event_ok [OF assms(1) this] obtain w' q where
      "send_event E (FrameCompleted (of_index f) \<lparr>tv_sec = 0, tv_usec = 0\<rparr> [] True) OutputEventQueue ?s w =
        Some (w', ?s\<lparr>fs_events := q\<rparr>, Inr ())" "queue_ok cnt q w'" by blast
    with True Cons f assms show ?thesis
      by (cases "dc_avframe c") (auto simp: try_output_frame_def ff_ok_def ff_measure_def)
  next
    case False
    show ?thesis
    proof (cases "dc_avframe c")
      case None
      with False Cons assms show ?thesis by (auto simp: try_output_frame_def)
    next
      case (Some fr)
      define c1 where "c1 = c\<lparr>dc_avframe := None\<rparr>"
      define s1 where "s1 = s\<lparr>fs_context := Some c1, fs_available_output_frames := fs\<rparr>"
      have "ff_ok A cnt s1 w" using assms(3) f by (simp add: ff_ok_def s1_def)
      from output_avframe_returns [OF assms(1,2) this f(1), of c1 chk fr] obtain w' s' r c' where
        o: "output_avframe chk A E f fr c1 s1 w = Some (w', s', r)" "ff_ok A cnt s' w'" "r \<noteq> Inr False"
          "fs_available_output_frames s' = fs" "fs_context s' = Some c'"
          "dc_jobs c' = dc_jobs c" "dc_drain_state c' = dc_drain_state c" "dc_av_context c' = dc_av_context c"
        by (auto simp: s1_def c1_def)
      then have "(s', s) \<in> ff_measure pend" using Cons assms(4) by (simp add: ff_measure_def)
      with o False Some Cons assms(4) show ?thesis by (auto simp: try_output_frame_def Let_def s1_def c1_def)
    qed
  qed
qed

lemma try_send_input_job_returns:
  assumes "eventfd_laws E cnt" and "quiet A E cnt" and "ff_ok A cnt s w" and "fs_context s = Some c"
  shows "\<exists>w' s' r. try_send_input_job A E s w = Some (w', s', r) \<and> ff_ok A cnt s' w' \<and> fs_context s' \<noteq> None \<and>
    (r = Inr True \<longrightarrow> length (dc_jobs (the (fs_context s'))) < length (dc_jobs c))"
proof -
  consider "dc_jobs c = []" | jobs where "dc_jobs c = DrainJob # jobs" | p i jobs where "dc_jobs c = DecodeJob p i # jobs"
    by (metis FfmpegDecoderJob.exhaust neq_Nil_conv)
  then show ?thesis
  proof cases
    case 1
    with assms show ?thesis by (auto simp: try_send_input_job_def)
  next
    case (2 jobs)
    with assms show ?thesis by (auto simp: try_send_input_job_def ff_ok_def ff_measure_def)
  next
    case (3 p i jobs)
    obtain w1 av r where send: "try_send_packet A p (dc_av_context c) w = (w1, av, r)" by (metis prod_cases3)
    let ?s = "s\<lparr>fs_context := Some (c\<lparr>dc_jobs := jobs, dc_av_context := av\<rparr>)\<rparr>"
    have ready: "queue_ok cnt (fs_events s) w1"
      using assms(3) queue_ok_cong [of cnt "fs_events s" w1 w, OF quiet_wrappers(3) [OF assms(2) send]] by (simp add: ff_ok_def)
    then have "queue_ok cnt (fs_events ?s) w1" by simp
    from send_event_ok [OF assms(1) this] obtain w' q where
      "send_event E (InputBufferDone i 0) SendEventQueue ?s w1 = Some (w', ?s\<lparr>fs_events := q\<rparr>, Inr ())" "queue_ok cnt q w'"
      by blast
    with 3 send ready assms(3,4) show ?thesis
      by (cases r) (auto simp: try_send_input_job_def Let_def ff_ok_def ff_measure_def)
  qed
qed

lemma frame_received_returns:
  assumes "eventfd_laws E cnt" and "quiet A E cnt" and "ff_ok A cnt s w" and "fs_context s = Some c"
    and "dims_ok A (dimensions fr)" and "chk \<longrightarrow> crop_ok fr"
  shows "\<exists>w' s' r c'. frame_received chk A E fr c s w = Some (w', s', r) \<and> ff_ok A cnt s' w' \<and> r \<noteq> Inr False \<and>
    fs_context s' = Some c' \<and> dc_jobs c' = dc_jobs c \<and> dc_drain_state c' = dc_drain_state c \<and> dc_av_context c' = dc_av_context c"
proof -
  have crop: "sub_ov chk (af_crop_right fr) (af_crop_left fr) = Some (af_crop_right fr - af_crop_left fr)"
    "sub_ov chk (af_crop_bottom fr) (af_crop_top fr) = Some (af_crop_bottom fr - af_crop_top fr)"
    using assms(6) by (auto simp: sub_ov_def crop_ok_def)
  obtain w1 c1 u where up: "update_converter A (fs_output_format s) c w = (w1, c1, u)" by (metis prod_cases3)
  define s2 where "s2 = s\<lparr>fs_stream_params := (fs_stream_params s)\<lparr>coded_size := (af_width fr, af_height fr),
      visible_rect := Rect_new (ucast (af_crop_left fr)) (ucast (af_crop_top fr))
        (ucast (af_crop_right fr - af_crop_left fr)) (ucast (af_crop_bottom fr - af_crop_top fr))\<rparr>,
    fs_coded_size := if fst (fs_coded_size s) < af_width fr \<or> snd (fs_coded_size s) < af_height fr
      then (af_width fr, af_height fr) else fs_coded_size s,
    fs_available_output_frames := [], fs_context := Some (c1\<lparr>dc_accepting_output_buffers := False\<rparr>)\<rparr>"
  have ready: "queue_ok cnt (fs_events s) w1"
    using assms(3) queue_ok_cong [of cnt "fs_events s" w1 w, OF quiet_wrappers(7) [OF assms(2) up]] by (simp add: ff_ok_def)
  then have "queue_ok cnt (fs_events s2) w1" by (simp add: s2_def)
  from send_event_ok [OF assms(1) this] obtain w' q where
    ev: "send_event E StreamFormatChanged ReceiveEventQueue s2 w1 = Some (w', s2\<lparr>fs_events := q\<rparr>, Inr ())" "queue_ok cnt q w'"
    by blast
  have c1: "dc_jobs c1 = dc_jobs c" "dc_drain_state c1 = dc_drain_state c" "dc_av_context c1 = dc_av_context c"
    using up by (auto simp: update_converter_def split: prod.split_asm sum.split_asm)
  have dims: "dims_ok A (af_width fr, af_height fr)" "dims_ok A (fs_coded_size s)"
    "list_all (\<lambda>f. of_planes f \<noteq> []) (fs_available_output_frames s)" "queue_ok cnt (fs_events s) w"
    using assms(3,5) by (auto simp: dimensions_def ff_ok_def)
  show ?thesis
    unfolding frame_received_def crop bind.bind_lunit Let_def fst_conv snd_conv up prod.case s2_def [symmetric]
    using ev c1 ready dims assms(4)
    by (auto simp: ff_ok_def s2_def split: sum.split)
qed

lemma libav_receive:
  assumes "libav_laws chk A pend" and "av_try_receive_frame A av w = (w', av', fr, r)"
  shows "pend av' \<le> pend av" and "r = Inr Received \<Longrightarrow> pend av' < pend av \<and> dims_ok A (dimensions fr) \<and> (chk \<longrightarrow> crop_ok fr)"
    and "r = Inl AVERROR_INVALIDDATA \<Longrightarrow> pend av' < pend av"
proof -
  obtain w1 av1 fr1 ret where rc: "avcodec_receive_frame A av w = (w1, av1, fr1, ret)" by (metis prod_cases4)
  with assms(1) have "pend av1 \<le> pend av" "0 \<le> sint ret \<or> ret = AVERROR_INVALIDDATA \<longrightarrow> pend av1 < pend av"
    "0 \<le> sint ret \<longrightarrow> dims_ok A (dimensions fr1) \<and> (chk \<longrightarrow> crop_ok fr1)"
    unfolding libav_laws_def by blast+
  with rc assms(2) show "pend av' \<le> pend av" and
    "r = Inr Received \<Longrightarrow> pend av' < pend av \<and> dims_ok A (dimensions fr) \<and> (chk \<longrightarrow> crop_ok fr)" and
    "r = Inl AVERROR_INVALIDDATA \<Longrightarrow> pend av' < pend av"
    by (auto simp: av_try_receive_frame_def split: if_split_asm)
qed

lemma libav_flush:
  assumes "libav_laws chk A pend" and "flush_decoder A av w = (w', av', Inr ())"
  shows "pend av' \<le> pend av" and "snd (snd (snd (av_try_receive_frame A av' w2))) \<noteq> Inr TryAgain"
proof -
  obtain w1 av1 ret where sd: "avcodec_send_packet A None av w = (w1, av1, ret)" by (metis prod_cases3)
  with assms(2) have ret: "0 \<le> sint ret" "av1 = av'" by (auto simp: flush_decoder_def AvError_result_def split: if_split_asm)
  obtain w3 av3 fr3 ret3 where rc: "avcodec_receive_frame A av' w2 = (w3, av3, fr3, ret3)" by (metis prod_cases4)
  from assms(1) sd ret have "pend av' \<le> pend av \<and> (\<forall>w2. snd (snd (snd (avcodec_receive_frame A av' w2))) \<noteq> AVERROR_EAGAIN)"
    unfolding libav_laws_def by blast
  with rc show "pend av' \<le> pend av" "snd (snd (snd (av_try_receive_frame A av' w2))) \<noteq> Inr TryAgain"
    by (auto simp: av_try_receive_frame_def split: prod.split dest!: spec [of _ w2])
qed

lemma ff_ok_context [simp]: "ff_ok A cnt (s\<lparr>fs_context := x\<rparr>) w = ff_ok A cnt s w"
  by (simp add: ff_ok_def)

lemma ff_ok_world: "ff_ok A cnt s w \<Longrightarrow> cnt (eq_event (fs_events s)) w' = cnt (eq_event (fs_events s)) w \<Longrightarrow> ff_ok A cnt s w'"
  by (simp add: ff_ok_def queue_ok_def)

text \<open>What receiving a frame does for the loop: it makes progress or leaves the jobs alone.\<close>

definition receive_progress ::
  "('av AvCodecContext \<Rightarrow> nat) \<Rightarrow> ('av, 'sw, 'b) FfmpegDecoderSession \<Rightarrow> ('av, 'sw, 'b) FfmpegDecoderSession \<Rightarrow>
   (TryReceiveFrameError + bool) \<Rightarrow> bool"
where
  "receive_progress pend s s' r \<longleftrightarrow>
     fs_context s' \<noteq> None \<and>
     (r = Inr True \<longrightarrow> (s', s) \<in> ff_measure pend) \<and>
     (r = Inr False \<longrightarrow> dc_jobs (the (fs_context s')) = dc_jobs (the (fs_context s)))"

lemma receive_settled:
  assumes "eventfd_laws E cnt" and "quiet A E cnt" and "libav_laws chk A pend" and "ff_ok A cnt s w" and "fs_context s = Some c"
    and "\<And>w1 f. dc_drain_state c = Initiated \<Longrightarrow> dc_avframe c = None \<Longrightarrow> AvFrame_new A w = (w1, Inr f) \<Longrightarrow>
      snd (snd (snd (av_try_receive_frame A (dc_av_context c) w1))) \<noteq> Inr TryAgain"
  shows "\<exists>w' s' r. try_receive_frame chk A E s w = Some (w', s', r) \<and> ff_ok A cnt s' w' \<and> receive_progress pend s s' r"
proof (cases "dc_avframe c")
  case (Some f)
  with assms(4,5) show ?thesis by (auto simp: try_receive_frame.simps [of chk A E s w] receive_progress_def)
next
  case None
  obtain w1 a where a: "AvFrame_new A w = (w1, a)" by fastforce
  have ok1: "ff_ok A cnt s w1" using assms(4) by (rule ff_ok_world) (rule quiet_wrappers(1) [OF assms(2) a])
  obtain w2 av fr r where r: "av_try_receive_frame A (dc_av_context c) w1 = (w2, av, fr, r)" by (metis prod_cases4)
  define s1 where "s1 = s\<lparr>fs_context := Some (c\<lparr>dc_av_context := av\<rparr>)\<rparr>"
  have "ff_ok A cnt s w2" using ok1 by (rule ff_ok_world) (rule quiet_wrappers(2) [OF assms(2) r])
  then have ok2: "ff_ok A cnt s1 w2" by (simp add: s1_def)
  note le = libav_receive(1) [OF assms(3) r] and got = libav_receive(2) [OF assms(3) r] and bad = libav_receive(3) [OF assms(3) r]
  note body = try_receive_frame.simps [of chk A E s w] a r None assms(5) s1_def
  show ?thesis
  proof (cases a)
    case (Inl e)
    with body ok1 assms(5) show ?thesis by (auto simp: receive_progress_def)
  next
    case (Inr f)
    note a = this
    consider "r = Inr Received" | "r = Inr TryAgain" | "r = Inr FlushCompleted" | e where "r = Inl e"
      by (cases r; cases "projr r") auto
    then show ?thesis
    proof cases
      case 1
      from got [OF 1] obtain w' s' r' c' where "frame_received chk A E fr (c\<lparr>dc_av_context := av\<rparr>) s1 w2 = Some (w', s', r')"
        "ff_ok A cnt s' w'" "r' \<noteq> Inr False" "fs_context s' = Some c'"
        "dc_jobs c' = dc_jobs c" "dc_drain_state c' = dc_drain_state c" "dc_av_context c' = av"
        using frame_received_returns [OF assms(1,2) ok2, of "c\<lparr>dc_av_context := av\<rparr>" fr chk] by (auto simp: s1_def)
      with 1 a body got show ?thesis by (auto simp: receive_progress_def ff_measure_def Let_def)
    next
      case 2
      with assms(6) [OF _ None] r a \<open>AvFrame_new A w = (w1, a)\<close> have "dc_drain_state c \<noteq> Initiated" by auto
      with 2 a body ok2 show ?thesis by (auto simp: receive_progress_def Let_def)
    next
      case 3
      with a body ok2 le show ?thesis
        by (cases "dc_drain_state c = Initiated") (auto simp: receive_progress_def ff_measure_def Let_def)
    next
      case (4 e)
      with a body ok2 bad show ?thesis by (auto simp: receive_progress_def ff_measure_def Let_def)
    qed
  qed
qed

lemma receive_flushed:
  assumes "pend av' \<le> pend (dc_av_context c)" and "fs_context s = Some c"
    and "receive_progress pend (s\<lparr>fs_context := Some (c\<lparr>dc_av_context := av'\<rparr>)\<rparr>) s' r"
  shows "receive_progress pend s s' r"
  using assms by (auto simp: receive_progress_def ff_measure_def)

lemma try_receive_frame_returns:
  assumes "eventfd_laws E cnt" and "quiet A E cnt" and "libav_laws chk A pend" and "ff_ok A cnt s w" and "fs_context s = Some c"
  shows "\<exists>w' s' r. try_receive_frame chk A E s w = Some (w', s', r) \<and> ff_ok A cnt s' w' \<and> receive_progress pend s s' r"
proof -
  obtain w1 a where a: "AvFrame_new A w = (w1, a)" by fastforce
  obtain w2 av fr r where r: "av_try_receive_frame A (dc_av_context c) w1 = (w2, av, fr, r)" by (metis prod_cases4)
  obtain w3 av' r3 where fl: "flush_decoder A av w2 = (w3, av', r3)" by (metis prod_cases3)
  show ?thesis
  proof (cases "dc_drain_state c = Initiated \<and> dc_avframe c = None \<and> (\<exists>f. a = Inr f) \<and> r = Inr TryAgain")
    case False
    with a r show ?thesis by (intro receive_settled [OF assms]) auto
  next
    case True
    then obtain f where [simp]: "dc_drain_state c = Initiated" "dc_avframe c = None" "a = Inr f" "r = Inr TryAgain" by blast
    have "cnt x w3 = cnt x w" for x
      using quiet_wrappers(1) [OF assms(2) a] quiet_wrappers(2) [OF assms(2) r] quiet_wrappers(4) [OF assms(2) fl] by simp
    with assms(4) have ok: "ff_ok A cnt s w3" by (auto intro: ff_ok_world)
    note body = try_receive_frame.simps [of chk A E s w] a r fl assms(5)
    show ?thesis
    proof (cases r3)
      case (Inl e)
      with ok body show ?thesis by (auto simp: receive_progress_def Let_def)
    next
      case (Inr u)
      let ?s = "s\<lparr>fs_context := Some (c\<lparr>dc_av_context := av'\<rparr>)\<rparr>"
      note flush = libav_flush [OF assms(3) fl [unfolded Inr, simplified]]
      obtain w' s' r' where "try_receive_frame chk A E ?s w3 = Some (w', s', r')" "ff_ok A cnt s' w'" "receive_progress pend ?s s' r'"
        using receive_settled [OF assms(1,2,3), of ?s w3 "c\<lparr>dc_av_context := av'\<rparr>"] ok flush(2) by auto
      moreover have "pend av' \<le> pend (dc_av_context c)" using flush(1) libav_receive(1) [OF assms(3) r] by linarith
      ultimately show ?thesis using Inr body receive_flushed [OF _ assms(5)] by (auto simp: Let_def)
    qed
  qed
qed

section \<open>The loop and the calls return\<close>

lemma decode_loop_returns:
  assumes "eventfd_laws E cnt" and "quiet A E cnt" and "libav_laws chk A pend" and "ff_ok A cnt s w" and "fs_context s \<noteq> None"
  shows "\<exists>w' s' r. decode_loop chk A E s w = Some (w', s', r) \<and> ff_ok A cnt s' w'"
  using wf_ff_measure [of pend] assms(4,5)
proof (induction s arbitrary: w rule: wf_induct_rule)
  case (less s)
  note loop = decode_loop.simps [of chk A E s w]
  from less.prems obtain c where c: "fs_context s = Some c" by blast
  from try_output_frame_returns [OF assms(1,2) less.prems(1) c, of chk pend] obtain w1 s1 r1 where
    out: "try_output_frame chk A E s w = Some (w1, s1, r1)" "ff_ok A cnt s1 w1" "fs_context s1 \<noteq> None"
      "r1 = Inr False \<longrightarrow> s1 = s" "r1 = Inr True \<longrightarrow> (s1, s) \<in> ff_measure pend" by blast
  consider e where "r1 = Inl e" | "r1 = Inr True" | "r1 = Inr False" by (cases r1) auto
  then show ?case
  proof cases
    case 3
    with out have ok1: "ff_ok A cnt s w1" and s1: "s1 = s" by auto
    from try_receive_frame_returns [OF assms(1,2,3) ok1 c] obtain w2 s2 r2 where
      rcv: "try_receive_frame chk A E s w1 = Some (w2, s2, r2)" "ff_ok A cnt s2 w2" "receive_progress pend s s2 r2" by blast
    then obtain c2 where c2: "fs_context s2 = Some c2" by (auto simp: receive_progress_def)
    consider e where "r2 = Inl e" | "r2 = Inr True" | "r2 = Inr False" by (cases r2) auto
    then show ?thesis
    proof cases
      case 1
      with 3 s1 out rcv loop show ?thesis by simp
    next
      case 2
      then have "(s2, s) \<in> ff_measure pend" using rcv(3) by (simp add: receive_progress_def)
      from less.IH [OF this rcv(2)] c2 2 3 s1 out rcv loop show ?thesis by simp
    next
      case r2: 3
      from try_send_input_job_returns [OF assms(1,2) rcv(2) c2] obtain w3 s3 r3 where
        snd: "try_send_input_job A E s2 w2 = Some (w3, s3, r3)" "ff_ok A cnt s3 w3" "fs_context s3 \<noteq> None"
          "r3 = Inr True \<longrightarrow> length (dc_jobs (the (fs_context s3))) < length (dc_jobs c2)" by blast
      have "(s3, s) \<in> ff_measure pend" if "r3 = Inr True"
        using that r2 snd(4) rcv(3) c2 by (simp add: receive_progress_def ff_measure_def)
      with less.IH [OF _ snd(2,3)] r2 3 s1 out rcv snd loop show ?thesis by (cases r3) auto
    qed
  qed (use out loop less.IH in \<open>auto\<close>)
qed

lemma run_job_returns:
  assumes "eventfd_laws E cnt" and "quiet A E cnt" and "libav_laws chk A pend" and "ff_ok A cnt s w"
  shows "\<exists>w' s' r. run_job chk A E job c s w = Some (w', s', r) \<and> ff_ok A cnt s' w'"
proof -
  have "ff_ok A cnt (s\<lparr>fs_context := Some (c\<lparr>dc_jobs := dc_jobs c @ [job]\<rparr>)\<rparr>) w" using assms(4) by simp
  from decode_loop_returns [OF assms(1-3) this] show ?thesis by (auto simp: run_job_def try_decode_def)
qed

text \<open>With overflow checks the time stamp of an input buffer is not to overflow; an output buffer is to have memory.\<close>

fun call_ok :: "bool \<Rightarrow> FfCall \<Rightarrow> bool" where
  "call_ok chk (Decode input index timestamp bytes_used) \<longleftrightarrow> timeval_pts chk timestamp \<noteq> None"
| "call_ok chk (UseAsOutput index backing) \<longleftrightarrow> fb_fds backing \<noteq> []"
| "call_ok chk _ \<longleftrightarrow> True"

lemma mmap_fds_length: "mmap_fds E bs w = (w', Inr ms) \<Longrightarrow> length ms = length bs"
  by (induction bs arbitrary: w w' ms) (auto split: prod.split_asm sum.split_asm)

lemma ffmpeg_decode_returns:
  assumes "eventfd_laws E cnt" and "quiet A E cnt" and "libav_laws chk A pend" and "ff_ok A cnt s w"
    and "timeval_pts chk t = Some pts"
  shows "\<exists>w' s' r. ffmpeg_decode chk A E input i t u s w = Some (w', s', r) \<and> ff_ok A cnt s' w'"
proof -
  obtain w1 r1 where e: "ensure_context A s w = (w1, r1)" by fastforce
  have ok1: "ff_ok A cnt s w1" using assms(4) by (rule ff_ok_world) (rule quiet_wrappers(8) [OF assms(2) e])
  obtain w2 r2 where p: "input_packet A E input pts u w1 = (w2, r2)" by fastforce
  have ok2: "ff_ok A cnt s w2" using ok1 by (rule ff_ok_world) (rule quiet_wrappers(9) [OF assms(2) p])
  show ?thesis
    using e ok1 p ok2 assms(5) run_job_returns [OF assms(1-3) ok2]
    by (auto simp: ffmpeg_decode_def split: sum.split)
qed

lemma ffmpeg_call_returns:
  assumes "eventfd_laws E cnt" and "quiet A E cnt" and "libav_laws chk A pend" and "ff_ok A cnt s w" and "call_ok chk c"
  shows "\<exists>w' s' r. ffmpeg_call chk A K E d c s w = Some (w', s', r) \<and> ff_ok A cnt s' w'"
proof (cases c)
  case (Decode input index timestamp bytes_used)
  with assms(5) obtain pts where "timeval_pts chk timestamp = Some pts" by auto
  from ffmpeg_decode_returns [OF assms(1-4) this] Decode show ?thesis by fastforce
next
  case (UseAsOutput index backing)
  obtain w1 r where m: "mmap_fds E (fb_fds backing) w = (w1, r)" by fastforce
  have "ff_ok A cnt s w1" using assms(4) by (rule ff_ok_world) (rule quiet_wrappers(10) [OF assms(2) m])
  with m mmap_fds_length [of E "fb_fds backing" w w1] UseAsOutput assms(4,5) show ?thesis
    by (auto simp: ffmpeg_use_as_output_def ff_ok_def split: sum.split)
next
  case Drain
  with assms run_job_returns [OF assms(1-4), of DrainJob] show ?thesis
    by (fastforce simp: ffmpeg_drain_def split: option.split)
next
  case ClearOutputBuffers
  have "queue_ok cnt (fs_events s) w" using assms(4) by (simp add: ff_ok_def)
  from retain_ok [OF assms(1) this] ClearOutputBuffers assms(4) show ?thesis
    by (fastforce simp: ffmpeg_clear_output_buffers_def ff_ok_def)
next
  case NextEvent
  have "queue_ok cnt (fs_events s) w" using assms(4) by (simp add: ff_ok_def)
  from dequeue_event_ok [OF assms(1) this] NextEvent assms(4) show ?thesis
    by (auto simp: ffmpeg_next_event_def ff_ok_def)
next
  case (StreamingState direction streaming)
  with assms(4) show ?thesis by (auto simp: ffmpeg_streaming_state_def)
next
  case (ApplyFormat direction format)
  have "ff_ok A cnt (ffmpeg_apply_format K d direction format s) w"
    using assms(4) by (cases direction) (auto simp: ff_ok_def split: option.split)
  with ApplyFormat show ?thesis by simp
qed

lemma ff_run_ok:
  assumes "ff_run chk A K E d cnt s w h" and "eventfd_laws E cnt" and "quiet A E cnt" and "libav_laws chk A pend"
  shows "list_all (call_ok chk \<circ> fst) h \<longrightarrow> ff_ok A cnt s w"
  using assms(1)
proof (induction rule: ff_run.induct)
  case (run_start i w0 w d' s)
  then show ?case
    using assms(2,4)
    by (auto simp: ffmpeg_new_session_def EventQueue_new_def ff_ok_def libav_laws_def eventfd_laws_def queue_ok_def
        split: list.split_asm prod.split_asm sum.split_asm)
next
  case (run_call s w h c w' s' r)
  show ?case
  proof
    assume "list_all (call_ok chk \<circ> fst) (h @ [(c, r)])"
    then have "ff_ok A cnt s w" "call_ok chk c" using run_call.IH by (auto simp: comp_def)
    from ffmpeg_call_returns [OF assms(2-4) this, of K d] run_call.hyps(2) show "ff_ok A cnt s' w'" by auto
  qed
next
  case (run_world s w h w')
  then show ?case by (auto intro: ff_ok_world)
qed

end
