(* ===== verification/Ffmpeg_Example.thy ===== *)
theory Ffmpeg_Example
  imports Ffmpeg_Fifo Ffmpeg_Progress V4l2r_Example
begin

text \<open>
  A concrete host for the FFmpeg backend, for the concrete instances of its properties: descriptors are
  numbered and have counters, a decoder gives back one frame per packet, with the time stamp of the
  packet, and frames have 320 by 240 pixels.
\<close>

type_synonym fx_world = "nat \<times> (fd \<Rightarrow> nat)"

definition fx_os :: "fx_world FfOs" where
  "fx_os =
     \<lparr>ef_new = (\<lambda>w. ((Suc (fst w), (snd w)(fst w := 0)), Inr (fst w))),
      ef_write = (\<lambda>f n w. if snd w f + unat n < 2 ^ 64 - 1 then Some ((fst w, (snd w)(f := snd w f + unat n)), Inr ()) else None),
      ef_read = (\<lambda>f w. if snd w f = 0 then None else Some ((fst w, (snd w)(f := 0)), Inr (of_nat (snd w f)))),
      ff_os = \<lparr>os_memfd_create = (\<lambda>w. ((Suc (fst w), snd w), Inr (fst w))), os_set_len = (\<lambda>_ _ w. (w, Inr ())),
               os_add_seals = (\<lambda>_ w. (w, Inr ())), os_seek_start = (\<lambda>_ w. (w, Inr ())), os_write = (\<lambda>_ _ w. (w, Inr ()))\<rparr>,
      os_mmap = (\<lambda>_ _ w. (w, Inr 4096)),
      os_read_exact = (\<lambda>_ n w. (w, Inr (replicate n 0)))\<rparr>"

definition fx_cnt :: "fd \<Rightarrow> fx_world \<Rightarrow> nat" where
  "fx_cnt f w = snd w f"

definition fx_frame :: "u32 \<times> u32 \<Rightarrow> i32 \<Rightarrow> u64 \<Rightarrow> u64 AvFrame" where
  "fx_frame dims fmt pts =
     \<lparr>af_width = fst dims, af_height = snd dims, af_format = fmt, af_pict_type = 0, af_pts = pts, af_crop_top = 0,
      af_crop_bottom = ucast (snd dims), af_crop_left = 0, af_crop_right = ucast (fst dims), af_planes = [], af_buf = []\<rparr>"

definition fx_send :: "u64 AvPacket option \<Rightarrow> (u64 list \<times> bool) AvCodecContext \<Rightarrow> fx_world \<Rightarrow>
    fx_world \<times> (u64 list \<times> bool) AvCodecContext \<times> i32" where
  "fx_send p av w =
     (case p of
        None \<Rightarrow> (w, av\<lparr>avc_lib := (fst (avc_lib av), True)\<rparr>, 0)
      | Some pkt \<Rightarrow> if snd (avc_lib av) then (w, av, AVERROR_EOF)
                     else (w, av\<lparr>avc_lib := (fst (avc_lib av) @ [pkt_pts pkt], False)\<rparr>, 0))"

definition fx_receive :: "(u64 list \<times> bool) AvCodecContext \<Rightarrow> fx_world \<Rightarrow>
    fx_world \<times> (u64 list \<times> bool) AvCodecContext \<times> u64 AvFrame \<times> i32" where
  "fx_receive av w =
     (case fst (avc_lib av) of
        [] \<Rightarrow> (w, av, fx_frame (0, 0) 0 0, if snd (avc_lib av) then AVERROR_EOF else AVERROR_EAGAIN)
      | p # ps \<Rightarrow> (w, av\<lparr>avc_lib := (ps, snd (avc_lib av))\<rparr>, fx_frame (320, 240) 0 p, 0))"

definition fx_codec :: AvCodec where
  "fx_codec = \<lparr>codec_is_decoder = True, codec_is_encoder = False, codec_c_name = Some ''h264'', codec_capabilities = 2,
     codec_profiles = [], codec_pix_fmts = []\<rparr>"

definition fx_av :: "(fx_world, u64 list \<times> bool, unit, u64) Libav" where
  "fx_av =
     \<lparr>av_codecs = [fx_codec],
      avcodec_alloc_context3 = (\<lambda>_ w. (w, Some \<lparr>avc_width = 0, avc_height = 0, avc_coded_width = 0, avc_coded_height = 0,
        avc_pix_fmt = - 1, avc_time_base = (0, 1), avc_bit_rate = 0, avc_rc_max_rate = 0, avc_lib = ([], False)\<rparr>)),
      avcodec_open2 = (\<lambda>_ av w. (w, av, 0)),
      avcodec_send_packet = fx_send,
      avcodec_receive_frame = fx_receive,
      avcodec_send_frame = (\<lambda>_ av w. (w, av, - 22)),
      avcodec_receive_packet = (\<lambda>av w. (w, av, \<lparr>pkt_buf = None, pkt_data = NullData, pkt_size = 0, pkt_pts = 0, pkt_dts = 0, pkt_pos = 0\<rparr>, - 22)),
      avcodec_flush_buffers = (\<lambda>av w. (w, av\<lparr>avc_lib := ([], False)\<rparr>)),
      av_frame_alloc = (\<lambda>w. (w, Some (fx_frame (0, 0) (- 1) 0))),
      av_frame_is_writable = (\<lambda>_ _. True),
      av_frame_make_writable = (\<lambda>fr w. (w, fr, 0)),
      av_buffer_create = (\<lambda>_ n w. (w, Some n)),
      av_buffer_size = id,
      av_image_get_linesize = (\<lambda>_ width _. width),
      av_image_fill_plane_sizes =
        (\<lambda>_ height ls. ([ucast (ls ! 0) * ucast height, ucast (ls ! 1) * ucast height div 2, 0, 0], 0)),
      sws_getContext = (\<lambda>_ _ _ _ _ _ w. (w, Some ())),
      sws_scale = (\<lambda>sw _ height _ w. (w, sw, height)),
      av_get_pix_fmt_name = (\<lambda>_. None),
      avcodec_pix_fmt_to_codec_tag = (\<lambda>_. 0),
      AV_PROFILE_UNKNOWN = - 99,
      AV_PIX_FMT_NONE = - 1,
      AV_PIX_FMT_NB = 200,
      AV_PIX_FMT_YUV420P = 0,
      AV_PIX_FMT_NV12 = 23,
      AV_CODEC_CAP_DR1 = 2\<rparr>"

definition fx_pend :: "(u64 list \<times> bool) AvCodecContext \<Rightarrow> nat" where
  "fx_pend av = length (fst (avc_lib av))"

definition fx_decoder :: FfmpegDecoder where
  "fx_decoder = \<lparr>fd_codecs = [(0x34363248, H264, fx_codec)]\<rparr>"

definition fx_defaults :: v4l2_defaults where
  "fx_defaults = \<lparr>V4L2_COLORSPACE_DEFAULT = 0, V4L2_YCBCR_ENC_DEFAULT = 0, V4L2_QUANTIZATION_DEFAULT = 0,
     V4L2_XFER_FUNC_DEFAULT = 0, pix_mp_default = [], from_dir_and_class = (\<lambda>_ _. VideoCapture), stepwise_rest = (\<lambda>_. [])\<rparr>"

definition fx_buffer :: "fd \<Rightarrow> FfmpegDecoderBuffer" where
  "fx_buffer f = \<lparr>fb_fds = [\<lparr>mfb_file = f, mfb_size = 115200\<rparr>]\<rparr>"

lemma averror_values [simp]:
  "AVERROR_EOF = - 541478725" "AVERROR_INVALIDDATA = - 1094995529" "AVERROR_EAGAIN = - 11"
  by code_simp+

lemma fx_sizes [simp]:
  "plane_sizes fx_av fmt [a, b] h = [ucast a * ucast h, ucast b * ucast h div 2]"
  "line_size fx_av fmt wd i = (if 0 \<le> sint wd then ucast wd else 0)"
  by (simp_all add: fx_av_def plane_sizes_def av_image_plane_sizes_def AvError_result_def MAX_FFMPEG_PLANES_def
      line_size_def av_image_line_size_def Let_def numeral_eq_Suc)

lemma fx_eventfd_laws: "eventfd_laws fx_os fx_cnt"
  by (auto simp: eventfd_laws_def fx_os_def fx_cnt_def)

lemma fx_quiet: "quiet fx_av fx_os fx_cnt"
  by (auto simp: quiet_def fx_av_def fx_os_def fx_cnt_def fx_send_def fx_receive_def split: option.split list.split)

lemma fx_dims_ok: "dims_ok fx_av (320, 240)"
  by (simp add: dims_ok_def Let_def)

lemma fx_libav_laws: "libav_laws chk fx_av fx_pend"
  using fx_dims_ok
  by (auto simp: libav_laws_def DEFAULT_CODED_SIZE_def fx_pend_def crop_ok_def dimensions_def fx_frame_def
      fx_send_def fx_receive_def fx_av_def split: list.split_asm)

section \<open>A run\<close>

text \<open>Receiving a frame when no drain is under way: the function does not call itself.\<close>

lemma try_receive_frame_steady:
  assumes "fs_context s = Some c" and "dc_avframe c = None" and "dc_drain_state c \<noteq> Initiated"
    and "AvFrame_new A w = (w1, Inr f)" and "av_try_receive_frame A (dc_av_context c) w1 = (w2, av, fr, Inr r)"
  shows "try_receive_frame chk A E s w =
    (if r = Received
     then frame_received chk A E fr (c\<lparr>dc_av_context := av\<rparr>) (s\<lparr>fs_context := Some (c\<lparr>dc_av_context := av\<rparr>)\<rparr>) w2
     else Some (w2, s\<lparr>fs_context := Some (c\<lparr>dc_av_context := av\<rparr>)\<rparr>, Inr False))"
  using assms by (subst try_receive_frame.simps) (cases r; simp add: Let_def)

text \<open>The contexts and sessions of the run, by what changes in them.\<close>

definition fx_avc :: "u64 list \<Rightarrow> (u64 list \<times> bool) AvCodecContext" where
  "fx_avc l =
     \<lparr>avc_width = 320, avc_height = 240, avc_coded_width = 320, avc_coded_height = 240, avc_pix_fmt = 0,
      avc_time_base = (0, 1), avc_bit_rate = 0, avc_rc_max_rate = 0, avc_lib = (l, False)\<rparr>"

definition fx_conv :: "unit SwConverter" where
  "fx_conv = \<lparr>sw_context = (), src_pix_format = 0, dst_pix_format = 23\<rparr>"

definition fx_context ::
  "u64 FfmpegDecoderJob list \<Rightarrow> u64 list \<Rightarrow> u64 AvFrame option \<Rightarrow> (u64 list \<times> bool, unit, u64) DecodingContext"
where
  "fx_context j l f =
     \<lparr>dc_jobs = j, dc_av_context = fx_avc l, dc_converter = fx_conv, dc_accepting_output_buffers = True, dc_avframe = f,
      dc_drain_state = NoDrain\<rparr>"

definition fx_session ::
  "(u64 list \<times> bool, unit, u64) DecodingContext option \<Rightarrow> AvailableOutputFrame list \<Rightarrow> VideoDecoderBackendEvent list \<Rightarrow>
   (u64 list \<times> bool, unit, u64) FfmpegDecoderSession"
where
  "fx_session c fs es =
     \<lparr>fs_input_format = (H264, fx_codec), fs_output_format = NV12, fs_coded_size = (320, 240),
      fs_stream_params = \<lparr>min_output_buffers = 4, coded_size = (320, 240), visible_rect = Rect_new 0 0 320 240\<rparr>,
      fs_context = c, fs_available_output_frames = fs, fs_events = \<lparr>eq_event = 0, eq_pending = es\<rparr>\<rparr>"

lemma fx_context_simps [simp]:
  "dc_jobs (fx_context j l f) = j" "dc_av_context (fx_context j l f) = fx_avc l" "dc_converter (fx_context j l f) = fx_conv"
  "dc_avframe (fx_context j l f) = f" "dc_drain_state (fx_context j l f) = NoDrain"
  "(fx_context j l f)\<lparr>dc_jobs := j'\<rparr> = fx_context j' l f" "(fx_context j l f)\<lparr>dc_av_context := fx_avc l'\<rparr> = fx_context j l' f"
  "(fx_context j l f)\<lparr>dc_converter := fx_conv\<rparr> = fx_context j l f" "(fx_context j l f)\<lparr>dc_avframe := f'\<rparr> = fx_context j l f'"
  by (simp_all add: fx_context_def)

lemma fx_session_simps [simp]:
  "fs_output_format (fx_session c fs es) = NV12" "fs_coded_size (fx_session c fs es) = (320, 240)"
  "fs_context (fx_session c fs es) = c" "fs_available_output_frames (fx_session c fs es) = fs"
  "fs_events (fx_session c fs es) = \<lparr>eq_event = 0, eq_pending = es\<rparr>"
  "(fx_session c fs es)\<lparr>fs_context := c'\<rparr> = fx_session c' fs es"
  "(fx_session c fs es)\<lparr>fs_available_output_frames := fs'\<rparr> = fx_session c fs' es"
  "(fx_session c fs es)\<lparr>fs_events := \<lparr>eq_event = 0, eq_pending = es'\<rparr>\<rparr> = fx_session c fs es'"
  by (simp_all add: fx_session_def)

lemma fx_alloc [simp]: "AvFrame_new fx_av w = (w, Inr (fx_frame (0, 0) (- 1) 0))"
  by (simp add: AvFrame_new_def fx_av_def)

lemma fx_av_receive [simp]:
  "av_try_receive_frame fx_av (fx_avc []) w = (w, fx_avc [], fx_frame (0, 0) 0 0, Inr TryAgain)"
  "av_try_receive_frame fx_av (fx_avc (p # ps)) w = (w, fx_avc ps, fx_frame (320, 240) 0 p, Inr Received)"
  by (simp_all add: av_try_receive_frame_def fx_av_def fx_receive_def fx_avc_def)

lemma fx_receive_steps [simp]:
  "try_receive_frame chk fx_av fx_os (fx_session (Some (fx_context j l (Some f))) fs es) w =
     Some (w, fx_session (Some (fx_context j l (Some f))) fs es, Inr False)"
  "try_receive_frame chk fx_av fx_os (fx_session (Some (fx_context j [] None)) fs es) w =
     Some (w, fx_session (Some (fx_context j [] None)) fs es, Inr False)"
  "try_receive_frame chk fx_av fx_os (fx_session (Some (fx_context j (p # ps) None)) fs es) w =
     Some (w, fx_session (Some (fx_context j ps (Some (fx_frame (320, 240) 0 p)))) fs es, Inr True)"
proof -
  show "try_receive_frame chk fx_av fx_os (fx_session (Some (fx_context j l (Some f))) fs es) w =
     Some (w, fx_session (Some (fx_context j l (Some f))) fs es, Inr False)"
    by (subst try_receive_frame.simps) simp
  show "try_receive_frame chk fx_av fx_os (fx_session (Some (fx_context j [] None)) fs es) w =
     Some (w, fx_session (Some (fx_context j [] None)) fs es, Inr False)"
    by (simp add: try_receive_frame_steady [where c = "fx_context j [] None"])
  show "try_receive_frame chk fx_av fx_os (fx_session (Some (fx_context j (p # ps) None)) fs es) w =
     Some (w, fx_session (Some (fx_context j ps (Some (fx_frame (320, 240) 0 p)))) fs es, Inr True)"
    by (simp add: try_receive_frame_steady [where c = "fx_context j (p # ps) None"] frame_received_def sub_ov_def fx_frame_def
        Rect_new_def fx_session_def [of _ _ _, THEN arg_cong [where f = fs_stream_params]])
qed

lemma fx_send_event [simp]:
  "send_event fx_os ev err (fx_session c fs es) (n, g) =
     (if es = [] then
        if g 0 + 1 < 2 ^ 64 - 1 then Some ((n, g(0 := g 0 + 1)), fx_session c fs [ev], Inr ()) else None
      else Some ((n, g), fx_session c fs (es @ [ev]), Inr ()))"
  by (simp add: send_event_def queue_event_def fx_os_def)

lemma fx_send_steps [simp]:
  "try_send_input_job fx_av fx_os (fx_session (Some (fx_context [] l f)) fs es) w =
     Some (w, fx_session (Some (fx_context [] l f)) fs es, Inr False)"
  "try_send_input_job fx_av fx_os (fx_session (Some (fx_context (DecodeJob p i # j) l f)) fs es) w =
     map_option (\<lambda>(w', s', r). (w', s', map_sum id (\<lambda>_. True) r))
       (send_event fx_os (InputBufferDone i 0) SendEventQueue (fx_session (Some (fx_context j (l @ [pkt_pts p]) f)) fs es) w)"
  by (simp_all add: try_send_input_job_def try_send_packet_def fx_av_def fx_send_def fx_avc_def fx_context_def Let_def del: fx_send_event)

definition fx_output :: "u32 \<Rightarrow> AvailableOutputFrame" where
  "fx_output i = \<lparr>of_index = i, of_planes = [\<lparr>mm_data = 4096, mm_len = 115200\<rparr>]\<rparr>"

lemma fx_dst: "\<exists>fr. dst_frame chk fx_av 23 (320, 240) [76800, 38400] (of_planes (fx_output i)) w = Some (w, Inr fr) \<and>
    af_format fr = 23 \<and> dimensions fr = (320, 240)"
  by (auto simp: dst_frame_def set_dimensions_def vec_get_def fx_output_def AvBuffer_new_def MemFdMapping_size_def build_owned_def
      set_format_def add_ov_def dimensions_def fx_frame_def AV_NUM_DATA_POINTERS_def fx_av_def [THEN arg_cong [where f = av_buffer_create]]
      fx_av_def [THEN arg_cong [where f = av_buffer_size]])

lemma fx_output_steps [simp]:
  "try_output_frame chk fx_av fx_os (fx_session (Some (fx_context j l None)) fs es) w =
     Some (w, fx_session (Some (fx_context j l None)) fs es, Inr False)"
  "try_output_frame chk fx_av fx_os (fx_session (Some (fx_context j l (Some f))) [] es) w =
     Some (w, fx_session (Some (fx_context j l (Some f))) [] es, Inr False)"
  "try_output_frame chk fx_av fx_os (fx_session (Some (fx_context j l (Some (fx_frame (320, 240) 0 p)))) (fx_output i # fs) es) w =
     map_option (\<lambda>(w', s', r). (w', s', map_sum id (\<lambda>_. True) r))
       (send_event fx_os (FrameCompleted i (pts_timeval p) [115200] False) OutputEventQueue
         (fx_session (Some (fx_context j l None)) fs es) w)"
proof -
  obtain fr where fr: "dst_frame chk fx_av 23 (320, 240) [76800, 38400] (of_planes (fx_output i)) w = Some (w, Inr fr)"
    "af_format fr = 23" "dimensions fr = (320, 240)" using fx_dst by blast
  have "convert fx_av (fx_frame (320, 240) 0 p) fr fx_conv w = (w, fx_conv, Inr ())"
    using fr by (simp add: convert_def fx_conv_def fx_frame_def dimensions_def fx_av_def AvError_result_def)
  with fr show "try_output_frame chk fx_av fx_os (fx_session (Some (fx_context j l (Some (fx_frame (320, 240) 0 p)))) (fx_output i # fs) es) w =
     map_option (\<lambda>(w', s', r). (w', s', map_sum id (\<lambda>_. True) r))
       (send_event fx_os (FrameCompleted i (pts_timeval p) [115200] False) OutputEventQueue
         (fx_session (Some (fx_context j l None)) fs es) w)"
    by (simp add: try_output_frame_def output_avframe_def Let_def add_ov_def fx_frame_def fx_output_def
        fx_av_def [THEN arg_cong [where f = AV_PIX_FMT_NV12]] del: fx_send_event)
qed (auto simp: try_output_frame_def split: list.split)

text \<open>
  The run: a session is opened, an output buffer handed over, an input buffer decoded, and the first event
  taken.
\<close>

definition fx_time :: timeval where
  "fx_time = \<lparr>tv_sec = 2, tv_usec = 500000\<rparr>"

definition fx_history :: "(FfCall \<times> FfReply) list" where
  "fx_history =
     [(UseAsOutput 7 (fx_buffer 5), Status (Inr ())), (Decode (fx_buffer 5) 3 fx_time 4, Status (Inr ())),
      (NextEvent, NextIs (Some (InputBufferDone 3 0)))]"

definition fx_packet :: "u64 AvPacket" where
  "fx_packet = \<lparr>pkt_buf = Some 4, pkt_data = BufferData 4, pkt_size = 4, pkt_pts = 2500000, pkt_dts = AV_NOPTS_VALUE, pkt_pos = - 1\<rparr>"

definition fx_end :: "(u64 list \<times> bool, unit, u64) FfmpegDecoderSession" where
  "fx_end = fx_session (Some (fx_context [] [] None)) [] [FrameCompleted 7 fx_time [115200] False]"

lemma fx_start: "ffmpeg_new_session fx_os 1 fx_decoder (0, \<lambda>_. 0) = ((Suc 0, \<lambda>_. 0), fx_decoder, Inr (fx_session None [] []))"
  by (auto simp: ffmpeg_new_session_def fx_decoder_def EventQueue_new_def fx_os_def fx_session_def SUPPORTED_OUTPUT_FORMATS_def
      DEFAULT_CODED_SIZE_def)

lemma fx_use: "ffmpeg_use_as_output fx_os i (fx_buffer f) (fx_session None [] es) w = (w, fx_session None [fx_output i] es, Inr ())"
  by (simp add: ffmpeg_use_as_output_def fx_buffer_def MemFdBuffer_mmap_def fx_os_def fx_output_def)

lemma fx_ensure: "ensure_context fx_av (fx_session None fs es) w = (w, Inr (fx_context [] [] None))"
  by (simp add: ensure_context_def fx_session_def DecodingContext_new_def build_decoder_def alloc_context_def
      av_build_def av_init_def set_initial_format_def create_converter_from_context_def SwConverter_new_def fx_av_def
      fx_codec_def fx_context_def fx_avc_def fx_conv_def)

lemma fx_input: "input_packet fx_av fx_os (fx_buffer f) 2500000 4 w = (w, Inr fx_packet)"
  by (simp add: input_packet_def fx_buffer_def fx_os_def fx_av_def AvBuffer_new_def AvPacket_new_owned_def fx_packet_def)

lemma fx_timestamps: "timeval_pts chk fx_time = Some 2500000" "pts_timeval 2500000 = fx_time"
  by (simp_all add: timeval_pts_def add_sov_def fx_time_def pts_timeval_def signed_divide_int_def signed_modulo_int_def)

lemma fx_loop:
  "decode_loop chk fx_av fx_os (fx_session (Some (fx_context [DecodeJob fx_packet i] [] None)) [fx_output j] []) (n, \<lambda>_. 0) =
   Some ((n, (\<lambda>_. 0)(0 := Suc 0)),
     fx_session (Some (fx_context [] [] None)) [] [InputBufferDone i 0, FrameCompleted j fx_time [115200] False], Inr ())"
proof -
  have "pkt_pts fx_packet = 2500000" by (simp add: fx_packet_def)
  then show ?thesis
    by (subst decode_loop.simps, simp, subst decode_loop.simps, simp, subst decode_loop.simps, simp add: fx_timestamps,
        subst decode_loop.simps, simp)
qed

lemma fx_decode:
  "ffmpeg_decode chk fx_av fx_os (fx_buffer f) i fx_time 4 (fx_session None [fx_output j] []) (n, \<lambda>_. 0) =
   Some ((n, (\<lambda>_. 0)(0 := Suc 0)),
     fx_session (Some (fx_context [] [] None)) [] [InputBufferDone i 0, FrameCompleted j fx_time [115200] False], Inr ())"
  by (simp add: ffmpeg_decode_def fx_ensure fx_timestamps fx_input run_job_def try_decode_def fx_loop)

lemma fx_run: "ff_run chk fx_av ex_K fx_os fx_decoder fx_cnt fx_end (Suc 0, (\<lambda>_. 0)(0 := Suc 0)) fx_history"
proof -
  have "ff_run chk fx_av ex_K fx_os fx_decoder fx_cnt (fx_session None [] []) (Suc 0, \<lambda>_. 0) []"
    by (rule run_start [OF fx_start])
  then have "ff_run chk fx_av ex_K fx_os fx_decoder fx_cnt (fx_session None [fx_output 7] []) (Suc 0, \<lambda>_. 0) ([] @ [(UseAsOutput 7 (fx_buffer 5), Status (Inr ()))])"
    by (rule run_call) (simp add: fx_use)
  then have "ff_run chk fx_av ex_K fx_os fx_decoder fx_cnt
      (fx_session (Some (fx_context [] [] None)) [] [InputBufferDone 3 0, FrameCompleted 7 fx_time [115200] False])
      (Suc 0, (\<lambda>_. 0)(0 := Suc 0)) (([] @ [(UseAsOutput 7 (fx_buffer 5), Status (Inr ()))]) @ [(Decode (fx_buffer 5) 3 fx_time 4, Status (Inr ()))])"
    by (rule run_call) (simp add: fx_decode)
  then have "ff_run chk fx_av ex_K fx_os fx_decoder fx_cnt fx_end (Suc 0, (\<lambda>_. 0)(0 := Suc 0))
      ((([] @ [(UseAsOutput 7 (fx_buffer 5), Status (Inr ()))]) @ [(Decode (fx_buffer 5) 3 fx_time 4, Status (Inr ()))]) @
        [(NextEvent, NextIs (Some (InputBufferDone 3 0)))])"
    by (rule run_call) (simp add: ffmpeg_next_event_def dequeue_event_def fx_end_def)
  then show ?thesis by (simp add: fx_history_def)
qed

end
