(* ===== verification/Ffmpeg_Frames.thy ===== *)
theory Ffmpeg_Frames
  imports Ffmpeg_Session
begin

text \<open>
  The frames built over the memory of the client: their planes are inside their buffers and do not
  overlap. And the frames that cannot be delivered: those whose size is not the coded size.
\<close>

section \<open>Pairwise facts of a sorted list\<close>

lemma sorted_wrt_insort:
  assumes "\<And>x y. P x y \<Longrightarrow> P y x"
  shows "sorted_wrt P (insort x xs) = sorted_wrt P (x # xs)"
  using assms by (induction xs) (auto simp: set_insort_key)

lemma sorted_wrt_sort:
  assumes "\<And>x y. P x y \<Longrightarrow> P y x"
  shows "sorted_wrt P (sort xs) = sorted_wrt P xs"
  using sorted_wrt_insort [of P, OF assms] by (induction xs) auto

section \<open>The planes of a frame\<close>

text \<open>Two ranges of the same buffer do not overlap.\<close>

definition disjoint_ranges :: "u64 \<times> u64 \<times> u64 \<Rightarrow> u64 \<times> u64 \<times> u64 \<Rightarrow> bool" where
  "disjoint_ranges x y \<longleftrightarrow>
     (case (x, y) of ((b0, s0, e0), (b1, s1, e1)) \<Rightarrow> b0 = b1 \<longrightarrow> e0 \<le> s1 \<or> e1 \<le> s0)"

lemma no_overlap_head:
  assumes "sorted (x # xs)" and "no_overlap (x # xs)" and "list_all (\<lambda>(b, s, e). s \<le> e) xs" and "y \<in> set xs"
  shows "fst x = fst y \<Longrightarrow> snd (snd x) \<le> fst (snd y)"
  using assms
proof (induction xs arbitrary: x)
  case (Cons z zs)
  obtain b0 s0 e0 b1 s1 e1 b s e where [simp]: "x = (b0, s0, e0)" "z = (b1, s1, e1)" "y = (b, s, e)" by (metis prod_cases3)
  show ?case
  proof (cases "y = z")
    case True
    with Cons.prems show ?thesis by auto
  next
    case False
    then have y: "y \<in> set zs" using Cons.prems by auto
    with Cons.prems have le: "x \<le> z" "z \<le> y" by auto
    with Cons.prems(1) have "b1 = b" by (auto simp: less_eq_prod_def)
    moreover from this have "e1 \<le> s" using Cons.IH [of z] Cons.prems y by simp
    ultimately show ?thesis using Cons.prems by auto
  qed
qed simp

lemma no_overlap_disjoint:
  assumes "sorted xs" and "no_overlap xs" and "list_all (\<lambda>(b, s, e). s \<le> e) xs"
  shows "sorted_wrt disjoint_ranges xs"
  using assms
proof (induction xs)
  case (Cons x xs)
  have "no_overlap xs" using Cons.prems(2) by (cases x; cases xs) auto
  with Cons have "sorted_wrt disjoint_ranges xs" by simp
  moreover have "disjoint_ranges x y" if "y \<in> set xs" for y
    using no_overlap_head [OF Cons.prems(1,2) _ that] Cons.prems(3) by (auto simp: disjoint_ranges_def split: prod.split)
  ultimately show ?case by simp
qed simp

text \<open>The planes of the new frame, and what the loop has checked of each.\<close>

lemma place_planes_Some:
  assumes "place_planes chk A sizes bufs k ps fr = Some (Inr (fr', ranges))"
  shows "af_planes fr' = af_planes fr @ map (\<lambda>p. (pd_buffer_index p, pd_offset p, ucast (stride p))) ps \<and>
    dimensions fr' = dimensions fr \<and> af_format fr' = af_format fr \<and>
    ranges = map (\<lambda>i. (pd_buffer_index (ps ! i), pd_offset (ps ! i), pd_offset (ps ! i) + sizes ! (k + i))) [0..<length ps] \<and>
    (\<forall>i < length ps. k + i < length sizes \<and> unat (pd_buffer_index (ps ! i)) < length bufs \<and>
       (chk \<longrightarrow> unat (pd_offset (ps ! i)) + unat (sizes ! (k + i)) < 2 ^ 64) \<and>
       pd_offset (ps ! i) + sizes ! (k + i) \<le> av_buffer_size A (bufs ! unat (pd_buffer_index (ps ! i))) \<and>
       pd_offset (ps ! i) \<le> av_buffer_size A (bufs ! unat (pd_buffer_index (ps ! i))) \<and>
       line_size A (af_format fr) (fst (dimensions fr)) (k + i) \<le> stride (ps ! i))"
  using assms
proof (induction ps arbitrary: k fr fr' ranges)
  case (Cons p ps)
  let ?fr = "fr\<lparr>af_planes := af_planes fr @ [(pd_buffer_index p, pd_offset p, ucast (stride p))]\<rparr>"
  from Cons.prems obtain rs where
    here: "k < length sizes" "unat (pd_buffer_index p) < length bufs"
      "chk \<longrightarrow> unat (pd_offset p) + unat (sizes ! k) < 2 ^ 64"
      "pd_offset p + sizes ! k \<le> av_buffer_size A (bufs ! unat (pd_buffer_index p))"
      "pd_offset p \<le> av_buffer_size A (bufs ! unat (pd_buffer_index p))"
      "line_size A (af_format fr) (fst (dimensions fr)) k \<le> stride p" and
    rest: "place_planes chk A sizes bufs (Suc k) ps ?fr = Some (Inr (fr', rs))" and
    rs: "ranges = (pd_buffer_index p, pd_offset p, pd_offset p + sizes ! k) # rs"
    by (auto simp: vec_get_def add_ov_def not_le not_less map_sum_eq_Inr elim!: bind_SomeE split: if_split_asm)
  note IH = Cons.IH [OF rest]
  have "ranges = map (\<lambda>i. (pd_buffer_index ((p # ps) ! i), pd_offset ((p # ps) ! i), pd_offset ((p # ps) ! i) + sizes ! (k + i))) [0..<length (p # ps)]"
    using rs IH by (simp add: upt_conv_Cons map_Suc_upt [symmetric] del: upt_Suc)
  with here IH show ?case by (auto simp: nth_Cons dimensions_def split: nat.split)
qed simp

lemma build_owned_Some:
  assumes "build_owned chk A bufs ps fr = Some (Inr fr')"
  obtains fr1 ranges where
    "place_planes chk A (plane_sizes A (af_format fr) (map (\<lambda>p. ucast (stride p)) ps) (snd (dimensions fr))) bufs 0 ps fr =
      Some (Inr (fr1, ranges))"
    and "no_overlap (sort ranges)" and "fr' = fr1\<lparr>af_buf := bufs\<rparr>"
  using assms by (auto simp: build_owned_def Let_def elim!: bind_SomeE split: sum.split_asm if_split_asm)

lemma build_owned_dimensions:
  assumes "build_owned chk A bufs ps fr = Some (Inr fr')"
  shows "dimensions fr' = dimensions fr" and "af_format fr' = af_format fr"
proof -
  from assms obtain fr1 ranges where *: "place_planes chk A (plane_sizes A (af_format fr) (map (\<lambda>p. ucast (stride p)) ps) (snd (dimensions fr))) bufs 0 ps fr =
      Some (Inr (fr1, ranges))" and "fr' = fr1\<lparr>af_buf := bufs\<rparr>" by (rule build_owned_Some)
  with place_planes_Some [OF *] show "dimensions fr' = dimensions fr" "af_format fr' = af_format fr"
    by (auto simp: dimensions_def)
qed

text \<open>An end that does not wrap around: with overflow checks, or when the sizes are those of real memory.\<close>

lemma end_no_wrap:
  fixes off sz size :: u64
  assumes "chk \<longrightarrow> unat off + unat sz < 2 ^ 64" and "chk \<or> unat size < 2 ^ 63 \<and> unat sz < 2 ^ 63" and "off \<le> size"
  shows "unat (off + sz) = unat off + unat sz"
proof -
  have "unat off + unat sz < 2 ^ 64" using assms by (cases chk) (auto simp: word_le_nat_alt)
  then show ?thesis by (simp add: unat_add_lem [THEN iffD1])
qed

lemma nth_sorted_wrt_map:
  "sorted_wrt P (map f [0..<n]) \<Longrightarrow> i < j \<Longrightarrow> j < n \<Longrightarrow> P (f i) (f j)"
  by (auto simp: sorted_wrt_iff_nth_less)

section \<open>Frames of another size\<close>

lemma dst_frame_dimensions:
  assumes "dst_frame chk A fmt dims bytes_used planes w = Some (w1, Inr frame)"
  shows "dimensions frame = dims"
proof -
  from assms obtain buf ps fr where "build_owned chk A [buf] ps (set_format fmt fr) = Some (Inr frame)" "dimensions fr = dims"
    by (auto simp: dst_frame_def set_dimensions_def dimensions_def map_sum_eq_Inr elim!: bind_SomeE
        split: prod.split_asm sum.split_asm option.split_asm if_split_asm)
  from build_owned_dimensions(1) [OF this(1)] this(2) show ?thesis by (simp add: dimensions_def set_format_def)
qed

lemma convert_mismatch:
  assumes "dimensions from \<noteq> dimensions to"
  shows "\<exists>e. convert A from to conv w = (w, conv, Inl e)"
  using assms by (simp add: convert_def)

lemma output_avframe_mismatch:
  assumes "output_avframe chk A E f fr c s w = Some (w', s', r)" and "fs_context s = Some c"
    and "dimensions fr \<noteq> fs_coded_size s"
  shows "\<exists>e c'. r = Inl e \<and> fs_context s' = Some c' \<and> dc_avframe c' = dc_avframe c \<and>
    fs_available_output_frames s' = fs_available_output_frames s \<and> fs_events s' = fs_events s"
proof -
  let ?fmt = "av_format A (fs_output_format s)" and ?size = "fs_coded_size s"
  from assms(1) obtain w1 dst where
    d: "dst_frame chk A ?fmt ?size (plane_sizes A ?fmt [fst ?size, fst ?size] (snd ?size)) (of_planes f) w = Some (w1, dst)"
    by (auto simp: output_avframe_def Let_def elim!: bind_SomeE)
  show ?thesis
  proof (cases dst)
    case (Inl e)
    with d assms(1,2) show ?thesis by (auto simp: output_avframe_def Let_def)
  next
    case (Inr frame)
    from dst_frame_dimensions [OF d [unfolded Inr]] assms(3) have "dimensions fr \<noteq> dimensions frame" by simp
    from convert_mismatch [OF this] obtain e where "convert A fr frame (dc_converter c) w1 = (w1, dc_converter c, Inl e)" ..
    with d Inr assms(1,2) show ?thesis by (auto simp: output_avframe_def Let_def)
  qed
qed

end
