(* ===== verification/Ffmpeg_Properties.thy ===== *)
theory Ffmpeg_Properties
  imports Ffmpeg_Example Ffmpeg_Frames
begin

text \<open>The properties of the FFmpeg backend.\<close>

section \<open>Frames over client memory\<close>

text \<open>
  C8. A frame that \<open>build_owned\<close> returns over the buffers of the caller is safe to write to: every plane
  is given as described, lies inside the buffer it names, has lines no longer than its stride, and no
  two planes of the same buffer overlap. This holds with overflow checks, and without them when buffers
  and planes have the sizes real memory has.
\<close>

theorem build_owned_planes_safe:
  assumes "build_owned chk A bufs ps fr = Some (Inr fr')" and "af_planes fr = []"
    and "sizes = plane_sizes A (af_format fr) (map (\<lambda>p. ucast (stride p)) ps) (snd (dimensions fr))"
    and "chk \<or> (\<forall>b \<in> set bufs. unat (av_buffer_size A b) < 2 ^ 63) \<and> (\<forall>sz \<in> set sizes. unat sz < 2 ^ 63)"
  shows "af_planes fr' = map (\<lambda>p. (pd_buffer_index p, pd_offset p, ucast (stride p))) ps \<and> af_buf fr' = bufs \<and>
    (\<forall>i < length ps.
       unat (pd_buffer_index (ps ! i)) < length bufs \<and>
       unat (pd_offset (ps ! i)) + unat (sizes ! i) \<le> unat (av_buffer_size A (bufs ! unat (pd_buffer_index (ps ! i)))) \<and>
       line_size A (af_format fr) (fst (dimensions fr)) i \<le> stride (ps ! i)) \<and>
    (\<forall>j < length ps. \<forall>i < j. pd_buffer_index (ps ! i) = pd_buffer_index (ps ! j) \<longrightarrow>
       unat (pd_offset (ps ! i)) + unat (sizes ! i) \<le> unat (pd_offset (ps ! j)) \<or>
       unat (pd_offset (ps ! j)) + unat (sizes ! j) \<le> unat (pd_offset (ps ! i)))"
proof -
  from assms(1,3) obtain fr1 ranges where place: "place_planes chk A sizes bufs 0 ps fr = Some (Inr (fr1, ranges))"
    and sort: "no_overlap (sort ranges)" and fr': "fr' = fr1\<lparr>af_buf := bufs\<rparr>" by (auto elim: build_owned_Some)
  note ps = place_planes_Some [OF place, simplified]
  have wrap: "unat (pd_offset (ps ! i) + sizes ! i) = unat (pd_offset (ps ! i)) + unat (sizes ! i)" if "i < length ps" for i
    using ps that assms(4) by (intro end_no_wrap [where chk = chk and size = "av_buffer_size A (bufs ! unat (pd_buffer_index (ps ! i)))"]) auto
  have ranges: "ranges = map (\<lambda>i. (pd_buffer_index (ps ! i), pd_offset (ps ! i), pd_offset (ps ! i) + sizes ! i)) [0..<length ps]"
    using ps by blast
  have "list_all (\<lambda>(b, s, e). s \<le> e) (sort ranges)"
    using wrap by (auto simp: list_all_iff ranges word_le_nat_alt)
  then have "sorted_wrt disjoint_ranges (sort ranges)" by (intro no_overlap_disjoint sort) auto
  then have "sorted_wrt disjoint_ranges ranges" by (subst (asm) sorted_wrt_sort) (auto simp: disjoint_ranges_def)
  from nth_sorted_wrt_map [OF this [unfolded ranges]] wrap
  have disj: "pd_buffer_index (ps ! i) = pd_buffer_index (ps ! j) \<longrightarrow>
      unat (pd_offset (ps ! i)) + unat (sizes ! i) \<le> unat (pd_offset (ps ! j)) \<or>
      unat (pd_offset (ps ! j)) + unat (sizes ! j) \<le> unat (pd_offset (ps ! i))" if "i < j" "j < length ps" for i j
    using that by (force simp: disjoint_ranges_def word_le_nat_alt)
  have bound: "unat (pd_offset (ps ! i)) + unat (sizes ! i) \<le> unat (av_buffer_size A (bufs ! unat (pd_buffer_index (ps ! i))))"
    if "i < length ps" for i
  proof -
    have "pd_offset (ps ! i) + sizes ! i \<le> av_buffer_size A (bufs ! unat (pd_buffer_index (ps ! i)))" using ps that by blast
    then show ?thesis by (simp only: word_le_nat_alt wrap [OF that])
  qed
  show ?thesis using ps fr' assms(2) disj bound by simp
qed

definition fx_planes :: "PlaneDescriptor list" where
  "fx_planes = [\<lparr>pd_buffer_index = 0, pd_offset = 0, stride = 320\<rparr>, \<lparr>pd_buffer_index = 0, pd_offset = 76800, stride = 320\<rparr>]"

theorem build_owned_planes_safe_witness:
  "\<exists>fr'. build_owned False fx_av [115200] fx_planes (fx_frame (320, 240) 23 0) = Some (Inr fr') \<and>
    unat (pd_offset (fx_planes ! 1)) + unat (38400 :: u64) \<le> 115200 \<and>
    unat (pd_offset (fx_planes ! 0)) + unat (76800 :: u64) \<le> unat (pd_offset (fx_planes ! 1))"
proof -
  let ?fr = "fx_frame (320, 240) 23 0"
  have size: "av_buffer_size fx_av b = b" for b by (simp add: fx_av_def)
  have sizes: "plane_sizes fx_av (af_format ?fr) (map (\<lambda>p. ucast (stride p)) fx_planes) (snd (dimensions ?fr)) = [76800, 38400]"
    by (simp add: fx_planes_def fx_frame_def dimensions_def)
  obtain fr' where b: "build_owned False fx_av [115200] fx_planes ?fr = Some (Inr fr')"
    by (simp add: build_owned_def fx_planes_def vec_get_def fx_frame_def dimensions_def AV_NUM_DATA_POINTERS_def size)
  have planes: "af_planes ?fr = []" by (simp add: fx_frame_def)
  have mem: "False \<or> (\<forall>b \<in> set [115200]. unat (av_buffer_size fx_av b) < 2 ^ 63) \<and> (\<forall>sz \<in> set [76800, 38400 :: u64]. unat sz < 2 ^ 63)"
    by (simp add: size)
  note safe = build_owned_planes_safe [OF b planes sizes [symmetric] mem]
  from safe have *: "i < length fx_planes \<Longrightarrow> unat (pd_offset (fx_planes ! i)) + unat ([76800, 38400] ! i :: u64) \<le>
      unat (av_buffer_size fx_av ([115200] ! unat (pd_buffer_index (fx_planes ! i))))" for i
    by blast
  from safe have **: "j < length fx_planes \<Longrightarrow> i < j \<Longrightarrow> pd_buffer_index (fx_planes ! i) = pd_buffer_index (fx_planes ! j) \<Longrightarrow>
       unat (pd_offset (fx_planes ! i)) + unat ([76800, 38400] ! i :: u64) \<le> unat (pd_offset (fx_planes ! j)) \<or>
       unat (pd_offset (fx_planes ! j)) + unat ([76800, 38400] ! j :: u64) \<le> unat (pd_offset (fx_planes ! i))" for i j
    by blast
  show ?thesis using b * [of 1] ** [of 1 0] by (simp add: fx_planes_def size)
qed

section \<open>Sessions\<close>

text \<open>
  C1. Every call on a session returns: whatever calls were made before, the decoding loop and the drain
  end, no call panics and none waits for the \<open>eventfd\<close>. The hypotheses are those of the libraries: the
  counter of an \<open>eventfd\<close> behaves as documented and is left alone, and the decoder has finitely many frames
  to give, of sizes that can be computed. The output buffers handed over have memory, and with overflow
  checks the time stamps of the input buffers do not overflow.
\<close>

theorem ffmpeg_calls_return:
  assumes "ff_run chk A K E d cnt s w h"
    and "eventfd_laws E cnt" and "quiet A E cnt" and "libav_laws chk A pend"
    and "list_all (call_ok chk \<circ> fst) h" and "call_ok chk c"
  shows "\<exists>w' s' r. ffmpeg_call chk A K E d c s w = Some (w', s', r)"
proof -
  have "ff_ok A cnt s w" using ff_run_ok [OF assms(1-4)] assms(5) by simp
  from ffmpeg_call_returns [OF assms(2-4) this assms(6)] show ?thesis by blast
qed

lemma fx_calls_ok: "list_all (call_ok chk \<circ> fst) fx_history" "list_all (no_error \<circ> snd) fx_history"
  by (simp_all add: fx_history_def no_error_def fx_timestamps fx_buffer_def)

theorem ffmpeg_calls_return_witness:
  "\<exists>w' s' r. ffmpeg_call True fx_av ex_K fx_os fx_decoder Drain fx_end (Suc 0, (\<lambda>_. 0)(0 := Suc 0)) = Some (w', s', r)"
  by (rule ffmpeg_calls_return [OF fx_run fx_eventfd_laws fx_quiet fx_libav_laws fx_calls_ok(1)]) simp

text \<open>
  C9. At every moment between calls the descriptor that a session is polled on is readable exactly while
  the session has an event to deliver, so that the device is woken up for every event and never for none.
\<close>

theorem ffmpeg_events_signalled:
  assumes "ff_run chk A K E d cnt s w h"
    and "eventfd_laws E cnt" and "quiet A E cnt" and "libav_laws chk A pend"
    and "list_all (call_ok chk \<circ> fst) h"
  shows "\<exists>fd. ffmpeg_poll_fd s = Some fd \<and>
    (0 < cnt fd w \<longleftrightarrow> (\<exists>w' s' event. ffmpeg_next_event E s w = Some (w', s', Some event)))"
proof -
  have "ff_ok A cnt s w" using ff_run_ok [OF assms(1-4)] assms(5) by simp
  then have ok: "queue_ok cnt (fs_events s) w" by (simp add: ff_ok_def)
  show ?thesis
    using dequeue_event_ok [OF assms(2) ok] ok
    by (auto simp: ffmpeg_poll_fd_def ffmpeg_next_event_def queue_ok_def split: if_split_asm)
qed

theorem ffmpeg_events_signalled_witness:
  "\<exists>fd. ffmpeg_poll_fd fx_end = Some fd \<and> 0 < fx_cnt fd (Suc 0, (\<lambda>_. 0)(0 := Suc 0)) \<and>
    (\<exists>w' s' event. ffmpeg_next_event fx_os fx_end (Suc 0, (\<lambda>_. 0)(0 := Suc 0)) = Some (w', s', Some event))"
  using ffmpeg_events_signalled [OF fx_run [of True] fx_eventfd_laws fx_quiet fx_libav_laws fx_calls_ok(1)]
  by (simp add: ffmpeg_poll_fd_def fx_end_def fx_cnt_def)

text \<open>
  No input buffer is lost and none is given back twice: as long as no call fails, the buffers that
  events have given back, those whose events are pending and those that wait to be decoded are, in this
  order, exactly the buffers submitted.
\<close>

theorem ffmpeg_inputs_conserved:
  assumes "ff_run chk A K E d cnt s w h" and "list_all (no_error \<circ> snd) h"
  shows "inputs_done h @ in_ids s = submitted h"
  using ff_run_ids [OF assms(1)] assms(2) by simp

theorem ffmpeg_inputs_conserved_witness:
  "inputs_done fx_history @ in_ids fx_end = submitted fx_history \<and> inputs_done fx_history = [3]"
  using ffmpeg_inputs_conserved [OF fx_run [of True] fx_calls_ok(2)]
  by (simp add: inputs_done_def fx_history_def)

text \<open>
  Frames are delivered in the order in which the client handed over their buffers, each buffer at most
  once and only if it was handed over: the buffers of delivered frames, of pending events and of the
  queue of available frames are, in this order, a subsequence of those handed over. This holds whatever
  fails.
\<close>

theorem ffmpeg_frames_in_order:
  assumes "ff_run chk A K E d cnt s w h"
  shows "subseq (frames_completed h @ out_ids s) (handed h)"
  using ff_run_ids [OF assms(1)] by simp

theorem ffmpeg_frames_in_order_witness:
  "subseq (frames_completed fx_history @ out_ids fx_end) (handed fx_history) \<and> out_ids fx_end = [7]"
  using ffmpeg_frames_in_order [OF fx_run [of True]] by (simp add: out_ids_def fx_end_def)

section \<open>Progress of the loop\<close>

text \<open>What it means that a part of the loop had nothing to do.\<close>

lemma output_idle:
  assumes "try_output_frame chk A E s w = Some (w', s', Inr False)" and "fs_context s = Some c"
  shows "s' = s \<and> (fs_available_output_frames s = [] \<or> (dc_avframe c = None \<longleftrightarrow> dc_drain_state c \<noteq> AwaitingFinalFrame))"
  using assms unfolding try_output_frame_def output_avframe_def
  by (auto simp: Let_def send_event_def map_sum_eq_Inr elim!: bind_SomeE split: list.split_asm option.split_asm if_split_asm sum.split_asm prod.split_asm)

lemma receive_idle:
  "received chk A E s w y \<Longrightarrow> snd (snd y) = Inr False \<Longrightarrow> fs_context s = Some c \<Longrightarrow>
   \<exists>av. fst (snd y) = s\<lparr>fs_context := Some (c\<lparr>dc_av_context := av\<rparr>)\<rparr> \<and> (dc_avframe c = None \<longrightarrow> dc_drain_state c \<noteq> Initiated)"
proof (induction arbitrary: c rule: received.induct)
  case (r_waiting s c f w)
  then show ?case by (intro exI [of _ "dc_av_context c"]) auto
next
  case (r_frame s c w w1 f w2 av fr y)
  then show ?case
    by (auto simp: frame_received_def Let_def elim!: bind_SomeE split: prod.split_asm sum.split_asm if_split_asm)
qed (auto split: if_split_asm)

lemma send_idle:
  assumes "try_send_input_job A E s w = Some (w', s', Inr False)" and "fs_context s = Some c"
  shows "\<exists>av. s' = s\<lparr>fs_context := Some (c\<lparr>dc_av_context := av\<rparr>)\<rparr> \<and>
    (dc_jobs c = [] \<or> (\<exists>p i js. dc_jobs c = DecodeJob p i # js))"
proof (cases "dc_jobs c")
  case Nil
  with assms show ?thesis by (auto simp: try_send_input_job_def intro!: exI [of _ "dc_av_context c"])
next
  case (Cons j js)
  with assms show ?thesis
    by (cases j) (auto simp: try_send_input_job_def Let_def send_event_def map_sum_eq_Inr split: prod.split_asm sum.split_asm if_split_asm)
qed

text \<open>
  C38. How far a loop that ends without an error has come. If an output buffer is left, then either no
  decoded frame waits and no drain is under way, or a decoded frame waits and the drain waits for its
  last frame, that is, the codec gave out a frame after the end of its flush, which the loop does not
  output. A drain that still waits for its flush waits for a frame to be output first, and no buffer is
  available for it. And the job at the head of the queue, if there is one, is a packet, never a drain; drains
  may be queued behind it.
\<close>

theorem ffmpeg_loop_settles:
  assumes "try_decode chk A E s w = Some (w', s', Inr ())" and "fs_context s' = Some c"
  shows "(fs_available_output_frames s' = [] \<or> dc_avframe c = None \<and> dc_drain_state c = NoDrain \<or>
      dc_avframe c \<noteq> None \<and> dc_drain_state c = AwaitingFinalFrame) \<and>
    (dc_drain_state c \<noteq> Initiated \<or> dc_avframe c \<noteq> None \<and> fs_available_output_frames s' = []) \<and>
    (dc_jobs c = [] \<or> (\<exists>p i js. dc_jobs c = DecodeJob p i # js))"
proof -
  from assms have "decode_loop chk A E s w = Some (w', s', Inr ())"
    by (auto simp: try_decode_def split: if_split_asm)
  from decode_loop_decoded [OF this] assms(2) show ?thesis
  proof (induction s w "(w', s', Inr () :: TryDecodeError + unit)" rule: decoded.induct)
    case (d_done s w w1 s1 w2 s2)
    from d_done.hyps(1) obtain c0 where c0: "fs_context s = Some c0" by (cases "fs_context s") (auto simp: try_output_frame_def)
    from output_idle [OF d_done.hyps(1) c0] receive_idle [OF d_done.hyps(2), of c0] obtain av where
      s2: "s2 = s\<lparr>fs_context := Some (c0\<lparr>dc_av_context := av\<rparr>)\<rparr>" and
      idle: "fs_available_output_frames s = [] \<or> (dc_avframe c0 = None \<longleftrightarrow> dc_drain_state c0 \<noteq> AwaitingFinalFrame)"
        "dc_avframe c0 = None \<longrightarrow> dc_drain_state c0 \<noteq> Initiated" using c0 by auto
    from send_idle [OF d_done.hyps(3), of "c0\<lparr>dc_av_context := av\<rparr>"] s2 obtain av' where
      "s' = s2\<lparr>fs_context := Some (c0\<lparr>dc_av_context := av'\<rparr>)\<rparr>" "dc_jobs c0 = [] \<or> (\<exists>p i js. dc_jobs c0 = DecodeJob p i # js)" by auto
    with s2 idle d_done.prems show ?case by (cases "dc_drain_state c0") auto
  qed simp_all
qed

text \<open>In the run of the example the last call of the loop leaves an empty queue.\<close>

theorem ffmpeg_loop_settles_witness:
  "\<exists>w' s' c. try_decode True fx_av fx_os (fx_session (Some (fx_context [DecodeJob fx_packet 3] [] None)) [fx_output 7] []) (Suc 0, \<lambda>_. 0) =
      Some (w', s', Inr ()) \<and> fs_context s' = Some c \<and> (dc_jobs c = [] \<or> (\<exists>p i js. dc_jobs c = DecodeJob p i # js)) \<and>
    dc_drain_state c \<noteq> Initiated"
proof -
  let ?s = "fx_session (Some (fx_context [DecodeJob fx_packet 3] [] None)) [fx_output 7] []"
  let ?s' = "fx_session (Some (fx_context [] [] None)) [] [InputBufferDone 3 0, FrameCompleted 7 fx_time [115200] False]"
  have d: "try_decode True fx_av fx_os ?s (Suc 0, \<lambda>_. 0) = Some ((Suc 0, (\<lambda>_. 0)(0 := Suc 0)), ?s', Inr ())"
    by (simp add: try_decode_def fx_loop)
  have c: "fs_context ?s' = Some (fx_context [] [] None)" by simp
  from ffmpeg_loop_settles [OF d c] d c show ?thesis by auto
qed

section \<open>Time stamps\<close>

text \<open>
  The time stamp of an input buffer survives the way through the decoder: the packet carries it in
  microseconds, and the frame that carries the same number gets the same time stamp. The seconds are
  to fit a signed 64-bit number of microseconds.
\<close>

theorem ffmpeg_timestamp_roundtrip:
  assumes "0 \<le> sint (tv_sec t)" and "sint (tv_sec t) < 9223372036854" and "0 \<le> sint (tv_usec t)" and "sint (tv_usec t) < 1000000"
  shows "map_option pts_timeval (timeval_pts chk t) = Some t"
proof -
  let ?p = "sint (tv_sec t) * 1000000 + sint (tv_usec t)"
  have range: "- (2 ^ 63) \<le> ?p" "?p < 2 ^ 63" "- (2 ^ 63) \<le> sint (tv_sec t) * 1000000" "sint (tv_sec t) * 1000000 < 2 ^ 63"
    using assms by simp_all
  have sec: "sint (tv_sec t * 1000000) = sint (tv_sec t) * 1000000"
    using range(3,4) by (simp add: sint_word_ariths signed_take_bit_int_eq_self)
  have "sint (tv_sec t * 1000000 + tv_usec t) = ?p"
    using range(1,2) sec by (simp add: sint_word_ariths signed_take_bit_int_eq_self)
  moreover have "timeval_pts chk t = Some (tv_sec t * 1000000 + tv_usec t)"
    using range sec by (auto simp: timeval_pts_def add_sov_def)
  moreover have "?p sdiv 1000000 = sint (tv_sec t)" "?p smod 1000000 = sint (tv_usec t)"
    using assms by (auto simp: signed_divide_int_def signed_modulo_int_def sgn_if)
  ultimately show ?thesis by (simp add: pts_timeval_def)
qed

theorem ffmpeg_timestamp_roundtrip_witness:
  "map_option pts_timeval (timeval_pts True \<lparr>tv_sec = 2, tv_usec = 500000\<rparr>) = Some \<lparr>tv_sec = 2, tv_usec = 500000\<rparr>"
  by (rule ffmpeg_timestamp_roundtrip) simp_all

section \<open>Frames of another size\<close>

text \<open>
  C39. A decoded frame whose size is not the coded size of the session is lost, and with it the buffer it
  was to be written to: the loop fails, no event is sent, and neither the frame nor the buffer is kept.
  The coded size of a session is only ever enlarged, so this is what happens to every frame of a stream
  that is smaller than the initial 320 by 240.
\<close>

theorem ffmpeg_frame_size_mismatch:
  assumes "fs_context s = Some c" and "dc_avframe c = Some fr" and "dc_drain_state c \<noteq> AwaitingFinalFrame"
    and "fs_available_output_frames s = f # fs" and "dimensions fr \<noteq> fs_coded_size s"
    and "try_decode chk A E s w = Some (w', s', r)"
  shows "\<exists>e c'. r = Inl (OutputFrame e) \<and> fs_context s' = Some c' \<and> dc_avframe c' = None \<and>
    fs_available_output_frames s' = fs \<and> fs_events s' = fs_events s"
proof -
  define c1 where "c1 = c\<lparr>dc_avframe := None\<rparr>"
  define s1 where "s1 = s\<lparr>fs_context := Some c1, fs_available_output_frames := fs\<rparr>"
  have out: "try_output_frame chk A E s w = output_avframe chk A E f fr c1 s1 w"
    using assms(1-4) by (simp add: try_output_frame_def Let_def c1_def s1_def)
  from assms(1,6) have "decode_loop chk A E s w = Some (w', s', r)" by (simp add: try_decode_def)
  with out obtain w2 s2 r2 where o: "output_avframe chk A E f fr c1 s1 w = Some (w2, s2, r2)"
    by (auto simp: decode_loop.simps [of chk A E s w] elim: bind_SomeE)
  from output_avframe_mismatch [OF o] assms(5) obtain e c' where
    e: "r2 = Inl e" "fs_context s2 = Some c'" "dc_avframe c' = None" "fs_available_output_frames s2 = fs" "fs_events s2 = fs_events s"
    by (auto simp: s1_def c1_def)
  with out o \<open>decode_loop chk A E s w = Some (w', s', r)\<close> show ?thesis
    by (auto simp: decode_loop.simps [of chk A E s w])
qed

definition fx_small :: "(u64 list \<times> bool, unit, u64) FfmpegDecoderSession" where
  "fx_small = fx_session (Some (fx_context [] [] (Some (fx_frame (160, 120) 0 0)))) [fx_output 7] []"

theorem ffmpeg_frame_size_mismatch_witness:
  "\<exists>w' s' e c'. try_decode True fx_av fx_os fx_small (Suc 0, \<lambda>_. 0) = Some (w', s', Inl (OutputFrame e)) \<and>
    fs_context s' = Some c' \<and> dc_avframe c' = None \<and> fs_available_output_frames s' = [] \<and> fs_events s' = fs_events fx_small"
proof -
  have ok: "ff_ok fx_av fx_cnt fx_small (Suc 0, \<lambda>_. 0)"
    using fx_dims_ok by (simp add: ff_ok_def queue_ok_def fx_small_def fx_cnt_def fx_output_def)
  then obtain w' s' r where d: "try_decode True fx_av fx_os fx_small (Suc 0, \<lambda>_. 0) = Some (w', s', r)"
    using decode_loop_returns [OF fx_eventfd_laws fx_quiet fx_libav_laws [of True] ok] by (auto simp: try_decode_def fx_small_def)
  have "dimensions (fx_frame (160, 120) 0 0) \<noteq> fs_coded_size fx_small" by (simp add: fx_small_def fx_frame_def dimensions_def)
  from ffmpeg_frame_size_mismatch [OF _ _ _ _ this d, of "fx_context [] [] (Some (fx_frame (160, 120) 0 0))" "fx_output 7" "[]"] d
  show ?thesis by (auto simp: fx_small_def)
qed

section \<open>Formats\<close>

text \<open>
  C40. A format that has been adjusted is the format of the queue once it is applied, provided that there is
  a codec for it: what the backend answers to a client that sets a format is what it then uses.
\<close>

theorem ffmpeg_adjusted_format_applied:
  assumes "ffmpeg_adjust_format chk A K D s dir f = Some f'"
    and "distinct (map (output_as_u32 K) [H264, VP8, VP9, HEVC])"
    and "dir = Output \<longrightarrow> map_of (fd_codecs d) (pix_mp_pixelformat (snd f')) \<noteq> None"
  shows "ffmpeg_current_format chk A K D (ffmpeg_apply_format K d dir f' s) dir = Some f'"
proof (cases dir)
  case Output
  define fmt where "fmt = (case OutputFormat_n K (pix_mp_pixelformat (snd f)) of None \<Rightarrow> fst (fs_input_format s) | Some g \<Rightarrow> g)"
  from Output assms(1) have f': "f' = (Output, output_pix_format K D fmt (coded_size (fs_stream_params s)))"
    by (simp add: fmt_def)
  then have "pix_mp_pixelformat (snd f') = output_as_u32 K fmt" by (simp add: output_pix_format_def)
  moreover have "OutputFormat_n K (output_as_u32 K fmt) = Some fmt"
    using assms(2) by (cases fmt) (auto simp: OutputFormat_n_def)
  ultimately show ?thesis using Output f' assms(3) by auto
next
  case Capture
  have nv12: "capture_pix_format chk A K D fmt = capture_pix_format chk A K D NV12" for fmt by (cases fmt) simp
  have dims: "fs_coded_size (ffmpeg_apply_format K d Capture f' s) = fs_coded_size s" by (simp split: option.split)
  have "ffmpeg_current_format chk A K D (ffmpeg_apply_format K d Capture f' s) Capture =
      map_option (Pair Capture) (capture_pix_format chk A K D NV12 (fs_coded_size s))"
    unfolding ffmpeg_current_format.simps nv12 [of "fs_output_format _"] dims ..
  also have "\<dots> = ffmpeg_adjust_format chk A K D s Capture f"
    unfolding ffmpeg_adjust_format.simps by (subst (2) nv12) (rule refl)
  finally show ?thesis using Capture assms(1) by simp
qed

theorem ffmpeg_adjusted_format_applied_witness:
  "\<exists>f'. ffmpeg_adjust_format True fx_av ex_K fx_defaults fx_end Output (Output, format_filler ex_K fx_defaults) = Some f' \<and>
    ffmpeg_current_format True fx_av ex_K fx_defaults (ffmpeg_apply_format ex_K fx_decoder Output f' fx_end) Output = Some f'"
proof -
  let ?f = "(Output, format_filler ex_K fx_defaults)"
  obtain f' where f': "ffmpeg_adjust_format True fx_av ex_K fx_defaults fx_end Output ?f = Some f'" by simp
  have codes: "output_as_u32 ex_K H264 = 0x34363248" "output_as_u32 ex_K VP8 = 0x30385056" "output_as_u32 ex_K VP9 = 0x30395056"
    "output_as_u32 ex_K HEVC = 0x43564548" by (simp_all add: le_word_def)
  have "pix_mp_pixelformat (snd f') = 0x34363248"
    using f' codes by (auto simp: OutputFormat_n_def format_filler_def output_pix_format_def fx_end_def fx_session_def)
  then have "map_of (fd_codecs fx_decoder) (pix_mp_pixelformat (snd f')) \<noteq> None" by (simp add: fx_decoder_def)
  moreover have "distinct (map (output_as_u32 ex_K) [H264, VP8, VP9, HEVC])" by (simp add: codes del: output_as_u32.simps)
  ultimately show ?thesis using f' ffmpeg_adjusted_format_applied [OF f', of fx_decoder] by simp
qed

end
