(* ===== verification/Ffmpeg_Backend.thy ===== *)
theory Ffmpeg_Backend
  imports Ffmpeg_Fifo Ffmpeg_Progress Decoder_Returns
begin

text \<open>
  The FFmpeg backend behind the video decoder device: the implementations of the traits of
  \<open>device/src/devices/video_decoder.rs\<close> in \<open>extras/ffmpeg-decoder/src/lib.rs\<close> as a record of their methods, and that
  it keeps the contracts of the decoder: about the order of buffers, and that its methods return.
\<close>

definition ffmpeg_backend ::
  "bool \<Rightarrow> ('w, 'av, 'sw, 'b) Libav \<Rightarrow> 'vb v4l2r \<Rightarrow> v4l2_defaults \<Rightarrow> 'w FfOs \<Rightarrow>
   ('vb, FfmpegDecoderBuffer, 'w, ('av, 'sw, 'b) FfmpegDecoderSession, FfmpegDecoder) VideoDecoderBackend"
where
  "ffmpeg_backend chk A K D E =
     \<lparr>st_new = FfmpegDecoderBuffer_new (ff_os E),
      fd_for_plane = ffmpeg_fd_for_plane,
      bs_decode = ffmpeg_decode chk A E,
      bs_use_as_output = (\<lambda>index backing s w.
        case ffmpeg_use_as_output E index backing s w of (w', s', res) \<Rightarrow> Some (w', s', backing, res)),
      bs_drain = ffmpeg_drain chk A E,
      bs_clear_output_buffers = ffmpeg_clear_output_buffers E,
      bs_next_event = ffmpeg_next_event E,
      bs_current_format = ffmpeg_current_format chk A K D,
      bs_stream_params = ffmpeg_stream_params,
      bs_buffers_allocated = (\<lambda>direction num_buffers s. s),
      bs_poll_fd = ffmpeg_poll_fd,
      bs_streaming_state = ffmpeg_streaming_state,
      be_new_session = ffmpeg_new_session E,
      be_close_session = ffmpeg_close_session,
      be_enum_formats = (\<lambda>d session. ffmpeg_enum_formats K D d),
      be_frame_sizes = (\<lambda>d pixel_format. map_option (stepwise_rest D) (ffmpeg_frame_sizes K pixel_format)),
      be_adjust_format = (\<lambda>d. ffmpeg_adjust_format chk A K D),
      be_apply_format = (\<lambda>d s direction format. ffmpeg_apply_format K d direction format s)\<rparr>"

section \<open>The order of buffers\<close>

lemma use_as_output_ids:
  assumes "ffmpeg_use_as_output E i st s w = (w', s', r)"
  shows "subseq (out_ids s') (out_ids s @ (if r = Inr () then [i] else [])) \<and> in_ids s' = in_ids s"
  using assms by (auto simp: ffmpeg_use_as_output_def ids_defs split: prod.split_asm sum.split_asm if_split_asm)

lemma streaming_state_ids:
  "in_ids (ffmpeg_streaming_state dir on s) = in_ids s" "out_ids (ffmpeg_streaming_state dir on s) = out_ids s"
  by (simp_all add: ffmpeg_streaming_state_def ids_defs split: option.split)

lemma apply_format_ids:
  "in_ids (ffmpeg_apply_format K d dir f s) = in_ids s" "out_ids (ffmpeg_apply_format K d dir f s) = out_ids s"
  by (cases dir; auto simp: ids_defs split: option.split)+

interpretation ff: ordered_backend "ffmpeg_backend chk A K D E" in_ids out_ids for chk A K D E
proof (unfold_locales, goal_cases)
  case (1 i b w w' b' bs)
  then show ?case
    by (auto simp: ffmpeg_backend_def ffmpeg_new_session_def EventQueue_new_def ids_defs
        split: list.split_asm prod.split_asm sum.split_asm)
next
  case (2 st i t n bs w w' bs' r)
  then show ?case by (auto simp: ffmpeg_backend_def dest: ffmpeg_decode_ids)
next
  case (3 i st bs w w' bs' st' r)
  then show ?case using use_as_output_ids [of E i st bs w w' bs' r] by (auto simp: ffmpeg_backend_def split: prod.split_asm)
next
  case (4 bs w w' bs' r)
  then have "ffmpeg_call chk A K E d Drain bs w = Some (w', bs', Status r)" for d by (simp add: ffmpeg_backend_def)
  from ffmpeg_call_ids [OF this] show ?case by (auto simp: no_error_def)
next
  case (5 bs w w' bs' r)
  then have "ffmpeg_call chk A K E d ClearOutputBuffers bs w = Some (w', bs', Status r)" for d by (simp add: ffmpeg_backend_def)
  from ffmpeg_call_ids [OF this] show ?case by (auto simp: no_error_def)
next
  case (6 bs w w' bs' ev)
  then have "ffmpeg_call chk A K E d NextEvent bs w = Some (w', bs', NextIs ev)" for d by (simp add: ffmpeg_backend_def)
  from ffmpeg_call_ids [OF this] show ?case by (cases ev) (auto simp: no_error_def)
next
  case 7
  show ?case by (simp add: ffmpeg_backend_def)
next
  case 8
  show ?case by (simp add: ffmpeg_backend_def streaming_state_ids)
next
  case 9
  show ?case by (simp add: ffmpeg_backend_def apply_format_ids)
qed

section \<open>The methods return\<close>

text \<open>
  A host for the backend: what is relied on of the libraries and of the operating system for the calls to
  return, in a build without overflow checks.
\<close>

locale ffmpeg_host =
  fixes A :: "('w, 'av, 'sw, 'b) Libav" and E :: "'w FfOs" and cnt :: "fd \<Rightarrow> 'w \<Rightarrow> nat" and pend :: "'av AvCodecContext \<Rightarrow> nat"
  assumes eventfds: "eventfd_laws E cnt" and quiet: "quiet A E cnt" and codec: "libav_laws False A pend"

lemma ff_ok_storage:
  assumes "quiet A E cnt" and "ff_ok A cnt s w" and "FfmpegDecoderBuffer_new (ff_os E) queue i sizes w = (w', r)"
  shows "ff_ok A cnt s w'"
proof -
  from assms(3) obtain r1 where "new_fds (ff_os E) sizes w = (w', r1)"
    by (auto simp: FfmpegDecoderBuffer_new_def split: prod.split_asm sum.split_asm)
  from new_fds_quiet [OF assms(1) this] show ?thesis by (rule ff_ok_world [OF assms(2)])
qed

text \<open>Without overflow checks the sizes of a format and the time stamp of a packet wrap around.\<close>

lemma sum_ov_unchecked: "\<exists>total. sum_ov False acc xs = Some total"
  by (induction xs arbitrary: acc) (simp_all add: add_ov_def)

lemma unchecked_format: "\<exists>p. capture_pix_format False A K D fmt dims = Some p"
proof -
  let ?line = "ucast (line_size A (av_format A fmt) (fst dims) 0) :: u32"
  obtain total where "sum_ov False 0 (plane_sizes A (av_format A fmt) [?line, ?line] (snd dims)) = Some total"
    using sum_ov_unchecked by blast
  then show ?thesis by (simp add: capture_pix_format_def)
qed

lemma unchecked_pts: "\<exists>pts. timeval_pts False t = Some pts"
  by (simp add: timeval_pts_def add_sov_def)

sublocale ffmpeg_host \<subseteq> ret: returning_backend "ffmpeg_backend False A K D E" "ff_ok A cnt" "\<lambda>st. fb_fds st \<noteq> []" for K D
proof (unfold_locales, goal_cases)
  case (1 i b w w' b' bs)
  then have "ff_run False A K E b cnt bs w' []" by (intro run_start) (simp add: ffmpeg_backend_def)
  from ff_run_ok [OF this eventfds quiet codec] show ?case by simp
next
  case (2 queue i sz w w' st)
  then show ?case
    by (auto simp: ffmpeg_backend_def FfmpegDecoderBuffer_new_def split: prod.split_asm sum.split_asm)
next
  case (3 bs w queue i sizes w' r)
  then show ?case by (auto simp: ffmpeg_backend_def intro: ff_ok_storage [OF quiet])
next
  case (4 bs w st i t n)
  then show ?case using ffmpeg_call_returns [OF eventfds quiet codec 4, of "Decode st i t n" K] by (auto simp: ffmpeg_backend_def unchecked_pts split: prod.split_asm)
next
  case (5 bs w st i)
  then show ?case using ffmpeg_call_returns [OF eventfds quiet codec 5(1), of "UseAsOutput i st" K]
    by (auto simp: ffmpeg_backend_def split: prod.split)
next
  case (6 bs w)
  then show ?case using ffmpeg_call_returns [OF eventfds quiet codec 6, of Drain K] by (auto simp: ffmpeg_backend_def unchecked_pts split: prod.split_asm)
next
  case (7 bs w)
  then show ?case using ffmpeg_call_returns [OF eventfds quiet codec 7, of ClearOutputBuffers K] by (auto simp: ffmpeg_backend_def unchecked_pts split: prod.split_asm)
next
  case (8 bs w)
  then show ?case using ffmpeg_call_returns [OF eventfds quiet codec 8, of NextEvent K] by (auto simp: ffmpeg_backend_def unchecked_pts split: prod.split_asm)
next
  case (9 bs w dir)
  then show ?case using unchecked_format by (cases dir) (fastforce simp: ffmpeg_backend_def)+
next
  case (10 bs w b dir f)
  then show ?case using unchecked_format by (cases dir) (fastforce simp: ffmpeg_backend_def)+
next
  case (11 bs w dir num)
  then show ?case by (simp add: ffmpeg_backend_def)
next
  case (12 bs w dir on)
  then show ?case using ffmpeg_call_returns [OF eventfds quiet codec 12, of "StreamingState dir on" K] by (simp add: ffmpeg_backend_def)
next
  case (13 bs w b dir f)
  then show ?case using ffmpeg_call_returns [OF eventfds quiet codec 13, of "ApplyFormat dir f" K b] by (simp add: ffmpeg_backend_def)
qed

text \<open>
  What the rest of the system may do to a session between two calls: it leaves the counter of its \<open>eventfd\<close>
  alone.
\<close>

definition eventfd_kept :: "(fd \<Rightarrow> 'w \<Rightarrow> nat) \<Rightarrow> ('av, 'sw, 'b) FfmpegDecoderSession \<Rightarrow> 'w \<Rightarrow> 'w \<Rightarrow> bool" where
  "eventfd_kept cnt s w w' \<longleftrightarrow> cnt (eq_event (fs_events s)) w' = cnt (eq_event (fs_events s)) w"

context ffmpeg_host
begin

lemma session_returns:
  assumes "dec_laws K" and "dec_run False K (ffmpeg_backend False A K D E) hm (eventfd_kept cnt) sid d s h"
    and "sorted (requests VideoCaptureMplane h)" and "ioctl = VIDIOC_SUBSCRIBE_EVENT \<longrightarrow> valid_subscription K r"
  shows "dev_do_ioctl (video_decoder False K (ffmpeg_backend False A K D E) hm) ioctl d s r w \<noteq> None"
    and "dev_process_events (video_decoder False K (ffmpeg_backend False A K D E) hm) d s \<noteq> None"
proof -
  have ready: "ret.ready (vd_os d) s"
    by (rule conjunct1 [OF ret.run_ready [OF assms(1) _ assms(2,3)]]) (auto simp: eventfd_kept_def intro: ff_ok_world)
  show "dev_do_ioctl (video_decoder False K (ffmpeg_backend False A K D E) hm) ioctl d s r w \<noteq> None"
    by (rule ret.ioctl_returns [OF assms(1) ready assms(4)])
  show "dev_process_events (video_decoder False K (ffmpeg_backend False A K D E) hm) d s \<noteq> None"
    using ret.process_events_returns [OF ready, THEN ret.goes_on_returns] by (simp add: video_decoder_def)
qed

end

end
