(* ===== verification/Ffmpeg_Device.thy ===== *)
theory Ffmpeg_Device
  imports Ffmpeg_Backend Ffmpeg_Example
begin

text \<open>
  The video decoder device with the FFmpeg backend behind it: the order of the buffers of a session, from
  the ioctl that queues them to the event that gives them back.
\<close>

section \<open>A run\<close>

text \<open>
  A guest opens a session, asks for a buffer per queue, starts the CAPTURE queue, queues both buffers, and
  the events of the backend are processed until both buffers are back.
\<close>

type_synonym fx_device = "(unit, Ex_Buffer, FfmpegDecoder, fx_world) VideoDecoder"

type_synonym fx_dec_session =
  "(Ex_Buffer, FfmpegDecoderBuffer, (u64 list \<times> bool, unit, u64) FfmpegDecoderSession) VideoDecoderSession"

abbreviation fx_B ::
  "bool \<Rightarrow> (Ex_Buffer, FfmpegDecoderBuffer, fx_world, (u64 list \<times> bool, unit, u64) FfmpegDecoderSession, FfmpegDecoder) VideoDecoderBackend"
where
  "fx_B chk \<equiv> ffmpeg_backend chk fx_av ex_K fx_defaults fx_os"

definition fx_dev :: "fx_world \<Rightarrow> MmapBuffer list \<Rightarrow> (Ex_Buffer, v4l2_event) V4l2Event list \<Rightarrow> fx_device" where
  "fx_dev w bs evs = (VideoDecoder_new fx_decoder () w)\<lparr>vd_event_queue := evs, vd_host_mapper := \<lparr>buffers = bs, mapper = ()\<rparr>\<rparr>"

definition fx_vb :: "QueueType \<Rightarrow> u32 \<Rightarrow> Ex_Buffer" where
  "fx_vb q off = vb_set_field ex_K (vb_set_flags ex_K
     (the (vb_set_mmap_plane ex_K (vb_new ex_K q 0 Mmap) off 0x1C200)) (BUF_TIMESTAMP_MONOTONIC ex_K)) (FIELD_NONE ex_K)"

definition fx_guest :: "QueueType \<Rightarrow> Ex_Buffer" where
  "fx_guest q = vb_set_bytesused ex_K (vb_set_timestamp ex_K (vb_set_length ex_K (vb_new ex_K q 0 Mmap) 0x1C200) fx_time) 4"

definition fx_fresh :: fx_dec_session where
  "fx_fresh =
     \<lparr>vs_id = 1, vs_state = Stopped False False, vs_input_buffers = [], vs_output_buffers = [],
      vs_pending_output_buffers = [], vs_sequence_cpt = 0, vs_src_change_subscribed = False,
      vs_eos_subscribed = False, vs_crop_rectangle = Settable (Rect_new 0 0 0 0),
      vs_colorspace = default_colorspace ex_K, vs_backend_session = fx_session None [] [],
      vs_format_change_pending = False\<rparr>"

definition fx_ready :: "QueueType list \<Rightarrow> fx_dec_session" where
  "fx_ready qs = fx_fresh
     \<lparr>vs_output_buffers := (if VideoCaptureMplane \<in> set qs then [\<lparr>db_v4l2 = fx_vb VideoCaptureMplane 0, db_backing = fx_buffer 1\<rparr>] else []),
      vs_input_buffers := (if VideoOutputMplane \<in> set qs then [\<lparr>db_v4l2 = fx_vb VideoOutputMplane 0x1000, db_backing = fx_buffer 2\<rparr>] else [])\<rparr>"

lemmas fx_alloc_eval = dec_reqbufs_def Let_def queue_buffers_def set_queue_buffers_def upt_rec dec_alloc_buffer_def
  VideoDecoderBuffer_new_def vec_get_def register_buffer_def next_offset_def register_buffer_by_offset_def
  binary_search_by_key_def bsearch.simps vec_insert_def PAGE_MASK_def PAGE_SIZE_def
  next_multiple_of_def add_ov_def MmapBuffer_new_def ex_new_def ex_direction_def

lemma fx_open: "dec_new_session ex_K (fx_B chk) 1 (fx_dev (0, \<lambda>_. 0) [] []) = Some (fx_dev (Suc 0, \<lambda>_. 0) [] [], Inr fx_fresh)"
  using fx_start
  by (simp add: dec_new_session_def fx_dev_def VideoDecoder_new_def ffmpeg_backend_def fx_fresh_def default_state_def)

lemma fx_storage [simp]:
  "FfmpegDecoderBuffer_new (ff_os fx_os) q i [0x1C200] (n, g) = ((Suc n, g), Inr (fx_buffer n))"
  by (simp add: FfmpegDecoderBuffer_new_def MemFdBuffer_new_def fx_os_def fx_buffer_def)

lemma fx_capture_format: "\<exists>f. capture_pix_format chk fx_av ex_K fx_defaults NV12 (320, 240) = Some f"
  by (simp add: capture_pix_format_def add_ov_def)

lemma fx_reqbufs_capture:
  "dec_reqbufs chk ex_K (fx_B chk) VideoCaptureMplane Mmap 1 0 (fx_dev (Suc 0, \<lambda>_. 0) [] []) fx_fresh =
     Some (fx_dev (2, \<lambda>_. 0) [MmapBuffer_new 0 0x1C200] [], fx_ready [VideoCaptureMplane],
       Inr (dec_reqbufs_response ex_K 1 VideoCaptureMplane Mmap 0))"
  using fx_capture_format [of chk]
  by (auto simp: fx_alloc_eval fx_dev_def VideoDecoder_new_def fx_fresh_def fx_ready_def ffmpeg_backend_def fx_vb_def
      ex_multiplanar_def)

lemma fx_reqbufs_output:
  "dec_reqbufs chk ex_K (fx_B chk) VideoOutputMplane Mmap 1 0 (fx_dev (2, \<lambda>_. 0) [MmapBuffer_new 0 0x1C200] []) (fx_ready [VideoCaptureMplane]) =
     Some (fx_dev (3, \<lambda>_. 0) [MmapBuffer_new 0 0x1C200, MmapBuffer_new 0x1000 0x1C200] [],
       fx_ready [VideoCaptureMplane, VideoOutputMplane], Inr (dec_reqbufs_response ex_K 1 VideoOutputMplane Mmap 0))"
  by (auto simp: fx_alloc_eval fx_dev_def VideoDecoder_new_def fx_fresh_def fx_ready_def ffmpeg_backend_def fx_vb_def
      ex_multiplanar_def)

definition fx_stage ::
  "Ex_Buffer \<Rightarrow> Ex_Buffer \<Rightarrow> (u64 list \<times> bool, unit, u64) FfmpegDecoderSession \<Rightarrow> u32 \<Rightarrow> fx_dec_session"
where
  "fx_stage vi vc bs n = fx_fresh
     \<lparr>vs_state := Stopped False True, vs_sequence_cpt := n,
      vs_output_buffers := [\<lparr>db_v4l2 = vc, db_backing = fx_buffer 1\<rparr>],
      vs_input_buffers := [\<lparr>db_v4l2 = vi, db_backing = fx_buffer 2\<rparr>], vs_backend_session := bs\<rparr>"

abbreviation fx_vi :: Ex_Buffer where "fx_vi \<equiv> fx_vb VideoOutputMplane 0x1000"
abbreviation fx_vc :: Ex_Buffer where "fx_vc \<equiv> fx_vb VideoCaptureMplane 0"

definition fx_queued :: "Ex_Buffer \<Rightarrow> Ex_Buffer" where
  "fx_queued v = v\<lparr>ex_flags := 0x2002, ex_bytesused := 4, 
     ex_timestamp := (if ex_queue v = VideoOutputMplane then fx_time else ex_timestamp v)\<rparr>"

abbreviation fx_mapped :: "(fd \<Rightarrow> nat) \<Rightarrow> (Ex_Buffer, v4l2_event) V4l2Event list \<Rightarrow> fx_device" where
  "fx_mapped g evs \<equiv> fx_dev (3, g) [MmapBuffer_new 0 0x1C200, MmapBuffer_new 0x1000 0x1C200] evs"

lemma fx_streamon:
  "dec_streamon ex_K (fx_B chk) VideoCaptureMplane (fx_mapped g []) (fx_ready [VideoCaptureMplane, VideoOutputMplane]) =
     Some (fx_mapped g [], fx_stage fx_vi fx_vc (fx_session None [] []) 0, Inr ())"
  by (simp add: dec_streamon_def queue_buffers_def fx_ready_def fx_stage_def fx_fresh_def Let_def ex_direction_def set_streaming_def
      ffmpeg_backend_def ffmpeg_streaming_state_def try_send_pending_output_buffers_def fx_dev_def VideoDecoder_new_def)

lemma fx_qbuf_capture:
  "dec_qbuf ex_K (fx_B chk) (fx_guest VideoCaptureMplane) [] (fx_mapped g []) (fx_stage fx_vi fx_vc (fx_session None [] []) 0) =
     Some (fx_mapped g [], fx_stage fx_vi (fx_queued fx_vc) (fx_session None [fx_output 0] []) 0, Inr (fx_queued fx_vc))"
  by (simp add: dec_qbuf_def queue_buffers_def fx_stage_def fx_fresh_def Let_def ex_direction_def queue_output_def vec_get_def
      fx_guest_def ffmpeg_backend_def try_send_pending_output_buffers_def fx_dev_def VideoDecoder_new_def fx_queued_def ex_new_def
      copy_first_plane_def ex_multiplanar_def fx_vb_def fx_use db_index_def)

lemma fx_qbuf_output:
  "dec_qbuf ex_K (fx_B chk) (fx_guest VideoOutputMplane) [] (fx_mapped (\<lambda>_. 0) [])
      (fx_stage fx_vi (fx_queued fx_vc) (fx_session None [fx_output 0] []) 0) =
     Some (fx_mapped ((\<lambda>_. 0)(0 := Suc 0)) [],
       fx_stage (fx_queued fx_vi) (fx_queued fx_vc)
         (fx_session (Some (fx_context [] [] None)) [] [InputBufferDone 0 0, FrameCompleted 0 fx_time [0x1C200] False]) 0,
       Inr (fx_queued fx_vi))"
  by (simp add: dec_qbuf_def queue_buffers_def fx_stage_def fx_fresh_def Let_def ex_direction_def queue_input_def vec_get_def
      fx_guest_def ffmpeg_backend_def fx_dev_def VideoDecoder_new_def fx_queued_def ex_new_def
      copy_first_plane_def ex_multiplanar_def fx_vb_def fx_decode db_index_def db_timestamp_def)

definition fx_returned :: "QueueType \<Rightarrow> Ex_Buffer" where
  "fx_returned q =
     (if q = VideoOutputMplane then (fx_queued fx_vi)\<lparr>ex_flags := 0x2000\<rparr>
      else (fx_queued fx_vc)\<lparr>ex_flags := 0x4000, ex_timestamp := fx_time, ex_bytesused := 0x1C200\<rparr>)"

abbreviation fx_event :: "QueueType \<Rightarrow> (Ex_Buffer, v4l2_event) V4l2Event" where
  "fx_event q \<equiv> DequeueBuffer (DequeueBufferEvent_new 1 (fx_returned q))"

lemma fx_event_input:
  "dec_process_events chk ex_K (fx_B chk) (fx_mapped g [])
      (fx_stage (fx_queued fx_vi) vc (fx_session c [] [InputBufferDone 0 0, ev]) 0) =
     Some (fx_mapped g [fx_event VideoOutputMplane], fx_stage (fx_returned VideoOutputMplane) vc (fx_session c [] [ev]) 0, Inr ())"
  by (simp add: dec_process_events_def ffmpeg_backend_def ffmpeg_next_event_def dequeue_event_def fx_stage_def fx_fresh_def
      fx_dev_def VideoDecoder_new_def input_buffer_done_def vec_get_def Let_def dec_send_def fx_returned_def fx_queued_def fx_vb_def
      ex_new_def)

lemma fx_event_frame:
  "dec_process_events chk ex_K (fx_B chk) (fx_mapped ((\<lambda>_. 0)(0 := Suc 0)) [e])
      (fx_stage vi (fx_queued fx_vc) (fx_session c [] [FrameCompleted 0 fx_time [0x1C200] False]) 0) =
     Some (fx_mapped (\<lambda>_. 0) [e, fx_event VideoCaptureMplane], fx_stage vi (fx_returned VideoCaptureMplane) (fx_session c [] []) 1, Inr ())"
  by (simp add: dec_process_events_def ffmpeg_backend_def ffmpeg_next_event_def dequeue_event_def fx_stage_def fx_fresh_def
      fx_dev_def VideoDecoder_new_def frame_completed_def vec_get_def Let_def dec_send_def fx_returned_def fx_queued_def fx_vb_def
      ex_new_def add_ov_def fx_os_def fun_upd_idem)

lemma fx_dev_events [simp]: "vd_event_queue (fx_dev w bs evs) = evs"
  by (simp add: fx_dev_def)

text \<open>The histories of the run, call by call.\<close>

definition fx_calls :: "Ex_Buffer dec_history" where
  "fx_calls =
     [(ReqBufs VideoCaptureMplane Mmap 1 0, True, []), (ReqBufs VideoOutputMplane Mmap 1 0, True, []),
      (StreamOn VideoCaptureMplane, True, []), (QBuf (fx_guest VideoCaptureMplane) [], True, []),
      (QBuf (fx_guest VideoOutputMplane) [], True, []), (ProcessEvents, True, [fx_event VideoOutputMplane]),
      (ProcessEvents, True, [fx_event VideoCaptureMplane])]"

lemma dec_step_events:
  assumes "dec_run chk K B hm R sid d s h" and "dec_call chk K B hm c d s = Some (d', s', ok)"
    and "vd_event_queue d' = vd_event_queue d @ evs"
  shows "dec_run chk K B hm R sid d' s' (h @ [(c, ok, evs)])"
  using dec_step [OF assms(1,2)] assms(3) by simp

abbreviation fx_dec_run :: "bool \<Rightarrow> ((u64 list \<times> bool, unit, u64) FfmpegDecoderSession \<Rightarrow> fx_world \<Rightarrow> fx_world \<Rightarrow> bool) \<Rightarrow> fx_device \<Rightarrow> fx_dec_session \<Rightarrow> nat \<Rightarrow> bool" where
  "fx_dec_run chk R d s n \<equiv> dec_run chk ex_K (fx_B chk) DummyHostMemoryMapper R 1 d s (take n fx_calls)"

lemma fx_dec_more:
  assumes "fx_dec_run chk R d s n" and "n < length fx_calls"
    and "dec_call chk ex_K (fx_B chk) DummyHostMemoryMapper (fst (fx_calls ! n)) d s = Some (d', s', fst (snd (fx_calls ! n)))"
    and "vd_event_queue d' = vd_event_queue d @ snd (snd (fx_calls ! n))"
  shows "fx_dec_run chk R d' s' (Suc n)"
  using dec_step_events [OF assms(1,3,4)] assms(2) by (simp add: take_Suc_conv_app_nth)

lemma fx_dec_run:
  "dec_run chk ex_K (fx_B chk) DummyHostMemoryMapper R 1 (fx_mapped (\<lambda>_. 0) [fx_event VideoOutputMplane, fx_event VideoCaptureMplane])
     (fx_stage (fx_returned VideoOutputMplane) (fx_returned VideoCaptureMplane) (fx_session (Some (fx_context [] [] None)) [] []) 1)
     fx_calls"
proof -
  let ?bufs = "[VideoCaptureMplane, VideoOutputMplane]" and ?s0 = "fx_session None [] []" and ?c = "Some (fx_context [] [] None)"
  let ?g = "(\<lambda>_. 0)(0 := Suc 0)" and ?done = "InputBufferDone 0 0" and ?frame = "FrameCompleted 0 fx_time [0x1C200] False"
  have "fx_dec_run chk R (fx_dev (Suc 0, \<lambda>_. 0) [] []) fx_fresh 0" using dec_start [OF fx_open] by simp
  then have "fx_dec_run chk R (fx_dev (2, \<lambda>_. 0) [MmapBuffer_new 0 0x1C200] []) (fx_ready [VideoCaptureMplane]) (Suc 0)"
    by (rule fx_dec_more) (simp_all add: fx_calls_def fx_reqbufs_capture)
  then have "fx_dec_run chk R (fx_mapped (\<lambda>_. 0) []) (fx_ready ?bufs) (Suc (Suc 0))"
    by (rule fx_dec_more) (simp_all add: fx_calls_def fx_reqbufs_output)
  then have "fx_dec_run chk R (fx_mapped (\<lambda>_. 0) []) (fx_stage fx_vi fx_vc ?s0 0) (Suc (Suc (Suc 0)))"
    by (rule fx_dec_more) (simp_all add: fx_calls_def fx_streamon)
  then have "fx_dec_run chk R (fx_mapped (\<lambda>_. 0) []) (fx_stage fx_vi (fx_queued fx_vc) (fx_session None [fx_output 0] []) 0)
      (Suc (Suc (Suc (Suc 0))))"
    by (rule fx_dec_more) (simp_all add: fx_calls_def fx_qbuf_capture)
  then have "fx_dec_run chk R (fx_mapped ?g []) (fx_stage (fx_queued fx_vi) (fx_queued fx_vc) (fx_session ?c [] [?done, ?frame]) 0)
      (Suc (Suc (Suc (Suc (Suc 0)))))"
    by (rule fx_dec_more) (simp_all add: fx_calls_def fx_qbuf_output)
  then have "fx_dec_run chk R (fx_mapped ?g [fx_event VideoOutputMplane])
      (fx_stage (fx_returned VideoOutputMplane) (fx_queued fx_vc) (fx_session ?c [] [?frame]) 0) (Suc (Suc (Suc (Suc (Suc (Suc 0))))))"
    by (rule fx_dec_more) (simp_all add: fx_calls_def fx_event_input)
  then have "fx_dec_run chk R (fx_mapped (\<lambda>_. 0) [fx_event VideoOutputMplane, fx_event VideoCaptureMplane])
      (fx_stage (fx_returned VideoOutputMplane) (fx_returned VideoCaptureMplane) (fx_session ?c [] []) 1)
      (Suc (Suc (Suc (Suc (Suc (Suc (Suc 0)))))))"
    by (rule fx_dec_more) (simp_all add: fx_calls_def fx_event_frame)
  then show ?thesis by (simp add: fx_calls_def)
qed

section \<open>The order of the buffers\<close>

text \<open>
  C7. CAPTURE buffers come back to the guest in the order in which the guest queued them, each at most once
  per time it was queued: at every moment of a session of the decoder with the FFmpeg backend, the buffers
  that events have given back, those in the backend and those that wait in the device are, in this order, a
  subsequence of those queued. This holds whatever fails and whatever the other sessions do.
\<close>

theorem decoder_ffmpeg_capture_order:
  assumes "dec_laws K" and "dec_run chk K (ffmpeg_backend chk A K D E) hm R sid d s h"
  shows "subseq (returned_ids K VideoCaptureMplane h @ out_ids (vs_backend_session s) @ vs_pending_output_buffers s)
    (queued_ids K VideoCaptureMplane h)"
  using ff.capture_order [OF assms] by (simp add: ff.waiting_def)

theorem decoder_ffmpeg_capture_order_witness:
  "subseq (returned_ids ex_K VideoCaptureMplane fx_calls) (queued_ids ex_K VideoCaptureMplane fx_calls) \<and>
   returned_ids ex_K VideoCaptureMplane fx_calls = [0]"
  using decoder_ffmpeg_capture_order [OF dec_laws_ex_K fx_dec_run]
  by (auto simp: fx_calls_def returned_ids_def DequeueBufferEvent_new_def fx_returned_def fx_queued_def fx_vb_def ex_new_def
      intro: subseq_order.trans [OF subseq_prefix])

text \<open>
  C3. No OUTPUT buffer is lost between the guest and the codec: as long as no call fails and the guest does
  not ask for fewer buffers than it has, the buffers that events have given back and those the FFmpeg
  backend still has are, in this order, exactly the buffers that the guest queued.
\<close>

theorem decoder_ffmpeg_inputs_conserved:
  assumes "dec_laws K" and "dec_run chk K (ffmpeg_backend chk A K D E) hm R sid d s h"
    and "list_all (\<lambda>(c, ok, evs). ok) h" and "sorted (requests VideoOutputMplane h)"
  shows "returned_ids K VideoOutputMplane h @ in_ids (vs_backend_session s) = queued_ids K VideoOutputMplane h"
  using ff.output_conserved [OF assms] by (simp add: ff.holding_def)

theorem decoder_ffmpeg_inputs_conserved_witness:
  "returned_ids ex_K VideoOutputMplane fx_calls = queued_ids ex_K VideoOutputMplane fx_calls \<and>
   queued_ids ex_K VideoOutputMplane fx_calls = [0]"
proof -
  have "list_all (\<lambda>(c, ok, evs). ok) fx_calls" "sorted (requests VideoOutputMplane fx_calls)"
    by (simp_all add: fx_calls_def requests_def)
  from decoder_ffmpeg_inputs_conserved [OF dec_laws_ex_K fx_dec_run this] show ?thesis
    by (simp add: fx_calls_def queued_ids_def fx_guest_def ex_new_def ids_defs fx_stage_def)
qed

section \<open>Panics\<close>

text \<open>
  C5. The device with the FFmpeg backend does not panic, wait or loop: at every moment of a session, every
  ioctl of the guest and every event of the codec is handled and the handler returns, save for the
  subscription to an event that the crate does not know. This is the build without overflow checks, and the
  guest is not to have asked for fewer CAPTURE buffers than it had. The rest of the system leaves the
  \<open>eventfd\<close> of the session alone, and the hypotheses on the libraries are those of a host of the backend.
\<close>

theorem decoder_ffmpeg_panic_free:
  assumes "dec_laws K" and "eventfd_laws E cnt" and "quiet A E cnt" and "libav_laws False A pend"
    and "dec_run False K (ffmpeg_backend False A K D E) hm (eventfd_kept cnt) sid d s h"
    and "sorted (requests VideoCaptureMplane h)" and "ioctl = VIDIOC_SUBSCRIBE_EVENT \<longrightarrow> valid_subscription K r"
  shows "(\<exists>d' s' r' w' x. dev_do_ioctl (video_decoder False K (ffmpeg_backend False A K D E) hm) ioctl d s r w = Some (d', s', r', w', x)) \<and>
    (\<exists>d' s' x. dev_process_events (video_decoder False K (ffmpeg_backend False A K D E) hm) d s = Some (d', s', x))"
proof -
  have "ffmpeg_host A E cnt pend" using assms(2-4) by unfold_locales
  from ffmpeg_host.session_returns [OF this assms(1,5-7)] show ?thesis by auto
qed

interpretation fx_host: ffmpeg_host fx_av fx_os fx_cnt fx_pend
  by unfold_locales (rule fx_eventfd_laws fx_quiet fx_libav_laws)+

theorem decoder_ffmpeg_panic_free_witness:
  "(\<exists>d' s' r' w' x. dev_do_ioctl (video_decoder False ex_K (fx_B False) DummyHostMemoryMapper) VIDIOC_STREAMOFF
      (fx_mapped (\<lambda>_. 0) [fx_event VideoOutputMplane, fx_event VideoCaptureMplane])
      (fx_stage (fx_returned VideoOutputMplane) (fx_returned VideoCaptureMplane) (fx_session (Some (fx_context [] [] None)) [] []) 1)
      [9, 0, 0, 0] (fresh_writer 8) = Some (d', s', r', w', x)) \<and>
   sorted (requests VideoCaptureMplane fx_calls)"
proof -
  have "sorted (requests VideoCaptureMplane fx_calls)" by (simp add: fx_calls_def requests_def)
  with decoder_ffmpeg_panic_free [OF dec_laws_ex_K fx_eventfd_laws fx_quiet fx_libav_laws fx_dec_run this, of VIDIOC_STREAMOFF "[9, 0, 0, 0]"] show ?thesis
    by simp
qed

end
