(* ===== verification/Ffmpeg_Encoder.thy ===== *)
theory Ffmpeg_Encoder
  imports Ffmpeg_Av Wire
begin

text \<open>
  The rest of the wrappers of \<open>extras/ffmpeg-decoder/src/ffmpeg/avcodec.rs\<close>, which the decoding backend does
  not call: encoder contexts, the parameters of a context, packets without a buffer, the attributes of
  frames, and the iterators over the profiles and pixel formats of a codec.
\<close>

section \<open>Profiles and pixel formats\<close>

definition profile_name :: "AvProfile \<Rightarrow> string" where
  "profile_name p = (case ap_c_name p of None \<Rightarrow> ''invalid profile'' | Some name \<Rightarrow> name)"

text \<open>
  The methods \<open>next\<close> of the iterators, which hold a pointer into the array: the item and the pointer
  after it. At the terminator the pointer stays where it is.
\<close>

fun profile_next :: "('w, 'av, 'sw, 'b) Libav \<Rightarrow> AvProfile list \<Rightarrow> AvProfile list \<times> AvProfile option" where
  "profile_next A [] = ([], None)"
| "profile_next A (p # ps) = (if ap_profile p = AV_PROFILE_UNKNOWN A then (p # ps, None) else (ps, Some p))"

fun pixel_format_next :: "('w, 'av, 'sw, 'b) Libav \<Rightarrow> i32 list \<Rightarrow> i32 list \<times> i32 option" where
  "pixel_format_next A [] = ([], None)"
| "pixel_format_next A (f # fs) = (if f = AV_PIX_FMT_NONE A then (f # fs, None) else (fs, Some f))"

definition pix_fmt_name :: "('w, 'av, 'sw, 'b) Libav \<Rightarrow> i32 \<Rightarrow> string" where
  "pix_fmt_name A fmt = (case av_get_pix_fmt_name A fmt of None \<Rightarrow> ''invalid pixel format'' | Some name \<Rightarrow> name)"

definition pix_fmt_fourcc :: "('w, 'av, 'sw, 'b) Libav \<Rightarrow> i32 \<Rightarrow> u8 list" where
  "pix_fmt_fourcc A fmt = le_bytes 4 (avcodec_pix_fmt_to_codec_tag A fmt)"

text \<open>The only error of the conversion from a number is \<open>FromAVPixelFormatError\<close>.\<close>

definition AvPixelFormat_try_from :: "('w, 'av, 'sw, 'b) Libav \<Rightarrow> i32 \<Rightarrow> unit + i32" where
  "AvPixelFormat_try_from A v =
     (if sint (AV_PIX_FMT_NONE A) < sint v \<and> sint v < sint (AV_PIX_FMT_NB A) then Inr v else Inl ())"

section \<open>Encoder contexts\<close>

definition build_encoder ::
  "('w, 'av, 'sw, 'b) Libav \<Rightarrow> AvCodec \<Rightarrow> 'w \<Rightarrow> 'w \<times> (AvCodecOpenError + AvCodec \<times> 'av AvCodecContext)"
where
  "build_encoder A codec w =
     (if \<not> codec_is_encoder codec then (w, Inl UnexpectedCodecType)
      else case alloc_context A codec w of
        (w', Inl e) \<Rightarrow> (w', Inl e)
      | (w', Inr av) \<Rightarrow> (w', Inr (codec, av)))"

definition enc_set_dimensions :: "u32 \<times> u32 \<Rightarrow> AvCodec \<times> 'av AvCodecContext \<Rightarrow> AvCodec \<times> 'av AvCodecContext" where
  "enc_set_dimensions dims b = (fst b, (snd b)\<lparr>avc_width := fst dims, avc_height := snd dims\<rparr>)"

definition enc_set_time_base :: "i32 \<times> i32 \<Rightarrow> AvCodec \<times> 'av AvCodecContext \<Rightarrow> AvCodec \<times> 'av AvCodecContext" where
  "enc_set_time_base time_base b = (fst b, (snd b)\<lparr>avc_time_base := time_base\<rparr>)"

definition enc_set_pix_fmt :: "i32 \<Rightarrow> AvCodec \<times> 'av AvCodecContext \<Rightarrow> AvCodec \<times> 'av AvCodecContext" where
  "enc_set_pix_fmt fmt b = (fst b, (snd b)\<lparr>avc_pix_fmt := fmt\<rparr>)"

definition enc_build ::
  "('w, 'av, 'sw, 'b) Libav \<Rightarrow> AvCodec \<times> 'av AvCodecContext \<Rightarrow> 'w \<Rightarrow> 'w \<times> (AvCodecOpenError + 'av AvCodecContext)"
where
  "enc_build A b w =
     (case av_init A (fst b) (snd b) w of
        (w', av', Inl e) \<Rightarrow> (w', Inl e)
      | (w', av', Inr _) \<Rightarrow> (w', Inr av'))"

definition try_send_frame ::
  "('w, 'av, 'sw, 'b) Libav \<Rightarrow> 'b AvFrame \<Rightarrow> 'av AvCodecContext \<Rightarrow> 'w \<Rightarrow> 'w \<times> 'av AvCodecContext \<times> (i32 + bool)"
where
  "try_send_frame A frame av w =
     (case avcodec_send_frame A (Some frame) av w of
        (w', av', ret) \<Rightarrow>
          (w', av',
           if ret = AVERROR_EAGAIN then Inr False
           else if 0 \<le> sint ret then Inr True
           else Inl ret))"

text \<open>The packet is filled by the library.\<close>

definition try_receive_packet ::
  "('w, 'av, 'sw, 'b) Libav \<Rightarrow> 'av AvCodecContext \<Rightarrow> 'w \<Rightarrow>
   'w \<times> 'av AvCodecContext \<times> 'b AvPacket \<times> (i32 + TryReceiveResult)"
where
  "try_receive_packet A av w =
     (case avcodec_receive_packet A av w of
        (w', av', packet, ret) \<Rightarrow>
          (w', av', packet,
           if ret = AVERROR_EAGAIN then Inr TryAgain
           else if ret = AVERROR_EOF then Inr FlushCompleted
           else if 0 \<le> sint ret then Inr Received
           else Inl ret))"

definition av_reset :: "('w, 'av, 'sw, 'b) Libav \<Rightarrow> 'av AvCodecContext \<Rightarrow> 'w \<Rightarrow> 'w \<times> 'av AvCodecContext" where
  "av_reset A av w = avcodec_flush_buffers A av w"

definition flush_encoder ::
  "('w, 'av, 'sw, 'b) Libav \<Rightarrow> 'av AvCodecContext \<Rightarrow> 'w \<Rightarrow> 'w \<times> 'av AvCodecContext \<times> (i32 + unit)"
where
  "flush_encoder A av w =
     (case avcodec_send_frame A None av w of (w', av', ret) \<Rightarrow> (w', av', AvError_result ret))"

definition set_time_base :: "i32 \<times> i32 \<Rightarrow> 'av AvCodecContext \<Rightarrow> 'av AvCodecContext" where
  "set_time_base time_base av = av\<lparr>avc_time_base := time_base\<rparr>"

definition set_bit_rate :: "u64 \<Rightarrow> 'av AvCodecContext \<Rightarrow> 'av AvCodecContext" where
  "set_bit_rate bit_rate av = av\<lparr>avc_bit_rate := bit_rate\<rparr>"

definition set_max_bit_rate :: "u64 \<Rightarrow> 'av AvCodecContext \<Rightarrow> 'av AvCodecContext" where
  "set_max_bit_rate bit_rate av = av\<lparr>avc_rc_max_rate := bit_rate\<rparr>"

section \<open>Packets and frames\<close>

definition AvPacket_empty :: "'b AvPacket" where
  "AvPacket_empty =
     \<lparr>pkt_buf = None, pkt_data = NullData, pkt_size = 0, pkt_pts = AV_NOPTS_VALUE, pkt_dts = AV_NOPTS_VALUE, pkt_pos = - 1\<rparr>"

definition AvPacket_new :: "u64 \<Rightarrow> AvBufferSource \<Rightarrow> 'b AvPacket" where
  "AvPacket_new pts input_data =
     \<lparr>pkt_buf = None, pkt_data = BorrowedData input_data, pkt_size = ucast (source_len input_data), pkt_pts = pts,
      pkt_dts = AV_NOPTS_VALUE, pkt_pos = - 1\<rparr>"

definition set_pict_type :: "u32 \<Rightarrow> 'b AvFrame \<Rightarrow> 'b AvFrame" where
  "set_pict_type ty frame = frame\<lparr>af_pict_type := ty\<rparr>"

definition set_pts :: "u64 \<Rightarrow> 'b AvFrame \<Rightarrow> 'b AvFrame" where
  "set_pts ts frame = frame\<lparr>af_pts := ts\<rparr>"

definition make_writable :: "('w, 'av, 'sw, 'b) Libav \<Rightarrow> 'b AvFrame \<Rightarrow> 'w \<Rightarrow> 'w \<times> 'b AvFrame \<times> (AvFrameError + unit)" where
  "make_writable A frame w =
     (case av_frame_make_writable A frame w of
        (w', frame', ret) \<Rightarrow> (w', frame', map_sum FrameAvError id (AvError_result ret)))"

section \<open>What an iterator gives\<close>

text \<open>Iterating with a \<open>next\<close> until it gives nothing.\<close>

fun iterate :: "('s \<Rightarrow> 's \<times> 'a option) \<Rightarrow> nat \<Rightarrow> 's \<Rightarrow> 's \<times> 'a list" where
  "iterate step 0 s = (s, [])"
| "iterate step (Suc n) s =
     (case step s of
        (s', None) \<Rightarrow> (s', [])
      | (s', Some x) \<Rightarrow> (case iterate step n s' of (s'', xs) \<Rightarrow> (s'', x # xs)))"

text \<open>The iterators give the elements before the terminator, and nothing more however often they are asked.\<close>

lemma profile_iterator:
  "length ps \<le> n \<Longrightarrow> iterate (profile_next A) n ps =
     (dropWhile (\<lambda>p. ap_profile p \<noteq> AV_PROFILE_UNKNOWN A) ps, takeWhile (\<lambda>p. ap_profile p \<noteq> AV_PROFILE_UNKNOWN A) ps)"
proof (induction n arbitrary: ps)
  case (Suc n)
  then show ?case by (cases ps) auto
qed simp

lemma pixel_format_iterator:
  "length fs \<le> n \<Longrightarrow> iterate (pixel_format_next A) n fs =
     (dropWhile (\<lambda>f. f \<noteq> AV_PIX_FMT_NONE A) fs, takeWhile (\<lambda>f. f \<noteq> AV_PIX_FMT_NONE A) fs)"
proof (induction n arbitrary: fs)
  case (Suc n)
  then show ?case by (cases fs) auto
qed simp

end
