(* ===== verification/Ffmpeg_Lifetime.thy ===== *)
theory Ffmpeg_Lifetime
  imports Ffmpeg_Encoder
begin

text \<open>
  When the wrappers around \<open>libavcodec\<close> and \<open>libswscale\<close> give their resources back: the implementations of
  \<open>Drop\<close>, and the unit test of the drop of a packet. A buffer lives while it is referenced. The
  functions that free are a parameter, and the library counts the references.
\<close>

record ('w, 'av, 'sw, 'b) LibavFree =
  avcodec_free_context :: "'av AvCodecContext \<Rightarrow> 'w \<Rightarrow> 'w"
  av_buffer_unref :: "'b \<Rightarrow> 'w \<Rightarrow> 'w"
  av_packet_unref :: "'b AvPacket \<Rightarrow> 'w \<Rightarrow> 'w"
  av_frame_free :: "'b AvFrame \<Rightarrow> 'w \<Rightarrow> 'w"
  sws_freeContext :: "'sw \<Rightarrow> 'w \<Rightarrow> 'w"
  av_cpu_max_align :: u64

section \<open>Resources\<close>

definition AvCodecContext_drop :: "('w, 'av, 'sw, 'b) LibavFree \<Rightarrow> 'av AvCodecContext \<Rightarrow> 'w \<Rightarrow> 'w" where
  "AvCodecContext_drop L av w = avcodec_free_context L av w"

definition AvBuffer_drop :: "('w, 'av, 'sw, 'b) LibavFree \<Rightarrow> 'b \<Rightarrow> 'w \<Rightarrow> 'w" where
  "AvBuffer_drop L b w = av_buffer_unref L b w"

definition AvPacket_drop :: "('w, 'av, 'sw, 'b) LibavFree \<Rightarrow> 'b AvPacket \<Rightarrow> 'w \<Rightarrow> 'w" where
  "AvPacket_drop L packet w = av_packet_unref L packet w"

definition AvFrame_drop :: "('w, 'av, 'sw, 'b) LibavFree \<Rightarrow> 'b AvFrame \<Rightarrow> 'w \<Rightarrow> 'w" where
  "AvFrame_drop L frame w = av_frame_free L frame w"

definition SwConverter_drop :: "('w, 'av, 'sw, 'b) LibavFree \<Rightarrow> 'sw SwConverter \<Rightarrow> 'w \<Rightarrow> 'w" where
  "SwConverter_drop L c w = sws_freeContext L (sw_context c) w"

definition max_buffer_alignment :: "('w, 'av, 'sw, 'b) LibavFree \<Rightarrow> u64" where
  "max_buffer_alignment L = av_cpu_max_align L"

text \<open>The slice of a buffer has the size of its data.\<close>

definition AvBuffer_slice_len :: "('w, 'av, 'sw, 'b) Libav \<Rightarrow> 'b \<Rightarrow> u64" where
  "AvBuffer_slice_len A b = av_buffer_size A b"

definition AvFrame_builder :: "('w, 'av, 'sw, 'b) Libav \<Rightarrow> 'w \<Rightarrow> 'w \<times> (AvFrameError + 'b AvFrame)" where
  "AvFrame_builder A w = AvFrame_new A w"

definition is_writable :: "('w, 'av, 'sw, 'b) Libav \<Rightarrow> 'b AvFrame \<Rightarrow> 'w \<Rightarrow> bool" where
  "is_writable A frame w = av_frame_is_writable A frame w"

text \<open>The callback that provides the buffers of a decoder, and its argument, are two more fields of a context.\<close>

record ('av, 'cb) CallbackContext = "'av AvCodecContext" +
  avc_get_buffer2 :: "'cb option"
  avc_opaque :: u64

definition set_get_buffer_2 ::
  "'cb \<Rightarrow> u64 \<Rightarrow> AvCodec \<times> ('av, 'cb) CallbackContext \<Rightarrow> AvCodec \<times> ('av, 'cb) CallbackContext"
where
  "set_get_buffer_2 get_buffer2 opaque b =
     (fst b, (snd b)\<lparr>avc_get_buffer2 := Some get_buffer2, avc_opaque := opaque\<rparr>)"

text \<open>The iterator over the codecs of the library.\<close>

definition AvCodecIterator_new :: "('w, 'av, 'sw, 'b) Libav \<Rightarrow> AvCodec list" where
  "AvCodecIterator_new A = av_codecs A"

fun codec_next :: "AvCodec list \<Rightarrow> AvCodec list \<times> AvCodec option" where
  "codec_next [] = ([], None)"
| "codec_next (c # cs) = (cs, Some c)"

lemma codec_iterator: "length cs \<le> n \<Longrightarrow> iterate codec_next n cs = ([], cs)"
proof (induction n arbitrary: cs)
  case (Suc n)
  then show ?case by (cases cs) auto
qed simp

section \<open>References\<close>

text \<open>
  What the library documents of references, where \<open>refs\<close> counts those to a buffer: a new buffer has one,
  and dropping a packet gives back the reference to its buffer.
\<close>

definition refs_laws :: "('w, 'av, 'sw, 'b) LibavFree \<Rightarrow> ('b \<Rightarrow> 'w \<Rightarrow> nat) \<Rightarrow> bool" where
  "refs_laws L refs \<longleftrightarrow>
     (\<forall>p c w. refs c (av_packet_unref L p w) = refs c w - (if pkt_buf p = Some c then 1 else 0))"

definition create_laws :: "('w, 'av, 'sw, 'b) Libav \<Rightarrow> ('b \<Rightarrow> 'w \<Rightarrow> nat) \<Rightarrow> bool" where
  "create_laws A refs \<longleftrightarrow> (\<forall>src n w w' b. av_buffer_create A src n w = (w', Some b) \<longrightarrow> refs b w' = 1)"

text \<open>
  The unit test of the drop of a packet: the source of a buffer is dropped once the buffer has no reference
  left.
\<close>

definition test_avpacket_drop ::
  "('w, 'av, 'sw, 'b) Libav \<Rightarrow> ('w, 'av, 'sw, 'b) LibavFree \<Rightarrow> ('b \<Rightarrow> 'w \<Rightarrow> nat) \<Rightarrow> AvBufferSource \<Rightarrow> 'w \<Rightarrow> unit option"
where
  "test_avpacket_drop A L refs source w =
     (case AvBuffer_new A source w of
        (w, buf) \<Rightarrow> do {
          b \<leftarrow> buf;
          (let pkt = AvPacket_new_owned A 0 b in do {
             assert (refs b w \<noteq> 0);
             (let w = AvPacket_drop L pkt w in assert (refs b w = 0))
           })
        })"

lemma test_avpacket_drop_passes:
  assumes "create_laws A refs" and "refs_laws L refs" and "av_buffer_create A source (source_len source) w = (w', Some b)"
  shows "test_avpacket_drop A L refs source w = Some ()"
proof -
  have "refs b w' = 1" using assms(1,3) unfolding create_laws_def by blast
  then show ?thesis
    by (simp add: test_avpacket_drop_def AvBuffer_new_def assms(3) AvPacket_new_owned_def AvPacket_drop_def
        assms(2) [unfolded refs_laws_def])
qed

end
