(* ===== verification/Ffmpeg_Text.thy ===== *)
theory Ffmpeg_Text
  imports Ffmpeg_Encoder
begin

unbundle bit_operations_syntax

text \<open>
  The texts of the FFmpeg wrappers: \<open>Display\<close> and \<open>Debug\<close> of errors, profiles and pixel formats, with the
  unit tests of the error codes. Text is given by its bytes in UTF-8, and what is used of the standard
  library is defined here.
\<close>

section \<open>UTF-8\<close>

abbreviation ascii :: "string \<Rightarrow> u8 list" where
  "ascii s \<equiv> map of_char s"

text \<open>
  The length of the next chunk of a text and whether it is a character. Otherwise it is the longest prefix
  of one, or a single byte; a byte after the end counts as one that continues nothing.
\<close>

definition char_width :: "u8 \<Rightarrow> nat" where
  "char_width b =
     (if b < 0x80 then 1 else if 0xC2 \<le> b \<and> b \<le> 0xDF then 2 else if 0xE0 \<le> b \<and> b \<le> 0xEF then 3
      else if 0xF0 \<le> b \<and> b \<le> 0xF4 then 4 else 0)"

definition continues :: "u8 \<Rightarrow> bool" where
  "continues b \<longleftrightarrow> 0x80 \<le> b \<and> b \<le> 0xBF"

definition second_ok :: "u8 \<Rightarrow> u8 \<Rightarrow> bool" where
  "second_ok b c \<longleftrightarrow> continues c \<and>
     (b = 0xE0 \<longrightarrow> 0xA0 \<le> c) \<and> (b = 0xED \<longrightarrow> c \<le> 0x9F) \<and> (b = 0xF0 \<longrightarrow> 0x90 \<le> c) \<and> (b = 0xF4 \<longrightarrow> c \<le> 0x8F)"

definition utf8_chunk :: "u8 \<Rightarrow> u8 list \<Rightarrow> nat \<times> bool" where
  "utf8_chunk b bs =
     (let at = (\<lambda>i. if i < length bs then bs ! i else 0) in
      if char_width b = 1 then (1, True)
      else if char_width b = 0 \<or> \<not> second_ok b (at 0) then (1, False)
      else if char_width b = 2 then (2, True)
      else if \<not> continues (at 1) then (2, False)
      else if char_width b = 3 then (3, True)
      else if \<not> continues (at 2) then (3, False)
      else (4, True))"

lemma utf8_chunk_pos: "utf8_chunk b bs = (n, ok) \<Longrightarrow> 0 < n"
  by (auto simp: utf8_chunk_def Let_def split: if_split_asm)

text \<open>\<open>String::from_utf8_lossy\<close> puts the replacement character, and \<open>str::from_utf8\<close> only accepts characters.\<close>

function from_utf8_lossy :: "u8 list \<Rightarrow> u8 list" where
  "from_utf8_lossy [] = []"
| "from_utf8_lossy (b # bs) =
     (case utf8_chunk b bs of
        (n, ok) \<Rightarrow> (if ok then take n (b # bs) else [0xEF, 0xBF, 0xBD]) @ from_utf8_lossy (drop n (b # bs)))"
  by pat_completeness auto
termination
  by (relation "measure length") (auto dest: utf8_chunk_pos [OF sym])

function utf8_valid :: "u8 list \<Rightarrow> bool" where
  "utf8_valid [] \<longleftrightarrow> True"
| "utf8_valid (b # bs) \<longleftrightarrow> (case utf8_chunk b bs of (n, ok) \<Rightarrow> ok \<and> utf8_valid (drop n (b # bs)))"
  by pat_completeness auto
termination
  by (relation "measure length") (auto dest: utf8_chunk_pos [OF sym])

text \<open>A character is recognised whatever follows it.\<close>

lemma continues_0 [simp]: "\<not> continues 0" "\<not> second_ok b 0"
  by (simp_all add: second_ok_def continues_def)

lemma byte_at:
  "continues (if i < length bs then bs ! i else 0) \<longleftrightarrow> i < length bs \<and> continues (bs ! i)"
  "second_ok b (if i < length bs then bs ! i else 0) \<longleftrightarrow> i < length bs \<and> second_ok b (bs ! i)"
  by simp_all

lemmas utf8_chunk_eq = utf8_chunk_def [unfolded Let_def byte_at]

lemma utf8_chunk_char:
  assumes "utf8_chunk b bs = (n, True)"
  shows "n \<le> Suc (length bs)" and "utf8_chunk b (take (n - 1) bs @ rest) = (n, True)"
proof -
  consider "n = 1" "char_width b = 1"
    | "n = 2" "char_width b = 2" "0 < length bs" "second_ok b (bs ! 0)"
    | "n = 3" "char_width b = 3" "1 < length bs" "second_ok b (bs ! 0)" "continues (bs ! 1)"
    | "n = 4" "char_width b = 4" "2 < length bs" "second_ok b (bs ! 0)" "continues (bs ! 1)" "continues (bs ! 2)"
    using assms unfolding utf8_chunk_eq by (simp split: if_split_asm) (auto simp: char_width_def split: if_split_asm)
  then have "n \<le> Suc (length bs) \<and> utf8_chunk b (take (n - 1) bs @ rest) = (n, True)"
    by cases (simp_all add: utf8_chunk_eq nth_append Suc_le_eq)
  then show "n \<le> Suc (length bs)" "utf8_chunk b (take (n - 1) bs @ rest) = (n, True)" by simp_all
qed

lemma utf8_valid_append_char:
  assumes "utf8_chunk b bs = (n, True)"
  shows "utf8_valid (take n (b # bs) @ rest) \<longleftrightarrow> utf8_valid rest"
proof -
  obtain k where n: "n = Suc k" using utf8_chunk_pos [OF assms] by (cases n) auto
  have "length (take k bs) = k" using utf8_chunk_char(1) [OF assms] n by simp
  with utf8_chunk_char(2) [OF assms, of rest] show ?thesis by (simp add: n)
qed

text \<open>A lossy conversion is valid text, and it leaves valid text alone.\<close>

lemma lossy_valid: "utf8_valid (from_utf8_lossy bs)"
proof (induction bs rule: from_utf8_lossy.induct)
  case (2 b bs)
  obtain n ok where c: "utf8_chunk b bs = (n, ok)" by fastforce
  have "utf8_chunk 0xEF (0xBF # 0xBD # rest) = (3, True)" for rest
    by (simp add: utf8_chunk_def Let_def char_width_def second_ok_def continues_def)
  with 2 [OF c [symmetric]] c utf8_valid_append_char [of b bs n] show ?case
    by (cases ok) (auto simp: numeral_eq_Suc)
qed simp

lemma lossy_id: "utf8_valid bs \<Longrightarrow> from_utf8_lossy bs = bs"
proof (induction bs rule: from_utf8_lossy.induct)
  case (2 b bs)
  obtain n ok where "utf8_chunk b bs = (n, ok)" by fastforce
  with 2 show ?case by (auto simp del: drop_Cons' take_Cons' simp: append_take_drop_id)
qed simp

section \<open>Errors\<close>

text \<open>\<open>Display\<close> of an \<open>i32\<close>.\<close>

fun dec_digits :: "nat \<Rightarrow> u8 list" where
  "dec_digits n = (if n < 10 then [0x30 + of_nat n] else dec_digits (n div 10) @ [0x30 + of_nat (n mod 10)])"

declare dec_digits.simps [simp del]

definition i32_display :: "i32 \<Rightarrow> u8 list" where
  "i32_display v = (if sint v < 0 then ascii ''-'' @ dec_digits (nat (- sint v)) else dec_digits (nat (sint v)))"

text \<open>\<open>av_strerror\<close> writes its message into a buffer.\<close>

type_synonym av_strerror = "i32 \<Rightarrow> u8 list \<Rightarrow> u8 list \<times> i32"

abbreviation c_str :: "u8 list \<Rightarrow> u8 list" where
  "c_str buffer \<equiv> takeWhile (\<lambda>i. i \<noteq> 0) buffer"

definition AvError_display :: "av_strerror \<Rightarrow> i32 \<Rightarrow> u8 list" where
  "AvError_display strerror e =
     (case strerror e (replicate 255 0) of
        (buffer, ret) \<Rightarrow>
          if 0 \<le> sint ret then from_utf8_lossy (c_str buffer)
          else ascii ''Unknown avcodec error '' @ i32_display e)"

text \<open>The unit test of the display, and those of the error codes in \<open>error.rs\<close>.\<close>

definition display_test_averror :: "av_strerror \<Rightarrow> unit option" where
  "display_test_averror strerror = do {
     assert (AvError_display strerror AVERROR_EOF = ascii ''End of file'');
     assert (AvError_display strerror 0 = ascii ''Success'');
     assert (AvError_display strerror 10 = ascii ''Unknown avcodec error 10'')
   }"

definition test_averror :: "av_strerror \<Rightarrow> i32 \<Rightarrow> u8 list \<Rightarrow> unit option" where
  "test_averror strerror averror expected_message =
     (case strerror averror (replicate 255 0) of
        (buffer, ret) \<Rightarrow> do {
          assert (ret = 0);
          assert (utf8_valid (c_str buffer));
          assert (c_str buffer = expected_message)
        })"

definition test_error_bindings :: "av_strerror \<Rightarrow> unit option" where
  "test_error_bindings strerror = do {
     test_averror strerror AVERROR_EOF (ascii ''End of file'');
     test_averror strerror AVERROR_INVALIDDATA (ascii ''Invalid data found when processing input'');
     test_averror strerror AVERROR_EAGAIN (ascii ''Resource temporarily unavailable'')
   }"

section \<open>Profiles and pixel formats\<close>

definition profile_display :: "AvProfile \<Rightarrow> string" where
  "profile_display p = profile_name p"

definition profile_debug :: "AvProfile \<Rightarrow> string" where
  "profile_debug p = profile_display p"

definition pix_fmt_display :: "('w, 'av, 'sw, 'b) Libav \<Rightarrow> i32 \<Rightarrow> string" where
  "pix_fmt_display A fmt = pix_fmt_name A fmt"

text \<open>A byte as a \<open>char\<close> is the character with that number, of two bytes from 0x80 on.\<close>

definition u8_as_char :: "u8 \<Rightarrow> u8 list" where
  "u8_as_char b = (if b < 0x80 then [b] else [0xC0 OR drop_bit 6 b, 0x80 OR (b AND 0x3F)])"

definition pix_fmt_debug :: "('w, 'av, 'sw, 'b) Libav \<Rightarrow> i32 \<Rightarrow> u8 list" where
  "pix_fmt_debug A fmt = concat (map u8_as_char (pix_fmt_fourcc A fmt))"

section \<open>What is displayed\<close>

lemma ascii_valid: "list_all (\<lambda>b. b < 0x80) bs \<Longrightarrow> utf8_valid (bs @ rest) = utf8_valid rest"
  by (induction bs) (simp_all add: utf8_chunk_def char_width_def)

lemma dec_digits_ascii: "list_all (\<lambda>b. b < 0x80) (dec_digits n)"
proof (induction n rule: dec_digits.induct)
  case (1 n)
  have digit: "0x30 + of_nat d < (0x80 :: u8)" if "d < 10" for d
    using that by (simp add: word_less_nat_alt unat_word_ariths unat_of_nat)
  show ?case by (subst dec_digits.simps) (use 1 digit [of n] digit [of "n mod 10"] in simp)
qed

lemma all_u8:
  assumes "list_all (\<lambda>n. P (of_nat n :: u8)) [0..<256]"
  shows "P b"
proof -
  have "unat b \<in> set [0..<256]" using unsigned_less [of b] by simp
  with assms have "P (of_nat (unat b))" unfolding list_all_iff by blast
  then show ?thesis by simp
qed

lemma latin1_bytes: "b < 0x80 \<or> 0xC2 \<le> 0xC0 OR drop_bit 6 b \<and> 0xC0 OR drop_bit 6 b \<le> 0xDF \<and> continues (0x80 OR (b AND 0x3F))" for b :: u8
  by (rule all_u8) code_simp

lemma u8_as_char_valid: "utf8_valid (u8_as_char b @ rest) = utf8_valid rest"
proof (cases "b < 0x80")
  case True
  then show ?thesis by (simp add: u8_as_char_def utf8_chunk_def char_width_def)
next
  case False
  let ?f = "0xC0 OR drop_bit 6 b" and ?s = "0x80 OR (b AND 0x3F)"
  have f: "0xC2 \<le> ?f" "?f \<le> 0xDF" "continues ?s" using latin1_bytes [of b] False by auto
  have w: "char_width ?f = 2" using f(1,2) by (auto simp: char_width_def word_le_nat_alt word_less_nat_alt)
  have "second_ok ?f ?s" using f by (auto simp: second_ok_def)
  with w False show ?thesis by (simp add: u8_as_char_def utf8_chunk_def)
qed

text \<open>The debug text of a pixel format is valid, whatever its code is.\<close>

lemma pix_fmt_debug_valid: "utf8_valid (pix_fmt_debug A fmt)"
proof -
  have "utf8_valid (concat (map u8_as_char bs))" for bs by (induction bs) (simp_all add: u8_as_char_valid)
  then show ?thesis by (simp add: pix_fmt_debug_def)
qed

text \<open>
  C21. The text of an error is valid UTF-8, as the type of strings demands, whatever the library writes into
  the buffer; a message of the library that is valid is shown as it is, up to its terminator, and an
  error that the library does not know is shown with its number.
\<close>

theorem averror_text:
  "utf8_valid (AvError_display strerror e) \<and>
   (\<forall>m rest ret. strerror e (replicate 255 0) = (m @ 0 # rest, ret) \<longrightarrow> 0 \<le> sint ret \<longrightarrow> 0 \<notin> set m \<longrightarrow> utf8_valid m \<longrightarrow>
      AvError_display strerror e = m) \<and>
   (sint (snd (strerror e (replicate 255 0))) < 0 \<longrightarrow>
      AvError_display strerror e = ascii ''Unknown avcodec error '' @ i32_display e)"
proof (intro conjI)
  have "utf8_valid (i32_display e)"
    using ascii_valid [of _ "[]"] dec_digits_ascii by (simp add: i32_display_def utf8_chunk_def char_width_def)
  then have "utf8_valid (ascii ''Unknown avcodec error '' @ i32_display e)"
    by (subst ascii_valid) simp_all
  then show "utf8_valid (AvError_display strerror e)"
    by (simp add: AvError_display_def lossy_valid split: prod.split del: list.map)
  show "\<forall>m rest ret. strerror e (replicate 255 0) = (m @ 0 # rest, ret) \<longrightarrow> 0 \<le> sint ret \<longrightarrow> 0 \<notin> set m \<longrightarrow> utf8_valid m \<longrightarrow>
      AvError_display strerror e = m"
  proof (intro allI impI)
    fix m rest ret
    assume s: "strerror e (replicate 255 0) = (m @ 0 # rest, ret)" "0 \<le> sint ret" and m: "0 \<notin> set m" "utf8_valid m"
    have "c_str (m @ 0 # rest) = m" using m(1) by (auto simp: takeWhile_append takeWhile_eq_all_conv)
    with s m(2) lossy_id show "AvError_display strerror e = m" by (simp only: AvError_display_def) simp
  qed
  show "sint (snd (strerror e (replicate 255 0))) < 0 \<longrightarrow>
      AvError_display strerror e = ascii ''Unknown avcodec error '' @ i32_display e"
    by (auto simp: AvError_display_def split: prod.split)
qed

text \<open>The messages of the library that the tests look at, for a concrete instance.\<close>

definition ex_strerror :: av_strerror where
  "ex_strerror e buffer =
     (let fill = (\<lambda>m. (m @ drop (length m) buffer, 0)) in
      if e = AVERROR_EOF then fill (ascii ''End of file'')
      else if e = AVERROR_INVALIDDATA then fill (ascii ''Invalid data found when processing input'')
      else if e = AVERROR_EAGAIN then fill (ascii ''Resource temporarily unavailable'')
      else if e = 0 then fill (ascii ''Success'')
      else (fst (fill (ascii ''Error number'')), - 1))"

theorem averror_text_witness:
  "AvError_display ex_strerror AVERROR_EOF = ascii ''End of file'' \<and> utf8_valid (AvError_display ex_strerror AVERROR_EOF) \<and>
   AvError_display ex_strerror 10 = ascii ''Unknown avcodec error 10''"
proof -
  have eof: "ex_strerror AVERROR_EOF (replicate 255 0) = (ascii ''End of file'' @ 0 # replicate 243 0, 0)"
    by (simp add: ex_strerror_def flip: replicate.simps(2)) 
  have ten: "sint (snd (ex_strerror 10 (replicate 255 0))) < 0" by code_simp
  have shown: "ascii ''Unknown avcodec error '' @ i32_display 10 = ascii ''Unknown avcodec error 10''" by code_simp
  have valid: "utf8_valid (ascii ''End of file'')" by code_simp
  have "AvError_display ex_strerror AVERROR_EOF = ascii ''End of file''"
    by (rule averror_text [of ex_strerror AVERROR_EOF, THEN conjunct2, THEN conjunct1, rule_format, OF eof _ _ valid]) simp_all
  moreover have "AvError_display ex_strerror 10 = ascii ''Unknown avcodec error 10''"
    using averror_text [of ex_strerror 10, THEN conjunct2, THEN conjunct2, rule_format, OF ten] shown by (rule trans)
  ultimately show ?thesis using valid by (simp only:)
qed

text \<open>The tests pass with these messages.\<close>

lemma averror_tests_pass: "display_test_averror ex_strerror = Some ()" "test_error_bindings ex_strerror = Some ()"
  by code_simp+

end
