(* ===== verification/Mmap_Tests.thy ===== *)
theory Mmap_Tests
  imports Mmap
begin

text \<open>
  The unit tests of \<open>device/src/mmap.rs\<close>, run on the model. A test is a computation that is \<open>None\<close> when an
  assertion fails; the theorems say that each of them passes, so the model of the manager agrees with
  the code on every call the repository's own tests make. Both build profiles are covered by the
  parameter \<open>chk\<close> of the operations that can overflow.
\<close>

text \<open>\<open>assert_eq!\<close> on the result of an operation of the manager, which continues with the new manager.\<close>

definition assert_result :: "('s \<times> 'r) option \<Rightarrow> 'r \<Rightarrow> 's option" where
  "assert_result r expected = do { (mm, v) \<leftarrow> r; assert (v = expected); Some mm }"

definition assert_by_offset ::
  "unit MmapMappingManager \<Rightarrow> u32 \<Rightarrow> u32 \<Rightarrow> RegisterBufferError + unit \<Rightarrow> unit MmapMappingManager option"
where
  "assert_by_offset mm off sz = assert_result (Some (register_buffer_by_offset mm off sz))"

definition assert_register ::
  "bool \<Rightarrow> unit MmapMappingManager \<Rightarrow> u32 \<Rightarrow> RegisterBufferError + u32 \<Rightarrow> unit MmapMappingManager option"
where
  "assert_register chk mm sz = assert_result (register_buffer chk mm None sz)"

definition assert_unregister ::
  "unit MmapMappingManager \<Rightarrow> u32 \<Rightarrow> bool \<Rightarrow> unit MmapMappingManager option"
where
  "assert_unregister mm off = assert_result (Some (unregister_buffer mm off))"

definition assert_create ::
  "bool \<Rightarrow> unit MmapMappingManager \<Rightarrow> u32 \<Rightarrow> fd \<Rightarrow> bool \<Rightarrow> CreateMappingError + (u64 \<times> u64) \<Rightarrow>
   unit MmapMappingManager option"
where
  "assert_create chk mm off f want_rw =
     assert_result (create_mapping chk DummyHostMemoryMapper mm off f want_rw)"

definition assert_remove ::
  "unit MmapMappingManager \<Rightarrow> u64 \<Rightarrow> RemoveMappingError + bool \<Rightarrow> unit MmapMappingManager option"
where
  "assert_remove mm addr = assert_result (remove_mapping DummyHostMemoryMapper mm addr)"

definition new_buffer :: "u32 \<times> u32 \<Rightarrow> MmapBuffer" where
  "new_buffer b = MmapBuffer_new (fst b) (snd b)"

section \<open>Registration at given offsets\<close>

text \<open>The first half of the test registers buffers, the second half takes them out again.\<close>

definition register_by_offset_registers ::
  "unit MmapMappingManager \<Rightarrow> unit MmapMappingManager option"
where
  "register_by_offset_registers mm = do {
     assert (buffers mm = []);
     mm \<leftarrow> assert_by_offset mm 0x0 0x1000 (Inr ());
     assert (buffers mm = map new_buffer [(0x0, 0x1000)]);
     mm \<leftarrow> assert_by_offset mm 0x1000 0x5000 (Inr ());
     assert (buffers mm = map new_buffer [(0x0, 0x1000), (0x1000, 0x5000)]);
     mm \<leftarrow> assert_by_offset mm 0xa000 0x1000 (Inr ());
     assert (buffers mm = map new_buffer [(0x0, 0x1000), (0x1000, 0x5000), (0xa000, 0x1000)]);
     mm \<leftarrow> assert_by_offset mm 0x6000 0x2000 (Inr ());
     assert (buffers mm = map new_buffer [(0x0, 0x1000), (0x1000, 0x5000), (0x6000, 0x2000),
        (0xa000, 0x1000)]);
     mm \<leftarrow> assert_by_offset mm 0x8000 0x0 (Inl EmptyBuffer);
     mm \<leftarrow> assert_by_offset mm 0x8100 0x1000 (Inl UnalignedOffset);
     mm \<leftarrow> assert_by_offset mm 0x0 0x1000 (Inl OffsetOccupied);
     mm \<leftarrow> assert_by_offset mm 0x1000 0x1000 (Inl OffsetOccupied);
     mm \<leftarrow> assert_by_offset mm 0x2000 0x1000 (Inr ());
     assert (buffers mm = map new_buffer [(0x0, 0x1000), (0x1000, 0x5000), (0x2000, 0x1000),
        (0x6000, 0x2000), (0xa000, 0x1000)]);
     mm \<leftarrow> assert_by_offset mm 0x7000 0x2000 (Inr ());
     assert (buffers mm = map new_buffer [(0x0, 0x1000), (0x1000, 0x5000), (0x2000, 0x1000),
        (0x6000, 0x2000), (0x7000, 0x2000), (0xa000, 0x1000)]);
     mm \<leftarrow> assert_by_offset mm 0x8000 0x2000 (Inr ());
     assert (buffers mm = map new_buffer [(0x0, 0x1000), (0x1000, 0x5000), (0x2000, 0x1000),
        (0x6000, 0x2000), (0x7000, 0x2000), (0x8000, 0x2000), (0xa000, 0x1000)]);
     mm \<leftarrow> assert_by_offset mm 0xfffff000 0x1000 (Inr ());
     assert (buffers mm = map new_buffer [(0x0, 0x1000), (0x1000, 0x5000), (0x2000, 0x1000),
        (0x6000, 0x2000), (0x7000, 0x2000), (0x8000, 0x2000), (0xa000, 0x1000), (0xfffff000, 0x1000)]);
     Some mm
   }"

definition register_by_offset_unregisters ::
  "unit MmapMappingManager \<Rightarrow> unit MmapMappingManager option"
where
  "register_by_offset_unregisters mm = do {
     mm \<leftarrow> assert_unregister mm 0xfffff000 True;
     assert (buffers mm = map new_buffer [(0x0, 0x1000), (0x1000, 0x5000), (0x2000, 0x1000),
        (0x6000, 0x2000), (0x7000, 0x2000), (0x8000, 0x2000), (0xa000, 0x1000)]);
     mm \<leftarrow> assert_unregister mm 0x6000 True;
     assert (buffers mm = map new_buffer [(0x0, 0x1000), (0x1000, 0x5000), (0x2000, 0x1000),
        (0x7000, 0x2000), (0x8000, 0x2000), (0xa000, 0x1000)]);
     mm \<leftarrow> assert_unregister mm 0x6000 False;
     assert (buffers mm = map new_buffer [(0x0, 0x1000), (0x1000, 0x5000), (0x2000, 0x1000),
        (0x7000, 0x2000), (0x8000, 0x2000), (0xa000, 0x1000)]);
     mm \<leftarrow> assert_unregister mm 0x8100 False;
     assert (buffers mm = map new_buffer [(0x0, 0x1000), (0x1000, 0x5000), (0x2000, 0x1000),
        (0x7000, 0x2000), (0x8000, 0x2000), (0xa000, 0x1000)]);
     mm \<leftarrow> assert_unregister mm 0x0 True;
     assert (buffers mm = map new_buffer [(0x1000, 0x5000), (0x2000, 0x1000), (0x7000, 0x2000),
        (0x8000, 0x2000), (0xa000, 0x1000)]);
     mm \<leftarrow> assert_unregister mm 0xa000 True;
     assert (buffers mm = map new_buffer [(0x1000, 0x5000), (0x2000, 0x1000), (0x7000, 0x2000),
        (0x8000, 0x2000)]);
     mm \<leftarrow> assert_unregister mm 0x1000 True;
     assert (buffers mm = map new_buffer [(0x2000, 0x1000), (0x7000, 0x2000), (0x8000, 0x2000)]);
     mm \<leftarrow> assert_unregister mm 0x8000 True;
     assert (buffers mm = map new_buffer [(0x2000, 0x1000), (0x7000, 0x2000)]);
     assert (buffers mm = map new_buffer [(0x2000, 0x1000), (0x7000, 0x2000)]);
     Some mm
   }"

definition mmap_manager_register_by_offset :: "unit option" where
  "mmap_manager_register_by_offset = do {
     mm \<leftarrow> register_by_offset_registers (MmapMappingManager_from ());
     mm \<leftarrow> register_by_offset_unregisters mm;
     Some ()
   }"

section \<open>Registration at the next offset\<close>

definition mmap_manager_register :: "bool \<Rightarrow> unit option" where
  "mmap_manager_register chk = do {
     mm \<leftarrow> Some (MmapMappingManager_from ());
     mm \<leftarrow> assert_register chk mm 0x1000 (Inr 0x0);
     assert (buffers mm = map new_buffer [(0x0, 0x1000)]);
     mm \<leftarrow> assert_register chk mm 0x5000 (Inr 0x1000);
     assert (buffers mm = map new_buffer [(0x0, 0x1000), (0x1000, 0x5000)]);
     mm \<leftarrow> assert_register chk mm 0xffffa000 (Inr 0x2000);
     assert (buffers mm = map new_buffer [(0x0, 0x1000), (0x1000, 0x5000), (0x2000, 0xffffa000)]);
     mm \<leftarrow> assert_unregister mm 0x2000 True;
     assert (buffers mm = map new_buffer [(0x0, 0x1000), (0x1000, 0x5000)]);
     mm \<leftarrow> assert_register chk mm 0xffffb000 (Inr 0x2000);
     assert (buffers mm = map new_buffer [(0x0, 0x1000), (0x1000, 0x5000), (0x2000, 0xffffb000)])
   }"

section \<open>Mappings\<close>

definition mmap_manager_mapping :: "bool \<Rightarrow> unit option" where
  "mmap_manager_mapping chk = do {
     mm \<leftarrow> Some (MmapMappingManager_from ());
     mm \<leftarrow> assert_register chk mm 0x1000 (Inr 0x0);
     mm \<leftarrow> assert_register chk mm 0x5000 (Inr 0x1000);
     assert (buffers mm = map new_buffer [(0x0, 0x1000), (0x1000, 0x5000)]);
     mm \<leftarrow> assert_create chk mm 0x1000 0 False (Inr (0x80001000, 0x5000));
     mm \<leftarrow> assert_remove mm 0x80001000 (Inr False);
     mm \<leftarrow> assert_remove mm 0x80001000 (Inl RemoveInvalidOffset);
     mm \<leftarrow> assert_create chk mm 0x1000 0 False (Inr (0x80001000, 0x5000));
     mm \<leftarrow> assert_create chk mm 0x1000 0 False (Inr (0x80001000, 0x5000));
     mm \<leftarrow> assert_remove mm 0x80001000 (Inr True);
     mm \<leftarrow> assert_remove mm 0x80001000 (Inr False);
     mm \<leftarrow> assert_remove mm 0x80001000 (Inl RemoveInvalidOffset);
     mm \<leftarrow> assert_create chk mm 0x2000 0 False (Inl CreateInvalidOffset);
     mm \<leftarrow> assert_create chk mm 0x1000 0 False (Inr (0x80001000, 0x5000));
     mm \<leftarrow> assert_create chk mm 0x1000 0 True (Inl NonMatchingPermissions);
     mm \<leftarrow> assert_remove mm 0x80001000 (Inr False);
     mm \<leftarrow> assert_create chk mm 0x1000 0 False (Inr (0x80001000, 0x5000));
     mm \<leftarrow> assert_unregister mm 0x1000 True;
     assert (buffers mm = [MmapBuffer_new 0x0 0x1000,
        \<lparr>mb_offset = 0x1000, mb_size = 0x5000, mb_registered = False,
         mb_mapping = Some \<lparr>num_mappings = 1, guest_addr = 0x80001000, rw = False\<rparr>\<rparr>]);
     mm \<leftarrow> assert_remove mm 0x80001000 (Inr False);
     assert (buffers mm = map new_buffer [(0x0, 0x1000)])
   }"

section \<open>The tests pass\<close>

lemma mmap_manager_register_by_offset_passes: "mmap_manager_register_by_offset = Some ()"
  by code_simp

lemmas test_defs =
  assert_def assert_result_def assert_register_def assert_unregister_def assert_create_def
  assert_remove_def new_buffer_def MmapMappingManager_from_def MmapBuffer_new_def DummyHostMemoryMapper_def
  register_buffer_def next_offset_def register_buffer_by_offset_def unregister_buffer_def
  create_mapping_def remove_mapping_def binary_search_by_key_def add_ov_def sub_ov_def checked_add_def
  next_multiple_of_def PAGE_SIZE_def PAGE_MASK_def vec_insert_def vec_remove_def bsearch.simps Let_def

lemma mmap_manager_register_passes: "mmap_manager_register chk = Some ()"
  by (simp add: mmap_manager_register_def test_defs)

lemma mmap_manager_mapping_passes: "mmap_manager_mapping chk = Some ()"
  by (simp add: mmap_manager_mapping_def test_defs)

end
