(* ===== verification/Event_Queue_Tests.thy ===== *)
theory Event_Queue_Tests
  imports Event_Queue Decoder_Session
begin

text \<open>
  The unit tests of the event queue, \<open>extras/ffmpeg-decoder/src/event_queue.rs\<close>, as computations that stop
  with \<open>None\<close> where an assertion fails, an error is unwrapped or a call does not return. They pass on every
  system that behaves as documented, not only on the one they are run on.
\<close>

definition EventQueue_len :: "'a EventQueue \<Rightarrow> nat" where
  "EventQueue_len q = length (eq_pending q)"

definition EventQueue_as_fd :: "'a EventQueue \<Rightarrow> fd" where
  "EventQueue_as_fd q = eq_event q"

section \<open>Queueing and dequeueing\<close>

text \<open>The calls of the tests, with what is asserted of their results.\<close>

definition queue_unwrap :: "('w, 'x) EventFd_scheme \<Rightarrow> 'a \<Rightarrow> 'a EventQueue \<Rightarrow> 'w \<Rightarrow> ('w \<times> 'a EventQueue) option" where
  "queue_unwrap E event q w = do {
     (w, q, r) \<leftarrow> queue_event E event q w;
     result_unwrap r;
     Some (w, q)
   }"

definition assert_dequeue ::
  "('w, 'x) EventFd_scheme \<Rightarrow> 'a option \<Rightarrow> 'a EventQueue \<Rightarrow> 'w \<Rightarrow> ('w \<times> 'a EventQueue) option"
where
  "assert_dequeue E event q w = do {
     (w, q, y) \<leftarrow> dequeue_event E q w;
     assert (y = event);
     Some (w, q)
   }"

definition event_queue :: "('w, 'x) EventFd_scheme \<Rightarrow> 'w \<Rightarrow> unit option" where
  "event_queue E w =
     (let done = InputBufferDone 1 0;
          frame = FrameCompleted 1 \<lparr>tv_sec = 10, tv_usec = 42\<rparr> [1024] False;
          (w, r) = EventQueue_new E w
      in do {
        q \<leftarrow> result_unwrap r;
        (w, q) \<leftarrow> queue_unwrap E done q w;
        assert (EventQueue_len q = 1);
        (w, q) \<leftarrow> queue_unwrap E frame q w;
        assert (EventQueue_len q = 2);
        (w, q) \<leftarrow> assert_dequeue E (Some done) q w;
        assert (EventQueue_len q = 1);
        (w, q) \<leftarrow> assert_dequeue E (Some frame) q w;
        assert (EventQueue_len q = 0)
      })"

section \<open>Polling\<close>

text \<open>
  The \<open>epoll\<close> interface as a parameter: descriptors are added to wait for input, and waiting without a
  timeout returns how many are ready, at most as many as there is room for.
\<close>

record 'w Epoll =
  ep_new :: "'w \<Rightarrow> 'w \<times> (i32 + fd)"
  ep_add :: "fd \<Rightarrow> fd \<Rightarrow> u64 \<Rightarrow> 'w \<Rightarrow> 'w \<times> (i32 + unit)"
  ep_wait :: "fd \<Rightarrow> nat \<Rightarrow> 'w \<Rightarrow> 'w \<times> (i32 + nat)"

definition assert_wait :: "'w Epoll \<Rightarrow> fd \<Rightarrow> nat \<Rightarrow> 'w \<Rightarrow> 'w option" where
  "assert_wait X e n w =
     (let (w, r) = ep_wait X e 1 w in do {
        nb_fds \<leftarrow> result_unwrap r;
        assert (nb_fds = n);
        Some w
      })"

definition decoder_event_queue_polling :: "('w, 'x) EventFd_scheme \<Rightarrow> 'w Epoll \<Rightarrow> 'w \<Rightarrow> unit option" where
  "decoder_event_queue_polling E X w =
     (let (w, r) = EventQueue_new E w in do {
        q \<leftarrow> result_unwrap r;
        (let (w, r) = ep_new X w in do {
           e \<leftarrow> result_unwrap r;
           (let (w, r) = ep_add X e (EventQueue_as_fd q) 1 w in do {
              result_unwrap r;
              w \<leftarrow> assert_wait X e 0 w;
              (w, q) \<leftarrow> assert_dequeue E None q w;
              (w, q) \<leftarrow> queue_unwrap E (InputBufferDone 1 0) q w;
              w \<leftarrow> assert_wait X e 1 w;
              (w, q) \<leftarrow> queue_unwrap E (InputBufferDone 2 0) q w;
              w \<leftarrow> assert_wait X e 1 w;
              (w, q) \<leftarrow> queue_unwrap E (InputBufferDone 3 0) q w;
              w \<leftarrow> assert_wait X e 1 w;
              (w, q) \<leftarrow> assert_dequeue E (Some (InputBufferDone 1 0)) q w;
              w \<leftarrow> assert_wait X e 1 w;
              (w, q) \<leftarrow> assert_dequeue E (Some (InputBufferDone 2 0)) q w;
              w \<leftarrow> assert_wait X e 1 w;
              (w, q) \<leftarrow> assert_dequeue E (Some (InputBufferDone 3 0)) q w;
              w \<leftarrow> assert_wait X e 0 w;
              (w, q) \<leftarrow> assert_dequeue E None q w;
              Some ()
            })
         })
      })"

text \<open>
  What \<open>epoll\<close> documents, where \<open>watched\<close> are the descriptors added to one: it leaves counters alone, a new
  one watches nothing, and an \<open>eventfd\<close> is ready while its counter is not zero. Reading and writing an
  \<open>eventfd\<close> does not change what is watched.
\<close>

definition epoll_laws ::
  "('w, 'x) EventFd_scheme \<Rightarrow> 'w Epoll \<Rightarrow> (fd \<Rightarrow> 'w \<Rightarrow> nat) \<Rightarrow> (fd \<Rightarrow> 'w \<Rightarrow> fd set) \<Rightarrow> bool"
where
  "epoll_laws E X cnt watched \<longleftrightarrow>
     (\<forall>w w' e. ep_new X w = (w', Inr e) \<longrightarrow> watched e w' = {} \<and> (\<forall>f. cnt f w' = cnt f w)) \<and>
     (\<forall>e f k w w'. ep_add X e f k w = (w', Inr ()) \<longrightarrow>
        watched e w' = insert f (watched e w) \<and> (\<forall>f. cnt f w' = cnt f w)) \<and>
     (\<forall>e n w w' r. ep_wait X e n w = (w', r) \<longrightarrow>
        r = Inr (min n (card {f \<in> watched e w. 0 < cnt f w})) \<and>
        watched e w' = watched e w \<and> (\<forall>f. cnt f w' = cnt f w)) \<and>
     (\<forall>e f n w w' r. ef_write E f n w = Some (w', r) \<longrightarrow> watched e w' = watched e w) \<and>
     (\<forall>e f w w' r. ef_read E f w = Some (w', r) \<longrightarrow> watched e w' = watched e w)"

lemma epoll_lawsD:
  assumes "epoll_laws E X cnt watched"
  shows "ep_new X w = (w', Inr e) \<Longrightarrow> watched e w' = {} \<and> cnt f w' = cnt f w"
    and "ep_add X e g k w = (w', Inr ()) \<Longrightarrow> watched e w' = insert g (watched e w) \<and> cnt f w' = cnt f w"
    and "ep_wait X e n w = (w', r) \<Longrightarrow>
      r = Inr (min n (card {f \<in> watched e w. 0 < cnt f w})) \<and> watched e w' = watched e w \<and> cnt f w' = cnt f w"
    and "ef_write E g m w = Some (w', r2) \<Longrightarrow> watched e w' = watched e w"
    and "ef_read E g w = Some (w', r3) \<Longrightarrow> watched e w' = watched e w"
  by (use assms in \<open>simp only: epoll_laws_def; metis\<close>)+

section \<open>The tests pass\<close>

text \<open>
  The state between two calls: the counter shows whether events are pending, and \<open>V\<close>, which reading and
  writing an \<open>eventfd\<close> does not change, holds.
\<close>

definition eventfd_keeps :: "('w, 'x) EventFd_scheme \<Rightarrow> ('w \<Rightarrow> bool) \<Rightarrow> bool" where
  "eventfd_keeps E V \<longleftrightarrow>
     (\<forall>f n w w' r. ef_write E f n w = Some (w', r) \<longrightarrow> V w \<longrightarrow> V w') \<and>
     (\<forall>f w w' r. ef_read E f w = Some (w', r) \<longrightarrow> V w \<longrightarrow> V w')"

lemma eventfd_keepsD:
  assumes "eventfd_keeps E V"
  shows "ef_write E f n w = Some (w', r) \<Longrightarrow> V w \<Longrightarrow> V w'" and "ef_read E f w = Some (w', r2) \<Longrightarrow> V w \<Longrightarrow> V w'"
  using assms unfolding eventfd_keeps_def by blast+

definition signalled :: "(fd \<Rightarrow> 'w \<Rightarrow> nat) \<Rightarrow> ('w \<Rightarrow> bool) \<Rightarrow> fd \<Rightarrow> 'a list \<Rightarrow> 'w \<Rightarrow> bool" where
  "signalled cnt V f l w \<longleftrightarrow> queue_ok cnt \<lparr>eq_event = f, eq_pending = l\<rparr> w \<and> V w"

lemma queue_unwrap_step:
  assumes "eventfd_laws E cnt" and "eventfd_keeps E V" and "signalled cnt V f l w"
    and "\<And>w'. signalled cnt V f (l @ [ev]) w' \<Longrightarrow> k (w', \<lparr>eq_event = f, eq_pending = l @ [ev]\<rparr>) = Some ()"
  shows "Option.bind (queue_unwrap E ev \<lparr>eq_event = f, eq_pending = l\<rparr> w) k = Some ()"
proof -
  from assms(3) have "queue_ok cnt \<lparr>eq_event = f, eq_pending = l\<rparr> w" "V w" by (simp_all add: signalled_def)
  from queue_event_ok [OF assms(1) this(1), of ev] obtain w' where
    w': "queue_event E ev \<lparr>eq_event = f, eq_pending = l\<rparr> w = Some (w', \<lparr>eq_event = f, eq_pending = l @ [ev]\<rparr>, Inr ())"
      "queue_ok cnt \<lparr>eq_event = f, eq_pending = l @ [ev]\<rparr> w'" by auto
  with \<open>V w\<close> have "V w'"
    by (auto simp: queue_event_def Let_def split: if_split_asm intro: eventfd_keepsD [OF assms(2)])
  with w' assms(4) show ?thesis by (simp add: queue_unwrap_def signalled_def)
qed

lemma assert_dequeue_step:
  assumes "eventfd_laws E cnt" and "eventfd_keeps E V" and "signalled cnt V f l w"
    and "y = (case l of [] \<Rightarrow> None | x # _ \<Rightarrow> Some x)"
    and "\<And>w'. signalled cnt V f (tl l) w' \<Longrightarrow> k (w', \<lparr>eq_event = f, eq_pending = tl l\<rparr>) = Some ()"
  shows "Option.bind (assert_dequeue E y \<lparr>eq_event = f, eq_pending = l\<rparr> w) k = Some ()"
proof -
  from assms(3) have "queue_ok cnt \<lparr>eq_event = f, eq_pending = l\<rparr> w" "V w" by (simp_all add: signalled_def)
  from dequeue_event_ok [OF assms(1) this(1)] obtain w' where
    w': "dequeue_event E \<lparr>eq_event = f, eq_pending = l\<rparr> w = Some (w', \<lparr>eq_event = f, eq_pending = tl l\<rparr>, y)"
      "queue_ok cnt \<lparr>eq_event = f, eq_pending = tl l\<rparr> w'" by (cases l) (auto simp: assms(4))
  with \<open>V w\<close> have "V w'"
    by (auto simp: dequeue_event_def Let_def split: list.split_asm if_split_asm intro: eventfd_keepsD [OF assms(2)])
  with w' assms(5) show ?thesis by (simp add: assert_dequeue_def signalled_def)
qed

lemma assert_wait_step:
  assumes "epoll_laws E X cnt watched" and "signalled cnt (\<lambda>w. watched e w = {f}) f l w" and "n = (if l = [] then 0 else 1)"
    and "\<And>w'. signalled cnt (\<lambda>w. watched e w = {f}) f l w' \<Longrightarrow> k w' = Some ()"
  shows "Option.bind (assert_wait X e n w) k = Some ()"
proof -
  obtain w' r where w: "ep_wait X e 1 w = (w', r)" by fastforce
  from epoll_lawsD(3) [OF assms(1) w, of f]
  have "r = Inr (min 1 (card {f \<in> watched e w. 0 < cnt f w}))" "watched e w' = watched e w" "cnt f w' = cnt f w" by simp_all
  moreover have "{g \<in> {f}. 0 < cnt g w} = (if l = [] then {} else {f})"
    using assms(2) by (auto simp: signalled_def queue_ok_def split: if_split_asm)
  ultimately show ?thesis using w assms(2-4) by (auto simp: assert_wait_def signalled_def queue_ok_def)
qed

lemma event_queue_passes:
  assumes "eventfd_laws E cnt" and "ef_new E w = (w', Inr f)"
  shows "event_queue E w = Some ()"
proof -
  have V: "eventfd_keeps E (\<lambda>_. True)" by (simp add: eventfd_keeps_def)
  have "signalled cnt (\<lambda>_. True) f [] w'" using assms by (simp add: signalled_def queue_ok_def eventfd_laws_def)
  note start = this
  note steps = queue_unwrap_step [OF assms(1) V] assert_dequeue_step [OF assms(1) V]
  from start show ?thesis
    by (simp add: event_queue_def EventQueue_new_def assms(2) Let_def) (erule steps, simp_all add: EventQueue_len_def)+
qed

lemma decoder_event_queue_polling_passes:
  assumes "eventfd_laws E cnt" and "epoll_laws E X cnt watched"
    and "ef_new E w = (w1, Inr f)" and "ep_new X w1 = (w2, Inr e)" and "ep_add X e f 1 w2 = (w3, Inr ())"
  shows "decoder_event_queue_polling E X w = Some ()"
proof -
  have V: "eventfd_keeps E (\<lambda>w. watched e w = {f})" by (simp add: eventfd_keeps_def epoll_lawsD(4,5) [OF assms(2)])
  have "cnt f w1 = 0" using assms(1,3) unfolding eventfd_laws_def by blast
  then have start: "signalled cnt (\<lambda>w. watched e w = {f}) f [] w3"
    using epoll_lawsD(1) [OF assms(2,4), of f] epoll_lawsD(2) [OF assms(2,5), of f] by (simp add: signalled_def queue_ok_def)
  note steps = queue_unwrap_step [OF assms(1) V] assert_dequeue_step [OF assms(1) V] assert_wait_step [OF assms(2)]
  from start show ?thesis
    by (simp add: decoder_event_queue_polling_def EventQueue_new_def EventQueue_as_fd_def assms(3-5) Let_def) (erule steps, simp_all)+
qed

end
