(* ===== verification/Spec2Isabelle.thy ===== *)
theory Spec2Isabelle
  imports Simple_Device Decoder_Properties Proxy_Properties Ffmpeg_Properties Ffmpeg_Device Ffmpeg_Lifetime Ffmpeg_Text Mmap_Tests Event_Queue_Tests
begin

text \<open>
  A verification development of the \<open>virtio-media\<close> device crate (\<open>device/src\<close>) and of its FFmpeg decoding
  backend (\<open>extras/ffmpeg-decoder/src\<close>).

  \<^bold>\<open>The program.\<close> virtio-media lets a guest use V4L2 devices of its host. The guest driver sends commands
  (open or close a session, perform a V4L2 ioctl, map or unmap a buffer) as descriptor chains; the
  device answers in the writable part of the chain and sends events (a dequeued buffer, a V4L2 event,
  an error) on a second queue. The crate has four layers, the backend is a fifth, and the theories
  follow them.

  \<^item> \<open>io.rs\<close>, \<open>io/le.rs\<close> and \<open>protocol.rs\<close>: objects as bytes. Theory \<open>Wire\<close> models reading and
    writing (a reader is the list of bytes left, a writer the bytes written and the room left, and a
    type of the protocol is a record of its size and its conversions), and \<open>Protocol\<close> the commands,
    responses, events and ioctl codes with the layout of each structure.
  \<^item> \<open>lib.rs\<close> and \<open>poll.rs\<close>: theory \<open>Runner\<close> models the trait of devices as a record of functions
    and \<open>VirtioMediaDeviceRunner::handle_command\<close> with its session table.
  \<^item> \<open>ioctl.rs\<close>: \<open>Chain\<close> models the payloads of buffers and extended controls with their
    scatter-gather lists, \<open>Ioctl_Handler\<close> the trait of ioctl handlers with its default methods, and
    \<open>Ioctl\<close> every branch of \<open>virtio_media_dispatch_ioctl\<close>.
  \<^item> the devices and what they share: \<open>Mmap\<close> models \<open>mmap.rs\<close>, the manager of mappable buffers;
    \<open>Memfd\<close> the creation and mapping of memory files of \<open>memfd.rs\<close>; \<open>Simple_Device\<close> the capture device of
    \<open>devices/simple_device.rs\<close>; \<open>Decoder_Session\<close> and \<open>Video_Decoder\<close> the decoder of
    \<open>devices/video_decoder.rs\<close>; \<open>Proxy_Session\<close>, \<open>Proxy_Device\<close> and \<open>Proxy_Ioctls\<close> the proxy of
    host devices of \<open>devices/v4l2_device_proxy.rs\<close>: its sessions with the translation of
    addresses, its state with the operations that change it, and the ioctls it passes on.
  \<^item> the FFmpeg backend of the decoder: \<open>Event_Queue\<close> models \<open>event_queue.rs\<close>, the queue of events with its
    \<open>eventfd\<close>; \<open>Ffmpeg_Av\<close> the wrappers of \<open>ffmpeg/\<close> around the libraries, with the construction of
    frames over client memory, and \<open>Ffmpeg_Encoder\<close> those wrappers that the backend does not
    call; \<open>Ffmpeg_Session\<close> the buffers, formats, decoding loop, session and
    backend of \<open>lib.rs\<close>; \<open>Ffmpeg_Steps\<close> its recursive functions and the runs of a session as
    inductive relations; \<open>Ffmpeg_Backend\<close> the backend as an instance of the traits of the decoder;
    \<open>Ffmpeg_Lifetime\<close> what the wrappers give back when they are dropped, and \<open>Ffmpeg_Text\<close> how they are
    printed.
  \<^item> the unit tests of the repository: \<open>Mmap_Tests\<close> and \<open>Event_Queue_Tests\<close>, and the tests of the bindings in
    \<open>Ffmpeg_Text\<close> and \<open>Ffmpeg_Lifetime\<close>, are run on the definitions.

  \<^bold>\<open>How code becomes definitions.\<close> A struct is a record with prefixed fields, an enum a datatype, \<open>u32\<close>
  and \<open>u64\<close> are words, and a \<open>Vec\<close> is a list. A function that panics for some arguments returns an
  option, with \<open>None\<close> for the panic; \<open>Result\<close> is a sum, the error on the left. Methods with
  \<open>&mut self\<close> return the new state. Arithmetic the build may check for overflow takes a flag \<open>chk\<close>:
  with it the operation panics, without it the word wraps around (\<open>add_ov\<close>, \<open>sub_ov\<close> of \<open>Prelude\<close>).
  Loops are structural recursions; the one loop that reads an unknown number of entries from a chain
  (\<open>userptr_loop\<close>) terminates because every turn consumes bytes. The loops of the proxy that dequeue
  from the host until it has nothing left are partial functions, \<open>None\<close> when they do not end, and
  are proved to end when the host has finitely much to report; so are the decoding loop of the FFmpeg
  backend and its function that receives a frame, which end when the decoder holds finitely many
  frames. There is no fuel anywhere.

  \<^bold>\<open>What is a parameter.\<close> The structures, constants and conversions of the \<open>v4l2r\<close> crate are the record
  \<open>v4l2r\<close> of theory \<open>V4l2r\<close>, over an abstract type of buffers; the system calls are \<open>Os\<close>, the memory
  mapper of the hypervisor is \<open>VirtioMediaHostMemoryMapper\<close>, the mapper of guest memory is
  \<open>VirtioMediaGuestMemoryMapper\<close>, the ioctls and the poller of a host device are \<open>V4l2Host\<close> and
  \<open>V4l2HostIoctls\<close>, and the decoding backend of the decoder is \<open>VideoDecoderBackend\<close>, whose methods may panic
  or not return. For the FFmpeg backend \<open>libavcodec\<close> and \<open>libswscale\<close> are \<open>Libav\<close> and \<open>LibavFree\<close>, and
  \<open>eventfd\<close> and the other system calls \<open>FfOs\<close>; the tests use \<open>Epoll\<close>. What the devices rely on in the crate is stated as \<open>vb_laws\<close> and \<open>vb_stamp_laws\<close> (\<open>Vb_Laws\<close>),
  \<open>dec_laws\<close>, \<open>vb_value_laws\<close>, \<open>userptr_laws\<close> and \<open>ext_ctrl_laws\<close>, and in the poller and the
  host as \<open>poller_laws\<close>, \<open>poll_reports\<close> and \<open>host_finite\<close>, where a request to the poller may fail; what the FFmpeg backend relies on is stated
  as \<open>eventfd_laws\<close>, \<open>quiet\<close>, \<open>libav_laws\<close> and \<open>refs_laws\<close>. \<open>V4l2r_Example\<close>, \<open>Decoder_Example\<close>, \<open>Proxy_Example\<close>
  and \<open>Ffmpeg_Example\<close> give concrete instances for which these hypotheses hold, on which the properties are evaluated.

  \<^bold>\<open>Interfaces.\<close> Eight locales state the contracts between the layers, with the lemmas of their clients:
  \<open>wire_type\<close> (what is written is read back), \<open>ioctl_handler\<close> (an invariant that all the methods of
  a handler keep is kept by the dispatcher), \<open>media_device\<close> (an invariant of the device and its open
  sessions that all its methods keep holds for every runner that can be reached),
  \<open>buffer_registry\<close> (unregistering a list of buffers), \<open>event_fifo\<close> (events leave a queue in the
  order in which they entered it), and between the decoder and its backend \<open>ordered_backend\<close> (in which
  order a backend gives buffers back) and \<open>returning_backend\<close> (its methods return in the states they keep).
  They are interpreted on the protocol's types, on the default, capture, decoder and proxy handlers, on the
  capture device, the decoder and the proxy, on the MMAP manager, on the event queue, and on the FFmpeg
  backend, the last one for every host of the backend, \<open>ffmpeg_host\<close>.

  \<^bold>\<open>What is proved.\<close>

  \<^item> \<open>Mmap\<close>: the sorted vector of buffers refines a map from offsets to buffers, operation by
    operation; its invariant holds in all reachable states, where mapping and unmapping return;
    mappings are counted; a buffer unregistered while mapped goes away with its last mapping;
    allocation of offsets, also when the range is full.
  \<^item> \<open>Protocol\<close>, \<open>Chain\<close>, \<open>Ioctl\<close>: the byte layout of commands and responses, the
    scatter-gather lists cover the user buffer; every ioctl on every input is answered, short inputs
    with \<open>EINVAL\<close>, and the dispatcher panics in one case only.
  \<^item> \<open>Runner\<close>: every command is answered, sessions get fresh identifiers, a command touches only the
    session it names, and what happens when the counter of sessions overflows.
  \<^item> \<open>Simple_Device\<close>: in all reachable states one session at most has buffers and the V4L2 view of
    the buffers agrees with their state; frames are delivered in order, each
    with its number and time stamp; allocation, mapping, queueing
    and release of buffers; no panic without overflow checks.
  \<^item> \<open>Decoder_Invariant\<close>, \<open>Decoder_Properties\<close>: in all reachable states each offset belongs to one
    plane of one session and is registered, so sessions cannot map each other's buffers; the streaming
    states are two independent switches; the order in which buffers are offered to any backend; the events of
    a frame; the crop rectangle; a request that makes it panic.
  \<^item> \<open>Decoder_Order\<close>, \<open>Decoder_Returns\<close>: the runs of a session of the decoder as an inductive relation with the
    history of calls and events, in which every session of a reachable runner is; for every backend that
    keeps its contract, CAPTURE buffers come back in the order in which they were queued, OUTPUT buffers
    are not lost, and the calls return.
  \<^item> \<open>Ffmpeg_Backend\<close>, \<open>Ffmpeg_Device\<close>: the FFmpeg backend keeps both contracts, so the decoder with it returns
    buffers in order, loses no OUTPUT buffer, and neither panics nor waits.
  \<^item> \<open>Proxy_Invariant\<close>, \<open>Proxy_Properties\<close>: in all reachable states the table of planes agrees with
    the MMAP manager and its planes belong to open sessions; the events of the host are handled
    without a panic and in finite time and reach the guest in order; a mapping is made only of a plane
    that the host exports to the session that asks; the host is given the addresses of the mappings and the guest gets its own back;
    how the end of a stream stops the CAPTURE queue; when the proxy panics.
  \<^item> \<open>Ffmpeg_Fifo\<close>, \<open>Ffmpeg_Progress\<close>, \<open>Ffmpeg_Frames\<close>, \<open>Ffmpeg_Properties\<close>: in all reachable states of a
    session of the FFmpeg backend every call returns, how far the decoding loop has come when it
    ends, and the polled descriptor is readable exactly
    while events are pending; input buffers are neither lost nor given back twice while no call
    fails, and frames are delivered in the order of their buffers; the planes of a frame over client
    memory are in bounds and disjoint; time stamps and formats round-trip; frames of a size other
    than the coded size are lost.
  \<^item> \<open>Ffmpeg_Lifetime\<close>, \<open>Ffmpeg_Text\<close>: dropping a packet gives its buffer back, as its unit test checks; the text of an
    error is valid UTF-8.
  \<^item> \<open>Mmap_Tests\<close>, \<open>Event_Queue_Tests\<close>: the unit tests pass, those of the event queue on every system that
    behaves as documented.

  \<^bold>\<open>Not modelled.\<close> The guest driver, which is C code of another system. The bytes of mapped memory: a
  mapping is an address and a length, and a plane a buffer and an offset. The moments at which the decoding
  backend drops packets, frames and contexts are not steps of its model; what a drop gives back is modelled
  on its own. The order of the events of libraries that use threads of their own is theirs. Log messages
  are not part of the model.
\<close>

end
